(* ===== verification/Go_Prelude.thy ===== *)
theory Go_Prelude
  imports Complex_Main "HOL-Library.Word"
begin

text \<open>
  Shared ground of the development: what the Go sources use of the language and of its
  standard library (machine integers, \<open>float64\<close> comparisons, \<open>time.Time\<close> with its
  wall and monotonic readings, byte strings, \<open>strings.TrimSpace\<close> and
  \<open>strings.Split\<close>), the theorem collections the component theories extend, and the
  generic lemmas about lists and results that they share.
\<close>

section \<open>Theorem collections\<close>

named_theorems go_simps \<open>rewrite rules for the Go library operations\<close>
named_theorems arb_defs \<open>definitions of the Safety Arbiter\<close>
named_theorems wire_defs \<open>definitions of the envelope layer\<close>

section \<open>Machine integers\<close>

text \<open>
  \<open>uint32\<close>, \<open>uint64\<close> and bytes are words. \<open>int64\<close> values are integers;
  the conversion \<open>int64(x)\<close> of a \<open>uint64\<close> is \<^const>\<open>sint\<close> and the conversion
  \<open>uint64(x)\<close> of an \<open>int64\<close> is \<^const>\<open>word_of_int\<close>, both two's complement.
\<close>

type_synonym u8 = "8 word"
type_synonym u32 = "32 word"
type_synonym u64 = "64 word"
type_synonym bytes = "u8 list"

definition int64_min :: int where "int64_min = - (2 ^ 63)"
definition int64_max :: int where "int64_max = 2 ^ 63 - 1"

text \<open>Saturation to the \<open>int64\<close> range, as \<open>time.Time.Sub\<close> does.\<close>

definition sat64 :: "int \<Rightarrow> int" where
  "sat64 x = (if x < int64_min then int64_min else if int64_max < x then int64_max else x)"

lemma sat64_bounds: "int64_min \<le> sat64 x \<and> sat64 x \<le> int64_max"
  by (simp add: sat64_def int64_min_def int64_max_def)

lemma sat64_mono: "x \<le> y \<Longrightarrow> sat64 x \<le> sat64 y"
  by (simp add: sat64_def int64_min_def int64_max_def)

lemma sat64_id: "int64_min \<le> x \<Longrightarrow> x \<le> int64_max \<Longrightarrow> sat64 x = x"
  by (simp add: sat64_def)

lemma sat64_gt_iff: "int64_min \<le> d \<Longrightarrow> d < int64_max \<Longrightarrow> (d < sat64 x) = (d < x)"
  by (auto simp: sat64_def)

lemma sat64_lt_iff: "int64_min < d \<Longrightarrow> d \<le> int64_max \<Longrightarrow> (sat64 x < d) = (x < d)"
  by (auto simp: sat64_def)

lemma sint_u64_le: "sint (w :: u64) \<le> int64_max" and sint_u64_ge: "int64_min \<le> sint (w :: u64)"
  using sint_lt [of w] sint_ge [of w] by (simp_all add: int64_max_def int64_min_def)

text \<open>The signed reading of a 64-bit word is negative in the upper half of the range.\<close>

lemma odd_lt2: "0 \<le> q \<Longrightarrow> q < 2 \<Longrightarrow> odd q \<longleftrightarrow> 1 \<le> q" for q :: int
  by presburger

lemma sint_u64_neg: "sint (x :: u64) < 0 \<longleftrightarrow> 2 ^ 63 \<le> uint x"
proof -
  have neg: "sint x < 0 \<longleftrightarrow> odd (uint x div 2 ^ 63)"
    by (simp add: sint_uint signed_take_bit_negative_iff bit_iff_odd)
  have "uint x < 2 ^ 64" using uint_lt2p [of x] by simp
  then have "odd (uint x div 2 ^ 63) \<longleftrightarrow> 1 \<le> uint x div 2 ^ 63"
    by (intro odd_lt2) (simp_all add: pos_imp_zdiv_nonneg_iff)
  also have "\<dots> \<longleftrightarrow> 2 ^ 63 \<le> uint x"
    using pos_imp_zdiv_pos_iff [of "2 ^ 63 :: int" "uint x"] by (simp add: int_one_le_iff_zero_less)
  finally show ?thesis using neg by blast
qed

section \<open>Durations and instants\<close>

text \<open>A \<open>time.Duration\<close> is its number of nanoseconds.\<close>

definition millisecond :: int where "millisecond = 1000000"
definition second :: int where "second = 1000000000"
definition minute :: int where "minute = 60000000000"
definition hour :: int where "hour = 3600000000000"

text \<open>
  A \<open>time.Time\<close> carries a wall clock reading (nanoseconds since the Unix epoch) and, when it
  comes from \<open>time.Now\<close>, a monotonic reading. \<open>Sub\<close>, \<open>After\<close> and \<open>Before\<close> use the
  monotonic readings when both instants have one and the wall readings otherwise;
  \<open>time.Unix\<close> and \<open>UTC\<close> give an instant without monotonic reading.
\<close>

record gotime =
  wall :: int
  mono :: "int option"

definition time_unix :: "int \<Rightarrow> gotime" where
  "time_unix ns = \<lparr>wall = ns, mono = None\<rparr>"

definition time_utc :: "gotime \<Rightarrow> gotime" where
  "time_utc t = t\<lparr>mono := None\<rparr>"

definition time_add :: "gotime \<Rightarrow> int \<Rightarrow> gotime" where
  "time_add t d = \<lparr>wall = wall t + d, mono = map_option (\<lambda>m. m + d) (mono t)\<rparr>"

definition time_diff :: "gotime \<Rightarrow> gotime \<Rightarrow> int" where
  "time_diff t u = (case (mono t, mono u) of
     (Some a, Some b) \<Rightarrow> a - b | _ \<Rightarrow> wall t - wall u)"

definition time_sub :: "gotime \<Rightarrow> gotime \<Rightarrow> int" where
  "time_sub t u = sat64 (time_diff t u)"

definition time_after :: "gotime \<Rightarrow> gotime \<Rightarrow> bool" where
  "time_after t u = (time_diff t u > 0)"

definition time_before :: "gotime \<Rightarrow> gotime \<Rightarrow> bool" where
  "time_before t u = (time_diff t u < 0)"

text \<open>The zero \<open>time.Time\<close> is January 1 of year 1, UTC.\<close>

definition zero_wall :: int where "zero_wall = -62135596800 * second"

definition time_zero :: gotime where "time_zero = time_unix zero_wall"

definition time_is_zero :: "gotime \<Rightarrow> bool" where
  "time_is_zero t = (wall t = zero_wall)"

lemma time_unix_sel [simp]: "wall (time_unix n) = n" "mono (time_unix n) = None"
  by (simp_all add: time_unix_def)

lemma time_utc_sel [simp]: "wall (time_utc t) = wall t" "mono (time_utc t) = None"
  by (simp_all add: time_utc_def)

lemma time_add_sel [simp]:
  "wall (time_add t d) = wall t + d" "mono (time_add t d) = map_option (\<lambda>m. m + d) (mono t)"
  by (simp_all add: time_add_def)

lemma time_diff_wall [simp]:
  "mono t = None \<Longrightarrow> time_diff t u = wall t - wall u"
  "mono u = None \<Longrightarrow> time_diff t u = wall t - wall u"
  by (auto simp: time_diff_def split: option.splits)

lemma time_diff_mono [simp]:
  "mono t = Some a \<Longrightarrow> mono u = Some b \<Longrightarrow> time_diff t u = a - b"
  by (simp add: time_diff_def)

lemma time_diff_self [simp]: "time_diff t t = 0"
  by (simp add: time_diff_def split: option.splits)

lemma time_before_after: "time_before t u = time_after u t"
  by (auto simp: time_before_def time_after_def time_diff_def split: option.splits)

section \<open>float64\<close>

text \<open>
  A \<open>float64\<close> is a NaN, an infinity or a finite value, which is a rational number. The two
  zeros compare equal in every operation modelled here and are one value.
\<close>

datatype float64 = NaN | PosInf | NegInf | Fin rat

fun f64_lt :: "float64 \<Rightarrow> float64 \<Rightarrow> bool" where
  "f64_lt NaN _ = False"
| "f64_lt _ NaN = False"
| "f64_lt PosInf _ = False"
| "f64_lt _ NegInf = False"
| "f64_lt NegInf _ = True"
| "f64_lt (Fin _) PosInf = True"
| "f64_lt (Fin a) (Fin b) = (a < b)"

fun f64_le :: "float64 \<Rightarrow> float64 \<Rightarrow> bool" where
  "f64_le NaN _ = False"
| "f64_le _ NaN = False"
| "f64_le NegInf _ = True"
| "f64_le _ PosInf = True"
| "f64_le PosInf _ = False"
| "f64_le (Fin _) NegInf = False"
| "f64_le (Fin a) (Fin b) = (a \<le> b)"

fun f64_abs :: "float64 \<Rightarrow> float64" where
  "f64_abs NaN = NaN"
| "f64_abs (Fin a) = Fin \<bar>a\<bar>"
| "f64_abs _ = PosInf"

lemma f64_lt_imp_le: "f64_lt x y \<Longrightarrow> f64_le x y"
  by (cases x; cases y) auto

definition is_nan :: "float64 \<Rightarrow> bool" where "is_nan x = (x = NaN)"
definition is_inf :: "float64 \<Rightarrow> bool" where "is_inf x = (x = PosInf \<or> x = NegInf)"

lemma finite_cases: "\<not> is_nan x \<Longrightarrow> \<not> is_inf x \<Longrightarrow> \<exists>q. x = Fin q"
  by (cases x) (auto simp: is_nan_def is_inf_def)

lemma is_nan_Fin [simp]: "is_nan (Fin q) = False" and is_inf_Fin [simp]: "is_inf (Fin q) = False"
  by (simp_all add: is_nan_def is_inf_def)

section \<open>Byte strings\<close>

text \<open>
  A Go string is a sequence of bytes, a list of \<^typ>\<open>char\<close>. \<open>strings.TrimSpace\<close> removes
  the white space of Unicode at both ends; these are its UTF-8 encodings. An encoding that is a
  prefix of the rest of the string is what decoding the next rune finds there, and one that is a
  suffix is what decoding the last rune finds, so the byte lists below trim exactly as the
  decoding loop does, on invalid UTF-8 too.
\<close>

definition space_encodings :: "string list" where
  "space_encodings =
     [[CHR 0x09], [CHR 0x0A], [CHR 0x0B], [CHR 0x0C], [CHR 0x0D], [CHR 0x20],
      [CHR 0xC2, CHR 0x85], [CHR 0xC2, CHR 0xA0], [CHR 0xE1, CHR 0x9A, CHR 0x80],
      [CHR 0xE2, CHR 0x80, CHR 0x80], [CHR 0xE2, CHR 0x80, CHR 0x81],
      [CHR 0xE2, CHR 0x80, CHR 0x82], [CHR 0xE2, CHR 0x80, CHR 0x83],
      [CHR 0xE2, CHR 0x80, CHR 0x84], [CHR 0xE2, CHR 0x80, CHR 0x85],
      [CHR 0xE2, CHR 0x80, CHR 0x86], [CHR 0xE2, CHR 0x80, CHR 0x87],
      [CHR 0xE2, CHR 0x80, CHR 0x88], [CHR 0xE2, CHR 0x80, CHR 0x89],
      [CHR 0xE2, CHR 0x80, CHR 0x8A], [CHR 0xE2, CHR 0x80, CHR 0xA8],
      [CHR 0xE2, CHR 0x80, CHR 0xA9], [CHR 0xE2, CHR 0x80, CHR 0xAF],
      [CHR 0xE2, CHR 0x81, CHR 0x9F], [CHR 0xE3, CHR 0x80, CHR 0x80]]"

fun drop_first_match :: "string list \<Rightarrow> string \<Rightarrow> string option" where
  "drop_first_match [] s = None"
| "drop_first_match (e # es) s =
     (if e \<noteq> [] \<and> take (length e) s = e then Some (drop (length e) s) else drop_first_match es s)"

lemma drop_first_match_shorter: "drop_first_match es s = Some t \<Longrightarrow> length t < length s"
proof (induction es)
  case (Cons e es)
  show ?case
  proof (cases "e \<noteq> [] \<and> take (length e) s = e")
    case True
    then have "0 < length e" "length e \<le> length s"
      by (auto dest: arg_cong [where f = length])
    moreover from True Cons.prems have "length t = length s - length e" by auto
    ultimately show ?thesis by linarith
  next
    case False
    then have "drop_first_match (e # es) s = drop_first_match es s" by auto
    with Cons show ?thesis by simp
  qed
qed simp

function trim_left :: "string list \<Rightarrow> string \<Rightarrow> string" where
  "trim_left es s = (case drop_first_match es s of None \<Rightarrow> s | Some t \<Rightarrow> trim_left es t)"
  by pat_completeness auto
termination
  by (relation "measure (\<lambda>(es, s). length s)") (auto dest: drop_first_match_shorter)

declare trim_left.simps [simp del]

text \<open>The right end is trimmed on the reversed string, with reversed encodings.\<close>

definition trim_space :: "string \<Rightarrow> string" where
  "trim_space s = rev (trim_left (map rev space_encodings) (rev (trim_left space_encodings s)))"

lemma trim_left_Nil [simp]: "trim_left es [] = []"
proof -
  have "drop_first_match es [] = None" by (induction es) auto
  then show ?thesis by (simp add: trim_left.simps)
qed

lemma trim_space_Nil [simp]: "trim_space [] = []"
  by (simp add: trim_space_def)

lemma trim_left_stable: "drop_first_match es (trim_left es s) = None"
  by (induction es s rule: trim_left.induct)
     (subst trim_left.simps, auto split: option.splits)

lemma trim_left_suffix: "\<exists>p. s = p @ trim_left es s"
proof (induction es s rule: trim_left.induct)
  case (1 es s)
  show ?case
  proof (cases "drop_first_match es s")
    case None
    then show ?thesis by (simp add: trim_left.simps)
  next
    case (Some t)
    have "\<exists>p. s = p @ t"
      using Some by (induction es) (auto split: if_splits, metis append_take_drop_id)
    with "1.IH" [OF Some] Some show ?thesis by (auto simp: trim_left.simps [of es s]) (metis append_assoc)
  qed
qed

text \<open>\<open>strings.Split(s, sep)\<close> for a one-byte separator.\<close>

fun go_split :: "char \<Rightarrow> string \<Rightarrow> string list" where
  "go_split c [] = [[]]"
| "go_split c (x # xs) =
     (if x = c then [] # go_split c xs
      else case go_split c xs of [] \<Rightarrow> [[x]] | y # ys \<Rightarrow> (x # y) # ys)"

fun go_join :: "char \<Rightarrow> string list \<Rightarrow> string" where
  "go_join c [] = []"
| "go_join c [x] = x"
| "go_join c (x # y # ys) = x @ c # go_join c (y # ys)"

lemma go_split_nonempty [simp]: "go_split c s \<noteq> []"
  by (cases s) (auto split: list.splits)

lemma go_join_split: "go_join c (go_split c s) = s"
proof (induction s)
  case (Cons x xs)
  show ?case
  proof (cases "go_split c xs")
    case Nil
    then show ?thesis by simp
  next
    case (Cons y ys)
    with Cons.IH show ?thesis by (cases ys) auto
  qed
qed simp

section \<open>Results\<close>

text \<open>Fallible code returns \<open>Inl\<close> of its error or \<open>Inr\<close> of its result.\<close>

abbreviation is_ok :: "'e + 'a \<Rightarrow> bool" where "is_ok r \<equiv> (case r of Inl _ \<Rightarrow> False | Inr _ \<Rightarrow> True)"

end
