(* ===== verification/Messages.thy ===== *)
theory Messages
  imports Go_Prelude
begin

text \<open>
  The messages of \<open>protocols/platform/v1\<close> that the control path exchanges: the envelope,
  the control command and its acknowledgement, the lease grant, and the local frames between
  Gateway, Safety Arbiter and Adapter. A message is a record with the fields of the generated
  struct; a pointer that may be nil is an option; an enum has one constructor per declared value
  and one for the undeclared numbers that proto3 lets through; \<open>unknownFields\<close> is kept, since
  the serialiser writes it back and the tags therefore cover it.
\<close>

section \<open>Enumerations\<close>

datatype ControlMode =
    CONTROL_MODE_UNSPECIFIED
  | CONTROL_MODE_DIRECT_ACTUATION
  | CONTROL_MODE_TARGET_MOTION
  | CONTROL_MODE_TRAJECTORY
  | CONTROL_MODE_MINIMAL_RISK
  | CONTROL_MODE_NUM int

datatype Gear =
    GEAR_UNSPECIFIED | GEAR_PARK | GEAR_REVERSE | GEAR_NEUTRAL | GEAR_DRIVE | GEAR_NUM int

datatype MinimalRiskReason =
    MINIMAL_RISK_REASON_UNSPECIFIED
  | MINIMAL_RISK_REASON_LINK_LOSS
  | MINIMAL_RISK_REASON_LEASE_EXPIRED
  | MINIMAL_RISK_REASON_DRIVER_REQUEST
  | MINIMAL_RISK_REASON_SYSTEM_FAULT
  | MINIMAL_RISK_REASON_NUM int

datatype ControlResult =
    CONTROL_RESULT_UNSPECIFIED
  | CONTROL_RESULT_ACCEPTED
  | CONTROL_RESULT_REJECTED_STALE
  | CONTROL_RESULT_REJECTED_FENCING
  | CONTROL_RESULT_REJECTED_LEASE
  | CONTROL_RESULT_REJECTED_LIMIT
  | CONTROL_RESULT_FAILED
  | CONTROL_RESULT_NUM int

datatype LeaseAction =
    LEASE_ACTION_UNSPECIFIED | LEASE_ACTION_GRANT | LEASE_ACTION_REVOKE | LEASE_ACTION_NUM int

text \<open>The generated \<open>String()\<close> of an undeclared enum number is its decimal form.\<close>

fun nat_digits :: "nat \<Rightarrow> string" where
  "nat_digits n = (if n < 10 then [char_of (n + 48)] else nat_digits (n div 10) @ [char_of (n mod 10 + 48)])"

declare nat_digits.simps [simp del]

definition show_int :: "int \<Rightarrow> string" where
  "show_int i = (if i < 0 then CHR ''-'' # nat_digits (nat (- i)) else nat_digits (nat i))"

lemma nat_digits_nonempty: "nat_digits n \<noteq> []"
  by (subst nat_digits.simps) simp

lemma show_int_nonempty: "show_int i \<noteq> []"
  by (simp add: show_int_def nat_digits_nonempty)

fun MinimalRiskReason_String :: "MinimalRiskReason \<Rightarrow> string" where
  "MinimalRiskReason_String MINIMAL_RISK_REASON_UNSPECIFIED = ''MINIMAL_RISK_REASON_UNSPECIFIED''"
| "MinimalRiskReason_String MINIMAL_RISK_REASON_LINK_LOSS = ''MINIMAL_RISK_REASON_LINK_LOSS''"
| "MinimalRiskReason_String MINIMAL_RISK_REASON_LEASE_EXPIRED = ''MINIMAL_RISK_REASON_LEASE_EXPIRED''"
| "MinimalRiskReason_String MINIMAL_RISK_REASON_DRIVER_REQUEST = ''MINIMAL_RISK_REASON_DRIVER_REQUEST''"
| "MinimalRiskReason_String MINIMAL_RISK_REASON_SYSTEM_FAULT = ''MINIMAL_RISK_REASON_SYSTEM_FAULT''"
| "MinimalRiskReason_String (MINIMAL_RISK_REASON_NUM n) = show_int n"

fun ControlMode_String :: "ControlMode \<Rightarrow> string" where
  "ControlMode_String CONTROL_MODE_UNSPECIFIED = ''CONTROL_MODE_UNSPECIFIED''"
| "ControlMode_String CONTROL_MODE_DIRECT_ACTUATION = ''CONTROL_MODE_DIRECT_ACTUATION''"
| "ControlMode_String CONTROL_MODE_TARGET_MOTION = ''CONTROL_MODE_TARGET_MOTION''"
| "ControlMode_String CONTROL_MODE_TRAJECTORY = ''CONTROL_MODE_TRAJECTORY''"
| "ControlMode_String CONTROL_MODE_MINIMAL_RISK = ''CONTROL_MODE_MINIMAL_RISK''"
| "ControlMode_String (CONTROL_MODE_NUM n) = show_int n"

section \<open>Messages\<close>

record Envelope =
  env_schema_major :: u32
  env_schema_minor :: u32
  env_message_type :: string
  env_vehicle_id :: string
  env_gateway_id :: string
  env_session_id :: string
  env_sequence :: u64
  env_utc_time_ns :: int
  env_monotonic_time_ns :: u64
  env_ttl_ms :: u32
  env_trace_id :: string
  env_payload :: bytes
  env_auth_tag :: bytes
  env_unknown :: bytes

record DirectActuation =
  steering_angle_target_rad :: float64
  throttle_fraction :: float64
  brake_fraction :: float64
  direct_gear :: Gear

record TargetMotion =
  target_speed_mps :: float64
  target_acceleration_mps2 :: float64
  target_curvature_inv_m :: float64
  target_yaw_rate_radps :: float64

record TrajectoryPoint =
  tp_x_m :: float64
  tp_y_m :: float64
  tp_heading_rad :: float64
  tp_speed_mps :: float64
  tp_time_offset_s :: float64

record MinimalRiskCommand =
  mrc_reason :: MinimalRiskReason

text \<open>The \<open>oneof command\<close> of a control command.\<close>

datatype command_body =
    Cmd_Direct DirectActuation
  | Cmd_Motion TargetMotion
  | Cmd_Trajectory "TrajectoryPoint list"
  | Cmd_MinimalRisk MinimalRiskCommand

record ControlCommand =
  cmd_control_session_id :: string
  cmd_lease_id :: string
  cmd_fencing_token :: u64
  cmd_command_sequence :: u64
  cmd_issued_monotonic_ns :: u64
  cmd_ttl_ms :: u32
  cmd_mode :: ControlMode
  cmd_command :: "command_body option"
  cmd_end_to_end_mac :: bytes
  cmd_unknown :: bytes

definition GetMotion :: "ControlCommand \<Rightarrow> TargetMotion option" where
  "GetMotion c = (case cmd_command c of Some (Cmd_Motion m) \<Rightarrow> Some m | _ \<Rightarrow> None)"

definition GetMinimalRisk :: "ControlCommand \<Rightarrow> MinimalRiskCommand option" where
  "GetMinimalRisk c = (case cmd_command c of Some (Cmd_MinimalRisk m) \<Rightarrow> Some m | _ \<Rightarrow> None)"

text \<open>\<open>GetReason\<close> on a nil pointer gives the zero enum value.\<close>

definition GetReason :: "MinimalRiskCommand option \<Rightarrow> MinimalRiskReason" where
  "GetReason m = (case m of None \<Rightarrow> MINIMAL_RISK_REASON_UNSPECIFIED | Some r \<Rightarrow> mrc_reason r)"

record 'd ControlAck =
  ack_control_session_id :: string
  ack_command_sequence :: u64
  ack_result :: ControlResult
  ack_detail :: 'd
  ack_applied_monotonic_ns :: u64

record LeaseGrant =
  lg_version :: u32
  lg_action :: LeaseAction
  lg_vehicle_id :: string
  lg_gateway_id :: string
  lg_lease_id :: string
  lg_driver_id :: string
  lg_device_id :: string
  lg_fencing_token :: u64
  lg_valid_until_unix_ns :: int
  lg_issued_at_unix_ns :: int
  lg_authority_key_id :: string
  lg_authority_signature :: bytes
  lg_unknown :: bytes

section \<open>What the code takes from other packages\<close>

text \<open>
  The protobuf runtime and the cryptographic primitives are parameters of the model: a record of
  the operations the sources call. \<open>None\<close> is a serialisation or parse error. The laws the code
  relies on are the predicates below; each theorem that needs one states it.
\<close>

record wire =
  marshal_env :: "Envelope \<Rightarrow> bytes option"
  unmarshal_env :: "bytes \<Rightarrow> Envelope option"
  marshal_cmd :: "ControlCommand \<Rightarrow> bytes option"
  unmarshal_cmd :: "bytes \<Rightarrow> ControlCommand option"
  marshal_grant :: "LeaseGrant \<Rightarrow> bytes option"
  unmarshal_grant :: "bytes \<Rightarrow> LeaseGrant option"
  hmac_sha256 :: "bytes \<Rightarrow> bytes \<Rightarrow> bytes"
  ed25519_sign :: "bytes \<Rightarrow> bytes \<Rightarrow> bytes"
  ed25519_verify :: "bytes \<Rightarrow> bytes \<Rightarrow> bytes \<Rightarrow> bool"
  ed25519_public :: "bytes \<Rightarrow> bytes"

text \<open>An HMAC-SHA-256 tag has 32 bytes (FIPS 198-1).\<close>

definition hmac_size :: "wire \<Rightarrow> bool" where
  "hmac_size w \<longleftrightarrow> (\<forall>k m. length (hmac_sha256 w k m) = 32)"

text \<open>An Ed25519 signature has 64 bytes and verifies under the matching public key (RFC 8032).\<close>

definition ed25519_correct :: "wire \<Rightarrow> bool" where
  "ed25519_correct w \<longleftrightarrow>
     (\<forall>sk m. length (ed25519_sign w sk m) = 64 \<and>
             ed25519_verify w (ed25519_public w sk) m (ed25519_sign w sk m))"

text \<open>What was marshalled is unmarshalled to the same message.\<close>

definition grant_roundtrip :: "wire \<Rightarrow> bool" where
  "grant_roundtrip w \<longleftrightarrow> (\<forall>g b. marshal_grant w g = Some b \<longrightarrow> unmarshal_grant w b = Some g)"

definition env_roundtrip :: "wire \<Rightarrow> bool" where
  "env_roundtrip w \<longleftrightarrow> (\<forall>e b. marshal_env w e = Some b \<longrightarrow> unmarshal_env w b = Some e)"

definition cmd_roundtrip :: "wire \<Rightarrow> bool" where
  "cmd_roundtrip w \<longleftrightarrow> (\<forall>c b. marshal_cmd w c = Some b \<longrightarrow> unmarshal_cmd w b = Some c)"

end
