(* ===== verification/Envelope_Auth.thy ===== *)
theory Envelope_Auth
  imports Messages
begin

text \<open>
  \<open>protocols/platform/v1/auth.go\<close>: the transport-level contract of an envelope, its
  authentication tag, and the end-to-end MAC of a control command.
\<close>

section \<open>Constants\<close>

definition SupportedSchemaMajor :: u32 where "SupportedSchemaMajor = 1"
definition SupportedSchemaMinor :: u32 where "SupportedSchemaMinor = 0"
definition MaxEnvelopePayload :: int where "MaxEnvelopePayload = 1024 * 1024"
definition MaxEnvelopeTTLMS :: u32 where "MaxEnvelopeTTLMS = 60000"

definition MonotonicNowNS :: "int \<Rightarrow> u64" where
  "MonotonicNowNS since = (if since \<le> 0 then 1 else word_of_int since)"

section \<open>Validation\<close>

datatype env_error =
    EnvNil
  | EnvSchema u32 u32
  | EnvMessageType string
  | EnvIdentity
  | EnvFreshness
  | EnvTtlTrace
  | EnvPayloadSize
  | EnvExpired

text \<open>
  \<open>time.Duration(ttl) * time.Millisecond\<close> of a \<open>uint32\<close> stays inside \<open>int64\<close>, so the
  product is the mathematical one.
\<close>

definition ttl_duration :: "u32 \<Rightarrow> int" where
  "ttl_duration ttl = uint ttl * millisecond"

text \<open>
  \<open>None\<close> is the nil error. \<open>clock\<close> is what \<open>time.Now\<close> returns when the caller passes the
  zero instant.
\<close>

definition ValidateEnvelope ::
  "Envelope option \<Rightarrow> string \<Rightarrow> string \<Rightarrow> string \<Rightarrow> gotime \<Rightarrow> gotime \<Rightarrow> env_error option" where
  "ValidateEnvelope env expectedType vehicleID gatewayID now clock =
    (case env of None \<Rightarrow> Some EnvNil | Some e \<Rightarrow>
      if env_schema_major e \<noteq> SupportedSchemaMajor \<or> env_schema_minor e \<noteq> SupportedSchemaMinor
      then Some (EnvSchema (env_schema_major e) (env_schema_minor e))
      else if expectedType \<noteq> [] \<and> env_message_type e \<noteq> expectedType
      then Some (EnvMessageType (env_message_type e))
      else if env_vehicle_id e = [] \<or> env_vehicle_id e \<noteq> vehicleID
              \<or> env_gateway_id e = [] \<or> env_gateway_id e \<noteq> gatewayID
      then Some EnvIdentity
      else if env_session_id e = [] \<or> env_sequence e = 0 \<or> env_utc_time_ns e \<le> 0
              \<or> env_monotonic_time_ns e = 0
      then Some EnvFreshness
      else if env_ttl_ms e = 0 \<or> env_ttl_ms e > MaxEnvelopeTTLMS \<or> env_trace_id e = []
      then Some EnvTtlTrace
      else if length (env_payload e) = 0 \<or> int (length (env_payload e)) > MaxEnvelopePayload
      then Some EnvPayloadSize
      else
        let now' = (if time_is_zero now then clock else now);
            age = time_sub now' (time_unix (env_utc_time_ns e))
        in if age < -2 * second \<or> age > ttl_duration (env_ttl_ms e) + 2 * second
           then Some EnvExpired else None)"

section \<open>The envelope tag\<close>

datatype sign_error = SignKeyOrNil | SignMarshal

definition SignEnvelope :: "wire \<Rightarrow> Envelope option \<Rightarrow> bytes \<Rightarrow> sign_error + Envelope" where
  "SignEnvelope w env key =
    (case env of None \<Rightarrow> Inl SignKeyOrNil | Some e \<Rightarrow>
      if length key < 32 then Inl SignKeyOrNil
      else case marshal_env w (e\<lparr>env_auth_tag := []\<rparr>) of
             None \<Rightarrow> Inl SignMarshal
           | Some canonical \<Rightarrow> Inr (e\<lparr>env_auth_tag := hmac_sha256 w key canonical\<rparr>))"

definition VerifyEnvelopeAuth :: "wire \<Rightarrow> Envelope option \<Rightarrow> bytes \<Rightarrow> bool" where
  "VerifyEnvelopeAuth w env key =
    (case env of None \<Rightarrow> False | Some e \<Rightarrow>
      if length key < 32 \<or> length (env_auth_tag e) \<noteq> 32 then False
      else case marshal_env w (e\<lparr>env_auth_tag := []\<rparr>) of
             None \<Rightarrow> False
           | Some canonical \<Rightarrow> env_auth_tag e = hmac_sha256 w key canonical)"

section \<open>The end-to-end command MAC\<close>

datatype mac_error = MacNil | MacKey | MacMarshal

definition ControlCommandMACInput ::
  "wire \<Rightarrow> Envelope option \<Rightarrow> ControlCommand option \<Rightarrow> mac_error + bytes" where
  "ControlCommandMACInput w env command =
    (case (env, command) of
      (Some e, Some c) \<Rightarrow>
        (case marshal_cmd w (c\<lparr>cmd_end_to_end_mac := []\<rparr>) of
           None \<Rightarrow> Inl MacMarshal
         | Some commandBytes \<Rightarrow>
             (case marshal_env w (e\<lparr>env_payload := commandBytes, env_auth_tag := []\<rparr>) of
                None \<Rightarrow> Inl MacMarshal
              | Some b \<Rightarrow> Inr b))
    | _ \<Rightarrow> Inl MacNil)"

definition SignControlCommandMAC ::
  "wire \<Rightarrow> Envelope option \<Rightarrow> ControlCommand option \<Rightarrow> bytes \<Rightarrow> mac_error + ControlCommand option" where
  "SignControlCommandMAC w env command key =
    (if length key < 32 then Inl MacKey
     else case ControlCommandMACInput w env command of
            Inl e \<Rightarrow> Inl e
          | Inr canonical \<Rightarrow>
              Inr (map_option (\<lambda>c. c\<lparr>cmd_end_to_end_mac := hmac_sha256 w key canonical\<rparr>) command))"

definition VerifyControlCommandMAC ::
  "wire \<Rightarrow> Envelope option \<Rightarrow> ControlCommand option \<Rightarrow> bytes \<Rightarrow> bool" where
  "VerifyControlCommandMAC w env command key =
    (case (env, command) of
      (Some e, Some c) \<Rightarrow>
        if length key < 32 \<or> length (cmd_end_to_end_mac c) \<noteq> 32 then False
        else (case ControlCommandMACInput w env command of
                Inl _ \<Rightarrow> False
              | Inr canonical \<Rightarrow> cmd_end_to_end_mac c = hmac_sha256 w key canonical)
    | _ \<Rightarrow> False)"

lemmas auth_defs [wire_defs] =
  SignEnvelope_def VerifyEnvelopeAuth_def ControlCommandMACInput_def
  SignControlCommandMAC_def VerifyControlCommandMAC_def

section \<open>Facts used by the components\<close>

lemma ttl_duration_bound: "0 \<le> ttl_duration t \<and> ttl_duration t < 2 ^ 32 * millisecond"
  using uint_bounded [of t] by (simp add: ttl_duration_def millisecond_def)

lemma ttl_duration_le:
  assumes "t \<le> u"
  shows "ttl_duration t \<le> ttl_duration u"
  using assms by (simp add: ttl_duration_def millisecond_def word_le_def)

text \<open>An accepted envelope satisfies every clause of the contract.\<close>

lemma ValidateEnvelopeD:
  assumes "ValidateEnvelope (Some e) ty v g now clock = None"
  shows "env_schema_major e = SupportedSchemaMajor" "env_schema_minor e = SupportedSchemaMinor"
    "ty = [] \<or> env_message_type e = ty"
    "env_vehicle_id e = v" "v \<noteq> []" "env_gateway_id e = g" "g \<noteq> []"
    "env_session_id e \<noteq> []" "env_sequence e \<noteq> 0" "0 < env_utc_time_ns e"
    "env_monotonic_time_ns e \<noteq> 0" "env_ttl_ms e \<noteq> 0" "env_ttl_ms e \<le> MaxEnvelopeTTLMS"
    "env_trace_id e \<noteq> []" "env_payload e \<noteq> []" "int (length (env_payload e)) \<le> MaxEnvelopePayload"
  using assms by (auto simp: ValidateEnvelope_def Let_def not_less split: if_splits)

lemma ValidateEnvelope_age:
  assumes "ValidateEnvelope (Some e) ty v g now clock = None" and "\<not> time_is_zero now"
  shows "env_utc_time_ns e - 2 * second \<le> wall now"
    and "wall now \<le> env_utc_time_ns e + ttl_duration (env_ttl_ms e) + 2 * second"
proof -
  let ?d = "wall now - env_utc_time_ns e"
  have age: "- 2 * second \<le> sat64 ?d" "sat64 ?d \<le> ttl_duration (env_ttl_ms e) + 2 * second"
    using assms by (auto simp: ValidateEnvelope_def Let_def time_sub_def not_less split: if_splits)
  have "ttl_duration (env_ttl_ms e) + 2 * second < int64_max"
    using ttl_duration_bound [of "env_ttl_ms e"]
    by (simp add: second_def millisecond_def int64_max_def)
  with age(2) show "wall now \<le> env_utc_time_ns e + ttl_duration (env_ttl_ms e) + 2 * second"
    using sat64_gt_iff [of "ttl_duration (env_ttl_ms e) + 2 * second" ?d]
      ttl_duration_bound [of "env_ttl_ms e"]
    by (force simp: second_def int64_min_def)
  from age(1) show "env_utc_time_ns e - 2 * second \<le> wall now"
    using sat64_lt_iff [of "- 2 * second" ?d] by (force simp: second_def int64_min_def int64_max_def)
qed

lemma VerifyEnvelopeAuth_iff:
  "VerifyEnvelopeAuth w (Some e) key \<longleftrightarrow>
     32 \<le> length key \<and> length (env_auth_tag e) = 32 \<and>
     (\<exists>b. marshal_env w (e\<lparr>env_auth_tag := []\<rparr>) = Some b \<and> env_auth_tag e = hmac_sha256 w key b)"
  by (auto simp: VerifyEnvelopeAuth_def split: option.splits)

lemma VerifyEnvelopeAuth_key: "VerifyEnvelopeAuth w env key \<Longrightarrow> 32 \<le> length key"
  by (auto simp: VerifyEnvelopeAuth_def split: option.splits if_splits)

lemma SignEnvelope_verifies:
  assumes "hmac_size w" and "SignEnvelope w (Some e) key = Inr s"
  shows "VerifyEnvelopeAuth w (Some s) key" and "s\<lparr>env_auth_tag := env_auth_tag e\<rparr> = e"
  using assms by (auto simp: SignEnvelope_def VerifyEnvelopeAuth_def hmac_size_def
      split: if_splits option.splits)

lemma MACInput_ignores_payload_and_tag:
  "ControlCommandMACInput w (Some (e\<lparr>env_payload := p, env_auth_tag := t\<rparr>)) c =
   ControlCommandMACInput w (Some e) c"
  by (simp add: ControlCommandMACInput_def split: option.splits)

lemma MACInput_ignores_mac:
  "ControlCommandMACInput w e (Some (c\<lparr>cmd_end_to_end_mac := m\<rparr>)) =
   ControlCommandMACInput w e (Some c)"
  by (simp add: ControlCommandMACInput_def split: option.splits)

end
