(* ===== verification/Systems.thy ===== *)
theory Systems
  imports Go_Prelude
begin

text \<open>
  Interfaces of state machines, as locales. A component that keeps state is a step function over
  its events; these locales say what such a machine promises and prove, once, what follows for
  every sequence of events. The component theories interpret them on their own step functions.
\<close>

section \<open>Runs of a deterministic machine\<close>

fun run :: "('s \<Rightarrow> 'e \<Rightarrow> 's) \<Rightarrow> 's \<Rightarrow> 'e list \<Rightarrow> 's" where
  "run step s [] = s"
| "run step s (e # es) = run step (step s e) es"

lemma run_append: "run step s (es @ fs) = run step (run step s es) fs"
  by (induction es arbitrary: s) auto

text \<open>An invariant kept by every step holds after every run.\<close>

locale invariant_machine =
  fixes step :: "'s \<Rightarrow> 'e \<Rightarrow> 's"
    and inv :: "'s \<Rightarrow> bool"
  assumes step_inv: "inv s \<Longrightarrow> inv (step s e)"
begin

lemma run_inv: "inv s \<Longrightarrow> inv (run step s es)"
  by (induction es arbitrary: s) (auto intro: step_inv)

lemma prefix_inv: "inv s \<Longrightarrow> inv (run step s (take n es))"
  by (rule run_inv)

end

text \<open>
  A machine with an integer epoch that no step lowers: after any run the epoch is at least what
  it was, and a state whose epoch is still the old one was reached without ever raising it.
\<close>

locale epoch_machine =
  fixes step :: "'s \<Rightarrow> 'e \<Rightarrow> 's"
    and epoch :: "'s \<Rightarrow> int"
  assumes step_epoch: "epoch s \<le> epoch (step s e)"
begin

lemma run_epoch: "epoch s \<le> epoch (run step s es)"
proof (induction es arbitrary: s)
  case (Cons e es)
  from step_epoch [of s e] Cons.IH [of "step s e"] show ?case by simp
qed simp

lemma prefix_epoch: "epoch (run step s (take n es)) \<le> epoch (run step s es)"
proof -
  have "run step s es = run step (run step s (take n es)) (drop n es)"
    by (simp flip: run_append)
  then show ?thesis using run_epoch [of "run step s (take n es)" "drop n es"] by simp
qed

lemma same_epoch_prefix:
  assumes "epoch (run step s es) = epoch s"
  shows "epoch (run step s (take n es)) = epoch s"
  using assms prefix_epoch [of s n es] run_epoch [of s "take n es"] by simp

end

text \<open>
  A latch on top of an epoch: once the machine is disarmed, a step can arm it again only by
  raising the epoch. A run that ends armed after a disarmed state has therefore raised it.
\<close>

locale latched_machine = epoch_machine step epoch
  for step :: "'s \<Rightarrow> 'e \<Rightarrow> 's" and epoch :: "'s \<Rightarrow> int" +
  fixes armed :: "'s \<Rightarrow> bool"
  assumes step_arm: "\<not> armed s \<Longrightarrow> armed (step s e) \<Longrightarrow> epoch s < epoch (step s e)"
begin

lemma rearm_raises_epoch: "\<not> armed s \<Longrightarrow> armed (run step s es) \<Longrightarrow> epoch s < epoch (run step s es)"
proof (induction es arbitrary: s)
  case (Cons e es)
  show ?case
  proof (cases "armed (step s e)")
    case True
    with Cons.prems(1) have "epoch s < epoch (step s e)" by (rule step_arm)
    with run_epoch [of "step s e" es] show ?thesis by simp
  next
    case False
    with Cons have "epoch (step s e) < epoch (run step (step s e) es)" by simp
    with step_epoch [of s e] show ?thesis by simp
  qed
qed simp

lemma latched_without_epoch:
  "\<not> armed s \<Longrightarrow> epoch (run step s es) = epoch s \<Longrightarrow> \<not> armed (run step s es)"
  using rearm_raises_epoch [of s es] by force

end

text \<open>
  A machine with an invariant and an epoch that no step from a state satisfying the invariant
  lowers: the epoch never falls along a run that starts in such a state.
\<close>

locale guarded_epoch_machine = invariant_machine step inv
  for step :: "'s \<Rightarrow> 'e \<Rightarrow> 's" and inv :: "'s \<Rightarrow> bool" +
  fixes epoch :: "'s \<Rightarrow> int"
  assumes step_epoch_inv: "inv s \<Longrightarrow> epoch s \<le> epoch (step s e)"
begin

lemma run_epoch_inv: "inv s \<Longrightarrow> epoch s \<le> epoch (run step s es)"
proof (induction es arbitrary: s)
  case (Cons e es)
  from step_epoch_inv [OF Cons.prems, of e] Cons.IH [OF step_inv [OF Cons.prems], of e] show ?case by simp
qed simp

end

section \<open>Absorbing states\<close>

text \<open>
  A machine whose steps may be refused: \<open>next s e\<close> is the successor status, if the event is
  allowed. Terminal statuses allow nothing but themselves, and a rank never falls.
\<close>

locale status_machine =
  fixes nxt :: "'s \<Rightarrow> 'e \<Rightarrow> 's option"
    and rank :: "'s \<Rightarrow> nat"
    and terminal :: "'s \<Rightarrow> bool"
  assumes nxt_rank: "nxt s e = Some t \<Longrightarrow> rank s \<le> rank t"
    and nxt_terminal: "terminal s \<Longrightarrow> nxt s e = Some t \<Longrightarrow> t = s"
begin

definition apply_status :: "'s \<Rightarrow> 'e \<Rightarrow> 's" where
  "apply_status s e = (case nxt s e of None \<Rightarrow> s | Some t \<Rightarrow> t)"

lemma apply_rank: "rank s \<le> rank (apply_status s e)"
  by (auto simp: apply_status_def intro: nxt_rank split: option.splits)

lemma apply_terminal: "terminal s \<Longrightarrow> apply_status s e = s"
  by (auto simp: apply_status_def dest: nxt_terminal split: option.splits)

lemma run_rank: "rank s \<le> rank (run apply_status s es)"
proof (induction es arbitrary: s)
  case (Cons e es)
  from apply_rank [of s e] Cons.IH [of "apply_status s e"] show ?case by simp
qed simp

lemma run_terminal: "terminal s \<Longrightarrow> run apply_status s es = s"
  by (induction es) (auto simp: apply_terminal)

end

section \<open>Bounded buffers\<close>

text \<open>
  A bounded history: every push keeps at most the capacity and keeps the pushed element. The
  fleet state has two of them, one that appends and drops from the front and one that prepends
  and drops from the end.
\<close>

locale bounded_buffer =
  fixes push :: "'a \<Rightarrow> 'a list \<Rightarrow> 'a list"
    and cap :: nat
  assumes push_length: "length xs \<le> cap \<Longrightarrow> length (push x xs) = min cap (Suc (length xs))"
    and push_in: "x \<in> set (push x xs)"
    and push_subset: "set (push x xs) \<subseteq> insert x (set xs)"
begin

lemma push_bound: "length xs \<le> cap \<Longrightarrow> length (push x xs) \<le> cap"
  by (simp add: push_length)

lemma fold_push_bound: "length xs \<le> cap \<Longrightarrow> length (fold push ys xs) \<le> cap"
  by (induction ys arbitrary: xs) (auto intro: push_bound)

lemma fold_push_length: "length xs \<le> cap \<Longrightarrow> length (fold push ys xs) = min cap (length xs + length ys)"
  by (induction ys arbitrary: xs) (auto simp: push_length min_def)

lemma fold_push_subset: "set (fold push ys xs) \<subseteq> set ys \<union> set xs"
proof (induction ys arbitrary: xs)
  case (Cons y ys)
  from Cons.IH [of "push y xs"] push_subset [of y xs] show ?case by auto
qed simp

end

end
