(* ===== verification/Arbiter.thy ===== *)
theory Arbiter
  imports Envelope_Auth Systems
begin

text \<open>
  \<open>vehicle/safety-arbiter/arbiter.go\<close> and \<open>proto_kernel.go\<close>: the safety kernel that
  decides on board whether a lease or a control command takes effect. Each handler is a function
  from the arbiter's state to the new state, the decision it returns and the actuator calls it
  made, in order. Everything under \<open>a.mu\<close> is one such function; what precedes the lock reads only
  the immutable configuration. Clock readings (\<open>cfg.Now()\<close>) and the actuator are arguments. A
  literal message of the source is a constructor of \<open>detail\<close>.
\<close>

section \<open>Data\<close>

record Motion =
  TargetSpeedMPS :: float64
  TargetAccelerationMPS :: float64
  TargetCurvatureInvM :: float64
  TargetYawRateRadPS :: float64

datatype Result =
    Accepted | RejectedStale | RejectedFencing | RejectedLease | RejectedLimit
  | RejectedAuth | Failed

datatype lease_error = LeaseFields | LeaseIssued | LeaseDriverDevice | LeaseKey | LeaseSignature
datatype command_error = CmdFields | CmdMotionMissing | CmdRiskMissing
datatype fresh_error = CmdTtlOrSkew | CmdIssuedMonotonic
datatype limit_error = LimitNotFinite | LimitOdd

text \<open>
  What can go wrong in a call of the production actuator (\<open>UnixActuator.call\<close> in \<open>main.go\<close>);
  the cause a wrapped error carries is left out. \<open>ActReplied\<close> carries the adapter's own text.
\<close>

datatype act_error =
    ActDial | ActMarshal | ActTooLarge | ActWrite | ActRead | ActFrame | ActRefused
  | ActReplied string | ActReasonEmpty

datatype detail =
    LeaseEnvNil | LeaseEnvInvalid env_error | LeaseAuthTag | LeaseUnmarshal | LeaseInvalid lease_error
  | GrantExpired | GrantFencingBehind | GrantSameFencing | GrantRenewed | GrantAccepted
  | RevokeFencingBehind | RevokeActuatorFailed act_error | RevokeDone | UnknownLeaseAction
  | CmdEnvNil | CmdEnvInvalid env_error | CmdUnmarshal | CmdInvalid command_error
  | CmdAuthTag | CmdMac | CmdStale fresh_error | CmdNoLease | CmdFencing
  | CmdSessionSwitch | CmdSequence | CmdNoMotion | CmdLimit limit_error
  | CmdActuatorFailed act_error | CmdApplied | CmdRiskUnspecified | CmdRiskFailed act_error | CmdRiskDone
  | CmdModeUnsupported
  | ExpiredDone | ExpiredActuatorFailed act_error
  | TickNoLease | TickLeaseExpired | TickLeaseExpiredFailed act_error
  | TickWatchdog | TickWatchdogFailed act_error | TickHealthy

record Decision =
  d_result :: Result
  d_detail :: detail
  d_minimal_risk :: bool
  d_risk_reason :: string
  d_applied_speed :: float64
  d_applied_monotonic_ns :: int

text \<open>The fields a \<open>Decision\{...\}\<close> literal leaves out are zero.\<close>

definition decide :: "Result \<Rightarrow> detail \<Rightarrow> Decision" where
  "decide r d = \<lparr>d_result = r, d_detail = d, d_minimal_risk = False, d_risk_reason = [],
     d_applied_speed = Fin 0, d_applied_monotonic_ns = 0\<rparr>"

lemma decide_sel [simp]:
  "d_result (decide r d) = r" "d_detail (decide r d) = d"
  "d_minimal_risk (decide r d) = False" "d_risk_reason (decide r d) = []"
  "d_applied_monotonic_ns (decide r d) = 0"
  by (simp_all add: decide_def)

record Limits =
  MaxSpeedMPS :: float64
  MaxAccelerationMPS :: float64
  MaxCurvatureInvM :: float64
  MaxYawRateRadPS :: float64

text \<open>
  The authority keys are an association list from key ids to public keys. The actuator is an
  interface value that may be nil; what a call on it answers is an argument of the handlers.
\<close>

record Config =
  VehicleID :: string
  GatewayID :: string
  AuthorityKeys :: "(string \<times> bytes) list"
  CommandMACKey :: bytes
  RequireMAC :: bool
  Watchdog :: int
  MaxClockSkew :: int
  cfg_Limits :: Limits
  HasActuator :: bool

record activeLease =
  al_LeaseID :: string
  al_Fencing :: int
  al_ValidUntil :: gotime
  al_LastCommand :: gotime
  al_LastSeq :: int
  al_SessionID :: string

record Arbiter =
  cfg :: Config
  lastFencing :: int
  lease :: "activeLease option"
  minimalRisk :: string

text \<open>The \<open>Actuator\<close> interface: an applied time and, when the call failed, the error.\<close>

datatype act_call = ApplyMotion Motion | MinimalRisk string

type_synonym actuator = "act_call \<Rightarrow> int \<times> act_error option"
type_synonym outcome = "Arbiter \<times> Decision \<times> act_call list"

abbreviation new_state :: "outcome \<Rightarrow> Arbiter" where "new_state o' \<equiv> fst o'"
abbreviation decision :: "outcome \<Rightarrow> Decision" where "decision o' \<equiv> fst (snd o')"
abbreviation calls :: "outcome \<Rightarrow> act_call list" where "calls o' \<equiv> snd (snd o')"

section \<open>Construction\<close>

datatype new_error = NewIdentity | NewMacKey | NewLimits | NewActuator

definition NewArbiter :: "Config \<Rightarrow> new_error + Arbiter" where
  "NewArbiter c0 =
    (if VehicleID c0 = [] \<or> GatewayID c0 = [] \<or> AuthorityKeys c0 = [] then Inl NewIdentity
     else if RequireMAC c0 \<and> length (CommandMACKey c0) < 32 then Inl NewMacKey
     else
       let c1 = (if Watchdog c0 \<le> 0 then c0\<lparr>Watchdog := 500 * millisecond\<rparr> else c0);
           c2 = (if MaxClockSkew c1 \<le> 0 then c1\<lparr>MaxClockSkew := 2 * second\<rparr> else c1)
       in if f64_le (MaxSpeedMPS (cfg_Limits c2)) (Fin 0)
             \<or> f64_le (MaxAccelerationMPS (cfg_Limits c2)) (Fin 0)
             \<or> f64_le (MaxCurvatureInvM (cfg_Limits c2)) (Fin 0)
             \<or> f64_le (MaxYawRateRadPS (cfg_Limits c2)) (Fin 0) then Inl NewLimits
          else if \<not> HasActuator c2 then Inl NewActuator
          else Inr \<lparr>cfg = c2, lastFencing = 0, lease = None, minimalRisk = []\<rparr>)"

section \<open>Limits\<close>

definition checkLimits :: "Arbiter \<Rightarrow> Motion \<Rightarrow> limit_error option" where
  "checkLimits a m =
    (let vals = [TargetSpeedMPS m, TargetAccelerationMPS m, TargetCurvatureInvM m, TargetYawRateRadPS m];
         lim = cfg_Limits (cfg a)
     in if list_ex (\<lambda>v. is_nan v \<or> is_inf v) vals then Some LimitNotFinite
        else if f64_lt (TargetSpeedMPS m) (Fin 0) \<or> f64_lt (MaxSpeedMPS lim) (TargetSpeedMPS m)
                \<or> f64_lt (MaxAccelerationMPS lim) (f64_abs (TargetAccelerationMPS m))
                \<or> f64_lt (MaxCurvatureInvM lim) (f64_abs (TargetCurvatureInvM m))
                \<or> f64_lt (MaxYawRateRadPS lim) (f64_abs (TargetYawRateRadPS m))
        then Some LimitOdd else None)"

section \<open>The watchdog\<close>

definition Tick :: "gotime \<Rightarrow> actuator \<Rightarrow> Arbiter \<Rightarrow> outcome" where
  "Tick now act a =
    (case lease a of
       None \<Rightarrow> (a, (decide RejectedLease TickNoLease)\<lparr>d_risk_reason := minimalRisk a\<rparr>, [])
     | Some l \<Rightarrow>
         if \<not> time_after (al_ValidUntil l) now then
           let a' = a\<lparr>lease := None, minimalRisk := ''lease_expired''\<rparr>;
               (applied, err) = act (MinimalRisk ''lease_expired'')
           in (a', \<lparr>d_result = RejectedLease,
                    d_detail = (case err of None \<Rightarrow> TickLeaseExpired | Some e \<Rightarrow> TickLeaseExpiredFailed e),
                    d_minimal_risk = True, d_risk_reason = ''lease_expired'',
                    d_applied_speed = Fin 0, d_applied_monotonic_ns = applied\<rparr>,
               [MinimalRisk ''lease_expired''])
         else if time_sub now (al_LastCommand l) > Watchdog (cfg a) then
           let a' = a\<lparr>lease := None, minimalRisk := ''control_watchdog_timeout''\<rparr>;
               (applied, err) = act (MinimalRisk ''control_watchdog_timeout'')
           in (a', \<lparr>d_result = RejectedStale,
                    d_detail = (case err of None \<Rightarrow> TickWatchdog | Some e \<Rightarrow> TickWatchdogFailed e),
                    d_minimal_risk = True, d_risk_reason = ''control_watchdog_timeout'',
                    d_applied_speed = Fin 0, d_applied_monotonic_ns = applied\<rparr>,
               [MinimalRisk ''control_watchdog_timeout''])
         else (a, decide Accepted TickHealthy, []))"

section \<open>Leases\<close>

definition validateProtoLease :: "wire \<Rightarrow> Config \<Rightarrow> Envelope \<Rightarrow> LeaseGrant \<Rightarrow> lease_error option" where
  "validateProtoLease w c env grant =
    (if lg_version grant \<noteq> 1
        \<or> (lg_action grant \<noteq> LEASE_ACTION_GRANT \<and> lg_action grant \<noteq> LEASE_ACTION_REVOKE)
        \<or> lg_vehicle_id grant \<noteq> VehicleID c \<or> lg_gateway_id grant \<noteq> GatewayID c
        \<or> lg_lease_id grant = [] \<or> lg_fencing_token grant = 0
        \<or> env_sequence env \<noteq> lg_fencing_token grant
        \<or> lg_issued_at_unix_ns grant \<le> 0 \<or> lg_valid_until_unix_ns grant = 0
     then Some LeaseFields
     else
       let issued = time_unix (lg_issued_at_unix_ns grant);
           envelopeTime = time_unix (env_utc_time_ns env)
       in if time_before issued (time_add envelopeTime (- MaxClockSkew c))
             \<or> time_after issued (time_add envelopeTime (MaxClockSkew c))
          then Some LeaseIssued
          else if lg_action grant = LEASE_ACTION_GRANT \<and> (lg_driver_id grant = [] \<or> lg_device_id grant = [])
          then Some LeaseDriverDevice
          else case map_of (AuthorityKeys c) (lg_authority_key_id grant) of
                 None \<Rightarrow> Some LeaseKey
               | Some key \<Rightarrow>
                   if length key \<noteq> 32 \<or> length (lg_authority_signature grant) \<noteq> 64 then Some LeaseKey
                   else case marshal_grant w (grant\<lparr>lg_authority_signature := []\<rparr>) of
                          None \<Rightarrow> Some LeaseSignature
                        | Some canonical \<Rightarrow>
                            if \<not> ed25519_verify w key canonical (lg_authority_signature grant)
                            then Some LeaseSignature else None)"

text \<open>The part of \<open>HandleProtoLease\<close> under the lock, after a grant was validated.\<close>

definition apply_grant :: "gotime \<Rightarrow> LeaseGrant \<Rightarrow> Arbiter \<Rightarrow> outcome" where
  "apply_grant now grant a =
    (let until = time_unix (lg_valid_until_unix_ns grant); fencing = sint (lg_fencing_token grant)
     in if \<not> time_after until now then
          (a, (decide RejectedLease GrantExpired)\<lparr>d_minimal_risk := True, d_risk_reason := ''lease_expired''\<rparr>, [])
        else if fencing < lastFencing a then (a, decide RejectedFencing GrantFencingBehind, [])
        else if fencing = lastFencing a then
          (case lease a of
             None \<Rightarrow> (a, decide RejectedFencing GrantSameFencing, [])
           | Some l \<Rightarrow>
               if al_LeaseID l \<noteq> lg_lease_id grant \<or> time_before until (al_ValidUntil l)
               then (a, decide RejectedFencing GrantSameFencing, [])
               else (a\<lparr>lease := Some (l\<lparr>al_ValidUntil := until\<rparr>)\<rparr>, decide Accepted GrantRenewed, []))
        else (a\<lparr>lastFencing := fencing,
                lease := Some \<lparr>al_LeaseID = lg_lease_id grant, al_Fencing = fencing, al_ValidUntil = until,
                               al_LastCommand = now, al_LastSeq = 0, al_SessionID = []\<rparr>,
                minimalRisk := []\<rparr>, decide Accepted GrantAccepted, []))"

definition apply_revoke :: "actuator \<Rightarrow> LeaseGrant \<Rightarrow> Arbiter \<Rightarrow> outcome" where
  "apply_revoke act grant a =
    (let fencing = sint (lg_fencing_token grant)
     in if fencing < lastFencing a then (a, decide RejectedFencing RevokeFencingBehind, [])
        else
          let a' = a\<lparr>lastFencing := fencing, lease := None, minimalRisk := ''lease_revoked''\<rparr>;
              (applied, err) = act (MinimalRisk ''lease_revoked'')
          in (a', (case err of
                     Some e \<Rightarrow> (decide Failed (RevokeActuatorFailed e))
                                 \<lparr>d_minimal_risk := True, d_risk_reason := ''lease_revoked''\<rparr>
                   | None \<Rightarrow> (decide Accepted RevokeDone)
                                 \<lparr>d_minimal_risk := True, d_risk_reason := ''lease_revoked'',
                                  d_applied_monotonic_ns := applied\<rparr>),
              [MinimalRisk ''lease_revoked'']))"

text \<open>\<open>now1\<close> is the clock reading given to \<open>ValidateEnvelope\<close>, \<open>now2\<close> the one under the lock.\<close>

definition HandleProtoLease ::
  "wire \<Rightarrow> gotime \<Rightarrow> gotime \<Rightarrow> actuator \<Rightarrow> Envelope option \<Rightarrow> Arbiter \<Rightarrow> outcome" where
  "HandleProtoLease w now1 now2 act env a =
    (case env of
       None \<Rightarrow> (a, decide RejectedAuth LeaseEnvNil, [])
     | Some e \<Rightarrow>
        (case ValidateEnvelope env ''platform.v1.LeaseGrant'' (VehicleID (cfg a)) (GatewayID (cfg a)) now1 now1 of
           Some err \<Rightarrow> (a, decide RejectedAuth (LeaseEnvInvalid err), [])
         | None \<Rightarrow>
            if \<not> VerifyEnvelopeAuth w env (CommandMACKey (cfg a))
            then (a, decide RejectedAuth LeaseAuthTag, [])
            else case unmarshal_grant w (env_payload e) of
                   None \<Rightarrow> (a, decide RejectedAuth LeaseUnmarshal, [])
                 | Some grant \<Rightarrow>
                    (case validateProtoLease w (cfg a) e grant of
                       Some err \<Rightarrow> (a, decide RejectedAuth (LeaseInvalid err), [])
                     | None \<Rightarrow>
                        (case lg_action grant of
                           LEASE_ACTION_GRANT \<Rightarrow> apply_grant now2 grant a
                         | LEASE_ACTION_REVOKE \<Rightarrow> apply_revoke act grant a
                         | _ \<Rightarrow> (a, decide RejectedAuth UnknownLeaseAction, [])))))"

section \<open>Commands\<close>

definition validateProtoCommand :: "Envelope \<Rightarrow> ControlCommand \<Rightarrow> command_error option" where
  "validateProtoCommand env cmd =
    (if cmd_control_session_id cmd = [] \<or> cmd_control_session_id cmd \<noteq> env_session_id env
        \<or> cmd_lease_id cmd = [] \<or> cmd_fencing_token cmd = 0 \<or> cmd_command_sequence cmd = 0
        \<or> cmd_command_sequence cmd \<noteq> env_sequence env \<or> cmd_issued_monotonic_ns cmd = 0
        \<or> cmd_ttl_ms cmd = 0 \<or> cmd_ttl_ms cmd \<noteq> env_ttl_ms env \<or> cmd_ttl_ms cmd > 1000
        \<or> cmd_mode cmd = CONTROL_MODE_UNSPECIFIED \<or> length (cmd_end_to_end_mac cmd) \<noteq> 32
     then Some CmdFields
     else case cmd_mode cmd of
            CONTROL_MODE_TARGET_MOTION \<Rightarrow>
              if GetMotion cmd = None then Some CmdMotionMissing else None
          | CONTROL_MODE_MINIMAL_RISK \<Rightarrow>
              if GetMinimalRisk cmd = None
                 \<or> GetReason (GetMinimalRisk cmd) = MINIMAL_RISK_REASON_UNSPECIFIED
              then Some CmdRiskMissing else None
          | _ \<Rightarrow> None)"

text \<open>
  The conversion of an integer to \<open>float64\<close> is never a NaN, so the second disjunct of the
  source's check on \<open>issued_monotonic_ns\<close> is never true.
\<close>

definition protoCommandFresh ::
  "Envelope \<Rightarrow> ControlCommand \<Rightarrow> gotime \<Rightarrow> int \<Rightarrow> fresh_error option" where
  "protoCommandFresh env cmd now skew =
    (let issued = time_unix (env_utc_time_ns env); age = time_sub now issued
     in if age < - skew \<or> age > ttl_duration (env_ttl_ms env) + skew then Some CmdTtlOrSkew
        else if cmd_issued_monotonic_ns cmd = 0 then Some CmdIssuedMonotonic
        else None)"

definition expireLeaseLocked :: "actuator \<Rightarrow> string \<Rightarrow> Arbiter \<Rightarrow> outcome" where
  "expireLeaseLocked act reason a =
    (let (applied, err) = act (MinimalRisk reason)
     in (a\<lparr>lease := None, minimalRisk := reason\<rparr>,
         \<lparr>d_result = RejectedLease,
          d_detail = (case err of None \<Rightarrow> ExpiredDone | Some e \<Rightarrow> ExpiredActuatorFailed e),
          d_minimal_risk = True, d_risk_reason = reason,
          d_applied_speed = Fin 0, d_applied_monotonic_ns = applied\<rparr>,
         [MinimalRisk reason]))"

definition motion_of :: "TargetMotion \<Rightarrow> Motion" where
  "motion_of m = \<lparr>TargetSpeedMPS = target_speed_mps m,
     TargetAccelerationMPS = target_acceleration_mps2 m,
     TargetCurvatureInvM = target_curvature_inv_m m,
     TargetYawRateRadPS = target_yaw_rate_radps m\<rparr>"

text \<open>The \<open>TARGET_MOTION\<close> case of the mode switch, on the active lease \<open>l\<close>.\<close>

definition apply_target_motion ::
  "gotime \<Rightarrow> actuator \<Rightarrow> ControlCommand \<Rightarrow> activeLease \<Rightarrow> Arbiter \<Rightarrow> outcome" where
  "apply_target_motion now act cmd l a =
    (case GetMotion cmd of
       None \<Rightarrow> (a, decide RejectedLimit CmdNoMotion, [])
     | Some motion \<Rightarrow>
        let m = motion_of motion
        in (case checkLimits a m of
              Some err \<Rightarrow> (a, decide RejectedLimit (CmdLimit err), [])
            | None \<Rightarrow>
               let (applied, err) = act (ApplyMotion m)
               in (case err of
                     Some e \<Rightarrow>
                       (a\<lparr>lease := None, minimalRisk := ''actuator_failure''\<rparr>,
                        (decide Failed (CmdActuatorFailed e))
                          \<lparr>d_minimal_risk := True, d_risk_reason := ''actuator_failure''\<rparr>,
                        [ApplyMotion m, MinimalRisk ''actuator_failure''])
                   | None \<Rightarrow>
                       (a\<lparr>lease := Some (l\<lparr>al_SessionID := cmd_control_session_id cmd,
                                           al_LastSeq := sint (cmd_command_sequence cmd),
                                           al_LastCommand := now\<rparr>)\<rparr>,
                        (decide Accepted CmdApplied)
                          \<lparr>d_applied_speed := TargetSpeedMPS m, d_applied_monotonic_ns := applied\<rparr>,
                        [ApplyMotion m]))))"

definition apply_minimal_risk :: "actuator \<Rightarrow> ControlCommand \<Rightarrow> Arbiter \<Rightarrow> outcome" where
  "apply_minimal_risk act cmd a =
    (let reason = GetReason (GetMinimalRisk cmd)
     in if reason = MINIMAL_RISK_REASON_UNSPECIFIED
        then (a, decide RejectedLimit CmdRiskUnspecified, [])
        else
          let reasonName = MinimalRiskReason_String reason;
              (applied, err) = act (MinimalRisk reasonName)
          in (a\<lparr>lease := None, minimalRisk := reasonName\<rparr>,
              (case err of
                 Some e \<Rightarrow> (decide Failed (CmdRiskFailed e))
                             \<lparr>d_minimal_risk := True, d_risk_reason := reasonName\<rparr>
               | None \<Rightarrow> (decide Accepted CmdRiskDone)
                             \<lparr>d_minimal_risk := True, d_risk_reason := reasonName,
                              d_applied_monotonic_ns := applied\<rparr>),
              [MinimalRisk reasonName]))"

text \<open>The part of \<open>HandleProtoCommand\<close> under the lock.\<close>

definition command_locked ::
  "gotime \<Rightarrow> actuator \<Rightarrow> Envelope \<Rightarrow> ControlCommand \<Rightarrow> Arbiter \<Rightarrow> outcome" where
  "command_locked now act env cmd a =
    (case protoCommandFresh env cmd now (MaxClockSkew (cfg a)) of
       Some err \<Rightarrow> (a, decide RejectedStale (CmdStale err), [])
     | None \<Rightarrow>
        (case lease a of
           None \<Rightarrow> (a, decide RejectedLease CmdNoLease, [])
         | Some l \<Rightarrow>
            if cmd_lease_id cmd \<noteq> al_LeaseID l then (a, decide RejectedLease CmdNoLease, [])
            else if sint (cmd_fencing_token cmd) \<noteq> al_Fencing l \<or> sint (cmd_fencing_token cmd) \<noteq> lastFencing a
            then (a, decide RejectedFencing CmdFencing, [])
            else if \<not> time_after (al_ValidUntil l) now then expireLeaseLocked act ''lease_expired'' a
            else if al_SessionID l \<noteq> [] \<and> al_SessionID l \<noteq> cmd_control_session_id cmd
            then (a, decide RejectedAuth CmdSessionSwitch, [])
            else if sint (cmd_command_sequence cmd) \<le> al_LastSeq l
            then (a, decide RejectedStale CmdSequence, [])
            else (case cmd_mode cmd of
                    CONTROL_MODE_TARGET_MOTION \<Rightarrow> apply_target_motion now act cmd l a
                  | CONTROL_MODE_MINIMAL_RISK \<Rightarrow> apply_minimal_risk act cmd a
                  | _ \<Rightarrow> (a, decide RejectedLimit CmdModeUnsupported, []))))"

definition HandleProtoCommand ::
  "wire \<Rightarrow> gotime \<Rightarrow> gotime \<Rightarrow> actuator \<Rightarrow> Envelope option \<Rightarrow> Arbiter \<Rightarrow> outcome" where
  "HandleProtoCommand w now1 now2 act env a =
    (case env of
       None \<Rightarrow> (a, decide RejectedAuth CmdEnvNil, [])
     | Some e \<Rightarrow>
        (case ValidateEnvelope env ''platform.v1.ControlCommand'' (VehicleID (cfg a)) (GatewayID (cfg a)) now1 now1 of
           Some err \<Rightarrow> (a, decide RejectedAuth (CmdEnvInvalid err), [])
         | None \<Rightarrow>
            (case unmarshal_cmd w (env_payload e) of
               None \<Rightarrow> (a, decide RejectedAuth CmdUnmarshal, [])
             | Some cmd \<Rightarrow>
                (case validateProtoCommand e cmd of
                   Some err \<Rightarrow> (a, decide RejectedAuth (CmdInvalid err), [])
                 | None \<Rightarrow>
                    if \<not> VerifyEnvelopeAuth w env (CommandMACKey (cfg a))
                    then (a, decide RejectedAuth CmdAuthTag, [])
                    else if RequireMAC (cfg a) \<and> \<not> VerifyControlCommandMAC w env (Some cmd) (CommandMACKey (cfg a))
                    then (a, decide RejectedAuth CmdMac, [])
                    else command_locked now2 act e cmd a))))"

section \<open>Events\<close>

text \<open>What can happen to an arbiter, in any order: a lease, a command, a watchdog tick.\<close>

datatype arb_event =
    EvLease "Envelope option" gotime gotime actuator
  | EvCommand "Envelope option" gotime gotime actuator
  | EvTick gotime actuator

fun arb_out :: "wire \<Rightarrow> Arbiter \<Rightarrow> arb_event \<Rightarrow> outcome" where
  "arb_out w a (EvLease env n1 n2 act) = HandleProtoLease w n1 n2 act env a"
| "arb_out w a (EvCommand env n1 n2 act) = HandleProtoCommand w n1 n2 act env a"
| "arb_out w a (EvTick n act) = Tick n act a"

definition arb_step :: "wire \<Rightarrow> Arbiter \<Rightarrow> arb_event \<Rightarrow> Arbiter" where
  "arb_step w a ev = new_state (arb_out w a ev)"

lemmas arbiter_locked_defs [arb_defs] =
  Tick_def apply_grant_def apply_revoke_def expireLeaseLocked_def apply_target_motion_def
  apply_minimal_risk_def command_locked_def

end
