(* ===== verification/Arbiter_Safety.thy ===== *)
theory Arbiter_Safety
  imports Arbiter
begin

text \<open>
  What the Safety Arbiter guarantees: which checks stand before every actuator call, that the
  fencing epoch never falls, that a lost lease stays lost until a higher epoch is granted, that a
  command is applied at most once, and what the watchdog does. The state machine interfaces of
  \<open>Systems\<close> are interpreted here on \<^const>\<open>arb_step\<close>.
\<close>

section \<open>Case analysis of the handlers\<close>

definition lease_authentic :: "wire \<Rightarrow> Config \<Rightarrow> gotime \<Rightarrow> Envelope \<Rightarrow> LeaseGrant \<Rightarrow> bool" where
  "lease_authentic w c now e g \<longleftrightarrow>
     ValidateEnvelope (Some e) ''platform.v1.LeaseGrant'' (VehicleID c) (GatewayID c) now now = None \<and>
     VerifyEnvelopeAuth w (Some e) (CommandMACKey c) \<and>
     unmarshal_grant w (env_payload e) = Some g \<and> validateProtoLease w c e g = None"

definition command_authentic :: "wire \<Rightarrow> Config \<Rightarrow> gotime \<Rightarrow> Envelope \<Rightarrow> ControlCommand \<Rightarrow> bool" where
  "command_authentic w c now e cmd \<longleftrightarrow>
     ValidateEnvelope (Some e) ''platform.v1.ControlCommand'' (VehicleID c) (GatewayID c) now now = None \<and>
     unmarshal_cmd w (env_payload e) = Some cmd \<and> validateProtoCommand e cmd = None \<and>
     VerifyEnvelopeAuth w (Some e) (CommandMACKey c) \<and>
     (RequireMAC c \<longrightarrow> VerifyControlCommandMAC w (Some e) (Some cmd) (CommandMACKey c))"

lemma HandleProtoLease_cases:
  obtains (refused) d where "HandleProtoLease w n1 n2 act env a = (a, decide RejectedAuth d, [])"
  | (granted) e g where "env = Some e" "lease_authentic w (cfg a) n1 e g" "lg_action g = LEASE_ACTION_GRANT"
      "HandleProtoLease w n1 n2 act env a = apply_grant n2 g a"
  | (revoked) e g where "env = Some e" "lease_authentic w (cfg a) n1 e g" "lg_action g = LEASE_ACTION_REVOKE"
      "HandleProtoLease w n1 n2 act env a = apply_revoke act g a"
proof -
  let ?out = "HandleProtoLease w n1 n2 act env a"
  have "(\<exists>d. ?out = (a, decide RejectedAuth d, [])) \<or>
    (\<exists>e g. env = Some e \<and> lease_authentic w (cfg a) n1 e g \<and>
      (lg_action g = LEASE_ACTION_GRANT \<and> ?out = apply_grant n2 g a \<or>
       lg_action g = LEASE_ACTION_REVOKE \<and> ?out = apply_revoke act g a))"
    by (auto simp: HandleProtoLease_def lease_authentic_def
        split: option.splits if_splits LeaseAction.splits)
  with refused granted revoked show thesis by blast
qed

lemma HandleProtoCommand_cases:
  obtains (refused) d where "HandleProtoCommand w n1 n2 act env a = (a, decide RejectedAuth d, [])"
  | (locked) e cmd where "env = Some e" "command_authentic w (cfg a) n1 e cmd"
      "HandleProtoCommand w n1 n2 act env a = command_locked n2 act e cmd a"
proof -
  let ?out = "HandleProtoCommand w n1 n2 act env a"
  have "(\<exists>d. ?out = (a, decide RejectedAuth d, [])) \<or>
    (\<exists>e cmd. env = Some e \<and> command_authentic w (cfg a) n1 e cmd \<and> ?out = command_locked n2 act e cmd a)"
    by (auto simp: HandleProtoCommand_def command_authentic_def split: option.splits if_splits)
  with refused locked show thesis by blast
qed

text \<open>What the locked part can do: refuse, expire the lease, apply a motion, stop.\<close>

definition command_current :: "gotime \<Rightarrow> Envelope \<Rightarrow> ControlCommand \<Rightarrow> Arbiter \<Rightarrow> activeLease \<Rightarrow> bool" where
  "command_current now e cmd a l \<longleftrightarrow>
     protoCommandFresh e cmd now (MaxClockSkew (cfg a)) = None \<and> lease a = Some l \<and>
     cmd_lease_id cmd = al_LeaseID l \<and> sint (cmd_fencing_token cmd) = al_Fencing l \<and>
     sint (cmd_fencing_token cmd) = lastFencing a \<and> time_after (al_ValidUntil l) now \<and>
     (al_SessionID l = [] \<or> al_SessionID l = cmd_control_session_id cmd) \<and>
     al_LastSeq l < sint (cmd_command_sequence cmd)"

lemma command_locked_cases:
  obtains (refused) r d where "command_locked now act e cmd a = (a, decide r d, [])"
    "r \<noteq> Accepted" "r \<noteq> Failed"
  | (expired) l where "lease a = Some l" "\<not> time_after (al_ValidUntil l) now"
      "command_locked now act e cmd a = expireLeaseLocked act ''lease_expired'' a"
  | (motion) l where "command_current now e cmd a l" "cmd_mode cmd = CONTROL_MODE_TARGET_MOTION"
      "command_locked now act e cmd a = apply_target_motion now act cmd l a"
  | (stop) l where "command_current now e cmd a l" "cmd_mode cmd = CONTROL_MODE_MINIMAL_RISK"
      "command_locked now act e cmd a = apply_minimal_risk act cmd a"
proof (cases "protoCommandFresh e cmd now (MaxClockSkew (cfg a))")
  case (Some err)
  then show thesis by (intro refused [of RejectedStale]) (simp_all add: command_locked_def)
next
  case fresh: None
  show thesis
  proof (cases "lease a")
    case None
    with fresh show thesis by (intro refused [of RejectedLease]) (simp_all add: command_locked_def)
  next
    case (Some l)
    let ?out = "command_locked now act e cmd a"
    show thesis
    proof (cases "command_current now e cmd a l")
      case True
      then have out: "?out = (case cmd_mode cmd of
          CONTROL_MODE_TARGET_MOTION \<Rightarrow> apply_target_motion now act cmd l a
        | CONTROL_MODE_MINIMAL_RISK \<Rightarrow> apply_minimal_risk act cmd a
        | _ \<Rightarrow> (a, decide RejectedLimit CmdModeUnsupported, []))"
        by (auto simp: command_locked_def command_current_def)
      show thesis
        by (cases "cmd_mode cmd")
           (use out True in \<open>auto intro: refused [of RejectedLimit CmdModeUnsupported] motion stop\<close>)
    next
      case False
      with fresh Some have "(\<exists>r d. ?out = (a, decide r d, []) \<and> r \<noteq> Accepted \<and> r \<noteq> Failed) \<or>
          \<not> time_after (al_ValidUntil l) now \<and> ?out = expireLeaseLocked act ''lease_expired'' a"
        by (auto simp: command_locked_def command_current_def)
      with Some refused expired show thesis by blast
    qed
  qed
qed

lemma apply_target_motion_cases:
  obtains (refused) d where "apply_target_motion now act cmd l a = (a, decide RejectedLimit d, [])"
  | (applied) m ns where "GetMotion cmd = Some m" "checkLimits a (motion_of m) = None"
      "act (ApplyMotion (motion_of m)) = (ns, None)"
      "apply_target_motion now act cmd l a =
        (a\<lparr>lease := Some (l\<lparr>al_SessionID := cmd_control_session_id cmd,
             al_LastSeq := sint (cmd_command_sequence cmd), al_LastCommand := now\<rparr>)\<rparr>,
         (decide Accepted CmdApplied)\<lparr>d_applied_speed := TargetSpeedMPS (motion_of m), d_applied_monotonic_ns := ns\<rparr>,
         [ApplyMotion (motion_of m)])"
  | (failed) m err where "GetMotion cmd = Some m" "checkLimits a (motion_of m) = None"
      "apply_target_motion now act cmd l a =
        (a\<lparr>lease := None, minimalRisk := ''actuator_failure''\<rparr>,
         (decide Failed (CmdActuatorFailed err))\<lparr>d_minimal_risk := True, d_risk_reason := ''actuator_failure''\<rparr>,
         [ApplyMotion (motion_of m), MinimalRisk ''actuator_failure''])"
proof (cases "GetMotion cmd")
  case None
  then show thesis by (intro refused) (simp add: apply_target_motion_def)
next
  case (Some m)
  obtain ns err where act: "act (ApplyMotion (motion_of m)) = (ns, err)" by fastforce
  show thesis
  proof (cases "checkLimits a (motion_of m)")
    case None
    with Some act applied [of m ns] failed [of m] show thesis
      by (cases err) (simp_all add: apply_target_motion_def Let_def)
  next
    case (Some e)
    with \<open>GetMotion cmd = Some m\<close> show thesis by (intro refused) (simp add: apply_target_motion_def)
  qed
qed

lemma apply_minimal_risk_cases:
  obtains (refused) "apply_minimal_risk act cmd a = (a, decide RejectedLimit CmdRiskUnspecified, [])"
  | (stopped) r d where "r \<noteq> MINIMAL_RISK_REASON_UNSPECIFIED"
      "apply_minimal_risk act cmd a =
        (a\<lparr>lease := None, minimalRisk := MinimalRiskReason_String r\<rparr>, d, [MinimalRisk (MinimalRiskReason_String r)])"
      "d_result d = Accepted \<or> d_result d = Failed"
proof (cases "GetReason (GetMinimalRisk cmd) = MINIMAL_RISK_REASON_UNSPECIFIED")
  case True
  then show thesis by (intro refused) (simp add: apply_minimal_risk_def)
next
  case False
  obtain ns err where "act (MinimalRisk (MinimalRiskReason_String (GetReason (GetMinimalRisk cmd)))) = (ns, err)"
    by fastforce
  with False show thesis
    by (intro stopped [of "GetReason (GetMinimalRisk cmd)" "decision (apply_minimal_risk act cmd a)"])
       (auto simp: apply_minimal_risk_def Let_def split: option.splits)
qed

lemma expireLeaseLocked_state [simp]:
  "new_state (expireLeaseLocked act r a) = a\<lparr>lease := None, minimalRisk := r\<rparr>"
  "calls (expireLeaseLocked act r a) = [MinimalRisk r]"
  "d_result (decision (expireLeaseLocked act r a)) = RejectedLease"
  by (simp_all add: expireLeaseLocked_def split: prod.splits)

lemma apply_revoke_cases:
  obtains (refused) "sint (lg_fencing_token g) < lastFencing a"
      "apply_revoke act g a = (a, decide RejectedFencing RevokeFencingBehind, [])"
  | (revoked) d where "lastFencing a \<le> sint (lg_fencing_token g)"
      "apply_revoke act g a =
        (a\<lparr>lastFencing := sint (lg_fencing_token g), lease := None, minimalRisk := ''lease_revoked''\<rparr>,
         d, [MinimalRisk ''lease_revoked''])"
proof (cases "sint (lg_fencing_token g) < lastFencing a")
  case True
  then show thesis by (intro refused) (auto simp: apply_revoke_def)
next
  case False
  obtain ns err where "act (MinimalRisk ''lease_revoked'') = (ns, err)" by fastforce
  with False show thesis by (intro revoked) (auto simp: apply_revoke_def)
qed

lemma apply_grant_cases:
  obtains (refused) r d where "apply_grant now g a = (a, d, [])" "d_result d = r" "r \<noteq> Accepted"
  | (renewed) l where "time_after (time_unix (lg_valid_until_unix_ns g)) now"
      "sint (lg_fencing_token g) = lastFencing a" "lease a = Some l" "al_LeaseID l = lg_lease_id g"
      "\<not> time_before (time_unix (lg_valid_until_unix_ns g)) (al_ValidUntil l)"
      "apply_grant now g a =
        (a\<lparr>lease := Some (l\<lparr>al_ValidUntil := time_unix (lg_valid_until_unix_ns g)\<rparr>)\<rparr>, decide Accepted GrantRenewed, [])"
  | (fresh) "time_after (time_unix (lg_valid_until_unix_ns g)) now"
      "lastFencing a < sint (lg_fencing_token g)"
      "apply_grant now g a =
        (a\<lparr>lastFencing := sint (lg_fencing_token g),
           lease := Some \<lparr>al_LeaseID = lg_lease_id g, al_Fencing = sint (lg_fencing_token g),
             al_ValidUntil = time_unix (lg_valid_until_unix_ns g), al_LastCommand = now,
             al_LastSeq = 0, al_SessionID = []\<rparr>,
           minimalRisk := []\<rparr>, decide Accepted GrantAccepted, [])"
proof -
  let ?until = "time_unix (lg_valid_until_unix_ns g)" and ?f = "sint (lg_fencing_token g)"
  consider (no) "\<not> time_after ?until now \<or> ?f < lastFencing a \<or> ?f = lastFencing a \<and>
      (\<forall>l. lease a = Some l \<longrightarrow> al_LeaseID l \<noteq> lg_lease_id g \<or> time_before ?until (al_ValidUntil l))"
    | (same) l where "time_after ?until now" "?f = lastFencing a" "lease a = Some l"
        "al_LeaseID l = lg_lease_id g" "\<not> time_before ?until (al_ValidUntil l)"
    | (new) "time_after ?until now" "lastFencing a < ?f"
    by fastforce
  then show thesis
  proof cases
    case no
    then show thesis
      by (intro refused [of "decision (apply_grant now g a)"])
         (auto simp: apply_grant_def Let_def split: option.splits if_splits)
  next
    case same
    then show thesis by (intro renewed) (auto simp: apply_grant_def Let_def)
  next
    case new
    then show thesis by (intro fresh) (auto simp: apply_grant_def Let_def)
  qed
qed

lemma Tick_cases:
  obtains (idle) "lease a = None" "new_state (Tick now act a) = a" "calls (Tick now act a) = []"
  | (healthy) l where "lease a = Some l" "time_after (al_ValidUntil l) now"
      "time_sub now (al_LastCommand l) \<le> Watchdog (cfg a)" "Tick now act a = (a, decide Accepted TickHealthy, [])"
  | (stopped) l r where "lease a = Some l"
      "\<not> time_after (al_ValidUntil l) now \<and> r = ''lease_expired'' \<or>
       Watchdog (cfg a) < time_sub now (al_LastCommand l) \<and> r = ''control_watchdog_timeout''"
      "new_state (Tick now act a) = a\<lparr>lease := None, minimalRisk := r\<rparr>"
      "calls (Tick now act a) = [MinimalRisk r]"
      "d_minimal_risk (decision (Tick now act a))" "d_risk_reason (decision (Tick now act a)) = r"
proof (cases "lease a")
  case None
  then show thesis by (intro idle) (auto simp: Tick_def)
next
  case (Some l)
  obtain n1 e1 where act1: "act (MinimalRisk ''lease_expired'') = (n1, e1)" by fastforce
  obtain n2 e2 where act2: "act (MinimalRisk ''control_watchdog_timeout'') = (n2, e2)" by fastforce
  consider "\<not> time_after (al_ValidUntil l) now"
    | "time_after (al_ValidUntil l) now" "Watchdog (cfg a) < time_sub now (al_LastCommand l)"
    | "time_after (al_ValidUntil l) now" "time_sub now (al_LastCommand l) \<le> Watchdog (cfg a)"
    by force
  then show thesis
  proof cases
    case 1
    with Some act1 show thesis by (intro stopped [of l "''lease_expired''"]) (auto simp: Tick_def)
  next
    case 2
    with Some act2 show thesis by (intro stopped [of l "''control_watchdog_timeout''"]) (auto simp: Tick_def)
  next
    case 3
    with Some show thesis by (intro healthy) (auto simp: Tick_def)
  qed
qed

lemmas handler_cases =
  HandleProtoLease_cases HandleProtoCommand_cases command_locked_cases
  apply_target_motion_cases apply_minimal_risk_cases apply_revoke_cases apply_grant_cases Tick_cases

section \<open>One step\<close>

text \<open>
  The only source of a motion command to the actuator is a command that is authentic, current for
  the active lease, and inside the limits.
\<close>

definition motion_authorised :: "wire \<Rightarrow> Arbiter \<Rightarrow> arb_event \<Rightarrow> Motion \<Rightarrow> bool" where
  "motion_authorised w a ev m \<longleftrightarrow>
     (\<exists>e n1 n2 act cmd l tm. ev = EvCommand (Some e) n1 n2 act \<and> command_authentic w (cfg a) n1 e cmd \<and>
        command_current n2 e cmd a l \<and> cmd_mode cmd = CONTROL_MODE_TARGET_MOTION \<and>
        GetMotion cmd = Some tm \<and> m = motion_of tm \<and> checkLimits a m = None)"

lemma command_locked_motion:
  assumes "ApplyMotion m \<in> set (calls (command_locked now act e cmd a))"
  shows "\<exists>l tm. command_current now e cmd a l \<and> cmd_mode cmd = CONTROL_MODE_TARGET_MOTION \<and>
    GetMotion cmd = Some tm \<and> m = motion_of tm \<and> checkLimits a m = None"
  using assms
proof (cases now act e cmd a rule: command_locked_cases)
  case (motion l)
  with assms show ?thesis
    by (cases now act cmd l a rule: apply_target_motion_cases) auto
next
  case (stop l)
  with assms show ?thesis by (cases act cmd a rule: apply_minimal_risk_cases) auto
qed auto

lemma apply_motion_authorised:
  assumes "ApplyMotion m \<in> set (calls (arb_out w a ev))"
  shows "motion_authorised w a ev m"
proof (cases ev)
  case (EvLease env n1 n2 act)
  from assms EvLease show ?thesis
  proof (cases w n1 n2 act env a rule: HandleProtoLease_cases)
    case (granted e g)
    with assms EvLease show ?thesis by (cases n2 g a rule: apply_grant_cases) auto
  next
    case (revoked e g)
    with assms EvLease show ?thesis by (cases act g a rule: apply_revoke_cases) auto
  qed auto
next
  case (EvCommand env n1 n2 act)
  from assms EvCommand show ?thesis
  proof (cases w n1 n2 act env a rule: HandleProtoCommand_cases)
    case (locked e cmd)
    with assms EvCommand have "ApplyMotion m \<in> set (calls (command_locked n2 act e cmd a))" by simp
    from command_locked_motion [OF this] locked EvCommand show ?thesis
      by (auto simp: motion_authorised_def)
  qed auto
next
  case (EvTick n act)
  with assms show ?thesis by (cases n act a rule: Tick_cases) auto
qed

text \<open>The configuration is never written.\<close>

lemma command_locked_frame:
  "cfg (new_state (command_locked now act e cmd a)) = cfg a"
  "lastFencing (new_state (command_locked now act e cmd a)) = lastFencing a"
proof -
  let ?a' = "new_state (command_locked now act e cmd a)"
  have "cfg ?a' = cfg a \<and> lastFencing ?a' = lastFencing a"
  proof (cases now act e cmd a rule: command_locked_cases)
    case (motion l)
    then show ?thesis by (cases now act cmd l a rule: apply_target_motion_cases) auto
  next
    case (stop l)
    then show ?thesis by (cases act cmd a rule: apply_minimal_risk_cases) auto
  qed auto
  then show "cfg ?a' = cfg a" "lastFencing ?a' = lastFencing a" by auto
qed

text \<open>A command leaves the lease as it is, drops it, or records itself in it.\<close>

lemma command_locked_lease:
  obtains (kept) "lease (new_state (command_locked now act e cmd a)) = lease a"
  | (dropped) "lease (new_state (command_locked now act e cmd a)) = None"
  | (used) l where "command_current now e cmd a l"
      "lease (new_state (command_locked now act e cmd a)) =
         Some (l\<lparr>al_SessionID := cmd_control_session_id cmd,
                 al_LastSeq := sint (cmd_command_sequence cmd), al_LastCommand := now\<rparr>)"
proof (cases now act e cmd a rule: command_locked_cases)
  case (motion l)
  then show thesis
    by (cases now act cmd l a rule: apply_target_motion_cases) (auto intro: kept dropped used)
next
  case (stop l)
  then show thesis by (cases act cmd a rule: apply_minimal_risk_cases) (auto intro: kept dropped)
qed (auto intro: kept dropped)

text \<open>
  One step, summarised: it keeps epoch and lease, or keeps the epoch and drops the lease, or
  updates the lease in its epoch (a renewal or a command), or starts a new epoch.
\<close>

lemma arb_step_cases:
  obtains (kept) "lastFencing (arb_step w a ev) = lastFencing a" "lease (arb_step w a ev) = lease a"
  | (dropped) "lastFencing a \<le> lastFencing (arb_step w a ev)" "lease (arb_step w a ev) = None"
  | (renewed) l until where "lease a = Some l" "lastFencing (arb_step w a ev) = lastFencing a"
      "lease (arb_step w a ev) = Some (l\<lparr>al_ValidUntil := until\<rparr>)"
  | (used) l sid s n where "lease a = Some l" "lastFencing (arb_step w a ev) = lastFencing a" "al_LastSeq l < s"
      "lease (arb_step w a ev) = Some (l\<lparr>al_SessionID := sid, al_LastSeq := s, al_LastCommand := n\<rparr>)"
  | (granted) lid until n where "lastFencing a < lastFencing (arb_step w a ev)" "lid \<noteq> []"
      "lease (arb_step w a ev) = Some \<lparr>al_LeaseID = lid, al_Fencing = lastFencing (arb_step w a ev),
         al_ValidUntil = until, al_LastCommand = n, al_LastSeq = 0, al_SessionID = []\<rparr>"
proof (cases ev)
  case (EvLease env n1 n2 act)
  then show thesis
  proof (cases w n1 n2 act env a rule: HandleProtoLease_cases)
    case (refused d)
    with EvLease show thesis by (intro kept) (auto simp: arb_step_def)
  next
    case (granted e g)
    have ne: "lg_lease_id g \<noteq> []"
      using granted(2) by (auto simp: lease_authentic_def validateProtoLease_def split: if_splits)
    from granted EvLease ne show thesis
      by (cases n2 g a rule: apply_grant_cases)
         (auto simp: arb_step_def intro: kept renewed that(5) [where lid = "lg_lease_id g"])
  next
    case (revoked e g)
    with EvLease show thesis
      by (cases act g a rule: apply_revoke_cases) (auto simp: arb_step_def intro: kept dropped)
  qed
next
  case (EvCommand env n1 n2 act)
  then show thesis
  proof (cases w n1 n2 act env a rule: HandleProtoCommand_cases)
    case (refused d)
    with EvCommand show thesis by (intro kept) (auto simp: arb_step_def)
  next
    case (locked e cmd)
    have frame: "lastFencing (arb_step w a ev) = lastFencing a"
      using locked EvCommand by (simp add: arb_step_def command_locked_frame)
    show thesis
    proof (cases n2 act e cmd a rule: command_locked_lease)
      case kept
      with locked EvCommand frame show thesis by (intro that(1)) (auto simp: arb_step_def)
    next
      case dropped
      with locked EvCommand frame show thesis by (intro that(2)) (auto simp: arb_step_def)
    next
      case (used l)
      then have "lease a = Some l" "al_LastSeq l < sint (cmd_command_sequence cmd)"
        by (auto simp: command_current_def)
      with used locked EvCommand frame show thesis by (intro that(4)) (auto simp: arb_step_def)
    qed
  qed
next
  case (EvTick n act)
  then show thesis
    by (cases n act a rule: Tick_cases) (auto simp: arb_step_def intro: kept dropped)
qed

lemma arb_step_cfg [simp]: "cfg (arb_step w a ev) = cfg a"
proof (cases ev)
  case (EvLease env n1 n2 act)
  then show ?thesis
  proof (cases w n1 n2 act env a rule: HandleProtoLease_cases)
    case (granted e g)
    with EvLease show ?thesis by (cases n2 g a rule: apply_grant_cases) (auto simp: arb_step_def)
  next
    case (revoked e g)
    with EvLease show ?thesis by (cases act g a rule: apply_revoke_cases) (auto simp: arb_step_def)
  qed (auto simp: arb_step_def)
next
  case (EvCommand env n1 n2 act)
  then show ?thesis
    by (cases w n1 n2 act env a rule: HandleProtoCommand_cases) (auto simp: arb_step_def command_locked_frame)
next
  case (EvTick n act)
  then show ?thesis by (cases n act a rule: Tick_cases) (auto simp: arb_step_def)
qed

section \<open>All runs\<close>

text \<open>The fencing epoch never falls, and a lost lease needs a higher epoch.\<close>

interpretation arb_latch: latched_machine "arb_step w" lastFencing "\<lambda>a. lease a \<noteq> None" for w
proof unfold_locales
  show "lastFencing s \<le> lastFencing (arb_step w s e)" for s e
    by (rule arb_step_cases [where w = w and a = s and ev = e]) auto
  show "\<not> lease s \<noteq> None \<Longrightarrow> lease (arb_step w s e) \<noteq> None \<Longrightarrow> lastFencing s < lastFencing (arb_step w s e)" for s e
    by (rule arb_step_cases [where w = w and a = s and ev = e]) auto
qed

text \<open>
  The invariant of a constructed arbiter: the epoch is a non-negative \<open>int64\<close>; an active lease
  belongs to the current epoch, which is then positive, has an id, and its last sequence number
  is not negative.
\<close>

definition arb_inv :: "Arbiter \<Rightarrow> bool" where
  "arb_inv a \<longleftrightarrow> 0 \<le> lastFencing a \<and>
     (case lease a of None \<Rightarrow> True
      | Some l \<Rightarrow> al_Fencing l = lastFencing a \<and> 0 < lastFencing a \<and> al_LeaseID l \<noteq> [] \<and> 0 \<le> al_LastSeq l)"

interpretation arb_invariant: invariant_machine "arb_step w" arb_inv for w
proof unfold_locales
  show "arb_inv s \<Longrightarrow> arb_inv (arb_step w s e)" for s e
    by (rule arb_step_cases [where w = w and a = s and ev = e]) (auto simp: arb_inv_def split: option.splits)
qed

text \<open>
  A pair of epoch and sequence number is spent when the epoch is over, or when it is the current
  one and the active lease, if any, has already seen that sequence number.
\<close>

definition spent :: "int \<Rightarrow> int \<Rightarrow> Arbiter \<Rightarrow> bool" where
  "spent f s a \<longleftrightarrow> f < lastFencing a \<or>
     f = lastFencing a \<and> (case lease a of None \<Rightarrow> True | Some l \<Rightarrow> s \<le> al_LastSeq l)"

interpretation arb_spent: invariant_machine "arb_step w" "spent f s" for w f s
proof unfold_locales
  show "spent f s a \<Longrightarrow> spent f s (arb_step w a e)" for a e
    by (rule arb_step_cases [where w = w and a = a and ev = e]) (auto simp: spent_def split: option.splits)
qed

lemma command_current_not_spent:
  "command_current now e cmd a l \<Longrightarrow>
   \<not> spent (sint (cmd_fencing_token cmd)) (sint (cmd_command_sequence cmd)) a"
  by (auto simp: command_current_def spent_def)

text \<open>After a motion call, the command's pair is spent, whether the actuator accepted or failed.\<close>

lemma command_locked_spends:
  assumes "ApplyMotion m \<in> set (calls (command_locked now act e cmd a))"
  shows "spent (sint (cmd_fencing_token cmd)) (sint (cmd_command_sequence cmd)) (new_state (command_locked now act e cmd a))"
proof (cases now act e cmd a rule: command_locked_cases)
  case (motion l)
  then have f: "sint (cmd_fencing_token cmd) = lastFencing a" by (simp add: command_current_def)
  from assms motion(3) show ?thesis
    by (cases now act cmd l a rule: apply_target_motion_cases) (auto simp: spent_def f)
next
  case (stop l)
  with assms show ?thesis by (cases act cmd a rule: apply_minimal_risk_cases) auto
qed (use assms in auto)

text \<open>The bounds that \<^const>\<open>checkLimits\<close> establishes, for finite limits.\<close>

lemma checkLimits_bounds:
  assumes "checkLimits a m = None"
    and "cfg_Limits (cfg a) = \<lparr>MaxSpeedMPS = Fin vs, MaxAccelerationMPS = Fin va, MaxCurvatureInvM = Fin vc, MaxYawRateRadPS = Fin vy\<rparr>"
  shows "\<exists>s x c y. m = \<lparr>TargetSpeedMPS = Fin s, TargetAccelerationMPS = Fin x, TargetCurvatureInvM = Fin c, TargetYawRateRadPS = Fin y\<rparr>
    \<and> 0 \<le> s \<and> s \<le> vs \<and> \<bar>x\<bar> \<le> va \<and> \<bar>c\<bar> \<le> vc \<and> \<bar>y\<bar> \<le> vy"
proof -
  obtain s x c y where "m = \<lparr>TargetSpeedMPS = Fin s, TargetAccelerationMPS = Fin x, TargetCurvatureInvM = Fin c, TargetYawRateRadPS = Fin y\<rparr>"
    using assms(1) finite_cases
    by (cases m) (simp add: checkLimits_def Let_def split: if_splits, metis)
  with assms show ?thesis by (auto simp: checkLimits_def not_less split: if_splits)
qed

end
