(* ===== verification/Arbiter_Props.thy ===== *)
theory Arbiter_Props
  imports Arbiter_Safety
begin

text \<open>
  The properties of the Safety Arbiter, over every sequence of events an arbiter built by
  \<^const>\<open>NewArbiter\<close> can see, each with a witness on a concrete run.
\<close>

section \<open>A concrete run\<close>

text \<open>
  A small scenario on which the hypotheses of the properties hold: a configured arbiter, a grant,
  a motion command, and a protobuf and crypto instance that answers for these messages.
\<close>

definition demo_cfg :: Config where
  "demo_cfg = \<lparr>VehicleID = ''v1'', GatewayID = ''g1'', AuthorityKeys = [(''k1'', replicate 32 7)],
     CommandMACKey = replicate 32 9, RequireMAC = True, Watchdog = 0, MaxClockSkew = 0,
     cfg_Limits = \<lparr>MaxSpeedMPS = Fin 1, MaxAccelerationMPS = Fin 1, MaxCurvatureInvM = Fin (1/2), MaxYawRateRadPS = Fin (4/5)\<rparr>,
     HasActuator = True\<rparr>"

definition demo_t :: int where "demo_t = 1700000000000000000"

definition demo_now :: "int \<Rightarrow> gotime" where
  "demo_now d = \<lparr>wall = demo_t + d, mono = Some (5 + d)\<rparr>"

definition demo_grant :: LeaseGrant where
  "demo_grant = \<lparr>lg_version = 1, lg_action = LEASE_ACTION_GRANT, lg_vehicle_id = ''v1'', lg_gateway_id = ''g1'',
     lg_lease_id = ''lease-1'', lg_driver_id = ''alice'', lg_device_id = ''dev-1'', lg_fencing_token = 3,
     lg_valid_until_unix_ns = demo_t + 45 * second, lg_issued_at_unix_ns = demo_t,
     lg_authority_key_id = ''k1'', lg_authority_signature = replicate 64 4, lg_unknown = []\<rparr>"

definition demo_cmd :: ControlCommand where
  "demo_cmd = \<lparr>cmd_control_session_id = ''s1'', cmd_lease_id = ''lease-1'', cmd_fencing_token = 3,
     cmd_command_sequence = 8, cmd_issued_monotonic_ns = 77, cmd_ttl_ms = 200,
     cmd_mode = CONTROL_MODE_TARGET_MOTION,
     cmd_command = Some (Cmd_Motion \<lparr>target_speed_mps = Fin (1/2), target_acceleration_mps2 = Fin 0,
       target_curvature_inv_m = Fin (-1/4), target_yaw_rate_radps = Fin 0\<rparr>),
     cmd_end_to_end_mac = replicate 32 5, cmd_unknown = []\<rparr>"

definition demo_wire :: wire where
  "demo_wire = \<lparr>marshal_env = (\<lambda>_. Some [0]), unmarshal_env = (\<lambda>_. None),
     marshal_cmd = (\<lambda>_. Some [0]), unmarshal_cmd = (\<lambda>b. if b = [1] then Some demo_cmd else None),
     marshal_grant = (\<lambda>_. Some [0]), unmarshal_grant = (\<lambda>b. if b = [2] then Some demo_grant else None),
     hmac_sha256 = (\<lambda>_ _. replicate 32 5), ed25519_sign = (\<lambda>_ _. replicate 64 4),
     ed25519_verify = (\<lambda>_ _ _. True), ed25519_public = (\<lambda>_. replicate 32 7)\<rparr>"

definition demo_env :: "string \<Rightarrow> u64 \<Rightarrow> u32 \<Rightarrow> bytes \<Rightarrow> Envelope" where
  "demo_env ty sq ttl pl = \<lparr>env_schema_major = 1, env_schema_minor = 0, env_message_type = ty,
     env_vehicle_id = ''v1'', env_gateway_id = ''g1'', env_session_id = ''s1'', env_sequence = sq,
     env_utc_time_ns = demo_t, env_monotonic_time_ns = 1, env_ttl_ms = ttl, env_trace_id = ''t'',
     env_payload = pl, env_auth_tag = replicate 32 5, env_unknown = []\<rparr>"

definition demo_act :: actuator where "demo_act c = (11, None)"

definition demo_lease_event :: arb_event where
  "demo_lease_event = EvLease (Some (demo_env ''platform.v1.LeaseGrant'' 3 30000 [2])) (demo_now 0) (demo_now 1) demo_act"

definition demo_command_event :: arb_event where
  "demo_command_event = EvCommand (Some (demo_env ''platform.v1.ControlCommand'' 8 200 [1])) (demo_now 2) (demo_now 3) demo_act"

definition demo_arbiter :: Arbiter where
  "demo_arbiter = (case NewArbiter demo_cfg of Inr a \<Rightarrow> a | Inl _ \<Rightarrow> undefined)"


definition demo_motion :: Motion where
  "demo_motion = \<lparr>TargetSpeedMPS = Fin (1/2), TargetAccelerationMPS = Fin 0, TargetCurvatureInvM = Fin (-1/4), TargetYawRateRadPS = Fin 0\<rparr>"

lemma demo_new: "NewArbiter demo_cfg = Inr demo_arbiter"
  by (simp add: demo_arbiter_def) code_simp
lemma demo_applies:
  "calls (arb_out demo_wire (run (arb_step demo_wire) demo_arbiter [demo_lease_event]) demo_command_event) = [ApplyMotion demo_motion]"
  by code_simp

lemma NewArbiter_init:
  assumes "NewArbiter c = Inr a"
  shows "arb_inv a" "lease a = None" "lastFencing a = 0" "CommandMACKey (cfg a) = CommandMACKey c"
    "RequireMAC (cfg a) = RequireMAC c" "cfg_Limits (cfg a) = cfg_Limits c"
    "VehicleID (cfg a) = VehicleID c" "GatewayID (cfg a) = GatewayID c" "AuthorityKeys (cfg a) = AuthorityKeys c"
    "0 < Watchdog (cfg a)" "0 < MaxClockSkew (cfg a)"
  using assms
  by (auto simp: NewArbiter_def Let_def arb_inv_def millisecond_def second_def split: if_splits)

lemma run_cfg [simp]: "cfg (run (arb_step w) a es) = cfg a"
  by (induction es arbitrary: a) auto

lemma ttl_duration_le_second: "t \<le> 1000 \<Longrightarrow> ttl_duration t \<le> second"
  by (simp add: ttl_duration_def second_def millisecond_def word_le_def)

section \<open>Properties\<close>

text \<open>
  C1. Vehicle-side final say: whatever messages, ticks and clock readings an arbiter has seen, it
  passes a motion to the actuator only for a control command whose envelope tag (and end-to-end
  MAC, when required) verifies under the session key, which names the active lease, carries the
  current fencing epoch, whose lease is not expired and whose sequence number is new.
\<close>

theorem arbiter_motion_gate:
  assumes "NewArbiter c = Inr a0" and "a = run (arb_step w) a0 es"
    and "ApplyMotion m \<in> set (calls (arb_out w a ev))"
  shows "\<exists>e n1 n2 act cmd tm l. ev = EvCommand (Some e) n1 n2 act
    \<and> VerifyEnvelopeAuth w (Some e) (CommandMACKey c)
    \<and> (RequireMAC c \<longrightarrow> VerifyControlCommandMAC w (Some e) (Some cmd) (CommandMACKey c))
    \<and> env_vehicle_id e = VehicleID c \<and> env_gateway_id e = GatewayID c
    \<and> unmarshal_cmd w (env_payload e) = Some cmd \<and> GetMotion cmd = Some tm \<and> m = motion_of tm
    \<and> lease a = Some l \<and> cmd_lease_id cmd = al_LeaseID l
    \<and> sint (cmd_fencing_token cmd) = lastFencing a \<and> 0 < lastFencing a
    \<and> time_after (al_ValidUntil l) n2 \<and> al_LastSeq l < sint (cmd_command_sequence cmd)"
proof -
  note init = NewArbiter_init [OF assms(1)]
  have inv: "arb_inv a" using assms(2) arb_invariant.run_inv [OF init(1)] by simp
  from apply_motion_authorised [OF assms(3)] obtain e n1 n2 act cmd l tm where
    ev: "ev = EvCommand (Some e) n1 n2 act" and auth: "command_authentic w (cfg a) n1 e cmd"
    and cur: "command_current n2 e cmd a l" and tm: "GetMotion cmd = Some tm" "m = motion_of tm"
    by (auto simp: motion_authorised_def)
  have "0 < lastFencing a"
    using inv cur by (auto simp: arb_inv_def command_current_def)
  with ev auth cur tm init assms(2) show ?thesis
    by (auto simp: command_authentic_def command_current_def ValidateEnvelopeD(4,6))
qed

theorem arbiter_motion_gate_witness:
  "ApplyMotion demo_motion \<in> set (calls (arb_out demo_wire
      (run (arb_step demo_wire) demo_arbiter [demo_lease_event]) demo_command_event)) \<and>
   (\<exists>l. lease (run (arb_step demo_wire) demo_arbiter [demo_lease_event]) = Some l)"
proof -
  have c: "ApplyMotion demo_motion \<in> set (calls (arb_out demo_wire
      (run (arb_step demo_wire) demo_arbiter [demo_lease_event]) demo_command_event))"
    by (simp only: demo_applies) simp
  from arbiter_motion_gate [OF demo_new refl c] c show ?thesis by blast
qed

text \<open>
  C5. With finite calibrated limits, every motion that reaches the actuator is finite, its speed
  is between zero and the limit, and its acceleration, curvature and yaw rate are within theirs.
\<close>

theorem arbiter_motion_limits:
  assumes "NewArbiter c = Inr a0" and "ApplyMotion m \<in> set (calls (arb_out w (run (arb_step w) a0 es) ev))"
    and "cfg_Limits c = \<lparr>MaxSpeedMPS = Fin vs, MaxAccelerationMPS = Fin va, MaxCurvatureInvM = Fin vc, MaxYawRateRadPS = Fin vy\<rparr>"
  shows "\<exists>s x k y. m = \<lparr>TargetSpeedMPS = Fin s, TargetAccelerationMPS = Fin x, TargetCurvatureInvM = Fin k, TargetYawRateRadPS = Fin y\<rparr>
    \<and> 0 \<le> s \<and> s \<le> vs \<and> \<bar>x\<bar> \<le> va \<and> \<bar>k\<bar> \<le> vc \<and> \<bar>y\<bar> \<le> vy"
proof -
  let ?a = "run (arb_step w) a0 es"
  have "checkLimits ?a m = None"
    using apply_motion_authorised [OF assms(2)] by (auto simp: motion_authorised_def)
  then show ?thesis
    by (rule checkLimits_bounds) (simp add: NewArbiter_init [OF assms(1)] assms(3))
qed

theorem arbiter_motion_limits_witness:
  "\<exists>s. TargetSpeedMPS demo_motion = Fin s \<and> s \<le> 1"
proof -
  have c: "ApplyMotion demo_motion \<in> set (calls (arb_out demo_wire
      (run (arb_step demo_wire) demo_arbiter [demo_lease_event]) demo_command_event))"
    by (simp only: demo_applies) simp
  have "cfg_Limits demo_cfg = \<lparr>MaxSpeedMPS = Fin 1, MaxAccelerationMPS = Fin 1, MaxCurvatureInvM = Fin (1/2), MaxYawRateRadPS = Fin (4/5)\<rparr>"
    by (simp add: demo_cfg_def)
  from arbiter_motion_limits [OF demo_new c this] show ?thesis by (metis Motion.select_convs(1))
qed

text \<open>
  C3. A lost lease is latched: from a state without a lease, whatever happens, the arbiter has a
  lease again only after its fencing epoch has strictly risen, and the epoch never falls. A
  delayed or repeated packet of the old epoch cannot re-arm the vehicle.
\<close>

theorem arbiter_latch:
  "lastFencing a \<le> lastFencing (run (arb_step w) a es) \<and>
   (lease a = None \<longrightarrow> lease (run (arb_step w) a es) \<noteq> None \<longrightarrow>
      lastFencing a < lastFencing (run (arb_step w) a es))"
  using arb_latch.run_epoch arb_latch.rearm_raises_epoch by blast

theorem arbiter_latch_witness:
  "lastFencing demo_arbiter < lastFencing (run (arb_step demo_wire) demo_arbiter [demo_lease_event])"
proof -
  have "lease demo_arbiter = None" by (rule NewArbiter_init [OF demo_new])
  moreover have "lease (run (arb_step demo_wire) demo_arbiter [demo_lease_event]) \<noteq> None" by code_simp
  ultimately show ?thesis using arbiter_latch [of demo_arbiter demo_wire "[demo_lease_event]"] by blast
qed

text \<open>
  C6. No command is applied twice: once a command envelope has led to a motion call, no later
  presentation of an envelope with the same payload leads to another one, in any state reached
  from there, at any time and whatever the actuator answers.
\<close>

theorem arbiter_no_replay:
  assumes "ApplyMotion m \<in> set (calls (HandleProtoCommand w n1 n2 act (Some e) a))"
    and "b = run (arb_step w) (new_state (HandleProtoCommand w n1 n2 act (Some e) a)) es"
    and "env_payload e' = env_payload e"
  shows "ApplyMotion m' \<notin> set (calls (HandleProtoCommand w n1' n2' act' (Some e') b))"
proof
  assume again: "ApplyMotion m' \<in> set (calls (HandleProtoCommand w n1' n2' act' (Some e') b))"
  obtain cmd where cmd: "unmarshal_cmd w (env_payload e) = Some cmd"
    and out: "HandleProtoCommand w n1 n2 act (Some e) a = command_locked n2 act e cmd a"
    using assms(1) by (cases w n1 n2 act "Some e" a rule: HandleProtoCommand_cases) (auto simp: command_authentic_def)
  let ?sp = "spent (sint (cmd_fencing_token cmd)) (sint (cmd_command_sequence cmd))"
  have "?sp (new_state (HandleProtoCommand w n1 n2 act (Some e) a))"
    using assms(1) out by (simp add: command_locked_spends)
  then have "?sp b" using assms(2) arb_spent.run_inv by blast
  moreover from again obtain l where "command_current n2' e' cmd b l"
    using apply_motion_authorised [of m' w b "EvCommand (Some e') n1' n2' act'"] cmd assms(3)
    by (auto simp: motion_authorised_def command_authentic_def)
  ultimately show False using command_current_not_spent by blast
qed

theorem arbiter_no_replay_witness:
  "ApplyMotion demo_motion \<notin> set (calls (HandleProtoCommand demo_wire (demo_now 7) (demo_now 8) demo_act
     (Some (demo_env ''platform.v1.ControlCommand'' 8 200 [1]))
     (run (arb_step demo_wire) demo_arbiter [demo_lease_event, demo_command_event])))"
proof -
  let ?a = "run (arb_step demo_wire) demo_arbiter [demo_lease_event]"
  let ?h = "HandleProtoCommand demo_wire (demo_now 2) (demo_now 3) demo_act (Some (demo_env ''platform.v1.ControlCommand'' 8 200 [1])) ?a"
  have c: "ApplyMotion demo_motion \<in> set (calls ?h)"
    using demo_applies by (simp add: demo_command_event_def)
  have r: "run (arb_step demo_wire) demo_arbiter [demo_lease_event, demo_command_event] =
      run (arb_step demo_wire) (new_state ?h) []"
    by (simp add: arb_step_def demo_command_event_def)
  from arbiter_no_replay [OF c r refl] show ?thesis .
qed

text \<open>
  C7. The watchdog: a tick stops the vehicle exactly when there is a lease that has expired or has
  gone without a command for longer than the watchdog. It then drops the lease, records the
  reason, and makes exactly one call, the minimal-risk one with that reason; otherwise it changes
  nothing and calls nothing.
\<close>

theorem arbiter_watchdog:
  "let late = (\<exists>l. lease a = Some l \<and> (\<not> time_after (al_ValidUntil l) now \<or> Watchdog (cfg a) < time_sub now (al_LastCommand l)))
   in if late then \<exists>r. r \<in> {''lease_expired'', ''control_watchdog_timeout''} \<and> calls (Tick now act a) = [MinimalRisk r] \<and>
          new_state (Tick now act a) = a\<lparr>lease := None, minimalRisk := r\<rparr> \<and> d_minimal_risk (decision (Tick now act a))
      else calls (Tick now act a) = [] \<and> new_state (Tick now act a) = a"
  by (cases now act a rule: Tick_cases) auto

theorem arbiter_watchdog_witness:
  "\<exists>r. calls (Tick (demo_now (46 * second)) demo_act (run (arb_step demo_wire) demo_arbiter [demo_lease_event])) = [MinimalRisk r]"
proof -
  let ?a = "run (arb_step demo_wire) demo_arbiter [demo_lease_event]" and ?now = "demo_now (46 * second)"
  have "case lease ?a of None \<Rightarrow> False | Some l \<Rightarrow> \<not> time_after (al_ValidUntil l) ?now" by code_simp
  then have "\<exists>l. lease ?a = Some l \<and>
      (\<not> time_after (al_ValidUntil l) ?now \<or> Watchdog (cfg ?a) < time_sub ?now (al_LastCommand l))"
    by (auto split: option.splits)
  with arbiter_watchdog [where a = ?a and now = ?now and act = demo_act] show ?thesis
    by (auto simp: Let_def)
qed

text \<open>
  A refusal has no effect: when the decision on a lease or a command is anything but accepted,
  failed, or a lease refusal, the state is unchanged and the actuator was not called.
\<close>

theorem arbiter_refusal_frame:
  assumes "d_result (decision (arb_out w a ev)) \<in> {RejectedAuth, RejectedFencing, RejectedLimit, RejectedStale}"
    and "\<nexists>n act. ev = EvTick n act"
  shows "new_state (arb_out w a ev) = a \<and> calls (arb_out w a ev) = []"
proof (cases ev)
  case (EvLease env n1 n2 act)
  then show ?thesis
  proof (cases w n1 n2 act env a rule: HandleProtoLease_cases)
    case (granted e g)
    with EvLease assms show ?thesis by (cases n2 g a rule: apply_grant_cases) auto
  next
    case (revoked e g)
    with EvLease assms(1) show ?thesis
      by (auto simp: apply_revoke_def Let_def split: if_splits prod.splits option.splits)
  qed auto
next
  case (EvCommand env n1 n2 act)
  then show ?thesis
  proof (cases w n1 n2 act env a rule: HandleProtoCommand_cases)
    case (locked e cmd)
    then have out: "arb_out w a ev = command_locked n2 act e cmd a" using EvCommand by simp
    show ?thesis
    proof (cases n2 act e cmd a rule: command_locked_cases)
      case (motion l)
      with out assms(1) show ?thesis by (cases n2 act cmd l a rule: apply_target_motion_cases) auto
    next
      case (stop l)
      with out assms(1) show ?thesis by (cases act cmd a rule: apply_minimal_risk_cases) auto
    qed (use out assms(1) in auto)
  qed (use EvCommand in auto)
qed (use assms(2) in auto)

theorem arbiter_refusal_frame_witness:
  "new_state (arb_out demo_wire demo_arbiter (EvLease None (demo_now 0) (demo_now 1) demo_act)) = demo_arbiter"
proof -
  have "d_result (decision (arb_out demo_wire demo_arbiter (EvLease None (demo_now 0) (demo_now 1) demo_act))) = RejectedAuth"
    by (simp add: HandleProtoLease_def)
  then show ?thesis
    using arbiter_refusal_frame [of demo_wire demo_arbiter "EvLease None (demo_now 0) (demo_now 1) demo_act"] by simp
qed

text \<open>
  Lease authority: a lease message changes the arbiter only if its envelope tag verifies, it
  is addressed to this vehicle and gateway, and the grant in it carries a valid Ed25519 signature
  of a configured authority key over the grant without its signature.
\<close>

theorem arbiter_lease_authority:
  assumes "new_state (HandleProtoLease w n1 n2 act env a) \<noteq> a"
  shows "\<exists>e g key canonical. env = Some e \<and> VerifyEnvelopeAuth w (Some e) (CommandMACKey (cfg a)) \<and>
    unmarshal_grant w (env_payload e) = Some g \<and>
    lg_vehicle_id g = VehicleID (cfg a) \<and> lg_gateway_id g = GatewayID (cfg a) \<and> env_sequence e = lg_fencing_token g \<and>
    map_of (AuthorityKeys (cfg a)) (lg_authority_key_id g) = Some key \<and> length key = 32 \<and>
    marshal_grant w (g\<lparr>lg_authority_signature := []\<rparr>) = Some canonical \<and>
    ed25519_verify w key canonical (lg_authority_signature g) \<and>
    lastFencing a \<le> sint (lg_fencing_token g)"
proof -
  have "\<exists>e g. env = Some e \<and> lease_authentic w (cfg a) n1 e g \<and> lastFencing a \<le> sint (lg_fencing_token g)"
  proof (cases w n1 n2 act env a rule: HandleProtoLease_cases)
    case (refused d)
    with assms show ?thesis by simp
  next
    case (granted e g)
    with assms show ?thesis by (cases n2 g a rule: apply_grant_cases) auto
  next
    case (revoked e g)
    with assms show ?thesis by (cases act g a rule: apply_revoke_cases) auto
  qed
  then obtain e g where e: "env = Some e" "lease_authentic w (cfg a) n1 e g" "lastFencing a \<le> sint (lg_fencing_token g)" by blast
  then have "validateProtoLease w (cfg a) e g = None" by (simp add: lease_authentic_def)
  with e show ?thesis
    by (auto simp: lease_authentic_def validateProtoLease_def Let_def split: if_splits option.splits)
qed

theorem arbiter_lease_authority_witness:
  "\<exists>key. map_of (AuthorityKeys demo_cfg) ''k1'' = Some key \<and>
    new_state (HandleProtoLease demo_wire (demo_now 0) (demo_now 1) demo_act
      (Some (demo_env ''platform.v1.LeaseGrant'' 3 30000 [2])) demo_arbiter) \<noteq> demo_arbiter"
proof -
  have ch: "lease (new_state (HandleProtoLease demo_wire (demo_now 0) (demo_now 1) demo_act
      (Some (demo_env ''platform.v1.LeaseGrant'' 3 30000 [2])) demo_arbiter)) \<noteq> None" by code_simp
  then have ne: "new_state (HandleProtoLease demo_wire (demo_now 0) (demo_now 1) demo_act
      (Some (demo_env ''platform.v1.LeaseGrant'' 3 30000 [2])) demo_arbiter) \<noteq> demo_arbiter"
    using NewArbiter_init(2) [OF demo_new] by auto
  from arbiter_lease_authority [OF ne] ne show ?thesis
    by (auto simp: demo_env_def demo_wire_def demo_grant_def NewArbiter_init [OF demo_new])
qed

text \<open>
  Fencing tokens and command sequence numbers are unsigned on the wire and signed in the
  arbiter. A command whose token or sequence number is at least \<open>2 ^ 63\<close> never moves the vehicle:
  its signed reading is negative, below everything a constructed arbiter holds.
\<close>

theorem arbiter_no_wraparound:
  assumes "NewArbiter c = Inr a0" and "unmarshal_cmd w (env_payload e) = Some cmd"
    and "2 ^ 63 \<le> uint (cmd_fencing_token cmd) \<or> 2 ^ 63 \<le> uint (cmd_command_sequence cmd)"
  shows "ApplyMotion m \<notin> set (calls (HandleProtoCommand w n1 n2 act (Some e) (run (arb_step w) a0 es)))"
proof
  let ?a = "run (arb_step w) a0 es"
  assume "ApplyMotion m \<in> set (calls (HandleProtoCommand w n1 n2 act (Some e) ?a))"
  then obtain l where cur: "command_current n2 e cmd ?a l"
    using apply_motion_authorised [of m w ?a "EvCommand (Some e) n1 n2 act"] assms(2)
    by (auto simp: motion_authorised_def command_authentic_def)
  have "arb_inv ?a" by (rule arb_invariant.run_inv [OF NewArbiter_init(1) [OF assms(1)]])
  with cur have "0 \<le> sint (cmd_fencing_token cmd)" "0 \<le> sint (cmd_command_sequence cmd)"
    by (auto simp: arb_inv_def command_current_def)
  with assms(3) show False using sint_u64_neg by (metis not_le)
qed

theorem arbiter_no_wraparound_witness:
  "ApplyMotion demo_motion \<notin> set (calls (HandleProtoCommand
     (demo_wire\<lparr>unmarshal_cmd := \<lambda>_. Some (demo_cmd\<lparr>cmd_command_sequence := 18446744073709551615\<rparr>)\<rparr>) (demo_now 2) (demo_now 3) demo_act
     (Some (demo_env ''platform.v1.ControlCommand'' 18446744073709551615 200 [1])) demo_arbiter))"
proof -
  have big: "2 ^ 63 \<le> uint (cmd_fencing_token (demo_cmd\<lparr>cmd_command_sequence := 18446744073709551615\<rparr>)) \<or>
    2 ^ 63 \<le> uint (cmd_command_sequence (demo_cmd\<lparr>cmd_command_sequence := 18446744073709551615\<rparr>))"
    by simp
  show ?thesis
    using arbiter_no_wraparound [OF demo_new _ big, of _ _ _ _ _ _ "[]"] by simp
qed

text \<open>
  Freshness: a motion reaches the actuator only within the command's time to live of at most
  one second, plus the configured clock skew, of the time the sender stamped on the envelope, and
  not earlier than the skew allows.
\<close>

theorem arbiter_motion_fresh:
  assumes "ApplyMotion m \<in> set (calls (HandleProtoCommand w n1 n2 act (Some e) a))"
    and "0 < MaxClockSkew (cfg a)" "MaxClockSkew (cfg a) \<le> hour"
  shows "env_utc_time_ns e - MaxClockSkew (cfg a) \<le> wall n2 \<and>
    wall n2 \<le> env_utc_time_ns e + second + MaxClockSkew (cfg a)"
proof -
  obtain cmd l where "validateProtoCommand e cmd = None" "protoCommandFresh e cmd n2 (MaxClockSkew (cfg a)) = None"
    using apply_motion_authorised [of m w a "EvCommand (Some e) n1 n2 act"] assms(1)
    by (auto simp: motion_authorised_def command_authentic_def command_current_def)
  then have "env_ttl_ms e \<le> 1000" and age: "- MaxClockSkew (cfg a) \<le> time_sub n2 (time_unix (env_utc_time_ns e))"
    "time_sub n2 (time_unix (env_utc_time_ns e)) \<le> ttl_duration (env_ttl_ms e) + MaxClockSkew (cfg a)"
    by (auto simp: validateProtoCommand_def protoCommandFresh_def Let_def split: if_splits)
  moreover from this(1) have "ttl_duration (env_ttl_ms e) \<le> second" by (rule ttl_duration_le_second)
  moreover have "hour + second < int64_max" "int64_min < - hour"
    by (simp_all add: hour_def second_def int64_max_def int64_min_def)
  ultimately show ?thesis using assms(2,3)
    by (auto simp: time_sub_def time_diff_def time_unix_def sat64_def split: if_splits option.splits)
qed

theorem arbiter_motion_fresh_witness:
  "env_utc_time_ns (demo_env ''platform.v1.ControlCommand'' 8 200 [1]) - 2 * second \<le> wall (demo_now 3)"
proof -
  let ?a = "run (arb_step demo_wire) demo_arbiter [demo_lease_event]"
  have c: "ApplyMotion demo_motion \<in> set (calls (HandleProtoCommand demo_wire (demo_now 2) (demo_now 3) demo_act
      (Some (demo_env ''platform.v1.ControlCommand'' 8 200 [1])) ?a))"
    using demo_applies by (simp add: demo_command_event_def)
  have "MaxClockSkew (cfg ?a) = 2 * second" by code_simp
  with arbiter_motion_fresh [OF c] show ?thesis by (simp add: second_def hour_def)
qed

text \<open>
  A NaN limit is no limit: \<open>NewArbiter\<close> rejects limits by \<open><= 0\<close>, which a NaN passes, and
  \<open>checkLimits\<close> compares by \<open>>\<close>, which a NaN never satisfies. An arbiter built with a NaN speed
  limit lets every non-negative speed through.
\<close>

theorem nan_limit_is_no_limit:
  assumes "NewArbiter c = Inr a" and "MaxSpeedMPS (cfg_Limits c) = NaN"
  shows "checkLimits a \<lparr>TargetSpeedMPS = Fin v, TargetAccelerationMPS = Fin 0, TargetCurvatureInvM = Fin 0, TargetYawRateRadPS = Fin 0\<rparr> = None \<longleftrightarrow> 0 \<le> v"
proof -
  have lim: "cfg_Limits (cfg a) = cfg_Limits c" by (rule NewArbiter_init [OF assms(1)])
  have "\<not> f64_le (MaxAccelerationMPS (cfg_Limits c)) (Fin 0)" "\<not> f64_le (MaxCurvatureInvM (cfg_Limits c)) (Fin 0)"
    "\<not> f64_le (MaxYawRateRadPS (cfg_Limits c)) (Fin 0)"
    using assms(1) by (auto simp: NewArbiter_def Let_def split: if_splits)
  then have "\<not> f64_lt (MaxAccelerationMPS (cfg_Limits c)) (Fin 0)" "\<not> f64_lt (MaxCurvatureInvM (cfg_Limits c)) (Fin 0)"
    "\<not> f64_lt (MaxYawRateRadPS (cfg_Limits c)) (Fin 0)" by (auto dest: f64_lt_imp_le)
  then show ?thesis using assms(2) by (auto simp: checkLimits_def Let_def lim)
qed

theorem nan_limit_is_no_limit_witness:
  "\<exists>a. NewArbiter (demo_cfg\<lparr>cfg_Limits := (cfg_Limits demo_cfg)\<lparr>MaxSpeedMPS := NaN\<rparr>\<rparr>) = Inr a \<and>
     checkLimits a \<lparr>TargetSpeedMPS = Fin 1000000, TargetAccelerationMPS = Fin 0, TargetCurvatureInvM = Fin 0, TargetYawRateRadPS = Fin 0\<rparr> = None"
proof -
  have "isl (NewArbiter (demo_cfg\<lparr>cfg_Limits := (cfg_Limits demo_cfg)\<lparr>MaxSpeedMPS := NaN\<rparr>\<rparr>)) = False" by code_simp
  then obtain a where a: "NewArbiter (demo_cfg\<lparr>cfg_Limits := (cfg_Limits demo_cfg)\<lparr>MaxSpeedMPS := NaN\<rparr>\<rparr>) = Inr a"
    by (cases "NewArbiter (demo_cfg\<lparr>cfg_Limits := (cfg_Limits demo_cfg)\<lparr>MaxSpeedMPS := NaN\<rparr>\<rparr>)") auto
  from nan_limit_is_no_limit [OF a, of 1000000] a show ?thesis by simp
qed

end
