(* ===== verification/Arbiter_Main.thy ===== *)
theory Arbiter_Main
  imports Arbiter_Props "HOL-Library.AList"
begin

unbundle bit_operations_syntax

text \<open>
  \<open>vehicle/safety-arbiter/main.go\<close>: the arbiter process. Local frames with a four-byte length
  in front, the actuator behind a Unix socket, the loop that hands the Gateway's frames to the
  safety kernel and acknowledges commands. A socket is the bytes that arrive on it before it is
  closed or its deadline passes, and whether a dial or a write succeeds; the frame serialiser is
  a parameter.
\<close>

section \<open>Local frames\<close>

definition maxActuatorReplyBytes :: int where "maxActuatorReplyBytes = 64 * 1024"
definition localProtocol :: string where "localProtocol = ''platform.v1.local''"

datatype Kind =
    KIND_UNSPECIFIED | KIND_HELLO | KIND_ENVELOPE | KIND_ACTUATOR_REQUEST | KIND_ACTUATOR_REPLY
  | KIND_NUM int

datatype ActuatorRequest = Req_TargetMotion TargetMotion | Req_MinimalRiskReason string | Req_None

record ActuatorReply =
  ar_ok :: bool
  ar_error :: string
  ar_applied_monotonic_ns :: u64

datatype frame_body = Body_ActuatorRequest ActuatorRequest | Body_ActuatorReply ActuatorReply | Body_Other bytes

record LocalFrame =
  lf_kind :: Kind
  lf_component :: string
  lf_protocol :: string
  lf_envelope :: "Envelope option"
  lf_body :: "frame_body option"

definition GetActuatorReply :: "LocalFrame \<Rightarrow> ActuatorReply option" where
  "GetActuatorReply f = (case lf_body f of Some (Body_ActuatorReply r) \<Rightarrow> Some r | _ \<Rightarrow> None)"

record codec =
  marshal_frame :: "LocalFrame \<Rightarrow> bytes option"
  unmarshal_frame :: "bytes \<Rightarrow> LocalFrame option"
  marshal_ack :: "detail ControlAck \<Rightarrow> bytes option"

definition frame_roundtrip :: "codec \<Rightarrow> bool" where
  "frame_roundtrip cd \<longleftrightarrow> (\<forall>f b. marshal_frame cd f = Some b \<longrightarrow> unmarshal_frame cd b = Some f)"

text \<open>\<open>binary.BigEndian\<close>.\<close>

definition PutUint32 :: "u32 \<Rightarrow> bytes" where
  "PutUint32 v = [ucast (drop_bit 24 v), ucast (drop_bit 16 v), ucast (drop_bit 8 v), ucast v]"

fun Uint32 :: "bytes \<Rightarrow> u32" where
  "Uint32 [b0, b1, b2, b3] =
     (ucast b3 OR push_bit 8 (ucast b2)) OR (push_bit 16 (ucast b1) OR push_bit 24 (ucast b0))"
| "Uint32 _ = 0"

datatype marshal_error = FrameProtocolInvalid | FrameMarshal | FrameSize

definition marshalLocalFrame :: "codec \<Rightarrow> LocalFrame option \<Rightarrow> marshal_error + bytes" where
  "marshalLocalFrame cd frame =
    (case frame of None \<Rightarrow> Inl FrameProtocolInvalid | Some f \<Rightarrow>
      if lf_protocol f \<noteq> localProtocol then Inl FrameProtocolInvalid
      else case marshal_frame cd f of
             None \<Rightarrow> Inl FrameMarshal
           | Some raw \<Rightarrow>
               if raw = [] \<or> int (length raw) > maxActuatorReplyBytes then Inl FrameSize
               else Inr (PutUint32 (word_of_int (int (length raw))) @ raw))"

text \<open>
  \<open>io.ReadFull\<close> answers \<open>io.EOF\<close> when nothing could be read and \<open>io.ErrUnexpectedEOF\<close> when
  some but not all of the bytes were there.
\<close>

datatype read_error = EOF | ErrUnexpectedEOF | FrameLengthInvalid | FrameUnmarshal | FrameProtocolUnsupported

definition ReadFull :: "int \<Rightarrow> bytes \<Rightarrow> read_error + bytes \<times> bytes" where
  "ReadFull n s =
    (if int (length s) \<ge> n then Inr (take (nat n) s, drop (nat n) s)
     else if s = [] then Inl EOF else Inl ErrUnexpectedEOF)"

definition readLocalFrame :: "codec \<Rightarrow> u32 \<Rightarrow> bytes \<Rightarrow> read_error + LocalFrame \<times> bytes" where
  "readLocalFrame cd mx s =
    (case ReadFull 4 s of
       Inl e \<Rightarrow> Inl e
     | Inr (header, s1) \<Rightarrow>
        let n = Uint32 header
        in if n = 0 \<or> n > mx then Inl FrameLengthInvalid
           else case ReadFull (uint n) s1 of
                  Inl e \<Rightarrow> Inl e
                | Inr (raw, s2) \<Rightarrow>
                   (case unmarshal_frame cd raw of
                      None \<Rightarrow> Inl FrameUnmarshal
                    | Some f \<Rightarrow> if lf_protocol f \<noteq> localProtocol then Inl FrameProtocolUnsupported else Inr (f, s2)))"

section \<open>The actuator\<close>

text \<open>
  What the adapter's socket does with one request: whether the dial succeeds, whether the write
  of a request succeeds, and the bytes it answers before the deadline.
\<close>

record adapter =
  dial_ok :: bool
  write_ok :: "bytes \<Rightarrow> bool"
  reply_bytes :: "bytes \<Rightarrow> bytes"

definition UnixActuator_call :: "codec \<Rightarrow> adapter \<Rightarrow> LocalFrame \<Rightarrow> act_error + int" where
  "UnixActuator_call cd ad request =
    (if \<not> dial_ok ad then Inl ActDial
     else case marshalLocalFrame cd (Some request) of
       Inl _ \<Rightarrow> Inl ActMarshal
     | Inr b \<Rightarrow>
        if int (length b) > maxActuatorReplyBytes + 4 then Inl ActTooLarge
        else if \<not> write_ok ad b then Inl ActWrite
        else case readLocalFrame cd (word_of_int maxActuatorReplyBytes) (reply_bytes ad b) of
          Inl _ \<Rightarrow> Inl ActRead
        | Inr (frame, _) \<Rightarrow>
           if lf_protocol frame \<noteq> localProtocol \<or> lf_kind frame \<noteq> KIND_ACTUATOR_REPLY then Inl ActFrame
           else case GetActuatorReply frame of
             None \<Rightarrow> Inl ActRefused
           | Some reply \<Rightarrow>
              if \<not> ar_ok reply \<or> ar_applied_monotonic_ns reply = 0
              then Inl (if ar_error reply \<noteq> [] then ActReplied (ar_error reply) else ActRefused)
              else Inr (sint (ar_applied_monotonic_ns reply)))"

definition request_frame :: "ActuatorRequest \<Rightarrow> LocalFrame" where
  "request_frame r = \<lparr>lf_kind = KIND_ACTUATOR_REQUEST, lf_component = ''arbiter'',
     lf_protocol = localProtocol, lf_envelope = None, lf_body = Some (Body_ActuatorRequest r)\<rparr>"

text \<open>A failed call answers the zero \<open>ActuationResult\<close> and the error.\<close>

definition act_answer :: "act_error + int \<Rightarrow> int \<times> act_error option" where
  "act_answer r = (case r of Inl e \<Rightarrow> (0, Some e) | Inr n \<Rightarrow> (n, None))"

definition UnixActuator_ApplyMotion :: "codec \<Rightarrow> adapter \<Rightarrow> Motion \<Rightarrow> act_error + int" where
  "UnixActuator_ApplyMotion cd ad m =
     UnixActuator_call cd ad (request_frame (Req_TargetMotion
       \<lparr>target_speed_mps = TargetSpeedMPS m, target_acceleration_mps2 = TargetAccelerationMPS m,
        target_curvature_inv_m = TargetCurvatureInvM m, target_yaw_rate_radps = TargetYawRateRadPS m\<rparr>))"

definition UnixActuator_MinimalRisk :: "codec \<Rightarrow> adapter \<Rightarrow> string \<Rightarrow> act_error + int" where
  "UnixActuator_MinimalRisk cd ad reason =
    (if trim_space reason = [] then Inl ActReasonEmpty
     else UnixActuator_call cd ad (request_frame (Req_MinimalRiskReason reason)))"

fun unix_actuator :: "codec \<Rightarrow> adapter \<Rightarrow> actuator" where
  "unix_actuator cd ad (ApplyMotion m) = act_answer (UnixActuator_ApplyMotion cd ad m)"
| "unix_actuator cd ad (MinimalRisk r) = act_answer (UnixActuator_MinimalRisk cd ad r)"

section \<open>Start\<close>

text \<open>\<open>strings.SplitN(spec, "=", 2)\<close>: at most one cut.\<close>

fun cut :: "char \<Rightarrow> string \<Rightarrow> (string \<times> string) option" where
  "cut c [] = None"
| "cut c (x # xs) = (if x = c then Some ([], xs) else map_option (\<lambda>(a, b). (x # a, b)) (cut c xs))"

datatype key_error = KeySpec | KeyRead | KeyFormat

definition loadAuthorityKey ::
  "(string \<Rightarrow> string option) \<Rightarrow> (string \<Rightarrow> bytes option) \<Rightarrow> string \<Rightarrow> key_error + string \<times> bytes" where
  "loadAuthorityKey readFile decode64 spec =
    (case cut CHR ''='' spec of
       None \<Rightarrow> Inl KeySpec
     | Some (kid, path) \<Rightarrow>
        if kid = [] \<or> path = [] then Inl KeySpec
        else case readFile path of
               None \<Rightarrow> Inl KeyRead
             | Some b \<Rightarrow>
                (case decode64 (trim_space b) of
                   None \<Rightarrow> Inl KeyFormat
                 | Some raw \<Rightarrow> if length raw \<noteq> 32 then Inl KeyFormat else Inr (kid, raw)))"

datatype start_error = StartFlags | StartKey key_error | StartMacRead | StartMacFormat | StartNew new_error

text \<open>The loop over the \<open>-authority-public-key\<close> flags: a later key with the same id wins.\<close>

fun load_keys ::
  "(string \<Rightarrow> string option) \<Rightarrow> (string \<Rightarrow> bytes option) \<Rightarrow> string list \<Rightarrow> (string \<times> bytes) list \<Rightarrow>
   key_error + (string \<times> bytes) list" where
  "load_keys rd d64 [] keys = Inr keys"
| "load_keys rd d64 (spec # specs) keys =
    (case loadAuthorityKey rd d64 spec of
       Inl e \<Rightarrow> Inl e
     | Inr (kid, key) \<Rightarrow> load_keys rd d64 specs (AList.update kid key keys))"

record flags =
  fl_vehicle_id :: string
  fl_gateway_id :: string
  fl_authority_keys :: "string list"
  fl_mac_key_file :: string
  fl_actuator_uds :: string
  fl_watchdog :: int
  fl_max_speed :: float64

definition main_start ::
  "(string \<Rightarrow> string option) \<Rightarrow> (string \<Rightarrow> bytes option) \<Rightarrow> flags \<Rightarrow> start_error + Arbiter \<times> bytes" where
  "main_start rd d64 fl =
    (if fl_vehicle_id fl = [] \<or> fl_gateway_id fl = [] \<or> fl_actuator_uds fl = [] then Inl StartFlags
     else case load_keys rd d64 (fl_authority_keys fl) [] of
       Inl e \<Rightarrow> Inl (StartKey e)
     | Inr keys \<Rightarrow>
        (case (if fl_mac_key_file fl = [] then Inr []
               else case rd (fl_mac_key_file fl) of
                      None \<Rightarrow> Inl StartMacRead
                    | Some b \<Rightarrow> (case d64 (trim_space b) of None \<Rightarrow> Inl StartMacFormat | Some k \<Rightarrow> Inr k)) of
           Inl e \<Rightarrow> Inl e
         | Inr macKey \<Rightarrow>
            (case NewArbiter \<lparr>VehicleID = fl_vehicle_id fl, GatewayID = fl_gateway_id fl, AuthorityKeys = keys,
                     CommandMACKey = macKey, RequireMAC = True, Watchdog = fl_watchdog fl, MaxClockSkew = 0,
                     cfg_Limits = \<lparr>MaxSpeedMPS = fl_max_speed fl, MaxAccelerationMPS = Fin 1,
                       MaxCurvatureInvM = Fin (1/2), MaxYawRateRadPS = Fin (4/5)\<rparr>,
                     HasActuator = True\<rparr> of
               Inl e \<Rightarrow> Inl (StartNew e)
             | Inr a \<Rightarrow> Inr (a, macKey))))"

section \<open>Acknowledgements\<close>

definition maxInt64 :: "int \<Rightarrow> int \<Rightarrow> int" where
  "maxInt64 v floor' = (if v < floor' then floor' else v)"

fun ack_result_of :: "Result \<Rightarrow> ControlResult" where
  "ack_result_of Accepted = CONTROL_RESULT_ACCEPTED"
| "ack_result_of RejectedStale = CONTROL_RESULT_REJECTED_STALE"
| "ack_result_of RejectedFencing = CONTROL_RESULT_REJECTED_FENCING"
| "ack_result_of RejectedLease = CONTROL_RESULT_REJECTED_LEASE"
| "ack_result_of RejectedLimit = CONTROL_RESULT_REJECTED_LIMIT"
| "ack_result_of RejectedAuth = CONTROL_RESULT_FAILED"
| "ack_result_of Failed = CONTROL_RESULT_FAILED"

definition ack_message :: "ControlCommand \<Rightarrow> Decision \<Rightarrow> detail ControlAck" where
  "ack_message command d =
    \<lparr>ack_control_session_id = cmd_control_session_id command,
     ack_command_sequence = cmd_command_sequence command,
     ack_result = ack_result_of (d_result d), ack_detail = d_detail d,
     ack_applied_monotonic_ns = word_of_int (maxInt64 (d_applied_monotonic_ns d) 0)\<rparr>"

definition ack_envelope :: "Envelope \<Rightarrow> u64 \<Rightarrow> int \<Rightarrow> u64 \<Rightarrow> bytes \<Rightarrow> Envelope" where
  "ack_envelope control sq utc mono_ns payload =
    \<lparr>env_schema_major = (if env_schema_major control = 0 then 1 else env_schema_major control),
     env_schema_minor = env_schema_minor control,
     env_message_type = ''platform.v1.ControlAck'', env_vehicle_id = env_vehicle_id control,
     env_gateway_id = env_gateway_id control, env_session_id = env_session_id control,
     env_sequence = sq, env_utc_time_ns = utc, env_monotonic_time_ns = mono_ns, env_ttl_ms = 1000,
     env_trace_id = (if env_trace_id control = [] then env_session_id control else env_trace_id control),
     env_payload = payload, env_auth_tag = [], env_unknown = []\<rparr>"

text \<open>
  The bytes \<open>writeAck\<close> puts on the socket, if any. The result of \<open>SignEnvelope\<close> is ignored: when
  it fails, the envelope goes out as it is.
\<close>

definition writeAck ::
  "wire \<Rightarrow> codec \<Rightarrow> int \<Rightarrow> u64 \<Rightarrow> Envelope option \<Rightarrow> Decision \<Rightarrow> bytes \<Rightarrow> bytes option" where
  "writeAck w cd utc mono_ns control d macKey =
    (case control of None \<Rightarrow> None | Some e \<Rightarrow>
      (case unmarshal_cmd w (env_payload e) of None \<Rightarrow> None | Some command \<Rightarrow>
        (case marshal_ack cd (ack_message command d) of None \<Rightarrow> None | Some payload \<Rightarrow>
          let env = ack_envelope e (cmd_command_sequence command) utc mono_ns payload;
              signed = (case SignEnvelope w (Some env) macKey of Inr e' \<Rightarrow> e' | Inl _ \<Rightarrow> env)
          in (case marshalLocalFrame cd (Some \<lparr>lf_kind = KIND_ENVELOPE, lf_component = ''arbiter'',
                     lf_protocol = localProtocol, lf_envelope = Some signed, lf_body = None\<rparr>) of
                Inr b \<Rightarrow> Some b | Inl _ \<Rightarrow> None))))"

section \<open>The frame loop\<close>

text \<open>The readings and answers the environment gives while frame number \<open>i\<close> is handled.\<close>

record frame_env =
  fe_now1 :: gotime
  fe_now2 :: gotime
  fe_utc :: int
  fe_mono :: u64
  fe_adapter :: adapter

definition frame_event :: "codec \<Rightarrow> frame_env \<Rightarrow> LocalFrame \<Rightarrow> arb_event option" where
  "frame_event cd fe f =
    (case lf_envelope f of None \<Rightarrow> None | Some e \<Rightarrow>
      if lf_kind f \<noteq> KIND_ENVELOPE then None
      else if env_message_type e = ''platform.v1.LeaseGrant''
      then Some (EvLease (Some e) (fe_now1 fe) (fe_now2 fe) (unix_actuator cd (fe_adapter fe)))
      else if env_message_type e = ''platform.v1.ControlCommand''
      then Some (EvCommand (Some e) (fe_now1 fe) (fe_now2 fe) (unix_actuator cd (fe_adapter fe)))
      else None)"

definition handle_frame ::
  "wire \<Rightarrow> codec \<Rightarrow> bytes \<Rightarrow> frame_env \<Rightarrow> LocalFrame \<Rightarrow> Arbiter \<Rightarrow> Arbiter \<times> bytes" where
  "handle_frame w cd macKey fe f a =
    (case frame_event cd fe f of
       None \<Rightarrow> (a, [])
     | Some ev \<Rightarrow>
        let out = arb_out w a ev
        in (new_state out,
            (case ev of
               EvCommand env _ _ _ \<Rightarrow>
                 (case writeAck w cd (fe_utc fe) (fe_mono fe) env (decision out) macKey of Some b \<Rightarrow> b | None \<Rightarrow> [])
             | _ \<Rightarrow> [])))"

datatype loop_end = LoopEOF | LoopFatal read_error

definition gatewayFrameMax :: u32 where "gatewayFrameMax = 1024 * 1024"

lemma ReadFull_shorter: "0 < n \<Longrightarrow> ReadFull n s = Inr (x, t) \<Longrightarrow> length t < length s"
  by (auto simp: ReadFull_def split: if_splits)

lemma ReadFull_le: "ReadFull n s = Inr (x, t) \<Longrightarrow> length t \<le> length s"
  by (auto simp: ReadFull_def split: if_splits)

lemma readLocalFrame_shorter:
  assumes "readLocalFrame cd m s = Inr (f, t)"
  shows "length t < length s"
proof -
  obtain h s1 where h: "ReadFull 4 s = Inr (h, s1)"
    using assms by (cases "ReadFull 4 s") (auto simp: readLocalFrame_def)
  obtain raw s2 where raw: "ReadFull (uint (Uint32 h)) s1 = Inr (raw, s2)" "t = s2"
    using assms h
    by (cases "ReadFull (uint (Uint32 h)) s1") (auto simp: readLocalFrame_def Let_def split: if_splits option.splits)
  show ?thesis using ReadFull_shorter [OF _ h] ReadFull_le [OF raw(1)] raw(2) by simp
qed

text \<open>
  The loop of \<open>main\<close> over the bytes of the Gateway socket, with the bytes it writes and how it
  ends. Every frame that is read shortens the rest, so the loop ends.
\<close>

function (sequential) main_loop ::
  "wire \<Rightarrow> codec \<Rightarrow> bytes \<Rightarrow> (nat \<Rightarrow> frame_env) \<Rightarrow> nat \<Rightarrow> bytes \<Rightarrow> Arbiter \<Rightarrow> Arbiter \<times> bytes \<times> loop_end" where
  "main_loop w cd macKey fe i s a =
    (case readLocalFrame cd gatewayFrameMax s of
       Inl EOF \<Rightarrow> (a, [], LoopEOF)
     | Inl e \<Rightarrow> (a, [], LoopFatal e)
     | Inr (f, rest) \<Rightarrow>
        let (a1, o1) = handle_frame w cd macKey (fe i) f a;
            (a2, o2, r) = main_loop w cd macKey fe (Suc i) rest a1
        in (a2, o1 @ o2, r))"
  by pat_completeness auto
termination
  by (relation "measure (\<lambda>(_, _, _, _, _, s, _). length s)") (auto dest: readLocalFrame_shorter)

declare main_loop.simps [simp del]

section \<open>Frames survive the wire\<close>

lemma PutUint32_length [simp]: "length (PutUint32 v) = 4"
  by (simp add: PutUint32_def)

lemma Uint32_PutUint32 [simp]: "Uint32 (PutUint32 v) = v"
proof (rule bit_word_eqI)
  fix n assume "n < LENGTH(32)"
  then consider "n < 8" | "8 \<le> n" "n < 16" | "16 \<le> n" "n < 24" | "24 \<le> n" "n < 32" by fastforce
  then show "bit (Uint32 (PutUint32 v)) n = bit v n"
    by cases (auto simp: PutUint32_def bit_simps)
qed

lemma ReadFull_append: "int (length x) = n \<Longrightarrow> ReadFull n (x @ s) = Inr (x, s)"
  by (auto simp: ReadFull_def)

lemma marshalLocalFrameD:
  assumes "marshalLocalFrame cd (Some f) = Inr b"
  obtains raw where "marshal_frame cd f = Some raw" "lf_protocol f = localProtocol" "raw \<noteq> []"
    "int (length raw) \<le> maxActuatorReplyBytes" "b = PutUint32 (word_of_int (int (length raw))) @ raw"
  using assms by (auto simp: marshalLocalFrame_def split: if_splits option.splits)

lemma readLocalFrame_marshal:
  assumes rt: "frame_roundtrip cd" and b: "marshalLocalFrame cd (Some f) = Inr b"
    and m: "maxActuatorReplyBytes \<le> uint m"
  shows "readLocalFrame cd m (b @ rest) = Inr (f, rest)"
proof -
  from b obtain raw where raw: "marshal_frame cd f = Some raw" "lf_protocol f = localProtocol" "raw \<noteq> []"
    "int (length raw) \<le> maxActuatorReplyBytes" "b = PutUint32 (word_of_int (int (length raw))) @ raw"
    by (rule marshalLocalFrameD)
  let ?n = "word_of_int (int (length raw)) :: u32"
  have n: "uint ?n = int (length raw)"
    using raw(4) by (simp add: uint_word_of_int maxActuatorReplyBytes_def del: of_int_of_nat_eq)
  have "?n \<noteq> 0" using n raw(3) by force
  moreover have "\<not> m < ?n" using n m raw(4) by (simp add: word_less_def)
  moreover have "unmarshal_frame cd raw = Some f" using rt raw(1) by (simp add: frame_roundtrip_def)
  ultimately show ?thesis
    using raw(2,5) by (simp add: readLocalFrame_def ReadFull_append n del: of_int_of_nat_eq)
qed

section \<open>The actuator's confirmation\<close>

lemma UnixActuator_call_ok:
  assumes "UnixActuator_call cd ad req = Inr n"
  shows "\<exists>b frame rest reply. marshalLocalFrame cd (Some req) = Inr b \<and> dial_ok ad \<and> write_ok ad b \<and>
    readLocalFrame cd (word_of_int maxActuatorReplyBytes) (reply_bytes ad b) = Inr (frame, rest) \<and>
    lf_kind frame = KIND_ACTUATOR_REPLY \<and> GetActuatorReply frame = Some reply \<and> ar_ok reply \<and>
    ar_applied_monotonic_ns reply \<noteq> 0 \<and> n = sint (ar_applied_monotonic_ns reply)"
  using assms by (auto simp: UnixActuator_call_def split: if_splits sum.splits prod.splits option.splits)

lemma accepted_called:
  assumes "d_result (decision (HandleProtoCommand w n1 n2 act env a)) = Accepted"
  obtains c n where "c \<in> set (calls (HandleProtoCommand w n1 n2 act env a))" "act c = (n, None)"
    "calls (HandleProtoCommand w n1 n2 act env a) = [c]"
proof (cases w n1 n2 act env a rule: HandleProtoCommand_cases)
  case (locked e cmd)
  show thesis
  proof (cases n2 act e cmd a rule: command_locked_cases)
    case (motion l)
    with locked assms that show thesis by (cases n2 act cmd l a rule: apply_target_motion_cases) auto
  next
    case (stop l)
    with locked assms have "d_result (decision (apply_minimal_risk act cmd a)) = Accepted" by simp
    then obtain ns where "act (MinimalRisk (MinimalRiskReason_String (GetReason (GetMinimalRisk cmd)))) = (ns, None)"
      "calls (apply_minimal_risk act cmd a) = [MinimalRisk (MinimalRiskReason_String (GetReason (GetMinimalRisk cmd)))]"
      by (auto simp: apply_minimal_risk_def Let_def split: if_splits prod.splits option.splits)
    with locked stop that show thesis by auto
  next
    case (expired l)
    with locked assms show thesis by (simp add: expireLeaseLocked_state)
  qed (use locked assms in auto)
qed (use assms in auto)

fun call_request :: "act_call \<Rightarrow> ActuatorRequest" where
  "call_request (ApplyMotion m) = Req_TargetMotion
     \<lparr>target_speed_mps = TargetSpeedMPS m, target_acceleration_mps2 = TargetAccelerationMPS m,
      target_curvature_inv_m = TargetCurvatureInvM m, target_yaw_rate_radps = TargetYawRateRadPS m\<rparr>"
| "call_request (MinimalRisk r) = Req_MinimalRiskReason r"

lemma unix_actuator_ok:
  "unix_actuator cd ad c = (n, None) \<Longrightarrow> UnixActuator_call cd ad (request_frame (call_request c)) = Inr n"
  by (cases c) (auto simp: act_answer_def UnixActuator_ApplyMotion_def UnixActuator_MinimalRisk_def
      split: sum.splits if_splits)

section \<open>The loop is a run of the kernel\<close>

fun frame_events :: "codec \<Rightarrow> (nat \<Rightarrow> frame_env) \<Rightarrow> nat \<Rightarrow> LocalFrame list \<Rightarrow> arb_event list" where
  "frame_events cd fe i [] = []"
| "frame_events cd fe i (f # fs) =
    (case frame_event cd (fe i) f of None \<Rightarrow> [] | Some ev \<Rightarrow> [ev]) @ frame_events cd fe (Suc i) fs"

lemma handle_frame_state:
  "fst (handle_frame w cd k fe f a) =
     run (arb_step w) a (case frame_event cd fe f of None \<Rightarrow> [] | Some ev \<Rightarrow> [ev])"
  by (auto simp: handle_frame_def arb_step_def Let_def split: option.splits)

lemma main_loop_EOF: "main_loop w cd k fe i [] a = (a, [], LoopEOF)"
  by (subst main_loop.simps) (simp add: readLocalFrame_def ReadFull_def)

lemma main_loop_frame:
  assumes "readLocalFrame cd gatewayFrameMax s = Inr (f, rest)"
  shows "fst (main_loop w cd k fe i s a) = fst (main_loop w cd k fe (Suc i) rest (fst (handle_frame w cd k (fe i) f a)))"
    and "snd (snd (main_loop w cd k fe i s a)) = snd (snd (main_loop w cd k fe (Suc i) rest (fst (handle_frame w cd k (fe i) f a))))"
  by (subst main_loop.simps; simp add: assms split: prod.splits)+

section \<open>A concrete socket\<close>

definition demo_hello :: LocalFrame where
  "demo_hello = \<lparr>lf_kind = KIND_HELLO, lf_component = ''arbiter'', lf_protocol = localProtocol, lf_envelope = None, lf_body = None\<rparr>"

definition demo_reply :: LocalFrame where
  "demo_reply = \<lparr>lf_kind = KIND_ACTUATOR_REPLY, lf_component = ''adapter'', lf_protocol = localProtocol, lf_envelope = None,
     lf_body = Some (Body_ActuatorReply \<lparr>ar_ok = True, ar_error = [], ar_applied_monotonic_ns = 11\<rparr>)\<rparr>"

definition demo_ack_frame :: LocalFrame where
  "demo_ack_frame = \<lparr>lf_kind = KIND_ENVELOPE, lf_component = ''arbiter'', lf_protocol = localProtocol,
     lf_envelope = Some ((ack_envelope (demo_env ''platform.v1.ControlCommand'' 8 200 [1]) 8 demo_t 5 [3])
       \<lparr>env_auth_tag := replicate 32 5\<rparr>), lf_body = None\<rparr>"

definition demo_frames :: "(LocalFrame \<times> bytes) list" where
  "demo_frames = [(demo_hello, [7]), (request_frame (call_request (ApplyMotion demo_motion)), [8]),
     (demo_reply, [9]), (demo_ack_frame, [10])]"

definition demo_codec :: codec where
  "demo_codec = \<lparr>marshal_frame = map_of demo_frames,
     unmarshal_frame = map_of (map (\<lambda>(f, b). (b, f)) demo_frames), marshal_ack = (\<lambda>_. Some [3])\<rparr>"

definition demo_adapter :: adapter where
  "demo_adapter = \<lparr>dial_ok = True, write_ok = (\<lambda>_. True), reply_bytes = (\<lambda>_. [0, 0, 0, 1, 9])\<rparr>"

lemma demo_codec_roundtrip: "frame_roundtrip demo_codec"
  by (auto simp: frame_roundtrip_def demo_codec_def demo_frames_def split: if_splits)

lemma demo_hello_bytes: "marshalLocalFrame demo_codec (Some demo_hello) = Inr [0, 0, 0, 1, 7]"
  by code_simp

section \<open>Properties\<close>

text \<open>
  C15. A local frame survives the socket: whatever \<open>marshalLocalFrame\<close> writes, followed by any
  bytes, \<open>readLocalFrame\<close> reads back as the same frame and leaves exactly those bytes, for every
  size limit of at least 64 KiB.
\<close>

theorem local_frame_roundtrip:
  assumes "frame_roundtrip cd" and "marshalLocalFrame cd (Some f) = Inr b" and "65536 \<le> uint m"
  shows "readLocalFrame cd m (b @ rest) = Inr (f, rest)"
  using readLocalFrame_marshal assms by (simp add: maxActuatorReplyBytes_def)

theorem local_frame_roundtrip_witness:
  "readLocalFrame demo_codec 65536 ([0, 0, 0, 1, 7] @ [42]) = Inr (demo_hello, [42])"
  by (rule local_frame_roundtrip [OF demo_codec_roundtrip demo_hello_bytes]) simp

text \<open>
  C14. The process handles exactly the frames it was sent, in order, and ends when the Gateway
  closes the socket: on the concatenation of marshalled frames, the frame loop ends with
  \<open>io.EOF\<close> and its arbiter is the one reached by the lease and command events of those frames.
\<close>

theorem main_loop_runs_kernel:
  assumes "frame_roundtrip cd" and "list_all2 (\<lambda>f b. marshalLocalFrame cd (Some f) = Inr b) fs bs"
  shows "fst (main_loop w cd k fe i (concat bs) a) = run (arb_step w) a (frame_events cd fe i fs) \<and>
    snd (snd (main_loop w cd k fe i (concat bs) a)) = LoopEOF"
  using assms(2)
proof (induction fs bs arbitrary: i a rule: list_all2_induct)
  case Nil
  show ?case by (simp add: main_loop_EOF)
next
  case (Cons f fs b bs)
  have "readLocalFrame cd gatewayFrameMax (b @ concat bs) = Inr (f, concat bs)"
    by (rule readLocalFrame_marshal [OF assms(1) Cons.hyps(1)])
       (simp add: maxActuatorReplyBytes_def gatewayFrameMax_def)
  from main_loop_frame [OF this] Cons.IH show ?case
    by (simp add: handle_frame_state run_append)
qed

theorem main_loop_runs_kernel_witness:
  "snd (snd (main_loop demo_wire demo_codec [] (\<lambda>_. undefined) 0 (concat [[0, 0, 0, 1, 7], [0, 0, 0, 1, 7]]) demo_arbiter)) = LoopEOF"
proof -
  have "list_all2 (\<lambda>f b. marshalLocalFrame demo_codec (Some f) = Inr b) [demo_hello, demo_hello] [[0, 0, 0, 1, 7], [0, 0, 0, 1, 7]]"
    by (simp add: demo_hello_bytes)
  from main_loop_runs_kernel [OF demo_codec_roundtrip this] show ?thesis by blast
qed

text \<open>
  Accepted means executed: the arbiter answers a command with acceptance only if its one
  actuator call was sent to the adapter, and the adapter's reply frame says ok with a non-zero
  time of application.
\<close>

theorem accepted_means_confirmed:
  assumes "d_result (decision (HandleProtoCommand w n1 n2 (unix_actuator cd ad) env a)) = Accepted"
  shows "\<exists>c b frame rest reply. calls (HandleProtoCommand w n1 n2 (unix_actuator cd ad) env a) = [c] \<and>
    marshalLocalFrame cd (Some (request_frame (call_request c))) = Inr b \<and> dial_ok ad \<and> write_ok ad b \<and>
    readLocalFrame cd 65536 (reply_bytes ad b) = Inr (frame, rest) \<and> lf_kind frame = KIND_ACTUATOR_REPLY \<and>
    GetActuatorReply frame = Some reply \<and> ar_ok reply \<and> ar_applied_monotonic_ns reply \<noteq> 0"
proof -
  from assms obtain c n where c: "calls (HandleProtoCommand w n1 n2 (unix_actuator cd ad) env a) = [c]"
    and ok: "unix_actuator cd ad c = (n, None)" by (rule accepted_called)
  from UnixActuator_call_ok [OF unix_actuator_ok [OF ok]] c show ?thesis
    by (auto simp: maxActuatorReplyBytes_def)
qed

theorem accepted_means_confirmed_witness:
  "\<exists>frame rest. readLocalFrame demo_codec 65536 [0, 0, 0, 1, 9] = Inr (frame, rest) \<and> lf_kind frame = KIND_ACTUATOR_REPLY"
proof -
  have "d_result (decision (HandleProtoCommand demo_wire (demo_now 2) (demo_now 3) (unix_actuator demo_codec demo_adapter)
    (Some (demo_env ''platform.v1.ControlCommand'' 8 200 [1]))
    (run (arb_step demo_wire) demo_arbiter [demo_lease_event]))) = Accepted" by code_simp
  from accepted_means_confirmed [OF this] show ?thesis by (auto simp: demo_adapter_def)
qed

text \<open>
  Acknowledgements are authentic: the frame \<open>writeAck\<close> writes for a command under a key of at
  least 32 bytes carries an envelope whose tag verifies under that key, addressed as the command
  was, with an acknowledgement of the command's sequence number as payload that says accepted
  exactly when the kernel accepted.
\<close>

theorem ack_authentic:
  assumes "frame_roundtrip cd" and "hmac_size w" and "32 \<le> length k"
    and "\<forall>x. marshal_env w x \<noteq> None" and "writeAck w cd utc mn (Some e) d k = Some b"
  shows "\<exists>f s ack cmd. readLocalFrame cd gatewayFrameMax b = Inr (f, []) \<and> lf_envelope f = Some s \<and>
    VerifyEnvelopeAuth w (Some s) k \<and> env_message_type s = ''platform.v1.ControlAck'' \<and>
    env_vehicle_id s = env_vehicle_id e \<and> env_gateway_id s = env_gateway_id e \<and> env_session_id s = env_session_id e \<and>
    unmarshal_cmd w (env_payload e) = Some cmd \<and> marshal_ack cd ack = Some (env_payload s) \<and>
    ack_command_sequence ack = cmd_command_sequence cmd \<and>
    (ack_result ack = CONTROL_RESULT_ACCEPTED \<longleftrightarrow> d_result d = Accepted)"
proof -
  from assms(5) obtain cmd payload where cmd: "unmarshal_cmd w (env_payload e) = Some cmd"
    and ack: "marshal_ack cd (ack_message cmd d) = Some payload"
    by (auto simp: writeAck_def split: option.splits)
  let ?env = "ack_envelope e (cmd_command_sequence cmd) utc mn payload"
  obtain canonical where "marshal_env w (?env\<lparr>env_auth_tag := []\<rparr>) = Some canonical" using assms(4) by blast
  then obtain s where s: "SignEnvelope w (Some ?env) k = Inr s"
    using assms(3) by (auto simp: SignEnvelope_def)
  let ?f = "\<lparr>lf_kind = KIND_ENVELOPE, lf_component = ''arbiter'', lf_protocol = localProtocol,
    lf_envelope = Some s, lf_body = None\<rparr>"
  have "marshalLocalFrame cd (Some ?f) = Inr b"
    using assms(5) cmd ack s by (auto simp: writeAck_def Let_def split: sum.splits)
  then have "readLocalFrame cd gatewayFrameMax (b @ []) = Inr (?f, [])"
    by (rule readLocalFrame_marshal [OF assms(1)]) (simp add: maxActuatorReplyBytes_def gatewayFrameMax_def)
  moreover have "VerifyEnvelopeAuth w (Some s) k" by (rule SignEnvelope_verifies [OF assms(2) s])
  moreover have "env_payload s = payload" "env_message_type s = ''platform.v1.ControlAck''"
    "env_vehicle_id s = env_vehicle_id e" "env_gateway_id s = env_gateway_id e" "env_session_id s = env_session_id e"
    using s by (auto simp: SignEnvelope_def ack_envelope_def split: if_splits option.splits)
  moreover have "ack_result (ack_message cmd d) = CONTROL_RESULT_ACCEPTED \<longleftrightarrow> d_result d = Accepted"
    by (cases "d_result d") (simp_all add: ack_message_def)
  moreover have "ack_command_sequence (ack_message cmd d) = cmd_command_sequence cmd"
    by (simp add: ack_message_def)
  ultimately show ?thesis using cmd ack by auto
qed

theorem ack_authentic_witness:
  "\<exists>f s. readLocalFrame demo_codec gatewayFrameMax [0, 0, 0, 1, 10] = Inr (f, []) \<and> lf_envelope f = Some s \<and>
     VerifyEnvelopeAuth demo_wire (Some s) (replicate 32 9)"
proof -
  have h: "hmac_size demo_wire" and m: "\<forall>x. marshal_env demo_wire x \<noteq> None"
    by (simp_all add: hmac_size_def demo_wire_def)
  have k: "32 \<le> length (replicate 32 (9 :: u8))" by simp
  have "writeAck demo_wire demo_codec demo_t 5 (Some (demo_env ''platform.v1.ControlCommand'' 8 200 [1]))
    (decide Accepted CmdApplied) (replicate 32 9) = Some [0, 0, 0, 1, 10]" by code_simp
  from ack_authentic [OF demo_codec_roundtrip h k m this] show ?thesis by blast
qed

end
