(* ===== verification/Capability.thy ===== *)
theory Capability
  imports Envelope_Auth
begin

text \<open>
  \<open>protocols/platform/v1/capability_validation.go\<close>: the admission of a Gateway's declared
  capabilities against the compatibility matrix, and the semantic checks on a telemetry batch.
  The user-facing reasons are constructors. \<open>compatibility_matrix.json\<close>, compiled into the
  library, is \<open>embedded_matrix\<close>; whether it parses is an argument.
\<close>

section \<open>Capabilities\<close>

datatype AutonomyStack =
    AUTONOMY_STACK_UNSPECIFIED | AUTONOMY_STACK_AUTOWARE_ROS2 | AUTONOMY_STACK_GENERIC_ROS2
  | AUTONOMY_STACK_ROS1 | AUTONOMY_STACK_APOLLO_CYBER | AUTONOMY_STACK_NUM int

fun AutonomyStack_String :: "AutonomyStack \<Rightarrow> string" where
  "AutonomyStack_String AUTONOMY_STACK_UNSPECIFIED = ''AUTONOMY_STACK_UNSPECIFIED''"
| "AutonomyStack_String AUTONOMY_STACK_AUTOWARE_ROS2 = ''AUTONOMY_STACK_AUTOWARE_ROS2''"
| "AutonomyStack_String AUTONOMY_STACK_GENERIC_ROS2 = ''AUTONOMY_STACK_GENERIC_ROS2''"
| "AutonomyStack_String AUTONOMY_STACK_ROS1 = ''AUTONOMY_STACK_ROS1''"
| "AutonomyStack_String AUTONOMY_STACK_APOLLO_CYBER = ''AUTONOMY_STACK_APOLLO_CYBER''"
| "AutonomyStack_String (AUTONOMY_STACK_NUM n) = show_int n"

record CameraCapability =
  cam_camera_id :: string
  cam_width :: u32
  cam_height :: u32
  cam_fps :: u32
  cam_codec :: string
  cam_max_bitrate_kbps :: u32

record ModemInfo =
  mo_modem_id :: string
  mo_carrier :: string
  mo_iccid :: string

record MapCapability =
  mc_map_formats :: "string list"
  mc_coordinate_frame :: string

record GatewayCapabilities =
  gc_vehicle_id :: string
  gc_gateway_version :: string
  gc_stack :: AutonomyStack
  gc_stack_version :: string
  gc_supported_control_modes :: "ControlMode list"
  gc_topic_mapping_version :: string
  gc_cameras :: "CameraCapability option list"
  gc_modems :: "ModemInfo option list"
  gc_tpm_available :: bool
  gc_certificate_installed :: bool
  gc_workspace_features :: "string list"
  gc_map :: "MapCapability option"
  gc_adapter_version :: string
  gc_safety_arbiter_version :: string
  gc_chassis_type :: string
  gc_group_id :: string

record compatibilityMatrixEntry =
  me_ID :: string
  me_Stack :: string
  me_StackVersion :: string
  me_GatewayVersion :: string
  me_AdapterVersion :: string
  me_SafetyArbiterVersion :: string
  me_TopicMappingVersion :: string
  me_RequiredControlModes :: "string list"
  me_RequiresCertificate :: bool
  me_RequiresTPMForControl :: bool
  me_RequiredModemsForControl :: int

record compatibilityMatrix =
  mx_SchemaMajor :: u32
  mx_SchemaMinor :: u32
  mx_Entries :: "compatibilityMatrixEntry list"

definition embedded_matrix :: compatibilityMatrix where
  "embedded_matrix = \<lparr>mx_SchemaMajor = 1, mx_SchemaMinor = 0, mx_Entries = [
     \<lparr>me_ID = ''ros1-noetic-platform-v1'', me_Stack = ''AUTONOMY_STACK_ROS1'', me_StackVersion = ''ROS 1 Noetic'',
      me_GatewayVersion = ''0.1.0'', me_AdapterVersion = ''0.1.0'', me_SafetyArbiterVersion = ''0.1.0'',
      me_TopicMappingVersion = ''ros1-map-v0.1'', me_RequiredControlModes = [''CONTROL_MODE_TARGET_MOTION''],
      me_RequiresCertificate = True, me_RequiresTPMForControl = True, me_RequiredModemsForControl = 2\<rparr>]\<rparr>"

datatype reason = ReasonCertificate | ReasonMode string | ReasonTPM | ReasonModems int
datatype control_reason = NoReason | ReasonComplete | ReasonUnmatched | Reasons "reason list"

record CapabilityDecision =
  cd_MatrixEntry :: string
  cd_MonitoringAllowed :: bool
  cd_ControlAllowed :: bool
  cd_ControlReason :: control_reason

datatype caps_error =
    CapsNil | CapsIdentity | CapsNoModes | CapsTooMany | CapsUnknownMode ControlMode | CapsDuplicateMode
  | CapsCamera | CapsDuplicateCamera | CapsModem | CapsDuplicateModem
  | MatrixParse | MatrixVersion | MatrixEntry nat

section \<open>The matrix\<close>

definition entry_complete :: "compatibilityMatrixEntry \<Rightarrow> bool" where
  "entry_complete e \<longleftrightarrow> \<not> (me_ID e = [] \<or> me_Stack e = [] \<or> me_StackVersion e = [] \<or> me_GatewayVersion e = []
     \<or> me_AdapterVersion e = [] \<or> me_SafetyArbiterVersion e = [] \<or> me_TopicMappingVersion e = []
     \<or> me_RequiredModemsForControl e < 0)"

fun check_entries :: "nat \<Rightarrow> compatibilityMatrixEntry list \<Rightarrow> caps_error option" where
  "check_entries i [] = None"
| "check_entries i (e # es) = (if \<not> entry_complete e then Some (MatrixEntry i) else check_entries (Suc i) es)"

definition loadCompatibilityMatrix :: "compatibilityMatrix option \<Rightarrow> caps_error + compatibilityMatrix" where
  "loadCompatibilityMatrix parsed =
    (case parsed of None \<Rightarrow> Inl MatrixParse | Some matrix \<Rightarrow>
      if mx_SchemaMajor matrix \<noteq> SupportedSchemaMajor \<or> mx_SchemaMinor matrix \<noteq> SupportedSchemaMinor
         \<or> mx_Entries matrix = [] then Inl MatrixVersion
      else case check_entries 0 (mx_Entries matrix) of Some e \<Rightarrow> Inl e | None \<Rightarrow> Inr matrix)"

section \<open>Admission\<close>

text \<open>The three loops with their \<open>seen\<close> sets.\<close>

fun check_modes :: "ControlMode list \<Rightarrow> ControlMode list \<Rightarrow> caps_error option" where
  "check_modes seen [] = None"
| "check_modes seen (m # ms) =
    (if m \<notin> {CONTROL_MODE_DIRECT_ACTUATION, CONTROL_MODE_TARGET_MOTION, CONTROL_MODE_TRAJECTORY, CONTROL_MODE_MINIMAL_RISK}
     then Some (CapsUnknownMode m)
     else if m \<in> set seen then Some CapsDuplicateMode
     else check_modes (m # seen) ms)"

definition camera_valid :: "CameraCapability \<Rightarrow> bool" where
  "camera_valid c \<longleftrightarrow> \<not> (trim_space (cam_camera_id c) = [] \<or> cam_width c = 0 \<or> cam_height c = 0
     \<or> cam_width c > 16384 \<or> cam_height c > 16384 \<or> cam_fps c = 0 \<or> cam_fps c > 240
     \<or> trim_space (cam_codec c) = [] \<or> cam_max_bitrate_kbps c = 0)"

fun check_cameras :: "string list \<Rightarrow> CameraCapability option list \<Rightarrow> caps_error option" where
  "check_cameras seen [] = None"
| "check_cameras seen (None # cs) = Some CapsCamera"
| "check_cameras seen (Some c # cs) =
    (if \<not> camera_valid c then Some CapsCamera
     else if cam_camera_id c \<in> set seen then Some CapsDuplicateCamera
     else check_cameras (cam_camera_id c # seen) cs)"

fun check_modems :: "string list \<Rightarrow> ModemInfo option list \<Rightarrow> caps_error option" where
  "check_modems seen [] = None"
| "check_modems seen (None # ms) = Some CapsModem"
| "check_modems seen (Some m # ms) =
    (if trim_space (mo_modem_id m) = [] then Some CapsModem
     else if mo_modem_id m \<in> set seen then Some CapsDuplicateModem
     else check_modems (mo_modem_id m # seen) ms)"

definition entry_matches :: "compatibilityMatrixEntry \<Rightarrow> GatewayCapabilities \<Rightarrow> bool" where
  "entry_matches e caps \<longleftrightarrow> me_Stack e = AutonomyStack_String (gc_stack caps)
     \<and> me_StackVersion e = gc_stack_version caps \<and> me_GatewayVersion e = gc_gateway_version caps
     \<and> me_AdapterVersion e = gc_adapter_version caps
     \<and> me_SafetyArbiterVersion e = gc_safety_arbiter_version caps
     \<and> me_TopicMappingVersion e = gc_topic_mapping_version caps"

text \<open>The body of the loop over the matrix, for the entry that matches.\<close>

definition assess_entry :: "compatibilityMatrixEntry \<Rightarrow> GatewayCapabilities \<Rightarrow> CapabilityDecision" where
  "assess_entry e caps =
    (let noCert = me_RequiresCertificate e \<and> \<not> gc_certificate_installed caps;
         modeSet = map ControlMode_String (gc_supported_control_modes caps);
         missing = filter (\<lambda>r. r \<notin> set modeSet) (me_RequiredControlModes e);
         noTPM = me_RequiresTPMForControl e \<and> \<not> gc_tpm_available caps;
         fewModems = int (length (gc_modems caps)) < me_RequiredModemsForControl e;
         reasons = (if noCert then [ReasonCertificate] else []) @ map ReasonMode missing
                   @ (if noTPM then [ReasonTPM] else [])
                   @ (if fewModems then [ReasonModems (me_RequiredModemsForControl e)] else []);
         monitoring = \<not> noCert;
         control = (\<not> noCert \<and> missing = [] \<and> \<not> noTPM \<and> \<not> fewModems)
     in \<lparr>cd_MatrixEntry = me_ID e, cd_MonitoringAllowed = monitoring, cd_ControlAllowed = control,
         cd_ControlReason = (if \<not> monitoring then Reasons reasons
                             else if control then ReasonComplete else Reasons reasons)\<rparr>)"

definition unmatched :: CapabilityDecision where
  "unmatched = \<lparr>cd_MatrixEntry = [], cd_MonitoringAllowed = False, cd_ControlAllowed = False,
     cd_ControlReason = ReasonUnmatched\<rparr>"

definition AssessGatewayCapabilities ::
  "compatibilityMatrix option \<Rightarrow> GatewayCapabilities option \<Rightarrow> caps_error + CapabilityDecision" where
  "AssessGatewayCapabilities parsed caps' =
    (case caps' of None \<Rightarrow> Inl CapsNil | Some caps \<Rightarrow>
      if trim_space (gc_vehicle_id caps) = [] \<or> trim_space (gc_gateway_version caps) = []
         \<or> trim_space (gc_stack_version caps) = [] \<or> trim_space (gc_topic_mapping_version caps) = []
         \<or> trim_space (gc_adapter_version caps) = [] \<or> trim_space (gc_safety_arbiter_version caps) = []
         \<or> gc_stack caps = AUTONOMY_STACK_UNSPECIFIED then Inl CapsIdentity
      else if gc_supported_control_modes caps = [] then Inl CapsNoModes
      else if length (gc_supported_control_modes caps) > 16 \<or> length (gc_modems caps) > 8
              \<or> length (gc_cameras caps) > 64 \<or> length (gc_workspace_features caps) > 64 then Inl CapsTooMany
      else case check_modes [] (gc_supported_control_modes caps) of Some e \<Rightarrow> Inl e | None \<Rightarrow>
        (case check_cameras [] (gc_cameras caps) of Some e \<Rightarrow> Inl e | None \<Rightarrow>
          (case check_modems [] (gc_modems caps) of Some e \<Rightarrow> Inl e | None \<Rightarrow>
            (case loadCompatibilityMatrix parsed of
               Inl e \<Rightarrow> Inl e
             | Inr matrix \<Rightarrow>
                (case find (\<lambda>e. entry_matches e caps) (mx_Entries matrix) of
                   Some e \<Rightarrow> Inr (assess_entry e caps)
                 | None \<Rightarrow> Inr unmatched)))))"

section \<open>Telemetry batches\<close>

datatype SignalQuality =
    SIGNAL_QUALITY_UNSPECIFIED | SIGNAL_QUALITY_GOOD | SIGNAL_QUALITY_STALE
  | SIGNAL_QUALITY_MISSING | SIGNAL_QUALITY_INVALID | SIGNAL_QUALITY_NUM int

datatype Value =
    Value_Number float64 | Value_Boolean bool | Value_Text string | Value_Raw bytes
  | Value_NumberList "float64 list option" | Value_Unset

record Signal =
  sig_path :: string
  sig_value :: "Value option"
  sig_sample_monotonic_ns :: u64
  sig_sample_utc_ns :: int
  sig_quality :: SignalQuality

type_synonym SignalUpdate = "Signal option list"

text \<open>
  \<open>unicode.IsControl\<close> over the UTF-8 bytes of a string: the C0 range and DEL are single bytes, the
  C1 range U+0080 to U+009F is the byte C2 followed by 80 to 9F, and C2 starts a rune wherever it
  stands.
\<close>

fun has_control :: "string \<Rightarrow> bool" where
  "has_control [] = False"
| "has_control (c # cs) =
    (of_char c < (32 :: nat) \<or> of_char c = (127 :: nat)
     \<or> (of_char c = (194 :: nat) \<and> (case cs of [] \<Rightarrow> False | d # _ \<Rightarrow> 128 \<le> (of_char d :: nat) \<and> (of_char d :: nat) \<le> 159))
     \<or> has_control cs)"

datatype signal_error =
    SigCount | SigPath | SigDuplicate string | SigQuality | SigNoSample | SigSampleWindow | SigNoValue
  | SigNotFinite | SigListTooLong | SigListNotFinite | SigKind | SigRawTooLong

definition check_value :: "SignalQuality \<Rightarrow> Value option \<Rightarrow> signal_error option" where
  "check_value q v =
    (case v of
       None \<Rightarrow> if q = SIGNAL_QUALITY_GOOD \<or> q = SIGNAL_QUALITY_STALE then Some SigNoValue else None
     | Some (Value_Number x) \<Rightarrow> if is_nan x \<or> is_inf x then Some SigNotFinite else None
     | Some (Value_Boolean _) \<Rightarrow> None
     | Some (Value_Text _) \<Rightarrow> None
     | Some (Value_Raw b) \<Rightarrow> if int (length b) > 64 * 1024 then Some SigRawTooLong else None
     | Some (Value_NumberList None) \<Rightarrow> Some SigListTooLong
     | Some (Value_NumberList (Some xs)) \<Rightarrow>
         if length xs > 256 then Some SigListTooLong
         else if list_ex (\<lambda>x. is_nan x \<or> is_inf x) xs then Some SigListNotFinite else None
     | Some Value_Unset \<Rightarrow> Some SigKind)"

definition check_signal :: "gotime \<Rightarrow> string list \<Rightarrow> Signal \<Rightarrow> signal_error option" where
  "check_signal now seen s =
    (if trim_space (sig_path s) = [] \<or> length (sig_path s) > 256 \<or> has_control (sig_path s) then Some SigPath
     else if sig_path s \<in> set seen then Some (SigDuplicate (sig_path s))
     else if sig_quality s \<notin> {SIGNAL_QUALITY_GOOD, SIGNAL_QUALITY_STALE, SIGNAL_QUALITY_MISSING, SIGNAL_QUALITY_INVALID}
     then Some SigQuality
     else if sig_sample_monotonic_ns s = 0 \<or> sig_sample_utc_ns s \<le> 0 then Some SigNoSample
     else if time_after (time_unix (sig_sample_utc_ns s)) (time_add now (2 * second))
             \<or> time_before (time_unix (sig_sample_utc_ns s)) (time_add now (-24 * hour)) then Some SigSampleWindow
     else check_value (sig_quality s) (sig_value s))"

fun check_signals :: "gotime \<Rightarrow> string list \<Rightarrow> Signal option list \<Rightarrow> signal_error option" where
  "check_signals now seen [] = None"
| "check_signals now seen (None # ss) = Some SigPath"
| "check_signals now seen (Some s # ss) =
    (case check_signal now seen s of Some e \<Rightarrow> Some e | None \<Rightarrow> check_signals now (sig_path s # seen) ss)"

definition ValidateSignalUpdate :: "SignalUpdate option \<Rightarrow> gotime \<Rightarrow> gotime \<Rightarrow> signal_error option" where
  "ValidateSignalUpdate update now clock =
    (case update of None \<Rightarrow> Some SigCount | Some sigs \<Rightarrow>
      if sigs = [] \<or> length sigs > 512 then Some SigCount
      else check_signals (if time_is_zero now then clock else now) [] sigs)"

section \<open>Lemmas\<close>

lemma check_modes_None:
  "check_modes seen ms = None \<Longrightarrow> distinct ms \<and> set ms \<inter> set seen = {} \<and>
     set ms \<subseteq> {CONTROL_MODE_DIRECT_ACTUATION, CONTROL_MODE_TARGET_MOTION, CONTROL_MODE_TRAJECTORY, CONTROL_MODE_MINIMAL_RISK}"
  by (induction seen ms rule: check_modes.induct) (auto split: if_splits)

lemma check_modems_None:
  "check_modems seen ms = None \<Longrightarrow>
     \<exists>xs. ms = map Some xs \<and> distinct (map mo_modem_id xs) \<and> set (map mo_modem_id xs) \<inter> set seen = {} \<and>
       (\<forall>m \<in> set xs. trim_space (mo_modem_id m) \<noteq> [])"
proof (induction seen ms rule: check_modems.induct)
  case (3 seen m ms)
  then obtain xs where "ms = map Some xs" "distinct (map mo_modem_id xs)"
    "set (map mo_modem_id xs) \<inter> set (mo_modem_id m # seen) = {}" "\<forall>m \<in> set xs. trim_space (mo_modem_id m) \<noteq> []"
    by (auto split: if_splits)
  moreover have "trim_space (mo_modem_id m) \<noteq> []" "mo_modem_id m \<notin> set seen" using 3 by (auto split: if_splits)
  ultimately show ?case by (intro exI [of _ "m # xs"]) auto
qed auto

lemma AssessGatewayCapabilities_Inr:
  assumes "AssessGatewayCapabilities parsed (Some caps) = Inr d"
  obtains matrix where "loadCompatibilityMatrix parsed = Inr matrix"
    "check_modes [] (gc_supported_control_modes caps) = None" "check_modems [] (gc_modems caps) = None"
    "d = (case find (\<lambda>e. entry_matches e caps) (mx_Entries matrix) of
            Some e \<Rightarrow> assess_entry e caps | None \<Rightarrow> unmatched)"
proof -
  obtain matrix where "loadCompatibilityMatrix parsed = Inr matrix"
    using assms by (cases "loadCompatibilityMatrix parsed") (simp_all add: AssessGatewayCapabilities_def split: option.splits if_splits)
  moreover have "check_modes [] (gc_supported_control_modes caps) = None" "check_modems [] (gc_modems caps) = None"
    "check_cameras [] (gc_cameras caps) = None"
    using assms by (simp_all add: AssessGatewayCapabilities_def split: option.splits if_splits)
  moreover have "d = (case find (\<lambda>e. entry_matches e caps) (mx_Entries matrix) of
            Some e \<Rightarrow> assess_entry e caps | None \<Rightarrow> unmatched)"
    using assms calculation by (simp add: AssessGatewayCapabilities_def split: if_splits option.splits)
  ultimately show thesis using that by blast
qed

lemma loadCompatibilityMatrix_id: "loadCompatibilityMatrix (Some m) = Inr m' \<Longrightarrow> m' = m"
  by (auto simp: loadCompatibilityMatrix_def split: if_splits option.splits)

lemma embedded_matrix_loads: "loadCompatibilityMatrix (Some embedded_matrix) = Inr embedded_matrix"
  by code_simp

lemma AutonomyStack_String_ROS1:
  "AutonomyStack_String s = ''AUTONOMY_STACK_ROS1'' \<Longrightarrow> s = AUTONOMY_STACK_ROS1 \<or> (\<exists>n. s = AUTONOMY_STACK_NUM n)"
  by (cases s) auto

text \<open>What a valid signal is, apart from the order the checks run in.\<close>

definition value_ok :: "SignalQuality \<Rightarrow> Value option \<Rightarrow> bool" where
  "value_ok q v \<longleftrightarrow> (case v of
       None \<Rightarrow> q = SIGNAL_QUALITY_MISSING \<or> q = SIGNAL_QUALITY_INVALID
     | Some (Value_Number x) \<Rightarrow> (\<exists>r. x = Fin r)
     | Some (Value_Raw b) \<Rightarrow> length b \<le> 65536
     | Some (Value_NumberList xs) \<Rightarrow> (\<exists>rs. xs = Some (map Fin rs) \<and> length rs \<le> 256)
     | Some Value_Unset \<Rightarrow> False
     | _ \<Rightarrow> True)"

definition signal_ok :: "gotime \<Rightarrow> Signal \<Rightarrow> bool" where
  "signal_ok now s \<longleftrightarrow> trim_space (sig_path s) \<noteq> [] \<and> length (sig_path s) \<le> 256 \<and> \<not> has_control (sig_path s) \<and>
     sig_quality s \<in> {SIGNAL_QUALITY_GOOD, SIGNAL_QUALITY_STALE, SIGNAL_QUALITY_MISSING, SIGNAL_QUALITY_INVALID} \<and>
     sig_sample_monotonic_ns s \<noteq> 0 \<and> 0 < sig_sample_utc_ns s \<and>
     wall now - 24 * hour \<le> sig_sample_utc_ns s \<and> sig_sample_utc_ns s \<le> wall now + 2 * second \<and>
     value_ok (sig_quality s) (sig_value s)"

lemma not_finite_iff: "\<not> (is_nan x \<or> is_inf x) \<longleftrightarrow> (\<exists>r. x = Fin r)"
  by (cases x) (auto simp: is_nan_def is_inf_def)

lemma all_finite_iff: "\<not> list_ex (\<lambda>x. is_nan x \<or> is_inf x) xs \<longleftrightarrow> (\<exists>rs. xs = map Fin rs)"
proof (induction xs)
  case (Cons x xs)
  have "(\<exists>rs. x # xs = map Fin rs) \<longleftrightarrow> (\<exists>r rs. x = Fin r \<and> xs = map Fin rs)"
    by (metis list.simps(9) map_eq_Cons_conv)
  then show ?case using Cons not_finite_iff [of x] by auto
qed simp

lemma check_value_None:
  "q \<in> {SIGNAL_QUALITY_GOOD, SIGNAL_QUALITY_STALE, SIGNAL_QUALITY_MISSING, SIGNAL_QUALITY_INVALID} \<Longrightarrow>
   check_value q v = None \<longleftrightarrow> value_ok q v"
  using not_finite_iff all_finite_iff
  by (auto simp: check_value_def value_ok_def split: option.splits Value.splits)

lemma check_signal_None:
  "check_signal now seen s = None \<longleftrightarrow> signal_ok now s \<and> sig_path s \<notin> set seen"
  using check_value_None [of "sig_quality s" "sig_value s"]
  by (auto simp: check_signal_def signal_ok_def time_after_def time_before_def time_diff_def time_unix_def time_add_def
      not_less split: option.splits)

lemma check_signals_None:
  "check_signals now seen ss = None \<longleftrightarrow>
     (\<exists>xs. ss = map Some xs \<and> distinct (map sig_path xs) \<and> set (map sig_path xs) \<inter> set seen = {} \<and>
        (\<forall>s \<in> set xs. signal_ok now s))"
proof (induction now seen ss rule: check_signals.induct)
  case (3 now seen s ss)
  have cons: "(\<exists>xs. Some s # ss = map Some xs \<and> Q xs) \<longleftrightarrow> (\<exists>xs. ss = map Some xs \<and> Q (s # xs))" for Q
    by (auto simp: Cons_eq_map_conv)
  show ?case
  proof (cases "check_signal now seen s")
    case None
    then have ok: "signal_ok now s" "sig_path s \<notin> set seen" using check_signal_None [of now seen s] by simp_all
    have lhs: "check_signals now seen (Some s # ss) = check_signals now (sig_path s # seen) ss" using None by simp
    show ?thesis unfolding cons lhs 3 [OF None] using ok by auto
  next
    case (Some e)
    then have "\<not> (signal_ok now s \<and> sig_path s \<notin> set seen)" using check_signal_None [of now seen s] by simp
    with Some cons show ?thesis by auto
  qed
qed auto

section \<open>A concrete Gateway\<close>

definition demo_modem :: "string \<Rightarrow> ModemInfo option" where
  "demo_modem i = Some \<lparr>mo_modem_id = i, mo_carrier = ''carrier-a'', mo_iccid = []\<rparr>"

definition demo_caps :: GatewayCapabilities where
  "demo_caps = \<lparr>gc_vehicle_id = ''v1'', gc_gateway_version = ''0.1.0'', gc_stack = AUTONOMY_STACK_ROS1,
     gc_stack_version = ''ROS 1 Noetic'', gc_supported_control_modes = [CONTROL_MODE_TARGET_MOTION],
     gc_topic_mapping_version = ''ros1-map-v0.1'', gc_cameras = [], gc_modems = [demo_modem ''m1'', demo_modem ''m2''],
     gc_tpm_available = True, gc_certificate_installed = True, gc_workspace_features = [], gc_map = None,
     gc_adapter_version = ''0.1.0'', gc_safety_arbiter_version = ''0.1.0'', gc_chassis_type = [], gc_group_id = []\<rparr>"

lemma demo_caps_admitted:
  "AssessGatewayCapabilities (Some embedded_matrix) (Some demo_caps) = Inr
    \<lparr>cd_MatrixEntry = ''ros1-noetic-platform-v1'', cd_MonitoringAllowed = True, cd_ControlAllowed = True,
     cd_ControlReason = ReasonComplete\<rparr>"
  by code_simp

definition demo_signal :: Signal where
  "demo_signal = \<lparr>sig_path = ''Vehicle.Speed'', sig_value = Some (Value_Number (Fin 2)),
     sig_sample_monotonic_ns = 5, sig_sample_utc_ns = 1700000000000000000, sig_quality = SIGNAL_QUALITY_GOOD\<rparr>"

section \<open>Properties\<close>

text \<open>
  C13. Control is only for a complete vehicle: whatever the matrix, a declaration that is allowed
  to control is allowed to monitor and matches an entry in stack and in all five versions; if the
  entry asks for them, the certificate and the TPM are there, every required mode is declared, and
  there are as many modems, with different ids, as the entry requires.
\<close>

theorem control_admission:
  assumes "AssessGatewayCapabilities (Some matrix) (Some caps) = Inr d" and "cd_ControlAllowed d"
  shows "cd_MonitoringAllowed d \<and> (\<exists>e modems. e \<in> set (mx_Entries matrix) \<and> cd_MatrixEntry d = me_ID e \<and> entry_matches e caps \<and>
    (me_RequiresCertificate e \<longrightarrow> gc_certificate_installed caps) \<and> (me_RequiresTPMForControl e \<longrightarrow> gc_tpm_available caps) \<and>
    set (me_RequiredControlModes e) \<subseteq> ControlMode_String ` set (gc_supported_control_modes caps) \<and>
    gc_modems caps = map Some modems \<and> distinct (map mo_modem_id modems) \<and>
    me_RequiredModemsForControl e \<le> int (length modems))"
proof -
  from assms(1) obtain matrix' where load: "loadCompatibilityMatrix (Some matrix) = Inr matrix'"
    and modems: "check_modems [] (gc_modems caps) = None"
    and d: "d = (case find (\<lambda>e. entry_matches e caps) (mx_Entries matrix') of
            Some e \<Rightarrow> assess_entry e caps | None \<Rightarrow> unmatched)"
    by (rule AssessGatewayCapabilities_Inr)
  from loadCompatibilityMatrix_id [OF load] d assms(2)
  obtain e where e: "find (\<lambda>e. entry_matches e caps) (mx_Entries matrix) = Some e" and de: "d = assess_entry e caps"
    by (auto simp: unmatched_def split: option.splits)
  have e': "e \<in> set (mx_Entries matrix)" "entry_matches e caps" using e by (auto simp: find_Some_iff)
  obtain ms where m: "gc_modems caps = map Some ms" "distinct (map mo_modem_id ms)"
    using check_modems_None [OF modems] by auto
  have "set (me_RequiredControlModes e) \<subseteq> ControlMode_String ` set (gc_supported_control_modes caps)"
    using de assms(2) by (auto simp: assess_entry_def Let_def filter_empty_conv)
  with de assms(2) e' m show ?thesis
    by (intro conjI exI [of _ e] exI [of _ ms]) (auto simp: assess_entry_def Let_def)
qed

theorem control_admission_witness:
  "\<exists>e. e \<in> set (mx_Entries embedded_matrix) \<and> entry_matches e demo_caps"
  using control_admission [OF demo_caps_admitted] by auto

text \<open>
  With the matrix that ships in the repository, remote control is admitted exactly when the
  declaration passes the checks, names the versions of the only entry, and has the certificate,
  the TPM, the target-motion mode and at least two modems.
\<close>

theorem shipped_matrix_control:
  assumes "AssessGatewayCapabilities (Some embedded_matrix) (Some caps) = Inr d"
  shows "cd_ControlAllowed d \<longleftrightarrow> entry_matches (hd (mx_Entries embedded_matrix)) caps \<and> gc_certificate_installed caps \<and>
    gc_tpm_available caps \<and> CONTROL_MODE_TARGET_MOTION \<in> set (gc_supported_control_modes caps) \<and> 2 \<le> length (gc_modems caps)"
proof -
  let ?e = "hd (mx_Entries embedded_matrix)"
  have one: "mx_Entries embedded_matrix = [?e]" by (simp add: embedded_matrix_def)
  from assms obtain matrix where load: "loadCompatibilityMatrix (Some embedded_matrix) = Inr matrix"
    and modes: "check_modes [] (gc_supported_control_modes caps) = None"
    and d: "d = (case find (\<lambda>e. entry_matches e caps) (mx_Entries matrix) of
            Some e \<Rightarrow> assess_entry e caps | None \<Rightarrow> unmatched)"
    by (rule AssessGatewayCapabilities_Inr)
  have mode': "''CONTROL_MODE_TARGET_MOTION'' \<in> ControlMode_String ` set (gc_supported_control_modes caps) \<longleftrightarrow>
    CONTROL_MODE_TARGET_MOTION \<in> set (gc_supported_control_modes caps)"
    using check_modes_None [OF modes] by force
  have "find (\<lambda>e. entry_matches e caps) (mx_Entries embedded_matrix) = (if entry_matches ?e caps then Some ?e else None)"
    by (subst one) simp
  then have "d = (if entry_matches ?e caps then assess_entry ?e caps else unmatched)"
    using d loadCompatibilityMatrix_id [OF load] by simp
  moreover have "cd_ControlAllowed (assess_entry ?e caps) \<longleftrightarrow> gc_certificate_installed caps \<and>
    gc_tpm_available caps \<and> CONTROL_MODE_TARGET_MOTION \<in> set (gc_supported_control_modes caps) \<and> 2 \<le> length (gc_modems caps)"
    using mode' by (auto simp: assess_entry_def Let_def embedded_matrix_def)
  ultimately show ?thesis by (simp add: unmatched_def)
qed

theorem shipped_matrix_control_witness: "2 \<le> length (gc_modems demo_caps)"
  using shipped_matrix_control [OF demo_caps_admitted] by simp

text \<open>
  Telemetry validation is exactly its specification: a batch passes if and only if it has
  between 1 and 512 signals, none nil, with pairwise different paths, and every signal has a
  printable path, a known quality, a sample time between a day ago and two seconds ahead, and a
  finite value of bounded size (no value only when the quality says missing or invalid).
\<close>

theorem signal_update_valid_iff:
  "ValidateSignalUpdate (Some ss) now clock = None \<longleftrightarrow>
     (\<exists>xs. ss = map Some xs \<and> 1 \<le> length xs \<and> length xs \<le> 512 \<and> distinct (map sig_path xs) \<and>
        (\<forall>s \<in> set xs. signal_ok (if time_is_zero now then clock else now) s))"
  by (auto simp: ValidateSignalUpdate_def check_signals_None Suc_le_eq)

theorem signal_update_valid_witness:
  "\<exists>xs. [Some demo_signal] = map Some xs \<and> distinct (map sig_path xs)"
proof -
  have "ValidateSignalUpdate (Some [Some demo_signal]) (time_unix 1700000000000000000) time_zero = None" by code_simp
  from iffD1 [OF signal_update_valid_iff this] show ?thesis by (elim exE conjE) (intro exI conjI)
qed

text \<open>
  Two modems need not be two carriers: the shipped matrix admits a Gateway to control whose
  two modems name the same carrier, although the message definition asks for independent modems
  of different carriers.
\<close>

theorem same_carrier_admitted:
  "\<exists>d. AssessGatewayCapabilities (Some embedded_matrix) (Some demo_caps) = Inr d \<and> cd_ControlAllowed d \<and>
     map (map_option mo_carrier) (gc_modems demo_caps) = [Some ''carrier-a'', Some ''carrier-a'']"
  by (simp add: demo_caps_admitted) (simp add: demo_caps_def demo_modem_def)

end
