(* ===== verification/Fleet_Db.thy ===== *)
theory Fleet_Db
  imports Messages Systems Capability
begin

text \<open>
  The database the fleet server works on, and transactions over it. A table is the list of its
  rows in insertion order, with the columns of \<open>server/migrations\<close> that the code reads or writes.
  A statement may fail (a lost connection, a serialisation conflict, a violated constraint); a
  transaction that fails anywhere, or whose commit fails, leaves the database as it was, which is
  what the deferred \<open>tx.Rollback()\<close> of every caller relies on. Transactions of the code run at
  serialisable isolation or touch single rows, so they are steps one after the other. \<open>now()\<close> of
  the database, readings of the process clock and random identifiers are arguments. Instants are
  nanoseconds since the Unix epoch.
\<close>

section \<open>Values of an audit record's \<open>detail\<close>\<close>

datatype jval = JInt int | JStr string | JTime int | JBool bool | JReason control_reason
  | JNull | JNum float64 | JArr "jval list" | JObj "(string \<times> jval) list"

type_synonym json = "(string \<times> jval) list"

section \<open>Tables\<close>

record vehicle_row =
  v_id :: string
  v_gateway_id :: string
  v_stack :: string
  v_lifecycle :: string
  v_last_seen :: "int option"
  v_group :: string
  v_chassis :: string

record vehicle_state_row =
  vs_vehicle :: string
  vs_online :: bool
  vs_updated_at :: int
  vs_mode :: "string option"
  vs_speed_mps :: float64
  vs_soc :: float64
  vs_voltage :: float64
  vs_gear :: "string option"
  vs_steer_rad :: float64
  vs_gps_fix :: bool
  vs_gps :: "float64 option \<times> float64 option \<times> float64 option"
  vs_pose_valid :: bool
  vs_pose_frame :: "string option"
  vs_pose :: "float64 option \<times> float64 option \<times> float64 option"

record gateway_row =
  gw_gateway_id :: string
  gw_vehicle_id :: string
  gw_certificate_sha256 :: string
  gw_certificate_subject :: string
  gw_not_after :: int
  gw_status :: string
  gw_activated_at :: int
  gw_revoked_at :: "int option"
  gw_revoke_reason :: string
  gw_last_authenticated_at :: "int option"

record enrollment_row =
  en_id :: string
  en_vehicle_id :: string
  en_gateway_id :: string
  en_token_sha256 :: string
  en_expected_spiffe :: string
  en_expires_at :: int
  en_created_by :: string
  en_created_at :: int
  en_consumed_at :: "int option"
  en_consumed_certificate :: string

record epoch_row =
  ep_vehicle :: string
  ep_fencing :: int
  ep_active_lease :: "string option"

record lease_row =
  cl_id :: string
  cl_vehicle :: string
  cl_gateway :: string
  cl_driver :: string
  cl_device :: string
  cl_fencing :: int
  cl_state :: string
  cl_issued_at :: int
  cl_valid_until :: int
  cl_released_at :: "int option"
  cl_release_reason :: string

record renewal_row =
  rn_lease :: string
  rn_request :: string
  rn_valid_until :: int

record security_event =
  se_vehicle :: string
  se_gateway :: string
  se_lease :: "string option"
  se_actor :: string
  se_event_type :: string
  se_outcome :: string
  se_detail :: json

record outbox_row =
  ob_id :: string
  ob_dedupe_key :: string
  ob_aggregate_type :: string
  ob_aggregate_id :: string
  ob_gateway :: string
  ob_channel :: string
  ob_payload :: bytes
  ob_status :: string
  ob_attempts :: int
  ob_next_attempt_at :: int
  ob_created_at :: int
  ob_sent_at :: "int option"
  ob_last_error :: string

record capability_row =
  vc_vehicle :: string
  vc_gateway :: string
  vc_matrix_entry :: string
  vc_stack :: string
  vc_versions :: "string \<times> string \<times> string \<times> string \<times> string"
  vc_monitoring_allowed :: bool
  vc_control_allowed :: bool
  vc_control_reason :: control_reason
  vc_snapshot :: bytes
  vc_updated_at :: int

type_synonym message_key = "string \<times> string \<times> string \<times> string"

record NavPoint =
  np_Name :: string
  np_X :: float64
  np_Y :: float64
  np_AtNS :: int
  np_DwellS :: float64

record route_row =
  rt_id :: string
  rt_vehicle :: string
  rt_name :: string
  rt_remark :: string
  rt_points :: "NavPoint list"
  rt_status :: string
  rt_created_ns :: int
  rt_dispatched_ns :: int
  rt_ack_result :: string
  rt_ack_detail :: string
  rt_current_point :: int
  rt_ack_ns :: int
  rt_updated_ns :: int
  rt_trace_id :: string
  rt_origin :: string

record publication_row =
  mp_id :: string
  mp_map_id :: string
  mp_version :: int
  mp_vehicle :: string
  mp_state :: string
  mp_action :: string
  mp_compatibility :: json
  mp_previous :: string
  mp_rollback_target :: string
  mp_requested_by :: string
  mp_approved_by :: string
  mp_sha256 :: string
  mp_frame :: string
  mp_ack_result :: string
  mp_ack_detail :: string
  mp_ack_at :: "int option"
  mp_created_at :: int
  mp_updated_at :: int

record sample_row =
  ts_vehicle :: string
  ts_at :: int
  ts_path :: string
  ts_num :: "float64 option"
  ts_txt :: "string option"

record control_ack_row =
  ca_session :: string
  ca_sequence :: int
  ca_vehicle :: string
  ca_gateway :: string
  ca_result :: string
  ca_detail :: string
  ca_applied :: int
  ca_link :: string

record dead_letter_row =
  dl_topic :: string
  dl_gateway :: string
  dl_vehicle :: string
  dl_message_type :: string
  dl_session :: string
  dl_sequence :: int
  dl_reason :: string
  dl_sha256 :: string
  dl_size :: nat

record user_row =
  us_username :: string
  us_display :: string
  us_role :: string
  us_groups :: "string list"
  us_phone :: string
  us_pass_hash :: string
  us_salt :: string
  us_created_ns :: int
  us_pass_set_ns :: int

record session_row =
  ss_token_hash :: string
  ss_username :: string
  ss_role :: string
  ss_groups :: "string list"
  ss_created_at :: int
  ss_last_use_at :: int
  ss_revoked_at :: "int option"

record audit_row =
  ad_id :: int
  ad_ts :: int
  ad_actor :: string
  ad_action :: string
  ad_detail :: json

text \<open>The text of an operational event, as the message it is formatted from and its arguments.\<close>

datatype event_text =
    TxtOnline | TxtLost | TxtMode string string | TxtMRC | TxtStopped | TxtRemote | TxtAutonomous
  | TxtRegistered string string | TxtManual string string
  | TxtRouteQueued string | TxtRouteCancel string | TxtRouteDispatched string | TxtRouteAck string string string
  | TxtMapApproved string | TxtMapApplied string int | TxtMapRejected string string
  | TxtTakeover string string string string | TxtLogin string string
  | TxtMapUpdated string int string nat | TxtMapConverted string int | TxtMapDeleted string nat
  | TxtMaintenanceRequested string | TxtMaintenanceGranted string
  | TxtOpenRoute string string string | TxtOpenStop string string
  | TxtLogout string | TxtUserCreated string string string | TxtUserDeleted string string
  | TxtDeviceBound string string string | TxtReleased string string | TxtStopSigned

record event_row =
  er_ts :: int
  er_vehicle :: "string option"
  er_level :: string
  er_text :: event_text
  er_group :: string
  er_kind :: string

record device_row =
  dv_id :: string
  dv_owner :: string
  dv_type :: string
  dv_name :: string
  dv_link :: string
  dv_sn :: string
  dv_salt :: string
  dv_pass_hash :: string
  dv_online :: bool
  dv_created_ns :: int

record map_row =
  mr_id :: string
  mr_vehicle :: string
  mr_name :: string
  mr_kind :: string
  mr_sha256 :: string
  mr_size :: nat
  mr_source :: string
  mr_created_at :: int
  mr_updated_at :: int
  mr_uploader :: string

record map_version_row =
  mv_map :: string
  mv_version :: nat
  mv_kind :: string
  mv_note :: string
  mv_author :: string
  mv_derived_from :: "string option"
  mv_created_at :: int
  mv_files :: "string list"
  mv_metadata :: jval
  mv_sha256 :: string
  mv_size :: nat

record map_object_row =
  mf_map :: string
  mf_version :: nat
  mf_file :: string
  mf_key :: string
  mf_sha256 :: string
  mf_size :: nat
  mf_content_type :: string

record group_row =
  gr_id :: string
  gr_name :: string
  gr_max_admins :: int
  gr_max_users :: int
  gr_created_at :: int

record approval_row =
  wa_id :: string
  wa_vehicle :: string
  wa_requester :: string
  wa_approver :: string
  wa_scope :: string
  wa_reason :: string
  wa_state :: string
  wa_expires_at :: int
  wa_created_at :: int
  wa_decided_at :: "int option"

record workspace_row =
  wk_id :: string
  wk_approval :: string
  wk_vehicle :: string
  wk_gateway :: string
  wk_operator :: string
  wk_device :: string
  wk_token_hash :: string
  wk_state :: string
  wk_created_at :: int
  wk_last_activity_at :: int
  wk_expires_at :: int
  wk_closed_at :: "int option"
  wk_close_reason :: string

record api_key_row =
  ak_id :: string
  ak_name :: string
  ak_prefix :: string
  ak_key_hash :: string
  ak_remark :: string
  ak_scopes :: "string list option"
  ak_vehicles :: "string list option"
  ak_ips :: "string list option"
  ak_created_at :: int
  ak_expires_at :: int
  ak_revoked_at :: "int option"
  ak_last_used_at :: "int option"
  ak_created_by :: string

text \<open>The text of an audit record, as the name of its message and the arguments of the message.\<close>

datatype audit_text = NoText | Text string "string list"

record AuditEntry =
  ae_ID :: int
  ae_TsNS :: int
  ae_KeyID :: string
  ae_KeyName :: string
  ae_Method :: string
  ae_Path :: string
  ae_Result :: string
  ae_HTTP :: int
  ae_IP :: string
  ae_TraceID :: string
  ae_VehicleID :: string
  ae_Remark :: string
  ae_Detail :: audit_text
  ae_Source :: string
  ae_Actor :: string
  ae_Action :: string

record config_row =
  cf_key :: string
  cf_value :: jval
  cf_updated_by :: string

record db =
  vehicles :: "vehicle_row list"
  vehicle_states :: "vehicle_state_row list"
  vehicle_gateways :: "gateway_row list"
  gateway_enrollments :: "enrollment_row list"
  vehicle_control_epochs :: "epoch_row list"
  control_leases :: "lease_row list"
  control_lease_renewals :: "renewal_row list"
  control_security_events :: "security_event list"
  platform_outbox :: "outbox_row list"
  vehicle_capabilities :: "capability_row list"
  inbound_message_cursors :: "(message_key \<times> int) list"
  inbound_message_dedup :: "(message_key \<times> int) list"
  navigation_routes :: "route_row list"
  map_publications :: "publication_row list"
  telemetry_samples :: "sample_row list"
  control_acks :: "control_ack_row list"
  mqtt_ingress_dead_letters :: "dead_letter_row list"
  auth_users :: "user_row list"
  auth_sessions :: "session_row list"
  audit_logs :: "audit_row list"
  fleet_events :: "event_row list"
  control_devices :: "device_row list"
  map_entries :: "map_row list"
  map_versions :: "map_version_row list"
  map_objects :: "map_object_row list"
  org_groups :: "group_row list"
  workspace_approvals :: "approval_row list"
  workspace_sessions :: "workspace_row list"
  api_keys :: "api_key_row list"
  audit_log :: "AuditEntry list"
  platform_config :: "config_row list"

text \<open>
  What the database and the hash function do that the code depends on: the reading of a stored
  \<open>timestamptz\<close>, which has microseconds, and hexadecimal SHA-256.
\<close>

record ext =
  x_ts :: "int \<Rightarrow> int"
  x_sha256_hex :: "bytes \<Rightarrow> string"
  x_token_hash :: "string \<Rightarrow> string"

text \<open>\<open>int64\<close> addition wraps; a \<open>BIGINT\<close> parameter is an \<open>int64\<close>.\<close>

definition wrap64 :: "int \<Rightarrow> int" where
  "wrap64 x = sint (word_of_int x :: u64)"

lemma sint_word_of_int_eq: "sint (word_of_int x :: u64) = signed_take_bit 63 x"
  by transfer simp

lemma wrap64_id: "int64_min \<le> x \<Longrightarrow> x \<le> int64_max \<Longrightarrow> wrap64 x = x"
  by (simp add: wrap64_def int64_min_def int64_max_def signed_take_bit_int_eq_self sint_word_of_int_eq)

lemma wrap64_range: "int64_min \<le> wrap64 x \<and> wrap64 x \<le> int64_max"
  using sint_u64_le sint_u64_ge by (simp add: wrap64_def)

section \<open>Transactions\<close>

datatype 'e tx_error = SqlErr | Dom 'e

type_synonym txs = "db \<times> bool list"
type_synonym ('e, 'a) tx = "txs \<Rightarrow> ('e tx_error + 'a) \<times> txs"

text \<open>The faults of the statements to come; when the list is used up, nothing fails any more.\<close>

fun faulty :: "bool list \<Rightarrow> bool" where
  "faulty [] = False"
| "faulty (b # bs) = b"

definition tx_ret :: "'a \<Rightarrow> ('e, 'a) tx" where
  "tx_ret x s = (Inr x, s)"

definition tx_fail :: "'e \<Rightarrow> ('e, 'a) tx" where
  "tx_fail e s = (Inl (Dom e), s)"

definition tx_bind :: "('e, 'a) tx \<Rightarrow> ('a \<Rightarrow> ('e, 'b) tx) \<Rightarrow> ('e, 'b) tx" where
  "tx_bind m f s = (case m s of (Inl e, s') \<Rightarrow> (Inl e, s') | (Inr x, s') \<Rightarrow> f x s')"

text \<open>A statement: \<open>None\<close> is a violated constraint.\<close>

definition tx_stmt :: "(db \<Rightarrow> ('a \<times> db) option) \<Rightarrow> ('e, 'a) tx" where
  "tx_stmt g s =
    (if faulty (snd s) then (Inl SqlErr, (fst s, tl (snd s)))
     else case g (fst s) of
            None \<Rightarrow> (Inl SqlErr, (fst s, tl (snd s)))
          | Some (x, d) \<Rightarrow> (Inr x, (d, tl (snd s))))"

definition tx_query :: "(db \<Rightarrow> 'a) \<Rightarrow> ('e, 'a) tx" where
  "tx_query q = tx_stmt (\<lambda>d. Some (q d, d))"

definition tx_exec :: "(db \<Rightarrow> db) \<Rightarrow> ('e, unit) tx" where
  "tx_exec u = tx_stmt (\<lambda>d. Some ((), u d))"

definition tx_guard :: "bool \<Rightarrow> 'e \<Rightarrow> ('e, unit) tx" where
  "tx_guard b e = (if b then tx_ret () else tx_fail e)"

definition tx_map_err :: "('e \<Rightarrow> 'f) \<Rightarrow> ('e, 'a) tx \<Rightarrow> ('f, 'a) tx" where
  "tx_map_err h m s = (case m s of (Inl SqlErr, s') \<Rightarrow> (Inl SqlErr, s') | (Inl (Dom e), s') \<Rightarrow> (Inl (Dom (h e)), s')
     | (Inr x, s') \<Rightarrow> (Inr x, s'))"

text \<open>\<open>BeginTx\<close>, the body, \<open>Commit\<close>; any error rolls back.\<close>

definition run_tx :: "('e, 'a) tx \<Rightarrow> txs \<Rightarrow> ('e tx_error + 'a) \<times> txs" where
  "run_tx m s =
    (if faulty (snd s) then (Inl SqlErr, (fst s, tl (snd s)))
     else case m (fst s, tl (snd s)) of
            (Inl e, s') \<Rightarrow> (Inl e, (fst s, snd s'))
          | (Inr x, s') \<Rightarrow>
              if faulty (snd s') then (Inl SqlErr, (fst s, tl (snd s')))
              else (Inr x, (fst s', tl (snd s'))))"

subsection \<open>Reasoning about transactions\<close>

lemma tx_ret_Inr [simp]: "tx_ret x s = (r, s') \<longleftrightarrow> r = Inr x \<and> s' = s"
  by (auto simp: tx_ret_def)

lemma tx_fail_Inr [simp]: "tx_fail e s = (r, s') \<longleftrightarrow> r = Inl (Dom e) \<and> s' = s"
  by (auto simp: tx_fail_def)

lemma tx_bind_Inr [simp]:
  "tx_bind m f s = (Inr y, s') \<longleftrightarrow> (\<exists>x s1. m s = (Inr x, s1) \<and> f x s1 = (Inr y, s'))"
  by (auto simp: tx_bind_def split: prod.splits sum.splits)

lemma tx_stmt_Inr [simp]:
  "tx_stmt g (d, fs) = (Inr x, (d', fs')) \<longleftrightarrow> \<not> faulty fs \<and> fs' = tl fs \<and> g d = Some (x, d')"
  by (auto simp: tx_stmt_def split: option.splits)

lemma tx_query_Inr [simp]:
  "tx_query q (d, fs) = (Inr x, (d', fs')) \<longleftrightarrow> \<not> faulty fs \<and> fs' = tl fs \<and> x = q d \<and> d' = d"
  by (auto simp: tx_query_def)

lemma tx_exec_Inr [simp]:
  "tx_exec u (d, fs) = (Inr x, (d', fs')) \<longleftrightarrow> \<not> faulty fs \<and> fs' = tl fs \<and> d' = u d"
  by (auto simp: tx_exec_def)

lemma tx_guard_Inr [simp]: "tx_guard b e s = (Inr x, s') \<longleftrightarrow> b \<and> s' = s"
  by (auto simp: tx_guard_def)

lemma tx_map_err_Inr [simp]: "tx_map_err h m s = (Inr x, s') \<longleftrightarrow> m s = (Inr x, s')"
  by (auto simp: tx_map_err_def split: prod.splits sum.splits tx_error.splits)

text \<open>The two faces of a transaction: an error changes nothing, a success is a success of its body.\<close>

lemma run_tx_Inl: "run_tx m (d, fs) = (Inl e, (d', fs')) \<Longrightarrow> d' = d"
  by (auto simp: run_tx_def split: prod.splits sum.splits if_splits)

lemma run_tx_Inr:
  assumes "run_tx m (d, fs) = (Inr x, (d', fs'))"
  obtains gs where "m (d, tl fs) = (Inr x, (d', gs))"
  using assms by (auto simp: run_tx_def split: prod.splits sum.splits if_splits)

lemma run_tx_cases:
  obtains (failed) e fs' where "run_tx m (d, fs) = (Inl e, (d, fs'))"
  | (committed) x d' gs fs' where "run_tx m (d, fs) = (Inr x, (d', fs'))" "m (d, tl fs) = (Inr x, (d', gs))"
proof -
  obtain r d' fs' where r: "run_tx m (d, fs) = (r, (d', fs'))" by (metis prod.exhaust)
  show thesis
  proof (cases r)
    case (Inl e)
    with r failed run_tx_Inl [of m d fs e d' fs'] show thesis by auto
  next
    case (Inr x)
    with r have "run_tx m (d, fs) = (Inr x, (d', fs'))" by simp
    then show thesis by (rule run_tx_Inr) (use r Inr committed in blast)
  qed
qed

text \<open>What is kept by the body on success is kept by the transaction.\<close>

lemma run_tx_keeps:
  assumes "\<And>x d' gs. m (d, tl fs) = (Inr x, (d', gs)) \<Longrightarrow> P d'" and "P d"
  shows "P (fst (snd (run_tx m (d, fs))))"
  by (rule run_tx_cases [of m d fs]) (use assms in auto)

text \<open>Without faults, a transaction is its body.\<close>

lemma tx_stmt_nil [simp]:
  "tx_stmt g (d, []) = (case g d of None \<Rightarrow> (Inl SqlErr, (d, [])) | Some (x, d') \<Rightarrow> (Inr x, (d', [])))"
  by (simp add: tx_stmt_def split: option.splits)

lemma tx_query_nil [simp]: "tx_query q (d, []) = (Inr (q d), (d, []))"
  by (simp add: tx_query_def)

lemma tx_exec_nil [simp]: "tx_exec u (d, []) = (Inr (), (u d, []))"
  by (simp add: tx_exec_def)

section \<open>Rows\<close>

text \<open>\<open>UPDATE ... WHERE\<close>, and the number of rows it touched.\<close>

definition update_where :: "('r \<Rightarrow> bool) \<Rightarrow> ('r \<Rightarrow> 'r) \<Rightarrow> 'r list \<Rightarrow> 'r list" where
  "update_where p u rs = map (\<lambda>r. if p r then u r else r) rs"

definition count_where :: "('r \<Rightarrow> bool) \<Rightarrow> 'r list \<Rightarrow> nat" where
  "count_where p rs = length (filter p rs)"

lemma update_where_empty [simp]: "update_where p u [] = []"
  by (simp add: update_where_def)

lemma set_update_where: "set (update_where p u rs) = {r. \<exists>q \<in> set rs. r = (if p q then u q else q)}"
  by (auto simp: update_where_def)

lemma map_update_where [simp]: "(\<And>r. p r \<Longrightarrow> f (u r) = f r) \<Longrightarrow> map f (update_where p u rs) = map f rs"
  by (simp add: update_where_def)

lemma update_where_none: "(\<And>r. r \<in> set rs \<Longrightarrow> \<not> p r) \<Longrightarrow> update_where p u rs = rs"
  by (simp add: update_where_def map_idI)

text \<open>Rows picked by \<open>ORDER BY\<close> a key, greatest first; rows with equal keys in table order.\<close>

definition order_desc :: "('r \<Rightarrow> int) \<Rightarrow> 'r list \<Rightarrow> 'r list" where
  "order_desc k rs = sort_key (\<lambda>r. - k r) rs"

lemma set_order_desc [simp]: "set (order_desc k rs) = set rs"
  by (simp add: order_desc_def)

definition first_row :: "'r list \<Rightarrow> 'r option" where
  "first_row rs = (case rs of [] \<Rightarrow> None | r # _ \<Rightarrow> Some r)"

lemma first_row_Some: "first_row rs = Some r \<Longrightarrow> r \<in> set rs"
  by (auto simp: first_row_def split: list.splits)

lemma first_row_None: "first_row rs = None \<longleftrightarrow> rs = []"
  by (auto simp: first_row_def split: list.splits)

definition vehicle_exists :: "db \<Rightarrow> string \<Rightarrow> bool" where
  "vehicle_exists d v = (v \<in> v_id ` set (vehicles d))"

definition log_security ::
  "string \<Rightarrow> string \<Rightarrow> string option \<Rightarrow> string \<Rightarrow> string \<Rightarrow> string \<Rightarrow> json \<Rightarrow> db \<Rightarrow> db" where
  "log_security v g l actor ty outcome detail d =
     d\<lparr>control_security_events := control_security_events d @
       [\<lparr>se_vehicle = v, se_gateway = g, se_lease = l, se_actor = actor, se_event_type = ty,
         se_outcome = outcome, se_detail = detail\<rparr>]\<rparr>"

end
