(* ===== verification/Outbox.thy ===== *)
theory Outbox
  imports Fleet_Db
begin

text \<open>
  \<open>server/fleet/outbox.go\<close>: the transactional outbox. A signed downlink is stored in the same
  transaction as the state it announces, claimed in batches, published, and marked; a failure is
  retried with a growing delay and given up after twenty attempts. \<open>None\<close> for an identifier is a
  failed read of the random source; the answer of the MQTT client and the projections that follow
  a delivery are arguments. Error texts of the code are replaced by short names.
\<close>

section \<open>Enqueueing\<close>

definition outboxBatchSize :: nat where "outboxBatchSize = 32"
definition outboxMaxAttempts :: int where "outboxMaxAttempts = 20"
definition outboxClaimTimeout :: int where "outboxClaimTimeout = 30 * second"

record outboxItem =
  it_id :: string
  it_aggregateType :: string
  it_aggregateID :: string
  it_gateway :: string
  it_channel :: string
  it_payload :: bytes
  it_attempts :: int

datatype outbox_error = OutboxFields | OutboxNoId

definition outboxID :: "string option \<Rightarrow> string" where
  "outboxID rnd = (case rnd of None \<Rightarrow> [] | Some h \<Rightarrow> ''out-'' @ h)"

definition dedupe_key :: "ext \<Rightarrow> string \<Rightarrow> string \<Rightarrow> string \<Rightarrow> string \<Rightarrow> bytes \<Rightarrow> string" where
  "dedupe_key x aggregateType aggregateID gatewayID channel payload =
     aggregateType @ ''/'' @ aggregateID @ ''/'' @ gatewayID @ ''/'' @ channel @ ''/'' @ x_sha256_hex x payload"

definition new_outbox_row ::
  "int \<Rightarrow> string \<Rightarrow> string \<Rightarrow> string \<Rightarrow> string \<Rightarrow> string \<Rightarrow> string \<Rightarrow> bytes \<Rightarrow> outbox_row" where
  "new_outbox_row now i dedupe aggregateType aggregateID gatewayID channel payload =
    \<lparr>ob_id = i, ob_dedupe_key = dedupe, ob_aggregate_type = aggregateType, ob_aggregate_id = aggregateID,
     ob_gateway = gatewayID, ob_channel = channel, ob_payload = payload, ob_status = ''pending'', ob_attempts = 0,
     ob_next_attempt_at = now, ob_created_at = now, ob_sent_at = None, ob_last_error = []\<rparr>"

text \<open>\<open>ON CONFLICT (dedupe_key) DO NOTHING\<close>; a duplicate primary key is an error.\<close>

definition insertOutbox ::
  "int \<Rightarrow> string \<Rightarrow> string \<Rightarrow> string \<Rightarrow> string \<Rightarrow> string \<Rightarrow> string \<Rightarrow> bytes \<Rightarrow> ('e, unit) tx" where
  "insertOutbox now i dedupe aggregateType aggregateID gatewayID channel payload =
    tx_stmt (\<lambda>d.
      if dedupe \<in> ob_dedupe_key ` set (platform_outbox d) then Some ((), d)
      else if i \<in> ob_id ` set (platform_outbox d) then None
      else Some ((), d\<lparr>platform_outbox := platform_outbox d @
             [new_outbox_row now i dedupe aggregateType aggregateID gatewayID channel payload]\<rparr>))"

definition enqueueOutboxTx ::
  "ext \<Rightarrow> int \<Rightarrow> string option \<Rightarrow> string \<Rightarrow> string \<Rightarrow> string \<Rightarrow> string \<Rightarrow> bytes \<Rightarrow> (outbox_error, unit) tx" where
  "enqueueOutboxTx x now rnd gatewayID channel aggregateType aggregateID payload =
    (if gatewayID = [] \<or> channel = [] \<or> payload = [] \<or> aggregateType = [] \<or> aggregateID = []
     then tx_fail OutboxFields
     else if outboxID rnd = [] then tx_fail OutboxNoId
     else insertOutbox now (outboxID rnd) (dedupe_key x aggregateType aggregateID gatewayID channel payload)
            aggregateType aggregateID gatewayID channel payload)"

text \<open>The form outside a transaction, with the checks in the same order and a boolean answer.\<close>

definition enqueueOutboxFor ::
  "ext \<Rightarrow> int \<Rightarrow> string option \<Rightarrow> string \<Rightarrow> string \<Rightarrow> string \<Rightarrow> string \<Rightarrow> bytes \<Rightarrow> txs \<Rightarrow> bool \<times> txs" where
  "enqueueOutboxFor x now rnd gatewayID channel aggregateType aggregateID payload s =
    (case enqueueOutboxTx x now rnd gatewayID channel aggregateType aggregateID payload s of
       (Inl _, s') \<Rightarrow> (False, s') | (Inr _, s') \<Rightarrow> (True, s'))"

definition enqueueOutbox ::
  "ext \<Rightarrow> int \<Rightarrow> string option \<Rightarrow> string \<Rightarrow> string \<Rightarrow> bytes \<Rightarrow> txs \<Rightarrow> bool \<times> txs" where
  "enqueueOutbox x now rnd gatewayID channel payload =
     enqueueOutboxFor x now rnd gatewayID channel ''gateway_message'' channel payload"

section \<open>Claiming\<close>

definition recover_rows :: "int \<Rightarrow> outbox_row list \<Rightarrow> outbox_row list" where
  "recover_rows now = update_where
     (\<lambda>r. ob_status r = ''sending'' \<and> ob_next_attempt_at r < now - outboxClaimTimeout)
     (\<lambda>r. r\<lparr>ob_status := ''pending'', ob_next_attempt_at := now\<rparr>)"

definition due_rows :: "int \<Rightarrow> outbox_row list \<Rightarrow> outbox_row list" where
  "due_rows now rs = take outboxBatchSize
     (sort_key ob_created_at (filter (\<lambda>r. ob_status r = ''pending'' \<and> ob_next_attempt_at r \<le> now) rs))"

definition item_of :: "outbox_row \<Rightarrow> outboxItem" where
  "item_of r = \<lparr>it_id = ob_id r, it_aggregateType = ob_aggregate_type r, it_aggregateID = ob_aggregate_id r,
     it_gateway = ob_gateway r, it_channel = ob_channel r, it_payload = ob_payload r,
     it_attempts = ob_attempts r + 1\<rparr>"

definition claim_row :: "int \<Rightarrow> outboxItem \<Rightarrow> outbox_row list \<Rightarrow> outbox_row list" where
  "claim_row now it = update_where (\<lambda>r. ob_id r = it_id it)
     (\<lambda>r. r\<lparr>ob_status := ''sending'', ob_attempts := it_attempts it, ob_next_attempt_at := now + outboxClaimTimeout\<rparr>)"

fun claim_all :: "int \<Rightarrow> outboxItem list \<Rightarrow> (outbox_error, unit) tx" where
  "claim_all now [] = tx_ret ()"
| "claim_all now (it # its) =
    tx_bind (tx_exec (\<lambda>d. d\<lparr>platform_outbox := claim_row now it (platform_outbox d)\<rparr>)) (\<lambda>_. claim_all now its)"

definition claim_body :: "int \<Rightarrow> (outbox_error, outboxItem list) tx" where
  "claim_body now =
    tx_bind (tx_exec (\<lambda>d. d\<lparr>platform_outbox := recover_rows now (platform_outbox d)\<rparr>)) (\<lambda>_.
    tx_bind (tx_query (\<lambda>d. map item_of (due_rows now (platform_outbox d)))) (\<lambda>items.
    tx_bind (claim_all now items) (\<lambda>_.
    tx_ret items)))"

definition claimOutbox :: "int \<Rightarrow> txs \<Rightarrow> (outbox_error tx_error + outboxItem list) \<times> txs" where
  "claimOutbox now = run_tx (claim_body now)"

section \<open>Marking\<close>

definition backoff_seconds :: "int \<Rightarrow> int" where
  "backoff_seconds attempts = (let b = attempts * attempts in if b > 60 then 60 else b)"

definition mark_delivered :: "int \<Rightarrow> string \<Rightarrow> outbox_row list \<Rightarrow> outbox_row list" where
  "mark_delivered now i = update_where (\<lambda>r. ob_id r = i)
     (\<lambda>r. r\<lparr>ob_status := ''delivered'', ob_sent_at := Some now, ob_last_error := []\<rparr>)"

definition mark_failed :: "int \<Rightarrow> string \<Rightarrow> int \<Rightarrow> string \<Rightarrow> outbox_row list \<Rightarrow> outbox_row list" where
  "mark_failed now i attempts detail = update_where (\<lambda>r. ob_id r = i)
     (\<lambda>r. r\<lparr>ob_status := (if attempts \<ge> outboxMaxAttempts then ''dead'' else ''pending''),
            ob_last_error := detail, ob_next_attempt_at := now + backoff_seconds attempts * second\<rparr>)"

text \<open>\<open>onDelivered\<close> is the projection that follows a delivery (\<open>onOutboxDelivered\<close>).\<close>

definition markOutbox ::
  "int \<Rightarrow> (outboxItem \<Rightarrow> txs \<Rightarrow> txs) \<Rightarrow> outboxItem \<Rightarrow> bool \<Rightarrow> int \<Rightarrow> string \<Rightarrow> txs \<Rightarrow> txs" where
  "markOutbox now onDelivered item delivered attempts detail s =
    (if delivered then
       (case (tx_exec (\<lambda>d. d\<lparr>platform_outbox := mark_delivered now (it_id item) (platform_outbox d)\<rparr>) :: (unit, unit) tx) s of
          (Inl _, s') \<Rightarrow> s'
        | (Inr _, s') \<Rightarrow> onDelivered item s')
     else snd ((tx_exec (\<lambda>d. d\<lparr>platform_outbox :=
            mark_failed now (it_id item) attempts detail (platform_outbox d)\<rparr>) :: (unit, unit) tx) s))"

datatype projection = ProjectRoute string | ProjectMap string | ProjectNothing

definition onOutboxDelivered :: "outboxItem \<Rightarrow> projection" where
  "onOutboxDelivered item =
    (if it_aggregateID item = [] then ProjectNothing
     else if it_aggregateType item = ''navigation_route'' then ProjectRoute (it_aggregateID item)
     else if it_aggregateType item = ''map_publication'' then ProjectMap (it_aggregateID item)
     else ProjectNothing)"

text \<open>The loop of \<open>drainOutbox\<close>; \<open>publish\<close> is \<open>publishMQTT\<close>, with the error's text.\<close>

fun drain_items ::
  "int \<Rightarrow> (outboxItem \<Rightarrow> string option) \<Rightarrow> (outboxItem \<Rightarrow> txs \<Rightarrow> txs) \<Rightarrow> outboxItem list \<Rightarrow> txs \<Rightarrow> txs" where
  "drain_items now publish onDelivered [] s = s"
| "drain_items now publish onDelivered (item # items) s =
    drain_items now publish onDelivered items
      (case publish item of
         None \<Rightarrow> markOutbox now onDelivered item True (it_attempts item) [] s
       | Some err \<Rightarrow> markOutbox now onDelivered item False (it_attempts item) err s)"

definition drainOutbox ::
  "int \<Rightarrow> (outboxItem \<Rightarrow> string option) \<Rightarrow> (outboxItem \<Rightarrow> txs \<Rightarrow> txs) \<Rightarrow> txs \<Rightarrow> txs" where
  "drainOutbox now publish onDelivered s =
    (case claimOutbox now s of
       (Inl _, s') \<Rightarrow> s'
     | (Inr items, s') \<Rightarrow> drain_items now publish onDelivered items s')"

text \<open>\<open>publishMQTT\<close>: the client may be missing or disconnected, time out, or answer an error.\<close>

datatype mqtt_answer = MqttDisconnected | MqttTimeout | MqttError string | MqttOk

definition publishMQTT :: "(string \<Rightarrow> bytes \<Rightarrow> mqtt_answer) \<Rightarrow> outboxItem \<Rightarrow> string option" where
  "publishMQTT client item =
    (case client (''gateway/'' @ it_gateway item @ ''/'' @ it_channel item) (it_payload item) of
       MqttDisconnected \<Rightarrow> Some ''mqtt-disconnected''
     | MqttTimeout \<Rightarrow> Some ''mqtt-timeout''
     | MqttError e \<Rightarrow> Some e
     | MqttOk \<Rightarrow> None)"

section \<open>What the operations do to the table\<close>

lemma claim_all_Inr:
  "claim_all now its (d, fs) = (Inr u, (d', fs')) \<Longrightarrow>
   d' = d\<lparr>platform_outbox := fold (claim_row now) its (platform_outbox d)\<rparr>"
proof (induction its arbitrary: d fs)
  case (Cons it its)
  then have "claim_all now its (d\<lparr>platform_outbox := claim_row now it (platform_outbox d)\<rparr>, tl fs) = (Inr u, (d', fs'))"
    by auto
  from Cons.IH [OF this] show ?case by simp
qed simp

lemma claim_body_Inr:
  assumes "claim_body now (d, fs) = (Inr items, (d', fs'))"
  shows "items = map item_of (due_rows now (recover_rows now (platform_outbox d)))"
    and "d' = d\<lparr>platform_outbox := fold (claim_row now) items (recover_rows now (platform_outbox d))\<rparr>"
  using assms by (auto simp: claim_body_def dest!: claim_all_Inr)

lemma claimOutbox_Inr:
  assumes "claimOutbox now (d, fs) = (Inr items, (d', fs'))"
  shows "items = map item_of (due_rows now (recover_rows now (platform_outbox d)))"
    and "d' = d\<lparr>platform_outbox := fold (claim_row now) items (recover_rows now (platform_outbox d))\<rparr>"
proof -
  from assms obtain gs where "claim_body now (d, tl fs) = (Inr items, (d', gs))"
    unfolding claimOutbox_def by (rule run_tx_Inr)
  then show "items = map item_of (due_rows now (recover_rows now (platform_outbox d)))"
    and "d' = d\<lparr>platform_outbox := fold (claim_row now) items (recover_rows now (platform_outbox d))\<rparr>"
    by (rule claim_body_Inr)+
qed

lemma claim_row_ids [simp]: "map ob_id (claim_row now it rs) = map ob_id rs"
  by (simp add: claim_row_def)

lemma recover_rows_ids [simp]: "map ob_id (recover_rows now rs) = map ob_id rs"
  by (simp add: recover_rows_def)

lemma fold_claim_ids [simp]: "map ob_id (fold (claim_row now) its rs) = map ob_id rs"
  by (induction its arbitrary: rs) auto

text \<open>Claiming leaves the rows of other items alone and turns the claimed ones into \<open>sending\<close>.\<close>

lemma fold_claim_other:
  "r \<in> set rs \<Longrightarrow> ob_id r \<notin> it_id ` set its \<Longrightarrow> r \<in> set (fold (claim_row now) its rs)"
proof (induction its arbitrary: rs)
  case (Cons it its)
  have "r \<in> set (claim_row now it rs)" using Cons.prems by (force simp: claim_row_def set_update_where)
  with Cons show ?case by simp
qed simp

lemma fold_claim_claimed:
  "r \<in> set (fold (claim_row now) its rs) \<Longrightarrow> ob_id r \<in> it_id ` set its \<Longrightarrow>
   ob_status r = ''sending'' \<and> ob_next_attempt_at r = now + outboxClaimTimeout"
proof (induction its arbitrary: rs rule: rev_induct)
  case (snoc it its)
  let ?u = "\<lambda>q. q\<lparr>ob_status := ''sending'', ob_attempts := it_attempts it, ob_next_attempt_at := now + outboxClaimTimeout\<rparr>"
  from snoc.prems(1) obtain q where q: "q \<in> set (fold (claim_row now) its rs)"
    "r = (if ob_id q = it_id it then ?u q else q)"
    by (auto simp: claim_row_def [of now it] set_update_where)
  show ?case
  proof (cases "ob_id q = it_id it")
    case False
    with q snoc show ?thesis by auto
  qed (simp add: q)
qed simp

lemma due_rows_subset: "set (due_rows now rs) \<subseteq> {r \<in> set rs. ob_status r = ''pending'' \<and> ob_next_attempt_at r \<le> now}"
  by (auto simp: due_rows_def dest!: in_set_takeD)

lemma it_id_item_of [simp]: "it_id (item_of r) = ob_id r"
  by (simp add: item_of_def)

lemma distinct_id_eq:
  "distinct (map ob_id rs) \<Longrightarrow> r \<in> set rs \<Longrightarrow> q \<in> set rs \<Longrightarrow> ob_id r = ob_id q \<Longrightarrow> r = q"
  by (simp add: distinct_map inj_on_def)

text \<open>A row that is not claimable keeps its place: it is terminal, or sending and not yet overdue.\<close>

definition claim_safe :: "int \<Rightarrow> outbox_row \<Rightarrow> bool" where
  "claim_safe now r \<longleftrightarrow> ob_status r \<noteq> ''pending'' \<and>
     (ob_status r = ''sending'' \<longrightarrow> now \<le> ob_next_attempt_at r + outboxClaimTimeout)"

lemma claim_safe_kept:
  assumes "claimOutbox now (d, fs) = (Inr items, (d', fs'))" and "distinct (map ob_id (platform_outbox d))"
    and "r \<in> set (platform_outbox d)" and "claim_safe now r"
  shows "r \<in> set (platform_outbox d') \<and> ob_id r \<notin> it_id ` set items"
proof -
  let ?rs = "recover_rows now (platform_outbox d)"
  have r: "r \<in> set ?rs"
    using assms(3,4) by (force simp: recover_rows_def set_update_where claim_safe_def)
  have "distinct (map ob_id ?rs)" using assms(2) by simp
  then have "q = r" if "q \<in> set (due_rows now ?rs)" "ob_id r = ob_id q" for q
    using that due_rows_subset [of now ?rs] r by (intro distinct_id_eq [of ?rs]) auto
  then have "ob_id r \<notin> ob_id ` set (due_rows now ?rs)"
    using assms(4) due_rows_subset [of now ?rs] by (auto simp: claim_safe_def)
  then have "ob_id r \<notin> it_id ` set items" using claimOutbox_Inr(1) [OF assms(1)] by (simp add: image_image)
  then show ?thesis using r claimOutbox_Inr(2) [OF assms(1)] fold_claim_other [of r ?rs items now] by simp
qed

lemma due_rows_ids_distinct: "distinct (map ob_id rs) \<Longrightarrow> distinct (map ob_id (due_rows now rs))"
proof -
  assume d: "distinct (map ob_id rs)"
  let ?fs = "filter (\<lambda>r. ob_status r = ''pending'' \<and> ob_next_attempt_at r \<le> now) rs"
  have "distinct (map ob_id ?fs)" using d by (rule distinct_map_filter)
  then have "distinct (map ob_id (sort_key ob_created_at ?fs))" by (simp add: distinct_map)
  then show ?thesis by (simp add: due_rows_def take_map [symmetric])
qed

section \<open>The table's invariant\<close>

definition outbox_rows_inv :: "outbox_row list \<Rightarrow> bool" where
  "outbox_rows_inv rs \<longleftrightarrow> distinct (map ob_id rs) \<and> distinct (map ob_dedupe_key rs) \<and>
     (\<forall>r \<in> set rs. ob_status r \<in> {''pending'', ''sending'', ''delivered'', ''dead''} \<and> 0 \<le> ob_attempts r)"

definition outbox_inv :: "db \<Rightarrow> bool" where
  "outbox_inv d \<longleftrightarrow> outbox_rows_inv (platform_outbox d)"

lemma update_where_inv:
  assumes "outbox_rows_inv rs" and "\<And>r. ob_id (u r) = ob_id r" and "\<And>r. ob_dedupe_key (u r) = ob_dedupe_key r"
    and "\<And>r. r \<in> set rs \<Longrightarrow> p r \<Longrightarrow> ob_status (u r) \<in> {''pending'', ''sending'', ''delivered'', ''dead''} \<and> 0 \<le> ob_attempts (u r)"
  shows "outbox_rows_inv (update_where p u rs)"
  using assms by (auto simp: outbox_rows_inv_def set_update_where)

lemma insertOutbox_inv:
  "insertOutbox now i k a b g c p (d, fs) = (Inr u, (d', fs')) \<Longrightarrow> outbox_inv d \<Longrightarrow> outbox_inv d'"
  by (auto simp: insertOutbox_def outbox_inv_def outbox_rows_inv_def new_outbox_row_def split: if_splits)

lemma enqueueOutboxTx_inv:
  "enqueueOutboxTx x now rnd g c a b p (d, fs) = (Inr u, (d', fs')) \<Longrightarrow> outbox_inv d \<Longrightarrow> outbox_inv d'"
  by (auto simp: enqueueOutboxTx_def split: if_splits intro: insertOutbox_inv)

lemma recover_rows_inv: "outbox_rows_inv rs \<Longrightarrow> outbox_rows_inv (recover_rows now rs)"
  unfolding recover_rows_def by (rule update_where_inv) (auto simp: outbox_rows_inv_def)

lemma fold_claim_inv:
  "outbox_rows_inv rs \<Longrightarrow> (\<And>it. it \<in> set its \<Longrightarrow> 0 \<le> it_attempts it) \<Longrightarrow> outbox_rows_inv (fold (claim_row now) its rs)"
proof (induction its arbitrary: rs)
  case (Cons it its)
  have "outbox_rows_inv (claim_row now it rs)"
    unfolding claim_row_def by (rule update_where_inv) (use Cons.prems in \<open>auto\<close>)
  with Cons show ?case by simp
qed simp

lemma claimOutbox_inv:
  assumes "outbox_inv d"
  shows "outbox_inv (fst (snd (claimOutbox now (d, fs))))"
  unfolding claimOutbox_def
proof (rule run_tx_keeps)
  fix items d' gs
  assume c: "claim_body now (d, tl fs) = (Inr items, (d', gs))"
  let ?rs = "recover_rows now (platform_outbox d)"
  have inv: "outbox_rows_inv ?rs" using assms by (simp add: outbox_inv_def recover_rows_inv)
  have "0 \<le> it_attempts it" if "it \<in> set items" for it
    using that claim_body_Inr(1) [OF c] due_rows_subset [of now ?rs] inv
    by (fastforce simp: item_of_def outbox_rows_inv_def)
  then show "outbox_inv d'" using claim_body_Inr(2) [OF c] fold_claim_inv [OF inv] by (simp add: outbox_inv_def)
qed (use assms in simp)

lemma mark_delivered_inv: "outbox_rows_inv rs \<Longrightarrow> outbox_rows_inv (mark_delivered now i rs)"
  unfolding mark_delivered_def by (rule update_where_inv) (auto simp: outbox_rows_inv_def)

lemma mark_failed_inv: "outbox_rows_inv rs \<Longrightarrow> outbox_rows_inv (mark_failed now i n e rs)"
  unfolding mark_failed_def by (rule update_where_inv) (auto simp: outbox_rows_inv_def)

lemma tx_exec_eq:
  "tx_exec u s = (if faulty (snd s) then (Inl SqlErr, (fst s, tl (snd s))) else (Inr (), (u (fst s), tl (snd s))))"
  by (simp add: tx_exec_def tx_stmt_def)

lemma markOutbox_inv:
  assumes "outbox_inv (fst s)" and "\<And>t. outbox_inv (fst t) \<Longrightarrow> outbox_inv (fst (onD item t))"
  shows "outbox_inv (fst (markOutbox now onD item ok n e s))"
proof -
  have "outbox_inv ((fst s)\<lparr>platform_outbox := mark_delivered now (it_id item) (platform_outbox (fst s))\<rparr>)"
    "outbox_inv ((fst s)\<lparr>platform_outbox := mark_failed now (it_id item) n e (platform_outbox (fst s))\<rparr>)"
    using assms(1) by (simp_all add: outbox_inv_def mark_delivered_inv mark_failed_inv)
  then show ?thesis using assms by (simp add: markOutbox_def tx_exec_eq)
qed

lemma drainOutbox_inv:
  assumes "outbox_inv (fst s)" and "\<And>it t. outbox_inv (fst t) \<Longrightarrow> outbox_inv (fst (onD it t))"
  shows "outbox_inv (fst (drainOutbox now pub onD s))"
proof -
  have items: "outbox_inv (fst t) \<Longrightarrow> outbox_inv (fst (drain_items now pub onD its t))" for its t
  proof (induction its arbitrary: t)
    case (Cons it its)
    have "outbox_inv (fst (markOutbox now onD it ok n e t))" for ok n e
      using Cons.prems assms(2) by (rule markOutbox_inv)
    then show ?case using Cons.IH by (auto split: option.splits)
  qed simp
  have "outbox_inv (fst (snd (claimOutbox now s)))"
    using claimOutbox_inv [of "fst s" now "snd s"] assms(1) by simp
  then show ?thesis using items by (auto simp: drainOutbox_def split: prod.splits sum.splits)
qed

text \<open>What happens to the outbox over time: enqueueing in a transaction and draining.\<close>

datatype outbox_op =
    OpEnqueue int "string option" string string string string bytes
  | OpDrain int "outboxItem \<Rightarrow> string option"

fun outbox_step :: "ext \<Rightarrow> txs \<Rightarrow> outbox_op \<Rightarrow> txs" where
  "outbox_step x s (OpEnqueue now rnd g c a b p) = snd (run_tx (enqueueOutboxTx x now rnd g c a b p) s)"
| "outbox_step x s (OpDrain now pub) = drainOutbox now pub (\<lambda>_ t. t) s"

lemma outbox_step_inv: "outbox_inv (fst s) \<Longrightarrow> outbox_inv (fst (outbox_step x s e))"
proof (cases e)
  case (OpEnqueue now rnd g c a b p)
  assume inv: "outbox_inv (fst s)"
  have "outbox_inv (fst (snd (run_tx (enqueueOutboxTx x now rnd g c a b p) (fst s, snd s))))"
    by (rule run_tx_keeps) (fact enqueueOutboxTx_inv [OF _ inv], fact inv)
  with OpEnqueue show ?thesis by simp
next
  case (OpDrain now pub)
  assume "outbox_inv (fst s)"
  then have "outbox_inv (fst (drainOutbox now pub (\<lambda>_ t. t) s))" by (rule drainOutbox_inv)
  with OpDrain show ?thesis by simp
qed

interpretation outbox_machine: invariant_machine "outbox_step x" "\<lambda>s. outbox_inv (fst s)" for x
  by unfold_locales (rule outbox_step_inv)

section \<open>A concrete table\<close>

definition demo_ext :: ext where
  "demo_ext = \<lparr>x_ts = (\<lambda>t. t div 1000 * 1000), x_sha256_hex = (\<lambda>b. replicate (length b) CHR ''0''), x_token_hash = (\<lambda>t. ''h-'' @ t)\<rparr>"

definition empty_db :: db where
  "empty_db = \<lparr>vehicles = [], vehicle_states = [], vehicle_gateways = [], gateway_enrollments = [],
     vehicle_control_epochs = [], control_leases = [], control_lease_renewals = [], control_security_events = [],
     platform_outbox = [], vehicle_capabilities = [], inbound_message_cursors = [], inbound_message_dedup = [],
     navigation_routes = [], map_publications = [], telemetry_samples = [], control_acks = [],
     mqtt_ingress_dead_letters = [], auth_users = [], auth_sessions = [], audit_logs = [],
     fleet_events = [], control_devices = [], map_entries = [], map_versions = [], map_objects = [],
     org_groups = [], workspace_approvals = [], workspace_sessions = [], api_keys = [], audit_log = [], platform_config = []\<rparr>"

definition demo_outbox_row :: outbox_row where
  "demo_outbox_row = new_outbox_row 0 ''out-1'' ''k1'' ''control_lease'' ''lease-1'' ''g1'' ''lease'' [1]"

definition demo_outbox_db :: db where
  "demo_outbox_db = empty_db\<lparr>platform_outbox := [demo_outbox_row]\<rparr>"

definition demo_outbox_claimed :: db where
  "demo_outbox_claimed = fst (snd (claimOutbox 0 (demo_outbox_db, [])))"

lemma demo_claims:
  "claimOutbox 0 (demo_outbox_db, []) = (Inr [item_of demo_outbox_row], (demo_outbox_claimed, []))"
  unfolding demo_outbox_claimed_def by code_simp

section \<open>Properties\<close>



text \<open>
  A lost claim comes back: once more than sixty seconds have passed, a claim whose batch is
  not full returns the item again, with one attempt more.
\<close>

theorem outbox_lost_claim_returns:
  assumes "r \<in> set (platform_outbox d)" and "ob_status r = ''sending''" and "ob_next_attempt_at r < t - 30 * second"
    and "claimOutbox t (d, fs) = (Inr items, (d', fs'))" and "length items < 32"
  shows "\<exists>it \<in> set items. it_id it = ob_id r \<and> it_attempts it = ob_attempts r + 1"
proof -
  let ?rs = "recover_rows t (platform_outbox d)" and ?q = "r\<lparr>ob_status := ''pending'', ob_next_attempt_at := t\<rparr>"
  let ?due = "filter (\<lambda>r. ob_status r = ''pending'' \<and> ob_next_attempt_at r \<le> t) ?rs"
  have "?q \<in> set ?rs"
    using assms(1-3) by (force simp: recover_rows_def set_update_where outboxClaimTimeout_def)
  then have "?q \<in> set ?due" by simp
  moreover have "length ?due < 32"
    using assms(5) claimOutbox_Inr(1) [OF assms(4)] by (simp add: due_rows_def outboxBatchSize_def)
  ultimately have "?q \<in> set (due_rows t ?rs)" by (simp add: due_rows_def outboxBatchSize_def)
  then have "item_of ?q \<in> set items" using claimOutbox_Inr(1) [OF assms(4)] by simp
  then show ?thesis by (intro bexI [of _ "item_of ?q"]) (auto simp: item_of_def)
qed

theorem outbox_lost_claim_returns_witness:
  "\<exists>it \<in> set [item_of (hd (platform_outbox demo_outbox_claimed))]. it_id it = ''out-1''"
proof -
  let ?r = "hd (platform_outbox demo_outbox_claimed)"
  have r: "?r \<in> set (platform_outbox demo_outbox_claimed)" "ob_status ?r = ''sending''" "ob_next_attempt_at ?r < 61 * second - 30 * second"
    by code_simp+
  have c: "claimOutbox (61 * second) (demo_outbox_claimed, []) = (Inr [item_of ?r], snd (claimOutbox (61 * second) (demo_outbox_claimed, [])))"
    by code_simp
  obtain d' fs' where "snd (claimOutbox (61 * second) (demo_outbox_claimed, [])) = (d', fs')" by fastforce
  with c have "claimOutbox (61 * second) (demo_outbox_claimed, []) = (Inr [item_of ?r], (d', fs'))" by simp
  from outbox_lost_claim_returns [OF r this] show ?thesis by code_simp
qed

text \<open>
  The retry limit: a failed delivery is given up exactly from the twentieth attempt on, and
  before that is due again after the square of the attempts in seconds, at most a minute. A row
  that is delivered or given up is never claimed or changed by a claim again.
\<close>

theorem outbox_retry_limit:
  assumes "r \<in> set (platform_outbox d)" and "ob_id r = it_id item" and "1 \<le> n"
    and "(d', fs') = markOutbox t onD item False n e (d, [])" and "distinct (map ob_id (platform_outbox d))"
  shows "\<exists>r' \<in> set (platform_outbox d'). ob_id r' = it_id item \<and>
    (ob_status r' = ''dead'' \<longleftrightarrow> 20 \<le> n) \<and> (ob_status r' = ''pending'' \<longleftrightarrow> n < 20) \<and>
    t + second \<le> ob_next_attempt_at r' \<and> ob_next_attempt_at r' \<le> t + 60 * second \<and>
    (ob_status r' = ''dead'' \<longrightarrow> claimOutbox t2 (d', gs) = (Inr items, (d2, gs2)) \<longrightarrow>
       r' \<in> set (platform_outbox d2) \<and> ob_id r' \<notin> it_id ` set items)"
proof -
  let ?r = "r\<lparr>ob_status := (if n \<ge> outboxMaxAttempts then ''dead'' else ''pending''),
            ob_last_error := e, ob_next_attempt_at := t + backoff_seconds n * second\<rparr>"
  have d': "platform_outbox d' = mark_failed t (it_id item) n e (platform_outbox d)"
    using assms(4) by (simp add: markOutbox_def)
  then have r: "?r \<in> set (platform_outbox d')"
    using assms(1,2) by (force simp: mark_failed_def set_update_where)
  have b: "1 \<le> backoff_seconds n" "backoff_seconds n \<le> 60"
    using assms(3) mult_mono [of 1 n 1 n] by (auto simp: backoff_seconds_def Let_def)
  then have sec: "t + second \<le> ob_next_attempt_at ?r" "ob_next_attempt_at ?r \<le> t + 60 * second"
    by (simp_all add: second_def)
  have ids: "distinct (map ob_id (platform_outbox d'))" using d' assms(5) by (simp add: mark_failed_def)
  have "ob_status ?r = ''dead'' \<Longrightarrow> claim_safe t2 ?r" by (simp add: claim_safe_def split: if_splits)
  then show ?thesis
    using r sec ids claim_safe_kept [of t2 d' gs items d2 gs2 ?r] assms(2)
    by (intro bexI [of _ ?r]) (auto simp: outboxMaxAttempts_def)
qed

theorem outbox_retry_limit_witness:
  "\<exists>r' \<in> set (platform_outbox (fst (markOutbox 0 (\<lambda>_ t. t) (item_of demo_outbox_row) False 20 [] (demo_outbox_db, [])))).
     ob_status r' = ''dead''"
proof -
  have r: "demo_outbox_row \<in> set (platform_outbox demo_outbox_db)" "ob_id demo_outbox_row = it_id (item_of demo_outbox_row)"
    "distinct (map ob_id (platform_outbox demo_outbox_db))" "(1 :: int) \<le> 20"
    by (simp_all add: demo_outbox_db_def)
  obtain d' fs' where m: "(d', fs') = markOutbox 0 (\<lambda>_ t. t) (item_of demo_outbox_row) False 20 [] (demo_outbox_db, [])"
    by (metis prod.collapse)
  from outbox_retry_limit [OF r(1,2,4) m r(3), where ?t2.0 = 0 and gs = "[]" and items = "[]" and ?d2.0 = d' and ?gs2.0 = "[]"]
  show ?thesis unfolding m [symmetric] by auto
qed

text \<open>
  The outbox table stays consistent over every sequence of transactional enqueues and drains,
  whatever statements fail and whatever the broker answers: ids and deduplication keys are unique,
  the status is one of the four, and attempts are not negative.
\<close>

theorem outbox_consistent:
  assumes "outbox_inv d"
  shows "outbox_inv (fst (run (outbox_step x) (d, faults) ops))"
  using outbox_machine.run_inv [of "(d, faults)" x ops] assms by simp

theorem outbox_consistent_witness:
  "outbox_inv (fst (run (outbox_step demo_ext) (demo_outbox_db, [False, True]) [OpDrain 0 (\<lambda>_. None), OpDrain 5 (\<lambda>_. Some [])]))"
proof -
  have "outbox_inv demo_outbox_db"
    by (simp add: outbox_inv_def outbox_rows_inv_def demo_outbox_db_def demo_outbox_row_def new_outbox_row_def)
  then show ?thesis by (rule outbox_consistent)
qed

end
