(* ===== verification/Registry.thy ===== *)
theory Registry
  imports Outbox "HOL-Library.AList"
begin

text \<open>
  \<open>server/fleet/vehicle_registry.go\<close> and \<open>capabilities.go\<close>: which Gateway speaks for which
  vehicle, under which certificate, with which capabilities; and the sequence cursor that lets
  every inbound message take effect at most once.
\<close>

section \<open>Identities\<close>

definition enrollmentTTLMax :: int where "enrollmentTTLMax = hour"
definition enrollmentTTLDef :: int where "enrollmentTTLDef = 15 * minute"

definition spiffeGatewayID :: "string \<Rightarrow> string \<Rightarrow> string" where
  "spiffeGatewayID vehicleID gatewayID = ''spiffe://robot-agent/vehicle/'' @ vehicleID @ ''/gateway/'' @ gatewayID"

text \<open>The parts of an X.509 certificate the code reads; a URI with its components and its text.\<close>

record uri =
  u_scheme :: string
  u_host :: string
  u_raw_query :: string
  u_fragment :: string
  u_string :: string

record certificate =
  c_uris :: "uri list"
  c_not_after :: int
  c_raw :: bytes

datatype registry_error =
    RegUnavailable | RegFields | RegTTL | RegToken | RegNoVehicle | RegCertMissing | RegCertSAN | RegCertURI
  | RegCertMismatch | RegCertExpired | RegNoEnrollment | RegEnrollmentExpired | RegEnrollmentMismatch
  | RegNotActivated | RegStatus string | RegReason | RegNothingToRevoke | RegDedupFields
  | RegCapsFields | RegCapsInvariant | RegCapsSnapshot | RegNotActive
  | RegNoCapability | RegMonitorOnly control_reason | RegVehicleMissing | RegLifecycle string | RegNotLive
  | RegMonitoringRefused control_reason

definition certificateSPIFFE :: "certificate option \<Rightarrow> registry_error + string" where
  "certificateSPIFFE cert =
    (case cert of None \<Rightarrow> Inl RegCertMissing | Some c \<Rightarrow>
      (case c_uris c of
         [u] \<Rightarrow> if u_scheme u \<noteq> ''spiffe'' \<or> u_host u \<noteq> ''robot-agent'' \<or> u_raw_query u \<noteq> [] \<or> u_fragment u \<noteq> []
                then Inl RegCertURI else Inr (u_string u)
       | _ \<Rightarrow> Inl RegCertSAN))"

definition certificateFingerprint :: "ext \<Rightarrow> certificate \<Rightarrow> string" where
  "certificateFingerprint x c = x_sha256_hex x (c_raw c)"

section \<open>Enrollment\<close>

text \<open>
  One statement outside a transaction: insert the enrollment if the vehicle exists. The audit
  record that follows is best effort. \<open>token\<close> and \<open>i\<close> are the two random reads.
\<close>

definition CreateEnrollment ::
  "ext \<Rightarrow> int \<Rightarrow> int \<Rightarrow> string option \<Rightarrow> string option \<Rightarrow> string \<Rightarrow> string \<Rightarrow> string \<Rightarrow> int \<Rightarrow> txs \<Rightarrow>
   (registry_error tx_error + string \<times> int) \<times> txs" where
  "CreateEnrollment x now clock token i vehicleID' gatewayID' actor ttl' s =
    (let vehicleID = trim_space vehicleID'; gatewayID = trim_space gatewayID';
         ttl = (if ttl' \<le> 0 then enrollmentTTLDef else ttl')
     in if vehicleID = [] \<or> gatewayID = [] \<or> actor = [] then (Inl (Dom RegFields), s)
        else if ttl > enrollmentTTLMax then (Inl (Dom RegTTL), s)
        else case (token, i) of
          (Some tok, Some eid) \<Rightarrow>
            let expires = clock + ttl;
                row = \<lparr>en_id = eid, en_vehicle_id = vehicleID, en_gateway_id = gatewayID,
                       en_token_sha256 = x_token_hash x tok, en_expected_spiffe = spiffeGatewayID vehicleID gatewayID,
                       en_expires_at = x_ts x expires, en_created_by = actor, en_created_at = now,
                       en_consumed_at = None, en_consumed_certificate = []\<rparr>;
                ins = tx_stmt (\<lambda>d.
                  if \<not> vehicle_exists d vehicleID then Some (0 :: nat, d)
                  else if eid \<in> en_id ` set (gateway_enrollments d)
                       \<or> x_token_hash x tok \<in> en_token_sha256 ` set (gateway_enrollments d)
                       \<or> \<not> x_ts x expires > now then None
                  else Some (1, d\<lparr>gateway_enrollments := gateway_enrollments d @ [row]\<rparr>)) :: (registry_error, nat) tx
            in (case ins s of
                  (Inl e, s1) \<Rightarrow> (Inl e, s1)
                | (Inr n, s1) \<Rightarrow>
                    if n \<noteq> 1 then (Inl (Dom RegNoVehicle), s1)
                    else (Inr (tok, expires),
                          snd ((tx_exec (log_security vehicleID gatewayID None actor ''gateway_enrollment_created'' ''ok''
                            [(''expires_at'', JTime expires)]) :: (registry_error, unit) tx) s1)))
        | _ \<Rightarrow> (Inl (Dom RegToken), s))"

record gatewayIdentity =
  gi_GatewayID :: string
  gi_VehicleID :: string
  gi_CertificateHash :: string
  gi_CertificateSubj :: string
  gi_CertificateUntil :: int

definition open_enrollment :: "db \<Rightarrow> string \<Rightarrow> string \<Rightarrow> enrollment_row option" where
  "open_enrollment d v g = first_row (order_desc en_created_at
     (filter (\<lambda>r. en_vehicle_id r = v \<and> en_gateway_id r = g \<and> en_consumed_at r = None) (gateway_enrollments d)))"

text \<open>The upsert of a Gateway row; the certificate fingerprint is unique over all Gateways.\<close>

definition upsert_gateway ::
  "int \<Rightarrow> string \<Rightarrow> string \<Rightarrow> string \<Rightarrow> string \<Rightarrow> int \<Rightarrow> db \<Rightarrow> (unit \<times> db) option" where
  "upsert_gateway now g v fp subj until d =
    (if \<not> vehicle_exists d v then None
     else if \<exists>r \<in> set (vehicle_gateways d). gw_gateway_id r \<noteq> g \<and> gw_certificate_sha256 r = fp then None
     else if g \<in> gw_gateway_id ` set (vehicle_gateways d) then
       Some ((), d\<lparr>vehicle_gateways := update_where (\<lambda>r. gw_gateway_id r = g)
         (\<lambda>r. r\<lparr>gw_vehicle_id := v, gw_certificate_sha256 := fp, gw_certificate_subject := subj, gw_not_after := until,
                gw_status := ''active'', gw_revoked_at := None, gw_revoke_reason := [],
                gw_last_authenticated_at := Some now\<rparr>) (vehicle_gateways d)\<rparr>)
     else Some ((), d\<lparr>vehicle_gateways := vehicle_gateways d @
       [\<lparr>gw_gateway_id = g, gw_vehicle_id = v, gw_certificate_sha256 = fp, gw_certificate_subject = subj,
         gw_not_after = until, gw_status = ''active'', gw_activated_at = now, gw_revoked_at = None,
         gw_revoke_reason = [], gw_last_authenticated_at = Some now\<rparr>]\<rparr>))"

definition activate_body ::
  "ext \<Rightarrow> int \<Rightarrow> int \<Rightarrow> string \<Rightarrow> string \<Rightarrow> string \<Rightarrow> string \<Rightarrow> certificate \<Rightarrow> (registry_error, gatewayIdentity) tx" where
  "activate_body x now clock v g token spiffe cert =
    (let fp = certificateFingerprint x cert
     in tx_bind (tx_query (\<lambda>d. open_enrollment d v g)) (\<lambda>row.
        case row of None \<Rightarrow> tx_fail RegNoEnrollment | Some en \<Rightarrow>
        tx_bind (tx_guard (\<not> clock > en_expires_at en) RegEnrollmentExpired) (\<lambda>_.
        tx_bind (tx_guard (en_token_sha256 en = x_token_hash x token \<and> en_expected_spiffe en = spiffe) RegEnrollmentMismatch) (\<lambda>_.
        tx_bind (tx_stmt (upsert_gateway now g v fp spiffe (x_ts x (c_not_after cert)))) (\<lambda>_.
        tx_bind (tx_exec (\<lambda>d. d\<lparr>gateway_enrollments := update_where
            (\<lambda>r. en_vehicle_id r = v \<and> en_gateway_id r = g \<and> en_consumed_at r = None)
            (\<lambda>r. r\<lparr>en_consumed_at := Some now, en_consumed_certificate := fp\<rparr>) (gateway_enrollments d)\<rparr>)) (\<lambda>_.
        tx_bind (tx_exec (\<lambda>d. d\<lparr>vehicles := update_where (\<lambda>r. v_id r = v)
            (\<lambda>r. r\<lparr>v_gateway_id := g, v_lifecycle := ''offline''\<rparr>) (vehicles d)\<rparr>)) (\<lambda>_.
        tx_bind (tx_exec (log_security v g None [] ''gateway_activated'' ''ok''
            [(''certificate_sha256'', JStr fp), (''subject'', JStr spiffe)])) (\<lambda>_.
        tx_ret \<lparr>gi_GatewayID = g, gi_VehicleID = v, gi_CertificateHash = fp, gi_CertificateSubj = spiffe,
                gi_CertificateUntil = c_not_after cert\<rparr>))))))))"

definition Activate ::
  "ext \<Rightarrow> int \<Rightarrow> int \<Rightarrow> int \<Rightarrow> string \<Rightarrow> string \<Rightarrow> string \<Rightarrow> certificate option \<Rightarrow> txs \<Rightarrow>
   (registry_error tx_error + gatewayIdentity) \<times> txs" where
  "Activate x now clock1 clock2 vehicleID' gatewayID' token' cert' s =
    (let v = trim_space vehicleID'; g = trim_space gatewayID'; token = trim_space token'
     in if v = [] \<or> g = [] \<or> token = [] then (Inl (Dom RegFields), s)
        else case certificateSPIFFE cert' of
          Inl e \<Rightarrow> (Inl (Dom e), s)
        | Inr spiffe \<Rightarrow>
           (case cert' of None \<Rightarrow> (Inl (Dom RegCertMissing), s) | Some cert \<Rightarrow>
             if spiffe \<noteq> spiffeGatewayID v g then (Inl (Dom RegCertMismatch), s)
             else if clock1 > c_not_after cert then (Inl (Dom RegCertExpired), s)
             else run_tx (activate_body x now clock2 v g token spiffe cert) s))"

section \<open>Inbound messages\<close>

definition gateway_of :: "db \<Rightarrow> string \<Rightarrow> string \<Rightarrow> gateway_row option" where
  "gateway_of d v g = find (\<lambda>r. gw_vehicle_id r = v \<and> gw_gateway_id r = g) (vehicle_gateways d)"

definition ValidateInbound :: "int \<Rightarrow> int \<Rightarrow> string \<Rightarrow> string \<Rightarrow> txs \<Rightarrow> (registry_error tx_error + unit) \<times> txs" where
  "ValidateInbound now clock v g s =
    (case tx_query (\<lambda>d. gateway_of d v g) s of
       (Inl e, s1) \<Rightarrow> (Inl e, s1)
     | (Inr None, s1) \<Rightarrow> (Inl (Dom RegNotActivated), s1)
     | (Inr (Some r), s1) \<Rightarrow>
        if gw_status r \<noteq> ''active'' then (Inl (Dom (RegStatus (gw_status r))), s1)
        else if \<not> clock < gw_not_after r then (Inl (Dom RegCertExpired), s1)
        else (Inr (), snd ((tx_exec (\<lambda>d. d\<lparr>vehicle_gateways := update_where
               (\<lambda>r. gw_vehicle_id r = v \<and> gw_gateway_id r = g)
               (\<lambda>r. r\<lparr>gw_last_authenticated_at := Some now\<rparr>) (vehicle_gateways d)\<rparr>) :: (registry_error, unit) tx) s1)))"

text \<open>
  The upsert of the cursor returns a row only when it inserted or advanced it. A sequence number
  that does not fit \<open>BIGINT\<close> is refused by the database driver.
\<close>

definition advance_cursor :: "message_key \<Rightarrow> u64 \<Rightarrow> db \<Rightarrow> (int option \<times> db) option" where
  "advance_cursor key sq d =
    (if uint sq > int64_max then None
     else case map_of (inbound_message_cursors d) key of
       Some c \<Rightarrow> if c < uint sq
                 then Some (Some (uint sq), d\<lparr>inbound_message_cursors := AList.update key (uint sq) (inbound_message_cursors d)\<rparr>)
                 else Some (None, d)
     | None \<Rightarrow> Some (Some (uint sq), d\<lparr>inbound_message_cursors := AList.update key (uint sq) (inbound_message_cursors d)\<rparr>))"

definition insert_dedup :: "message_key \<Rightarrow> u64 \<Rightarrow> db \<Rightarrow> (nat \<times> db) option" where
  "insert_dedup key sq d =
    (if (key, uint sq) \<in> set (inbound_message_dedup d) then Some (0, d)
     else Some (1, d\<lparr>inbound_message_dedup := inbound_message_dedup d @ [(key, uint sq)]\<rparr>))"

definition AcceptInboundSequenceTx :: "string \<Rightarrow> string \<Rightarrow> string \<Rightarrow> string \<Rightarrow> u64 \<Rightarrow> (registry_error, bool) tx" where
  "AcceptInboundSequenceTx v g messageType sessionID sq =
    (if v = [] \<or> g = [] \<or> messageType = [] \<or> sessionID = [] \<or> sq = 0 then tx_fail RegDedupFields
     else tx_bind (tx_stmt (advance_cursor (v, g, messageType, sessionID) sq)) (\<lambda>cursor.
       case cursor of None \<Rightarrow> tx_ret False | Some c \<Rightarrow>
         if c \<noteq> uint sq then tx_ret False
         else tx_bind (tx_stmt (insert_dedup (v, g, messageType, sessionID) sq)) (\<lambda>n. tx_ret (n = 1))))"

definition AcceptInboundSequence ::
  "string \<Rightarrow> string \<Rightarrow> string \<Rightarrow> string \<Rightarrow> u64 \<Rightarrow> txs \<Rightarrow> (registry_error tx_error + bool) \<times> txs" where
  "AcceptInboundSequence v g messageType sessionID sq = run_tx (AcceptInboundSequenceTx v g messageType sessionID sq)"

section \<open>Revocation\<close>

definition revoke_body :: "int \<Rightarrow> string \<Rightarrow> string \<Rightarrow> string \<Rightarrow> string \<Rightarrow> (registry_error, unit) tx" where
  "revoke_body now v g actor reason =
    (let p = (\<lambda>r. gw_vehicle_id r = v \<and> gw_gateway_id r = g \<and> gw_status r \<noteq> ''revoked'')
     in tx_bind (tx_stmt (\<lambda>d. Some (count_where p (vehicle_gateways d),
            d\<lparr>vehicle_gateways := update_where p
               (\<lambda>r. r\<lparr>gw_status := ''revoked'', gw_revoked_at := Some now, gw_revoke_reason := reason\<rparr>) (vehicle_gateways d)\<rparr>))) (\<lambda>n.
        tx_bind (tx_guard (n = 1) RegNothingToRevoke) (\<lambda>_.
        tx_bind (tx_exec (\<lambda>d. d\<lparr>vehicles := update_where (\<lambda>r. v_id r = v) (\<lambda>r. r\<lparr>v_lifecycle := ''quarantined''\<rparr>) (vehicles d)\<rparr>)) (\<lambda>_.
        tx_exec (log_security v g None actor ''gateway_revoked'' ''ok'' [(''reason'', JStr reason)])))))"

definition Revoke :: "int \<Rightarrow> string \<Rightarrow> string \<Rightarrow> string \<Rightarrow> string \<Rightarrow> txs \<Rightarrow> (registry_error tx_error + unit) \<times> txs" where
  "Revoke now v g actor reason s =
    (if trim_space reason = [] then (Inl (Dom RegReason), s) else run_tx (revoke_body now v g actor reason) s)"

section \<open>Capabilities\<close>

record capabilitySnapshot =
  sn_VehicleID :: string
  sn_GatewayID :: string
  sn_Stack :: string
  sn_StackVersion :: string
  sn_GatewayVersion :: string
  sn_AdapterVersion :: string
  sn_SafetyArbiterVersion :: string
  sn_TopicMappingVersion :: string
  sn_SupportedControlModes :: "string list"
  sn_Cameras :: "CameraCapability list"
  sn_Modems :: "(string \<times> string) list"
  sn_TPMAvailable :: bool
  sn_CertificateInstalled :: bool
  sn_WorkspaceFeatures :: "string list"
  sn_MapFormats :: "string list"
  sn_CoordinateFrame :: string
  sn_ChassisType :: string
  sn_DeclaredGroupID :: string

text \<open>
  The snapshot that is stored: of a modem only the id and the carrier, never the ICCID; nil
  cameras and modems are skipped. \<open>encode\<close> is \<open>json.Marshal\<close>.
\<close>

definition capability_snapshot :: "string \<Rightarrow> GatewayCapabilities \<Rightarrow> capabilitySnapshot" where
  "capability_snapshot gatewayID caps =
    \<lparr>sn_VehicleID = gc_vehicle_id caps, sn_GatewayID = gatewayID, sn_Stack = AutonomyStack_String (gc_stack caps),
     sn_StackVersion = gc_stack_version caps, sn_GatewayVersion = gc_gateway_version caps,
     sn_AdapterVersion = gc_adapter_version caps, sn_SafetyArbiterVersion = gc_safety_arbiter_version caps,
     sn_TopicMappingVersion = gc_topic_mapping_version caps,
     sn_SupportedControlModes = map ControlMode_String (gc_supported_control_modes caps),
     sn_Cameras = List.map_filter id (gc_cameras caps),
     sn_Modems = map (\<lambda>m. (mo_modem_id m, mo_carrier m)) (List.map_filter id (gc_modems caps)),
     sn_TPMAvailable = gc_tpm_available caps, sn_CertificateInstalled = gc_certificate_installed caps,
     sn_WorkspaceFeatures = gc_workspace_features caps,
     sn_MapFormats = (case gc_map caps of None \<Rightarrow> [] | Some m \<Rightarrow> mc_map_formats m),
     sn_CoordinateFrame = (case gc_map caps of None \<Rightarrow> [] | Some m \<Rightarrow> mc_coordinate_frame m),
     sn_ChassisType = gc_chassis_type caps, sn_DeclaredGroupID = gc_group_id caps\<rparr>"

definition buildCapabilitySnapshot ::
  "(capabilitySnapshot \<Rightarrow> bytes option) \<Rightarrow> string \<Rightarrow> GatewayCapabilities \<Rightarrow> bytes option" where
  "buildCapabilitySnapshot encode gatewayID caps =
    (if trim_space gatewayID = [] then None else encode (capability_snapshot gatewayID caps))"

definition capabilityOutcome :: "CapabilityDecision \<Rightarrow> string" where
  "capabilityOutcome d =
    (if \<not> cd_MonitoringAllowed d then ''rejected'' else if cd_ControlAllowed d then ''control_ready'' else ''monitoring_only'')"

definition capability_row_of ::
  "int \<Rightarrow> string \<Rightarrow> GatewayCapabilities \<Rightarrow> CapabilityDecision \<Rightarrow> bytes \<Rightarrow> capability_row" where
  "capability_row_of now g caps dec snapshot =
    \<lparr>vc_vehicle = gc_vehicle_id caps, vc_gateway = g, vc_matrix_entry = cd_MatrixEntry dec,
     vc_stack = AutonomyStack_String (gc_stack caps),
     vc_versions = (gc_stack_version caps, gc_gateway_version caps, gc_adapter_version caps,
                    gc_safety_arbiter_version caps, gc_topic_mapping_version caps),
     vc_monitoring_allowed = cd_MonitoringAllowed dec, vc_control_allowed = cd_ControlAllowed dec,
     vc_control_reason = cd_ControlReason dec, vc_snapshot = snapshot, vc_updated_at = now\<rparr>"

definition capability_of :: "db \<Rightarrow> string \<Rightarrow> string \<Rightarrow> capability_row option" where
  "capability_of d v g = find (\<lambda>r. vc_vehicle r = v \<and> vc_gateway r = g) (vehicle_capabilities d)"

definition upsert_capability :: "capability_row \<Rightarrow> db \<Rightarrow> (unit \<times> db) option" where
  "upsert_capability row d =
    (if vc_control_allowed row \<and> \<not> vc_monitoring_allowed row then None
     else if \<not> vehicle_exists d (vc_vehicle row) \<or> vc_gateway row \<notin> gw_gateway_id ` set (vehicle_gateways d) then None
     else if capability_of d (vc_vehicle row) (vc_gateway row) \<noteq> None then
       Some ((), d\<lparr>vehicle_capabilities := update_where
         (\<lambda>r. vc_vehicle r = vc_vehicle row \<and> vc_gateway r = vc_gateway row) (\<lambda>_. row) (vehicle_capabilities d)\<rparr>)
     else Some ((), d\<lparr>vehicle_capabilities := vehicle_capabilities d @ [row]\<rparr>))"

definition persist_capabilities_body ::
  "int \<Rightarrow> string \<Rightarrow> GatewayCapabilities \<Rightarrow> CapabilityDecision \<Rightarrow> bytes \<Rightarrow> (registry_error, unit) tx" where
  "persist_capabilities_body now g caps dec snapshot =
    tx_bind (tx_query (\<lambda>d. \<exists>r \<in> set (vehicle_gateways d).
        gw_vehicle_id r = gc_vehicle_id caps \<and> gw_gateway_id r = g \<and> gw_status r = ''active'')) (\<lambda>exists.
    tx_bind (tx_guard exists RegNotActive) (\<lambda>_.
    tx_bind (tx_stmt (upsert_capability (capability_row_of now g caps dec snapshot))) (\<lambda>_.
    tx_bind (if cd_MonitoringAllowed dec
             then tx_exec (\<lambda>d. d\<lparr>vehicles := update_where (\<lambda>r. v_id r = gc_vehicle_id caps)
                    (\<lambda>r. r\<lparr>v_gateway_id := g, v_stack := AutonomyStack_String (gc_stack caps)\<rparr>) (vehicles d)\<rparr>)
             else tx_ret ()) (\<lambda>_.
    tx_exec (log_security (gc_vehicle_id caps) g None (''gateway:'' @ g) ''gateway_capabilities_evaluated''
       (capabilityOutcome dec) [(''matrix_entry'', JStr (cd_MatrixEntry dec)), (''monitoring_allowed'', JBool (cd_MonitoringAllowed dec)),
         (''control_allowed'', JBool (cd_ControlAllowed dec)), (''control_reason'', JReason (cd_ControlReason dec))])))))"

definition PersistCapabilities ::
  "(capabilitySnapshot \<Rightarrow> bytes option) \<Rightarrow> int \<Rightarrow> string \<Rightarrow> GatewayCapabilities option \<Rightarrow> CapabilityDecision \<Rightarrow> txs \<Rightarrow>
   (registry_error tx_error + unit) \<times> txs" where
  "PersistCapabilities encode now g caps' dec s =
    (case caps' of None \<Rightarrow> (Inl (Dom RegCapsFields), s) | Some caps \<Rightarrow>
      if trim_space g = [] then (Inl (Dom RegCapsFields), s)
      else if cd_ControlAllowed dec \<and> \<not> cd_MonitoringAllowed dec then (Inl (Dom RegCapsInvariant), s)
      else case buildCapabilitySnapshot encode g caps of
             None \<Rightarrow> (Inl (Dom RegCapsSnapshot), s)
           | Some snapshot \<Rightarrow> run_tx (persist_capabilities_body now g caps dec snapshot) s)"

definition requireControlCapabilityTx :: "string \<Rightarrow> string \<Rightarrow> (registry_error, unit) tx" where
  "requireControlCapabilityTx v g =
    tx_bind (tx_query (\<lambda>d. capability_of d v g)) (\<lambda>row.
      case row of None \<Rightarrow> tx_fail RegNoCapability
      | Some r \<Rightarrow> tx_guard (vc_control_allowed r) (RegMonitorOnly (vc_control_reason r)))"

definition onlineWindowS :: int where "onlineWindowS = 6"

definition live_row :: "db \<Rightarrow> string \<Rightarrow> (string \<times> bool \<times> int) option" where
  "live_row d v =
    (case find (\<lambda>r. v_id r = v) (vehicles d) of None \<Rightarrow> None
     | Some r \<Rightarrow> (case find (\<lambda>s. vs_vehicle s = v) (vehicle_states d) of
                    None \<Rightarrow> Some (v_lifecycle r, False, 0)
                  | Some s \<Rightarrow> Some (v_lifecycle r, vs_online s, vs_updated_at s)))"

text \<open>\<open>clock\<close> is the reading \<open>time.Since\<close> takes.\<close>

definition requireVehicleLiveForControlTx :: "int \<Rightarrow> string \<Rightarrow> (registry_error, unit) tx" where
  "requireVehicleLiveForControlTx clock v =
    tx_bind (tx_query (\<lambda>d. live_row d v)) (\<lambda>row.
      case row of None \<Rightarrow> tx_fail RegVehicleMissing
      | Some (lifecycle, online, updatedAt) \<Rightarrow>
         tx_bind (tx_guard (lifecycle \<notin> {''quarantined'', ''retired'', ''maintenance''}) (RegLifecycle lifecycle)) (\<lambda>_.
         tx_guard (online \<and> \<not> sat64 (clock - updatedAt) > onlineWindowS * second) RegNotLive))"

definition RequireMonitoring :: "string \<Rightarrow> string \<Rightarrow> (registry_error, unit) tx" where
  "RequireMonitoring v g =
    tx_bind (tx_query (\<lambda>d. case (capability_of d v g, find (\<lambda>r. v_id r = v) (vehicles d)) of
        (Some c, Some r) \<Rightarrow> Some (vc_monitoring_allowed c, vc_control_reason c, v_lifecycle r) | _ \<Rightarrow> None)) (\<lambda>row.
      case row of None \<Rightarrow> tx_fail RegNoCapability
      | Some (allowed, reason, lifecycle) \<Rightarrow>
         tx_bind (tx_guard (lifecycle \<notin> {''quarantined'', ''retired''}) (RegLifecycle lifecycle)) (\<lambda>_.
         tx_guard allowed (RegMonitoringRefused reason)))"

section \<open>The sequence cursor is an epoch\<close>

definition cursor :: "message_key \<Rightarrow> db \<Rightarrow> int" where
  "cursor key d = (case map_of (inbound_message_cursors d) key of None \<Rightarrow> 0 | Some c \<Rightarrow> c)"

lemma AcceptInboundSequenceTx_Inr:
  assumes "AcceptInboundSequenceTx v g mt sid sq (d, fs) = (Inr acc, (d', fs'))"
  obtains (late) "\<not> acc" "d' = d" "uint sq \<le> cursor (v, g, mt, sid) d"
  | (advanced) "cursor (v, g, mt, sid) d' = uint sq" "cursor (v, g, mt, sid) d < uint sq"
      "\<And>k. k \<noteq> (v, g, mt, sid) \<Longrightarrow> cursor k d' = cursor k d"
proof -
  let ?key = "(v, g, mt, sid)"
  have "sq \<noteq> 0" using assms by (simp add: AcceptInboundSequenceTx_def split: if_splits)
  then have sq: "0 < uint sq" using uint_nonnegative [of sq] uint_0_iff [of sq] by linarith
  from assms obtain c d1 gs where c: "advance_cursor ?key sq d = Some (c, d1)"
    and rest: "((case c of None \<Rightarrow> tx_ret False | Some c \<Rightarrow>
         if c \<noteq> uint sq then tx_ret False
         else tx_bind (tx_stmt (insert_dedup ?key sq)) (\<lambda>n. tx_ret (n = 1))) :: (registry_error, bool) tx) (d1, gs) = (Inr acc, (d', fs'))"
    by (auto simp: AcceptInboundSequenceTx_def split: if_splits)
  show thesis
  proof (cases c)
    case None
    then have "d1 = d" "uint sq \<le> cursor ?key d"
      using c by (auto simp: advance_cursor_def cursor_def split: if_splits option.splits)
    then show thesis using late rest None by simp
  next
    case (Some n)
    then have n: "n = uint sq" "cursor ?key d1 = uint sq" "cursor ?key d < uint sq"
      "\<And>k. k \<noteq> ?key \<Longrightarrow> cursor k d1 = cursor k d"
      using c sq by (auto simp: advance_cursor_def cursor_def update_conv' split: if_splits option.splits)
    have "inbound_message_cursors d' = inbound_message_cursors d1"
      using rest Some n(1) by (auto simp: insert_dedup_def split: if_splits)
    then show thesis using n advanced by (simp add: cursor_def)
  qed
qed

datatype accept_op = Accept string string string string u64

fun accept_step :: "txs \<Rightarrow> accept_op \<Rightarrow> txs" where
  "accept_step s (Accept v g mt sid sq) = snd (AcceptInboundSequence v g mt sid sq s)"

lemma AcceptInboundSequence_cursor:
  "cursor k (fst s) \<le> cursor k (fst (snd (AcceptInboundSequence v g mt sid sq s)))"
proof -
  have "cursor k (fst s) \<le> cursor k (fst (snd (run_tx (AcceptInboundSequenceTx v g mt sid sq) (fst s, snd s))))"
  proof (rule run_tx_keeps)
    fix acc d' gs
    assume "AcceptInboundSequenceTx v g mt sid sq (fst s, tl (snd s)) = (Inr acc, (d', gs))"
    then show "cursor k (fst s) \<le> cursor k d'"
      by (cases rule: AcceptInboundSequenceTx_Inr; cases "k = (v, g, mt, sid)") auto
  qed simp
  then show ?thesis by (simp add: AcceptInboundSequence_def)
qed

interpretation accept_epoch: epoch_machine accept_step "\<lambda>s. cursor k (fst s)" for k
proof unfold_locales
  show "cursor k (fst s) \<le> cursor k (fst (accept_step s e))" for s e
    by (cases e) (simp add: AcceptInboundSequence_cursor)
qed

lemma AcceptInboundSequence_True:
  assumes "AcceptInboundSequence v g mt sid sq s = (Inr True, s')"
  shows "cursor (v, g, mt, sid) (fst s) < uint sq" and "cursor (v, g, mt, sid) (fst s') = uint sq"
proof -
  obtain d fs d' fs' where [simp]: "s = (d, fs)" "s' = (d', fs')" by (cases s; cases s') auto
  from assms obtain gs where "AcceptInboundSequenceTx v g mt sid sq (d, tl fs) = (Inr True, (d', gs))"
    unfolding AcceptInboundSequence_def by (auto elim: run_tx_Inr)
  then show "cursor (v, g, mt, sid) (fst s) < uint sq" "cursor (v, g, mt, sid) (fst s') = uint sq"
    by (cases rule: AcceptInboundSequenceTx_Inr; simp)+
qed

section \<open>What activation and revocation leave behind\<close>

lemma find_update_where:
  assumes "\<And>r. q (u r) = q r"
  shows "find q (update_where p u rs) = map_option (\<lambda>r. if p r then u r else r) (find q rs)"
  using assms by (induction rs) (auto simp: update_where_def)

lemma revoke_body_Inr:
  assumes "revoke_body now v g actor reason (d, fs) = (Inr u, (d', fs'))"
  shows "vehicle_gateways d' = update_where (\<lambda>r. gw_vehicle_id r = v \<and> gw_gateway_id r = g \<and> gw_status r \<noteq> ''revoked'')
      (\<lambda>r. r\<lparr>gw_status := ''revoked'', gw_revoked_at := Some now, gw_revoke_reason := reason\<rparr>) (vehicle_gateways d)"
    and "vehicles d' = update_where (\<lambda>r. v_id r = v) (\<lambda>r. r\<lparr>v_lifecycle := ''quarantined''\<rparr>) (vehicles d)"
    and "vehicle_states d' = vehicle_states d" "vehicle_capabilities d' = vehicle_capabilities d"
    and "vehicle_control_epochs d' = vehicle_control_epochs d" "control_leases d' = control_leases d"
  using assms by (auto simp: revoke_body_def Let_def log_security_def)

lemma revoked_gateway:
  assumes "revoke_body now v g actor reason (d, fs) = (Inr u, (d', fs'))" and "gateway_of d' v g = Some r"
  shows "gw_status r = ''revoked''"
proof -
  have "gateway_of d' v g = map_option (\<lambda>r. if gw_vehicle_id r = v \<and> gw_gateway_id r = g \<and> gw_status r \<noteq> ''revoked''
      then r\<lparr>gw_status := ''revoked'', gw_revoked_at := Some now, gw_revoke_reason := reason\<rparr> else r) (gateway_of d v g)"
    unfolding gateway_of_def revoke_body_Inr(1) [OF assms(1)] by (rule find_update_where) simp
  with assms(2) obtain q where q: "gateway_of d v g = Some q" and r: "r = (if gw_vehicle_id q = v \<and> gw_gateway_id q = g \<and> gw_status q \<noteq> ''revoked''
      then q\<lparr>gw_status := ''revoked'', gw_revoked_at := Some now, gw_revoke_reason := reason\<rparr> else q)"
    by (cases "gateway_of d v g") auto
  have "gw_vehicle_id q = v" "gw_gateway_id q = g" using q by (auto simp: gateway_of_def find_Some_iff)
  with r show ?thesis by simp
qed

lemma revoked_vehicle:
  assumes "revoke_body now v g actor reason (d, fs) = (Inr u, (d', fs'))" and "find (\<lambda>r. v_id r = v) (vehicles d') = Some r"
  shows "v_lifecycle r = ''quarantined''"
proof -
  have "find (\<lambda>r. v_id r = v) (vehicles d') =
      map_option (\<lambda>r. if v_id r = v then r\<lparr>v_lifecycle := ''quarantined''\<rparr> else r) (find (\<lambda>r. v_id r = v) (vehicles d))"
    unfolding revoke_body_Inr(2) [OF assms(1)] by (rule find_update_where) simp
  with assms(2) obtain q where q: "find (\<lambda>r. v_id r = v) (vehicles d) = Some q"
    and r: "r = (if v_id q = v then q\<lparr>v_lifecycle := ''quarantined''\<rparr> else q)"
    by (cases "find (\<lambda>r. v_id r = v) (vehicles d)") auto
  have "v_id q = v" using q by (auto simp: find_Some_iff)
  with r show ?thesis by simp
qed

lemma order_desc_Nil [simp]: "order_desc k [] = []"
  by (simp add: order_desc_def)

lemma activate_body_Inr:
  assumes "activate_body x now clock v g token spiffe cert (d, fs) = (Inr ident, (d', fs'))"
  obtains en where "open_enrollment d v g = Some en" "clock \<le> en_expires_at en"
    "en_token_sha256 en = x_token_hash x token" "en_expected_spiffe en = spiffe"
    "gateway_enrollments d' = update_where (\<lambda>r. en_vehicle_id r = v \<and> en_gateway_id r = g \<and> en_consumed_at r = None)
       (\<lambda>r. r\<lparr>en_consumed_at := Some now, en_consumed_certificate := certificateFingerprint x cert\<rparr>) (gateway_enrollments d)"
proof -
  from assms obtain en where en: "open_enrollment d v g = Some en"
    by (auto simp: activate_body_def Let_def split: option.splits)
  from assms en obtain d1 fs1 where up: "upsert_gateway now g v (certificateFingerprint x cert) spiffe (x_ts x (c_not_after cert)) d = Some ((), d1)"
    and "clock \<le> en_expires_at en" "en_token_sha256 en = x_token_hash x token" "en_expected_spiffe en = spiffe"
    and d': "gateway_enrollments d' = update_where (\<lambda>r. en_vehicle_id r = v \<and> en_gateway_id r = g \<and> en_consumed_at r = None)
       (\<lambda>r. r\<lparr>en_consumed_at := Some now, en_consumed_certificate := certificateFingerprint x cert\<rparr>) (gateway_enrollments d1)"
    by (auto simp: activate_body_def Let_def log_security_def not_less)
  moreover have "gateway_enrollments d1 = gateway_enrollments d"
    using up by (auto simp: upsert_gateway_def split: if_splits)
  ultimately show thesis using en that by simp
qed

section \<open>A concrete registry\<close>

definition demo_cert :: certificate where
  "demo_cert = \<lparr>c_uris = [\<lparr>u_scheme = ''spiffe'', u_host = ''robot-agent'', u_raw_query = [], u_fragment = [],
     u_string = spiffeGatewayID ''v1'' ''g1''\<rparr>], c_not_after = 900 * hour, c_raw = [1, 2]\<rparr>"

definition demo_fleet_db :: db where
  "demo_fleet_db = empty_db\<lparr>vehicles := [\<lparr>v_id = ''v1'', v_gateway_id = [], v_stack = [], v_lifecycle = ''registered'',
     v_last_seen = None, v_group = [], v_chassis = []\<rparr>]\<rparr>"

text \<open>A state row with nothing but the liveness columns set.\<close>

definition plain_state_row :: "string \<Rightarrow> bool \<Rightarrow> int \<Rightarrow> vehicle_state_row" where
  "plain_state_row v online t = \<lparr>vs_vehicle = v, vs_online = online, vs_updated_at = t, vs_mode = None,
     vs_speed_mps = Fin 0, vs_soc = Fin 0, vs_voltage = Fin 0, vs_gear = None, vs_steer_rad = Fin 0, vs_gps_fix = False,
     vs_gps = (None, None, None), vs_pose_valid = False, vs_pose_frame = None, vs_pose = (None, None, None)\<rparr>"

definition demo_enrolled :: db where
  "demo_enrolled = fst (snd (CreateEnrollment demo_ext 0 0 (Some ''tok'') (Some ''e1'') ''v1'' ''g1'' ''root'' 0 (demo_fleet_db, [])))"

definition demo_activated :: db where
  "demo_activated = fst (snd (Activate demo_ext second second second ''v1'' ''g1'' ''tok'' (Some demo_cert) (demo_enrolled, [])))"

definition demo_identity :: gatewayIdentity where
  "demo_identity = \<lparr>gi_GatewayID = ''g1'', gi_VehicleID = ''v1'', gi_CertificateHash = ''00'',
     gi_CertificateSubj = spiffeGatewayID ''v1'' ''g1'', gi_CertificateUntil = 900 * hour\<rparr>"

lemma demo_activates:
  "Activate demo_ext second second second ''v1'' ''g1'' ''tok'' (Some demo_cert) (demo_enrolled, []) =
     (Inr demo_identity, (demo_activated, []))"
  unfolding demo_activated_def by code_simp

section \<open>Properties\<close>

text \<open>
  Inbound messages take effect at most once and never out of order: once a sequence number of
  a session was accepted, then after any further deliveries, of this or other sessions, in any
  order and whatever statements fail, no delivery of that session with the same or a lower number
  is accepted.
\<close>

theorem inbound_at_most_once:
  assumes "AcceptInboundSequence v g mt sid sq s = (Inr True, s1)" and "t = run accept_step s1 ops" and "uint sq' \<le> uint sq"
  shows "AcceptInboundSequence v g mt sid sq' t \<noteq> (Inr True, t')"
proof
  assume "AcceptInboundSequence v g mt sid sq' t = (Inr True, t')"
  then have "cursor (v, g, mt, sid) (fst t) < uint sq'" by (rule AcceptInboundSequence_True)
  moreover have "uint sq \<le> cursor (v, g, mt, sid) (fst t)"
    using accept_epoch.run_epoch [where k = "(v, g, mt, sid)" and s = s1 and es = ops]
      AcceptInboundSequence_True(2) [OF assms(1)] assms(2) by simp
  ultimately show False using assms(3) by simp
qed

theorem inbound_at_most_once_witness:
  "AcceptInboundSequence ''v1'' ''g1'' ''m'' ''s'' 7
     (run accept_step (snd (AcceptInboundSequence ''v1'' ''g1'' ''m'' ''s'' 7 (empty_db, []))) [Accept ''v1'' ''g1'' ''m'' ''s'' 9]) \<noteq>
   (Inr True, (empty_db, []))"
proof -
  have "fst (AcceptInboundSequence ''v1'' ''g1'' ''m'' ''s'' 7 (empty_db, [])) = Inr True" by code_simp
  then have "AcceptInboundSequence ''v1'' ''g1'' ''m'' ''s'' 7 (empty_db, []) =
      (Inr True, snd (AcceptInboundSequence ''v1'' ''g1'' ''m'' ''s'' 7 (empty_db, [])))"
    by (metis prod.collapse)
  from inbound_at_most_once [OF this refl order.refl] show ?thesis .
qed

text \<open>
  C10. Activation needs the token and the certificate, once: a Gateway is activated only when the
  client certificate names exactly this vehicle and Gateway and an open, unexpired enrollment for
  them carries the hash of the presented token; afterwards no enrollment of the pair is open, so
  the same token activates nothing a second time.
\<close>

theorem activation_once:
  assumes "Activate x now c1 c2 v' g' token' (Some cert) (d, fs) = (Inr ident, (d1, fs1))"
  shows "certificateSPIFFE (Some cert) = Inr (spiffeGatewayID (trim_space v') (trim_space g')) \<and>
    (\<exists>en \<in> set (gateway_enrollments d). en_vehicle_id en = trim_space v' \<and> en_gateway_id en = trim_space g' \<and>
       en_consumed_at en = None \<and> en_token_sha256 en = x_token_hash x (trim_space token') \<and> c2 \<le> en_expires_at en) \<and>
    fst (Activate x now2 c3 c4 v' g' token2 (Some cert2) (d1, fs2)) \<noteq> Inr ident2"
proof -
  let ?v = "trim_space v'" and ?g = "trim_space g'" and ?t = "trim_space token'"
  from assms obtain spiffe where sp: "certificateSPIFFE (Some cert) = Inr spiffe" "spiffe = spiffeGatewayID ?v ?g"
    and run: "run_tx (activate_body x now c2 ?v ?g ?t spiffe cert) (d, fs) = (Inr ident, (d1, fs1))"
    by (auto simp: Activate_def Let_def split: if_splits sum.splits)
  from run obtain gs where "activate_body x now c2 ?v ?g ?t spiffe cert (d, tl fs) = (Inr ident, (d1, gs))"
    by (rule run_tx_Inr)
  then obtain en where en: "open_enrollment d ?v ?g = Some en" "c2 \<le> en_expires_at en" "en_token_sha256 en = x_token_hash x ?t"
    and d1: "gateway_enrollments d1 = update_where (\<lambda>r. en_vehicle_id r = ?v \<and> en_gateway_id r = ?g \<and> en_consumed_at r = None)
       (\<lambda>r. r\<lparr>en_consumed_at := Some now, en_consumed_certificate := certificateFingerprint x cert\<rparr>) (gateway_enrollments d)"
    by (rule activate_body_Inr)
  have "filter (\<lambda>r. en_vehicle_id r = ?v \<and> en_gateway_id r = ?g \<and> en_consumed_at r = None) (gateway_enrollments d1) = []"
    by (auto simp: d1 update_where_def filter_empty_conv)
  then have closed: "open_enrollment d1 ?v ?g = None" by (simp add: open_enrollment_def first_row_None)
  have "en \<in> set (gateway_enrollments d)" "en_vehicle_id en = ?v" "en_gateway_id en = ?g" "en_consumed_at en = None"
    using first_row_Some en(1) by (force simp: open_enrollment_def)+
  moreover have "fst (Activate x now2 c3 c4 v' g' token2 (Some cert2) (d1, fs2)) \<noteq> Inr ident2"
  proof
    assume "fst (Activate x now2 c3 c4 v' g' token2 (Some cert2) (d1, fs2)) = Inr ident2"
    then obtain spiffe2 s2 where
      "run_tx (activate_body x now2 c4 ?v ?g (trim_space token2) spiffe2 cert2) (d1, fs2) = (Inr ident2, s2)"
      by (auto simp: Activate_def Let_def split: if_splits sum.splits) (metis prod.collapse)
    then obtain d2 fs3 gs2 where "activate_body x now2 c4 ?v ?g (trim_space token2) spiffe2 cert2 (d1, tl fs2) = (Inr ident2, (d2, gs2))"
      by (cases s2) (auto elim: run_tx_Inr)
    then show False by (rule activate_body_Inr) (simp add: closed)
  qed
  ultimately show ?thesis using sp en by blast
qed

text \<open>
  C11. Revocation cuts the vehicle off: after a Gateway was revoked, its messages are refused, the
  vehicle is refused for control and for monitoring, in every database state the revocation leaves.
\<close>

theorem revocation_cuts_off:
  assumes "Revoke now v g actor reason (d, fs) = (Inr (), (d1, fs1))"
  shows "fst (ValidateInbound now2 clock v g (d1, gs)) \<noteq> Inr () \<and>
    fst (requireVehicleLiveForControlTx clock v (d1, gs)) \<noteq> Inr () \<and>
    fst (RequireMonitoring v g (d1, gs)) \<noteq> Inr ()"
proof -
  from assms have "run_tx (revoke_body now v g actor reason) (d, fs) = (Inr (), (d1, fs1))"
    by (auto simp: Revoke_def split: if_splits)
  then obtain hs where rv: "revoke_body now v g actor reason (d, tl fs) = (Inr (), (d1, hs))" by (rule run_tx_Inr)
  have "fst (ValidateInbound now2 clock v g (d1, gs)) \<noteq> Inr ()"
    using revoked_gateway [OF rv]
    by (cases "gateway_of d1 v g") (auto simp: ValidateInbound_def tx_query_def tx_stmt_def)
  moreover have "fst (requireVehicleLiveForControlTx clock v (d1, gs)) \<noteq> Inr ()"
    using revoked_vehicle [OF rv]
    by (cases "find (\<lambda>r. v_id r = v) (vehicles d1)")
       (auto simp: requireVehicleLiveForControlTx_def tx_bind_def tx_query_def tx_stmt_def tx_fail_def tx_guard_def live_row_def split: option.splits)
  moreover have "fst (RequireMonitoring v g (d1, gs)) \<noteq> Inr ()"
    using revoked_vehicle [OF rv]
    by (cases "find (\<lambda>r. v_id r = v) (vehicles d1)")
       (auto simp: RequireMonitoring_def tx_bind_def tx_query_def tx_stmt_def tx_fail_def tx_guard_def split: option.splits)
  ultimately show ?thesis by blast
qed

theorem revocation_cuts_off_witness:
  "fst (ValidateInbound 0 0 ''v1'' ''g1'' (fst (snd (Revoke 0 ''v1'' ''g1'' ''root'' ''lost'' (demo_activated, []))), [])) \<noteq> Inr ()"
proof -
  have "fst (Revoke 0 ''v1'' ''g1'' ''root'' ''lost'' (demo_activated, [])) = Inr ()" by code_simp
  then have "Revoke 0 ''v1'' ''g1'' ''root'' ''lost'' (demo_activated, []) =
    (Inr (), (fst (snd (Revoke 0 ''v1'' ''g1'' ''root'' ''lost'' (demo_activated, []))), snd (snd (Revoke 0 ''v1'' ''g1'' ''root'' ''lost'' (demo_activated, [])))))"
    by (metis prod.collapse)
  from revocation_cuts_off [OF this] show ?thesis by blast
qed

theorem activation_once_witness:
  "certificateSPIFFE (Some demo_cert) = Inr (spiffeGatewayID (trim_space ''v1'') (trim_space ''g1''))"
  using activation_once [OF demo_activates] by blast

end
