(* ===== verification/Authority.thy ===== *)
theory Authority
  imports Registry Envelope_Auth
begin

text \<open>
  \<open>server/fleet/durable_authority.go\<close>: who may control which vehicle. Leases, fencing epochs,
  renewals and revocations change in one transaction together with the signed grant or revocation
  for the vehicle. Clock readings and random reads of one call are a record of arguments.
\<close>

section \<open>Keys\<close>

datatype authority_error =
    ErrAuthorityUnavailable | ErrLeaseBusy | ErrLeaseExpired | AuthFields | AuthNoGateway | AuthReg registry_error
  | AuthOtherVehicle string | AuthRandom | AuthRequestID | AuthNoLease | AuthNotOwner | AuthNotActive
  | AuthIllegalGrant | AuthMarshal | AuthSign sign_error | AuthOutbox outbox_error
  | KeyLength | KeyStat | KeyMode | KeyUnreadable | KeyBase64 | KeyPathEmpty

record leaseSigner =
  ls_private :: bytes
  ls_keyID :: string

definition newLeaseSigner :: "wire \<Rightarrow> ext \<Rightarrow> bytes \<Rightarrow> authority_error + leaseSigner" where
  "newLeaseSigner w x private =
    (if length private \<noteq> 64 then Inl KeyLength
     else Inr \<lparr>ls_private = private, ls_keyID = take 16 (x_sha256_hex x (ed25519_public w private))\<rparr>)"

text \<open>A key file as the operating system shows it: its permission bits and its text.\<close>

record keyfile =
  kf_perm :: "nat option"
  kf_text :: "string option"

text \<open>\<open>Perm() & 0o077\<close> is the value of the lowest six bits.\<close>

definition group_other_bits :: "nat \<Rightarrow> nat" where "group_other_bits p = p mod 64"

definition loadLeaseSigner ::
  "wire \<Rightarrow> ext \<Rightarrow> (string \<Rightarrow> bytes option) \<Rightarrow> (bytes \<Rightarrow> bytes) \<Rightarrow> (string \<Rightarrow> keyfile) \<Rightarrow> string \<Rightarrow>
   authority_error + leaseSigner" where
  "loadLeaseSigner w x decode64 keyFromSeed fsys path =
    (if trim_space path = [] then Inl ErrAuthorityUnavailable
     else case kf_perm (fsys path) of None \<Rightarrow> Inl KeyStat | Some p \<Rightarrow>
       if group_other_bits p \<noteq> 0 then Inl KeyMode
       else case kf_text (fsys path) of None \<Rightarrow> Inl KeyUnreadable | Some t \<Rightarrow>
         (case decode64 (trim_space t) of None \<Rightarrow> Inl KeyBase64 | Some raw \<Rightarrow>
           if length raw = 32 then newLeaseSigner w x (keyFromSeed raw)
           else if length raw = 64 then newLeaseSigner w x raw
           else Inl KeyLength))"

definition loadSymmetricKey ::
  "(string \<Rightarrow> bytes option) \<Rightarrow> (string \<Rightarrow> keyfile) \<Rightarrow> string \<Rightarrow> authority_error + bytes" where
  "loadSymmetricKey decode64 fsys path =
    (if trim_space path = [] then Inl KeyPathEmpty
     else case kf_perm (fsys path) of None \<Rightarrow> Inl KeyStat | Some p \<Rightarrow>
       if group_other_bits p \<noteq> 0 then Inl KeyMode
       else case kf_text (fsys path) of None \<Rightarrow> Inl KeyUnreadable | Some t \<Rightarrow>
         (case decode64 (trim_space t) of None \<Rightarrow> Inl KeyBase64 | Some key \<Rightarrow>
           if length key < 32 then Inl KeyBase64 else Inr key))"

section \<open>The service\<close>

definition defaultLeaseTTL :: int where "defaultLeaseTTL = 45 * second"
definition defaultLeaseGrace :: int where "defaultLeaseGrace = 15 * second"

record ControlLease =
  L_LeaseID :: string
  L_VehicleID :: string
  L_GatewayID :: string
  L_DriverID :: string
  L_DeviceID :: string
  L_Fencing :: int
  L_IssuedAt :: int
  L_ValidUntil :: int

record DurableAuthority =
  da_signer :: "leaseSigner option"
  da_envelopeAuthKey :: bytes
  da_leaseTTL :: int
  da_grace :: int

definition NewDurableAuthority :: "leaseSigner option \<Rightarrow> bytes \<Rightarrow> int \<Rightarrow> int \<Rightarrow> DurableAuthority" where
  "NewDurableAuthority signer key ttl grace =
    \<lparr>da_signer = signer, da_envelopeAuthKey = key,
     da_leaseTTL = (if ttl \<le> 0 then defaultLeaseTTL else ttl),
     da_grace = (if grace \<le> 0 then defaultLeaseGrace else grace)\<rparr>"

definition ready :: "DurableAuthority \<Rightarrow> bool" where
  "ready a \<longleftrightarrow> da_signer a \<noteq> None \<and> \<not> length (da_envelopeAuthKey a) < 32"

text \<open>
  What one call reads from outside: the database's \<open>now()\<close>, the clock for the liveness check, for
  the lease and for the revocation's end, for the publication, the monotonic clock, and two reads
  of the random source.
\<close>

record readings =
  rd_now :: int
  rd_live :: int
  rd_clock :: int
  rd_clock2 :: int
  rd_publish :: int
  rd_mono :: u64
  rd_rand :: "string option"
  rd_out :: "string option"

definition randomID :: "string \<Rightarrow> string option \<Rightarrow> string option" where
  "randomID prefix rnd = map_option (\<lambda>h. prefix @ h) rnd"

subsection \<open>Publishing a grant\<close>

datatype lease_verb = VerbGrant | VerbRevoke

definition unsigned_grant :: "leaseSigner \<Rightarrow> int \<Rightarrow> ControlLease \<Rightarrow> lease_verb \<Rightarrow> LeaseGrant" where
  "unsigned_grant signer now lease action =
    \<lparr>lg_version = 1, lg_action = (case action of VerbGrant \<Rightarrow> LEASE_ACTION_GRANT | VerbRevoke \<Rightarrow> LEASE_ACTION_REVOKE),
     lg_vehicle_id = L_VehicleID lease, lg_gateway_id = L_GatewayID lease, lg_lease_id = L_LeaseID lease,
     lg_driver_id = L_DriverID lease, lg_device_id = L_DeviceID lease,
     lg_fencing_token = word_of_int (L_Fencing lease), lg_valid_until_unix_ns = L_ValidUntil lease,
     lg_issued_at_unix_ns = now, lg_authority_key_id = ls_keyID signer, lg_authority_signature = [], lg_unknown = []\<rparr>"

definition grant_envelope :: "int \<Rightarrow> u64 \<Rightarrow> ControlLease \<Rightarrow> bytes \<Rightarrow> Envelope" where
  "grant_envelope now mono_ns lease payload =
    \<lparr>env_schema_major = 1, env_schema_minor = 0, env_message_type = ''platform.v1.LeaseGrant'',
     env_vehicle_id = L_VehicleID lease, env_gateway_id = L_GatewayID lease, env_session_id = ''authority'',
     env_sequence = word_of_int (L_Fencing lease), env_utc_time_ns = now, env_monotonic_time_ns = mono_ns,
     env_ttl_ms = 30000, env_trace_id = L_LeaseID lease, env_payload = payload, env_auth_tag = [], env_unknown = []\<rparr>"

text \<open>The signed envelope, before it is serialised.\<close>

definition signed_grant_envelope ::
  "wire \<Rightarrow> DurableAuthority \<Rightarrow> int \<Rightarrow> u64 \<Rightarrow> ControlLease \<Rightarrow> lease_verb \<Rightarrow> authority_error + Envelope" where
  "signed_grant_envelope w a now mono_ns lease action =
    (case da_signer a of None \<Rightarrow> Inl ErrAuthorityUnavailable | Some signer \<Rightarrow>
      if \<not> ready a then Inl ErrAuthorityUnavailable
      else
        let unsigned = unsigned_grant signer now lease action
        in (case marshal_grant w unsigned of None \<Rightarrow> Inl AuthMarshal | Some canonical \<Rightarrow>
             let grant = unsigned\<lparr>lg_authority_signature := ed25519_sign w (ls_private signer) canonical\<rparr>
             in (case marshal_grant w grant of None \<Rightarrow> Inl AuthMarshal | Some payload \<Rightarrow>
                  (case SignEnvelope w (Some (grant_envelope now mono_ns lease payload)) (da_envelopeAuthKey a) of
                     Inl e \<Rightarrow> Inl (AuthSign e) | Inr env \<Rightarrow> Inr env))))"

definition publishGrantTx ::
  "wire \<Rightarrow> ext \<Rightarrow> DurableAuthority \<Rightarrow> readings \<Rightarrow> ControlLease \<Rightarrow> lease_verb \<Rightarrow> (authority_error, unit) tx" where
  "publishGrantTx w x a rd lease action =
    (case signed_grant_envelope w a (rd_publish rd) (rd_mono rd) lease action of
       Inl e \<Rightarrow> tx_fail e
     | Inr env \<Rightarrow>
        (case marshal_env w env of
           None \<Rightarrow> tx_fail AuthMarshal
         | Some b \<Rightarrow> tx_map_err AuthOutbox
             (enqueueOutboxTx x (rd_now rd) (rd_out rd) (L_GatewayID lease) ''lease'' ''control_lease'' (L_LeaseID lease) b)))"

definition publishGrant ::
  "wire \<Rightarrow> ext \<Rightarrow> DurableAuthority \<Rightarrow> readings \<Rightarrow> ControlLease \<Rightarrow> lease_verb \<Rightarrow> txs \<Rightarrow> (authority_error tx_error + unit) \<times> txs" where
  "publishGrant w x a rd lease action s =
    (if \<not> ready a then (Inl (Dom ErrAuthorityUnavailable), s) else run_tx (publishGrantTx w x a rd lease action) s)"

subsection \<open>Statements\<close>

definition active_gateway :: "int \<Rightarrow> string \<Rightarrow> db \<Rightarrow> string option" where
  "active_gateway now v d = map_option gw_gateway_id (first_row (order_desc gw_activated_at
     (filter (\<lambda>r. gw_vehicle_id r = v \<and> gw_status r = ''active'' \<and> gw_not_after r > now) (vehicle_gateways d))))"

definition ensure_epoch :: "string \<Rightarrow> db \<Rightarrow> (unit \<times> db) option" where
  "ensure_epoch v d =
    (if v \<in> ep_vehicle ` set (vehicle_control_epochs d) then Some ((), d)
     else if \<not> vehicle_exists d v then None
     else Some ((), d\<lparr>vehicle_control_epochs := vehicle_control_epochs d @
            [\<lparr>ep_vehicle = v, ep_fencing = 0, ep_active_lease = None\<rparr>]\<rparr>))"

definition expire_leases :: "int \<Rightarrow> string \<Rightarrow> db \<Rightarrow> db" where
  "expire_leases now v d = d\<lparr>control_leases := update_where
     (\<lambda>r. cl_vehicle r = v \<and> cl_state r = ''active'' \<and> cl_valid_until r \<le> now)
     (\<lambda>r. r\<lparr>cl_state := ''expired'', cl_release_reason := ''expired''\<rparr>) (control_leases d)\<rparr>"

definition epoch_of :: "db \<Rightarrow> string \<Rightarrow> epoch_row option" where
  "epoch_of d v = find (\<lambda>r. ep_vehicle r = v) (vehicle_control_epochs d)"

text \<open>A scan of no row is an error.\<close>

definition read_fencing :: "string \<Rightarrow> db \<Rightarrow> (int \<times> db) option" where
  "read_fencing v d = map_option (\<lambda>r. (ep_fencing r, d)) (epoch_of d v)"

definition set_epoch :: "string \<Rightarrow> int \<Rightarrow> string option \<Rightarrow> db \<Rightarrow> (unit \<times> db) option" where
  "set_epoch v f l d =
    (if f < 0 then None
     else Some ((), d\<lparr>vehicle_control_epochs := update_where (\<lambda>r. ep_vehicle r = v)
            (\<lambda>r. r\<lparr>ep_fencing := f, ep_active_lease := l\<rparr>) (vehicle_control_epochs d)\<rparr>))"

definition active_row :: "lease_row \<Rightarrow> bool" where
  "active_row r \<longleftrightarrow> cl_state r = ''active''"

definition lease_row_of :: "ext \<Rightarrow> ControlLease \<Rightarrow> lease_row" where
  "lease_row_of x l =
    \<lparr>cl_id = L_LeaseID l, cl_vehicle = L_VehicleID l, cl_gateway = L_GatewayID l, cl_driver = L_DriverID l,
     cl_device = L_DeviceID l, cl_fencing = L_Fencing l, cl_state = ''active'', cl_issued_at = x_ts x (L_IssuedAt l),
     cl_valid_until = x_ts x (L_ValidUntil l), cl_released_at = None, cl_release_reason = []\<rparr>"

text \<open>The primary key, the checks, the foreign keys and the two unique indexes on active leases.\<close>

definition insert_lease :: "ext \<Rightarrow> ControlLease \<Rightarrow> db \<Rightarrow> (unit \<times> db) option" where
  "insert_lease x l d =
    (let row = lease_row_of x l
     in if cl_id row \<in> cl_id ` set (control_leases d) \<or> \<not> cl_fencing row > 0
           \<or> \<not> cl_valid_until row > cl_issued_at row
           \<or> \<not> vehicle_exists d (cl_vehicle row) \<or> cl_gateway row \<notin> gw_gateway_id ` set (vehicle_gateways d)
           \<or> (\<exists>r \<in> set (control_leases d). active_row r \<and> (cl_vehicle r = cl_vehicle row \<or> cl_driver r = cl_driver row))
        then None
        else Some ((), d\<lparr>control_leases := control_leases d @ [row]\<rparr>))"

definition lease_of_row :: "lease_row \<Rightarrow> ControlLease" where
  "lease_of_row r = \<lparr>L_LeaseID = cl_id r, L_VehicleID = cl_vehicle r, L_GatewayID = cl_gateway r,
     L_DriverID = cl_driver r, L_DeviceID = cl_device r, L_Fencing = cl_fencing r,
     L_IssuedAt = cl_issued_at r, L_ValidUntil = cl_valid_until r\<rparr>"

definition find_lease :: "string \<Rightarrow> db \<Rightarrow> lease_row option" where
  "find_lease i d = find (\<lambda>r. cl_id r = i) (control_leases d)"

subsection \<open>Request\<close>

definition request_body ::
  "wire \<Rightarrow> ext \<Rightarrow> DurableAuthority \<Rightarrow> readings \<Rightarrow> string \<Rightarrow> string \<Rightarrow> string \<Rightarrow> (authority_error, ControlLease) tx" where
  "request_body w x a rd driver device v =
    tx_bind (tx_query (active_gateway (rd_now rd) v)) (\<lambda>gw.
    case gw of None \<Rightarrow> tx_fail AuthNoGateway | Some g \<Rightarrow>
    tx_bind (tx_map_err AuthReg (requireVehicleLiveForControlTx (rd_live rd) v)) (\<lambda>_.
    tx_bind (tx_map_err AuthReg (requireControlCapabilityTx v g)) (\<lambda>_.
    tx_bind (tx_stmt (ensure_epoch v)) (\<lambda>_.
    tx_bind (tx_exec (expire_leases (rd_now rd) v)) (\<lambda>_.
    tx_bind (tx_stmt (read_fencing v)) (\<lambda>fencing.
    tx_bind (tx_query (\<lambda>d. \<exists>r \<in> set (control_leases d). cl_vehicle r = v \<and> active_row r \<and> cl_valid_until r > rd_now rd)) (\<lambda>busy.
    tx_bind (tx_guard (\<not> busy) ErrLeaseBusy) (\<lambda>_.
    tx_bind (tx_query (\<lambda>d. find (\<lambda>r. cl_driver r = driver \<and> active_row r \<and> cl_valid_until r > rd_now rd) (control_leases d))) (\<lambda>other.
    tx_bind (case other of None \<Rightarrow> tx_ret () | Some r \<Rightarrow> tx_guard (cl_vehicle r = v) (AuthOtherVehicle (cl_vehicle r))) (\<lambda>_.
    case randomID ''lease-'' (rd_rand rd) of None \<Rightarrow> tx_fail AuthRandom | Some leaseID \<Rightarrow>
      let lease = \<lparr>L_LeaseID = leaseID, L_VehicleID = v, L_GatewayID = g, L_DriverID = driver, L_DeviceID = device,
                   L_Fencing = wrap64 (fencing + 1), L_IssuedAt = rd_clock rd, L_ValidUntil = rd_clock rd + da_leaseTTL a\<rparr>
      in tx_bind (tx_stmt (insert_lease x lease)) (\<lambda>_.
         tx_bind (tx_stmt (set_epoch v (L_Fencing lease) (Some leaseID))) (\<lambda>_.
         tx_bind (tx_exec (log_security v g (Some leaseID) driver ''lease_issued'' ''ok''
            [(''fencing'', JInt (L_Fencing lease)), (''device_id'', JStr device), (''valid_until'', JTime (L_ValidUntil lease))])) (\<lambda>_.
         tx_bind (publishGrantTx w x a rd lease VerbGrant) (\<lambda>_.
         tx_ret lease))))))))))))))"

text \<open>The projection of a lease for the operator's page, one for the whole process.\<close>

record TakeoverSnap =
  ts_Active :: bool
  ts_Driver :: string
  ts_LeaseID :: string
  ts_Fencing :: int
  ts_SecondsLeft :: rat

definition no_takeover :: TakeoverSnap where
  "no_takeover = \<lparr>ts_Active = False, ts_Driver = [], ts_LeaseID = [], ts_Fencing = 0, ts_SecondsLeft = 0\<rparr>"

definition maxFloat :: "rat \<Rightarrow> rat \<Rightarrow> rat" where "maxFloat p q = (if p > q then p else q)"

definition reflect :: "int \<Rightarrow> ControlLease \<Rightarrow> bool \<Rightarrow> TakeoverSnap" where
  "reflect clock lease active =
    (if active then \<lparr>ts_Active = True, ts_Driver = L_DriverID lease, ts_LeaseID = L_LeaseID lease,
       ts_Fencing = L_Fencing lease,
       ts_SecondsLeft = maxFloat 0 (of_int (sat64 (L_ValidUntil lease - clock)) / of_int second)\<rparr>
     else no_takeover)"

type_synonym astate = "txs \<times> TakeoverSnap"

definition finish_tx ::
  "int \<Rightarrow> bool \<Rightarrow> astate \<Rightarrow> (authority_error tx_error + ControlLease) \<times> txs \<Rightarrow>
   (authority_error tx_error + ControlLease) \<times> astate" where
  "finish_tx clock active s out =
    (case out of (Inl e, t) \<Rightarrow> (Inl e, (t, snd s)) | (Inr lease, t) \<Rightarrow> (Inr lease, (t, reflect clock lease active)))"

definition Request ::
  "wire \<Rightarrow> ext \<Rightarrow> DurableAuthority \<Rightarrow> readings \<Rightarrow> string \<Rightarrow> string \<Rightarrow> string \<Rightarrow> astate \<Rightarrow>
   (authority_error tx_error + ControlLease) \<times> astate" where
  "Request w x a rd driver' device' v' s =
    (let driver = trim_space driver'; device = trim_space device'; v = trim_space v'
     in if \<not> ready a then (Inl (Dom ErrAuthorityUnavailable), s)
        else if driver = [] \<or> device = [] \<or> v = [] then (Inl (Dom AuthFields), s)
        else finish_tx (rd_clock2 rd) True s (run_tx (request_body w x a rd driver device v) (fst s)))"

subsection \<open>Renewal\<close>

definition renew_body ::
  "wire \<Rightarrow> ext \<Rightarrow> DurableAuthority \<Rightarrow> readings \<Rightarrow> string \<Rightarrow> string \<Rightarrow> string \<Rightarrow> string \<Rightarrow> (authority_error, ControlLease) tx" where
  "renew_body w x a rd leaseID driver device requestID =
    tx_bind (tx_query (find_lease leaseID)) (\<lambda>row.
    case row of None \<Rightarrow> tx_fail AuthNoLease | Some r \<Rightarrow>
    let lease = lease_of_row r in
    tx_bind (tx_guard (\<not> (L_DriverID lease \<noteq> driver \<or> L_DeviceID lease \<noteq> device)) AuthNotOwner) (\<lambda>_.
    tx_bind (tx_map_err AuthReg (requireControlCapabilityTx (L_VehicleID lease) (L_GatewayID lease))) (\<lambda>_.
    tx_bind (tx_map_err AuthReg (requireVehicleLiveForControlTx (rd_live rd) (L_VehicleID lease))) (\<lambda>_.
    tx_bind (tx_stmt (\<lambda>d. map_option (\<lambda>r. (cl_state r, d)) (find_lease leaseID d))) (\<lambda>state.
    if state \<noteq> ''active'' \<or> rd_clock rd > L_ValidUntil lease + da_grace a
    then tx_bind (tx_exec (\<lambda>d. d\<lparr>control_leases := update_where (\<lambda>r. cl_id r = leaseID \<and> active_row r)
           (\<lambda>r. r\<lparr>cl_state := ''expired'', cl_release_reason := ''renewal_deadline_exceeded''\<rparr>) (control_leases d)\<rparr>)) (\<lambda>_.
         tx_fail ErrLeaseExpired)
    else
    tx_bind (tx_query (\<lambda>d. find (\<lambda>n. rn_lease n = leaseID \<and> rn_request n = requestID) (control_lease_renewals d))) (\<lambda>saved.
    case saved of
      Some n \<Rightarrow>
        let lease' = lease\<lparr>L_ValidUntil := rn_valid_until n\<rparr>
        in tx_bind (publishGrantTx w x a rd lease' VerbGrant) (\<lambda>_. tx_ret lease')
    | None \<Rightarrow>
        let lease' = lease\<lparr>L_ValidUntil := rd_clock2 rd + da_leaseTTL a\<rparr>
        in tx_bind (tx_stmt (\<lambda>d.
             if \<exists>r \<in> set (control_leases d). cl_id r = leaseID \<and> active_row r \<and> \<not> x_ts x (L_ValidUntil lease') > cl_issued_at r then None
             else Some ((), d\<lparr>control_leases := update_where (\<lambda>r. cl_id r = leaseID \<and> active_row r)
                    (\<lambda>r. r\<lparr>cl_valid_until := x_ts x (L_ValidUntil lease')\<rparr>) (control_leases d)\<rparr>))) (\<lambda>_.
           tx_bind (tx_exec (\<lambda>d. d\<lparr>control_lease_renewals := control_lease_renewals d @
               [\<lparr>rn_lease = leaseID, rn_request = requestID, rn_valid_until = x_ts x (L_ValidUntil lease')\<rparr>]\<rparr>)) (\<lambda>_.
           tx_bind (tx_exec (log_security (L_VehicleID lease) (L_GatewayID lease) (Some (L_LeaseID lease)) (L_DriverID lease)
               ''lease_renewed'' ''ok'' [(''request_id'', JStr requestID), (''valid_until'', JTime (L_ValidUntil lease'))])) (\<lambda>_.
           tx_bind (publishGrantTx w x a rd lease' VerbGrant) (\<lambda>_. tx_ret lease'))))))))))"

definition Renew ::
  "wire \<Rightarrow> ext \<Rightarrow> DurableAuthority \<Rightarrow> readings \<Rightarrow> string \<Rightarrow> string \<Rightarrow> string \<Rightarrow> string \<Rightarrow> astate \<Rightarrow>
   (authority_error tx_error + ControlLease) \<times> astate" where
  "Renew w x a rd leaseID driver device requestID s =
    (if \<not> ready a then (Inl (Dom ErrAuthorityUnavailable), s)
     else if length (trim_space requestID) < 16 then (Inl (Dom AuthRequestID), s)
     else finish_tx (rd_clock2 rd) True s (run_tx (renew_body w x a rd leaseID driver device requestID) (fst s)))"

subsection \<open>Release and emergency stop\<close>

definition release_body ::
  "wire \<Rightarrow> ext \<Rightarrow> DurableAuthority \<Rightarrow> readings \<Rightarrow> string \<Rightarrow> string \<Rightarrow> string \<Rightarrow> string \<Rightarrow> (authority_error, ControlLease) tx" where
  "release_body w x a rd leaseID driver device reason =
    tx_bind (tx_query (find_lease leaseID)) (\<lambda>row.
    case row of None \<Rightarrow> tx_fail AuthNoLease | Some r \<Rightarrow>
    let lease = lease_of_row r in
    tx_bind (tx_guard (\<not> (L_DriverID lease \<noteq> driver \<or> L_DeviceID lease \<noteq> device)) AuthNotOwner) (\<lambda>_.
    tx_bind (tx_stmt (read_fencing (L_VehicleID lease))) (\<lambda>fencing0.
    let fencing = wrap64 (fencing0 + 1); p = (\<lambda>r. cl_id r = leaseID \<and> active_row r) in
    tx_bind (tx_stmt (\<lambda>d. Some (count_where p (control_leases d), d\<lparr>control_leases := update_where p
        (\<lambda>r. r\<lparr>cl_state := ''released'', cl_released_at := Some (rd_now rd), cl_release_reason := reason\<rparr>) (control_leases d)\<rparr>))) (\<lambda>n.
    tx_bind (tx_guard (n = 1) AuthNotActive) (\<lambda>_.
    tx_bind (tx_stmt (set_epoch (L_VehicleID lease) fencing None)) (\<lambda>_.
    let lease' = lease\<lparr>L_Fencing := fencing, L_ValidUntil := rd_clock rd - second\<rparr> in
    tx_bind (tx_exec (log_security (L_VehicleID lease) (L_GatewayID lease) (Some (L_LeaseID lease)) driver ''lease_released'' ''ok''
        [(''reason'', JStr reason), (''revocation_fencing'', JInt fencing)])) (\<lambda>_.
    tx_bind (publishGrantTx w x a rd lease' VerbRevoke) (\<lambda>_. tx_ret lease'))))))))"

definition Release ::
  "wire \<Rightarrow> ext \<Rightarrow> DurableAuthority \<Rightarrow> readings \<Rightarrow> string \<Rightarrow> string \<Rightarrow> string \<Rightarrow> string \<Rightarrow> astate \<Rightarrow>
   (authority_error tx_error + ControlLease) \<times> astate" where
  "Release w x a rd leaseID driver device reason s =
    (if \<not> ready a then (Inl (Dom ErrAuthorityUnavailable), s)
     else finish_tx (rd_clock2 rd) False s (run_tx (release_body w x a rd leaseID driver device reason) (fst s)))"

definition estop_body ::
  "wire \<Rightarrow> ext \<Rightarrow> DurableAuthority \<Rightarrow> readings \<Rightarrow> string \<Rightarrow> string \<Rightarrow> (authority_error, ControlLease) tx" where
  "estop_body w x a rd v actor =
    tx_bind (tx_query (active_gateway (rd_now rd) v)) (\<lambda>gw.
    case gw of None \<Rightarrow> tx_fail AuthNoGateway | Some g \<Rightarrow>
    tx_bind (tx_stmt (ensure_epoch v)) (\<lambda>_.
    tx_bind (tx_stmt (read_fencing v)) (\<lambda>fencing0.
    let fencing = wrap64 (fencing0 + 1) in
    tx_bind (tx_exec (\<lambda>d. d\<lparr>control_leases := update_where (\<lambda>r. cl_vehicle r = v \<and> active_row r)
        (\<lambda>r. r\<lparr>cl_state := ''revoked'', cl_released_at := Some (rd_now rd), cl_release_reason := ''emergency_stop''\<rparr>) (control_leases d)\<rparr>)) (\<lambda>_.
    tx_bind (tx_stmt (set_epoch v fencing None)) (\<lambda>_.
    case randomID ''estop-'' (rd_rand rd) of None \<Rightarrow> tx_fail AuthRandom | Some leaseID \<Rightarrow>
    tx_bind (tx_exec (log_security v g (Some leaseID) actor ''emergency_stop'' ''ok'' [(''revocation_fencing'', JInt fencing)])) (\<lambda>_.
    let lease = \<lparr>L_LeaseID = leaseID, L_VehicleID = v, L_GatewayID = g, L_DriverID = actor, L_DeviceID = ''emergency-stop'',
                 L_Fencing = fencing, L_IssuedAt = rd_clock rd, L_ValidUntil = rd_clock2 rd - second\<rparr> in
    tx_bind (publishGrantTx w x a rd lease VerbRevoke) (\<lambda>_. tx_ret lease)))))))"

definition EmergencyStop ::
  "wire \<Rightarrow> ext \<Rightarrow> DurableAuthority \<Rightarrow> readings \<Rightarrow> string \<Rightarrow> string \<Rightarrow> astate \<Rightarrow>
   (authority_error tx_error + ControlLease) \<times> astate" where
  "EmergencyStop w x a rd v' actor s =
    (let v = trim_space v'
     in if \<not> ready a then (Inl (Dom ErrAuthorityUnavailable), s)
        else if v = [] \<or> trim_space actor = [] then (Inl (Dom AuthFields), s)
        else finish_tx (rd_clock2 rd) False s (run_tx (estop_body w x a rd v actor) (fst s)))"

section \<open>Operations as events\<close>

datatype auth_op =
    OpRequest readings string string string
  | OpRenew readings string string string string
  | OpRelease readings string string string string
  | OpEstop readings string string

fun auth_out :: "wire \<Rightarrow> ext \<Rightarrow> DurableAuthority \<Rightarrow> astate \<Rightarrow> auth_op \<Rightarrow> (authority_error tx_error + ControlLease) \<times> astate" where
  "auth_out w x a s (OpRequest rd driver device v) = Request w x a rd driver device v s"
| "auth_out w x a s (OpRenew rd lid driver device req) = Renew w x a rd lid driver device req s"
| "auth_out w x a s (OpRelease rd lid driver device reason) = Release w x a rd lid driver device reason s"
| "auth_out w x a s (OpEstop rd v actor) = EmergencyStop w x a rd v actor s"

definition auth_step :: "wire \<Rightarrow> ext \<Rightarrow> DurableAuthority \<Rightarrow> astate \<Rightarrow> auth_op \<Rightarrow> astate" where
  "auth_step w x a s e = snd (auth_out w x a s e)"

end
