(* ===== verification/Authority_Safety.thy ===== *)
theory Authority_Safety
  imports Authority
begin

text \<open>
  What the control authority guarantees: fencing epochs only grow, there is at most one active
  lease per vehicle and per operator, an active lease carries the current epoch of its vehicle,
  and nothing changes when an operation fails.
\<close>

section \<open>What a successful call did\<close>

lemma requireVehicleLive_Inr:
  assumes "requireVehicleLiveForControlTx clock v (d, fs) = (Inr u, (d', fs'))"
  shows "d' = d" and "\<exists>lc upd. live_row d v = Some (lc, True, upd) \<and> lc \<notin> {''quarantined'', ''retired'', ''maintenance''} \<and>
    sat64 (clock - upd) \<le> onlineWindowS * second"
  using assms by (auto simp: requireVehicleLiveForControlTx_def split: option.splits)

lemma requireControlCapability_Inr:
  assumes "requireControlCapabilityTx v g (d, fs) = (Inr u, (d', fs'))"
  shows "d' = d" and "\<exists>r. capability_of d v g = Some r \<and> vc_control_allowed r"
  using assms by (auto simp: requireControlCapabilityTx_def split: option.splits)

lemma enqueueOutboxTx_frame:
  assumes "enqueueOutboxTx x now rnd g c ty i p (d, fs) = (Inr u, (d', fs'))"
  shows "\<exists>rows. d' = d\<lparr>platform_outbox := platform_outbox d @ rows\<rparr>"
proof -
  have "d' = d \<or> (\<exists>row. d' = d\<lparr>platform_outbox := platform_outbox d @ [row]\<rparr>)"
    using assms by (auto simp: enqueueOutboxTx_def insertOutbox_def split: if_splits)
  then show ?thesis by (metis append_Nil2 db.surjective db.update_convs(9))
qed

lemma publishGrantTx_frame:
  assumes "publishGrantTx w x a rd l verb (d, fs) = (Inr u, (d', fs'))"
  shows "control_leases d' = control_leases d" "vehicle_control_epochs d' = vehicle_control_epochs d"
    "control_lease_renewals d' = control_lease_renewals d" "vehicle_gateways d' = vehicle_gateways d"
    "vehicles d' = vehicles d" "control_security_events d' = control_security_events d"
proof -
  obtain ty i p where "enqueueOutboxTx x (rd_now rd) (rd_out rd) (L_GatewayID l) ''lease'' ty i p (d, fs) = (Inr u, (d', fs'))"
    using assms by (auto simp: publishGrantTx_def split: sum.splits option.splits)
  from enqueueOutboxTx_frame [OF this] show "control_leases d' = control_leases d" "vehicle_control_epochs d' = vehicle_control_epochs d"
    "control_lease_renewals d' = control_lease_renewals d" "vehicle_gateways d' = vehicle_gateways d"
    "vehicles d' = vehicles d" "control_security_events d' = control_security_events d" by auto
qed

definition fencing_of :: "db \<Rightarrow> string \<Rightarrow> int" where
  "fencing_of d v = (case epoch_of d v of None \<Rightarrow> 0 | Some r \<Rightarrow> ep_fencing r)"

lemma ensure_epoch_Some:
  assumes "ensure_epoch v d = Some (u, d')"
  shows "control_leases d' = control_leases d" "fencing_of d' v' = fencing_of d v'" "\<exists>r. epoch_of d' v = Some r"
    "vehicle_gateways d' = vehicle_gateways d" "vehicles d' = vehicles d"
    "set (map ep_vehicle (vehicle_control_epochs d')) = insert v (set (map ep_vehicle (vehicle_control_epochs d)))"
proof -
  have new: "find (\<lambda>r. ep_vehicle r = v') (rs @ [r]) = (case find (\<lambda>r. ep_vehicle r = v') rs of None \<Rightarrow> find (\<lambda>r. ep_vehicle r = v') [r] | Some q \<Rightarrow> Some q)" for rs r v'
    by (induction rs) auto
  have mem: "v \<in> ep_vehicle ` set rs \<Longrightarrow> \<exists>r. find (\<lambda>r. ep_vehicle r = v) rs = Some r" for rs v
    by (induction rs) auto
  show "control_leases d' = control_leases d" "vehicle_gateways d' = vehicle_gateways d" "vehicles d' = vehicles d"
    "set (map ep_vehicle (vehicle_control_epochs d')) = insert v (set (map ep_vehicle (vehicle_control_epochs d)))"
    using assms by (auto simp: ensure_epoch_def split: if_splits)
  show "fencing_of d' v' = fencing_of d v'" "\<exists>r. epoch_of d' v = Some r"
    using assms by (auto simp: ensure_epoch_def fencing_of_def epoch_of_def new mem split: if_splits option.splits)
qed

lemma read_fencing_Some:
  "read_fencing v d = Some (f, d') \<Longrightarrow> d' = d \<and> f = fencing_of d v \<and> (\<exists>r. epoch_of d v = Some r)"
  by (auto simp: read_fencing_def fencing_of_def)

lemma set_epoch_Some:
  assumes "set_epoch v f l d = Some (u, d')" and "epoch_of d v = Some r"
  shows "control_leases d' = control_leases d" "0 \<le> f" "fencing_of d' v = f" "v' \<noteq> v \<Longrightarrow> fencing_of d' v' = fencing_of d v'"
proof -
  have upd: "epoch_of d' v' = map_option (\<lambda>r. if ep_vehicle r = v then r\<lparr>ep_fencing := f, ep_active_lease := l\<rparr> else r) (epoch_of d v')" for v'
    using assms(1) by (auto simp: set_epoch_def epoch_of_def find_update_where split: if_splits)
  have v: "epoch_of d v' = Some q \<Longrightarrow> ep_vehicle q = v'" for v' q by (auto simp: epoch_of_def find_Some_iff)
  show "control_leases d' = control_leases d" "0 \<le> f" using assms(1) by (auto simp: set_epoch_def split: if_splits)
  show "fencing_of d' v = f" using assms(2) v [OF assms(2)] by (simp add: fencing_of_def upd)
  show "v' \<noteq> v \<Longrightarrow> fencing_of d' v' = fencing_of d v'"
    using v by (auto simp: fencing_of_def upd split: option.splits)
qed

text \<open>\<open>log_security\<close> and the expiry of leases leave the epochs alone.\<close>

lemma log_security_frame [simp]:
  "control_leases (log_security v g l ac ty oc det d) = control_leases d"
  "fencing_of (log_security v g l ac ty oc det d) v' = fencing_of d v'"
  "vehicle_gateways (log_security v g l ac ty oc det d) = vehicle_gateways d"
  "control_lease_renewals (log_security v g l ac ty oc det d) = control_lease_renewals d"
  by (simp_all add: log_security_def fencing_of_def epoch_of_def)

lemma expire_leases_frame [simp]:
  "fencing_of (expire_leases now v d) v' = fencing_of d v'" "epoch_of (expire_leases now v d) v' = epoch_of d v'"
  by (simp_all add: expire_leases_def fencing_of_def epoch_of_def)

lemma publish_fencing:
  "publishGrantTx w x a rd l verb (d, fs) = (Inr u, (d', fs')) \<Longrightarrow> fencing_of d' v = fencing_of d v"
  by (drule publishGrantTx_frame(2)) (simp add: fencing_of_def epoch_of_def)

lemma request_body_Inr:
  assumes "request_body w x a rd driver device v (d, fs) = (Inr lease, (d', fs'))"
  obtains g where "active_gateway (rd_now rd) v d = Some g" "L_VehicleID lease = v" "L_GatewayID lease = g"
    "L_DriverID lease = driver" "L_DeviceID lease = device"
    "L_Fencing lease = wrap64 (fencing_of d v + 1)" "L_ValidUntil lease = rd_clock rd + da_leaseTTL a" "L_IssuedAt lease = rd_clock rd"
    "\<exists>lc upd. live_row d v = Some (lc, True, upd) \<and> lc \<notin> {''quarantined'', ''retired'', ''maintenance''} \<and>
       sat64 (rd_live rd - upd) \<le> onlineWindowS * second"
    "\<exists>r. capability_of d v g = Some r \<and> vc_control_allowed r"
    "0 < L_Fencing lease" "L_LeaseID lease \<notin> cl_id ` set (control_leases d)"
    "\<And>r. r \<in> set (control_leases (expire_leases (rd_now rd) v d)) \<Longrightarrow> active_row r \<Longrightarrow> cl_vehicle r \<noteq> v \<and> cl_driver r \<noteq> driver"
    "control_leases d' = control_leases (expire_leases (rd_now rd) v d) @ [lease_row_of x lease]"
    "fencing_of d' v = L_Fencing lease" "\<And>v'. v' \<noteq> v \<Longrightarrow> fencing_of d' v' = fencing_of d v'"
proof -
  from assms obtain g fs0 where gw: "active_gateway (rd_now rd) v d = Some g"
    by (auto simp: request_body_def split: option.splits)
  from assms gw obtain d1 f1 d1' f1' d2 f2 f d4 f4 leaseID d5 f5 d6 f6 d7 f7 f8 where
    live: "requireVehicleLiveForControlTx (rd_live rd) v (d, f1) = (Inr (), (d1, f1'))" and
    cap: "requireControlCapabilityTx v g (d1, f1') = (Inr (), (d1', f2))" and
    ep: "ensure_epoch v d1' = Some ((), d2)" and
    fen: "read_fencing v (expire_leases (rd_now rd) v d2) = Some (f, d4)" and
    lid: "randomID ''lease-'' (rd_rand rd) = Some leaseID" and
    l: "lease = \<lparr>L_LeaseID = leaseID, L_VehicleID = v, L_GatewayID = g, L_DriverID = driver, L_DeviceID = device,
                   L_Fencing = wrap64 (f + 1), L_IssuedAt = rd_clock rd, L_ValidUntil = rd_clock rd + da_leaseTTL a\<rparr>" and
    ins: "insert_lease x lease d4 = Some ((), d5)" and
    se: "set_epoch v (wrap64 (f + 1)) (Some leaseID) d5 = Some ((), d6)" and
    pub: "publishGrantTx w x a rd lease VerbGrant (log_security v g (Some leaseID) driver ''lease_issued'' ''ok''
            [(''fencing'', JInt (wrap64 (f + 1))), (''device_id'', JStr device), (''valid_until'', JTime (rd_clock rd + da_leaseTTL a))] d6, f7) = (Inr (), (d', f8))"
    by (auto simp: request_body_def Let_def split: option.splits)
  have d1: "d1 = d" "d1' = d" using requireVehicleLive_Inr(1) [OF live] requireControlCapability_Inr(1) [OF cap] by simp_all
  note ep' = ensure_epoch_Some [OF ep [unfolded d1(2)]]
  have d4: "d4 = expire_leases (rd_now rd) v d2" "f = fencing_of d v" using read_fencing_Some [OF fen] ep'(2) by auto
  obtain er where er: "epoch_of d5 v = Some er"
    using ep'(3) ins by (auto simp: d4 insert_lease_def Let_def epoch_of_def expire_leases_def split: if_splits)
  have leases4: "control_leases d4 = control_leases (expire_leases (rd_now rd) v d)"
    using ep'(1) by (simp add: d4 expire_leases_def)
  have ids: "cl_id ` set (control_leases (expire_leases (rd_now rd) v d)) = cl_id ` set (control_leases d)"
    by (simp add: expire_leases_def flip: set_map)
  have ins': "control_leases d5 = control_leases d4 @ [lease_row_of x lease]" "0 < L_Fencing lease"
    "L_LeaseID lease \<notin> cl_id ` set (control_leases d4)"
    "\<And>r. r \<in> set (control_leases d4) \<Longrightarrow> active_row r \<Longrightarrow> cl_vehicle r \<noteq> v \<and> cl_driver r \<noteq> driver"
    "fencing_of d5 v' = fencing_of d4 v'" for v'
    using ins l by (auto simp: insert_lease_def Let_def lease_row_of_def fencing_of_def epoch_of_def split: if_splits)
  note se' = set_epoch_Some [OF se er]
  have fd4: "fencing_of d4 v' = fencing_of d v'" for v' using ep'(2) d4 by simp
  show thesis
  proof (rule that)
    show "active_gateway (rd_now rd) v d = Some g" by (rule gw)
    show "control_leases d' = control_leases (expire_leases (rd_now rd) v d) @ [lease_row_of x lease]"
      using publishGrantTx_frame(1) [OF pub] se'(1) ins'(1) leases4 by simp
    show "fencing_of d' v = L_Fencing lease" using publish_fencing [OF pub] se'(3) l by simp
    show "v' \<noteq> v \<Longrightarrow> fencing_of d' v' = fencing_of d v'" for v'
      using publish_fencing [OF pub] se'(4) ins'(5) fd4 by simp
    show "L_LeaseID lease \<notin> cl_id ` set (control_leases d)" using ins'(3) leases4 ids by simp
    show "\<And>r. r \<in> set (control_leases (expire_leases (rd_now rd) v d)) \<Longrightarrow> active_row r \<Longrightarrow> cl_vehicle r \<noteq> v \<and> cl_driver r \<noteq> driver"
      using ins'(4) leases4 by simp
    show "\<exists>lc upd. live_row d v = Some (lc, True, upd) \<and> lc \<notin> {''quarantined'', ''retired'', ''maintenance''} \<and>
       sat64 (rd_live rd - upd) \<le> onlineWindowS * second" by (rule requireVehicleLive_Inr(2) [OF live])
    show "\<exists>r. capability_of d v g = Some r \<and> vc_control_allowed r"
      using requireControlCapability_Inr(2) [OF cap] d1 by simp
    show "0 < L_Fencing lease" by (rule ins'(2))
  qed (use l d4 in auto)
qed

end
