(* ===== verification/Authority_Props.thy ===== *)
theory Authority_Props
  imports Authority_Safety
begin

text \<open>
  The properties of the control authority over every sequence of its operations, with the
  interfaces of \<open>Systems\<close> interpreted on \<^const>\<open>auth_step\<close>.
\<close>

section \<open>The other operations\<close>

lemma requireControlCapability_iff:
  "requireControlCapabilityTx v g (d, fs) = (Inr u, (d', fs')) \<longleftrightarrow>
     \<not> faulty fs \<and> fs' = tl fs \<and> d' = d \<and> (\<exists>r. capability_of d v g = Some r \<and> vc_control_allowed r)"
  by (auto simp: requireControlCapabilityTx_def split: option.splits)

lemma requireVehicleLive_iff:
  "requireVehicleLiveForControlTx clock v (d, fs) = (Inr u, (d', fs')) \<longleftrightarrow>
     \<not> faulty fs \<and> fs' = tl fs \<and> d' = d \<and>
     (\<exists>lc upd. live_row d v = Some (lc, True, upd) \<and> lc \<notin> {''quarantined'', ''retired'', ''maintenance''} \<and>
        sat64 (clock - upd) \<le> onlineWindowS * second)"
  by (auto simp: requireVehicleLiveForControlTx_def split: option.splits)

text \<open>A renewal answers a stored one, or extends the lease and stores itself.\<close>

definition renew_effect :: "ext \<Rightarrow> DurableAuthority \<Rightarrow> readings \<Rightarrow> string \<Rightarrow> string \<Rightarrow> ControlLease \<Rightarrow> db \<Rightarrow> db \<Rightarrow> bool" where
  "renew_effect x a rd lid req lease d d' \<longleftrightarrow>
     control_leases d' = control_leases d \<and> control_lease_renewals d' = control_lease_renewals d \<and>
       (\<exists>n \<in> set (control_lease_renewals d). rn_lease n = lid \<and> rn_request n = req \<and> L_ValidUntil lease = rn_valid_until n)
   \<or> control_leases d' = update_where (\<lambda>r. cl_id r = lid \<and> active_row r)
         (\<lambda>r. r\<lparr>cl_valid_until := x_ts x (rd_clock2 rd + da_leaseTTL a)\<rparr>) (control_leases d) \<and>
       find (\<lambda>n. rn_lease n = lid \<and> rn_request n = req) (control_lease_renewals d) = None \<and>
       control_lease_renewals d' = control_lease_renewals d @
         [\<lparr>rn_lease = lid, rn_request = req, rn_valid_until = x_ts x (rd_clock2 rd + da_leaseTTL a)\<rparr>] \<and>
       L_ValidUntil lease = rd_clock2 rd + da_leaseTTL a"

lemma renew_body_Inr:
  assumes "renew_body w x a rd lid driver device req (d, fs) = (Inr lease, (d', fs'))"
  obtains r where "find_lease lid d = Some r" "active_row r" "cl_driver r = driver" "cl_device r = device"
    "rd_clock rd \<le> cl_valid_until r + da_grace a" "L_Fencing lease = cl_fencing r" "L_LeaseID lease = cl_id r" "L_VehicleID lease = cl_vehicle r"
    "fencing_of d' = fencing_of d"
    "renew_effect x a rd lid req lease d d'"
proof -
  from assms obtain r where r: "find_lease lid d = Some r" by (auto simp: renew_body_def split: option.splits)
  let ?l = "lease_of_row r"
  have own: "L_DriverID ?l = driver" "L_DeviceID ?l = device" and act: "active_row r" "rd_clock rd \<le> cl_valid_until r + da_grace a"
    using assms r
    by (auto simp: renew_body_def Let_def active_row_def lease_of_row_def requireControlCapability_iff requireVehicleLive_iff split: if_splits)
  then have st: "\<not> (cl_state r \<noteq> ''active'' \<or> rd_clock rd > L_ValidUntil ?l + da_grace a)"
    by (auto simp: active_row_def lease_of_row_def)
  show thesis
  proof (cases "find (\<lambda>n. rn_lease n = lid \<and> rn_request n = req) (control_lease_renewals d)")
    case (Some n)
    from assms r own st Some obtain f4 f5 where
      pub: "publishGrantTx w x a rd (?l\<lparr>L_ValidUntil := rn_valid_until n\<rparr>) VerbGrant (d, f4) = (Inr (), (d', f5))"
      and l: "lease = ?l\<lparr>L_ValidUntil := rn_valid_until n\<rparr>"
      by (auto simp: renew_body_def Let_def requireControlCapability_iff requireVehicleLive_iff split: if_splits)
    have "n \<in> set (control_lease_renewals d)" "rn_lease n = lid" "rn_request n = req" using Some by (auto simp: find_Some_iff)
    then show thesis
      using r act own l publishGrantTx_frame [OF pub] publish_fencing [OF pub]
      by (intro that [of r]) (auto simp: lease_of_row_def renew_effect_def)
  next
    case None
    let ?u = "rd_clock2 rd + da_leaseTTL a" and ?p = "\<lambda>r. cl_id r = lid \<and> active_row r"
    let ?d3 = "d\<lparr>control_leases := update_where ?p (\<lambda>r. r\<lparr>cl_valid_until := x_ts x ?u\<rparr>) (control_leases d)\<rparr>"
    let ?d4 = "?d3\<lparr>control_lease_renewals := control_lease_renewals d @ [\<lparr>rn_lease = lid, rn_request = req, rn_valid_until = x_ts x ?u\<rparr>]\<rparr>"
    from assms r own st None obtain f4 f5 det where
      pub: "publishGrantTx w x a rd (?l\<lparr>L_ValidUntil := ?u\<rparr>) VerbGrant
        (log_security (L_VehicleID ?l) (L_GatewayID ?l) (Some (L_LeaseID ?l)) (L_DriverID ?l) ''lease_renewed'' ''ok'' det ?d4, f4) = (Inr (), (d', f5))"
      and l: "lease = ?l\<lparr>L_ValidUntil := ?u\<rparr>"
      by (auto simp: renew_body_def Let_def requireControlCapability_iff requireVehicleLive_iff split: if_splits)
    have "fencing_of ?d4 = fencing_of d" by (rule ext) (simp add: fencing_of_def epoch_of_def)
    then have "fencing_of d' = fencing_of d" using publish_fencing [OF pub] by (intro ext) simp
    then show thesis
      using r act own l publishGrantTx_frame [OF pub] None
      by (intro that [of r]) (auto simp: lease_of_row_def renew_effect_def)
  qed
qed

lemma release_body_Inr:
  assumes "release_body w x a rd lid driver device reason (d, fs) = (Inr lease, (d', fs'))"
  obtains r where "find_lease lid d = Some r" "cl_driver r = driver" "cl_device r = device"
    "L_Fencing lease = wrap64 (fencing_of d (cl_vehicle r) + 1)" "0 \<le> L_Fencing lease" "L_VehicleID lease = cl_vehicle r"
    "count_where (\<lambda>r. cl_id r = lid \<and> active_row r) (control_leases d) = 1"
    "control_leases d' = update_where (\<lambda>r. cl_id r = lid \<and> active_row r)
        (\<lambda>r. r\<lparr>cl_state := ''released'', cl_released_at := Some (rd_now rd), cl_release_reason := reason\<rparr>) (control_leases d)"
    "fencing_of d' (cl_vehicle r) = L_Fencing lease" "\<And>v. v \<noteq> cl_vehicle r \<Longrightarrow> fencing_of d' v = fencing_of d v"
proof -
  from assms obtain r where r: "find_lease lid d = Some r" by (auto simp: release_body_def split: option.splits)
  let ?l = "lease_of_row r" and ?p = "\<lambda>r. cl_id r = lid \<and> active_row r"
  let ?d1 = "d\<lparr>control_leases := update_where ?p
        (\<lambda>r. r\<lparr>cl_state := ''released'', cl_released_at := Some (rd_now rd), cl_release_reason := reason\<rparr>) (control_leases d)\<rparr>"
  from assms r obtain f d0 d2 f4 f5 det where own: "L_DriverID ?l = driver" "L_DeviceID ?l = device"
    and fen: "read_fencing (L_VehicleID ?l) d = Some (f, d0)"
    and n: "count_where ?p (control_leases d0) = 1"
    and se: "set_epoch (L_VehicleID ?l) (wrap64 (f + 1)) None (d0\<lparr>control_leases := control_leases ?d1\<rparr>) = Some ((), d2)"
    and l: "lease = ?l\<lparr>L_Fencing := wrap64 (f + 1), L_ValidUntil := rd_clock rd - second\<rparr>"
    and pub: "publishGrantTx w x a rd lease VerbRevoke
      (log_security (L_VehicleID ?l) (L_GatewayID ?l) (Some (L_LeaseID ?l)) driver ''lease_released'' ''ok'' det d2, f4) = (Inr (), (d', f5))"
    by (auto simp: release_body_def Let_def read_fencing_def split: if_splits)
  have f: "d0 = d" "f = fencing_of d (L_VehicleID ?l)" using read_fencing_Some [OF fen] by auto
  obtain er where "epoch_of d (L_VehicleID ?l) = Some er" using read_fencing_Some [OF fen] by auto
  then have er: "epoch_of (d0\<lparr>control_leases := control_leases ?d1\<rparr>) (L_VehicleID ?l) = Some er" using f by (simp add: epoch_of_def)
  note se' = set_epoch_Some [OF se er]
  have fr: "fencing_of (d0\<lparr>control_leases := control_leases ?d1\<rparr>) v = fencing_of d v" for v
    using f by (simp add: fencing_of_def epoch_of_def)
  show thesis
    using r own f l n se' fr publishGrantTx_frame(1) [OF pub] publish_fencing [OF pub]
    by (intro that [of r]) (auto simp: lease_of_row_def)
qed

lemma estop_body_Inr:
  assumes "estop_body w x a rd v actor (d, fs) = (Inr lease, (d', fs'))"
  obtains g where "active_gateway (rd_now rd) v d = Some g" "L_VehicleID lease = v" "L_GatewayID lease = g"
    "L_Fencing lease = wrap64 (fencing_of d v + 1)" "0 \<le> L_Fencing lease"
    "control_leases d' = update_where (\<lambda>r. cl_vehicle r = v \<and> active_row r)
        (\<lambda>r. r\<lparr>cl_state := ''revoked'', cl_released_at := Some (rd_now rd), cl_release_reason := ''emergency_stop''\<rparr>) (control_leases d)"
    "fencing_of d' v = L_Fencing lease" "\<And>v'. v' \<noteq> v \<Longrightarrow> fencing_of d' v' = fencing_of d v'"
proof -
  from assms obtain g where gw: "active_gateway (rd_now rd) v d = Some g"
    by (auto simp: estop_body_def split: option.splits)
  let ?p = "\<lambda>r. cl_vehicle r = v \<and> active_row r"
  let ?u = "\<lambda>d. d\<lparr>control_leases := update_where ?p
        (\<lambda>r. r\<lparr>cl_state := ''revoked'', cl_released_at := Some (rd_now rd), cl_release_reason := ''emergency_stop''\<rparr>) (control_leases d)\<rparr>"
  from assms gw obtain d1 f d2 leaseID d3 f4 f5 det where ep: "ensure_epoch v d = Some ((), d1)"
    and fen: "read_fencing v d1 = Some (f, d2)"
    and se: "set_epoch v (wrap64 (f + 1)) None (?u d2) = Some ((), d3)"
    and l: "lease = \<lparr>L_LeaseID = leaseID, L_VehicleID = v, L_GatewayID = g, L_DriverID = actor, L_DeviceID = ''emergency-stop'',
                 L_Fencing = wrap64 (f + 1), L_IssuedAt = rd_clock rd, L_ValidUntil = rd_clock2 rd - second\<rparr>"
    and pub: "publishGrantTx w x a rd lease VerbRevoke (log_security v g (Some leaseID) actor ''emergency_stop'' ''ok'' det d3, f4) = (Inr (), (d', f5))"
    by (auto simp: estop_body_def Let_def split: option.splits)
  note ep' = ensure_epoch_Some [OF ep]
  have f: "d2 = d1" "f = fencing_of d v" using read_fencing_Some [OF fen] ep'(2) by auto
  obtain er where er: "epoch_of (?u d2) v = Some er" using ep'(3) f by (auto simp: epoch_of_def)
  note se' = set_epoch_Some [OF se er]
  have fr: "fencing_of (?u d2) v' = fencing_of d v'" for v' using ep'(2) f by (simp add: fencing_of_def epoch_of_def)
  show thesis
    using gw f l se' fr ep'(1) publishGrantTx_frame(1) [OF pub] publish_fencing [OF pub]
    by (intro that [of g]) auto
qed

section \<open>The invariant\<close>

text \<open>
  Epochs are non-negative \<open>BIGINT\<close>s; lease ids are unique; active leases have different vehicles
  and different operators; an active lease carries its vehicle's current epoch, and no lease a
  later one.
\<close>

definition lease_inv :: "db \<Rightarrow> bool" where
  "lease_inv d \<longleftrightarrow> (\<forall>v. 0 \<le> fencing_of d v \<and> fencing_of d v \<le> int64_max) \<and>
     distinct (map cl_id (control_leases d)) \<and>
     distinct (map cl_vehicle (filter active_row (control_leases d))) \<and>
     distinct (map cl_driver (filter active_row (control_leases d))) \<and>
     (\<forall>r \<in> set (control_leases d). 0 < cl_fencing r \<and> cl_fencing r \<le> fencing_of d (cl_vehicle r) \<and>
        (active_row r \<longrightarrow> cl_fencing r = fencing_of d (cl_vehicle r)))"

lemma filter_update_inactive:
  assumes "\<And>r. p r \<Longrightarrow> \<not> active_row (u r)"
  shows "filter active_row (update_where p u rs) = filter (\<lambda>r. active_row r \<and> \<not> p r) rs"
  using assms by (induction rs) (auto simp: update_where_def)

lemma filter_update_same:
  assumes "\<And>r. p r \<Longrightarrow> active_row (u r) = active_row r"
  shows "filter active_row (update_where p u rs) = update_where p u (filter active_row rs)"
  using assms by (induction rs) (auto simp: update_where_def)

text \<open>A fresh epoch is greater than the old one, or the addition wrapped and the database refused.\<close>

lemma wrap64_succ:
  assumes "0 \<le> f" "f \<le> int64_max" "0 \<le> wrap64 (f + 1)"
  shows "wrap64 (f + 1) = f + 1"
proof (cases "f = int64_max")
  case True
  have "wrap64 (int64_max + 1) < 0" by (simp add: wrap64_def int64_max_def)
  with True assms(3) show ?thesis by simp
next
  case False
  with assms show ?thesis by (intro wrap64_id) (auto simp: int64_min_def)
qed

lemma lease_inv_updates:
  assumes inv: "lease_inv d" and leases: "control_leases d' = update_where p u (control_leases d)"
    and keeps: "\<And>r. cl_id (u r) = cl_id r \<and> cl_vehicle (u r) = cl_vehicle r \<and> cl_driver (u r) = cl_driver r \<and> cl_fencing (u r) = cl_fencing r"
    and off: "\<And>r. p r \<Longrightarrow> \<not> active_row (u r)"
    and f: "\<And>v. fencing_of d v \<le> fencing_of d' v \<and> fencing_of d' v \<le> int64_max"
    and same: "\<And>r. r \<in> set (control_leases d) \<Longrightarrow> active_row r \<Longrightarrow> \<not> p r \<Longrightarrow> fencing_of d' (cl_vehicle r) = fencing_of d (cl_vehicle r)"
  shows "lease_inv d'"
proof -
  have act: "filter active_row (control_leases d') = filter (\<lambda>r. active_row r \<and> \<not> p r) (control_leases d)"
    unfolding leases by (rule filter_update_inactive) (rule off)
  have sub: "filter (\<lambda>r. active_row r \<and> \<not> p r) (control_leases d) = filter (\<lambda>r. \<not> p r) (filter active_row (control_leases d))"
    by (simp add: conj_commute)
  have "distinct (map cl_vehicle (filter active_row (control_leases d')))" "distinct (map cl_driver (filter active_row (control_leases d')))"
    unfolding act sub by (rule distinct_map_filter, use inv in \<open>simp add: lease_inv_def\<close>)+
  moreover have "distinct (map cl_id (control_leases d'))" using inv keeps by (simp add: lease_inv_def leases)
  moreover have "0 < cl_fencing q \<and> cl_fencing q \<le> fencing_of d' (cl_vehicle q) \<and> (active_row q \<longrightarrow> cl_fencing q = fencing_of d' (cl_vehicle q))"
    if q: "q \<in> set (control_leases d')" for q
  proof -
    from q obtain r where r: "r \<in> set (control_leases d)" "q = (if p r then u r else r)"
      by (auto simp: leases set_update_where)
    have k: "cl_fencing q = cl_fencing r" "cl_vehicle q = cl_vehicle r" using r(2) keeps by auto
    have "0 < cl_fencing r" "cl_fencing r \<le> fencing_of d (cl_vehicle r)" using inv r(1) by (auto simp: lease_inv_def)
    moreover have "active_row q \<Longrightarrow> active_row r \<and> \<not> p r" using r(2) off by (auto split: if_splits)
    moreover have "active_row r \<Longrightarrow> cl_fencing r = fencing_of d (cl_vehicle r)" using inv r(1) by (auto simp: lease_inv_def)
    ultimately show ?thesis using k f [of "cl_vehicle r"] same [OF r(1)] by auto
  qed
  moreover have "0 \<le> fencing_of d' v \<and> fencing_of d' v \<le> int64_max" for v
  proof -
    have "0 \<le> fencing_of d v" using inv by (simp add: lease_inv_def)
    with f [of v] show ?thesis by linarith
  qed
  ultimately show ?thesis by (auto simp: lease_inv_def)
qed

lemma expire_leases_inv: "lease_inv d \<Longrightarrow> lease_inv (expire_leases now v d)"
proof (rule lease_inv_updates)
  show "control_leases (expire_leases now v d) = update_where (\<lambda>r. cl_vehicle r = v \<and> cl_state r = ''active'' \<and> cl_valid_until r \<le> now)
     (\<lambda>r. r\<lparr>cl_state := ''expired'', cl_release_reason := ''expired''\<rparr>) (control_leases d)"
    by (simp add: expire_leases_def)
qed (auto simp: lease_inv_def active_row_def)

lemma request_inv:
  assumes inv: "lease_inv d" and out: "request_body w x a rd driver device v (d, fs) = (Inr lease, (d', fs'))"
  shows "lease_inv d' \<and> fencing_of d' v = fencing_of d v + 1"
  using out
proof (rule request_body_Inr)
  fix g
  let ?d0 = "expire_leases (rd_now rd) v d" and ?row = "lease_row_of x lease"
  assume l: "L_VehicleID lease = v" "L_DriverID lease = driver" "L_Fencing lease = wrap64 (fencing_of d v + 1)"
    and pos: "0 < L_Fencing lease" and new: "L_LeaseID lease \<notin> cl_id ` set (control_leases d)"
    and free: "\<And>r. r \<in> set (control_leases ?d0) \<Longrightarrow> active_row r \<Longrightarrow> cl_vehicle r \<noteq> v \<and> cl_driver r \<noteq> driver"
    and leases: "control_leases d' = control_leases ?d0 @ [?row]"
    and fv: "fencing_of d' v = L_Fencing lease" and fo: "\<And>v'. v' \<noteq> v \<Longrightarrow> fencing_of d' v' = fencing_of d v'"
  have inv0: "lease_inv ?d0" using inv by (rule expire_leases_inv)
  have bounds: "0 \<le> fencing_of d v'" "fencing_of d v' \<le> int64_max" for v' using inv by (auto simp: lease_inv_def)
  have succ: "L_Fencing lease = fencing_of d v + 1" using wrap64_succ [OF bounds] l(3) pos by simp
  have max: "L_Fencing lease \<le> int64_max" using l(3) wrap64_range by simp
  have row: "active_row ?row" "cl_vehicle ?row = v" "cl_driver ?row = driver" "cl_fencing ?row = L_Fencing lease" "cl_id ?row = L_LeaseID lease"
    using l by (auto simp: lease_row_of_def active_row_def)
  have ids: "map cl_id (control_leases ?d0) = map cl_id (control_leases d)" by (simp add: expire_leases_def)
  have "distinct (map cl_id (control_leases d'))"
    using inv new row(5) by (auto simp: leases ids lease_inv_def simp flip: set_map)
  moreover have unused: "v \<notin> cl_vehicle ` {r \<in> set (control_leases ?d0). active_row r}" "driver \<notin> cl_driver ` {r \<in> set (control_leases ?d0). active_row r}"
    using free by blast+
  moreover have "distinct (map cl_vehicle (filter active_row (control_leases d')))" "distinct (map cl_driver (filter active_row (control_leases d')))"
    using inv0 row unused by (simp_all add: leases lease_inv_def)
  moreover have "0 < cl_fencing r \<and> cl_fencing r \<le> fencing_of d' (cl_vehicle r) \<and> (active_row r \<longrightarrow> cl_fencing r = fencing_of d' (cl_vehicle r))"
    if "r \<in> set (control_leases d')" for r
  proof (cases "r = ?row")
    case True
    then show ?thesis using row pos fv by simp
  next
    case False
    then have r: "r \<in> set (control_leases ?d0)" using that by (simp add: leases)
    then have "0 < cl_fencing r" "cl_fencing r \<le> fencing_of d (cl_vehicle r)" "active_row r \<longrightarrow> cl_fencing r = fencing_of d (cl_vehicle r)"
      using inv0 by (auto simp: lease_inv_def)
    then show ?thesis using free [OF r] fo fv succ by (cases "cl_vehicle r = v") auto
  qed
  moreover have "0 \<le> fencing_of d' v' \<and> fencing_of d' v' \<le> int64_max" for v'
    using bounds fo fv pos max by (cases "v' = v") auto
  ultimately show "lease_inv d' \<and> fencing_of d' v = fencing_of d v + 1" using fv succ by (auto simp: lease_inv_def)
qed

lemma renew_inv:
  assumes inv: "lease_inv d" and out: "renew_body w x a rd lid driver device req (d, fs) = (Inr lease, (d', fs'))"
  shows "lease_inv d' \<and> fencing_of d' = fencing_of d"
  using out
proof (rule renew_body_Inr)
  let ?p = "\<lambda>r. cl_id r = lid \<and> active_row r" and ?u = "\<lambda>r. r\<lparr>cl_valid_until := x_ts x (rd_clock2 rd + da_leaseTTL a)\<rparr>"
  assume f: "fencing_of d' = fencing_of d" and eff: "renew_effect x a rd lid req lease d d'"
  have act: "filter active_row (update_where ?p ?u rs) = update_where ?p ?u (filter active_row rs)" for rs
    by (rule filter_update_same) (simp add: active_row_def)
  have rows: "0 < cl_fencing q \<and> cl_fencing q \<le> fencing_of d (cl_vehicle q) \<and> (active_row q \<longrightarrow> cl_fencing q = fencing_of d (cl_vehicle q))"
    if "q \<in> set (update_where ?p ?u (control_leases d))" for q
    using that inv by (auto simp: set_update_where lease_inv_def active_row_def)
  have "lease_inv d'" using eff inv f rows by (auto simp: lease_inv_def act renew_effect_def)
  then show "lease_inv d' \<and> fencing_of d' = fencing_of d" using f by simp
qed

lemma release_inv:
  assumes inv: "lease_inv d" and out: "release_body w x a rd lid driver device reason (d, fs) = (Inr lease, (d', fs'))"
  shows "lease_inv d' \<and> (\<forall>v. fencing_of d v \<le> fencing_of d' v) \<and> fencing_of d' (L_VehicleID lease) = fencing_of d (L_VehicleID lease) + 1"
  using out
proof (rule release_body_Inr)
  fix r
  let ?p = "\<lambda>r. cl_id r = lid \<and> active_row r"
  let ?u = "\<lambda>r. r\<lparr>cl_state := ''released'', cl_released_at := Some (rd_now rd), cl_release_reason := reason\<rparr>"
  assume r: "find_lease lid d = Some r" and l: "L_Fencing lease = wrap64 (fencing_of d (cl_vehicle r) + 1)" "0 \<le> L_Fencing lease"
    "L_VehicleID lease = cl_vehicle r" and n: "count_where ?p (control_leases d) = 1"
    and leases: "control_leases d' = update_where ?p ?u (control_leases d)"
    and fv: "fencing_of d' (cl_vehicle r) = L_Fencing lease" and fo: "\<And>v. v \<noteq> cl_vehicle r \<Longrightarrow> fencing_of d' v = fencing_of d v"
  have bounds: "0 \<le> fencing_of d v" "fencing_of d v \<le> int64_max" for v using inv by (auto simp: lease_inv_def)
  have succ: "L_Fencing lease = fencing_of d (cl_vehicle r) + 1" using wrap64_succ [OF bounds] l by simp
  have max: "L_Fencing lease \<le> int64_max" using l(1) wrap64_range by simp
  have mono: "fencing_of d v \<le> fencing_of d' v \<and> fencing_of d' v \<le> int64_max" for v
    using fo fv succ max bounds by (cases "v = cl_vehicle r") auto
  have r': "r \<in> set (control_leases d)" "cl_id r = lid" using r by (auto simp: find_lease_def find_Some_iff)
  from n have "filter ?p (control_leases d) \<noteq> []" by (auto simp: count_where_def)
  then obtain q where q: "q \<in> set (control_leases d)" "cl_id q = lid" "active_row q" by (auto simp: filter_empty_conv)
  have id_eq: "s = t" if "s \<in> set (control_leases d)" "t \<in> set (control_leases d)" "cl_id s = cl_id t" for s t
    using inv that by (auto simp: lease_inv_def distinct_map inj_on_def)
  have veh_eq: "s = t" if "s \<in> set (control_leases d)" "t \<in> set (control_leases d)" "active_row s" "active_row t" "cl_vehicle s = cl_vehicle t" for s t
    using inv that by (auto simp: lease_inv_def distinct_map inj_on_def)
  have "r = q" using id_eq r' q by simp
  then have same: "cl_vehicle s \<noteq> cl_vehicle r" if "s \<in> set (control_leases d)" "active_row s" "\<not> ?p s" for s
    using that veh_eq [of s r] q r' by auto
  have "lease_inv d'"
    by (rule lease_inv_updates [OF inv leases]) (use mono fo same in \<open>auto simp: active_row_def\<close>)
  then show "lease_inv d' \<and> (\<forall>v. fencing_of d v \<le> fencing_of d' v) \<and> fencing_of d' (L_VehicleID lease) = fencing_of d (L_VehicleID lease) + 1"
    using mono fv succ l(3) by simp
qed

lemma estop_inv:
  assumes inv: "lease_inv d" and out: "estop_body w x a rd v actor (d, fs) = (Inr lease, (d', fs'))"
  shows "lease_inv d' \<and> (\<forall>v'. fencing_of d v' \<le> fencing_of d' v') \<and> fencing_of d' v = fencing_of d v + 1"
  using out
proof (rule estop_body_Inr)
  let ?p = "\<lambda>r. cl_vehicle r = v \<and> active_row r"
  let ?u = "\<lambda>r. r\<lparr>cl_state := ''revoked'', cl_released_at := Some (rd_now rd), cl_release_reason := ''emergency_stop''\<rparr>"
  assume l: "L_Fencing lease = wrap64 (fencing_of d v + 1)" "0 \<le> L_Fencing lease"
    and leases: "control_leases d' = update_where ?p ?u (control_leases d)"
    and fv: "fencing_of d' v = L_Fencing lease" and fo: "\<And>v'. v' \<noteq> v \<Longrightarrow> fencing_of d' v' = fencing_of d v'"
  have bounds: "0 \<le> fencing_of d v" "fencing_of d v \<le> int64_max" for v using inv by (auto simp: lease_inv_def)
  have succ: "L_Fencing lease = fencing_of d v + 1" using wrap64_succ [OF bounds] l by simp
  have max: "L_Fencing lease \<le> int64_max" using l(1) wrap64_range by simp
  have mono: "fencing_of d v' \<le> fencing_of d' v' \<and> fencing_of d' v' \<le> int64_max" for v'
    using fo fv succ max bounds by (cases "v' = v") auto
  have "lease_inv d'"
    by (rule lease_inv_updates [OF inv leases]) (use mono fo in \<open>auto simp: active_row_def\<close>)
  then show "lease_inv d' \<and> (\<forall>v'. fencing_of d v' \<le> fencing_of d' v') \<and> fencing_of d' v = fencing_of d v + 1"
    using mono fv succ by simp
qed

section \<open>Runs\<close>

lemma finish_tx_db [simp]: "fst (fst (snd (finish_tx c b s out))) = fst (snd out)"
  by (auto simp: finish_tx_def split: prod.splits sum.splits)

lemma finish_tx_Inr [simp]: "fst (finish_tx c b s out) = fst out"
  by (auto simp: finish_tx_def split: prod.splits sum.splits)

abbreviation adb :: "astate \<Rightarrow> db" where "adb s \<equiv> fst (fst s)"

text \<open>An operation left the database alone, or its transaction's body succeeded.\<close>

lemma auth_out_cases:
  obtains (failed) e where "fst (auth_out w x a s op) = Inl e" "adb (auth_step w x a s op) = adb s"
  | (request) rd driver device v lease fs fs' where "op = OpRequest rd driver device v" "fst (auth_out w x a s op) = Inr lease"
      "request_body w x a rd (trim_space driver) (trim_space device) (trim_space v) (adb s, fs) = (Inr lease, (adb (auth_step w x a s op), fs'))"
  | (renew) rd lid driver device req lease fs fs' where "op = OpRenew rd lid driver device req" "fst (auth_out w x a s op) = Inr lease"
      "renew_body w x a rd lid driver device req (adb s, fs) = (Inr lease, (adb (auth_step w x a s op), fs'))"
  | (release) rd lid driver device reason lease fs fs' where "op = OpRelease rd lid driver device reason" "fst (auth_out w x a s op) = Inr lease"
      "release_body w x a rd lid driver device reason (adb s, fs) = (Inr lease, (adb (auth_step w x a s op), fs'))"
  | (estop) rd v actor lease fs fs' where "op = OpEstop rd v actor" "fst (auth_out w x a s op) = Inr lease"
      "estop_body w x a rd (trim_space v) actor (adb s, fs) = (Inr lease, (adb (auth_step w x a s op), fs'))"
proof -
  have tx: "fst (run_tx m (fst s)) = Inl e \<and> fst (snd (run_tx m (fst s))) = adb s \<or>
      (\<exists>l fs'. fst (run_tx m (fst s)) = Inr l \<and> m (adb s, tl (snd (fst s))) = (Inr l, (fst (snd (run_tx m (fst s))), fs')))"
    if "e = (case fst (run_tx m (fst s)) of Inl e \<Rightarrow> e | _ \<Rightarrow> SqlErr)" for m :: "(authority_error, ControlLease) tx" and e
    by (rule run_tx_cases [of m "adb s" "snd (fst s)"]) (use that in auto)
  show thesis
  proof (cases op)
    case (OpRequest rd driver device v)
    show thesis
    proof (cases "ready a \<and> trim_space driver \<noteq> [] \<and> trim_space device \<noteq> [] \<and> trim_space v \<noteq> []")
      case True
      with OpRequest tx [OF refl, of "request_body w x a rd (trim_space driver) (trim_space device) (trim_space v)"] failed request
      show thesis by (auto simp: auth_step_def Request_def Let_def)
    next
      case False
      with OpRequest failed show thesis by (cases "ready a") (auto simp: auth_step_def Request_def Let_def)
    qed
  next
    case (OpRenew rd lid driver device req)
    show thesis
    proof (cases "ready a \<and> \<not> length (trim_space req) < 16")
      case True
      with OpRenew tx [OF refl, of "renew_body w x a rd lid driver device req"] failed renew
      show thesis by (auto simp: auth_step_def Renew_def Let_def)
    next
      case False
      with OpRenew failed show thesis by (cases "ready a") (auto simp: auth_step_def Renew_def Let_def)
    qed
  next
    case (OpRelease rd lid driver device reason)
    show thesis
    proof (cases "ready a")
      case True
      with OpRelease tx [OF refl, of "release_body w x a rd lid driver device reason"] failed release
      show thesis by (auto simp: auth_step_def Release_def Let_def)
    next
      case False
      with OpRelease failed show thesis by (cases "ready a") (auto simp: auth_step_def Release_def Let_def)
    qed
  next
    case (OpEstop rd v actor)
    show thesis
    proof (cases "ready a \<and> trim_space v \<noteq> [] \<and> trim_space actor \<noteq> []")
      case True
      with OpEstop tx [OF refl, of "estop_body w x a rd (trim_space v) actor"] failed estop
      show thesis by (auto simp: auth_step_def EmergencyStop_def Let_def)
    next
      case False
      with OpEstop failed show thesis by (cases "ready a") (auto simp: auth_step_def EmergencyStop_def Let_def)
    qed
  qed
qed

lemma auth_step_inv:
  assumes "lease_inv (adb s)"
  shows "lease_inv (adb (auth_step w x a s op)) \<and> (\<forall>v. fencing_of (adb s) v \<le> fencing_of (adb (auth_step w x a s op)) v)"
proof (rule auth_out_cases [of w x a s op])
  fix rd driver device v lease fs fs'
  assume b: "request_body w x a rd (trim_space driver) (trim_space device) (trim_space v) (adb s, fs) = (Inr lease, (adb (auth_step w x a s op), fs'))"
  have "fencing_of (adb s) v' \<le> fencing_of (adb (auth_step w x a s op)) v'" for v'
    using b by (rule request_body_Inr) (use request_inv [OF assms b] in \<open>cases "v' = trim_space v"; simp\<close>)
  then show ?thesis using request_inv [OF assms b] by blast
qed (use assms renew_inv [OF assms] release_inv [OF assms] estop_inv [OF assms] in \<open>auto\<close>)

interpretation auth_machine: guarded_epoch_machine "auth_step w x a" "\<lambda>s. lease_inv (adb s)" "\<lambda>s. fencing_of (adb s) v" for w x a v
  by unfold_locales (use auth_step_inv in blast)+

lemma insertOutbox_key:
  "insertOutbox now i k ty ai g c p (d, fs) = (Inr u, (d', fs')) \<Longrightarrow> k \<in> ob_dedupe_key ` set (platform_outbox d')"
  by (auto simp: insertOutbox_def new_outbox_row_def split: if_splits)

lemma publishGrantTx_queued:
  assumes "publishGrantTx w x a rd l verb (d, fs) = (Inr u, (d', fs'))"
  shows "\<exists>env b. signed_grant_envelope w a (rd_publish rd) (rd_mono rd) l verb = Inr env \<and> marshal_env w env = Some b \<and>
    dedupe_key x ''control_lease'' (L_LeaseID l) (L_GatewayID l) ''lease'' b \<in> ob_dedupe_key ` set (platform_outbox d')"
  using assms insertOutbox_key
  by (fastforce simp: publishGrantTx_def enqueueOutboxTx_def split: sum.splits option.splits if_splits)

lemma estop_body_queued:
  assumes "estop_body w x a rd v actor (d, fs) = (Inr lease, (d', fs'))"
  shows "\<exists>f' f'' d0. publishGrantTx w x a rd lease VerbRevoke (d0, f') = (Inr (), (d', f''))"
  using assms by (auto simp: estop_body_def Let_def split: option.splits) blast

lemma request_body_queued:
  assumes "request_body w x a rd driver device v (d, fs) = (Inr lease, (d', fs'))"
  shows "\<exists>f' f'' d0. publishGrantTx w x a rd lease VerbGrant (d0, f') = (Inr (), (d', f''))"
proof -
  obtain g where "active_gateway (rd_now rd) v d = Some g"
    using assms by (auto simp: request_body_def split: option.splits)
  with assms show ?thesis by (auto simp: request_body_def Let_def split: option.splits) blast+
qed

lemma find_fencing:
  assumes "map (\<lambda>r. (cl_id r, cl_fencing r)) (control_leases d') = map (\<lambda>r. (cl_id r, cl_fencing r)) (control_leases d)"
    and "find_lease i d' = Some r'" and "find_lease i d = Some r"
  shows "cl_fencing r' = cl_fencing r"
proof -
  have "\<And>rs'. map (\<lambda>r. (cl_id r, cl_fencing r)) rs' = map (\<lambda>r. (cl_id r, cl_fencing r)) rs \<Longrightarrow>
      map_option cl_fencing (find (\<lambda>r. cl_id r = i) rs') = map_option cl_fencing (find (\<lambda>r. cl_id r = i) rs)" for rs
  proof (induction rs)
    case (Cons r rs)
    then obtain q qs where "rs' = q # qs" by (cases rs') auto
    with Cons show ?case by auto
  qed simp
  from this [OF assms(1)] show ?thesis using assms(2,3) by (simp add: find_lease_def)
qed

lemma renew_known:
  assumes "renew_effect x a rd lid req lease d d'"
  shows "\<exists>n \<in> set (control_lease_renewals d'). rn_lease n = lid \<and> rn_request n = req"
    and "map (\<lambda>r. (cl_id r, cl_fencing r)) (control_leases d') = map (\<lambda>r. (cl_id r, cl_fencing r)) (control_leases d)"
  using assms by (auto simp: renew_effect_def)

lemma Request_body:
  assumes "Request w x a rd driver device v s = (Inr lease, s')"
  shows "\<exists>fs fs'. request_body w x a rd (trim_space driver) (trim_space device) (trim_space v) (adb s, fs) = (Inr lease, (adb s', fs'))"
  by (rule auth_out_cases [of w x a s "OpRequest rd driver device v"]) (use assms in \<open>auto simp: auth_step_def\<close>)

lemma Renew_body:
  assumes "Renew w x a rd lid driver device req s = (Inr lease, s')"
  shows "\<exists>fs fs'. renew_body w x a rd lid driver device req (adb s, fs) = (Inr lease, (adb s', fs'))"
  by (rule auth_out_cases [of w x a s "OpRenew rd lid driver device req"]) (use assms in \<open>auto simp: auth_step_def\<close>)

lemma EmergencyStop_body:
  assumes "EmergencyStop w x a rd v actor s = (Inr lease, s')"
  shows "\<exists>fs fs'. estop_body w x a rd (trim_space v) actor (adb s, fs) = (Inr lease, (adb s', fs'))"
  by (rule auth_out_cases [of w x a s "OpEstop rd v actor"]) (use assms in \<open>auto simp: auth_step_def\<close>)

section \<open>A concrete authority\<close>

definition demo_signer :: leaseSigner where
  "demo_signer = \<lparr>ls_private = replicate 64 3, ls_keyID = ''k1''\<rparr>"

definition demo_authority :: DurableAuthority where
  "demo_authority = NewDurableAuthority (Some demo_signer) (replicate 32 9) 0 0"

definition plain_wire :: wire where
  "plain_wire = \<lparr>marshal_env = (\<lambda>_. Some [1]), unmarshal_env = (\<lambda>_. None), marshal_cmd = (\<lambda>_. Some [1]), unmarshal_cmd = (\<lambda>_. None),
     marshal_grant = (\<lambda>_. Some [1]), unmarshal_grant = (\<lambda>_. None), hmac_sha256 = (\<lambda>_ _. replicate 32 5),
     ed25519_sign = (\<lambda>_ _. replicate 64 4), ed25519_verify = (\<lambda>_ _ _. True), ed25519_public = (\<lambda>_. replicate 32 7)\<rparr>"

definition demo_control_db :: db where
  "demo_control_db = demo_activated
     \<lparr>vehicle_states := [plain_state_row ''v1'' True 0],
      vehicle_capabilities := [capability_row_of 0 ''g1'' demo_caps
        \<lparr>cd_MatrixEntry = ''ros1-noetic-platform-v1'', cd_MonitoringAllowed = True, cd_ControlAllowed = True, cd_ControlReason = ReasonComplete\<rparr> []]\<rparr>"

definition demo_readings :: "int \<Rightarrow> string \<Rightarrow> readings" where
  "demo_readings t r = \<lparr>rd_now = t, rd_live = t, rd_clock = t, rd_clock2 = t, rd_publish = t, rd_mono = 1, rd_rand = Some r, rd_out = Some r\<rparr>"

definition demo_astate :: astate where
  "demo_astate = ((demo_control_db, []), no_takeover)"

definition demo_lease :: ControlLease where
  "demo_lease = \<lparr>L_LeaseID = ''lease-a'', L_VehicleID = ''v1'', L_GatewayID = ''g1'', L_DriverID = ''alice'', L_DeviceID = ''dev'',
     L_Fencing = 1, L_IssuedAt = 2 * second, L_ValidUntil = 47 * second\<rparr>"

definition demo_leased :: astate where
  "demo_leased = snd (Request plain_wire demo_ext demo_authority (demo_readings (2 * second) ''a'') ''alice'' ''dev'' ''v1'' demo_astate)"

lemma demo_requests:
  "Request plain_wire demo_ext demo_authority (demo_readings (2 * second) ''a'') ''alice'' ''dev'' ''v1'' demo_astate = (Inr demo_lease, demo_leased)"
proof -
  have "fst (Request plain_wire demo_ext demo_authority (demo_readings (2 * second) ''a'') ''alice'' ''dev'' ''v1'' demo_astate) = Inr demo_lease"
    by code_simp
  then show ?thesis unfolding demo_leased_def by (metis prod.collapse)
qed

lemma demo_lease_inv: "lease_inv (adb demo_astate)"
proof -
  have e: "vehicle_control_epochs (adb demo_astate) = []" and l: "control_leases (adb demo_astate) = []" by code_simp+
  have "fencing_of (adb demo_astate) v = 0" for v by (simp add: fencing_of_def epoch_of_def e)
  then show ?thesis by (simp add: lease_inv_def l int64_max_def)
qed

section \<open>Properties\<close>

text \<open>
  C2. One driver per vehicle and one vehicle per driver: from a consistent database, after any
  sequence of requests, renewals, releases and emergency stops, whatever statements fail, no two
  active leases name the same vehicle or the same operator, and every active lease carries the
  current fencing epoch of its vehicle.
\<close>

theorem authority_mutual_exclusion:
  assumes "lease_inv (adb s)" and "d = adb (run (auth_step w x a) s ops)"
  shows "distinct (map cl_vehicle (filter (\<lambda>r. cl_state r = ''active'') (control_leases d))) \<and>
    distinct (map cl_driver (filter (\<lambda>r. cl_state r = ''active'') (control_leases d))) \<and>
    (\<forall>r \<in> set (control_leases d). cl_state r = ''active'' \<longrightarrow> cl_fencing r = fencing_of d (cl_vehicle r))"
proof -
  have "lease_inv d" using auth_machine.run_inv [OF assms(1)] assms(2) by simp
  then show ?thesis unfolding lease_inv_def active_row_def by blast
qed

theorem authority_mutual_exclusion_witness:
  "distinct (map cl_vehicle (filter (\<lambda>r. cl_state r = ''active'') (control_leases (adb (run (auth_step plain_wire demo_ext demo_authority) demo_astate
     [OpRequest (demo_readings (2 * second) ''a'') ''alice'' ''dev'' ''v1'', OpRequest (demo_readings (3 * second) ''b'') ''bob'' ''dev'' ''v1''])))))"
  using authority_mutual_exclusion [OF demo_lease_inv refl] by blast

text \<open>
  C4. Fencing tokens grow and are never reused: if a request, release or emergency stop for a
  vehicle succeeded with some token, then, whatever operations follow, every later successful one
  for that vehicle carries a strictly greater token. At the end of the 64-bit range the database
  refuses instead of wrapping.
\<close>

theorem fencing_never_reused:
  assumes "lease_inv (adb s)" and "fst (auth_out w x a s op1) = Inr l1" and "\<nexists>rd i dr de rq. op1 = OpRenew rd i dr de rq"
    and "t = run (auth_step w x a) (auth_step w x a s op1) ops"
    and "fst (auth_out w x a t op2) = Inr l2" and "\<nexists>rd i dr de rq. op2 = OpRenew rd i dr de rq"
    and "L_VehicleID l1 = L_VehicleID l2"
  shows "L_Fencing l1 < L_Fencing l2"
proof -
  have token: "L_Fencing l = fencing_of (adb s) (L_VehicleID l) + 1 \<and> fencing_of (adb (auth_step w x a s op)) (L_VehicleID l) = L_Fencing l"
    if inv: "lease_inv (adb s)" and out: "fst (auth_out w x a s op) = Inr l" and nr: "\<nexists>rd i dr de rq. op = OpRenew rd i dr de rq" for s op l
  proof (rule auth_out_cases [of w x a s op])
    fix rd driver device v lease fs fs'
    assume "fst (auth_out w x a s op) = Inr lease"
      and b: "request_body w x a rd (trim_space driver) (trim_space device) (trim_space v) (adb s, fs) = (Inr lease, (adb (auth_step w x a s op), fs'))"
    with out have "lease = l" by simp
    with b show ?thesis using request_inv [OF inv b] by (auto elim: request_body_Inr)
  next
    fix rd lid driver device reason lease fs fs'
    assume "fst (auth_out w x a s op) = Inr lease"
      and b: "release_body w x a rd lid driver device reason (adb s, fs) = (Inr lease, (adb (auth_step w x a s op), fs'))"
    with out have "lease = l" by simp
    with b show ?thesis using release_inv [OF inv b] by (auto elim: release_body_Inr)
  next
    fix rd v actor lease fs fs'
    assume "fst (auth_out w x a s op) = Inr lease"
      and b: "estop_body w x a rd (trim_space v) actor (adb s, fs) = (Inr lease, (adb (auth_step w x a s op), fs'))"
    with out have "lease = l" by simp
    with b show ?thesis using estop_inv [OF inv b] by (auto elim: estop_body_Inr)
  qed (use out nr in auto)
  have inv1: "lease_inv (adb (auth_step w x a s op1))" using auth_step_inv [OF assms(1)] by blast
  have inv2: "lease_inv (adb t)" unfolding assms(4) by (rule auth_machine.run_inv [OF inv1])
  have "L_Fencing l1 \<le> fencing_of (adb t) (L_VehicleID l1)"
    using token [OF assms(1-3)] auth_machine.run_epoch_inv [OF inv1, where es = ops and v = "L_VehicleID l1"] assms(4) by simp
  then show ?thesis using token [OF inv2 assms(5,6)] assms(7) by simp
qed

theorem fencing_never_reused_witness:
  "\<exists>l. fst (auth_out plain_wire demo_ext demo_authority demo_leased (OpEstop (demo_readings (4 * second) ''b'') ''v1'' ''root'')) = Inr l \<and>
     L_Fencing demo_lease < L_Fencing l"
proof -
  let ?op1 = "OpRequest (demo_readings (2 * second) ''a'') ''alice'' ''dev'' ''v1''" and ?op2 = "OpEstop (demo_readings (4 * second) ''b'') ''v1'' ''root''"
  obtain l where l: "fst (auth_out plain_wire demo_ext demo_authority demo_leased ?op2) = Inr l" and v: "L_VehicleID l = ''v1''"
  proof -
    have "(case fst (auth_out plain_wire demo_ext demo_authority demo_leased ?op2) of Inl _ \<Rightarrow> False | Inr l \<Rightarrow> L_VehicleID l = ''v1'')" by code_simp
    then show thesis using that by (auto split: sum.splits)
  qed
  have o1: "fst (auth_out plain_wire demo_ext demo_authority demo_astate ?op1) = Inr demo_lease" by (simp add: demo_requests)
  have t: "demo_leased = run (auth_step plain_wire demo_ext demo_authority) (auth_step plain_wire demo_ext demo_authority demo_astate ?op1) []"
    by (simp add: auth_step_def demo_requests)
  have "L_Fencing demo_lease < L_Fencing l"
    by (rule fencing_never_reused [OF demo_lease_inv o1 _ t l]) (simp_all add: demo_lease_def v)
  with l show ?thesis by blast
qed

text \<open>
  C8. A lease is granted only for a vehicle that may be controlled, and together with its grant: a
  successful request found an active Gateway with a valid certificate, control admitted for it,
  telemetry of the last six seconds and a controllable lifecycle; no other active lease on the
  vehicle is still valid; and in the same transaction the signed grant for exactly this lease
  entered the outbox.
\<close>

theorem request_admission:
  assumes "Request w x a rd driver device v s = (Inr lease, s')"
  shows "\<exists>g cap lc upd env b gw. gw \<in> set (vehicle_gateways (adb s)) \<and> gw_gateway_id gw = g \<and> gw_vehicle_id gw = trim_space v \<and>
      gw_status gw = ''active'' \<and> rd_now rd < gw_not_after gw \<and>
      capability_of (adb s) (trim_space v) g = Some cap \<and> vc_control_allowed cap \<and>
      live_row (adb s) (trim_space v) = Some (lc, True, upd) \<and> lc \<notin> {''quarantined'', ''retired'', ''maintenance''} \<and>
      sat64 (rd_live rd - upd) \<le> 6 * second \<and>
      (\<forall>r \<in> set (control_leases (adb s)). cl_vehicle r = trim_space v \<and> cl_state r = ''active'' \<longrightarrow> cl_valid_until r \<le> rd_now rd) \<and>
      signed_grant_envelope w a (rd_publish rd) (rd_mono rd) lease VerbGrant = Inr env \<and> marshal_env w env = Some b \<and>
      dedupe_key x ''control_lease'' (L_LeaseID lease) g ''lease'' b \<in> ob_dedupe_key ` set (platform_outbox (adb s'))"
proof -
  let ?v = "trim_space v"
  obtain fs fs' where b: "request_body w x a rd (trim_space driver) (trim_space device) ?v (adb s, fs) = (Inr lease, (adb s', fs'))"
    using Request_body [OF assms] by blast
  from request_body_queued [OF b] publishGrantTx_queued obtain env pb where
    pub: "signed_grant_envelope w a (rd_publish rd) (rd_mono rd) lease VerbGrant = Inr env" "marshal_env w env = Some pb"
      "dedupe_key x ''control_lease'' (L_LeaseID lease) (L_GatewayID lease) ''lease'' pb \<in> ob_dedupe_key ` set (platform_outbox (adb s'))"
    by blast
  show ?thesis using b
  proof (rule request_body_Inr)
    fix g
    assume g: "active_gateway (rd_now rd) ?v (adb s) = Some g" "L_GatewayID lease = g"
      and live: "\<exists>lc upd. live_row (adb s) ?v = Some (lc, True, upd) \<and> lc \<notin> {''quarantined'', ''retired'', ''maintenance''} \<and>
         sat64 (rd_live rd - upd) \<le> onlineWindowS * second"
      and cap: "\<exists>r. capability_of (adb s) ?v g = Some r \<and> vc_control_allowed r"
      and free: "\<And>r. r \<in> set (control_leases (expire_leases (rd_now rd) ?v (adb s))) \<Longrightarrow> active_row r \<Longrightarrow> cl_vehicle r \<noteq> ?v \<and> cl_driver r \<noteq> trim_space driver"
    from g(1) obtain gw where "gw \<in> set (vehicle_gateways (adb s))" "gw_gateway_id gw = g" "gw_vehicle_id gw = ?v"
      "gw_status gw = ''active''" "rd_now rd < gw_not_after gw"
      by (auto simp: active_gateway_def dest!: first_row_Some)
    moreover have "cl_valid_until r \<le> rd_now rd" if "r \<in> set (control_leases (adb s))" "cl_vehicle r = ?v" "cl_state r = ''active''" for r
      using free [of r] that by (force simp: expire_leases_def set_update_where active_row_def)
    moreover from live obtain lc upd where "live_row (adb s) ?v = Some (lc, True, upd)" "lc \<notin> {''quarantined'', ''retired'', ''maintenance''}"
      "sat64 (rd_live rd - upd) \<le> 6 * second" unfolding onlineWindowS_def by blast
    moreover from cap obtain c where "capability_of (adb s) ?v g = Some c" "vc_control_allowed c" by blast
    ultimately show ?thesis using pub g(2)
      by (intro exI [of _ g] exI [of _ c] exI [of _ lc] exI [of _ upd] exI [of _ env] exI [of _ pb] exI [of _ gw] conjI) simp_all
  qed
qed

theorem request_admission_witness:
  "\<exists>g cap. capability_of (adb demo_astate) (trim_space ''v1'') g = Some cap \<and> vc_control_allowed cap"
  using request_admission [OF demo_requests] by (elim exE conjE) (intro exI conjI)



text \<open>
  Renewal is idempotent: when a renewal with some request id succeeded, a second one with the
  same request id that succeeds changes no lease and answers the end that was stored for the first,
  whatever the clock says then.
\<close>

theorem renew_idempotent:
  assumes "Renew w x a rd lid driver device req s = (Inr l1, s1)" and "Renew w x a rd2 lid driver device req s1 = (Inr l2, s2)"
  shows "control_leases (adb s2) = control_leases (adb s1) \<and> L_Fencing l2 = L_Fencing l1 \<and>
    (\<exists>n \<in> set (control_lease_renewals (adb s1)). rn_lease n = lid \<and> rn_request n = req \<and> L_ValidUntil l2 = rn_valid_until n)"
proof -
  obtain fs fs' where b1: "renew_body w x a rd lid driver device req (adb s, fs) = (Inr l1, (adb s1, fs'))"
    using Renew_body [OF assms(1)] by blast
  obtain gs gs' where b2: "renew_body w x a rd2 lid driver device req (adb s1, gs) = (Inr l2, (adb s2, gs'))"
    using Renew_body [OF assms(2)] by blast
  from b1 obtain r1 where r1: "find_lease lid (adb s) = Some r1" "L_Fencing l1 = cl_fencing r1"
    and e1: "renew_effect x a rd lid req l1 (adb s) (adb s1)" by (rule renew_body_Inr)
  from b2 obtain r2 where r2: "find_lease lid (adb s1) = Some r2" "L_Fencing l2 = cl_fencing r2"
    and e2: "renew_effect x a rd2 lid req l2 (adb s1) (adb s2)" by (rule renew_body_Inr)
  have "find (\<lambda>n. rn_lease n = lid \<and> rn_request n = req) (control_lease_renewals (adb s1)) \<noteq> None"
    using renew_known(1) [OF e1] by (auto simp: find_None_iff)
  moreover have "L_Fencing l2 = L_Fencing l1" using find_fencing [OF renew_known(2) [OF e1] r2(1) r1(1)] r1 r2 by simp
  ultimately show ?thesis using e2 unfolding renew_effect_def by (elim disjE) simp_all
qed

definition demo_renew :: "int \<Rightarrow> astate \<Rightarrow> (authority_error tx_error + ControlLease) \<times> astate" where
  "demo_renew t = Renew plain_wire demo_ext demo_authority (demo_readings t ''c'') ''lease-a'' ''alice'' ''dev'' ''0123456789abcdef''"

lemma demo_renew_Inr:
  assumes "\<not> isl (fst (demo_renew t s))"
  shows "\<exists>l. demo_renew t s = (Inr l, snd (demo_renew t s))"
  using assms by (metis prod.collapse sum.collapse(2))

text \<open>
  An expired lease that nobody swept locks its operator out: while a lease of an operator on
  one vehicle is still marked active in the table, even if its time is long over, no request of
  that operator for another vehicle succeeds. The transaction checks only for a valid lease, but
  the unique index on active leases refuses the insertion, and the sweep covers only the requested
  vehicle.
\<close>

theorem stale_lease_locks_out_driver:
  assumes "r \<in> set (control_leases (adb s))" and "cl_state r = ''active''" and "cl_driver r = trim_space driver"
    and "cl_vehicle r \<noteq> trim_space v"
  shows "\<exists>e. fst (Request w x a rd driver device v s) = Inl e"
proof (rule auth_out_cases [of w x a s "OpRequest rd driver device v"])
  fix rd' driver' device' v' lease fs fs'
  assume op: "OpRequest rd driver device v = OpRequest rd' driver' device' v'"
    and b: "request_body w x a rd' (trim_space driver') (trim_space device') (trim_space v') (adb s, fs) =
      (Inr lease, (adb (auth_step w x a s (OpRequest rd driver device v)), fs'))"
  have "r \<in> set (control_leases (expire_leases (rd_now rd) (trim_space v) (adb s)))"
    using assms(1,4) by (force simp: expire_leases_def set_update_where)
  with b op assms show ?thesis by (auto simp: active_row_def elim!: request_body_Inr)
qed auto

text \<open>A later database of the same operator, with a second vehicle.\<close>

text \<open>
  An emergency stop needs an active Gateway: after the only Gateway of a vehicle was revoked,
  an emergency stop of that vehicle fails and changes nothing, although a lease on the vehicle may
  still be active.
\<close>

theorem estop_after_revocation_fails:
  assumes "Revoke now (trim_space v) g actor reason (d, fs) = (Inr (), (d1, fs1))"
    and "\<forall>r \<in> set (vehicle_gateways d). gw_vehicle_id r = trim_space v \<longrightarrow> gw_gateway_id r = g"
  shows "\<exists>e. fst (EmergencyStop w x a rd v actor2 ((d1, gs), tk)) = Inl e \<and> control_leases d1 = control_leases d"
proof -
  from assms(1) have "run_tx (revoke_body now (trim_space v) g actor reason) (d, fs) = (Inr (), (d1, fs1))"
    by (auto simp: Revoke_def split: if_splits)
  then obtain hs where rv: "revoke_body now (trim_space v) g actor reason (d, tl fs) = (Inr (), (d1, hs))" by (rule run_tx_Inr)
  have "filter (\<lambda>r. gw_vehicle_id r = trim_space v \<and> gw_status r = ''active'' \<and> gw_not_after r > t) (vehicle_gateways d1) = []" for t
    using assms(2) by (auto simp: revoke_body_Inr(1) [OF rv] filter_empty_conv update_where_def)
  then have none: "active_gateway t (trim_space v) d1 = None" for t by (simp add: active_gateway_def first_row_None)
  have "\<exists>e. fst (EmergencyStop w x a rd v actor2 ((d1, gs), tk)) = Inl e"
  proof (rule auth_out_cases [of w x a "((d1, gs), tk)" "OpEstop rd v actor2"])
    fix rd' v' actor' lease fs2 fs2'
    assume "OpEstop rd v actor2 = OpEstop rd' v' actor'"
      and "estop_body w x a rd' (trim_space v') actor' (adb ((d1, gs), tk), fs2) = (Inr lease, (adb (auth_step w x a ((d1, gs), tk) (OpEstop rd v actor2)), fs2'))"
    then show ?thesis using none by (auto elim!: estop_body_Inr)
  qed auto
  then show ?thesis using revoke_body_Inr(6) [OF rv] by simp
qed

theorem estop_after_revocation_fails_witness:
  "\<exists>e. fst (EmergencyStop plain_wire demo_ext demo_authority (demo_readings (4 * second) ''b'') ''v1'' ''root''
     ((fst (snd (Revoke 0 ''v1'' ''g1'' ''root'' ''lost'' (adb demo_leased, []))), []), no_takeover)) = Inl e"
proof -
  have t: "trim_space ''v1'' = ''v1''" by code_simp
  have "fst (Revoke 0 ''v1'' ''g1'' ''root'' ''lost'' (adb demo_leased, [])) = Inr ()" by code_simp
  then have r: "Revoke 0 (trim_space ''v1'') ''g1'' ''root'' ''lost'' (adb demo_leased, []) =
    (Inr (), (fst (snd (Revoke 0 ''v1'' ''g1'' ''root'' ''lost'' (adb demo_leased, []))), snd (snd (Revoke 0 ''v1'' ''g1'' ''root'' ''lost'' (adb demo_leased, [])))))"
    unfolding t by (metis prod.collapse)
  have "\<forall>r \<in> set (vehicle_gateways (adb demo_leased)). gw_vehicle_id r = trim_space ''v1'' \<longrightarrow> gw_gateway_id r = ''g1''" by code_simp
  from estop_after_revocation_fails [OF r this] show ?thesis by blast
qed

end
