(* ===== verification/Fleet_State.thy ===== *)
theory Fleet_State
  imports Registry "HOL-Library.List_Lexorder" "HOL-Library.Char_ord"
begin

text \<open>
  \<open>server/fleet/state.go\<close> and \<open>state_ext.go\<close>: the live state of the fleet. The process keeps a
  projection per vehicle, a ring of events and a bounded queue of database writes; telemetry is
  projected and stored in one transaction with its sequence number. An operation takes the
  process state together with the database; clock readings are arguments. \<open>fl\<close> is the rounding of
  an exact result to the nearest \<open>float64\<close> that the hardware performs.
\<close>

section \<open>State\<close>

definition sampleEveryS :: int where "sampleEveryS = 1"
definition speedHistCap :: nat where "speedHistCap = 150"
definition eventRingCap :: nat where "eventRingCap = 200"
definition dbQueueCap :: nat where "dbQueueCap = 256"

record signalVal =
  sg_Path :: string
  sg_Num :: "float64 option"
  sg_Text :: "string option"
  sg_SampleAt :: gotime

record vehicleState =
  ve_id :: string
  ve_gatewayID :: string
  ve_group :: string
  ve_chassis :: string
  ve_online :: bool
  ve_lastSeen :: gotime
  ve_mode :: string
  ve_speedMPS :: float64
  ve_soc :: float64
  ve_voltage :: float64
  ve_gear :: string
  ve_steerRad :: float64
  ve_wheelSpeeds :: "float64 list"
  ve_speedHist :: "float64 list"
  ve_throttleHist :: "float64 list"
  ve_brakeHist :: "float64 list"
  ve_throttlePct :: float64
  ve_brakePct :: float64
  ve_accelMps2 :: float64
  ve_accelHist :: "float64 list"
  ve_cabinTempC :: float64
  ve_cabinHumidity :: float64
  ve_gpsFix :: bool
  ve_gpsLat :: float64
  ve_gpsLon :: float64
  ve_gpsAlt :: float64
  ve_poseValid :: bool
  ve_poseValiditySet :: bool
  ve_poseXSeen :: bool
  ve_poseYSeen :: bool
  ve_poseYawSeen :: bool
  ve_poseFrame :: string
  ve_poseX :: float64
  ve_poseY :: float64
  ve_poseYaw :: float64
  ve_capabilities :: "(string \<times> string) list"
  ve_lastSampleAt :: gotime

text \<open>A new vehicle has the zero value in every field but its id.\<close>

definition new_vehicle :: "string \<Rightarrow> vehicleState" where
  "new_vehicle i =
    \<lparr>ve_id = i, ve_gatewayID = [], ve_group = [], ve_chassis = [], ve_online = False, ve_lastSeen = time_zero,
     ve_mode = [], ve_speedMPS = Fin 0, ve_soc = Fin 0, ve_voltage = Fin 0, ve_gear = [], ve_steerRad = Fin 0,
     ve_wheelSpeeds = [Fin 0, Fin 0, Fin 0, Fin 0], ve_speedHist = [], ve_throttleHist = [], ve_brakeHist = [],
     ve_throttlePct = Fin 0, ve_brakePct = Fin 0, ve_accelMps2 = Fin 0, ve_accelHist = [], ve_cabinTempC = Fin 0,
     ve_cabinHumidity = Fin 0, ve_gpsFix = False, ve_gpsLat = Fin 0, ve_gpsLon = Fin 0, ve_gpsAlt = Fin 0,
     ve_poseValid = False, ve_poseValiditySet = False, ve_poseXSeen = False, ve_poseYSeen = False,
     ve_poseYawSeen = False, ve_poseFrame = [], ve_poseX = Fin 0, ve_poseY = Fin 0, ve_poseYaw = Fin 0,
     ve_capabilities = [], ve_lastSampleAt = time_zero\<rparr>"

record EventSnap =
  ev_TsNS :: int
  ev_Level :: string
  ev_Kind :: string
  ev_VehicleID :: string
  ev_Text :: event_text

text \<open>A queued database write, with what its closure captured.\<close>

datatype dbJob =
    JobEvent event_row
  | JobRegister string string string string string
  | JobOffline string
  | JobSamples "sample_row list"
  | JobVehicleState string bool vehicle_state_row
  | JobRetention
  | JobTouchKey string int

text \<open>\<open>navStore\<close> is the table of routes the process keeps; see the theory of navigation.\<close>

record State =
  st_vehicles :: "(string \<times> vehicleState) list"
  st_events :: "EventSnap list"
  st_dbCh :: "dbJob list"
  st_envelopeAuthKey :: bytes
  st_outboundSessionID :: string
  st_outboundSeq :: "(string \<times> u64) list"
  st_navStore :: "(string \<times> route_row) list"

type_synonym world = "State \<times> txs"

definition newOutboundSessionID :: "string option \<Rightarrow> string" where
  "newOutboundSessionID rnd = (case rnd of None \<Rightarrow> [] | Some h \<Rightarrow> ''fleet-navigation-'' @ h)"

definition NewState :: "bytes \<Rightarrow> string option \<Rightarrow> State" where
  "NewState key rnd = \<lparr>st_vehicles = [], st_events = [], st_dbCh = [], st_envelopeAuthKey = key,
     st_outboundSessionID = newOutboundSessionID rnd, st_outboundSeq = [], st_navStore = []\<rparr>"

section \<open>Queued writes\<close>

definition nullable :: "string \<Rightarrow> string option" where
  "nullable s = (if s = [] then None else Some s)"

definition nullableFloat :: "float64 \<Rightarrow> bool \<Rightarrow> float64 option" where
  "nullableFloat value valid = (if valid then Some value else None)"

definition nonempty_or :: "string \<Rightarrow> string \<Rightarrow> string" where
  "nonempty_or a b = (if a = [] then b else a)"

definition frozen_lifecycle :: "string \<Rightarrow> bool" where
  "frozen_lifecycle l \<longleftrightarrow> l \<in> {''quarantined'', ''retired'', ''maintenance''}"

definition upsert_registered :: "int \<Rightarrow> string \<Rightarrow> string \<Rightarrow> string \<Rightarrow> string \<Rightarrow> string \<Rightarrow> db \<Rightarrow> db" where
  "upsert_registered now i g stack grp chassis d =
    (if vehicle_exists d i then
       d\<lparr>vehicles := update_where (\<lambda>r. v_id r = i)
          (\<lambda>r. r\<lparr>v_gateway_id := g, v_stack := stack, v_last_seen := Some now,
                 v_group := nonempty_or grp (v_group r), v_chassis := nonempty_or chassis (v_chassis r)\<rparr>) (vehicles d)\<rparr>
     else d\<lparr>vehicles := vehicles d @ [\<lparr>v_id = i, v_gateway_id = g, v_stack = stack, v_lifecycle = ''registered'',
            v_last_seen = Some now, v_group = grp, v_chassis = chassis\<rparr>]\<rparr>)"

definition upsert_state_row :: "vehicle_state_row \<Rightarrow> db \<Rightarrow> db" where
  "upsert_state_row row d =
    (if vs_vehicle row \<in> vs_vehicle ` set (vehicle_states d)
     then d\<lparr>vehicle_states := update_where (\<lambda>r. vs_vehicle r = vs_vehicle row) (\<lambda>_. row) (vehicle_states d)\<rparr>
     else d\<lparr>vehicle_states := vehicle_states d @ [row]\<rparr>)"

definition lifecycle_seen :: "int \<Rightarrow> string \<Rightarrow> bool \<Rightarrow> db \<Rightarrow> db" where
  "lifecycle_seen now i online d =
    (if vehicle_exists d i then
       d\<lparr>vehicles := update_where (\<lambda>r. v_id r = i)
          (\<lambda>r. r\<lparr>v_last_seen := (if online then Some now else v_last_seen r),
                 v_lifecycle := (if frozen_lifecycle (v_lifecycle r) then v_lifecycle r
                                 else if online then ''online'' else ''offline'')\<rparr>) (vehicles d)\<rparr>
     else d\<lparr>vehicles := vehicles d @ [\<lparr>v_id = i, v_gateway_id = [], v_stack = [],
            v_lifecycle = (if online then ''online'' else ''offline''),
            v_last_seen = (if online then Some now else None), v_group = [], v_chassis = []\<rparr>]\<rparr>)"

definition day :: int where "day = 24 * hour"

text \<open>
  The statements of a job; an error ends the job and is only logged. Rows of the deduplication
  tables carry no time here, so the retention job is the one on events.
\<close>

fun insert_samples :: "sample_row list \<Rightarrow> ('e, unit) tx" where
  "insert_samples [] = tx_ret ()"
| "insert_samples (r # rs) =
    tx_bind (tx_exec (\<lambda>d. d\<lparr>telemetry_samples := telemetry_samples d @ [r]\<rparr>)) (\<lambda>_. insert_samples rs)"

definition job_tx :: "int \<Rightarrow> dbJob \<Rightarrow> (unit, unit) tx" where
  "job_tx now job =
    (case job of
       JobEvent row \<Rightarrow> tx_exec (\<lambda>d. d\<lparr>fleet_events := fleet_events d @ [row]\<rparr>)
     | JobRegister i g stack grp chassis \<Rightarrow> tx_exec (upsert_registered now i g stack grp chassis)
     | JobOffline i \<Rightarrow> tx_exec (\<lambda>d. d\<lparr>vehicles := update_where
           (\<lambda>r. v_id r = i \<and> \<not> frozen_lifecycle (v_lifecycle r)) (\<lambda>r. r\<lparr>v_lifecycle := ''offline''\<rparr>) (vehicles d)\<rparr>)
     | JobSamples rows \<Rightarrow> insert_samples rows
     | JobVehicleState i online row \<Rightarrow>
         tx_bind (tx_exec (lifecycle_seen now i online)) (\<lambda>_. tx_exec (upsert_state_row (row\<lparr>vs_updated_at := now\<rparr>)))
     | JobRetention \<Rightarrow> tx_exec (\<lambda>d. d\<lparr>fleet_events := filter (\<lambda>e. \<not> er_ts e < now - 30 * day) (fleet_events d)\<rparr>)
     | JobTouchKey i used \<Rightarrow> tx_exec (\<lambda>d. d\<lparr>api_keys := update_where (\<lambda>r. ak_id r = i) (\<lambda>r. r\<lparr>ak_last_used_at := Some used\<rparr>) (api_keys d)\<rparr>))"

definition run_job :: "int \<Rightarrow> dbJob \<Rightarrow> txs \<Rightarrow> txs" where
  "run_job now job s = snd (job_tx now job s)"

text \<open>Queue when there is room, run in place when there is not; the worker runs the head.\<close>

definition submitDB :: "int \<Rightarrow> dbJob \<Rightarrow> world \<Rightarrow> world" where
  "submitDB now job ws =
    (if length (st_dbCh (fst ws)) < dbQueueCap
     then ((fst ws)\<lparr>st_dbCh := st_dbCh (fst ws) @ [job]\<rparr>, snd ws)
     else (fst ws, run_job now job (snd ws)))"

definition dbLoop_step :: "int \<Rightarrow> world \<Rightarrow> world" where
  "dbLoop_step now ws =
    (case st_dbCh (fst ws) of
       [] \<Rightarrow> ws
     | job # rest \<Rightarrow> ((fst ws)\<lparr>st_dbCh := rest\<rparr>, run_job now job (snd ws)))"

section \<open>Events\<close>

definition push_ring :: "EventSnap \<Rightarrow> EventSnap list \<Rightarrow> EventSnap list" where
  "push_ring ev evs = take eventRingCap (ev # evs)"

definition vehicle_of :: "State \<Rightarrow> string \<Rightarrow> vehicleState option" where
  "vehicle_of st i = map_of (st_vehicles st) i"

definition group_of :: "State \<Rightarrow> string \<Rightarrow> string" where
  "group_of st i = (case vehicle_of st i of None \<Rightarrow> [] | Some v \<Rightarrow> ve_group v)"

definition pushEvent :: "int \<Rightarrow> string \<Rightarrow> string \<Rightarrow> event_text \<Rightarrow> string \<Rightarrow> world \<Rightarrow> world" where
  "pushEvent now level vehicleID txt kind ws =
    (let st = fst ws;
         ev = \<lparr>ev_TsNS = now, ev_Level = level, ev_Kind = kind, ev_VehicleID = vehicleID, ev_Text = txt\<rparr>;
         evGroup = (if vehicleID \<noteq> [] then group_of st vehicleID else []);
         st' = st\<lparr>st_events := push_ring ev (st_events st)\<rparr>
     in submitDB now (JobEvent \<lparr>er_ts = now, er_vehicle = nullable vehicleID, er_level = level, er_text = txt,
          er_group = evGroup, er_kind = kind\<rparr>) (st', snd ws))"

definition mode_event :: "string \<Rightarrow> string \<Rightarrow> string \<times> event_text" where
  "mode_event from to =
    (if to = ''minimum_risk'' then (''critical'', TxtMRC)
     else if to = ''stopped'' then (''warn'', TxtStopped)
     else if to = ''remote_control'' then (''warn'', TxtRemote)
     else if to = ''autonomous'' then (''info'', TxtAutonomous)
     else (''info'', TxtMode from to))"

definition onModeChange :: "int \<Rightarrow> string \<Rightarrow> string \<Rightarrow> string \<Rightarrow> world \<Rightarrow> world" where
  "onModeChange now i from to = pushEvent now (fst (mode_event from to)) i (snd (mode_event from to)) ''veh''"

definition Events :: "State \<Rightarrow> int \<Rightarrow> EventSnap list" where
  "Events st limit =
    (if limit \<le> 0 \<or> limit > int (length (st_events st)) then st_events st else take (nat limit) (st_events st))"


section \<open>Telemetry\<close>

text \<open>\<open>math.Round\<close> rounds half away from zero; a product or quotient is rounded to a \<open>float64\<close>.\<close>

definition math_Round :: "rat \<Rightarrow> rat" where
  "math_Round q = (if q < 0 then - of_int \<lfloor>- q + 1 / 2\<rfloor> else of_int \<lfloor>q + 1 / 2\<rfloor>)"

definition round_at :: "rat \<Rightarrow> (rat \<Rightarrow> float64) \<Rightarrow> float64 \<Rightarrow> float64" where
  "round_at k fl f =
    (case f of
       Fin q \<Rightarrow> (case fl (q * k) of Fin y \<Rightarrow> fl (math_Round y / k) | z \<Rightarrow> z)
     | z \<Rightarrow> z)"

definition round2 :: "(rat \<Rightarrow> float64) \<Rightarrow> float64 \<Rightarrow> float64" where "round2 = round_at 100"
definition round6 :: "(rat \<Rightarrow> float64) \<Rightarrow> float64 \<Rightarrow> float64" where "round6 = round_at 1000000"

definition gearShort :: "string \<Rightarrow> string" where
  "gearShort g =
    (if g = ''GEAR_DRIVE'' then ''D'' else if g = ''GEAR_NEUTRAL'' then ''N''
     else if g = ''GEAR_REVERSE'' then ''R'' else if g = ''GEAR_PARK'' then ''P'' else g)"

definition push_hist :: "float64 \<Rightarrow> float64 list \<Rightarrow> float64 list" where
  "push_hist x xs =
    (let ys = xs @ [x] in if length ys > speedHistCap then drop (length ys - speedHistCap) ys else ys)"

definition on_num :: "signalVal \<Rightarrow> (float64 \<Rightarrow> vehicleState) \<Rightarrow> vehicleState \<Rightarrow> vehicleState" where
  "on_num sg f v = (case sg_Num sg of None \<Rightarrow> v | Some x \<Rightarrow> f x)"

definition on_text :: "signalVal \<Rightarrow> (string \<Rightarrow> vehicleState) \<Rightarrow> vehicleState \<Rightarrow> vehicleState" where
  "on_text sg f v = (case sg_Text sg of None \<Rightarrow> v | Some x \<Rightarrow> f x)"

definition over_half :: "float64 \<Rightarrow> bool" where "over_half x = f64_lt (Fin (1 / 2)) x"

definition set_wheel :: "nat \<Rightarrow> float64 \<Rightarrow> vehicleState \<Rightarrow> vehicleState" where
  "set_wheel i x v = v\<lparr>ve_wheelSpeeds := (ve_wheelSpeeds v)[i := x]\<rparr>"

text \<open>One round of the loop: the switch over the signal's path, as a classification and its effect.\<close>

datatype signal_kind =
    SigSpeed | SigSteer | SigWheel nat | SigGear | SigMode | SigSoc | SigVoltage | SigThrottle | SigBrake | SigGpsFix
  | SigAccel | SigCabinTemp | SigCabinHumidity | SigGpsLat | SigGpsLon | SigGpsAlt
  | SigPoseValid | SigPoseX | SigPoseY | SigPoseYaw | SigPoseFrame | SigOther

definition path_kind :: "string \<Rightarrow> signal_kind" where
  "path_kind p =
    (if p = ''Vehicle.Speed'' then SigSpeed
     else if p = ''Vehicle.Chassis.SteeringWheel.Angle'' then SigSteer
     else if p = ''Vehicle.Chassis.WheelSpeeds.FL'' then SigWheel 0
     else if p = ''Vehicle.Chassis.WheelSpeeds.FR'' then SigWheel 1
     else if p = ''Vehicle.Chassis.WheelSpeeds.RL'' then SigWheel 2
     else if p = ''Vehicle.Chassis.WheelSpeeds.RR'' then SigWheel 3
     else if p = ''Vehicle.Powertrain.Transmission.CurrentGear'' then SigGear
     else if p = ''Platform.Autonomy.OperationMode'' then SigMode
     else if p = ''Vehicle.Powertrain.TractionBattery.StateOfCharge'' then SigSoc
     else if p = ''Vehicle.Powertrain.TractionBattery.Voltage'' then SigVoltage
     else if p = ''Vehicle.Chassis.Throttle.Pct'' then SigThrottle
     else if p = ''Vehicle.Chassis.Brake.Pct'' then SigBrake
     else if p = ''Vehicle.GPS.Fix'' then SigGpsFix
     else if p = ''Vehicle.Chassis.Accel.Longitudinal'' then SigAccel
     else if p = ''Vehicle.Cabin.Temperature.C'' then SigCabinTemp
     else if p = ''Vehicle.Cabin.Humidity.Pct'' then SigCabinHumidity
     else if p = ''Vehicle.GPS.Latitude'' then SigGpsLat
     else if p = ''Vehicle.GPS.Longitude'' then SigGpsLon
     else if p = ''Vehicle.GPS.Altitude'' then SigGpsAlt
     else if p = ''Platform.Autonomy.Localization.Pose.Valid'' then SigPoseValid
     else if p = ''Platform.Autonomy.Localization.Pose.X'' then SigPoseX
     else if p = ''Platform.Autonomy.Localization.Pose.Y'' then SigPoseY
     else if p = ''Platform.Autonomy.Localization.Pose.Yaw'' then SigPoseYaw
     else if p = ''Platform.Autonomy.Localization.Pose.Frame'' then SigPoseFrame
     else SigOther)"

definition apply_signal :: "(rat \<Rightarrow> float64) \<Rightarrow> signalVal \<Rightarrow> vehicleState \<Rightarrow> vehicleState" where
  "apply_signal fl sg v =
    (case path_kind (sg_Path sg) of
       SigSpeed \<Rightarrow> on_num sg (\<lambda>x. v\<lparr>ve_speedMPS := x, ve_speedHist := push_hist (round2 fl x) (ve_speedHist v)\<rparr>) v
     | SigSteer \<Rightarrow> on_num sg (\<lambda>x. v\<lparr>ve_steerRad := x\<rparr>) v
     | SigWheel i \<Rightarrow> on_num sg (\<lambda>x. set_wheel i x v) v
     | SigGear \<Rightarrow> on_text sg (\<lambda>x. v\<lparr>ve_gear := gearShort x\<rparr>) v
     | SigMode \<Rightarrow> on_text sg (\<lambda>x. v\<lparr>ve_mode := x\<rparr>) v
     | SigSoc \<Rightarrow> on_num sg (\<lambda>x. v\<lparr>ve_soc := x\<rparr>) v
     | SigVoltage \<Rightarrow> on_num sg (\<lambda>x. v\<lparr>ve_voltage := x\<rparr>) v
     | SigThrottle \<Rightarrow> on_num sg (\<lambda>x. v\<lparr>ve_throttlePct := x, ve_throttleHist := push_hist (round2 fl x) (ve_throttleHist v)\<rparr>) v
     | SigBrake \<Rightarrow> on_num sg (\<lambda>x. v\<lparr>ve_brakePct := x, ve_brakeHist := push_hist (round2 fl x) (ve_brakeHist v)\<rparr>) v
     | SigGpsFix \<Rightarrow> on_num sg (\<lambda>x. v\<lparr>ve_gpsFix := over_half x\<rparr>) v
     | SigAccel \<Rightarrow> on_num sg (\<lambda>x. v\<lparr>ve_accelMps2 := x, ve_accelHist := push_hist (round2 fl x) (ve_accelHist v)\<rparr>) v
     | SigCabinTemp \<Rightarrow> on_num sg (\<lambda>x. v\<lparr>ve_cabinTempC := x\<rparr>) v
     | SigCabinHumidity \<Rightarrow> on_num sg (\<lambda>x. v\<lparr>ve_cabinHumidity := x\<rparr>) v
     | SigGpsLat \<Rightarrow> on_num sg (\<lambda>x. v\<lparr>ve_gpsLat := x\<rparr>) v
     | SigGpsLon \<Rightarrow> on_num sg (\<lambda>x. v\<lparr>ve_gpsLon := x\<rparr>) v
     | SigGpsAlt \<Rightarrow> on_num sg (\<lambda>x. v\<lparr>ve_gpsAlt := x\<rparr>) v
     | SigPoseValid \<Rightarrow> on_num sg (\<lambda>x. v\<lparr>ve_poseValiditySet := True, ve_poseValid := over_half x\<rparr>) v
     | SigPoseX \<Rightarrow> on_num sg (\<lambda>x. v\<lparr>ve_poseX := x, ve_poseXSeen := True\<rparr>) v
     | SigPoseY \<Rightarrow> on_num sg (\<lambda>x. v\<lparr>ve_poseY := x, ve_poseYSeen := True\<rparr>) v
     | SigPoseYaw \<Rightarrow> on_num sg (\<lambda>x. v\<lparr>ve_poseYaw := x, ve_poseYawSeen := True\<rparr>) v
     | SigPoseFrame \<Rightarrow> on_text sg (\<lambda>x. v\<lparr>ve_poseFrame := x\<rparr>) v
     | SigOther \<Rightarrow> v)"

definition finish_pose :: "vehicleState \<Rightarrow> vehicleState" where
  "finish_pose v = (if ve_poseValiditySet v then v
     else v\<lparr>ve_poseValid := (ve_poseXSeen v \<and> ve_poseYSeen v \<and> ve_poseYawSeen v)\<rparr>)"

definition applySignalUpdateLocked ::
  "(rat \<Rightarrow> float64) \<Rightarrow> vehicleState \<Rightarrow> signalVal list \<Rightarrow> gotime \<Rightarrow> vehicleState" where
  "applySignalUpdateLocked fl v sigs now =
     finish_pose (fold (apply_signal fl) sigs (v\<lparr>ve_online := True, ve_lastSeen := now\<rparr>))"

subsection \<open>Registration\<close>

definition cap_of :: "(string \<times> string) list \<Rightarrow> string \<Rightarrow> string" where
  "cap_of caps k = (case map_of caps k of None \<Rightarrow> [] | Some v \<Rightarrow> v)"

definition ensureVehicleLocked :: "State \<Rightarrow> string \<Rightarrow> vehicleState" where
  "ensureVehicleLocked st i = (case vehicle_of st i of None \<Rightarrow> new_vehicle i | Some v \<Rightarrow> v)"

definition put_vehicle :: "string \<Rightarrow> vehicleState \<Rightarrow> State \<Rightarrow> State" where
  "put_vehicle i v st = st\<lparr>st_vehicles := AList.update i v (st_vehicles st)\<rparr>"

definition merge_caps :: "(string \<times> string) list \<Rightarrow> (string \<times> string) list \<Rightarrow> (string \<times> string) list" where
  "merge_caps caps old = fold (\<lambda>(k, x) m. if x = [] then m else AList.update k x m) caps old"

definition HandleRegister ::
  "int \<Rightarrow> string \<Rightarrow> string \<Rightarrow> (string \<times> string) list \<Rightarrow> string \<Rightarrow> world \<Rightarrow> world" where
  "HandleRegister now i gatewayID caps grp ws =
    (let v = ensureVehicleLocked (fst ws) i;
         v' = v\<lparr>ve_gatewayID := nonempty_or gatewayID (ve_gatewayID v), ve_group := nonempty_or grp (ve_group v),
                ve_chassis := nonempty_or (cap_of caps ''chassis'') (ve_chassis v),
                ve_capabilities := merge_caps caps (ve_capabilities v)\<rparr>;
         ws1 = pushEvent now ''info'' i (TxtRegistered gatewayID (cap_of caps ''stack'')) ''veh'' (put_vehicle i v' (fst ws), snd ws)
     in submitDB now (JobRegister i gatewayID (cap_of caps ''stack'') (ve_group v') (ve_chassis v')) ws1)"

subsection \<open>The durable path\<close>

definition cloneVehicleState :: "vehicleState option \<Rightarrow> vehicleState" where
  "cloneVehicleState v = (case v of None \<Rightarrow> new_vehicle [] | Some v \<Rightarrow> v)"

definition state_row_of :: "vehicleState \<Rightarrow> int \<Rightarrow> vehicle_state_row" where
  "state_row_of v t =
    \<lparr>vs_vehicle = ve_id v, vs_online = ve_online v, vs_updated_at = t, vs_mode = nullable (ve_mode v),
     vs_speed_mps = ve_speedMPS v, vs_soc = ve_soc v, vs_voltage = ve_voltage v, vs_gear = nullable (ve_gear v),
     vs_steer_rad = ve_steerRad v, vs_gps_fix = ve_gpsFix v,
     vs_gps = (nullableFloat (ve_gpsLat v) (ve_gpsFix v), nullableFloat (ve_gpsLon v) (ve_gpsFix v), nullableFloat (ve_gpsAlt v) (ve_gpsFix v)),
     vs_pose_valid = ve_poseValid v, vs_pose_frame = nullable (ve_poseFrame v),
     vs_pose = (nullableFloat (ve_poseX v) (ve_poseValid v), nullableFloat (ve_poseY v) (ve_poseValid v), nullableFloat (ve_poseYaw v) (ve_poseValid v))\<rparr>"

definition samples_of :: "(int \<Rightarrow> int) \<Rightarrow> string \<Rightarrow> gotime \<Rightarrow> signalVal list \<Rightarrow> sample_row list" where
  "samples_of ts i receivedAt sigs =
    map (\<lambda>sg. \<lparr>ts_vehicle = i,
                ts_at = ts (wall (if time_is_zero (sg_SampleAt sg) then receivedAt else sg_SampleAt sg)),
                ts_path = sg_Path sg, ts_num = sg_Num sg, ts_txt = sg_Text sg\<rparr>)
        (filter (\<lambda>sg. sg_Num sg \<noteq> None \<or> sg_Text sg \<noteq> None) sigs)"

datatype telemetry_error = TeleFields | TeleNoVehicle | TeleReg registry_error | TeleNotAccepted

definition persistTelemetryTx ::
  "ext \<Rightarrow> vehicleState \<Rightarrow> signalVal list \<Rightarrow> gotime \<Rightarrow> bool \<Rightarrow> (telemetry_error, unit) tx" where
  "persistTelemetryTx x v sigs receivedAt doSample =
    (if ve_id v = [] then tx_fail TeleFields
     else
       tx_bind (tx_stmt (\<lambda>d. Some (count_where (\<lambda>r. v_id r = ve_id v) (vehicles d),
          d\<lparr>vehicles := update_where (\<lambda>r. v_id r = ve_id v)
             (\<lambda>r. r\<lparr>v_last_seen := Some (x_ts x (wall receivedAt)),
                    v_lifecycle := (if frozen_lifecycle (v_lifecycle r) then v_lifecycle r else ''online'')\<rparr>) (vehicles d)\<rparr>))) (\<lambda>n.
       tx_bind (tx_guard (n = 1) TeleNoVehicle) (\<lambda>_.
       tx_bind (tx_exec (upsert_state_row (state_row_of v (x_ts x (wall receivedAt))))) (\<lambda>_.
       if doSample then insert_samples (samples_of (x_ts x) (ve_id v) receivedAt sigs) else tx_ret ()))))"

definition telemetry_body ::
  "ext \<Rightarrow> string \<Rightarrow> string \<Rightarrow> string \<Rightarrow> string \<Rightarrow> u64 \<Rightarrow> vehicleState \<Rightarrow> signalVal list \<Rightarrow> gotime \<Rightarrow> bool \<Rightarrow> (telemetry_error, unit) tx" where
  "telemetry_body x vehicleID gatewayID messageType sessionID sq nxt sigs receivedAt doSample =
     tx_bind (tx_map_err TeleReg (AcceptInboundSequenceTx vehicleID gatewayID messageType sessionID sq)) (\<lambda>accepted.
     tx_bind (tx_guard accepted TeleNotAccepted) (\<lambda>_.
     persistTelemetryTx x nxt sigs receivedAt doSample))"

definition next_projection ::
  "(rat \<Rightarrow> float64) \<Rightarrow> State \<Rightarrow> string \<Rightarrow> signalVal list \<Rightarrow> gotime \<Rightarrow> vehicleState \<times> bool" where
  "next_projection fl st i sigs receivedAt =
    (let v0 = cloneVehicleState (vehicle_of st i);
         v1 = (if ve_id v0 = [] then v0\<lparr>ve_id := i\<rparr> else v0);
         v2 = applySignalUpdateLocked fl v1 sigs receivedAt;
         doSample = (time_is_zero (ve_lastSampleAt v2) \<or> time_sub receivedAt (ve_lastSampleAt v2) \<ge> sampleEveryS * second)
     in (if doSample then v2\<lparr>ve_lastSampleAt := receivedAt\<rparr> else v2, doSample))"

definition after_telemetry :: "int \<Rightarrow> string \<Rightarrow> vehicleState \<Rightarrow> vehicleState \<Rightarrow> world \<Rightarrow> world" where
  "after_telemetry now i before nxt ws =
    (let ws1 = (put_vehicle i nxt (fst ws), snd ws);
         ws2 = (if ve_online before then ws1 else pushEvent now ''info'' i TxtOnline ''veh'' ws1)
     in if ve_mode before \<noteq> [] \<and> ve_mode before \<noteq> ve_mode nxt
        then onModeChange now i (ve_mode before) (ve_mode nxt) ws2 else ws2)"

definition ApplyTelemetryDurably ::
  "(rat \<Rightarrow> float64) \<Rightarrow> ext \<Rightarrow> gotime \<Rightarrow> string \<Rightarrow> string \<Rightarrow> string \<Rightarrow> string \<Rightarrow> u64 \<Rightarrow> signalVal list \<Rightarrow> world \<Rightarrow>
   (telemetry_error tx_error + bool) \<times> world" where
  "ApplyTelemetryDurably fl x now vehicleID gatewayID messageType sessionID sq sigs ws =
    (if vehicleID = [] \<or> gatewayID = [] \<or> messageType = [] \<or> sessionID = [] \<or> sq = 0 \<or> sigs = []
     then (Inl (Dom TeleFields), ws)
     else
       let receivedAt = time_utc now;
           before = cloneVehicleState (vehicle_of (fst ws) vehicleID);
           (nxt, doSample) = next_projection fl (fst ws) vehicleID sigs receivedAt
       in (case run_tx (telemetry_body x vehicleID gatewayID messageType sessionID sq nxt sigs receivedAt doSample) (snd ws) of
             (Inl (Dom TeleNotAccepted), s') \<Rightarrow> (Inr False, (fst ws, s'))
           | (Inl e, s') \<Rightarrow> (Inl e, (fst ws, s'))
           | (Inr _, s') \<Rightarrow> (Inr True, after_telemetry (wall now) vehicleID before nxt (fst ws, s'))))"


subsection \<open>The diagnostic path\<close>

text \<open>\<open>HandleTelemetry\<close> projects first and queues its writes, a sample at most once a second.\<close>

definition queued_row :: "vehicleState \<Rightarrow> vehicle_state_row" where
  "queued_row v = (state_row_of v 0)\<lparr>vs_gps := (Some (ve_gpsLat v), Some (ve_gpsLon v), Some (ve_gpsAlt v)),
     vs_pose := (Some (ve_poseX v), Some (ve_poseY v), Some (ve_poseYaw v))\<rparr>"

definition persistSample :: "(int \<Rightarrow> int) \<Rightarrow> int \<Rightarrow> string \<Rightarrow> signalVal list \<Rightarrow> world \<Rightarrow> world" where
  "persistSample ts now i sigs = submitDB now (JobSamples
     (samples_of ts i (time_unix now) (map (\<lambda>sg. sg\<lparr>sg_SampleAt := time_zero\<rparr>) sigs)))"

definition persistVehicleState :: "int \<Rightarrow> vehicleState \<Rightarrow> world \<Rightarrow> world" where
  "persistVehicleState now v = submitDB now (JobVehicleState (ve_id v) (ve_online v) (queued_row v))"

definition HandleTelemetry ::
  "(rat \<Rightarrow> float64) \<Rightarrow> (int \<Rightarrow> int) \<Rightarrow> gotime \<Rightarrow> string \<Rightarrow> signalVal list \<Rightarrow> world \<Rightarrow> world" where
  "HandleTelemetry fl ts now i sigs ws =
    (let before = ensureVehicleLocked (fst ws) i;
         v1 = applySignalUpdateLocked fl (before\<lparr>ve_id := i\<rparr>) sigs now;
         doSample = (time_sub now (ve_lastSampleAt v1) \<ge> sampleEveryS * second);
         v2 = (if doSample then v1\<lparr>ve_lastSampleAt := now\<rparr> else v1);
         ws1 = after_telemetry (wall now) i before v2 ws
     in if doSample then persistVehicleState (wall now) v2 (persistSample ts (wall now) i sigs ws1) else ws1)"

section \<open>Supervision\<close>

definition timed_out :: "gotime \<Rightarrow> vehicleState \<Rightarrow> bool" where
  "timed_out now v \<longleftrightarrow> ve_online v \<and> time_sub now (ve_lastSeen v) > onlineWindowS * second"

definition sweep_vehicles :: "gotime \<Rightarrow> State \<Rightarrow> State" where
  "sweep_vehicles now st = st\<lparr>st_vehicles :=
     map (\<lambda>(i, v). (i, if timed_out now v then v\<lparr>ve_online := False\<rparr> else v)) (st_vehicles st)\<rparr>"

fun report_gone :: "int \<Rightarrow> string list \<Rightarrow> world \<Rightarrow> world" where
  "report_gone now [] ws = ws"
| "report_gone now (i # is) ws =
     report_gone now is (submitDB now (JobOffline i) (pushEvent now ''critical'' i TxtLost ''veh'' ws))"

definition onlineSweep :: "gotime \<Rightarrow> world \<Rightarrow> world" where
  "onlineSweep now ws =
     report_gone (wall now) (map ve_id (filter (timed_out now) (map snd (st_vehicles (fst ws)))))
       (sweep_vehicles now (fst ws), snd ws)"

definition retention_tick :: "int \<Rightarrow> world \<Rightarrow> world" where
  "retention_tick now = submitDB now JobRetention"

section \<open>Control acknowledgements\<close>

fun ControlResult_String :: "ControlResult \<Rightarrow> string" where
  "ControlResult_String CONTROL_RESULT_UNSPECIFIED = ''CONTROL_RESULT_UNSPECIFIED''"
| "ControlResult_String CONTROL_RESULT_ACCEPTED = ''CONTROL_RESULT_ACCEPTED''"
| "ControlResult_String CONTROL_RESULT_REJECTED_STALE = ''CONTROL_RESULT_REJECTED_STALE''"
| "ControlResult_String CONTROL_RESULT_REJECTED_FENCING = ''CONTROL_RESULT_REJECTED_FENCING''"
| "ControlResult_String CONTROL_RESULT_REJECTED_LEASE = ''CONTROL_RESULT_REJECTED_LEASE''"
| "ControlResult_String CONTROL_RESULT_REJECTED_LIMIT = ''CONTROL_RESULT_REJECTED_LIMIT''"
| "ControlResult_String CONTROL_RESULT_FAILED = ''CONTROL_RESULT_FAILED''"
| "ControlResult_String (CONTROL_RESULT_NUM n) = show_int n"

text \<open>One statement; the key is the session, the sequence and the link.\<close>

definition insert_control_ack :: "control_ack_row \<Rightarrow> db \<Rightarrow> (unit \<times> db) option" where
  "insert_control_ack row d =
    (if ca_sequence row > int64_max \<or> ca_applied row > int64_max \<or> \<not> vehicle_exists d (ca_vehicle row) then None
     else if \<exists>r \<in> set (control_acks d). ca_session r = ca_session row \<and> ca_sequence r = ca_sequence row \<and> ca_link r = ca_link row
     then Some ((), d)
     else Some ((), d\<lparr>control_acks := control_acks d @ [row]\<rparr>))"

definition HandleControlAck ::
  "string \<Rightarrow> string \<Rightarrow> string \<Rightarrow> string ControlAck \<Rightarrow> txs \<Rightarrow> (telemetry_error tx_error + unit) \<times> txs" where
  "HandleControlAck vehicleID gatewayID sourceLink ack s =
    (if vehicleID = [] \<or> gatewayID = [] \<or> ack_control_session_id ack = [] \<or> ack_command_sequence ack = 0
     then (Inl (Dom TeleFields), s)
     else tx_stmt (insert_control_ack
       \<lparr>ca_session = ack_control_session_id ack, ca_sequence = uint (ack_command_sequence ack), ca_vehicle = vehicleID,
        ca_gateway = gatewayID, ca_result = ControlResult_String (ack_result ack), ca_detail = ack_detail ack,
        ca_applied = uint (ack_applied_monotonic_ns ack), ca_link = sourceLink\<rparr>) s)"

section \<open>Manual registration and restart\<close>

definition upsert_manual :: "string \<Rightarrow> string \<Rightarrow> string \<Rightarrow> string \<Rightarrow> db \<Rightarrow> db" where
  "upsert_manual i g chassis grp d =
    (if vehicle_exists d i then
       d\<lparr>vehicles := update_where (\<lambda>r. v_id r = i)
          (\<lambda>r. r\<lparr>v_gateway_id := nonempty_or g (v_gateway_id r), v_group := nonempty_or grp (v_group r),
                 v_chassis := nonempty_or chassis (v_chassis r)\<rparr>) (vehicles d)\<rparr>
     else d\<lparr>vehicles := vehicles d @ [\<lparr>v_id = i, v_gateway_id = g, v_stack = ''manual'', v_lifecycle = ''registered'',
            v_last_seen = None, v_group = grp, v_chassis = chassis\<rparr>]\<rparr>)"

definition RegisterVehicle ::
  "int \<Rightarrow> string \<Rightarrow> string \<Rightarrow> string \<Rightarrow> string \<Rightarrow> world \<Rightarrow> (telemetry_error tx_error + unit) \<times> world" where
  "RegisterVehicle now id' gatewayID' chassis' group' ws =
    (let i = trim_space id'; g = trim_space gatewayID'; chassis = trim_space chassis'; grp = trim_space group'
     in if i = [] then (Inl (Dom TeleFields), ws)
        else case tx_exec (upsert_manual i g chassis grp) (snd ws) of
          (Inl e, s') \<Rightarrow> (Inl e, (fst ws, s'))
        | (Inr _, s') \<Rightarrow>
           (let v = ensureVehicleLocked (fst ws) i;
                v' = v\<lparr>ve_gatewayID := nonempty_or g (ve_gatewayID v), ve_group := nonempty_or grp (ve_group v),
                       ve_chassis := nonempty_or chassis (ve_chassis v)\<rparr>
            in (Inr (), pushEvent now ''info'' i (TxtManual chassis grp) ''veh'' (put_vehicle i v' (fst ws), s'))))"

definition opt_or :: "'a \<Rightarrow> 'a option \<Rightarrow> 'a" where
  "opt_or a o' = (case o' of None \<Rightarrow> a | Some b \<Rightarrow> b)"

definition restored_vehicle :: "db \<Rightarrow> vehicle_row \<Rightarrow> vehicleState \<Rightarrow> vehicleState" where
  "restored_vehicle d r v =
    (let v1 = v\<lparr>ve_gatewayID := v_gateway_id r, ve_group := v_group r, ve_chassis := v_chassis r, ve_poseValiditySet := True\<rparr>
     in (case find (\<lambda>s. vs_vehicle s = v_id r) (vehicle_states d) of
           None \<Rightarrow> v1\<lparr>ve_mode := [], ve_speedMPS := Fin 0, ve_soc := Fin 0, ve_voltage := Fin 0, ve_gear := [], ve_steerRad := Fin 0,
                     ve_gpsFix := False, ve_gpsLat := Fin 0, ve_gpsLon := Fin 0, ve_gpsAlt := Fin 0,
                     ve_poseValid := False, ve_poseFrame := [], ve_poseX := Fin 0, ve_poseY := Fin 0, ve_poseYaw := Fin 0\<rparr>
         | Some s \<Rightarrow> (case (vs_gps s, vs_pose s) of ((la, lo, al), (px, py, pw)) \<Rightarrow>
             v1\<lparr>ve_mode := opt_or [] (vs_mode s), ve_speedMPS := vs_speed_mps s, ve_soc := vs_soc s, ve_voltage := vs_voltage s,
                ve_gear := opt_or [] (vs_gear s), ve_steerRad := vs_steer_rad s, ve_gpsFix := vs_gps_fix s,
                ve_gpsLat := opt_or (Fin 0) la, ve_gpsLon := opt_or (Fin 0) lo, ve_gpsAlt := opt_or (Fin 0) al,
                ve_poseValid := vs_pose_valid s, ve_poseFrame := opt_or [] (vs_pose_frame s),
                ve_poseX := opt_or (Fin 0) px, ve_poseY := opt_or (Fin 0) py, ve_poseYaw := opt_or (Fin 0) pw\<rparr>)))"

definition loadVehiclesFromDB :: "txs \<Rightarrow> State \<Rightarrow> State" where
  "loadVehiclesFromDB s st =
    (if faulty (snd s) then st
     else fold (\<lambda>r st. put_vehicle (v_id r) (restored_vehicle (fst s) r (ensureVehicleLocked st (v_id r))) st) (vehicles (fst s)) st)"

section \<open>Snapshots\<close>

record VehicleSnap =
  sp_VehicleID :: string
  sp_Group :: string
  sp_Chassis :: string
  sp_Online :: bool
  sp_LastHeartbeatAgeS :: float64
  sp_Mode :: string
  sp_SpeedMPS :: float64
  sp_SOC :: float64
  sp_Voltage :: float64
  sp_Gear :: string
  sp_SteerRad :: float64
  sp_WheelSpeeds :: "float64 list"
  sp_Histories :: "float64 list \<times> float64 list \<times> float64 list \<times> float64 list"
  sp_ThrottlePct :: float64
  sp_BrakePct :: float64
  sp_AccelMps2 :: float64
  sp_Cabin :: "float64 \<times> float64"
  sp_Gps :: "bool \<times> float64 \<times> float64 \<times> float64"
  sp_Capabilities :: "(string \<times> string) list"
  sp_Pose :: "bool \<times> string \<times> float64 \<times> float64 \<times> float64"

text \<open>\<open>Duration.Seconds\<close>: whole seconds and the remainder, each rounded, then their sum rounded.\<close>

definition duration_seconds :: "(rat \<Rightarrow> float64) \<Rightarrow> int \<Rightarrow> float64" where
  "duration_seconds fl d =
    (let s = (if d < 0 then - (- d div second) else d div second); n = d - s * second
     in (case (fl (of_int s), fl (of_int n / 1000000000)) of
           (Fin a, Fin b) \<Rightarrow> fl (a + b) | (a, _) \<Rightarrow> a))"

definition vehicle_snap :: "(rat \<Rightarrow> float64) \<Rightarrow> gotime \<Rightarrow> vehicleState \<Rightarrow> VehicleSnap" where
  "vehicle_snap fl now v =
    (let r2 = round2 fl; r6 = round6 fl;
         age = (if time_is_zero (ve_lastSeen v) then Fin 0 else duration_seconds fl (time_sub now (ve_lastSeen v)))
     in \<lparr>sp_VehicleID = ve_id v, sp_Group = ve_group v, sp_Chassis = ve_chassis v, sp_Online = ve_online v,
         sp_LastHeartbeatAgeS = r2 age, sp_Mode = ve_mode v, sp_SpeedMPS = r2 (ve_speedMPS v), sp_SOC = r2 (ve_soc v),
         sp_Voltage = r2 (ve_voltage v), sp_Gear = ve_gear v, sp_SteerRad = r2 (ve_steerRad v),
         sp_WheelSpeeds = map r2 (ve_wheelSpeeds v),
         sp_Histories = (ve_speedHist v, ve_throttleHist v, ve_brakeHist v, ve_accelHist v),
         sp_ThrottlePct = r2 (ve_throttlePct v), sp_BrakePct = r2 (ve_brakePct v), sp_AccelMps2 = r2 (ve_accelMps2 v),
         sp_Cabin = (r2 (ve_cabinTempC v), r2 (ve_cabinHumidity v)),
         sp_Gps = (ve_gpsFix v, r6 (ve_gpsLat v), r6 (ve_gpsLon v), r2 (ve_gpsAlt v)),
         sp_Capabilities = ve_capabilities v,
         sp_Pose = (ve_poseValid v, ve_poseFrame v, r2 (ve_poseX v), r2 (ve_poseY v), r2 (ve_poseYaw v))\<rparr>)"

record FleetSnap =
  fs_ServerTimeNS :: int
  fs_Vehicles :: "VehicleSnap list"
  fs_Events :: "EventSnap list"

definition Snapshot :: "(rat \<Rightarrow> float64) \<Rightarrow> gotime \<Rightarrow> State \<Rightarrow> FleetSnap" where
  "Snapshot fl now st =
    \<lparr>fs_ServerTimeNS = wall now,
     fs_Vehicles = sort_key sp_VehicleID (map (\<lambda>(i, v). vehicle_snap fl now v) (st_vehicles st)),
     fs_Events = st_events st\<rparr>"

definition Vehicle :: "(rat \<Rightarrow> float64) \<Rightarrow> gotime \<Rightarrow> State \<Rightarrow> string \<Rightarrow> VehicleSnap option" where
  "Vehicle fl now st i = find (\<lambda>v. sp_VehicleID v = i) (fs_Vehicles (Snapshot fl now st))"

end
