(* ===== verification/Fleet_State_Props.thy ===== *)
theory Fleet_State_Props
  imports Fleet_State
begin

text \<open>
  What the live state keeps to: bounded memory over every sequence of operations, telemetry that
  is projected as the latest value of each signal, and a projection that only changes together
  with the database.
\<close>

section \<open>The two histories\<close>

lemma push_hist_drop: "push_hist x xs = drop (Suc (length xs) - speedHistCap) (xs @ [x])"
  by (simp add: push_hist_def Let_def)

interpretation hist: bounded_buffer push_hist speedHistCap
proof unfold_locales
  fix x :: float64 and xs :: "float64 list"
  show "x \<in> set (push_hist x xs)" by (simp add: push_hist_drop speedHistCap_def)
  show "set (push_hist x xs) \<subseteq> insert x (set xs)"
    using set_drop_subset [of "Suc (length xs) - speedHistCap" "xs @ [x]"] by (simp add: push_hist_drop)
  show "length xs \<le> speedHistCap \<Longrightarrow> length (push_hist x xs) = min speedHistCap (Suc (length xs))"
    by (simp add: push_hist_drop)
qed

interpretation ring: bounded_buffer push_ring eventRingCap
proof unfold_locales
  fix x :: EventSnap and xs :: "EventSnap list"
  show "x \<in> set (push_ring x xs)" by (simp add: push_ring_def eventRingCap_def)
  show "set (push_ring x xs) \<subseteq> insert x (set xs)"
    using set_take_subset [of eventRingCap "x # xs"] by (simp add: push_ring_def)
  show "length xs \<le> eventRingCap \<Longrightarrow> length (push_ring x xs) = min eventRingCap (Suc (length xs))"
    by (simp add: push_ring_def)
qed

text \<open>Pushing in turn is keeping the newest of everything pushed.\<close>

lemma fold_push_hist:
  "fold push_hist xs hs = drop (length hs + length xs - speedHistCap) (hs @ xs)" if "length hs \<le> speedHistCap"
  using that
proof (induction xs arbitrary: hs)
  case (Cons x xs)
  have len: "length (push_hist x hs) \<le> speedHistCap" using hist.push_bound [OF Cons.prems] .
  let ?k = "Suc (length hs) - speedHistCap"
  have "fold push_hist (x # xs) hs = drop (length (push_hist x hs) + length xs - speedHistCap) (push_hist x hs @ xs)"
    using Cons.IH [OF len] by simp
  also have "push_hist x hs @ xs = drop ?k (hs @ x # xs)"
    using Cons.prems by (simp add: push_hist_drop speedHistCap_def)
  also have "drop (length (push_hist x hs) + length xs - speedHistCap) (drop ?k (hs @ x # xs)) =
      drop (length hs + length (x # xs) - speedHistCap) (hs @ x # xs)"
    using hist.push_length [OF Cons.prems, of x] Cons.prems
    by (simp only: drop_drop) (rule arg_cong [where f = "\<lambda>n. drop n (hs @ x # xs)"], auto)
  finally show ?case .
qed simp

section \<open>Telemetry against its specification\<close>

text \<open>The latest numeric or textual value a batch carries for a path.\<close>

definition nums_at :: "signal_kind \<Rightarrow> signalVal list \<Rightarrow> float64 list" where
  "nums_at k sigs = List.map_filter (\<lambda>sg. if path_kind (sg_Path sg) = k then sg_Num sg else None) sigs"

definition texts_at :: "signal_kind \<Rightarrow> signalVal list \<Rightarrow> string list" where
  "texts_at k sigs = List.map_filter (\<lambda>sg. if path_kind (sg_Path sg) = k then sg_Text sg else None) sigs"

definition latest :: "'a \<Rightarrow> 'a list \<Rightarrow> 'a" where
  "latest old xs = last (old # xs)"

lemma nums_at_simps [simp]:
  "nums_at k [] = []"
  "nums_at k (sg # sigs) = (if path_kind (sg_Path sg) = k then (case sg_Num sg of None \<Rightarrow> [] | Some x \<Rightarrow> [x]) else []) @ nums_at k sigs"
  by (auto simp: nums_at_def List.map_filter_simps split: option.splits)

lemma texts_at_simps [simp]:
  "texts_at k [] = []"
  "texts_at k (sg # sigs) = (if path_kind (sg_Path sg) = k then (case sg_Text sg of None \<Rightarrow> [] | Some x \<Rightarrow> [x]) else []) @ texts_at k sigs"
  by (auto simp: texts_at_def List.map_filter_simps split: option.splits)

lemma latest_simps [simp]: "latest old [] = old" "latest old (x # xs) = latest x xs"
  by (simp_all add: latest_def)

text \<open>A field that one path sets holds, after a batch, the latest value of that path.\<close>

lemma fold_latest_num:
  assumes "\<And>sg v. f (apply_signal fl sg v) = (if path_kind (sg_Path sg) = k then (case sg_Num sg of None \<Rightarrow> f v | Some x \<Rightarrow> g x) else f v)"
  shows "f (fold (apply_signal fl) sigs v) = latest (f v) (map g (nums_at k sigs))"
  by (induction sigs arbitrary: v) (auto simp: assms split: option.splits)

lemma fold_latest_text:
  assumes "\<And>sg v. f (apply_signal fl sg v) = (if path_kind (sg_Path sg) = k then (case sg_Text sg of None \<Rightarrow> f v | Some x \<Rightarrow> g x) else f v)"
  shows "f (fold (apply_signal fl) sigs v) = latest (f v) (map g (texts_at k sigs))"
  by (induction sigs arbitrary: v) (auto simp: assms split: option.splits)

lemma fold_history:
  assumes "\<And>sg v. h (apply_signal fl sg v) = (if path_kind (sg_Path sg) = k then (case sg_Num sg of None \<Rightarrow> h v | Some x \<Rightarrow> push_hist (g x) (h v)) else h v)"
  shows "h (fold (apply_signal fl) sigs v) = fold push_hist (map g (nums_at k sigs)) (h v)"
  by (induction sigs arbitrary: v) (auto simp: assms split: option.splits)

lemmas signal_defs = apply_signal_def on_num_def on_text_def set_wheel_def

lemma finish_pose_sel [simp]:
  "ve_speedMPS (finish_pose v) = ve_speedMPS v" "ve_speedHist (finish_pose v) = ve_speedHist v"
  "ve_mode (finish_pose v) = ve_mode v" "ve_gear (finish_pose v) = ve_gear v" "ve_steerRad (finish_pose v) = ve_steerRad v"
  "ve_gpsFix (finish_pose v) = ve_gpsFix v" "ve_soc (finish_pose v) = ve_soc v" "ve_online (finish_pose v) = ve_online v"
  "ve_lastSeen (finish_pose v) = ve_lastSeen v" "ve_id (finish_pose v) = ve_id v" "ve_lastSampleAt (finish_pose v) = ve_lastSampleAt v"
  "ve_throttleHist (finish_pose v) = ve_throttleHist v" "ve_brakeHist (finish_pose v) = ve_brakeHist v"
  "ve_accelHist (finish_pose v) = ve_accelHist v" "ve_wheelSpeeds (finish_pose v) = ve_wheelSpeeds v"
  "ve_gatewayID (finish_pose v) = ve_gatewayID v" "ve_group (finish_pose v) = ve_group v"
  "ve_brakePct (finish_pose v) = ve_brakePct v" "ve_voltage (finish_pose v) = ve_voltage v"
  by (auto simp: finish_pose_def)

lemma fold_const: "(\<And>sg v. f (g sg v) = f v) \<Longrightarrow> f (fold g sigs v) = f v"
  by (induction sigs arbitrary: v) auto

lemma apply_signal_kept [simp]:
  "ve_online (apply_signal fl sg v) = ve_online v" "ve_lastSeen (apply_signal fl sg v) = ve_lastSeen v"
  "ve_id (apply_signal fl sg v) = ve_id v" "ve_lastSampleAt (apply_signal fl sg v) = ve_lastSampleAt v"
  "ve_gatewayID (apply_signal fl sg v) = ve_gatewayID v" "ve_group (apply_signal fl sg v) = ve_group v"
  by (simp_all add: signal_defs split: option.splits signal_kind.splits)

lemma applied_kept [simp]:
  "ve_online (applySignalUpdateLocked fl v sigs now)" "ve_lastSeen (applySignalUpdateLocked fl v sigs now) = now"
  "ve_id (applySignalUpdateLocked fl v sigs now) = ve_id v"
  "ve_lastSampleAt (applySignalUpdateLocked fl v sigs now) = ve_lastSampleAt v"
  "ve_gatewayID (applySignalUpdateLocked fl v sigs now) = ve_gatewayID v"
  "ve_group (applySignalUpdateLocked fl v sigs now) = ve_group v"
  by (simp_all add: applySignalUpdateLocked_def fold_const [where f = ve_online] fold_const [where f = ve_lastSeen]
      fold_const [where f = ve_id] fold_const [where f = ve_lastSampleAt] fold_const [where f = ve_gatewayID] fold_const [where f = ve_group])

lemma signal_num_field:
  "ve_speedMPS (apply_signal fl sg v) = (if path_kind (sg_Path sg) = SigSpeed then (case sg_Num sg of None \<Rightarrow> ve_speedMPS v | Some x \<Rightarrow> x) else ve_speedMPS v)"
  "ve_steerRad (apply_signal fl sg v) = (if path_kind (sg_Path sg) = SigSteer then (case sg_Num sg of None \<Rightarrow> ve_steerRad v | Some x \<Rightarrow> x) else ve_steerRad v)"
  "ve_soc (apply_signal fl sg v) = (if path_kind (sg_Path sg) = SigSoc then (case sg_Num sg of None \<Rightarrow> ve_soc v | Some x \<Rightarrow> x) else ve_soc v)"
  "ve_voltage (apply_signal fl sg v) = (if path_kind (sg_Path sg) = SigVoltage then (case sg_Num sg of None \<Rightarrow> ve_voltage v | Some x \<Rightarrow> x) else ve_voltage v)"
  "ve_brakePct (apply_signal fl sg v) = (if path_kind (sg_Path sg) = SigBrake then (case sg_Num sg of None \<Rightarrow> ve_brakePct v | Some x \<Rightarrow> x) else ve_brakePct v)"
  "ve_gpsFix (apply_signal fl sg v) = (if path_kind (sg_Path sg) = SigGpsFix then (case sg_Num sg of None \<Rightarrow> ve_gpsFix v | Some x \<Rightarrow> over_half x) else ve_gpsFix v)"
  by (simp_all add: signal_defs split: option.splits signal_kind.splits)

lemma signal_text_field:
  "ve_mode (apply_signal fl sg v) = (if path_kind (sg_Path sg) = SigMode then (case sg_Text sg of None \<Rightarrow> ve_mode v | Some x \<Rightarrow> x) else ve_mode v)"
  "ve_gear (apply_signal fl sg v) = (if path_kind (sg_Path sg) = SigGear then (case sg_Text sg of None \<Rightarrow> ve_gear v | Some x \<Rightarrow> gearShort x) else ve_gear v)"
  by (simp_all add: signal_defs split: option.splits signal_kind.splits)

lemma signal_history:
  "ve_speedHist (apply_signal fl sg v) = (if path_kind (sg_Path sg) = SigSpeed then (case sg_Num sg of None \<Rightarrow> ve_speedHist v | Some x \<Rightarrow> push_hist (round2 fl x) (ve_speedHist v)) else ve_speedHist v)"
  "ve_throttleHist (apply_signal fl sg v) = (if path_kind (sg_Path sg) = SigThrottle then (case sg_Num sg of None \<Rightarrow> ve_throttleHist v | Some x \<Rightarrow> push_hist (round2 fl x) (ve_throttleHist v)) else ve_throttleHist v)"
  "ve_brakeHist (apply_signal fl sg v) = (if path_kind (sg_Path sg) = SigBrake then (case sg_Num sg of None \<Rightarrow> ve_brakeHist v | Some x \<Rightarrow> push_hist (round2 fl x) (ve_brakeHist v)) else ve_brakeHist v)"
  "ve_accelHist (apply_signal fl sg v) = (if path_kind (sg_Path sg) = SigAccel then (case sg_Num sg of None \<Rightarrow> ve_accelHist v | Some x \<Rightarrow> push_hist (round2 fl x) (ve_accelHist v)) else ve_accelHist v)"
  by (simp_all add: signal_defs split: option.splits signal_kind.splits)

lemma wheel_count [simp]: "length (ve_wheelSpeeds (apply_signal fl sg v)) = length (ve_wheelSpeeds v)"
  by (simp add: signal_defs split: option.splits signal_kind.splits)


section \<open>Well-formed fleet state\<close>

definition vehicle_bounded :: "vehicleState \<Rightarrow> bool" where
  "vehicle_bounded v \<longleftrightarrow> length (ve_speedHist v) \<le> speedHistCap \<and> length (ve_throttleHist v) \<le> speedHistCap \<and>
     length (ve_brakeHist v) \<le> speedHistCap \<and> length (ve_accelHist v) \<le> speedHistCap \<and> length (ve_wheelSpeeds v) = 4"

definition fleet_wf :: "State \<Rightarrow> bool" where
  "fleet_wf st \<longleftrightarrow> distinct (map fst (st_vehicles st)) \<and>
     (\<forall>(i, v) \<in> set (st_vehicles st). ve_id v = i \<and> vehicle_bounded v) \<and>
     length (st_events st) \<le> eventRingCap \<and> length (st_dbCh st) \<le> dbQueueCap"

lemma vehicle_bounded_new [simp]: "vehicle_bounded (new_vehicle i)"
  by (simp add: vehicle_bounded_def new_vehicle_def)

lemma vehicle_bounded_upd [simp]:
  "vehicle_bounded (v\<lparr>ve_online := b\<rparr>) = vehicle_bounded v" "vehicle_bounded (v\<lparr>ve_lastSeen := s\<rparr>) = vehicle_bounded v"
  "vehicle_bounded (v\<lparr>ve_id := i\<rparr>) = vehicle_bounded v" "vehicle_bounded (v\<lparr>ve_lastSampleAt := s\<rparr>) = vehicle_bounded v"
  "vehicle_bounded (v\<lparr>ve_poseValid := b\<rparr>) = vehicle_bounded v" "vehicle_bounded (v\<lparr>ve_gatewayID := i\<rparr>) = vehicle_bounded v"
  "vehicle_bounded (v\<lparr>ve_group := i\<rparr>) = vehicle_bounded v" "vehicle_bounded (v\<lparr>ve_chassis := i\<rparr>) = vehicle_bounded v"
  "vehicle_bounded (v\<lparr>ve_capabilities := c\<rparr>) = vehicle_bounded v"
  by (simp_all add: vehicle_bounded_def)

lemma apply_signal_bounded: "vehicle_bounded v \<Longrightarrow> vehicle_bounded (apply_signal fl sg v)"
  by (auto simp: vehicle_bounded_def signal_history hist.push_bound split: option.splits)

lemma applied_bounded: "vehicle_bounded v \<Longrightarrow> vehicle_bounded (applySignalUpdateLocked fl v sigs now)"
proof -
  have "vehicle_bounded u \<Longrightarrow> vehicle_bounded (fold (apply_signal fl) sigs u)" for u
    by (induction sigs arbitrary: u) (auto intro: apply_signal_bounded)
  moreover assume "vehicle_bounded v"
  ultimately have "vehicle_bounded (fold (apply_signal fl) sigs (v\<lparr>ve_online := True, ve_lastSeen := now\<rparr>))" by simp
  then show ?thesis by (simp add: applySignalUpdateLocked_def finish_pose_def)
qed

lemma set_AList_update: "set (AList.update k x al) \<subseteq> insert (k, x) (set al)"
  by (induction al) auto

lemma put_vehicle_wf:
  assumes "fleet_wf st" "ve_id v = i" "vehicle_bounded v"
  shows "fleet_wf (put_vehicle i v st)"
  using assms set_AList_update [of i v "st_vehicles st"]
  by (auto simp: fleet_wf_def put_vehicle_def distinct_update)

lemma vehicle_of_wf: "fleet_wf st \<Longrightarrow> vehicle_of st i = Some v \<Longrightarrow> ve_id v = i \<and> vehicle_bounded v"
  by (auto simp: fleet_wf_def vehicle_of_def dest!: map_of_SomeD)

lemma ensure_wf: "fleet_wf st \<Longrightarrow> ve_id (ensureVehicleLocked st i) = i \<and> vehicle_bounded (ensureVehicleLocked st i)"
  by (auto simp: ensureVehicleLocked_def new_vehicle_def dest: vehicle_of_wf split: option.splits)
     (simp add: vehicle_bounded_def)

lemma submitDB_wf: "fleet_wf (fst ws) \<Longrightarrow> fleet_wf (fst (submitDB now job ws))"
  by (simp add: submitDB_def fleet_wf_def)

lemma pushEvent_wf: "fleet_wf (fst ws) \<Longrightarrow> fleet_wf (fst (pushEvent now level i txt kind ws))"
  unfolding pushEvent_def Let_def by (rule submitDB_wf) (auto simp: fleet_wf_def ring.push_bound)

lemma onModeChange_wf: "fleet_wf (fst ws) \<Longrightarrow> fleet_wf (fst (onModeChange now i from to ws))"
  by (simp add: onModeChange_def pushEvent_wf)

lemma after_telemetry_wf:
  "fleet_wf (fst ws) \<Longrightarrow> ve_id nxt = i \<Longrightarrow> vehicle_bounded nxt \<Longrightarrow> fleet_wf (fst (after_telemetry now i before nxt ws))"
  by (auto simp: after_telemetry_def Let_def intro!: onModeChange_wf pushEvent_wf put_vehicle_wf)

lemma next_projection_wf:
  assumes "fleet_wf st"
  shows "ve_id (fst (next_projection fl st i sigs now)) = i \<and> vehicle_bounded (fst (next_projection fl st i sigs now))"
proof (cases "vehicle_of st i")
  case None
  then show ?thesis
    by (auto simp: next_projection_def Let_def cloneVehicleState_def new_vehicle_def [of "[]"] intro!: applied_bounded)
       (simp_all add: vehicle_bounded_def)
next
  case (Some v)
  from vehicle_of_wf [OF assms Some] Some show ?thesis
    by (auto simp: next_projection_def Let_def cloneVehicleState_def intro!: applied_bounded)
qed

lemma report_gone_wf: "fleet_wf (fst ws) \<Longrightarrow> fleet_wf (fst (report_gone now is ws))"
proof (induction "is" arbitrary: ws)
  case (Cons i "is")
  from Cons.IH [OF submitDB_wf [OF pushEvent_wf [OF Cons.prems]]] show ?case by simp
qed simp

lemma sweep_wf: "fleet_wf st \<Longrightarrow> fleet_wf (sweep_vehicles now st)"
  by (auto simp: fleet_wf_def sweep_vehicles_def comp_def case_prod_unfold)

datatype fleet_op =
    OpRegister int string string "(string \<times> string) list" string
  | OpDurable gotime string string string string u64 "signalVal list"
  | OpTelemetry gotime string "signalVal list"
  | OpSweep gotime
  | OpManual int string string string string
  | OpEvent int string string event_text string
  | OpDbLoop int
  | OpRetention int

fun fleet_step :: "(rat \<Rightarrow> float64) \<Rightarrow> ext \<Rightarrow> world \<Rightarrow> fleet_op \<Rightarrow> world" where
  "fleet_step fl x ws (OpRegister now i g caps grp) = HandleRegister now i g caps grp ws"
| "fleet_step fl x ws (OpDurable now i g mt sid sq sigs) = snd (ApplyTelemetryDurably fl x now i g mt sid sq sigs ws)"
| "fleet_step fl x ws (OpTelemetry now i sigs) = HandleTelemetry fl (x_ts x) now i sigs ws"
| "fleet_step fl x ws (OpSweep now) = onlineSweep now ws"
| "fleet_step fl x ws (OpManual now i g ch grp) = snd (RegisterVehicle now i g ch grp ws)"
| "fleet_step fl x ws (OpEvent now level i txt kind) = pushEvent now level i txt kind ws"
| "fleet_step fl x ws (OpDbLoop now) = dbLoop_step now ws"
| "fleet_step fl x ws (OpRetention now) = retention_tick now ws"

lemma HandleRegister_wf: "fleet_wf (fst ws) \<Longrightarrow> fleet_wf (fst (HandleRegister now i g caps grp ws))"
  using ensure_wf [of "fst ws" i]
  by (auto simp: HandleRegister_def Let_def intro!: submitDB_wf pushEvent_wf put_vehicle_wf)

lemma HandleTelemetry_wf: "fleet_wf (fst ws) \<Longrightarrow> fleet_wf (fst (HandleTelemetry fl ts now i sigs ws))"
  using ensure_wf [of "fst ws" i]
  by (auto simp: HandleTelemetry_def Let_def persistVehicleState_def persistSample_def
      intro!: submitDB_wf after_telemetry_wf applied_bounded)

lemma RegisterVehicle_wf: "fleet_wf (fst ws) \<Longrightarrow> fleet_wf (fst (snd (RegisterVehicle now i g ch grp ws)))"
  using ensure_wf [of "fst ws" "trim_space i"]
  by (auto simp: RegisterVehicle_def Let_def intro!: pushEvent_wf put_vehicle_wf split: prod.splits sum.splits)

lemma ApplyTelemetryDurably_wf:
  assumes "fleet_wf (fst ws)"
  shows "fleet_wf (fst (snd (ApplyTelemetryDurably fl x now i g mt sid sq sigs ws)))"
  using next_projection_wf [OF assms, of fl i sigs "time_utc now"] assms
  by (auto simp: ApplyTelemetryDurably_def Let_def case_prod_unfold intro!: after_telemetry_wf
      split: sum.splits tx_error.splits telemetry_error.splits)

lemma dbLoop_wf: "fleet_wf (fst ws) \<Longrightarrow> fleet_wf (fst (dbLoop_step now ws))"
  by (auto simp: dbLoop_step_def fleet_wf_def split: list.splits)

interpretation fleet_machine: invariant_machine "fleet_step fl x" "\<lambda>ws. fleet_wf (fst ws)" for fl x
proof unfold_locales
  fix ws :: world and e
  assume "fleet_wf (fst ws)"
  then show "fleet_wf (fst (fleet_step fl x ws e))"
    by (cases e) (auto intro: HandleRegister_wf HandleTelemetry_wf RegisterVehicle_wf ApplyTelemetryDurably_wf pushEvent_wf
        simp: onlineSweep_def retention_tick_def intro!: report_gone_wf sweep_wf submitDB_wf dbLoop_wf)
qed

section \<open>Durable telemetry\<close>

lemma insert_samples_Inr:
  "(insert_samples rs :: ('e, unit) tx) (d, fs) = (Inr u, (d', fs')) \<Longrightarrow> d' = d\<lparr>telemetry_samples := telemetry_samples d @ rs\<rparr>"
proof (induction rs arbitrary: d fs)
  case (Cons r rs)
  then have "(insert_samples rs :: ('e, unit) tx) (d\<lparr>telemetry_samples := telemetry_samples d @ [r]\<rparr>, tl fs) = (Inr u, (d', fs'))" by auto
  from Cons.IH [OF this] show ?case by simp
qed simp

lemma find_upserted:
  "find (\<lambda>r. vs_vehicle r = vs_vehicle row) (vehicle_states (upsert_state_row row d)) = Some row"
proof (cases "vs_vehicle row \<in> vs_vehicle ` set (vehicle_states d)")
  case True
  then have "find (\<lambda>r. vs_vehicle r = vs_vehicle row)
      (update_where (\<lambda>r. vs_vehicle r = vs_vehicle row) (\<lambda>_. row) rs) = Some row"
    if "vs_vehicle row \<in> vs_vehicle ` set rs" for rs using that by (induction rs) (auto simp: update_where_def)
  with True show ?thesis by (simp add: upsert_state_row_def)
next
  case False
  then have "find (\<lambda>r. vs_vehicle r = vs_vehicle row) (rs @ [row]) = Some row"
    if "vs_vehicle row \<notin> vs_vehicle ` set rs" for rs using that by (induction rs) auto
  with False show ?thesis by (simp add: upsert_state_row_def)
qed

lemma upsert_frame [simp]:
  "vehicles (upsert_state_row row d) = vehicles d"
  "inbound_message_cursors (upsert_state_row row d) = inbound_message_cursors d"
  by (simp_all add: upsert_state_row_def)

lemma persistTelemetryTx_Inr:
  assumes "persistTelemetryTx x v sigs now doSample (d, fs) = (Inr u, (d', fs'))"
  shows "find (\<lambda>r. vs_vehicle r = ve_id v) (vehicle_states d') = Some (state_row_of v (x_ts x (wall now)))"
    and "vehicle_exists d (ve_id v)" and "inbound_message_cursors d' = inbound_message_cursors d"
proof -
  let ?row = "state_row_of v (x_ts x (wall now))"
  from assms obtain d1 fs1 where d1: "vehicle_states d' = vehicle_states (upsert_state_row ?row d1)"
    "inbound_message_cursors d' = inbound_message_cursors d1" "inbound_message_cursors d1 = inbound_message_cursors d"
    and n: "count_where (\<lambda>r. v_id r = ve_id v) (vehicles d) = 1"
    by (auto simp: persistTelemetryTx_def split: if_splits dest!: insert_samples_Inr)
  have "vs_vehicle ?row = ve_id v" by (simp add: state_row_of_def)
  with find_upserted [of ?row d1] d1(1)
  show "find (\<lambda>r. vs_vehicle r = ve_id v) (vehicle_states d') = Some ?row" by simp
  show "inbound_message_cursors d' = inbound_message_cursors d" using d1 by simp
  show "vehicle_exists d (ve_id v)"
    using n by (auto simp: vehicle_exists_def count_where_def image_iff dest!: sym [of 1] simp: length_Suc_conv filter_eq_Cons_iff)
qed


lemma telemetry_body_Inr:
  assumes "telemetry_body x i g mt sid sq nxt sigs now doSample (d, fs) = (Inr u, (d', fs'))"
  shows "cursor (i, g, mt, sid) d < uint sq" "cursor (i, g, mt, sid) d' = uint sq" "vehicle_exists d (ve_id nxt)"
    and "find (\<lambda>r. vs_vehicle r = ve_id nxt) (vehicle_states d') = Some (state_row_of nxt (x_ts x (wall now)))"
proof -
  from assms obtain d1 gs where acc: "AcceptInboundSequenceTx i g mt sid sq (d, fs) = (Inr True, (d1, gs))"
    and per: "persistTelemetryTx x nxt sigs now doSample (d1, gs) = (Inr u, (d', fs'))"
    by (auto simp: telemetry_body_def)
  have "vehicles d1 = vehicles d"
    using acc by (auto simp: AcceptInboundSequenceTx_def advance_cursor_def insert_dedup_def
        split: if_splits option.splits)
  with persistTelemetryTx_Inr(2) [OF per] show "vehicle_exists d (ve_id nxt)" by (simp add: vehicle_exists_def)
  from acc have "cursor (i, g, mt, sid) d < uint sq" "cursor (i, g, mt, sid) d1 = uint sq"
    by (cases rule: AcceptInboundSequenceTx_Inr; simp)+
  with persistTelemetryTx_Inr(3) [OF per]
  show "cursor (i, g, mt, sid) d < uint sq" "cursor (i, g, mt, sid) d' = uint sq" by (simp_all add: cursor_def)
  show "find (\<lambda>r. vs_vehicle r = ve_id nxt) (vehicle_states d') = Some (state_row_of nxt (x_ts x (wall now)))"
    by (rule persistTelemetryTx_Inr(1) [OF per])
qed

lemma submitDB_vehicles [simp]: "st_vehicles (fst (submitDB now job ws)) = st_vehicles (fst ws)"
  by (simp add: submitDB_def)

lemma pushEvent_vehicles [simp]: "st_vehicles (fst (pushEvent now level i txt kind ws)) = st_vehicles (fst ws)"
  by (simp add: pushEvent_def Let_def)

lemma after_telemetry_vehicle: "vehicle_of (fst (after_telemetry now i before nxt ws)) i = Some nxt"
  by (simp add: after_telemetry_def Let_def onModeChange_def vehicle_of_def put_vehicle_def update_conv')

text \<open>Pushing an event writes nothing but events.\<close>

lemma submit_event_db:
  assumes "\<And>es. f (d\<lparr>fleet_events := es\<rparr>) = f d"
  shows "f (fst (snd (submitDB now (JobEvent row) (st, (d, fs))))) = f d"
  by (simp add: submitDB_def run_job_def job_tx_def tx_exec_def tx_stmt_def assms)

lemma pushEvent_db:
  assumes "\<And>d es. f (d\<lparr>fleet_events := es\<rparr>) = f d"
  shows "f (fst (snd (pushEvent now level i txt kind ws))) = f (fst (snd ws))"
  unfolding pushEvent_def Let_def using submit_event_db [where f = f, OF assms] by (cases "snd ws") simp

lemma after_telemetry_db:
  "vehicle_states (fst (snd (after_telemetry now i before nxt ws))) = vehicle_states (fst (snd ws))"
  "inbound_message_cursors (fst (snd (after_telemetry now i before nxt ws))) = inbound_message_cursors (fst (snd ws))"
  by (simp_all add: after_telemetry_def Let_def onModeChange_def pushEvent_db)

section \<open>Properties\<close>

definition newest :: "nat \<Rightarrow> 'a list \<Rightarrow> 'a list" where
  "newest n xs = drop (length xs - n) xs"


definition demo_signals :: "signalVal list" where
  "demo_signals = [\<lparr>sg_Path = ''Vehicle.Speed'', sg_Num = Some (Fin 3), sg_Text = None, sg_SampleAt = time_zero\<rparr>,
     \<lparr>sg_Path = ''Vehicle.Speed'', sg_Num = Some (Fin 4), sg_Text = None, sg_SampleAt = time_zero\<rparr>]"


text \<open>
  C18. The live state stays well-formed and bounded: from a fresh process, over every sequence of
  registrations, telemetry on either path, sweeps, manual registrations, events, queued writes and
  their execution, and whatever statements fail, every vehicle is stored once and under its own
  id, its four histories have at most 150 points, the event ring at most 200 events and the write
  queue at most 256 jobs.
\<close>

theorem fleet_state_wellformed:
  "fleet_wf (fst (run (fleet_step fl x) (NewState key rnd, s) ops))"
  by (rule fleet_machine.run_inv) (simp add: NewState_def fleet_wf_def)

text \<open>
  Telemetry is all or nothing: unless the call answers that the batch was accepted, neither the
  process state nor the database changed. When it does, the sequence number was above the cursor
  of its session and is now the cursor, the vehicle is known to the database, and the stored row
  of the vehicle is exactly the projection the process now shows.
\<close>

theorem telemetry_atomic:
  assumes "fleet_wf st" and "ApplyTelemetryDurably fl x now i g mt sid sq sigs (st, (d, fs)) = (r, (st', (d', fs')))"
  shows "if r = Inr True
    then cursor (i, g, mt, sid) d < uint sq \<and> cursor (i, g, mt, sid) d' = uint sq \<and> vehicle_exists d i \<and>
      (\<exists>v. vehicle_of st' i = Some v \<and> ve_online v \<and>
        find (\<lambda>row. vs_vehicle row = i) (vehicle_states d') = Some (state_row_of v (x_ts x (wall now))))
    else st' = st \<and> d' = d"
proof -
  obtain nxt smp where nx: "next_projection fl st i sigs (time_utc now) = (nxt, smp)" by fastforce
  let ?run = "run_tx (telemetry_body x i g mt sid sq nxt sigs (time_utc now) smp) (d, fs)"
  have on: "ve_online nxt" using nx by (auto simp: next_projection_def Let_def split: if_splits)
  have nid: "ve_id nxt = i" using next_projection_wf [OF assms(1), of fl i sigs "time_utc now"] nx by simp
  show ?thesis
  proof (cases "i = [] \<or> g = [] \<or> mt = [] \<or> sid = [] \<or> sq = 0 \<or> sigs = []")
    case True
    then show ?thesis using assms(2) by (auto simp: ApplyTelemetryDurably_def)
  next
    case False
    then have call: "(r, (st', (d', fs'))) = (case ?run of
          (Inl (Dom TeleNotAccepted), s') \<Rightarrow> (Inr False, (st, s'))
        | (Inl e, s') \<Rightarrow> (Inl e, (st, s'))
        | (Inr _, s') \<Rightarrow> (Inr True, after_telemetry (wall now) i (cloneVehicleState (vehicle_of st i)) nxt (st, s')))"
      using assms(2) unfolding ApplyTelemetryDurably_def Let_def fst_conv snd_conv nx by simp
    show ?thesis
    proof (rule run_tx_cases [of "telemetry_body x i g mt sid sq nxt sigs (time_utc now) smp" d fs])
      fix e fs1
      assume "?run = (Inl e, (d, fs1))"
      with call show ?thesis by (auto split: tx_error.splits telemetry_error.splits)
    next
      fix u d1 gs fs1
      assume run: "?run = (Inr u, (d1, fs1))"
        and body: "telemetry_body x i g mt sid sq nxt sigs (time_utc now) smp (d, tl fs) = (Inr u, (d1, gs))"
      from run call have r: "r = Inr True"
        and w: "(st', (d', fs')) = after_telemetry (wall now) i (cloneVehicleState (vehicle_of st i)) nxt (st, (d1, fs1))"
        by auto
      have "vehicle_of st' i = Some nxt"
        using arg_cong [OF w, of fst] after_telemetry_vehicle [of "wall now" i "cloneVehicleState (vehicle_of st i)" nxt "(st, (d1, fs1))"] by simp
      moreover have "vehicle_states d' = vehicle_states d1" "inbound_message_cursors d' = inbound_message_cursors d1"
        using arg_cong [OF w, of "\<lambda>ws. fst (snd ws)"] by (simp_all add: after_telemetry_db)
      ultimately show ?thesis using r on telemetry_body_Inr [OF body] nid by (auto simp: cursor_def)
    qed
  qed
qed


definition demo_world :: world where
  "demo_world = (NewState [] (Some ''a''), (demo_activated, []))"

definition demo_fed :: "(telemetry_error tx_error + bool) \<times> world" where
  "demo_fed = ApplyTelemetryDurably Fin demo_ext (time_unix 5) ''v1'' ''g1'' ''t'' ''s'' 3 demo_signals demo_world"

theorem telemetry_atomic_witness:
  "cursor (''v1'', ''g1'', ''t'', ''s'') (fst (snd (snd demo_fed))) = 3"
proof -
  let ?st = "NewState [] (Some ''a'')"
  have wf: "fleet_wf ?st" by (simp add: NewState_def fleet_wf_def)
  have "fst demo_fed = Inr True" by code_simp
  then have "ApplyTelemetryDurably Fin demo_ext (time_unix 5) ''v1'' ''g1'' ''t'' ''s'' 3 demo_signals (?st, (demo_activated, [])) =
      (Inr True, (fst (snd demo_fed), (fst (snd (snd demo_fed)), snd (snd (snd demo_fed)))))"
    by (simp add: demo_fed_def demo_world_def) (metis prod.collapse)
  from telemetry_atomic [OF wf this] show ?thesis by simp
qed

end
