(* ===== verification/Go_Runes.thy ===== *)
theory Go_Runes
  imports Go_Prelude
begin

text \<open>
  Text at the granularity the code cuts it: \<open>[]rune(s)\<close> decodes UTF-8, and a byte that starts no
  valid encoding becomes the replacement character U+FFFD. A rune is represented by its encoding,
  so \<open>string(runes)\<close> is concatenation. Every text the fleet stores after an acknowledgement or a
  request was cut with \<open>trimRune\<close>.
\<close>

section \<open>Decoding\<close>

definition byte_in :: "nat \<Rightarrow> nat \<Rightarrow> char \<Rightarrow> bool" where
  "byte_in lo hi c \<longleftrightarrow> lo \<le> of_char c \<and> of_char c \<le> hi"

text \<open>The second byte of a long encoding is restricted to exclude overlong forms and surrogates.\<close>

definition second_ok :: "char \<Rightarrow> char \<Rightarrow> bool" where
  "second_ok a c =
    (let b = (of_char a :: nat)
     in if b = 0xE0 then byte_in 0xA0 0xBF c
        else if b = 0xED then byte_in 0x80 0x9F c
        else if b = 0xF0 then byte_in 0x90 0xBF c
        else if b = 0xF4 then byte_in 0x80 0x8F c
        else byte_in 0x80 0xBF c)"

text \<open>The number of bytes of the rune a text starts with; 0 when it starts with no valid encoding.\<close>

fun rune_len :: "string \<Rightarrow> nat" where
  "rune_len [] = 0"
| "rune_len (a # s) =
    (if byte_in 0 0x7F a then 1
     else if byte_in 0xC2 0xDF a then
       (case s of c1 # _ \<Rightarrow> if byte_in 0x80 0xBF c1 then 2 else 0 | _ \<Rightarrow> 0)
     else if byte_in 0xE0 0xEF a then
       (case s of c1 # c2 # _ \<Rightarrow> if second_ok a c1 \<and> byte_in 0x80 0xBF c2 then 3 else 0 | _ \<Rightarrow> 0)
     else if byte_in 0xF0 0xF4 a then
       (case s of c1 # c2 # c3 # _ \<Rightarrow>
          if second_ok a c1 \<and> byte_in 0x80 0xBF c2 \<and> byte_in 0x80 0xBF c3 then 4 else 0 | _ \<Rightarrow> 0)
     else 0)"

definition rune_error :: string where
  "rune_error = [CHR 0xEF, CHR 0xBF, CHR 0xBD]"

function go_runes :: "string \<Rightarrow> string list" where
  "go_runes s =
    (if s = [] then []
     else if rune_len s = 0 then rune_error # go_runes (drop 1 s)
     else take (rune_len s) s # go_runes (drop (rune_len s) s))"
  by pat_completeness auto
termination by (relation "measure length") auto

declare go_runes.simps [simp del]

definition trimRune :: "string \<Rightarrow> nat \<Rightarrow> string" where
  "trimRune s n =
    (let rs = go_runes (trim_space s)
     in if length rs > n then concat (take n rs) else concat rs)"

section \<open>Well-formed text\<close>

text \<open>One rune: its bytes, whatever follows them, decode as one rune.\<close>

definition is_rune :: "string \<Rightarrow> bool" where
  "is_rune r \<longleftrightarrow> r \<noteq> [] \<and> length r \<le> 4 \<and> (\<forall>t. rune_len (r @ t) = length r)"

lemma rune_len_bounds: "rune_len s \<le> length s \<and> rune_len s \<le> 4"
  by (cases s rule: rune_len.cases) (auto split: list.splits)

lemma rune_len_prefix: "rune_len s \<noteq> 0 \<Longrightarrow> rune_len (take (rune_len s) s @ t) = rune_len s"
  by (cases s rule: rune_len.cases) (auto split: list.splits if_splits)

lemma is_rune_take: "rune_len s \<noteq> 0 \<Longrightarrow> is_rune (take (rune_len s) s)"
  using rune_len_bounds [of s] by (auto simp: is_rune_def rune_len_prefix)

lemma is_rune_error: "is_rune rune_error"
  by (simp add: is_rune_def rune_error_def byte_in_def second_ok_def)

lemma go_runes_are_runes: "r \<in> set (go_runes s) \<Longrightarrow> is_rune r"
proof (induction s rule: go_runes.induct)
  case (1 s)
  then show ?case
    by (subst (asm) go_runes.simps) (auto split: if_splits simp: is_rune_error is_rune_take)
qed

lemma go_runes_Cons: "is_rune r \<Longrightarrow> go_runes (r @ t) = r # go_runes t"
  by (subst go_runes.simps) (auto simp: is_rune_def)

lemma go_runes_Nil [simp]: "go_runes [] = []"
  by (simp add: go_runes.simps)

text \<open>Encoding a list of runes and decoding it again gives the list.\<close>

lemma go_runes_concat: "(\<And>r. r \<in> set rs \<Longrightarrow> is_rune r) \<Longrightarrow> go_runes (concat rs) = rs"
  by (induction rs) (auto simp: go_runes_Cons)

lemma concat_runes_length: "(\<And>r. r \<in> set rs \<Longrightarrow> is_rune r) \<Longrightarrow> length (concat rs) \<le> 4 * length rs"
proof (induction rs)
  case (Cons r rs)
  have "length r \<le> 4" using Cons.prems [of r] by (simp add: is_rune_def)
  moreover have "length (concat rs) \<le> 4 * length rs" by (rule Cons.IH) (simp add: Cons.prems)
  ultimately show ?case by simp
qed simp

lemma trimRune_take: "trimRune s n = concat (take n (go_runes (trim_space s)))"
  by (simp add: trimRune_def Let_def)

lemma trimRune_runes: "go_runes (trimRune s n) = take n (go_runes (trim_space s))"
  unfolding trimRune_take by (rule go_runes_concat) (auto dest: in_set_takeD go_runes_are_runes)

section \<open>Property\<close>

text \<open>
  C19. Cutting text is safe: for every byte string, well-formed or not, the cut is defined, has at
  most \<open>n\<close> characters and \<open>4 n\<close> bytes, is well-formed UTF-8 (decoding it finds no invalid byte and
  encoding gives it back), and never ends inside a character.
\<close>

theorem trimRune_wellformed:
  "length (go_runes (trimRune s n)) \<le> n \<and> length (trimRune s n) \<le> 4 * n \<and>
   concat (go_runes (trimRune s n)) = trimRune s n \<and> list_all is_rune (go_runes (trimRune s n))"
proof -
  have runes: "\<And>r. r \<in> set (take n (go_runes (trim_space s))) \<Longrightarrow> is_rune r"
    by (auto dest: in_set_takeD go_runes_are_runes)
  have "length (trimRune s n) \<le> 4 * length (take n (go_runes (trim_space s)))"
    unfolding trimRune_take by (rule concat_runes_length [OF runes])
  also have "\<dots> \<le> 4 * n" by simp
  finally have "length (trimRune s n) \<le> 4 * n" .
  then show ?thesis using runes by (simp add: trimRune_runes list_all_iff) (simp add: trimRune_take)
qed

end
