(* ===== verification/Navigation.thy ===== *)
theory Navigation
  imports Fleet_State_Props Go_Runes Envelope_Auth
begin

text \<open>
  \<open>server/fleet/nav.go\<close>, \<open>nav_ack.go\<close> and the navigation downlink of \<open>state.go\<close>: routes of way
  points, from submission to the vehicle's last acknowledgement. The row of a route and the signed
  command for the vehicle are stored in one transaction; a vehicle's acknowledgement advances the
  route together with the sequence cursor. The process keeps a copy of every route; \<open>Cancel\<close>
  releases its lock around the transaction and is therefore given in its three phases. A JSONB
  column holds the value it encodes, and \<open>json.Marshal\<close> fails on a float that is not finite.
\<close>

section \<open>Messages\<close>

datatype NavigationAction =
    NAVIGATION_ACTION_UNSPECIFIED | NAVIGATION_ACTION_DISPATCH | NAVIGATION_ACTION_CANCEL | NAVIGATION_ACTION_NUM int

datatype NavigationResult =
    NAVIGATION_RESULT_UNSPECIFIED | NAVIGATION_RESULT_ACCEPTED | NAVIGATION_RESULT_STARTED | NAVIGATION_RESULT_COMPLETED
  | NAVIGATION_RESULT_REJECTED | NAVIGATION_RESULT_CANCELLED | NAVIGATION_RESULT_FAILED | NAVIGATION_RESULT_NUM int

fun NavigationResult_String :: "NavigationResult \<Rightarrow> string" where
  "NavigationResult_String NAVIGATION_RESULT_UNSPECIFIED = ''NAVIGATION_RESULT_UNSPECIFIED''"
| "NavigationResult_String NAVIGATION_RESULT_ACCEPTED = ''NAVIGATION_RESULT_ACCEPTED''"
| "NavigationResult_String NAVIGATION_RESULT_STARTED = ''NAVIGATION_RESULT_STARTED''"
| "NavigationResult_String NAVIGATION_RESULT_COMPLETED = ''NAVIGATION_RESULT_COMPLETED''"
| "NavigationResult_String NAVIGATION_RESULT_REJECTED = ''NAVIGATION_RESULT_REJECTED''"
| "NavigationResult_String NAVIGATION_RESULT_CANCELLED = ''NAVIGATION_RESULT_CANCELLED''"
| "NavigationResult_String NAVIGATION_RESULT_FAILED = ''NAVIGATION_RESULT_FAILED''"
| "NavigationResult_String (NAVIGATION_RESULT_NUM n) = show_int n"

record NavigationCommand =
  nc_version :: u32
  nc_action :: NavigationAction
  nc_route_id :: string
  nc_vehicle_id :: string
  nc_name :: string
  nc_trace_id :: string
  nc_points :: "NavPoint list"

record NavigationAck =
  na_version :: u32
  na_action :: NavigationAction
  na_route_id :: string
  na_vehicle_id :: string
  na_result :: NavigationResult
  na_detail :: string
  na_current_point :: u32

type_synonym NavRoute = route_row

datatype nav_error =
    NavNoVehicle | NavPointCount | NavBadPoint nat | NavJson | NavEnvFields | NavNoGateway | NavMarshal | NavSign
  | NavOutbox outbox_error | NavUnknown string | NavNotCancellable string string
  | AckFields | AckNoRoute | AckVehicle | AckPoints | AckRange | AckTransition | AckReg registry_error | AckNotAccepted

section \<open>The signed command\<close>

text \<open>
  \<open>navigationEnvelope\<close> counts the sequence of the vehicle up under the lock before it builds the
  envelope. \<open>now\<close> and \<open>mono_ns\<close> are the clocks, \<open>marshal\<close> serialises the command.
\<close>

definition nav_envelope ::
  "State \<Rightarrow> int \<Rightarrow> u64 \<Rightarrow> NavigationCommand \<Rightarrow> string \<Rightarrow> u64 \<Rightarrow> bytes \<Rightarrow> Envelope" where
  "nav_envelope st now mono_ns cmd gatewayID sequence payload =
    \<lparr>env_schema_major = 1, env_schema_minor = 0, env_message_type = ''platform.v1.NavigationCommand'',
     env_vehicle_id = nc_vehicle_id cmd, env_gateway_id = gatewayID, env_session_id = st_outboundSessionID st,
     env_sequence = sequence, env_utc_time_ns = now, env_monotonic_time_ns = mono_ns, env_ttl_ms = 30000,
     env_trace_id = nonempty_or (nc_trace_id cmd) (nc_route_id cmd), env_payload = payload,
     env_auth_tag = [], env_unknown = []\<rparr>"

definition outbound_seq :: "State \<Rightarrow> string \<Rightarrow> u64" where
  "outbound_seq st v = (case map_of (st_outboundSeq st) v of None \<Rightarrow> 0 | Some n \<Rightarrow> n)"

definition navigationEnvelope ::
  "wire \<Rightarrow> (NavigationCommand \<Rightarrow> bytes option) \<Rightarrow> int \<Rightarrow> u64 \<Rightarrow> NavigationCommand \<Rightarrow> State \<Rightarrow>
   (nav_error + string \<times> bytes) \<times> State" where
  "navigationEnvelope w marshal now mono_ns cmd st =
    (let v = nc_vehicle_id cmd
     in if v = [] \<or> nc_route_id cmd = [] \<or> length (st_envelopeAuthKey st) < 32 \<or> st_outboundSessionID st = []
        then (Inl NavEnvFields, st)
        else case vehicle_of st v of
          None \<Rightarrow> (Inl NavNoGateway, st)
        | Some vs \<Rightarrow>
           if ve_gatewayID vs = [] then (Inl NavNoGateway, st)
           else
             let sequence = outbound_seq st v + 1;
                 st' = st\<lparr>st_outboundSeq := AList.update v sequence (st_outboundSeq st)\<rparr>
             in (case marshal cmd of
                   None \<Rightarrow> (Inl NavMarshal, st')
                 | Some payload \<Rightarrow>
                    (case SignEnvelope w (Some (nav_envelope st now mono_ns cmd (ve_gatewayID vs) sequence payload)) (st_envelopeAuthKey st) of
                       Inl _ \<Rightarrow> (Inl NavSign, st')
                     | Inr env \<Rightarrow>
                        (case marshal_env w env of
                           None \<Rightarrow> (Inl NavMarshal, st')
                         | Some b \<Rightarrow> (Inr (ve_gatewayID vs, b), st')))))"

section \<open>The route row\<close>

definition nullableTime :: "(int \<Rightarrow> int) \<Rightarrow> int \<Rightarrow> int" where
  "nullableTime ts ns = (if ns \<le> 0 then 0 else ts ns)"

definition updatedTime :: "(int \<Rightarrow> int) \<Rightarrow> int \<Rightarrow> int \<Rightarrow> int" where
  "updatedTime ts updatedNS createdNS = ts (if updatedNS \<le> 0 then createdNS else updatedNS)"

definition finite_f64 :: "float64 \<Rightarrow> bool" where
  "finite_f64 f \<longleftrightarrow> \<not> is_nan f \<and> \<not> is_inf f"

definition points_json :: "NavPoint list \<Rightarrow> bool" where
  "points_json pts \<longleftrightarrow> list_all (\<lambda>p. finite_f64 (np_X p) \<and> finite_f64 (np_Y p) \<and> finite_f64 (np_DwellS p)) pts"

definition route_statuses :: "string list" where
  "route_statuses = [''queued'', ''dispatched'', ''accepted'', ''running'', ''completed'', ''cancel_requested'',
     ''cancelled'', ''cancel_rejected'', ''rejected'', ''failed'']"

text \<open>The statement keeps the vehicle and the creation time of a row that exists already.\<close>

definition upsert_route :: "ext \<Rightarrow> NavRoute \<Rightarrow> db \<Rightarrow> (unit \<times> db) option" where
  "upsert_route x rt d =
    (let ts = x_ts x;
         row = rt\<lparr>rt_created_ns := ts (rt_created_ns rt), rt_dispatched_ns := nullableTime ts (rt_dispatched_ns rt),
                  rt_ack_ns := nullableTime ts (rt_ack_ns rt), rt_updated_ns := updatedTime ts (rt_updated_ns rt) (rt_created_ns rt)\<rparr>
     in if rt_status rt \<notin> set route_statuses \<or> rt_current_point rt < 0 then None
        else if rt_id rt \<in> rt_id ` set (navigation_routes d) then
          Some ((), d\<lparr>navigation_routes := update_where (\<lambda>r. rt_id r = rt_id rt)
            (\<lambda>r. row\<lparr>rt_vehicle := rt_vehicle r, rt_created_ns := rt_created_ns r\<rparr>) (navigation_routes d)\<rparr>)
        else if \<not> vehicle_exists d (rt_vehicle rt) then None
        else Some ((), d\<lparr>navigation_routes := navigation_routes d @ [row]\<rparr>))"

definition persistTx :: "ext \<Rightarrow> NavRoute \<Rightarrow> (nav_error, unit) tx" where
  "persistTx x rt = tx_bind (tx_guard (points_json (rt_points rt)) NavJson) (\<lambda>_. tx_stmt (upsert_route x rt))"

text \<open>What one call reads from outside: clocks, and the random bytes of the route and of the outbox.\<close>

record nav_readings =
  nr_created :: int
  nr_now :: int
  nr_publish :: int
  nr_mono :: u64
  nr_updated :: int
  nr_route :: string
  nr_out :: "string option"

definition queue_body ::
  "ext \<Rightarrow> nav_readings \<Rightarrow> NavRoute \<Rightarrow> NavigationCommand \<Rightarrow> nav_error + string \<times> bytes \<Rightarrow> (nav_error, unit) tx" where
  "queue_body x rd rt cmd env =
    tx_bind (persistTx x rt) (\<lambda>_.
      case env of Inl e \<Rightarrow> tx_fail e
      | Inr (gatewayID, b) \<Rightarrow> tx_map_err NavOutbox
          (enqueueOutboxTx x (nr_now rd) (nr_out rd) gatewayID ''navigation'' ''navigation_route'' (nc_route_id cmd) b))"

text \<open>The envelope is built once the row was written: only then is a sequence number used up.\<close>

definition row_written :: "ext \<Rightarrow> NavRoute \<Rightarrow> txs \<Rightarrow> bool" where
  "row_written x rt s \<longleftrightarrow> \<not> faulty (snd s) \<and> is_ok (fst (persistTx x rt (fst s, tl (snd s))))"

definition persistAndQueue ::
  "wire \<Rightarrow> (NavigationCommand \<Rightarrow> bytes option) \<Rightarrow> ext \<Rightarrow> nav_readings \<Rightarrow> NavRoute \<Rightarrow> NavigationCommand \<Rightarrow> world \<Rightarrow>
   (nav_error tx_error + unit) \<times> world" where
  "persistAndQueue w marshal x rd rt cmd ws =
    (let (env, st') = navigationEnvelope w marshal (nr_publish rd) (nr_mono rd) cmd (fst ws);
         (r, s') = run_tx (queue_body x rd rt cmd env) (snd ws)
     in (r, (if row_written x rt (snd ws) then st' else fst ws, s')))"

section \<open>Submitting\<close>

definition bad_point :: "NavPoint \<Rightarrow> bool" where
  "bad_point p \<longleftrightarrow> is_nan (np_X p) \<or> is_inf (np_X p) \<or> is_nan (np_Y p) \<or> is_inf (np_Y p) \<or> f64_lt (np_DwellS p) (Fin 0) \<or>
     is_nan (np_DwellS p) \<or> is_inf (np_DwellS p) \<or> np_AtNS p < 0"

fun check_points :: "nat \<Rightarrow> NavPoint list \<Rightarrow> nav_error + NavPoint list" where
  "check_points i [] = Inr []"
| "check_points i (p # ps) =
    (if bad_point p then Inl (NavBadPoint (i + 1))
     else case check_points (i + 1) ps of
            Inl e \<Rightarrow> Inl e
          | Inr qs \<Rightarrow> Inr ((if np_Name p = [] then p\<lparr>np_Name := ''P'' @ nat_digits (i + 1)\<rparr> else p) # qs))"

text \<open>The default name joins the names of the ends by a blank, an arrow (U+2192) and a blank.\<close>

definition default_name :: "NavPoint list \<Rightarrow> string" where
  "default_name pts = np_Name (hd pts) @ [CHR '' '', CHR 0xE2, CHR 0x86, CHR 0x92, CHR '' ''] @ np_Name (last pts)"

definition nav_command :: "NavigationAction \<Rightarrow> NavRoute \<Rightarrow> NavPoint list \<Rightarrow> NavigationCommand" where
  "nav_command action rt pts =
    \<lparr>nc_version = 1, nc_action = action, nc_route_id = rt_id rt, nc_vehicle_id = rt_vehicle rt, nc_name = rt_name rt,
     nc_trace_id = rt_trace_id rt, nc_points = pts\<rparr>"

definition new_route ::
  "nav_readings \<Rightarrow> string \<Rightarrow> string \<Rightarrow> string \<Rightarrow> string \<Rightarrow> string \<Rightarrow> NavPoint list \<Rightarrow> NavRoute" where
  "new_route rd vehicleID name origin traceID remark pts =
    \<lparr>rt_id = ''nav-'' @ nr_route rd, rt_vehicle = vehicleID, rt_name = (if name = [] then default_name pts else name),
     rt_remark = trimRune remark 200, rt_points = pts, rt_status = ''queued'', rt_created_ns = nr_created rd,
     rt_dispatched_ns = 0, rt_ack_result = [], rt_ack_detail = [], rt_current_point = 0, rt_ack_ns = 0,
     rt_updated_ns = nr_created rd, rt_trace_id = traceID, rt_origin = origin\<rparr>"

definition put_route :: "NavRoute \<Rightarrow> State \<Rightarrow> State" where
  "put_route rt st = st\<lparr>st_navStore := AList.update (rt_id rt) rt (st_navStore st)\<rparr>"

definition Submit ::
  "wire \<Rightarrow> (NavigationCommand \<Rightarrow> bytes option) \<Rightarrow> ext \<Rightarrow> nav_readings \<Rightarrow>
   string \<Rightarrow> string \<Rightarrow> string \<Rightarrow> string \<Rightarrow> string \<Rightarrow> NavPoint list \<Rightarrow> world \<Rightarrow> (nav_error tx_error + NavRoute) \<times> world" where
  "Submit w marshal x rd vehicleID name origin traceID remark pts0 ws =
    (if vehicleID = [] then (Inl (Dom NavNoVehicle), ws)
     else if length pts0 < 2 \<or> length pts0 > 1000 then (Inl (Dom NavPointCount), ws)
     else case check_points 0 pts0 of
       Inl e \<Rightarrow> (Inl (Dom e), ws)
     | Inr pts \<Rightarrow>
        (let rt = new_route rd vehicleID name origin traceID remark pts
         in (case persistAndQueue w marshal x rd rt (nav_command NAVIGATION_ACTION_DISPATCH rt pts) ws of
               (Inl e, ws') \<Rightarrow> (Inl e, ws')
             | (Inr _, ws') \<Rightarrow>
                 (Inr rt, pushEvent (nr_now rd) ''info'' vehicleID (TxtRouteQueued (rt_id rt)) ''sys'' (put_route rt (fst ws'), snd ws')))))"

section \<open>Cancelling\<close>

definition route_of :: "State \<Rightarrow> string \<Rightarrow> NavRoute option" where
  "route_of st i = map_of (st_navStore st) i"

definition closed_status :: "string \<Rightarrow> bool" where
  "closed_status s \<longleftrightarrow> s \<in> {''completed'', ''cancelled'', ''cancel_rejected'', ''rejected'', ''failed''}"

datatype cancel_view = AlreadyRequested NavRoute | CancelCopy NavRoute

text \<open>Phase 1, under the lock: read the route and take a copy.\<close>

definition cancel_read :: "string \<Rightarrow> State \<Rightarrow> nav_error + cancel_view" where
  "cancel_read i st =
    (case route_of st i of
       None \<Rightarrow> Inl (NavUnknown i)
     | Some rt \<Rightarrow>
        if rt_status rt = ''cancel_requested'' then Inr (AlreadyRequested rt)
        else if closed_status (rt_status rt) then Inl (NavNotCancellable i (rt_status rt))
        else Inr (CancelCopy (rt\<lparr>rt_status := ''cancel_requested''\<rparr>)))"

text \<open>Phase 2, without the lock: store the copy and queue the command.\<close>

definition cancel_persist ::
  "wire \<Rightarrow> (NavigationCommand \<Rightarrow> bytes option) \<Rightarrow> ext \<Rightarrow> nav_readings \<Rightarrow> NavRoute \<Rightarrow> world \<Rightarrow> (nav_error tx_error + unit) \<times> world" where
  "cancel_persist w marshal x rd copy ws =
     persistAndQueue w marshal x rd copy (nav_command NAVIGATION_ACTION_CANCEL copy []) ws"

text \<open>Phase 3, under the lock again: mark the route itself.\<close>

definition cancel_finish :: "nav_readings \<Rightarrow> NavRoute \<Rightarrow> world \<Rightarrow> world" where
  "cancel_finish rd copy ws =
    (let st' = (case route_of (fst ws) (rt_id copy) of
                  None \<Rightarrow> fst ws
                | Some rt \<Rightarrow> put_route (rt\<lparr>rt_status := ''cancel_requested'', rt_updated_ns := nr_updated rd\<rparr>) (fst ws))
     in pushEvent (nr_now rd) ''warn'' (rt_vehicle copy) (TxtRouteCancel (rt_id copy)) ''sys'' (st', snd ws))"

definition Cancel ::
  "wire \<Rightarrow> (NavigationCommand \<Rightarrow> bytes option) \<Rightarrow> ext \<Rightarrow> nav_readings \<Rightarrow> string \<Rightarrow> world \<Rightarrow> (nav_error tx_error + NavRoute) \<times> world" where
  "Cancel w marshal x rd i ws =
    (case cancel_read i (fst ws) of
       Inl e \<Rightarrow> (Inl (Dom e), ws)
     | Inr (AlreadyRequested rt) \<Rightarrow> (Inr rt, ws)
     | Inr (CancelCopy copy) \<Rightarrow>
        (case cancel_persist w marshal x rd copy ws of
           (Inl e, ws') \<Rightarrow> (Inl e, ws')
         | (Inr _, ws') \<Rightarrow> (Inr (copy\<lparr>rt_updated_ns := nr_updated rd\<rparr>), cancel_finish rd copy ws')))"

section \<open>Delivery to the broker\<close>

definition dispatch_rows :: "int \<Rightarrow> string \<Rightarrow> db \<Rightarrow> nat \<times> db" where
  "dispatch_rows now i d =
    (let p = (\<lambda>r. rt_id r = i \<and> (rt_status r = ''queued'' \<or> rt_status r = ''cancel_requested''))
     in (count_where p (navigation_routes d),
         d\<lparr>navigation_routes := update_where p
            (\<lambda>r. r\<lparr>rt_status := (if rt_status r = ''queued'' then ''dispatched'' else rt_status r),
                   rt_dispatched_ns := (if rt_status r = ''queued'' then now else rt_dispatched_ns r), rt_updated_ns := now\<rparr>)
            (navigation_routes d)\<rparr>))"

definition markDispatched :: "ext \<Rightarrow> int \<Rightarrow> string \<Rightarrow> world \<Rightarrow> world" where
  "markDispatched x now i ws =
    (if i = [] then ws
     else case (tx_stmt (\<lambda>d. Some (dispatch_rows (x_ts x now) i d)) :: (nav_error, nat) tx) (snd ws) of
       (Inl _, s') \<Rightarrow> (fst ws, s')
     | (Inr n, s') \<Rightarrow>
        if n \<noteq> 1 then (fst ws, s')
        else (case route_of (fst ws) i of
                None \<Rightarrow> (fst ws, s')
              | Some rt \<Rightarrow>
                  let rt' = (if rt_status rt = ''queued'' then rt\<lparr>rt_status := ''dispatched'', rt_dispatched_ns := now\<rparr> else rt)\<lparr>rt_updated_ns := now\<rparr>;
                      ws' = (put_route rt' (fst ws), s')
                  in if rt_vehicle rt \<noteq> [] then pushEvent now ''info'' (rt_vehicle rt) (TxtRouteDispatched i) ''sys'' ws' else ws'))"

section \<open>Acknowledgements of the vehicle\<close>

definition navigationAckTransition :: "string \<Rightarrow> NavigationAction \<Rightarrow> NavigationResult \<Rightarrow> string option" where
  "navigationAckTransition current action result =
    (case action of
       NAVIGATION_ACTION_DISPATCH \<Rightarrow>
        (case result of
           NAVIGATION_RESULT_ACCEPTED \<Rightarrow>
             if current \<in> {''queued'', ''dispatched'', ''accepted''} then Some ''accepted'' else None
         | NAVIGATION_RESULT_STARTED \<Rightarrow>
             if current \<in> {''queued'', ''dispatched'', ''accepted'', ''running''} then Some ''running'' else None
         | NAVIGATION_RESULT_COMPLETED \<Rightarrow>
             if current \<in> {''queued'', ''dispatched'', ''accepted'', ''running'', ''completed''} then Some ''completed'' else None
         | NAVIGATION_RESULT_REJECTED \<Rightarrow>
             if current \<in> {''queued'', ''dispatched'', ''accepted'', ''running'', ''rejected''} then Some ''rejected'' else None
         | NAVIGATION_RESULT_FAILED \<Rightarrow>
             if current \<in> {''queued'', ''dispatched'', ''accepted'', ''running'', ''failed''} then Some ''failed'' else None
         | _ \<Rightarrow> None)
     | NAVIGATION_ACTION_CANCEL \<Rightarrow>
        (case result of
           NAVIGATION_RESULT_ACCEPTED \<Rightarrow> if current = ''cancel_requested'' then Some ''cancel_requested'' else None
         | NAVIGATION_RESULT_CANCELLED \<Rightarrow> if current \<in> {''cancel_requested'', ''cancelled''} then Some ''cancelled'' else None
         | NAVIGATION_RESULT_REJECTED \<Rightarrow> if current \<in> {''cancel_requested'', ''cancel_rejected''} then Some ''cancel_rejected'' else None
         | NAVIGATION_RESULT_FAILED \<Rightarrow> if current \<in> {''cancel_requested'', ''cancel_rejected''} then Some ''cancel_rejected'' else None
         | _ \<Rightarrow> None)
     | _ \<Rightarrow> None)"

definition route_row_of :: "db \<Rightarrow> string \<Rightarrow> route_row option" where
  "route_row_of d i = find (\<lambda>r. rt_id r = i) (navigation_routes d)"

definition ack_projection :: "NavigationAck \<Rightarrow> string \<Rightarrow> int \<Rightarrow> route_row \<Rightarrow> route_row" where
  "ack_projection ack nxt now r =
     r\<lparr>rt_status := nxt, rt_ack_result := NavigationResult_String (na_result ack), rt_ack_detail := trimRune (na_detail ack) 1000,
       rt_current_point := uint (na_current_point ack), rt_ack_ns := now, rt_updated_ns := now\<rparr>"

definition nav_ack_body ::
  "ext \<Rightarrow> int \<Rightarrow> string \<Rightarrow> string \<Rightarrow> string \<Rightarrow> u64 \<Rightarrow> NavigationAck \<Rightarrow> (nav_error, string) tx" where
  "nav_ack_body x now vehicleID gatewayID sessionID sq ack =
    tx_bind (tx_query (\<lambda>d. route_row_of d (na_route_id ack))) (\<lambda>row.
      case row of None \<Rightarrow> tx_fail AckNoRoute | Some r \<Rightarrow>
      tx_bind (tx_guard (rt_vehicle r = vehicleID) AckVehicle) (\<lambda>_.
      tx_bind (tx_guard (length (rt_points r) \<ge> 2) AckPoints) (\<lambda>_.
      tx_bind (tx_guard (\<not> uint (na_current_point ack) > int (length (rt_points r))) AckRange) (\<lambda>_.
      case navigationAckTransition (rt_status r) (na_action ack) (na_result ack) of
        None \<Rightarrow> tx_fail AckTransition
      | Some nxt \<Rightarrow>
         tx_bind (tx_map_err AckReg (AcceptInboundSequenceTx vehicleID gatewayID ''platform.v1.NavigationAck'' sessionID sq)) (\<lambda>accepted.
         tx_bind (tx_guard accepted AckNotAccepted) (\<lambda>_.
         tx_bind (tx_exec (\<lambda>d. d\<lparr>navigation_routes := update_where (\<lambda>r. rt_id r = na_route_id ack)
                    (ack_projection ack nxt (x_ts x now)) (navigation_routes d)\<rparr>)) (\<lambda>_.
         tx_ret nxt)))))))"

definition ack_level :: "string \<Rightarrow> string" where
  "ack_level nxt = (if nxt = ''cancelled'' then ''warn''
     else if nxt \<in> {''rejected'', ''failed'', ''cancel_rejected''} then ''critical'' else ''info'')"

definition HandleNavigationAck ::
  "ext \<Rightarrow> int \<Rightarrow> string \<Rightarrow> string \<Rightarrow> string \<Rightarrow> string \<Rightarrow> u64 \<Rightarrow> NavigationAck \<Rightarrow> world \<Rightarrow> (nav_error tx_error + bool) \<times> world" where
  "HandleNavigationAck x now vehicleID gatewayID sourceLink sessionID sq ack ws =
    (if vehicleID = [] \<or> gatewayID = [] \<or> sourceLink = [] \<or> sessionID = [] \<or> sq = 0 \<or> na_version ack \<noteq> 1 \<or>
        na_vehicle_id ack \<noteq> vehicleID \<or> na_route_id ack = [] \<or> na_action ack = NAVIGATION_ACTION_UNSPECIFIED \<or>
        na_result ack = NAVIGATION_RESULT_UNSPECIFIED
     then (Inl (Dom AckFields), ws)
     else case run_tx (nav_ack_body x now vehicleID gatewayID sessionID sq ack) (snd ws) of
       (Inl (Dom AckNotAccepted), s') \<Rightarrow> (Inr False, (fst ws, s'))
     | (Inl e, s') \<Rightarrow> (Inl e, (fst ws, s'))
     | (Inr nxt, s') \<Rightarrow>
        (let st' = (case route_of (fst ws) (na_route_id ack) of
                      None \<Rightarrow> fst ws
                    | Some rt \<Rightarrow> put_route (ack_projection ack nxt now rt) (fst ws))
         in (Inr True, pushEvent now (ack_level nxt) vehicleID
               (TxtRouteAck (na_route_id ack) nxt (trimRune (na_detail ack) 240)) ''veh'' (st', s'))))"

section \<open>Reading\<close>

definition nav_load :: "txs \<Rightarrow> State \<Rightarrow> State" where
  "nav_load s st =
    (if faulty (snd s) then st
     else fold (\<lambda>r st. if length (rt_points r) < 2 then st else put_route r st) (order_desc rt_created_ns (navigation_routes (fst s))) st)"

definition nav_List :: "State \<Rightarrow> NavRoute list" where
  "nav_List st = order_desc rt_created_ns (map snd (st_navStore st))"

definition nav_Get :: "State \<Rightarrow> string \<Rightarrow> NavRoute option" where
  "nav_Get st i = route_of st i"

definition ForVehicle :: "State \<Rightarrow> string \<Rightarrow> NavRoute option" where
  "ForVehicle st v = find (\<lambda>r. rt_vehicle r = v) (nav_List st)"

end
