(* ===== verification/Fleet_Frame.thy ===== *)
theory Fleet_Frame
  imports Fleet_State_Props
begin

text \<open>
  What the live fleet state leaves alone. Registration, telemetry, the sweep, the queue of writes and
  the retention job write seven tables; a view of the database that reads none of these is the same
  before and after every operation of the fleet state. The components that keep other tables
  (routes, map publications) interpret the locale on their own view.
\<close>

locale fleet_view =
  fixes view :: "db \<Rightarrow> 'v"
  assumes view_vehicles [simp]: "view (d\<lparr>vehicles := a\<rparr>) = view d"
    and view_states [simp]: "view (d\<lparr>vehicle_states := b\<rparr>) = view d"
    and view_events [simp]: "view (d\<lparr>fleet_events := c\<rparr>) = view d"
    and view_samples [simp]: "view (d\<lparr>telemetry_samples := e\<rparr>) = view d"
    and view_cursors [simp]: "view (d\<lparr>inbound_message_cursors := f\<rparr>) = view d"
    and view_dedup [simp]: "view (d\<lparr>inbound_message_dedup := g\<rparr>) = view d"
    and view_key_use [simp]: "view (d\<lparr>api_keys := h\<rparr>) = view d"
begin

lemma view_insert_samples: "view (fst (snd (insert_samples rs s))) = view (fst s)"
  by (induction rs arbitrary: s) (auto simp: tx_ret_def tx_bind_def tx_exec_eq)

lemma view_run_job [simp]: "view (fst (run_job now job s)) = view (fst s)"
  by (cases job) (auto simp: run_job_def job_tx_def view_insert_samples tx_exec_eq tx_bind_def
      upsert_registered_def lifecycle_seen_def upsert_state_row_def)

lemma view_submitDB [simp]: "view (fst (snd (submitDB now job ws))) = view (fst (snd ws))"
  by (simp add: submitDB_def)

lemma view_pushEvent [simp]: "view (fst (snd (pushEvent now level i txt kind ws))) = view (fst (snd ws))"
  by (simp add: pushEvent_db)

lemma view_after_telemetry [simp]: "view (fst (snd (after_telemetry now i before nxt ws))) = view (fst (snd ws))"
  by (simp add: after_telemetry_def Let_def onModeChange_def)

lemma view_report_gone [simp]: "view (fst (snd (report_gone now is ws))) = view (fst (snd ws))"
  by (induction "is" arbitrary: ws) auto

lemma view_accept:
  "AcceptInboundSequenceTx v g mt sid sq (d, fs) = (Inr a, (d', fs')) \<Longrightarrow> view d' = view d"
  by (auto simp: AcceptInboundSequenceTx_def advance_cursor_def insert_dedup_def split: if_splits option.splits)

lemma view_persistTelemetryTx:
  "persistTelemetryTx x v sigs now doSample (d, fs) = (Inr u, (d', fs')) \<Longrightarrow> view d' = view d"
  by (auto simp: persistTelemetryTx_def upsert_state_row_def split: if_splits dest!: insert_samples_Inr)

lemma view_telemetry_body:
  "telemetry_body x i g mt sid sq nxt sigs now doSample (d, fs) = (Inr u, (d', fs')) \<Longrightarrow> view d' = view d"
  by (auto simp: telemetry_body_def dest!: view_persistTelemetryTx view_accept)

lemma view_ApplyTelemetryDurably: "view (fst (snd (snd (ApplyTelemetryDurably fl x now i g mt sid sq sigs ws)))) = view (fst (snd ws))"
proof -
  have "view (fst (snd (run_tx (telemetry_body x i g mt sid sq nxt sigs t smp) (fst s, snd s)))) = view (fst s)"
    for nxt t smp s by (rule run_tx_keeps) (auto dest: view_telemetry_body)
  then have "run_tx (telemetry_body x i g mt sid sq nxt sigs t smp) s = (r, s') \<Longrightarrow> view (fst s') = view (fst s)"
    for nxt t smp r s s' by (metis prod.collapse snd_conv)
  then show ?thesis
    by (auto simp: ApplyTelemetryDurably_def Let_def case_prod_unfold split: sum.splits tx_error.splits telemetry_error.splits)
       (metis fst_conv prod.collapse snd_conv)+
qed

lemma view_fleet_step [simp]: "view (fst (snd (fleet_step fl x ws op))) = view (fst (snd ws))"
proof (cases op)
  case (OpManual now i g ch grp)
  then show ?thesis
    by (auto simp: RegisterVehicle_def Let_def tx_exec_eq upsert_manual_def)
qed (auto simp: HandleRegister_def HandleTelemetry_def persistVehicleState_def persistSample_def onlineSweep_def dbLoop_step_def
    retention_tick_def view_ApplyTelemetryDurably Let_def split: list.splits)

end

end
