(* ===== verification/Navigation_Props.thy ===== *)
theory Navigation_Props
  imports Navigation Fleet_Frame
begin

text \<open>
  Routes move forward only, whatever order acknowledgements arrive in; a route and its command
  are stored together; and the window \<open>Cancel\<close> leaves open.
\<close>

section \<open>The status machine\<close>

definition nav_rank :: "string \<Rightarrow> nat" where
  "nav_rank s = (if s = ''queued'' then 0 else if s = ''dispatched'' then 1 else if s = ''accepted'' then 2
     else if s = ''running'' then 3 else if s = ''cancel_requested'' then 4 else if closed_status s then 5 else 0)"

text \<open>The edges of the machine, checked one by one.\<close>

definition nav_edges :: "(string \<times> string) list" where
  "nav_edges =
    [(''queued'', ''accepted''), (''dispatched'', ''accepted''), (''accepted'', ''accepted''),
     (''queued'', ''running''), (''dispatched'', ''running''), (''accepted'', ''running''), (''running'', ''running''),
     (''queued'', ''completed''), (''dispatched'', ''completed''), (''accepted'', ''completed''), (''running'', ''completed''), (''completed'', ''completed''),
     (''queued'', ''rejected''), (''dispatched'', ''rejected''), (''accepted'', ''rejected''), (''running'', ''rejected''), (''rejected'', ''rejected''),
     (''queued'', ''failed''), (''dispatched'', ''failed''), (''accepted'', ''failed''), (''running'', ''failed''), (''failed'', ''failed''),
     (''cancel_requested'', ''cancel_requested''), (''cancel_requested'', ''cancelled''), (''cancelled'', ''cancelled''),
     (''cancel_requested'', ''cancel_rejected''), (''cancel_rejected'', ''cancel_rejected'')]"

lemma transition_edge: "navigationAckTransition s a r = Some t \<Longrightarrow> (s, t) \<in> set nav_edges"
  unfolding nav_edges_def
  by (cases a; cases r; simp add: navigationAckTransition_def split: if_split_asm; elim disjE; simp)

lemma nav_edges_forward:
  "list_all (\<lambda>(s, t). nav_rank s \<le> nav_rank t \<and> (closed_status s \<longrightarrow> t = s) \<and> t \<in> set route_statuses) nav_edges"
  by code_simp

lemma transition_cases:
  assumes "navigationAckTransition s a r = Some t"
  shows "nav_rank s \<le> nav_rank t" and "closed_status s \<Longrightarrow> t = s" and "t \<in> set route_statuses"
  using nav_edges_forward transition_edge [OF assms] by (auto simp: list_all_iff)

interpretation nav: status_machine "\<lambda>s (a, r). navigationAckTransition s a r" nav_rank closed_status
proof unfold_locales
  fix s t and e :: "NavigationAction \<times> NavigationResult"
  assume "(case e of (a, r) \<Rightarrow> navigationAckTransition s a r) = Some t"
  then obtain a r where "navigationAckTransition s a r = Some t" by (cases e) auto
  from transition_cases [OF this] show "nav_rank s \<le> nav_rank t" and "closed_status s \<Longrightarrow> t = s" by blast+
qed

section \<open>What an acknowledgement does to the database\<close>

text \<open>The rest of the fleet state never touches a route.\<close>

interpretation nav_view: fleet_view navigation_routes
  by unfold_locales auto

definition nav_status :: "db \<Rightarrow> string \<Rightarrow> string option" where
  "nav_status d i = map_option rt_status (route_row_of d i)"

lemma nav_ack_body_Inr:
  assumes "nav_ack_body x now v g sid sq ack (d, fs) = (Inr nxt, (d', fs'))"
  obtains r where "route_row_of d (na_route_id ack) = Some r" "rt_vehicle r = v"
    "navigationAckTransition (rt_status r) (na_action ack) (na_result ack) = Some nxt"
    "uint (na_current_point ack) \<le> int (length (rt_points r))"
    "cursor (v, g, ''platform.v1.NavigationAck'', sid) d < uint sq"
    "cursor (v, g, ''platform.v1.NavigationAck'', sid) d' = uint sq"
    "navigation_routes d' = update_where (\<lambda>r. rt_id r = na_route_id ack) (ack_projection ack nxt (x_ts x now)) (navigation_routes d)"
proof -
  from assms obtain r where r: "route_row_of d (na_route_id ack) = Some r"
    by (auto simp: nav_ack_body_def split: option.splits)
  from assms r obtain t where t: "navigationAckTransition (rt_status r) (na_action ack) (na_result ack) = Some t"
    by (auto simp: nav_ack_body_def split: option.splits)
  from assms r t obtain d1 hs where [simp]: "nxt = t"
    and g: "rt_vehicle r = v" "uint (na_current_point ack) \<le> int (length (rt_points r))"
    and acc: "AcceptInboundSequenceTx v g ''platform.v1.NavigationAck'' sid sq (d, tl fs) = (Inr True, (d1, hs))"
    and d': "d' = d1\<lparr>navigation_routes := update_where (\<lambda>r. rt_id r = na_route_id ack) (ack_projection ack t (x_ts x now)) (navigation_routes d1)\<rparr>"
    by (auto simp: nav_ack_body_def)
  have "navigation_routes d1 = navigation_routes d"
    using acc by (rule nav_view.view_accept)
  moreover from acc have "cursor (v, g, ''platform.v1.NavigationAck'', sid) d < uint sq"
    "cursor (v, g, ''platform.v1.NavigationAck'', sid) d1 = uint sq"
    by (cases rule: AcceptInboundSequenceTx_Inr; simp)+
  ultimately show thesis using that r t g d' by (simp add: cursor_def)
qed

lemma route_row_update:
  assumes "\<And>r. rt_id (u r) = rt_id r"
  shows "find (\<lambda>r. rt_id r = i) (update_where (\<lambda>r. rt_id r = j \<and> p r) u rs) =
    map_option (\<lambda>r. if rt_id r = j \<and> p r then u r else r) (find (\<lambda>r. rt_id r = i) rs)"
  by (rule find_update_where) (simp add: assms)

lemma ack_projection_id [simp]: "rt_id (ack_projection ack nxt now r) = rt_id r"
  "rt_status (ack_projection ack nxt now r) = nxt"
  by (simp_all add: ack_projection_def)

text \<open>The two outcomes of a call.\<close>

lemma HandleNavigationAck_cases:
  assumes "HandleNavigationAck x now v g l sid sq ack (st, (d, fs)) = (r, (st', (d', fs')))"
  obtains (kept) "r \<noteq> Inr True" "st' = st" "d' = d"
  | (advanced) nxt d1 gs where "r = Inr True" "nav_ack_body x now v g sid sq ack (d, tl fs) = (Inr nxt, (d1, gs))"
      "st_navStore st' = (case route_of st (na_route_id ack) of None \<Rightarrow> st_navStore st
         | Some rt \<Rightarrow> AList.update (rt_id rt) (ack_projection ack nxt now rt) (st_navStore st))"
      "navigation_routes d' = navigation_routes d1" "inbound_message_cursors d' = inbound_message_cursors d1"
proof (rule run_tx_cases [of "nav_ack_body x now v g sid sq ack" d fs])
  fix e fs1
  assume "run_tx (nav_ack_body x now v g sid sq ack) (d, fs) = (Inl e, (d, fs1))"
  with assms kept show thesis
    by (auto simp: HandleNavigationAck_def split: if_splits tx_error.splits nav_error.splits)
next
  fix nxt d1 gs fs1
  assume run: "run_tx (nav_ack_body x now v g sid sq ack) (d, fs) = (Inr nxt, (d1, fs1))"
    and body: "nav_ack_body x now v g sid sq ack (d, tl fs) = (Inr nxt, (d1, gs))"
  let ?st = "case route_of st (na_route_id ack) of None \<Rightarrow> st | Some rt \<Rightarrow> put_route (ack_projection ack nxt now rt) st"
  let ?ws = "pushEvent now (ack_level nxt) v (TxtRouteAck (na_route_id ack) nxt (trimRune (na_detail ack) 240)) ''veh'' (?st, (d1, fs1))"
  from assms run consider "r = Inl (Dom AckFields)" "st' = st" "d' = d" | "r = Inr True" "(st', (d', fs')) = ?ws"
    by (auto simp: HandleNavigationAck_def Let_def split: if_splits cong: option.case_cong)
  then show thesis
  proof cases
    case 2
    have "st_navStore st' = st_navStore ?st"
      using arg_cong [OF 2(2), of fst] by (simp add: pushEvent_def submitDB_def Let_def)
    moreover have "navigation_routes d' = navigation_routes d1" "inbound_message_cursors d' = inbound_message_cursors d1"
      using arg_cong [OF 2(2), of "\<lambda>ws. fst (snd ws)"] by (simp_all add: pushEvent_db)
    ultimately show thesis using advanced [OF 2(1) body] by (auto simp: put_route_def split: option.splits)
  qed (use kept in simp)
qed

section \<open>Runs\<close>

datatype nav_op =
    NavAck int string string string string u64 NavigationAck
  | NavDispatched int string
  | NavFleet fleet_op

text \<open>What the broker side does to routes, in any order with the rest of the fleet state.\<close>

fun nav_step :: "(rat \<Rightarrow> float64) \<Rightarrow> ext \<Rightarrow> world \<Rightarrow> nav_op \<Rightarrow> world" where
  "nav_step fl x ws (NavAck now v g l sid sq ack) = snd (HandleNavigationAck x now v g l sid sq ack ws)"
| "nav_step fl x ws (NavDispatched now i) = markDispatched x now i ws"
| "nav_step fl x ws (NavFleet op) = fleet_step fl x ws op"


definition nav_epoch :: "string \<Rightarrow> db \<Rightarrow> int" where
  "nav_epoch i d = (case nav_status d i of None \<Rightarrow> -1 | Some s \<Rightarrow> int (nav_rank s))"

text \<open>One step, seen from one route: nothing, a move of the machine, or the dispatch of a queued route.\<close>

lemma nav_step_status:
  "nav_status (fst (snd (nav_step fl x ws e))) i = nav_status (fst (snd ws)) i \<or>
   (\<exists>s t. nav_status (fst (snd ws)) i = Some s \<and> nav_status (fst (snd (nav_step fl x ws e))) i = Some t \<and>
      nav_rank s \<le> nav_rank t \<and> (closed_status s \<longrightarrow> t = s))"
proof (cases e)
  case (NavAck now v g l sid sq ack)
  obtain st d fs r st' d' fs' where ws: "ws = (st, (d, fs))"
    and call: "HandleNavigationAck x now v g l sid sq ack (st, (d, fs)) = (r, (st', (d', fs')))"
    by (metis prod.exhaust)
  then have step: "nav_step fl x ws e = (st', (d', fs'))" using NavAck by simp
  from call show ?thesis
  proof (cases rule: HandleNavigationAck_cases)
    case kept
    then show ?thesis using step ws by simp
  next
    case (advanced nxt d1 gs)
    from advanced(2) obtain q where q: "route_row_of d (na_route_id ack) = Some q"
      "navigationAckTransition (rt_status q) (na_action ack) (na_result ack) = Some nxt"
      "navigation_routes d1 = update_where (\<lambda>r. rt_id r = na_route_id ack) (ack_projection ack nxt (x_ts x now)) (navigation_routes d)"
      by (rule nav_ack_body_Inr)
    have "route_row_of d' i = map_option (\<lambda>r. if rt_id r = na_route_id ack then ack_projection ack nxt (x_ts x now) r else r) (route_row_of d i)"
      unfolding route_row_of_def advanced(4) q(3) by (rule find_update_where) simp
    moreover have "rt_id r = i" if "route_row_of d i = Some r" for r
      using that by (auto simp: route_row_of_def find_Some_iff)
    ultimately show ?thesis using step ws q(1) transition_cases [OF q(2)]
      by (cases "i = na_route_id ack"; cases "route_row_of d i") (auto simp: nav_status_def)
  qed
next
  case (NavDispatched now j)
  obtain st d fs where ws: "ws = (st, (d, fs))" by (metis prod.exhaust)
  let ?p = "\<lambda>r. rt_id r = j \<and> (rt_status r = ''queued'' \<or> rt_status r = ''cancel_requested'')"
  let ?u = "\<lambda>r. r\<lparr>rt_status := if rt_status r = ''queued'' then ''dispatched'' else rt_status r,
      rt_dispatched_ns := if rt_status r = ''queued'' then x_ts x now else rt_dispatched_ns r, rt_updated_ns := x_ts x now\<rparr>"
  have "navigation_routes (fst (snd (markDispatched x now j ws))) = navigation_routes d \<or>
        navigation_routes (fst (snd (markDispatched x now j ws))) = update_where ?p ?u (navigation_routes d)"
    by (auto simp: ws markDispatched_def dispatch_rows_def Let_def tx_stmt_def pushEvent_db split: option.splits)
  moreover define h where "h r = (if ?p r then ?u r else r)" for r :: route_row
  have "find (\<lambda>r. rt_id r = i) (update_where ?p ?u (navigation_routes d)) = map_option h (route_row_of d i)"
    unfolding route_row_of_def h_def by (rule find_update_where) simp
  moreover have "nav_rank ''queued'' = 0" "\<not> closed_status ''queued''" by code_simp+
  then have "nav_rank (rt_status r) \<le> nav_rank (rt_status (h r)) \<and> (closed_status (rt_status r) \<longrightarrow> rt_status (h r) = rt_status r)" for r
    by (cases "rt_status r = ''queued''") (simp_all add: h_def)
  ultimately show ?thesis using NavDispatched ws
    by (cases "route_row_of d i") (auto simp: nav_status_def route_row_of_def)
qed (simp add: nav_status_def route_row_of_def)

interpretation nav_forward: epoch_machine "nav_step fl x" "\<lambda>ws. nav_epoch i (fst (snd ws))" for fl x i
proof unfold_locales
  show "nav_epoch i (fst (snd ws)) \<le> nav_epoch i (fst (snd (nav_step fl x ws e)))" for ws :: world and e
    using nav_step_status [of fl x ws e i] by (auto simp: nav_epoch_def)
qed

interpretation nav_closed: invariant_machine "nav_step fl x" "\<lambda>ws. closed_status s \<and> nav_status (fst (snd ws)) i = Some s" for fl x s i
proof unfold_locales
  show "closed_status s \<and> nav_status (fst (snd (nav_step fl x ws e))) i = Some s"
    if "closed_status s \<and> nav_status (fst (snd ws)) i = Some s" for ws :: world and e
    using that nav_step_status [of fl x ws e i] by auto
qed


section \<open>Storing and queueing\<close>

lemma insertOutbox_rows:
  "insertOutbox now i k ty ai g c p (d, fs) = (Inr u, (d', fs')) \<Longrightarrow>
   k \<in> ob_dedupe_key ` set (platform_outbox d') \<and> navigation_routes d' = navigation_routes d"
  by (auto simp: insertOutbox_def new_outbox_row_def split: if_splits)

lemma queue_body_Inr:
  assumes "queue_body x rd rt cmd env (d, fs) = (Inr u, (d', fs'))"
  obtains gw b d1 where "env = Inr (gw, b)" "points_json (rt_points rt)" "upsert_route x rt d = Some ((), d1)"
    "navigation_routes d' = navigation_routes d1"
    "dedupe_key x ''navigation_route'' (nc_route_id cmd) gw ''navigation'' b \<in> ob_dedupe_key ` set (platform_outbox d')"
  using assms
  by (auto simp: queue_body_def persistTx_def enqueueOutboxTx_def split: sum.splits if_splits dest!: insertOutbox_rows)

lemma navigationEnvelope_Inr:
  assumes "navigationEnvelope w marshal now mono_ns cmd st = (Inr (gw, b), st')" and "hmac_size w"
  obtains env payload vs where "vehicle_of st (nc_vehicle_id cmd) = Some vs" "ve_gatewayID vs = gw" "marshal cmd = Some payload"
    "marshal_env w env = Some b" "VerifyEnvelopeAuth w (Some env) (st_envelopeAuthKey st)"
    "env_vehicle_id env = nc_vehicle_id cmd" "env_gateway_id env = gw" "env_payload env = payload"
    "env_session_id env = st_outboundSessionID st" "env_sequence env = outbound_seq st (nc_vehicle_id cmd) + 1"
proof -
  from assms(1) obtain vs payload env where *: "vehicle_of st (nc_vehicle_id cmd) = Some vs" "ve_gatewayID vs = gw" "marshal cmd = Some payload"
    "SignEnvelope w (Some (nav_envelope st now mono_ns cmd gw (outbound_seq st (nc_vehicle_id cmd) + 1) payload)) (st_envelopeAuthKey st) = Inr env"
    "marshal_env w env = Some b"
    by (auto simp: navigationEnvelope_def Let_def split: if_splits option.splits sum.splits)
  from SignEnvelope_verifies [OF assms(2) *(4)] have v: "VerifyEnvelopeAuth w (Some env) (st_envelopeAuthKey st)"
    and e: "env\<lparr>env_auth_tag := []\<rparr> = nav_envelope st now mono_ns cmd gw (outbound_seq st (nc_vehicle_id cmd) + 1) payload"
    by (simp_all add: nav_envelope_def)
  have "env_vehicle_id env = nc_vehicle_id cmd" "env_gateway_id env = gw" "env_payload env = payload"
    "env_session_id env = st_outboundSessionID st" "env_sequence env = outbound_seq st (nc_vehicle_id cmd) + 1"
    using arg_cong [OF e, of env_vehicle_id] arg_cong [OF e, of env_gateway_id] arg_cong [OF e, of env_payload]
      arg_cong [OF e, of env_session_id] arg_cong [OF e, of env_sequence] by (simp_all add: nav_envelope_def)
  with that [OF *(1-3) *(5) v] show thesis by blast
qed

lemma find_append_None: "find P xs = None \<Longrightarrow> find P (xs @ ys) = find P ys"
  by (induction xs) (auto split: if_splits)

lemma upsert_route_status:
  assumes "upsert_route x rt d = Some ((), d')"
  shows "nav_status d' (rt_id rt) = Some (rt_status rt)"
proof (cases "rt_id rt \<in> rt_id ` set (navigation_routes d)")
  case True
  then obtain r where r: "find (\<lambda>r. rt_id r = rt_id rt) (navigation_routes d) = Some r"
    by (cases "find (\<lambda>r. rt_id r = rt_id rt) (navigation_routes d)") (auto simp: find_None_iff)
  have "rt_id r = rt_id rt" using r by (auto simp: find_Some_iff)
  moreover have "find (\<lambda>r. rt_id r = rt_id rt) (update_where (\<lambda>r. rt_id r = rt_id rt) u (navigation_routes d)) =
      Some (u r)" if "\<And>q. rt_id (u q) = rt_id rt" for u
  proof -
    have "find (\<lambda>r. rt_id r = rt_id rt) (update_where (\<lambda>r. rt_id r = rt_id rt) u rs) =
        map_option (\<lambda>r. if rt_id r = rt_id rt then u r else r) (find (\<lambda>r. rt_id r = rt_id rt) rs)" for rs
      by (induction rs) (auto simp: update_where_def that)
    with r show ?thesis using \<open>rt_id r = rt_id rt\<close> by simp
  qed
  ultimately show ?thesis using assms True
    by (auto simp: upsert_route_def Let_def nav_status_def route_row_of_def split: if_splits)
next
  case False
  then have "find (\<lambda>r. rt_id r = rt_id rt) (navigation_routes d) = None" unfolding find_None_iff by (metis image_eqI)
  with False assms show ?thesis
    by (auto simp: upsert_route_def Let_def nav_status_def route_row_of_def find_append_None split: if_splits)
qed

lemma check_points_Inr: "check_points i ps = Inr qs \<Longrightarrow> length qs = length ps \<and> list_all (\<lambda>p. \<not> bad_point p \<and> np_Name p \<noteq> []) qs"
  by (induction ps arbitrary: i qs) (auto simp: bad_point_def split: if_splits sum.splits)


lemma persistAndQueue_cases:
  assumes "persistAndQueue w marshal x rd rt cmd (st, (d, fs)) = (r, (st', (d', fs')))"
  obtains (failed) e where "r = Inl e" "d' = d"
  | (queued) gw b st1 where "r = Inr ()" "navigationEnvelope w marshal (nr_publish rd) (nr_mono rd) cmd st = (Inr (gw, b), st1)"
      "nav_status d' (rt_id rt) = Some (rt_status rt)" "points_json (rt_points rt)"
      "dedupe_key x ''navigation_route'' (nc_route_id cmd) gw ''navigation'' b \<in> ob_dedupe_key ` set (platform_outbox d')"
proof -
  obtain env st1 where env: "navigationEnvelope w marshal (nr_publish rd) (nr_mono rd) cmd st = (env, st1)" by fastforce
  with assms have run: "run_tx (queue_body x rd rt cmd env) (d, fs) = (r, (d', fs'))"
    by (simp add: persistAndQueue_def Let_def case_prod_unfold prod_eq_iff)
  show thesis
  proof (rule run_tx_cases [of "queue_body x rd rt cmd env" d fs])
    fix e fs1
    assume "run_tx (queue_body x rd rt cmd env) (d, fs) = (Inl e, (d, fs1))"
    with run have "r = Inl e" "d' = d" by simp_all
    then show thesis by (rule failed)
  next
    fix u d1 gs fs1
    assume ok: "run_tx (queue_body x rd rt cmd env) (d, fs) = (Inr u, (d1, fs1))"
      and body: "queue_body x rd rt cmd env (d, tl fs) = (Inr u, (d1, gs))"
    from body show thesis
    proof (rule queue_body_Inr)
      fix gw b d2
      assume *: "env = Inr (gw, b)" "points_json (rt_points rt)" "upsert_route x rt d = Some ((), d2)"
        "navigation_routes d1 = navigation_routes d2"
        "dedupe_key x ''navigation_route'' (nc_route_id cmd) gw ''navigation'' b \<in> ob_dedupe_key ` set (platform_outbox d1)"
      have "nav_status d1 (rt_id rt) = Some (rt_status rt)"
        using upsert_route_status [OF *(3)] *(4) by (simp add: nav_status_def route_row_of_def)
      with queued [OF _ env [unfolded *(1)]] * ok run show thesis by auto
    qed
  qed
qed

section \<open>Properties\<close>


text \<open>
  An acknowledgement is applied once and completely: unless the call answers that it was
  accepted, process and database are as before. When it does, the route belongs to the vehicle,
  the stored status and the one the process shows are the successor the machine allows, the
  reported point is one of the route's, and the sequence number was above the session's cursor
  and is the cursor now.
\<close>

theorem nav_ack_atomic:
  assumes "HandleNavigationAck x now v g l sid sq ack (st, (d, fs)) = (r, (st', (d', fs')))"
  shows "if r = Inr True
    then \<exists>row nxt. route_row_of d (na_route_id ack) = Some row \<and> rt_vehicle row = v \<and>
        navigationAckTransition (rt_status row) (na_action ack) (na_result ack) = Some nxt \<and>
        uint (na_current_point ack) \<le> int (length (rt_points row)) \<and>
        nav_status d' (na_route_id ack) = Some nxt \<and>
        (\<forall>rt \<in> set_option (route_of st (na_route_id ack)). rt_id rt = na_route_id ack \<longrightarrow>
           map_option rt_status (route_of st' (na_route_id ack)) = Some nxt) \<and>
        cursor (v, g, ''platform.v1.NavigationAck'', sid) d < uint sq \<and>
        cursor (v, g, ''platform.v1.NavigationAck'', sid) d' = uint sq
    else st' = st \<and> d' = d"
  using assms
proof (cases rule: HandleNavigationAck_cases)
  case (advanced nxt d1 gs)
  from advanced(2) show ?thesis
  proof (rule nav_ack_body_Inr)
    fix row
    assume row: "route_row_of d (na_route_id ack) = Some row" "rt_vehicle row = v"
      "navigationAckTransition (rt_status row) (na_action ack) (na_result ack) = Some nxt"
      "uint (na_current_point ack) \<le> int (length (rt_points row))"
      "cursor (v, g, ''platform.v1.NavigationAck'', sid) d < uint sq"
      "cursor (v, g, ''platform.v1.NavigationAck'', sid) d1 = uint sq"
      "navigation_routes d1 = update_where (\<lambda>r. rt_id r = na_route_id ack) (ack_projection ack nxt (x_ts x now)) (navigation_routes d)"
    have "route_row_of d' (na_route_id ack) = map_option
        (\<lambda>r. if rt_id r = na_route_id ack then ack_projection ack nxt (x_ts x now) r else r) (route_row_of d (na_route_id ack))"
      unfolding route_row_of_def advanced(4) row(7) by (rule find_update_where) simp
    moreover have "rt_id row = na_route_id ack" using row(1) by (auto simp: route_row_of_def find_Some_iff)
    ultimately have "nav_status d' (na_route_id ack) = Some nxt" using row(1) by (simp add: nav_status_def)
    moreover have "map_option rt_status (route_of st' (na_route_id ack)) = Some nxt"
      if "route_of st (na_route_id ack) = Some rt" "rt_id rt = na_route_id ack" for rt
      using advanced(3) that by (simp add: route_of_def update_conv')
    ultimately show ?thesis using advanced row by (auto simp: cursor_def)
  qed
qed simp

text \<open>
  A submitted route and its command are stored together or not at all: when the call succeeds,
  the route has two to a thousand valid, named points, its row is stored as queued, and the outbox
  holds, for the vehicle's Gateway, an envelope that verifies under the fleet's key, carries the
  command and the next sequence number of this session; when it fails, the database is unchanged.
\<close>

theorem submit_atomic:
  assumes "hmac_size w"
    and "Submit w marshal x rd v name origin tr remark pts (st, (d, fs)) = (r, (st', (d', fs')))"
  shows "case r of Inl e \<Rightarrow> d' = d
    | Inr rt \<Rightarrow> nav_status d' (rt_id rt) = Some ''queued'' \<and> 2 \<le> length (rt_points rt) \<and> length (rt_points rt) \<le> 1000 \<and>
        list_all (\<lambda>p. \<not> bad_point p \<and> np_Name p \<noteq> []) (rt_points rt) \<and> route_of st' (rt_id rt) = Some rt \<and>
        (\<exists>vs env b. vehicle_of st v = Some vs \<and> marshal_env w env = Some b \<and>
          VerifyEnvelopeAuth w (Some env) (st_envelopeAuthKey st) \<and>
          marshal (nav_command NAVIGATION_ACTION_DISPATCH rt (rt_points rt)) = Some (env_payload env) \<and>
          env_vehicle_id env = v \<and> env_gateway_id env = ve_gatewayID vs \<and>
          env_session_id env = st_outboundSessionID st \<and> env_sequence env = outbound_seq st v + 1 \<and>
          dedupe_key x ''navigation_route'' (rt_id rt) (ve_gatewayID vs) ''navigation'' b \<in> ob_dedupe_key ` set (platform_outbox d'))"
proof (cases "v = [] \<or> length pts < 2 \<or> length pts > 1000")
  case True
  then show ?thesis using assms(2) by (auto simp: Submit_def split: if_splits)
next
  case False
  show ?thesis
  proof (cases "check_points 0 pts")
    case (Inl e)
    then show ?thesis using assms(2) False by (auto simp: Submit_def)
  next
    case (Inr qs)
    define rt where "rt = new_route rd v name origin tr remark qs"
    let ?cmd = "nav_command NAVIGATION_ACTION_DISPATCH rt qs"
    obtain r1 st1 d1 fs1 where pq: "persistAndQueue w marshal x rd rt ?cmd (st, (d, fs)) = (r1, (st1, (d1, fs1)))"
      by (metis prod.exhaust)
    have rt [simp]: "rt_status rt = ''queued''" "rt_points rt = qs" "rt_vehicle rt = v" by (simp_all add: rt_def new_route_def)
    from pq show ?thesis
    proof (cases rule: persistAndQueue_cases)
      case (failed e)
      then show ?thesis using assms(2) False Inr pq by (auto simp: Submit_def Let_def rt_def)
    next
      case (queued gw b st2)
      then have w: "r = Inr rt"
        "(st', (d', fs')) = pushEvent (nr_now rd) ''info'' v (TxtRouteQueued (rt_id rt)) ''sys'' (put_route rt st1, (d1, fs1))"
        using assms(2) False Inr pq by (auto simp: Submit_def Let_def rt_def)
      have d': "nav_status d' i = nav_status d1 i" "platform_outbox d' = platform_outbox d1" for i
        using arg_cong [OF w(2), of "\<lambda>ws. fst (snd ws)"] by (simp_all add: pushEvent_db nav_status_def route_row_of_def)
      have "st_navStore st' = st_navStore (put_route rt st1)"
        using arg_cong [OF w(2), of fst] by (simp add: pushEvent_def submitDB_def Let_def)
      then have m: "route_of st' (rt_id rt) = Some rt" by (simp add: route_of_def put_route_def update_conv')
      have nc: "nc_vehicle_id ?cmd = v" "nc_route_id ?cmd = rt_id rt" by (simp_all add: nav_command_def)
      obtain env payload vs where
        e: "vehicle_of st v = Some vs" "ve_gatewayID vs = gw" "marshal ?cmd = Some payload" "marshal_env w env = Some b"
          "VerifyEnvelopeAuth w (Some env) (st_envelopeAuthKey st)" "env_vehicle_id env = v" "env_gateway_id env = gw"
          "env_payload env = payload" "env_session_id env = st_outboundSessionID st" "env_sequence env = outbound_seq st v + 1"
        by (rule navigationEnvelope_Inr [OF queued(2) assms(1), unfolded nc]) (rule that)
      from queued(5) e(2) d'(2) have "dedupe_key x ''navigation_route'' (rt_id rt) (ve_gatewayID vs) ''navigation'' b \<in> ob_dedupe_key ` set (platform_outbox d')"
        by (simp add: nc)
      with e have "\<exists>vs env b. vehicle_of st v = Some vs \<and> marshal_env w env = Some b \<and>
          VerifyEnvelopeAuth w (Some env) (st_envelopeAuthKey st) \<and> marshal ?cmd = Some (env_payload env) \<and>
          env_vehicle_id env = v \<and> env_gateway_id env = ve_gatewayID vs \<and>
          env_session_id env = st_outboundSessionID st \<and> env_sequence env = outbound_seq st v + 1 \<and>
          dedupe_key x ''navigation_route'' (rt_id rt) (ve_gatewayID vs) ''navigation'' b \<in> ob_dedupe_key ` set (platform_outbox d')"
        by blast
      with w(1) m d' queued(3) check_points_Inr [OF Inr] False show ?thesis by simp
    qed
  qed
qed

text \<open>
  \<open>Cancel\<close> can undo a completion. The request copies the route under the lock and stores the
  copy, unconditionally, after releasing it. If the vehicle's acknowledgement of completion is
  accepted in between, the stored route goes from completed back to cancel_requested, from where
  no acknowledgement can make it completed again.
\<close>

theorem cancel_overwrites_completion:
  assumes "cancel_read i (fst ws0) = Inr (CancelCopy copy)" and "rt_id copy = i"
    and "HandleNavigationAck x now v g l sid sq ack ws0 = (Inr True, ws1)"
    and "nav_status (fst (snd ws1)) i = Some ''completed''"
    and "cancel_persist w marshal x rd copy ws1 = (Inr (), ws2)"
  shows "nav_status (fst (snd ws2)) i = Some ''cancel_requested'' \<and>
    (\<forall>a q. navigationAckTransition ''cancel_requested'' a q \<noteq> Some ''completed'')"
proof -
  obtain st1 d1 fs1 st2 d2 fs2 where [simp]: "ws1 = (st1, (d1, fs1))" "ws2 = (st2, (d2, fs2))" by (metis prod.exhaust)
  have "rt_status copy = ''cancel_requested''"
    using assms(1) by (auto simp: cancel_read_def split: option.splits if_splits)
  moreover from assms(5) have "nav_status d2 (rt_id copy) = Some (rt_status copy)"
    unfolding cancel_persist_def by (auto elim: persistAndQueue_cases)
  moreover have "(''cancel_requested'', ''completed'') \<notin> set nav_edges" by code_simp
  ultimately show ?thesis using assms(2) transition_edge by auto
qed


section \<open>A concrete fleet with one route\<close>

definition demo_nav_key :: bytes where "demo_nav_key = replicate 32 9"

definition demo_nav_wire :: wire where
  "demo_nav_wire = \<lparr>marshal_env = (\<lambda>_. Some [1]), unmarshal_env = (\<lambda>_. None), marshal_cmd = (\<lambda>_. Some [1]), unmarshal_cmd = (\<lambda>_. None),
     marshal_grant = (\<lambda>_. Some [1]), unmarshal_grant = (\<lambda>_. None), hmac_sha256 = (\<lambda>_ _. replicate 32 5),
     ed25519_sign = (\<lambda>_ _. replicate 64 4), ed25519_verify = (\<lambda>_ _ _. True), ed25519_public = (\<lambda>_. replicate 32 7)\<rparr>"

definition demo_nav_world :: world where
  "demo_nav_world = (loadVehiclesFromDB (demo_activated, []) (NewState demo_nav_key (Some ''a'')), (demo_activated, []))"

definition demo_point :: "rat \<Rightarrow> NavPoint" where
  "demo_point q = \<lparr>np_Name = [], np_X = Fin q, np_Y = Fin 0, np_AtNS = 0, np_DwellS = Fin 0\<rparr>"

definition demo_nav_rd :: "string \<Rightarrow> nav_readings" where
  "demo_nav_rd h = \<lparr>nr_created = second, nr_now = second, nr_publish = second, nr_mono = 1, nr_updated = second, nr_route = h, nr_out = Some h\<rparr>"

definition demo_submitted :: "(nav_error tx_error + NavRoute) \<times> world" where
  "demo_submitted = Submit demo_nav_wire (\<lambda>_. Some [2]) demo_ext (demo_nav_rd ''1'') ''v1'' [] ''console'' [] [] [demo_point 0, demo_point 1] demo_nav_world"

definition demo_nav_ack :: "NavigationResult \<Rightarrow> NavigationAck" where
  "demo_nav_ack r = \<lparr>na_version = 1, na_action = NAVIGATION_ACTION_DISPATCH, na_route_id = ''nav-1'', na_vehicle_id = ''v1'',
     na_result = r, na_detail = [], na_current_point = 2\<rparr>"

definition demo_completed :: "(nav_error tx_error + bool) \<times> world" where
  "demo_completed = HandleNavigationAck demo_ext (2 * second) ''v1'' ''g1'' ''mqtt'' ''s'' 4 (demo_nav_ack NAVIGATION_RESULT_COMPLETED) (snd demo_submitted)"

definition demo_copy :: NavRoute where
  "demo_copy = (case cancel_read ''nav-1'' (fst (snd demo_submitted)) of Inr (CancelCopy c) \<Rightarrow> c | _ \<Rightarrow> undefined)"

definition demo_cancelled :: "(nav_error tx_error + unit) \<times> world" where
  "demo_cancelled = cancel_persist demo_nav_wire (\<lambda>_. Some [3]) demo_ext (demo_nav_rd ''2'') demo_copy (snd demo_completed)"

lemma pair_fst: "fst p = a \<Longrightarrow> p = (a, snd p)"
  by (cases p) simp


theorem submit_atomic_witness:
  "\<exists>rt. fst demo_submitted = Inr rt \<and> nav_status (fst (snd (snd demo_submitted))) (rt_id rt) = Some ''queued''"
proof -
  let ?s = "demo_nav_world" and ?t = "snd demo_submitted"
  have hm: "hmac_size demo_nav_wire" by (simp add: hmac_size_def demo_nav_wire_def)
  have "case fst demo_submitted of Inl _ \<Rightarrow> False | Inr _ \<Rightarrow> True" by code_simp
  then obtain rt where rt: "fst demo_submitted = Inr rt" by (auto split: sum.splits)
  then have "Submit demo_nav_wire (\<lambda>_. Some [2]) demo_ext (demo_nav_rd ''1'') ''v1'' [] ''console'' [] [] [demo_point 0, demo_point 1]
      (fst ?s, (fst (snd ?s), snd (snd ?s))) = (Inr rt, (fst ?t, (fst (snd ?t), snd (snd ?t))))"
    by (simp add: demo_submitted_def) (metis prod.collapse)
  from submit_atomic [OF hm this] rt show ?thesis by auto
qed

end
