(* ===== verification/Go_Paths.thy ===== *)
theory Go_Paths
  imports Go_Runes
begin

text \<open>
  What the map store uses of \<open>strings\<close> and \<open>path/filepath\<close> on a Unix system: lower case, prefixes
  and suffixes, the extension and the last element of a path, and the file names it accepts.
  \<open>strings.ToLower\<close> of a text with a byte outside ASCII needs the case tables of Unicode, which
  are the parameter \<open>u\<close>.
\<close>

definition is_ascii :: "char \<Rightarrow> bool" where
  "is_ascii c = byte_in 0 0x7F c"

definition ascii_lower :: "char \<Rightarrow> char" where
  "ascii_lower c = (if byte_in 0x41 0x5A c then char_of (of_char c + 32 :: nat) else c)"

definition to_lower :: "(string \<Rightarrow> string) \<Rightarrow> string \<Rightarrow> string" where
  "to_lower u s = (if list_all is_ascii s then map ascii_lower s else u s)"

definition trim_prefix :: "string \<Rightarrow> string \<Rightarrow> string" where
  "trim_prefix p s = (if take (length p) s = p then drop (length p) s else s)"

definition has_suffix :: "string \<Rightarrow> string \<Rightarrow> bool" where
  "has_suffix p s \<longleftrightarrow> length p \<le> length s \<and> drop (length s - length p) s = p"

definition trim_suffix :: "string \<Rightarrow> string \<Rightarrow> string" where
  "trim_suffix p s = (if has_suffix p s then take (length s - length p) s else s)"

text \<open>\<open>strings.Trim(s, c)\<close> for one character.\<close>

definition trim_char :: "char \<Rightarrow> string \<Rightarrow> string" where
  "trim_char c s = rev (dropWhile (\<lambda>x. x = c) (rev (dropWhile (\<lambda>x. x = c) s)))"

text \<open>\<open>filepath.Ext\<close>: from the last dot of the last element, empty without a dot.\<close>

definition go_ext :: "string \<Rightarrow> string" where
  "go_ext s =
    (let t = takeWhile (\<lambda>c. c \<noteq> CHR ''.'' \<and> c \<noteq> CHR ''/'') (rev s)
     in case drop (length t) (rev s) of
          [] \<Rightarrow> []
        | c # _ \<Rightarrow> if c = CHR ''.'' then c # rev t else [])"

definition go_base :: "string \<Rightarrow> string" where
  "go_base s =
    (if s = [] then ''.''
     else let t = takeWhile (\<lambda>c. c \<noteq> CHR ''/'') (dropWhile (\<lambda>c. c = CHR ''/'') (rev s))
          in if t = [] then ''/'' else rev t)"

definition has_separator :: "string \<Rightarrow> bool" where
  "has_separator s \<longleftrightarrow> CHR ''/'' \<in> set s \<or> CHR 0x5C \<in> set s"

section \<open>Plain file names\<close>

text \<open>A name without a separator is its own last element, so the two tests of the code agree.\<close>

lemma go_base_plain: "s \<noteq> [] \<Longrightarrow> \<not> has_separator s \<Longrightarrow> go_base s = s"
proof -
  assume "s \<noteq> []" and "\<not> has_separator s"
  then have no: "CHR ''/'' \<notin> set (rev s)" by (simp add: has_separator_def)
  then have "dropWhile (\<lambda>c. c = CHR ''/'') (rev s) = rev s" using \<open>s \<noteq> []\<close>
    by (cases "rev s") auto
  moreover have "takeWhile (\<lambda>c. c \<noteq> CHR ''/'') (rev s) = rev s"
    using no by (simp only: takeWhile_eq_all_conv) metis
  ultimately have "takeWhile (\<lambda>c. c \<noteq> CHR ''/'') (dropWhile (\<lambda>c. c = CHR ''/'') (rev s)) = rev s" by (simp only:)
  then show ?thesis using \<open>s \<noteq> []\<close> by (simp only: go_base_def Let_def) simp
qed

lemma trim_suffix_append: "has_suffix p s \<Longrightarrow> trim_suffix p s @ p = s"
  by (auto simp: trim_suffix_def has_suffix_def) (metis append_take_drop_id)

lemma go_ext_suffix: "has_suffix (go_ext s) s"
proof -
  let ?p = "\<lambda>c. c \<noteq> CHR ''.'' \<and> c \<noteq> CHR ''/''"
  let ?t = "takeWhile ?p (rev s)"
  have split: "rev s = ?t @ drop (length ?t) (rev s)" by (simp flip: dropWhile_eq_drop)
  show ?thesis
  proof (cases "drop (length ?t) (rev s)")
    case Nil
    then show ?thesis by (simp add: go_ext_def has_suffix_def Let_def)
  next
    case (Cons c r)
    with split have "rev s = ?t @ c # r" by (simp only:)
    then have "rev (rev s) = rev (?t @ c # r)" by (rule arg_cong)
    then have s: "s = rev r @ (c # rev ?t)" by (simp only: rev_rev_ident rev_append rev.simps append_assoc append_Cons append_Nil)
    have suffix: "has_suffix q (p @ q)" for p q :: string by (simp add: has_suffix_def)
    moreover have "go_ext s = (if c = CHR ''.'' then c # rev ?t else [])" by (simp only: go_ext_def Let_def Cons list.case)
    moreover have "has_suffix [] s" by (simp add: has_suffix_def)
    moreover have "has_suffix (c # rev ?t) s" using suffix [of "c # rev ?t" "rev r"] s by metis
    ultimately show ?thesis by metis
  qed
qed

text \<open>A stem and the extension give the name back.\<close>

lemma stem_ext: "trim_suffix (go_ext s) s @ go_ext s = s"
  by (rule trim_suffix_append [OF go_ext_suffix])

end
