(* ===== verification/Map_Store.thy ===== *)
theory Map_Store
  imports Navigation_Props Go_Paths
begin

text \<open>
  \<open>server/fleet/maps.go\<close>: the map repository. A map has a sequence of immutable versions; every
  upload with new content, every conversion and every edit adds one. The process keeps the entries
  in memory, PostgreSQL keeps the authoritative manifest, and the content lies in files under
  \<open>dir/<map>/v<N>/<name>\<close>, here a table from map, version and name to bytes. The calls on the file
  system may fail; what they answered is an argument. Notifying the browsers is not modelled.
\<close>

section \<open>Data\<close>

record MapVersion =
  ver_Version :: nat
  ver_Files :: "string list"
  ver_Kind :: string
  ver_Note :: string
  ver_Author :: string
  ver_CreatedNS :: int
  ver_DerivedFrom :: string
  ver_ContentSHA256 :: string
  ver_ContentSize :: nat
  ver_Meta :: "json option"

record MapEntry =
  mt_ID :: string
  mt_VehicleID :: string
  mt_Name :: string
  mt_Kind :: string
  mt_Points :: int
  mt_SHA256 :: string
  mt_Size :: nat
  mt_Source :: string
  mt_Uploader :: string
  mt_CreatedNS :: int
  mt_UpdatedNS :: int
  mt_Versions :: "MapVersion list"
  mt_LatestKind :: string
  mt_Has2D :: bool

type_synonym file_key = "string \<times> nat \<times> string"

record MapStore =
  ms_maps :: "(string \<times> MapEntry) list"
  ms_files :: "(file_key \<times> bytes) list"

type_synonym map_world = "MapStore \<times> world"

record mapObjectManifest =
  om_Name :: string
  om_ObjectKey :: string
  om_SHA256 :: string
  om_Size :: nat
  om_ContentType :: string

datatype map_error =
    MapFields | MapEmptyFile | MapFileName | MapFormat string | MapIO | MapVersionConflict nat nat
  | MapUnknown string | MapNoVersion nat | MapNoFiles | MapEmptyDerived string | MapNoSource
  | MapConvertFailed | MapNoProduct | MapNoContent | MapCleanup | MapPanic

text \<open>
  The answers of one call's surroundings: the clocks, whether the directory could be made, for
  each file written nothing or the part that was written before the error, and whether the
  directory could be removed.
\<close>

record map_io =
  mi_now :: int
  mi_db_now :: int
  mi_mkdir :: bool
  mi_write :: "nat \<Rightarrow> bytes option"
  mi_remove :: bool

section \<open>Names\<close>

definition slug_char :: "char \<Rightarrow> bool" where
  "slug_char c \<longleftrightarrow> byte_in 0x61 0x7A c \<or> byte_in 0x41 0x5A c \<or> byte_in 0x30 0x39 c \<or> c = CHR ''_'' \<or> c = CHR ''-''"

definition slugify :: "string \<Rightarrow> string" where
  "slugify s =
    (let t = trim_char CHR ''-'' (concat (map (\<lambda>r. if list_all slug_char r then r else ''-'') (go_runes s)))
     in if t = [] then ''map'' else t)"

definition kindOf :: "(string \<Rightarrow> string) \<Rightarrow> string \<Rightarrow> string" where
  "kindOf u name =
    (let e = to_lower u (go_ext name)
     in if e = ''.pcd'' then ''3d_pcd'' else if e = ''.csv'' then ''3d_csv''
        else if e = ''.png'' \<or> e = ''.pgm'' then ''2d_png'' else ''unknown'')"

definition contentTypeOf :: "(string \<Rightarrow> string) \<Rightarrow> string \<Rightarrow> string" where
  "contentTypeOf u name =
    (let e = to_lower u (go_ext name)
     in if e = ''.png'' then ''image/png'' else if e = ''.pgm'' then ''image/x-portable-graymap''
        else if e = ''.yaml'' \<or> e = ''.yml'' then ''text/yaml; charset=utf-8''
        else if e = ''.csv'' then ''text/csv; charset=utf-8'' else ''application/octet-stream'')"

definition version_dir :: "nat \<Rightarrow> string" where
  "version_dir n = CHR ''v'' # nat_digits n"

definition fileManifest :: "(string \<Rightarrow> string) \<Rightarrow> ext \<Rightarrow> string \<Rightarrow> nat \<Rightarrow> string \<Rightarrow> bytes \<Rightarrow> mapObjectManifest" where
  "fileManifest u x mapID version name data =
    \<lparr>om_Name = name, om_ObjectKey = mapID @ ''/'' @ version_dir version @ ''/'' @ name,
     om_SHA256 = x_sha256_hex x data, om_Size = length data, om_ContentType = contentTypeOf u name\<rparr>"

text \<open>The notes of a version, as the UTF-8 bytes of the source's literals.\<close>

definition note_raw :: string where
  "note_raw = [CHR 0xE5, CHR 0x8E, CHR 0x9F, CHR 0xE5, CHR 0xA7, CHR 0x8B, CHR 0xE6, CHR 0x95, CHR 0xB0, CHR 0xE6, CHR 0x8D, CHR 0xAE]"

definition note_push :: string where
  "note_push = [CHR 0xE8, CHR 0xBD, CHR 0xA6, CHR 0xE7, CHR 0xAB, CHR 0xAF, CHR 0xE5, CHR 0xAE, CHR 0x9E, CHR 0xE6, CHR 0x97, CHR 0xB6,
     CHR 0xE4, CHR 0xB8, CHR 0x8A, CHR 0xE6, CHR 0x8A, CHR 0xA5]"

definition note_convert :: string where
  "note_convert = ''3D'' @ [CHR 0xE2, CHR 0x86, CHR 0x92] @ ''2D'' @ [CHR 0xEF, CHR 0xBC, CHR 0x88] @ ''map_convert '' @
     [CHR 0xE4, CHR 0xB8, CHR 0x80, CHR 0xE8, CHR 0xA1, CHR 0x8C, CHR 0xE5, CHR 0x91, CHR 0xBD, CHR 0xE4, CHR 0xBB, CHR 0xA4,
      CHR 0xEF, CHR 0xBC, CHR 0x89]"

definition note_edit :: string where
  "note_edit = [CHR 0xE4, CHR 0xBA, CHR 0xBA, CHR 0xE5, CHR 0xB7, CHR 0xA5, CHR 0xE7, CHR 0xBC, CHR 0x96, CHR 0xE8, CHR 0xBE, CHR 0x91,
     CHR 0xEF, CHR 0xBC, CHR 0x88, CHR 0xE5, CHR 0xA5, CHR 0x97, CHR 0xE7, CHR 0xB4, CHR 0xA2, CHR 0xE6, CHR 0x93, CHR 0xA6,
     CHR 0xE9, CHR 0x99, CHR 0xA4] @ ''/'' @ [CHR 0xE6, CHR 0x81, CHR 0xA2, CHR 0xE5, CHR 0xA4, CHR 0x8D, CHR 0xEF, CHR 0xBC, CHR 0x89]"

section \<open>The manifest in the database\<close>

definition map_row_of :: "db \<Rightarrow> string \<Rightarrow> map_row option" where
  "map_row_of d i = find (\<lambda>r. mr_id r = i) (map_entries d)"

definition version_rows :: "db \<Rightarrow> string \<Rightarrow> map_version_row list" where
  "version_rows d i = filter (\<lambda>r. mv_map r = i) (map_versions d)"

definition latest_version :: "db \<Rightarrow> string \<Rightarrow> nat" where
  "latest_version d i = fold max (map mv_version (version_rows d i)) 0"

definition new_map_row :: "ext \<Rightarrow> int \<Rightarrow> MapEntry \<Rightarrow> map_row" where
  "new_map_row x now m =
    \<lparr>mr_id = mt_ID m, mr_vehicle = mt_VehicleID m, mr_name = mt_Name m, mr_kind = mt_Kind m, mr_sha256 = mt_SHA256 m,
     mr_size = mt_Size m, mr_source = mt_Source m, mr_created_at = x_ts x (mt_CreatedNS m), mr_updated_at = now,
     mr_uploader = mt_Uploader m\<rparr>"

definition version_row :: "ext \<Rightarrow> string \<Rightarrow> MapVersion \<Rightarrow> map_version_row" where
  "version_row x i v =
    \<lparr>mv_map = i, mv_version = ver_Version v, mv_kind = ver_Kind v, mv_note = ver_Note v, mv_author = ver_Author v,
     mv_derived_from = nullable (ver_DerivedFrom v), mv_created_at = x_ts x (ver_CreatedNS v), mv_files = ver_Files v,
     mv_metadata = (case ver_Meta v of None \<Rightarrow> JNull | Some js \<Rightarrow> JObj js), mv_sha256 = ver_ContentSHA256 v,
     mv_size = ver_ContentSize v\<rparr>"

definition insert_version :: "ext \<Rightarrow> string \<Rightarrow> MapVersion \<Rightarrow> db \<Rightarrow> (unit \<times> db) option" where
  "insert_version x i v d =
    (if map_row_of d i = None \<or> ver_Version v \<in> mv_version ` set (version_rows d i) then None
     else Some ((), d\<lparr>map_versions := map_versions d @ [version_row x i v]\<rparr>))"

definition object_row :: "string \<Rightarrow> nat \<Rightarrow> mapObjectManifest \<Rightarrow> map_object_row" where
  "object_row i n ob =
    \<lparr>mf_map = i, mf_version = n, mf_file = om_Name ob, mf_key = om_ObjectKey ob, mf_sha256 = om_SHA256 ob,
     mf_size = om_Size ob, mf_content_type = om_ContentType ob\<rparr>"

definition insert_object :: "string \<Rightarrow> nat \<Rightarrow> mapObjectManifest \<Rightarrow> db \<Rightarrow> (unit \<times> db) option" where
  "insert_object i n ob d =
    (if (i, n, om_Name ob) \<in> (\<lambda>r. (mf_map r, mf_version r, mf_file r)) ` set (map_objects d) \<or>
        om_ObjectKey ob \<in> mf_key ` set (map_objects d) then None
     else Some ((), d\<lparr>map_objects := map_objects d @ [object_row i n ob]\<rparr>))"

fun insert_objects :: "string \<Rightarrow> nat \<Rightarrow> mapObjectManifest list \<Rightarrow> (map_error, unit) tx" where
  "insert_objects i n [] = tx_ret ()"
| "insert_objects i n (ob # obs) = tx_bind (tx_stmt (insert_object i n ob)) (\<lambda>_. insert_objects i n obs)"

definition update_map_row :: "ext \<Rightarrow> MapEntry \<Rightarrow> db \<Rightarrow> db" where
  "update_map_row x m d =
    d\<lparr>map_entries := update_where (\<lambda>r. mr_id r = mt_ID m)
       (\<lambda>r. r\<lparr>mr_name := mt_Name m, mr_kind := mt_Kind m, mr_sha256 := mt_SHA256 m, mr_size := mt_Size m,
              mr_source := mt_Source m, mr_updated_at := x_ts x (mt_UpdatedNS m), mr_uploader := mt_Uploader m\<rparr>)
       (map_entries d)\<rparr>"

text \<open>The row of the map is locked, or made; the version must be the next one. The entry comes back
  with its creation time, which is stamped when it was not set.\<close>

definition ensure_map_row :: "ext \<Rightarrow> map_io \<Rightarrow> MapEntry \<Rightarrow> (map_error, MapEntry \<times> nat) tx" where
  "ensure_map_row x io m =
    tx_bind (tx_query (\<lambda>d. map_option (\<lambda>_. latest_version d (mt_ID m)) (map_row_of d (mt_ID m)))) (\<lambda>current.
      case current of
        Some n \<Rightarrow> tx_ret (m, n)
      | None \<Rightarrow>
         (let m' = (if mt_CreatedNS m \<le> 0 then m\<lparr>mt_CreatedNS := mi_now io\<rparr> else m)
          in tx_bind (tx_exec (\<lambda>d. d\<lparr>map_entries := map_entries d @ [new_map_row x (mi_db_now io) m']\<rparr>)) (\<lambda>_. tx_ret (m', 0))))"

definition persist_version_body ::
  "ext \<Rightarrow> map_io \<Rightarrow> MapEntry \<Rightarrow> MapVersion \<Rightarrow> mapObjectManifest list \<Rightarrow> (map_error, MapEntry) tx" where
  "persist_version_body x io m v objects =
    tx_bind (ensure_map_row x io m) (\<lambda>(m', current).
    tx_bind (tx_guard (current + 1 = ver_Version v) (MapVersionConflict current (ver_Version v))) (\<lambda>_.
    tx_bind (tx_stmt (insert_version x (mt_ID m) v)) (\<lambda>_.
    tx_bind (insert_objects (mt_ID m) (ver_Version v) objects) (\<lambda>_.
    tx_bind (tx_exec (update_map_row x m')) (\<lambda>_. tx_ret m')))))"

definition persistVersion ::
  "ext \<Rightarrow> map_io \<Rightarrow> MapEntry \<Rightarrow> MapVersion \<Rightarrow> mapObjectManifest list \<Rightarrow> txs \<Rightarrow> (map_error tx_error + MapEntry) \<times> txs" where
  "persistVersion x io m v objects s = run_tx (persist_version_body x io m v objects) s"

section \<open>Files\<close>

definition put_file :: "file_key \<Rightarrow> bytes \<Rightarrow> MapStore \<Rightarrow> MapStore" where
  "put_file k b ms = ms\<lparr>ms_files := AList.update k b (ms_files ms)\<rparr>"

definition remove_version :: "bool \<Rightarrow> string \<Rightarrow> nat \<Rightarrow> MapStore \<Rightarrow> MapStore" where
  "remove_version ok i n ms =
    (if ok then ms\<lparr>ms_files := filter (\<lambda>((j, k, f), b). \<not> (j = i \<and> k = n)) (ms_files ms)\<rparr> else ms)"

definition put_map :: "MapEntry \<Rightarrow> MapStore \<Rightarrow> MapStore" where
  "put_map m ms = ms\<lparr>ms_maps := AList.update (mt_ID m) m (ms_maps ms)\<rparr>"

section \<open>Uploading\<close>

definition new_entry :: "string \<Rightarrow> string \<Rightarrow> string \<Rightarrow> string \<Rightarrow> int \<Rightarrow> MapEntry" where
  "new_entry i vehicleID name kind now =
    \<lparr>mt_ID = i, mt_VehicleID = vehicleID, mt_Name = name, mt_Kind = kind, mt_Points = 0, mt_SHA256 = [], mt_Size = 0,
     mt_Source = [], mt_Uploader = [], mt_CreatedNS = now, mt_UpdatedNS = 0, mt_Versions = [], mt_LatestKind = [], mt_Has2D = False\<rparr>"

definition upload_note :: "string \<Rightarrow> string" where
  "upload_note source = (if source = ''vehicle_push'' then note_push else note_raw)"

definition upload_version :: "map_io \<Rightarrow> nat \<Rightarrow> string \<Rightarrow> string \<Rightarrow> string \<Rightarrow> string \<Rightarrow> string \<Rightarrow> bytes \<Rightarrow> MapVersion" where
  "upload_version io n name kind source author sha data =
    \<lparr>ver_Version = n, ver_Files = [name], ver_Kind = trim_prefix ''3d_'' kind, ver_Note = upload_note source,
     ver_Author = author, ver_CreatedNS = mi_now io, ver_DerivedFrom = [], ver_ContentSHA256 = sha,
     ver_ContentSize = length data, ver_Meta = None\<rparr>"

definition upload_candidate :: "map_io \<Rightarrow> MapEntry \<Rightarrow> MapVersion \<Rightarrow> string \<Rightarrow> string \<Rightarrow> string \<Rightarrow> string \<Rightarrow> bytes \<Rightarrow> MapEntry" where
  "upload_candidate io m v kind source author sha data =
    m\<lparr>mt_Versions := mt_Versions m @ [v], mt_SHA256 := sha, mt_Size := length data, mt_Source := source, mt_Kind := kind,
      mt_Uploader := author, mt_UpdatedNS := mi_now io, mt_LatestKind := kind\<rparr>"

definition bad_file_name :: "string \<Rightarrow> bool" where
  "bad_file_name name \<longleftrightarrow> has_separator name \<or> go_base name \<noteq> name \<or> name = ''.'' \<or> name = ''..''"

definition map_id :: "string \<Rightarrow> string \<Rightarrow> string" where
  "map_id vehicleID name = slugify (vehicleID @ ''-'' @ trim_suffix (go_ext name) name)"

text \<open>The part under the lock, once the content differs from the latest upload.\<close>

definition register_version ::
  "(string \<Rightarrow> string) \<Rightarrow> ext \<Rightarrow> map_io \<Rightarrow> string \<Rightarrow> string \<Rightarrow> string \<Rightarrow> string \<Rightarrow> string \<Rightarrow> bytes \<Rightarrow> map_world \<Rightarrow>
   (map_error tx_error + MapEntry \<times> bool) \<times> map_world" where
  "register_version u x io vehicleID name kind source author data mw =
    (let ms = fst mw;
         sha = x_sha256_hex x data;
         i = map_id vehicleID name;
         m = (case map_of (ms_maps ms) i of None \<Rightarrow> new_entry i vehicleID name kind (mi_now io) | Some m \<Rightarrow> m);
         n = length (mt_Versions m) + 1
     in if \<not> mi_mkdir io then (Inl (Dom MapIO), mw)
        else case mi_write io 0 of
          Some part \<Rightarrow> (Inl (Dom MapIO), (remove_version (mi_remove io) i n (put_file (i, n, name) part ms), snd mw))
        | None \<Rightarrow>
           (let ms1 = put_file (i, n, name) data ms;
                v = upload_version io n name kind source author sha data;
                candidate = upload_candidate io m v kind source author sha data
            in (case persistVersion x io candidate v [fileManifest u x i n name data] (snd (snd mw)) of
                  (Inl e, s') \<Rightarrow> (Inl e, (remove_version (mi_remove io) i n ms1, (fst (snd mw), s')))
                | (Inr m', s') \<Rightarrow>
                    (Inr (m', True), (ms1\<lparr>ms_maps := AList.update i m' (ms_maps ms1)\<rparr>,
                       pushEvent (mi_now io) ''info'' vehicleID (TxtMapUpdated name (int n) (upload_note source) (length data)) ''sys''
                         (fst (snd mw), s'))))))"

definition Register ::
  "(string \<Rightarrow> string) \<Rightarrow> ext \<Rightarrow> map_io \<Rightarrow> string \<Rightarrow> string \<Rightarrow> string \<Rightarrow> string \<Rightarrow> bytes \<Rightarrow> map_world \<Rightarrow>
   (map_error tx_error + MapEntry \<times> bool) \<times> map_world" where
  "Register u x io vehicleID name source author data mw =
    (if vehicleID = [] \<or> name = [] then (Inl (Dom MapFields), mw)
     else if data = [] then (Inl (Dom MapEmptyFile), mw)
     else if bad_file_name name then (Inl (Dom MapFileName), mw)
     else if kindOf u name = ''unknown'' then (Inl (Dom (MapFormat (go_ext name))), mw)
     else case map_of (ms_maps (fst mw)) (map_id vehicleID name) of
       Some m \<Rightarrow>
         if mt_SHA256 m = x_sha256_hex x data then (Inr (m, False), mw)
         else register_version u x io vehicleID name (kindOf u name) source author data mw
     | None \<Rightarrow> register_version u x io vehicleID name (kindOf u name) source author data mw)"

section \<open>Derived versions\<close>

text \<open>
  One round per file, in the order the code meets them; an error removes the directory. The
  order is the one in which Go iterates over the table of files, which is not fixed.
\<close>

fun stage_files ::
  "(string \<Rightarrow> string) \<Rightarrow> ext \<Rightarrow> map_io \<Rightarrow> string \<Rightarrow> nat \<Rightarrow> nat \<Rightarrow> (string \<times> bytes) list \<Rightarrow> MapStore \<Rightarrow>
   (map_error + mapObjectManifest list) \<times> MapStore" where
  "stage_files u x io i n k [] ms = (Inr [], ms)"
| "stage_files u x io i n k ((name, b) # rest) ms =
    (let clean = go_base name
     in if clean = ''.'' \<or> clean = ''..'' \<or> has_separator name then (Inl MapFileName, remove_version (mi_remove io) i n ms)
        else if b = [] then (Inl (MapEmptyDerived clean), remove_version (mi_remove io) i n ms)
        else case mi_write io k of
          Some part \<Rightarrow> (Inl MapIO, remove_version (mi_remove io) i n (put_file (i, n, clean) part ms))
        | None \<Rightarrow>
           (case stage_files u x io i n (k + 1) rest (put_file (i, n, clean) b ms) of
              (Inl e, ms') \<Rightarrow> (Inl e, ms')
            | (Inr obs, ms') \<Rightarrow> (Inr (fileManifest u x i n clean b # obs), ms')))"

definition string_bytes :: "string \<Rightarrow> bytes" where
  "string_bytes s = map (\<lambda>c. word_of_nat (of_char c)) s"

definition derived_version ::
  "ext \<Rightarrow> map_io \<Rightarrow> nat \<Rightarrow> string \<Rightarrow> string \<Rightarrow> string \<Rightarrow> json \<Rightarrow> mapObjectManifest list \<Rightarrow> MapVersion" where
  "derived_version x io n kind note author meta objects =
    \<lparr>ver_Version = n, ver_Files = map om_Name objects, ver_Kind = kind, ver_Note = note, ver_Author = author,
     ver_CreatedNS = mi_now io, ver_DerivedFrom = version_dir (n - 1),
     ver_ContentSHA256 = x_sha256_hex x (concat (map (string_bytes \<circ> om_SHA256) objects)),
     ver_ContentSize = sum_list (map om_Size objects), ver_Meta = Some meta\<rparr>"

definition derived_candidate :: "MapEntry \<Rightarrow> MapVersion \<Rightarrow> string \<Rightarrow> string \<Rightarrow> MapEntry" where
  "derived_candidate m v kind author =
    m\<lparr>mt_Versions := mt_Versions m @ [v], mt_UpdatedNS := ver_CreatedNS v, mt_LatestKind := kind, mt_Uploader := author,
      mt_Has2D := (if kind = ''png'' then True else mt_Has2D m)\<rparr>"

definition addDerivedLocked ::
  "(string \<Rightarrow> string) \<Rightarrow> ext \<Rightarrow> map_io \<Rightarrow> MapEntry \<Rightarrow> string \<Rightarrow> string \<Rightarrow> string \<Rightarrow> json \<Rightarrow> (string \<times> bytes) list \<Rightarrow> map_world \<Rightarrow>
   (map_error tx_error + MapVersion) \<times> map_world" where
  "addDerivedLocked u x io m kind note author meta files mw =
    (let n = length (mt_Versions m) + 1
     in if files = [] then (Inl (Dom MapNoFiles), mw)
        else if \<not> mi_mkdir io then (Inl (Dom MapIO), mw)
        else case stage_files u x io (mt_ID m) n 0 files (fst mw) of
          (Inl e, ms') \<Rightarrow> (Inl (Dom e), (ms', snd mw))
        | (Inr obs, ms') \<Rightarrow>
           (let objects = sort_key om_Name obs;
                v = derived_version x io n kind note author meta objects
            in (case persistVersion x io (derived_candidate m v kind author) v objects (snd (snd mw)) of
                  (Inl e, s') \<Rightarrow> (Inl e, (remove_version (mi_remove io) (mt_ID m) n ms', (fst (snd mw), s')))
                | (Inr m', s') \<Rightarrow>
                    (Inr v, (ms'\<lparr>ms_maps := AList.update (mt_ID m) m' (ms_maps ms')\<rparr>, (fst (snd mw), s'))))))"

text \<open>
  The converter is an external program: \<open>conv\<close> answers nothing when it failed, or its output and
  the product it left for each extension. Reading the first file of a version without files
  would panic.
\<close>

definition convert_products :: "string \<Rightarrow> (string \<Rightarrow> bytes option) \<Rightarrow> (string \<times> bytes) list" where
  "convert_products name products =
    List.map_filter (\<lambda>e. map_option (\<lambda>b. (trim_suffix (go_ext name) name @ e, b)) (products e)) [''.png'', ''.pgm'', ''.yaml'']"

definition Convert ::
  "(string \<Rightarrow> string) \<Rightarrow> ext \<Rightarrow> map_io \<Rightarrow> (file_key \<Rightarrow> (string \<times> (string \<Rightarrow> bytes option)) option) \<Rightarrow> string \<Rightarrow> map_world \<Rightarrow>
   (map_error tx_error + MapVersion) \<times> map_world" where
  "Convert u x io conv i mw =
    (case map_of (ms_maps (fst mw)) i of
       None \<Rightarrow> (Inl (Dom (MapUnknown i)), mw)
     | Some m \<Rightarrow>
        if mt_Versions m = [] then (Inl (Dom MapNoSource), mw)
        else case ver_Files (last (mt_Versions m)) of
          [] \<Rightarrow> (Inl (Dom MapPanic), mw)
        | srcName # _ \<Rightarrow>
           (case conv (i, ver_Version (last (mt_Versions m)), srcName) of
              None \<Rightarrow> (Inl (Dom MapConvertFailed), mw)
            | Some (out, products) \<Rightarrow>
               (let files = convert_products (mt_Name m) products
                in if files = [] then (Inl (Dom MapNoProduct), mw)
                   else case addDerivedLocked u x io m ''png'' note_convert ''fleet-hub''
                               [(''tool'', JStr ''map_convert.py''), (''log'', JStr (trim_space out))] files mw of
                     (Inl e, mw') \<Rightarrow> (Inl e, mw')
                   | (Inr v, mw') \<Rightarrow>
                      (Inr v, (fst mw', pushEvent (mi_now io) ''info'' (mt_VehicleID m) (TxtMapConverted (mt_Name m) (int (ver_Version v))) ''sys'' (snd mw'))))))"

definition SaveEdit ::
  "(string \<Rightarrow> string) \<Rightarrow> ext \<Rightarrow> map_io \<Rightarrow> string \<Rightarrow> string \<Rightarrow> bytes \<Rightarrow> jval \<Rightarrow> map_world \<Rightarrow>
   (map_error tx_error + MapVersion) \<times> map_world" where
  "SaveEdit u x io i author png ops mw =
    (if png = [] then (Inl (Dom MapNoContent), mw)
     else case map_of (ms_maps (fst mw)) i of
       None \<Rightarrow> (Inl (Dom (MapUnknown i)), mw)
     | Some m \<Rightarrow> addDerivedLocked u x io m ''png'' note_edit author [(''ops'', ops)] [(mt_Name m @ ''.edit.png'', png)] mw)"

section \<open>Reading\<close>

definition map_List :: "MapStore \<Rightarrow> MapEntry list" where
  "map_List ms = order_desc mt_UpdatedNS (map snd (ms_maps ms))"

definition map_Get :: "MapStore \<Rightarrow> string \<Rightarrow> MapEntry option" where
  "map_Get ms i = map_of (ms_maps ms) i"

definition map_File :: "MapStore \<Rightarrow> string \<Rightarrow> string \<Rightarrow> nat \<Rightarrow> bytes option" where
  "map_File ms i name version =
    (case map_of (ms_maps ms) i of
       None \<Rightarrow> None
     | Some m \<Rightarrow>
        (let n = (if version = 0 \<and> mt_Versions m \<noteq> [] then ver_Version (last (mt_Versions m)) else version)
         in (case filter (\<lambda>v. ver_Version v = n \<and> go_base name \<in> set (ver_Files v)) (mt_Versions m) of
               [] \<Rightarrow> None
             | _ \<Rightarrow> map_of (ms_files ms) (i, n, go_base name))))"

section \<open>Deleting\<close>

text \<open>The entry goes under the lock, with its rows by cascade; the directory after the lock was released.\<close>

definition delete_map_rows :: "string \<Rightarrow> db \<Rightarrow> db" where
  "delete_map_rows i d =
    d\<lparr>map_entries := filter (\<lambda>r. mr_id r \<noteq> i) (map_entries d), map_versions := filter (\<lambda>r. mv_map r \<noteq> i) (map_versions d),
      map_objects := filter (\<lambda>r. mf_map r \<noteq> i) (map_objects d)\<rparr>"

definition delete_locked :: "string \<Rightarrow> map_world \<Rightarrow> (map_error tx_error + MapEntry) \<times> map_world" where
  "delete_locked i mw =
    (case map_of (ms_maps (fst mw)) i of
       None \<Rightarrow> (Inl (Dom (MapUnknown i)), mw)
     | Some m \<Rightarrow>
        (case tx_exec (delete_map_rows i) (snd (snd mw)) of
           (Inl e, s') \<Rightarrow> (Inl e, (fst mw, (fst (snd mw), s')))
         | (Inr _, s') \<Rightarrow> (Inr m, ((fst mw)\<lparr>ms_maps := AList.delete i (ms_maps (fst mw))\<rparr>, (fst (snd mw), s')))))"

definition delete_files :: "map_io \<Rightarrow> MapEntry \<Rightarrow> string \<Rightarrow> map_world \<Rightarrow> (map_error tx_error + unit) \<times> map_world" where
  "delete_files io m i mw =
    (if \<not> mi_remove io then (Inl (Dom MapCleanup), mw)
     else (Inr (), ((fst mw)\<lparr>ms_files := filter (\<lambda>((j, n, f), b). j \<noteq> i) (ms_files (fst mw))\<rparr>,
             pushEvent (mi_now io) ''warn'' (mt_VehicleID m) (TxtMapDeleted (mt_Name m) (length (mt_Versions m))) ''sys'' (snd mw))))"

definition Delete :: "map_io \<Rightarrow> string \<Rightarrow> map_world \<Rightarrow> (map_error tx_error + unit) \<times> map_world" where
  "Delete io i mw =
    (case delete_locked i mw of
       (Inl e, mw') \<Rightarrow> (Inl e, mw')
     | (Inr m, mw') \<Rightarrow> delete_files io m i mw')"

section \<open>Restart\<close>

definition version_of_row :: "map_version_row \<Rightarrow> MapVersion" where
  "version_of_row r =
    \<lparr>ver_Version = mv_version r, ver_Files = mv_files r, ver_Kind = mv_kind r, ver_Note = mv_note r, ver_Author = mv_author r,
     ver_CreatedNS = mv_created_at r, ver_DerivedFrom = (case mv_derived_from r of None \<Rightarrow> [] | Some s \<Rightarrow> s),
     ver_ContentSHA256 = mv_sha256 r, ver_ContentSize = mv_size r,
     ver_Meta = (case mv_metadata r of JObj js \<Rightarrow> Some js | _ \<Rightarrow> None)\<rparr>"

definition loaded_versions :: "db \<Rightarrow> string \<Rightarrow> MapVersion list" where
  "loaded_versions d i = map version_of_row (sort_key mv_version (version_rows d i))"

definition loaded_entry :: "db \<Rightarrow> map_row \<Rightarrow> MapEntry" where
  "loaded_entry d r =
    (let vs = loaded_versions d (mr_id r)
     in \<lparr>mt_ID = mr_id r, mt_VehicleID = mr_vehicle r, mt_Name = mr_name r, mt_Kind = mr_kind r, mt_Points = 0,
         mt_SHA256 = mr_sha256 r, mt_Size = mr_size r, mt_Source = mr_source r, mt_Uploader = mr_uploader r,
         mt_CreatedNS = mr_created_at r, mt_UpdatedNS = mr_updated_at r, mt_Versions = vs,
         mt_LatestKind = (if vs = [] then [] else ver_Kind (last vs)), mt_Has2D = list_ex (\<lambda>v. ver_Kind v = ''png'') vs\<rparr>)"

text \<open>\<open>None\<close> is a failed query or a version without its map, which stops the start of the process.\<close>

definition map_loadDB :: "txs \<Rightarrow> (string \<times> MapEntry) list option \<times> txs" where
  "map_loadDB s =
    (case tx_bind (tx_query id) (\<lambda>d. tx_bind (tx_query id) (\<lambda>d'. tx_guard
           (list_all (\<lambda>r. mv_map r \<in> mr_id ` set (map_entries d)) (map_versions d')) ())) s of
       (Inl _, s') \<Rightarrow> (None, s')
     | (Inr _, s') \<Rightarrow> (Some (map (\<lambda>r. (mr_id r, loaded_entry (fst s) r)) (order_desc mr_updated_at (map_entries (fst s)))), s'))"

end
