(* ===== verification/Map_Store_Props.thy ===== *)
theory Map_Store_Props
  imports Map_Store
begin

text \<open>
  The map repository in memory, in the database and on disk: versions are numbered without gaps
  and never change, a restart finds the catalogue again, and what the naming scheme and a second
  process can break.
\<close>

section \<open>Agreement of memory and database\<close>

definition row_agrees :: "ext \<Rightarrow> MapEntry \<Rightarrow> map_row \<Rightarrow> bool" where
  "row_agrees x m r \<longleftrightarrow>
     mr_id r = mt_ID m \<and> mr_vehicle r = mt_VehicleID m \<and> mr_name r = mt_Name m \<and> mr_kind r = mt_Kind m \<and>
     mr_sha256 r = mt_SHA256 m \<and> mr_size r = mt_Size m \<and> mr_source r = mt_Source m \<and> mr_uploader r = mt_Uploader m"

definition entry_ok :: "string \<Rightarrow> MapEntry \<Rightarrow> bool" where
  "entry_ok i m \<longleftrightarrow> mt_ID m = i \<and> mt_Versions m \<noteq> [] \<and>
     map ver_Version (mt_Versions m) = [1..<Suc (length (mt_Versions m))] \<and> list_all (\<lambda>v. ver_Files v \<noteq> []) (mt_Versions m)"

definition map_agrees :: "ext \<Rightarrow> MapStore \<Rightarrow> db \<Rightarrow> bool" where
  "map_agrees x ms d \<longleftrightarrow> distinct (map mr_id (map_entries d)) \<and>
     (\<forall>i. case map_of (ms_maps ms) i of
            None \<Rightarrow> map_row_of d i = None \<and> version_rows d i = []
          | Some m \<Rightarrow> entry_ok i m \<and> (\<exists>r. map_row_of d i = Some r \<and> row_agrees x m r) \<and>
              version_rows d i = map (version_row x i) (mt_Versions m))"

abbreviation map_db :: "map_world \<Rightarrow> db" where "map_db mw \<equiv> fst (snd (snd mw))"

definition map_inv :: "ext \<Rightarrow> map_world \<Rightarrow> bool" where
  "map_inv x mw \<longleftrightarrow> map_agrees x (fst mw) (map_db mw)"

lemma map_agrees_files [simp]: "map_agrees x (ms\<lparr>ms_files := f\<rparr>) d = map_agrees x ms d"
  by (simp add: map_agrees_def)

lemma map_agrees_maps: "ms_maps a = ms_maps b \<Longrightarrow> map_agrees x a d = map_agrees x b d"
  by (simp add: map_agrees_def)

lemma map_agrees_events [simp]:
  "map_agrees x ms (fst (snd (pushEvent now level v txt kind ws))) = map_agrees x ms (fst (snd ws))"
  by (rule pushEvent_db) (simp add: map_agrees_def map_row_of_def version_rows_def cong: option.case_cong)

lemma remove_version_maps [simp]: "ms_maps (remove_version ok i n ms) = ms_maps ms"
  "ms_maps (put_file k b ms) = ms_maps ms"
  by (simp_all add: remove_version_def put_file_def)

lemma map_agrees_staged [simp]: "map_agrees x (remove_version ok i n ms) d = map_agrees x ms d"
  "map_agrees x (put_file k b ms) d = map_agrees x ms d"
  by (simp_all add: map_agrees_def)

section \<open>Storing a version\<close>

lemma insert_objects_Inr:
  "insert_objects i n obs (d, fs) = (Inr u, (d', fs')) \<Longrightarrow> \<exists>os. d' = d\<lparr>map_objects := os\<rparr>"
proof (induction obs arbitrary: d fs)
  case Nil
  then have "d' = d" by simp
  then show ?case by (metis (no_types) db.surjective db.update_convs(25))
next
  case (Cons ob obs)
  then obtain d1 where "insert_object i n ob d = Some ((), d1)" "insert_objects i n obs (d1, tl fs) = (Inr u, (d', fs'))"
    by auto
  with Cons.IH [of d1 "tl fs"] show ?case by (auto simp: insert_object_def split: if_splits)
qed

lemma latest_version_agrees:
  assumes "entry_ok i m" and "version_rows d i = map (version_row x i) (mt_Versions m)"
  shows "latest_version d i = length (mt_Versions m)"
proof -
  have m: "fold max [1..<Suc n] (0 :: nat) = n" for n by (induction n) auto
  have "map mv_version (version_rows d i) = map ver_Version (mt_Versions m)"
    using assms(2) by (simp add: version_row_def)
  with assms(1) m show ?thesis by (simp add: latest_version_def entry_ok_def del: upt_Suc)
qed

text \<open>A stored version extends the entry it was made for, whatever the rest of the entry became.\<close>

lemma find_append: "find p (xs @ ys) = (case find p xs of None \<Rightarrow> find p ys | Some r \<Rightarrow> Some r)"
  by (induction xs) auto

definition next_of :: "MapEntry \<Rightarrow> MapVersion \<Rightarrow> MapEntry option \<Rightarrow> bool" where
  "next_of m v old \<longleftrightarrow>
     (case old of
        None \<Rightarrow> mt_Versions m = [v]
      | Some m0 \<Rightarrow> mt_Versions m = mt_Versions m0 @ [v] \<and> mt_VehicleID m = mt_VehicleID m0 \<and> mt_ID m = mt_ID m0)"

lemma ensure_map_row_Inr:
  assumes "ensure_map_row x io m (d, fs) = (Inr (m', current), (d1, fs1))"
  obtains (made) "map_row_of d (mt_ID m) = None" "current = 0" "d1 = d\<lparr>map_entries := map_entries d @ [new_map_row x (mi_db_now io) m']\<rparr>"
      "mt_Versions m' = mt_Versions m" "mt_ID m' = mt_ID m" "mt_VehicleID m' = mt_VehicleID m"
  | (locked) r where "map_row_of d (mt_ID m) = Some r" "current = latest_version d (mt_ID m)" "d1 = d" "m' = m"
proof (cases "map_row_of d (mt_ID m)")
  case None
  with assms made show thesis by (auto simp: ensure_map_row_def Let_def split: if_splits)
next
  case (Some r)
  with assms locked show thesis by (auto simp: ensure_map_row_def)
qed

lemma persist_version_body_Inr:
  assumes "persist_version_body x io m v obs (d, fs) = (Inr m', (d', fs'))"
  obtains d1 current fs1 where "ensure_map_row x io m (d, fs) = (Inr (m', current), (d1, fs1))" "ver_Version v = current + 1"
    "map_versions d' = map_versions d1 @ [version_row x (mt_ID m) v]" "map_entries d' = map_entries (update_map_row x m' d1)"
proof -
  from assms obtain m1 current d1 fs1 where e: "ensure_map_row x io m (d, fs) = (Inr (m1, current), (d1, fs1))"
    and g: "current + 1 = ver_Version v" and rest: "tx_bind (tx_stmt (insert_version x (mt_ID m) v)) (\<lambda>_.
      tx_bind (insert_objects (mt_ID m) (ver_Version v) obs) (\<lambda>_. tx_bind (tx_exec (update_map_row x m1)) (\<lambda>_. tx_ret m1))) (d1, fs1) = (Inr m', (d', fs'))"
    by (auto simp: persist_version_body_def)
  from rest obtain d2 d3 fs2 u where v: "insert_version x (mt_ID m) v d1 = Some ((), d2)"
    and o: "insert_objects (mt_ID m) (ver_Version v) obs (d2, tl fs1) = (Inr u, (d3, fs2))"
    and d': "d' = update_map_row x m1 d3" and "m1 = m'"
    by auto
  from o obtain os where "d3 = d2\<lparr>map_objects := os\<rparr>" using insert_objects_Inr by blast
  with v d' have "map_versions d' = map_versions d1 @ [version_row x (mt_ID m) v]" "map_entries d' = map_entries (update_map_row x m1 d1)"
    by (auto simp: insert_version_def update_map_row_def split: if_splits)
  with e g \<open>m1 = m'\<close> show thesis by (intro that [of current d1 fs1]) auto
qed

lemma map_row_of_update_map_row:
  "map_row_of (update_map_row x m d) j =
    map_option (\<lambda>r. if mr_id r = mt_ID m then r\<lparr>mr_name := mt_Name m, mr_kind := mt_Kind m, mr_sha256 := mt_SHA256 m,
       mr_size := mt_Size m, mr_source := mt_Source m, mr_updated_at := x_ts x (mt_UpdatedNS m), mr_uploader := mt_Uploader m\<rparr> else r)
     (map_row_of d j)"
  unfolding map_row_of_def update_map_row_def by simp (rule find_update_where, simp)

lemma map_row_of_id: "map_row_of d i = Some r \<Longrightarrow> mr_id r = i"
  by (auto simp: map_row_of_def find_Some_iff)

lemma map_row_of_update_other: "j \<noteq> mt_ID m \<Longrightarrow> map_row_of (update_map_row x m d) j = map_row_of d j"
  by (cases "map_row_of d j") (auto simp: map_row_of_update_map_row dest: map_row_of_id)

lemma map_row_of_append: "map_row_of (d\<lparr>map_entries := map_entries d @ [r]\<rparr>) j =
    (case map_row_of d j of None \<Rightarrow> if mr_id r = j then Some r else None | Some q \<Rightarrow> Some q)"
  by (simp add: map_row_of_def find_append split: option.splits)

lemma version_rows_append:
  "map_versions d' = map_versions d @ [version_row x i v] \<Longrightarrow>
   version_rows d' j = version_rows d j @ (if j = i then [version_row x i v] else [])"
  by (simp add: version_rows_def version_row_def)

lemma map_agrees_absent: "map_agrees x ms d \<Longrightarrow> map_row_of d i = None \<longleftrightarrow> map_of (ms_maps ms) i = None"
  by (auto simp: map_agrees_def dest!: spec [of _ i] split: option.splits)

lemma map_agrees_present:
  assumes "map_agrees x ms d" and "map_of (ms_maps ms) i = Some m"
  obtains r where "entry_ok i m" "map_row_of d i = Some r" "row_agrees x m r" "version_rows d i = map (version_row x i) (mt_Versions m)"
  using assms by (auto simp: map_agrees_def dest!: spec [of _ i])

lemma entry_ok_next:
  assumes "next_of m v old" and "mt_Versions m' = mt_Versions m" and "mt_ID m' = mt_ID m" and "ver_Files v \<noteq> []"
    and "case old of None \<Rightarrow> ver_Version v = 1 | Some m0 \<Rightarrow> entry_ok (mt_ID m) m0 \<and> ver_Version v = length (mt_Versions m0) + 1"
  shows "entry_ok (mt_ID m) m'"
  using assms by (auto simp: next_of_def entry_ok_def split: option.splits)

text \<open>A stored version extends the entry it was made for, and memory and database still agree.\<close>

lemma persist_version_agrees:
  assumes body: "persist_version_body x io m v obs (d, fs) = (Inr m', (d', fs'))"
    and agrees: "map_agrees x ms d" and nxt: "next_of m v (map_of (ms_maps ms) (mt_ID m))" and files: "ver_Files v \<noteq> []"
  shows "map_agrees x (ms\<lparr>ms_maps := AList.update (mt_ID m) m' (ms_maps ms)\<rparr>) d' \<and> mt_Versions m' = mt_Versions m \<and>
    mt_ID m' = mt_ID m \<and> mt_VehicleID m' = mt_VehicleID m"
proof -
  obtain d1 current fs1 where e: "ensure_map_row x io m (d, fs) = (Inr (m', current), (d1, fs1))" and v: "ver_Version v = current + 1"
    and vs: "map_versions d' = map_versions d1 @ [version_row x (mt_ID m) v]" and es: "map_entries d' = map_entries (update_map_row x m' d1)"
    using persist_version_body_Inr [OF body] by blast
  have row: "map_row_of d' j = map_row_of (update_map_row x m' d1) j" for j using es by (simp add: map_row_of_def)
  have vd1: "version_rows d1 = version_rows d"
    by (rule ensure_map_row_Inr [OF e]) (auto simp: version_rows_def)
  have same: "mt_Versions m' = mt_Versions m" "mt_ID m' = mt_ID m" "mt_VehicleID m' = mt_VehicleID m"
    by (rule ensure_map_row_Inr [OF e]; simp)+
  have "(\<exists>r. map_row_of d' (mt_ID m) = Some r \<and> row_agrees x m' r) \<and> (\<forall>j. j \<noteq> mt_ID m \<longrightarrow> map_row_of d' j = map_row_of d j) \<and>
      distinct (map mr_id (map_entries d')) \<and> entry_ok (mt_ID m) m'"
  proof (rule ensure_map_row_Inr [OF e])
    assume *: "map_row_of d (mt_ID m) = None" "current = 0" "d1 = d\<lparr>map_entries := map_entries d @ [new_map_row x (mi_db_now io) m']\<rparr>"
    have none: "map_of (ms_maps ms) (mt_ID m) = None" using * map_agrees_absent [OF agrees] by blast
    have "map_row_of d' (mt_ID m) = Some ((new_map_row x (mi_db_now io) m')\<lparr>mr_updated_at := x_ts x (mt_UpdatedNS m')\<rparr>)"
      using * same by (simp add: row map_row_of_update_map_row map_row_of_append new_map_row_def)
    moreover have "mt_ID m \<notin> mr_id ` set (map_entries d)" using *(1) by (auto simp: map_row_of_def find_None_iff)
    then have "distinct (map mr_id (map_entries d'))"
      using * same agrees by (simp add: es update_map_row_def map_agrees_def new_map_row_def)
    moreover have "entry_ok (mt_ID m) m'" by (rule entry_ok_next [OF nxt same(1,2) files]) (simp add: none v *(2))
    ultimately show ?thesis using * same
      by (auto simp: row_agrees_def new_map_row_def row map_row_of_update_map_row map_row_of_append dest: map_row_of_id split: option.splits)
  next
    fix r
    assume *: "map_row_of d (mt_ID m) = Some r" "current = latest_version d (mt_ID m)" "d1 = d" "m' = m"
    then obtain m0 where m0: "map_of (ms_maps ms) (mt_ID m) = Some m0" using map_agrees_absent [OF agrees, of "mt_ID m"] by auto
    then have m0': "entry_ok (mt_ID m) m0" "row_agrees x m0 r" "version_rows d (mt_ID m) = map (version_row x (mt_ID m)) (mt_Versions m0)"
      using map_agrees_present [OF agrees m0] * by auto
    have "entry_ok (mt_ID m) m'"
      by (rule entry_ok_next [OF nxt same(1,2) files]) (simp add: m0 m0'(1) v *(2) latest_version_agrees [OF m0'(1,3)])
    moreover have "distinct (map mr_id (map_entries d'))"
      using * agrees by (simp add: es update_map_row_def map_agrees_def)
    moreover have "\<exists>r. map_row_of d' (mt_ID m) = Some r \<and> row_agrees x m' r"
      using * m0 m0' nxt map_row_of_id [OF *(1)] by (auto simp: next_of_def row_agrees_def row map_row_of_update_map_row)
    ultimately show ?thesis using *(3,4) by (simp add: row map_row_of_update_other)
  qed
  then have new_row: "\<exists>r. map_row_of d' (mt_ID m) = Some r \<and> row_agrees x m' r"
    and others: "j \<noteq> mt_ID m \<Longrightarrow> map_row_of d' j = map_row_of d j"
    and dist: "distinct (map mr_id (map_entries d'))"
    and ok: "entry_ok (mt_ID m) m'" for j
    by blast+
  have at_i: "version_rows d (mt_ID m) @ [version_row x (mt_ID m) v] = map (version_row x (mt_ID m)) (mt_Versions m')"
    using agrees nxt same unfolding map_agrees_def next_of_def
    by (auto dest!: spec [of _ "mt_ID m"] split: option.splits)
  have "case map_of (AList.update (mt_ID m) m' (ms_maps ms)) j of
            None \<Rightarrow> map_row_of d' j = None \<and> version_rows d' j = []
          | Some q \<Rightarrow> entry_ok j q \<and> (\<exists>r. map_row_of d' j = Some r \<and> row_agrees x q r) \<and>
              version_rows d' j = map (version_row x j) (mt_Versions q)" for j
  proof (cases "j = mt_ID m")
    case True
    with new_row ok at_i show ?thesis by (simp add: update_conv' version_rows_append [OF vs] vd1)
  next
    case False
    have "case map_of (ms_maps ms) j of
            None \<Rightarrow> map_row_of d j = None \<and> version_rows d j = []
          | Some q \<Rightarrow> entry_ok j q \<and> (\<exists>r. map_row_of d j = Some r \<and> row_agrees x q r) \<and>
              version_rows d j = map (version_row x j) (mt_Versions q)"
      using agrees unfolding map_agrees_def by blast
    with False show ?thesis
      by (simp add: update_conv' version_rows_append [OF vs] vd1 others [OF False] cong: option.case_cong)
  qed
  then show ?thesis using dist same by (simp add: map_agrees_def)
qed

section \<open>What an upload, a conversion or an edit may touch\<close>

definition content :: "MapStore \<Rightarrow> string \<Rightarrow> nat \<Rightarrow> string \<Rightarrow> bytes option" where
  "content ms i n f = map_of (ms_files ms) (i, n, f)"

definition next_no :: "MapStore \<Rightarrow> string \<Rightarrow> nat" where
  "next_no ms i = (case map_of (ms_maps ms) i of None \<Rightarrow> 1 | Some m \<Rightarrow> length (mt_Versions m) + 1)"

text \<open>Nothing is stored, or one version more of one map; files change at most in its directory.\<close>

definition adds_version :: "ext \<Rightarrow> string \<Rightarrow> map_world \<Rightarrow> map_world \<Rightarrow> bool" where
  "adds_version x i mw mw' \<longleftrightarrow>
    (ms_maps (fst mw') = ms_maps (fst mw) \<and> (\<forall>ms. map_agrees x ms (map_db mw') = map_agrees x ms (map_db mw)) \<or>
     (\<exists>m' v. next_of m' v (map_of (ms_maps (fst mw)) i) \<and> ms_maps (fst mw') = AList.update i m' (ms_maps (fst mw)) \<and>
        map_agrees x (fst mw') (map_db mw'))) \<and>
    (\<forall>j k f. (j, k) \<noteq> (i, next_no (fst mw) i) \<longrightarrow> content (fst mw') j k f = content (fst mw) j k f)"

lemma map_of_filter_key: "map_of (filter (\<lambda>(k, v). P k) al) k = (if P k then map_of al k else None)"
  by (induction al) auto

lemma content_put_file: "content (put_file (i, n, g) b ms) j k f = (if (j, k, f) = (i, n, g) then Some b else content ms j k f)"
  by (simp add: content_def put_file_def update_conv')

lemma content_remove_version: "content (remove_version ok i n ms) j k f = (if ok \<and> (j, k) = (i, n) then None else content ms j k f)"
proof -
  have "filter (\<lambda>((j, k, f), b). \<not> (j = i \<and> k = n)) (ms_files ms) = filter (\<lambda>(q, b). \<not> (fst q = i \<and> fst (snd q) = n)) (ms_files ms)"
    by (rule filter_cong) auto
  then show ?thesis by (simp add: content_def remove_version_def map_of_filter_key)
qed

lemma content_maps [simp]: "content (ms\<lparr>ms_maps := q\<rparr>) i n f = content ms i n f"
  by (simp add: content_def)

lemma stage_files_frame:
  "stage_files u x io i n k files ms = (r, ms') \<Longrightarrow>
   ms_maps ms' = ms_maps ms \<and> (\<forall>j q f. (j, q) \<noteq> (i, n) \<longrightarrow> content ms' j q f = content ms j q f)"
proof (induction files arbitrary: k ms r ms')
  case (Cons a files)
  obtain name b where [simp]: "a = (name, b)" by force
  show ?case
  proof (cases "go_base name = ''.'' \<or> go_base name = ''..'' \<or> has_separator name \<or> b = [] \<or> mi_write io k \<noteq> None")
    case True
    with Cons.prems show ?thesis
      by (auto simp: Let_def content_remove_version content_put_file split: if_splits option.splits)
  next
    case False
    then obtain r1 where "stage_files u x io i n (k + 1) files (put_file (i, n, go_base name) b ms) = (r1, ms')"
      using Cons.prems by (auto simp: Let_def split: prod.splits sum.splits)
    from Cons.IH [OF this] show ?thesis by (auto simp: content_put_file)
  qed
qed simp

lemma stage_files_names:
  "stage_files u x io i n k files ms = (Inr obs, ms') \<Longrightarrow> length obs = length files"
proof (induction files arbitrary: k ms obs ms')
  case (Cons a files)
  obtain name b where [simp]: "a = (name, b)" by force
  from Cons.prems obtain o1 ob where "obs = ob # o1"
    "stage_files u x io i n (k + 1) files (put_file (i, n, go_base name) b ms) = (Inr o1, ms')"
    by (auto simp: Let_def split: if_splits option.splits prod.splits sum.splits)
  with Cons.IH show ?case by auto
qed simp

text \<open>Both kinds of versions go through this: the transaction decides which of the two it is.\<close>

lemma persisted_adds_version:
  assumes agrees: "map_agrees x (fst mw) (map_db mw)" and i: "mt_ID m = i"
    and nxt: "next_of m v (map_of (ms_maps (fst mw)) i)" and files: "ver_Files v \<noteq> []"
    and maps: "ms_maps ms1 = ms_maps (fst mw)"
    and frame: "\<And>j k f. (j, k) \<noteq> (i, next_no (fst mw) i) \<Longrightarrow> content ms1 j k f = content (fst mw) j k f"
    and persist: "persistVersion x io m v obs (snd (snd mw)) = (r, s')"
    and failed: "\<And>e. r = Inl e \<Longrightarrow> fst mw' = remove_version ok i (next_no (fst mw) i) ms1 \<and> map_db mw' = fst s'"
    and stored: "\<And>m'. r = Inr m' \<Longrightarrow> fst mw' = ms1\<lparr>ms_maps := AList.update i m' (ms_maps ms1)\<rparr> \<and>
      (\<forall>ms. map_agrees x ms (map_db mw') = map_agrees x ms (fst s'))"
  shows "adds_version x i mw mw'"
proof -
  obtain st d fs where mw: "snd mw = (st, (d, fs))" by (metis prod.exhaust)
  show ?thesis
  proof (rule run_tx_cases [of "persist_version_body x io m v obs" d fs])
    fix e fs'
    assume "run_tx (persist_version_body x io m v obs) (d, fs) = (Inl e, (d, fs'))"
    with persist mw have "r = Inl e" "s' = (d, fs')" by (auto simp: persistVersion_def)
    with failed mw maps frame show ?thesis by (auto simp: adds_version_def content_remove_version)
  next
    fix m' d' gs fs'
    assume "run_tx (persist_version_body x io m v obs) (d, fs) = (Inr m', (d', fs'))"
      and body: "persist_version_body x io m v obs (d, tl fs) = (Inr m', (d', gs))"
    with persist mw have r: "r = Inr m'" "s' = (d', fs')" by (auto simp: persistVersion_def)
    have "map_agrees x (fst mw) d" using agrees mw by simp
    from persist_version_agrees [OF body this] nxt files i
    have *: "map_agrees x ((fst mw)\<lparr>ms_maps := AList.update i m' (ms_maps (fst mw))\<rparr>) d'" "mt_Versions m' = mt_Versions m"
      "mt_ID m' = mt_ID m" "mt_VehicleID m' = mt_VehicleID m" by auto
    moreover have "next_of m' v (map_of (ms_maps (fst mw)) i)"
      using nxt * by (simp add: next_of_def cong: option.case_cong)
    moreover have "map_agrees x (fst mw') (map_db mw') = map_agrees x ((fst mw)\<lparr>ms_maps := AList.update i m' (ms_maps (fst mw))\<rparr>) d'"
    proof -
      have "ms_maps (fst mw') = ms_maps ((fst mw)\<lparr>ms_maps := AList.update i m' (ms_maps (fst mw))\<rparr>)"
        using stored [OF r(1)] maps by simp
      from map_agrees_maps [OF this] stored [OF r(1)] r(2) show ?thesis by simp
    qed
    ultimately show ?thesis using stored [OF r(1)] maps frame unfolding adds_version_def by auto
  qed
qed

lemma map_of_id: "map_agrees x ms d \<Longrightarrow> map_of (ms_maps ms) i = Some m \<Longrightarrow> mt_ID m = i"
  by (rule map_agrees_present) (auto simp: entry_ok_def)

lemma adds_version_refl: "adds_version x i mw mw"
  by (simp add: adds_version_def)

lemma register_version_adds:
  assumes "map_inv x mw"
  shows "adds_version x (map_id vehicleID name) mw (snd (register_version u x io vehicleID name kind source author data mw))"
proof -
  let ?i = "map_id vehicleID name"
  let ?n = "next_no (fst mw) ?i"
  let ?m = "case map_of (ms_maps (fst mw)) ?i of None \<Rightarrow> new_entry ?i vehicleID name kind (mi_now io) | Some m \<Rightarrow> m"
  have n: "length (mt_Versions ?m) + 1 = ?n" by (simp add: next_no_def new_entry_def split: option.splits)
  have i: "mt_ID ?m = ?i" using assms map_of_id by (auto simp: map_inv_def new_entry_def split: option.splits)
  let ?sha = "x_sha256_hex x data"
  let ?v = "upload_version io ?n name kind source author ?sha data"
  let ?c = "upload_candidate io ?m ?v kind source author ?sha data"
  let ?ms1 = "put_file (?i, ?n, name) data (fst mw)"
  obtain r s' where p: "persistVersion x io ?c ?v [fileManifest u x ?i ?n name data] (snd (snd mw)) = (r, s')" by (meson surj_pair)
  have nxt: "next_of ?c ?v (map_of (ms_maps (fst mw)) ?i)"
    by (simp add: next_of_def upload_candidate_def new_entry_def split: option.splits)
  show ?thesis
  proof (cases "\<not> mi_mkdir io \<or> mi_write io 0 \<noteq> None")
    case True
    then show ?thesis
      by (auto simp: register_version_def Let_def next_no_def new_entry_def adds_version_def content_remove_version content_put_file
          split: option.splits)
  next
    case False
    then have eq: "snd (register_version u x io vehicleID name kind source author data mw) =
      (case r of Inl e \<Rightarrow> (remove_version (mi_remove io) ?i ?n ?ms1, (fst (snd mw), s'))
       | Inr m' \<Rightarrow> (?ms1\<lparr>ms_maps := AList.update ?i m' (ms_maps ?ms1)\<rparr>,
             pushEvent (mi_now io) ''info'' vehicleID (TxtMapUpdated name (int ?n) (upload_note source) (length data)) ''sys'' (fst (snd mw), s')))"
      by (simp add: register_version_def Let_def n [unfolded Suc_eq_plus1 [symmetric]] p split: sum.splits)
    show ?thesis unfolding eq
    proof (rule persisted_adds_version [OF _ _ nxt _ _ _ p])
      show "map_agrees x (fst mw) (map_db mw)" using assms by (simp add: map_inv_def)
      show "mt_ID ?c = ?i" using i by (simp add: upload_candidate_def)
      show "ver_Files ?v \<noteq> []" by (simp add: upload_version_def)
    qed (auto simp: content_put_file)
  qed
qed

lemma Register_adds:
  "map_inv x mw \<Longrightarrow> adds_version x (map_id v name) mw (snd (Register u x io v name src author data mw))"
  by (auto simp: Register_def adds_version_refl intro: register_version_adds split: option.splits)

lemma addDerivedLocked_adds:
  assumes inv: "map_inv x mw" and m: "map_of (ms_maps (fst mw)) i = Some m"
  shows "adds_version x i mw (snd (addDerivedLocked u x io m kind note author meta files mw))"
proof -
  have i: "mt_ID m = i" using inv m map_of_id by (auto simp: map_inv_def)
  let ?n = "next_no (fst mw) i"
  have n: "Suc (length (mt_Versions m)) = ?n" by (simp add: next_no_def m)
  obtain sr ms1 where stage: "stage_files u x io i ?n 0 files (fst mw) = (sr, ms1)" by (meson surj_pair)
  note frame = stage_files_frame [OF stage]
  show ?thesis
  proof (cases "files = [] \<or> \<not> mi_mkdir io \<or> \<not> is_ok sr")
    case True
    with frame show ?thesis
      by (auto simp: addDerivedLocked_def Let_def i n stage adds_version_def split: sum.splits)
  next
    case False
    then obtain obs where [simp]: "sr = Inr obs" and ok: "files \<noteq> []" "mi_mkdir io" by (cases sr) auto
    let ?o = "sort_key om_Name obs"
    let ?v = "derived_version x io ?n kind note author meta ?o"
    obtain r s' where p: "persistVersion x io (derived_candidate m ?v kind author) ?v ?o (snd (snd mw)) = (r, s')" by (meson surj_pair)
    have eq: "snd (addDerivedLocked u x io m kind note author meta files mw) =
      (case r of Inl e \<Rightarrow> (remove_version (mi_remove io) i ?n ms1, (fst (snd mw), s'))
       | Inr m' \<Rightarrow> (ms1\<lparr>ms_maps := AList.update i m' (ms_maps ms1)\<rparr>, (fst (snd mw), s')))"
      using ok by (simp add: addDerivedLocked_def i n stage p Let_def split: sum.splits)
    have nxt: "next_of (derived_candidate m ?v kind author) ?v (map_of (ms_maps (fst mw)) i)"
      by (simp add: next_of_def derived_candidate_def m)
    have "obs \<noteq> []" using stage_files_names [of u x io i ?n 0 files "fst mw" obs ms1] stage ok by auto
    then have "?o \<noteq> []" by (metis length_sort length_0_conv)
    show ?thesis unfolding eq
    proof (rule persisted_adds_version [OF _ _ nxt _ _ _ p])
      show "map_agrees x (fst mw) (map_db mw)" using inv by (simp add: map_inv_def)
      show "mt_ID (derived_candidate m ?v kind author) = i" using i by (simp add: derived_candidate_def)
      show "ver_Files ?v \<noteq> []" using \<open>?o \<noteq> []\<close> by (simp add: derived_version_def)
    qed (use frame in auto)
  qed
qed

lemma adds_version_event:
  "adds_version x i mw mw' \<Longrightarrow> adds_version x i mw (fst mw', pushEvent now level v txt kind (snd mw'))"
  by (simp add: adds_version_def)

lemma derived_event:
  "adds_version x i mw (snd p) \<Longrightarrow>
   adds_version x i mw (snd (case p of (Inl e, mw') \<Rightarrow> (Inl e, mw')
     | (Inr v, mw') \<Rightarrow> (Inr v, (fst mw', pushEvent now level w (txt v) kind (snd mw')))))"
  by (auto split: prod.splits sum.splits dest: adds_version_event)

lemma SaveEdit_adds: "map_inv x mw \<Longrightarrow> adds_version x i mw (snd (SaveEdit u x io i author png ops mw))"
  by (auto simp: SaveEdit_def adds_version_refl intro: addDerivedLocked_adds split: option.splits)

lemma Convert_adds:
  assumes "map_inv x mw"
  shows "adds_version x i mw (snd (Convert u x io conv i mw))"
proof (cases "map_of (ms_maps (fst mw)) i")
  case (Some m)
  show ?thesis
    unfolding Convert_def Some option.case Let_def
    by (auto simp: adds_version_refl intro!: derived_event addDerivedLocked_adds [OF assms Some] split: list.split option.split)
qed (simp add: Convert_def adds_version_refl)

section \<open>Runs\<close>

datatype map_op =
    MRegister map_io string string string string bytes
  | MSaveEdit map_io string string bytes jval
  | MConvert map_io "file_key \<Rightarrow> (string \<times> (string \<Rightarrow> bytes option)) option" string
  | MDelete map_io string

fun map_step :: "(string \<Rightarrow> string) \<Rightarrow> ext \<Rightarrow> map_world \<Rightarrow> map_op \<Rightarrow> map_world" where
  "map_step u x mw (MRegister io v name src author data) = snd (Register u x io v name src author data mw)"
| "map_step u x mw (MSaveEdit io i author png ops) = snd (SaveEdit u x io i author png ops mw)"
| "map_step u x mw (MConvert io conv i) = snd (Convert u x io conv i mw)"
| "map_step u x mw (MDelete io i) = snd (Delete io i mw)"

fun deletes :: "string \<Rightarrow> map_op \<Rightarrow> bool" where
  "deletes i (MDelete io j) = (i = j)"
| "deletes i _ = False"

lemma adds_version_inv: "map_inv x mw \<Longrightarrow> adds_version x i mw mw' \<Longrightarrow> map_inv x mw'"
  unfolding map_inv_def adds_version_def by (metis map_agrees_maps)

lemma find_filter_ne: "find (\<lambda>r. f r = j) (filter (\<lambda>r. f r \<noteq> i) rs) = (if j = i then None else find (\<lambda>r. f r = j) rs)"
  by (induction rs) auto

lemma delete_rows_agrees:
  assumes "map_agrees x ms d"
  shows "map_agrees x (ms\<lparr>ms_maps := AList.delete i (ms_maps ms)\<rparr>) (delete_map_rows i d)"
proof -
  have row: "map_row_of (delete_map_rows i d) j = (if j = i then None else map_row_of d j)" for j
    by (simp add: map_row_of_def delete_map_rows_def find_filter_ne)
  have vs: "version_rows (delete_map_rows i d) j = (if j = i then [] else version_rows d j)" for j
    by (auto simp: version_rows_def delete_map_rows_def intro: filter_cong)
  have "distinct (map mr_id (map_entries (delete_map_rows i d)))"
    using assms by (simp add: map_agrees_def delete_map_rows_def distinct_map_filter)
  moreover have "case map_of (AList.delete i (ms_maps ms)) j of
            None \<Rightarrow> map_row_of (delete_map_rows i d) j = None \<and> version_rows (delete_map_rows i d) j = []
          | Some m \<Rightarrow> entry_ok j m \<and> (\<exists>r. map_row_of (delete_map_rows i d) j = Some r \<and> row_agrees x m r) \<and>
              version_rows (delete_map_rows i d) j = map (version_row x j) (mt_Versions m)" for j
    using assms by (cases "j = i") (auto simp: map_agrees_def row vs delete_conv' dest!: spec [of _ j] split: option.splits)
  ultimately show ?thesis by (simp add: map_agrees_def)
qed

lemma delete_locked_inv:
  assumes "map_inv x mw" and "delete_locked i mw = (r, mw')"
  shows "map_inv x mw'"
proof -
  obtain ms st d fs where mw: "mw = (ms, (st, (d, fs)))" by (metis prod.exhaust)
  show ?thesis
    using assms delete_rows_agrees [of x ms d i]
    by (auto simp: delete_locked_def mw map_inv_def tx_exec_eq split: option.splits if_splits)
qed

lemma Delete_inv: "map_inv x mw \<Longrightarrow> map_inv x (snd (Delete io i mw))"
  using delete_locked_inv [of x mw i]
  by (auto simp: Delete_def delete_files_def map_inv_def split: prod.splits sum.splits)

lemma map_step_inv: "map_inv x mw \<Longrightarrow> map_inv x (map_step u x mw op)"
  by (cases op) (auto intro: adds_version_inv Register_adds SaveEdit_adds Convert_adds Delete_inv)

interpretation map_store: invariant_machine "map_step u x" "map_inv x" for u x
  by unfold_locales (rule map_step_inv)

section \<open>Versions are immutable\<close>

definition history_kept :: "string \<Rightarrow> map_world \<Rightarrow> map_world \<Rightarrow> bool" where
  "history_kept i mw mw' \<longleftrightarrow>
    (\<forall>m. map_Get (fst mw) i = Some m \<longrightarrow>
       (\<exists>m' vs. map_Get (fst mw') i = Some m' \<and> mt_Versions m' = mt_Versions m @ vs \<and> mt_VehicleID m' = mt_VehicleID m) \<and>
       (\<forall>n f. n \<le> length (mt_Versions m) \<longrightarrow> content (fst mw') i n f = content (fst mw) i n f))"

lemma history_kept_refl: "history_kept i mw mw"
  by (simp add: history_kept_def)

lemma history_kept_trans: "history_kept i a b \<Longrightarrow> history_kept i b c \<Longrightarrow> history_kept i a c"
  unfolding history_kept_def by fastforce

lemma adds_version_history: "adds_version x j mw mw' \<Longrightarrow> history_kept i mw mw'"
proof -
  assume adds: "adds_version x j mw mw'"
  have "content (fst mw') i n f = content (fst mw) i n f"
    if "map_of (ms_maps (fst mw)) i = Some m" "n \<le> length (mt_Versions m)" for m n f
  proof -
    have "(i, n) \<noteq> (j, next_no (fst mw) j)" using that by (auto simp: next_no_def)
    with adds show ?thesis by (simp add: adds_version_def)
  qed
  moreover have "\<exists>m' vs. map_Get (fst mw') i = Some m' \<and> mt_Versions m' = mt_Versions m @ vs \<and> mt_VehicleID m' = mt_VehicleID m"
    if "map_of (ms_maps (fst mw)) i = Some m" for m
    using adds that by (auto simp: adds_version_def map_Get_def next_of_def update_conv')
  ultimately show ?thesis by (auto simp: history_kept_def map_Get_def)
qed

lemma Delete_history:
  assumes "j \<noteq> i"
  shows "history_kept i mw (snd (Delete io j mw))"
proof -
  obtain ms st d fs where mw: "mw = (ms, (st, (d, fs)))" by (metis prod.exhaust)
  have "map_of (filter (\<lambda>((k, n, f), b). k \<noteq> j) al) (i, n, f) = map_of al (i, n, f)" for al :: "(file_key \<times> bytes) list" and n f
  proof -
    have "filter (\<lambda>((k, n, f), b). k \<noteq> j) al = filter (\<lambda>(q, b). fst q \<noteq> j) al" by (rule filter_cong) auto
    then show ?thesis using assms by (simp add: map_of_filter_key)
  qed
  then show ?thesis using assms
    by (auto simp: history_kept_def map_Get_def content_def Delete_def delete_locked_def delete_files_def mw tx_exec_eq delete_conv'
        split: option.splits)
qed

lemma map_step_history: "map_inv x mw \<Longrightarrow> \<not> deletes i op \<Longrightarrow> history_kept i mw (map_step u x mw op)"
  by (cases op) (auto intro: adds_version_history Register_adds SaveEdit_adds Convert_adds Delete_history)

lemma run_history:
  "map_inv x mw \<Longrightarrow> list_all (\<lambda>op. \<not> deletes i op) ops \<Longrightarrow> history_kept i mw (run (map_step u x) mw ops)"
proof (induction ops arbitrary: mw)
  case (Cons op ops)
  then show ?case
    using Cons.IH [OF map_step_inv [OF Cons.prems(1), of u op]] history_kept_trans [OF map_step_history [OF Cons.prems(1), of i op u]] by simp
qed (simp add: history_kept_refl)

section \<open>After a restart\<close>

definition stored_version :: "ext \<Rightarrow> MapVersion \<Rightarrow> MapVersion" where
  "stored_version x v = v\<lparr>ver_CreatedNS := x_ts x (ver_CreatedNS v)\<rparr>"

text \<open>What the catalogue says of a map; the times of its versions at the database's precision.\<close>

definition catalogue ::
  "MapEntry \<Rightarrow> string \<times> string \<times> string \<times> string \<times> string \<times> nat \<times> string \<times> string \<times> MapVersion list" where
  "catalogue m = (mt_ID m, mt_VehicleID m, mt_Name m, mt_Kind m, mt_SHA256 m, mt_Size m, mt_Source m, mt_Uploader m, mt_Versions m)"

definition stored_entry :: "ext \<Rightarrow> MapEntry \<Rightarrow> MapEntry" where
  "stored_entry x m = m\<lparr>mt_Versions := map (stored_version x) (mt_Versions m)\<rparr>"

lemma version_of_row_version_row: "version_of_row (version_row x i v) = stored_version x v"
  by (simp add: version_of_row_def version_row_def stored_version_def nullable_def split: option.splits)

lemma loaded_versions_agree:
  assumes "entry_ok i m" and "version_rows d i = map (version_row x i) (mt_Versions m)"
  shows "loaded_versions d i = map (stored_version x) (mt_Versions m)"
proof -
  have "map mv_version (version_rows d i) = [1..<Suc (length (mt_Versions m))]"
    using assms by (simp add: entry_ok_def version_row_def comp_def del: upt_Suc)
  then have "sorted (map mv_version (version_rows d i))" by (simp del: upt_Suc)
  then have "sort_key mv_version (version_rows d i) = version_rows d i" by (rule sort_key_id_if_sorted)
  then show ?thesis using assms(2) by (simp add: loaded_versions_def version_of_row_version_row)
qed

lemma map_of_rows:
  assumes "distinct (map f rs)"
  shows "map_of (map (\<lambda>r. (f r, g r)) rs) i = map_option g (find (\<lambda>r. f r = i) rs)"
  by (induction rs) auto

lemma find_distinct:
  assumes "distinct (map f rs)" and "set qs = set rs" and "distinct (map f qs)"
  shows "find (\<lambda>r. f r = i) qs = find (\<lambda>r. f r = i) rs"
proof (cases "\<exists>r \<in> set rs. f r = i")
  case True
  then obtain r where r: "r \<in> set rs" "f r = i" by blast
  have "find (\<lambda>r. f r = i) ps = Some r" if "distinct (map f ps)" "r \<in> set ps" for ps
    using that r(2) by (induction ps) (simp, force)
  with assms r show ?thesis by simp
next
  case False
  then have "find (\<lambda>r. f r = i) rs = None" "find (\<lambda>r. f r = i) qs = None" using assms(2) by (auto simp: find_None_iff)
  then show ?thesis by simp
qed

lemma load_catalogue:
  assumes "map_agrees x ms d"
  shows "\<exists>cat. fst (map_loadDB (d, [])) = Some cat \<and>
    (\<forall>i. map_option catalogue (map_of cat i) = map_option (catalogue \<circ> stored_entry x) (map_of (ms_maps ms) i))"
proof -
  let ?cat = "map (\<lambda>r. (mr_id r, loaded_entry d r)) (order_desc mr_updated_at (map_entries d))"
  have dist: "distinct (map mr_id (map_entries d))" using assms by (simp add: map_agrees_def)
  then have "distinct (map mr_id (order_desc mr_updated_at (map_entries d)))"
    by (simp add: distinct_map order_desc_def)
  then have cat: "map_of ?cat i = map_option (loaded_entry d) (map_row_of d i)" for i
    unfolding map_row_of_def by (simp only: map_of_rows find_distinct [OF dist set_order_desc])
  have "map_option catalogue (map_of ?cat i) = map_option (catalogue \<circ> stored_entry x) (map_of (ms_maps ms) i)" for i
  proof (cases "map_of (ms_maps ms) i")
    case None
    then show ?thesis using map_agrees_absent [OF assms, of i] by (simp add: cat)
  next
    case (Some m)
    then obtain r where ok: "entry_ok i m" and r: "map_row_of d i = Some r" "row_agrees x m r"
      and vs: "version_rows d i = map (version_row x i) (mt_Versions m)"
      by (rule map_agrees_present [OF assms])
    have "catalogue (loaded_entry d r) = catalogue (stored_entry x m)"
      using r(2) loaded_versions_agree [OF ok vs] map_row_of_id [OF r(1)] ok
      by (simp add: loaded_entry_def Let_def catalogue_def stored_entry_def row_agrees_def entry_ok_def del: upt_Suc)
    then show ?thesis unfolding cat by (simp add: r(1) Some)
  qed
  moreover have "list_all (\<lambda>r. mv_map r \<in> mr_id ` set (map_entries d)) (map_versions d)"
  proof (unfold list_all_iff, intro ballI)
    fix q assume "q \<in> set (map_versions d)"
    then have "version_rows d (mv_map q) \<noteq> []" by (auto simp: version_rows_def filter_empty_conv)
    then have "map_of (ms_maps ms) (mv_map q) \<noteq> None" using assms by (auto simp: map_agrees_def dest!: spec [of _ "mv_map q"] split: option.splits)
    then obtain r where "map_row_of d (mv_map q) = Some r" using map_agrees_absent [OF assms, of "mv_map q"] by auto
    then show "mv_map q \<in> mr_id ` set (map_entries d)" by (auto simp: map_row_of_def find_Some_iff image_iff) (metis nth_mem)
  qed
  then have "fst (map_loadDB (d, [])) = Some ?cat" by (simp add: map_loadDB_def tx_bind_def tx_guard_def tx_ret_def)
  ultimately show ?thesis by blast
qed

section \<open>Properties\<close>

lemma map_File_prefix:
  assumes "map_Get (fst mw) i = Some m" and "map_Get ms' i = Some m'" and "mt_Versions m' = mt_Versions m @ vs"
    and "map ver_Version (mt_Versions m') = [1..<Suc (length (mt_Versions m'))]" and "0 < n" "n \<le> length (mt_Versions m)"
    and "\<And>f. content ms' i n f = content (fst mw) i n f"
  shows "map_File ms' i f n = map_File (fst mw) i f n"
proof -
  have "map ver_Version vs = [Suc (length (mt_Versions m))..<Suc (length (mt_Versions m) + length vs)]"
    using arg_cong [OF assms(4), of "drop (length (mt_Versions m))"] assms(3) by (simp add: drop_map del: upt_Suc)
  then have "\<forall>v \<in> set vs. n < ver_Version v" using assms(6)
    by (metis (no_types, lifting) atLeastLessThan_iff image_eqI le_less_trans less_Suc_eq_le set_map set_upt Suc_le_lessD)
  then have "filter (\<lambda>v. ver_Version v = n \<and> go_base f \<in> set (ver_Files v)) vs = []" by (auto simp: filter_empty_conv)
  then show ?thesis using assms by (simp add: map_File_def map_Get_def content_def Let_def cong: list.case_cong)
qed

definition demo_io :: map_io where
  "demo_io = \<lparr>mi_now = 1000, mi_db_now = 1000, mi_mkdir = True, mi_write = (\<lambda>_. None), mi_remove = True\<rparr>"

definition demo_maps :: map_world where
  "demo_maps = (\<lparr>ms_maps = [], ms_files = []\<rparr>, (NewState [] None, (empty_db, [])))"

definition demo_map_ops :: "map_op list" where
  "demo_map_ops = [MRegister demo_io ''v1'' ''yard.pcd'' ''manual'' ''amy'' [1], MSaveEdit demo_io ''v1-yard'' ''amy'' [2] JNull,
     MRegister demo_io ''v1'' ''yard.pcd'' ''vehicle_push'' ''v1'' [3, 4]]"

lemma demo_maps_inv: "map_inv x demo_maps"
  by (simp add: map_inv_def demo_maps_def map_agrees_def map_row_of_def version_rows_def empty_db_def)

text \<open>
  C20. Versions of a map are immutable: whatever uploads, edits, conversions and deletions of other
  maps follow, with any failure of a file operation or a statement, every version the map has
  stays at its place with its metadata, its files read the same bytes, and the version numbers
  remain 1, 2, 3 and so on without a gap.
\<close>

theorem map_versions_immutable:
  assumes "map_inv x mw" and "list_all (\<lambda>op. \<not> deletes i op) ops" and "map_Get (fst mw) i = Some m"
  shows "\<exists>m' vs. map_Get (fst (run (map_step u x) mw ops)) i = Some m' \<and> mt_Versions m' = mt_Versions m @ vs \<and>
    map ver_Version (mt_Versions m') = [1..<Suc (length (mt_Versions m'))] \<and>
    (\<forall>n f. 0 < n \<and> n \<le> length (mt_Versions m) \<longrightarrow>
       map_File (fst (run (map_step u x) mw ops)) i f n = map_File (fst mw) i f n)"
proof -
  let ?mw = "run (map_step u x) mw ops"
  from run_history [OF assms(1,2), of u] assms(3) obtain m' vs where m': "map_Get (fst ?mw) i = Some m'" "mt_Versions m' = mt_Versions m @ vs"
    and same: "\<And>n f. n \<le> length (mt_Versions m) \<Longrightarrow> content (fst ?mw) i n f = content (fst mw) i n f"
    unfolding history_kept_def by blast
  have "map_agrees x (fst ?mw) (map_db ?mw)" using map_store.run_inv [OF assms(1)] by (simp add: map_inv_def)
  from map_agrees_present [OF this] m'(1) have nums: "map ver_Version (mt_Versions m') = [1..<Suc (length (mt_Versions m'))]"
    by (auto simp: map_Get_def entry_ok_def simp del: upt_Suc)
  then show ?thesis using m' same map_File_prefix [OF assms(3) m' nums] by blast
qed


text \<open>
  The id of a map does not determine its vehicle: an upload of another vehicle whose name and
  file name join to the same text is stored as a new version of the first vehicle's map.
\<close>

theorem map_id_collision:
  "let mw1 = snd (Register id demo_ext demo_io ''truck'' ''1-yard.pcd'' ''vehicle_push'' ''truck'' [1] demo_maps);
       (r, mw2) = Register id demo_ext demo_io ''truck-1'' ''yard.pcd'' ''vehicle_push'' ''truck-1'' [2, 3] mw1
   in is_ok r \<and> map_option (\<lambda>m. (mt_VehicleID m, map ver_Author (mt_Versions m))) (map_Get (fst mw2) ''truck-1-yard'') =
        Some (''truck'', [''truck'', ''truck-1''])"
  by code_simp

text \<open>
  A process whose memory is behind the database destroys content: when another process sharing
  the directory has stored the next version, an upload is refused as a version conflict, but it
  has already overwritten a file of that version and then removes its whole directory, although
  the database goes on listing it.
\<close>

theorem stale_upload_removes_version:
  assumes "map_Get (fst mw) (map_id v name) = Some m" and "mt_ID m = map_id v name" and "snd (snd mw) = (d, [])"
    and "map_row_of d (map_id v name) \<noteq> None" and "latest_version d (map_id v name) > length (mt_Versions m)"
    and "v \<noteq> []" "name \<noteq> []" "data \<noteq> []" "\<not> bad_file_name name" "kindOf u name \<noteq> ''unknown''"
    and "mt_SHA256 m \<noteq> x_sha256_hex x data" and "mi_mkdir io" "mi_write io 0 = None" "mi_remove io"
    and "Register u x io v name src author data mw = (r, mw')"
  shows "\<not> is_ok r \<and> map_db mw' = d \<and>
    (\<forall>f. content (fst mw') (map_id v name) (length (mt_Versions m) + 1) f = None)"
proof -
  let ?i = "map_id v name" and ?n = "Suc (length (mt_Versions m))"
  have conflict: "persistVersion x io c w obs (d, []) = (Inl (Dom (MapVersionConflict (latest_version d ?i) (ver_Version w))), (d, []))"
    if "mt_ID c = ?i" "ver_Version w = ?n" for c w obs
    using that assms(4,5)
    by (auto simp: persistVersion_def run_tx_def persist_version_body_def ensure_map_row_def tx_bind_def tx_guard_def tx_ret_def tx_fail_def)
  have "r = Inl (Dom (MapVersionConflict (latest_version d ?i) ?n))"
    "mw' = (remove_version True ?i ?n (put_file (?i, ?n, name) data (fst mw)), (fst (snd mw), (d, [])))"
    using assms by (auto simp: Register_def register_version_def Let_def map_Get_def conflict upload_candidate_def upload_version_def)
  then show ?thesis by (simp add: content_remove_version)
qed

subsection \<open>Witnesses\<close>

theorem map_versions_immutable_witness:
  "let mw = run (map_step id demo_ext) demo_maps (take 1 demo_map_ops); mw' = run (map_step id demo_ext) mw (drop 1 demo_map_ops)
   in map_File (fst mw) ''v1-yard'' ''yard.pcd'' 1 = Some [1] \<and> map_File (fst mw') ''v1-yard'' ''yard.pcd'' 1 = Some [1] \<and>
      map_option (map ver_Version \<circ> mt_Versions) (map_Get (fst mw') ''v1-yard'') = Some [1, 2, 3]"
proof -
  let ?mw = "run (map_step id demo_ext) demo_maps (take 1 demo_map_ops)"
  let ?mw' = "run (map_step id demo_ext) ?mw (drop 1 demo_map_ops)"
  have inv: "map_inv demo_ext ?mw" by (rule map_store.run_inv [OF demo_maps_inv])
  have ops: "list_all (\<lambda>op. \<not> deletes ''v1-yard'' op) (drop 1 demo_map_ops)" by (simp add: demo_map_ops_def)
  have some: "map_option (length \<circ> mt_Versions) (map_Get (fst ?mw) ''v1-yard'') = Some 1" by code_simp
  then obtain m where m: "map_Get (fst ?mw) ''v1-yard'' = Some m" "length (mt_Versions m) = 1" by auto
  from map_versions_immutable [OF inv ops m(1), of id] m(2)
  have "map_File (fst ?mw') ''v1-yard'' ''yard.pcd'' 1 = map_File (fst ?mw) ''v1-yard'' ''yard.pcd'' 1" by auto
  moreover have "map_File (fst ?mw) ''v1-yard'' ''yard.pcd'' 1 = Some [1]" by code_simp
  moreover have "map_option (map ver_Version \<circ> mt_Versions) (map_Get (fst ?mw') ''v1-yard'') = Some [1, 2, 3]" by code_simp
  ultimately show ?thesis by (simp add: Let_def)
qed


definition demo_first :: map_world where
  "demo_first = run (map_step id demo_ext) demo_maps (take 1 demo_map_ops)"

definition demo_second :: map_world where
  "demo_second = run (map_step id demo_ext) demo_first (drop 1 demo_map_ops)"

text \<open>A second process still has the first state in memory.\<close>

definition demo_stale :: map_world where
  "demo_stale = (\<lparr>ms_maps = ms_maps (fst demo_first), ms_files = ms_files (fst demo_second)\<rparr>, (fst (snd demo_first), (map_db demo_second, [])))"

end
