(* ===== verification/Map_Publication.thy ===== *)
theory Map_Publication
  imports Map_Store
begin

text \<open>
  \<open>server/fleet/map_publication.go\<close>: publishing a map version to a vehicle. A publication is
  requested, approved (which checks the vehicle's declared abilities and queues the signed command),
  dispatched by the outbox and then moved by the vehicle's acknowledgements. The state of a
  publication is a row; nothing of it is kept in the process. \<open>decode\<close> reads the stored capability
  snapshot and \<open>mk\<close> serialises the command.
\<close>

section \<open>Messages and errors\<close>

datatype MapPublicationAction =
    MAP_PUBLICATION_ACTION_UNSPECIFIED | MAP_PUBLICATION_ACTION_APPLY | MAP_PUBLICATION_ACTION_ROLLBACK
  | MAP_PUBLICATION_ACTION_NUM int

datatype MapPublicationResult =
    MAP_PUBLICATION_RESULT_UNSPECIFIED | MAP_PUBLICATION_RESULT_ACCEPTED | MAP_PUBLICATION_RESULT_REJECTED
  | MAP_PUBLICATION_RESULT_APPLIED | MAP_PUBLICATION_RESULT_FAILED | MAP_PUBLICATION_RESULT_NUM int

fun MapPublicationResult_String :: "MapPublicationResult \<Rightarrow> string" where
  "MapPublicationResult_String MAP_PUBLICATION_RESULT_UNSPECIFIED = ''MAP_PUBLICATION_RESULT_UNSPECIFIED''"
| "MapPublicationResult_String MAP_PUBLICATION_RESULT_ACCEPTED = ''MAP_PUBLICATION_RESULT_ACCEPTED''"
| "MapPublicationResult_String MAP_PUBLICATION_RESULT_REJECTED = ''MAP_PUBLICATION_RESULT_REJECTED''"
| "MapPublicationResult_String MAP_PUBLICATION_RESULT_APPLIED = ''MAP_PUBLICATION_RESULT_APPLIED''"
| "MapPublicationResult_String MAP_PUBLICATION_RESULT_FAILED = ''MAP_PUBLICATION_RESULT_FAILED''"
| "MapPublicationResult_String (MAP_PUBLICATION_RESULT_NUM n) = show_int n"

record MapPublicationCommand =
  pc_version :: u32
  pc_action :: MapPublicationAction
  pc_publication_id :: string
  pc_map_id :: string
  pc_vehicle_id :: string
  pc_map_version :: u32
  pc_content_sha256 :: string
  pc_coordinate_frame :: string
  pc_compatibility_entry :: string
  pc_rollback_publication_id :: string
  pc_trace_id :: string

record MapPublicationAck =
  pa_publication_id :: string
  pa_map_id :: string
  pa_vehicle_id :: string
  pa_map_version :: u32
  pa_result :: MapPublicationResult
  pa_detail :: string
  pa_applied_at_unix_ns :: int

type_synonym mapPublication = publication_row

datatype pub_error =
    PubAction | PubNoMap | PubNoMapVersion string int | PubNoId | PubNothingToRollBack | PubUnknown | PubState string
  | PubFrame | PubFrameMismatch string string | PubFormat string | PubMatrix | PubNoVehicle | PubNotMonitored
  | PubLifecycle string | PubSnapshot | PubMarshal | PubRandom | PubSign | PubOutbox outbox_error
  | PubNotActive | PubTarget | PubAckFields | PubAckIdentity | PubAckState string | PubAckResult | PubNoTarget

section \<open>The version and its compatibility\<close>

definition mapVersionOf :: "MapEntry option \<Rightarrow> int \<Rightarrow> pub_error + MapVersion" where
  "mapVersionOf entry version =
    (case entry of
       None \<Rightarrow> Inl PubNoMap
     | Some m \<Rightarrow>
        (let n = (if version \<le> 0 \<and> mt_Versions m \<noteq> [] then int (ver_Version (last (mt_Versions m))) else version)
         in (case find (\<lambda>v. int (ver_Version v) = n) (mt_Versions m) of
               None \<Rightarrow> Inl (PubNoMapVersion (mt_ID m) n)
             | Some v \<Rightarrow> Inr v)))"

definition normalizeMapFormat :: "(string \<Rightarrow> string) \<Rightarrow> string \<Rightarrow> string" where
  "normalizeMapFormat u value =
    (let v = trim_prefix ''.'' (to_lower u (trim_space value))
     in if v = ''3d_pcd'' then ''pcd'' else if v = ''3d_csv'' then ''csv''
        else if v = ''2d_png'' \<or> v = ''pgm'' then ''png'' else v)"

definition mapFormatAllowed :: "(string \<Rightarrow> string) \<Rightarrow> string \<Rightarrow> string list \<Rightarrow> bool" where
  "mapFormatAllowed u kind formats \<longleftrightarrow> list_ex (\<lambda>f. normalizeMapFormat u f = normalizeMapFormat u kind) formats"

definition mapPublicationCompatibility ::
  "(string \<Rightarrow> string) \<Rightarrow> MapEntry \<Rightarrow> MapVersion \<Rightarrow> string \<Rightarrow> capabilitySnapshot \<Rightarrow> string \<Rightarrow> pub_error + json" where
  "mapPublicationCompatibility u m v coordinateFrame snapshot matrixEntry =
    (if trim_space coordinateFrame = [] then Inl PubFrame
     else if sn_CoordinateFrame snapshot \<noteq> [] \<and> sn_CoordinateFrame snapshot \<noteq> coordinateFrame
     then Inl (PubFrameMismatch (sn_CoordinateFrame snapshot) coordinateFrame)
     else if sn_MapFormats snapshot = [] \<or> \<not> mapFormatAllowed u (ver_Kind v) (sn_MapFormats snapshot) then Inl (PubFormat (ver_Kind v))
     else if matrixEntry = [] then Inl PubMatrix
     else Inr [(''map_id'', JStr (mt_ID m)), (''map_version'', JInt (int (ver_Version v))), (''kind'', JStr (ver_Kind v)),
       (''content_sha256'', JStr (ver_ContentSHA256 v)), (''coordinate_frame'', JStr coordinateFrame), (''compatibility_entry'', JStr matrixEntry)])"

text \<open>The row of the vehicle is joined with the abilities its current Gateway declared.\<close>

definition publication_target :: "db \<Rightarrow> string \<Rightarrow> (string \<times> string \<times> capability_row option) option" where
  "publication_target d v =
    map_option (\<lambda>r. (v_gateway_id r, v_lifecycle r, capability_of d v (v_gateway_id r))) (find (\<lambda>r. v_id r = v) (vehicles d))"

definition loadMapPublicationTargetTx ::
  "(bytes \<Rightarrow> capabilitySnapshot option) \<Rightarrow> string \<Rightarrow> (pub_error, string \<times> capabilitySnapshot \<times> string) tx" where
  "loadMapPublicationTargetTx decode vehicleID =
    tx_bind (tx_query (\<lambda>d. publication_target d vehicleID)) (\<lambda>row.
      case row of
        None \<Rightarrow> tx_fail PubNoVehicle
      | Some (gatewayID, lifecycle, caps) \<Rightarrow>
         (case caps of
            None \<Rightarrow> tx_fail PubNotMonitored
          | Some c \<Rightarrow>
             if gatewayID = [] \<or> \<not> vc_monitoring_allowed c then tx_fail PubNotMonitored
             else if lifecycle = ''quarantined'' \<or> lifecycle = ''retired'' then tx_fail (PubLifecycle lifecycle)
             else (case decode (vc_snapshot c) of
                     None \<Rightarrow> tx_fail PubSnapshot
                   | Some snapshot \<Rightarrow> tx_ret (gatewayID, snapshot, vc_matrix_entry c))))"

section \<open>Requesting\<close>

definition pub_of :: "db \<Rightarrow> string \<Rightarrow> mapPublication option" where
  "pub_of d i = find (\<lambda>r. mp_id r = i) (map_publications d)"

definition mapPublicationID :: "string option \<Rightarrow> string option" where
  "mapPublicationID rnd = map_option (\<lambda>h. ''mp-'' @ h) rnd"

definition new_publication ::
  "ext \<Rightarrow> int \<Rightarrow> string \<Rightarrow> string \<Rightarrow> MapVersion \<Rightarrow> string \<Rightarrow> string \<Rightarrow> string \<Rightarrow> string \<Rightarrow> string \<Rightarrow> string \<Rightarrow> mapPublication" where
  "new_publication x now i mapID v vehicleID action frame requestedBy previous target =
    \<lparr>mp_id = i, mp_map_id = mapID, mp_version = int (ver_Version v), mp_vehicle = vehicleID, mp_state = ''requested'',
     mp_action = action, mp_compatibility = [(''coordinate_frame'', JStr (trim_space frame))], mp_previous = previous,
     mp_rollback_target = target, mp_requested_by = requestedBy, mp_approved_by = [], mp_sha256 = ver_ContentSHA256 v,
     mp_frame = trim_space frame, mp_ack_result = [], mp_ack_detail = [], mp_ack_at = None,
     mp_created_at = x_ts x now, mp_updated_at = x_ts x now\<rparr>"

definition insert_publication :: "mapPublication \<Rightarrow> db \<Rightarrow> (unit \<times> db) option" where
  "insert_publication p d =
    (if mp_id p \<in> mp_id ` set (map_publications d) \<or> \<not> vehicle_exists d (mp_vehicle p) \<or>
        \<not> (mp_action p = ''apply'' \<or> mp_action p = ''rollback'') then None
     else Some ((), d\<lparr>map_publications := map_publications d @ [p]\<rparr>))"

definition active_publication :: "db \<Rightarrow> string \<Rightarrow> string option" where
  "active_publication d v =
     map_option mp_id (first_row (order_desc mp_updated_at (filter (\<lambda>r. mp_vehicle r = v \<and> mp_state r = ''active'') (map_publications d))))"

definition RequestMapPublication ::
  "ext \<Rightarrow> int \<Rightarrow> string option \<Rightarrow> MapStore \<Rightarrow> string \<Rightarrow> string \<Rightarrow> int \<Rightarrow> string \<Rightarrow> string \<Rightarrow> string \<Rightarrow> (pub_error, mapPublication) tx" where
  "RequestMapPublication x now rnd ms mapID vehicleID version action frame requestedBy =
    (if action \<noteq> ''apply'' \<and> action \<noteq> ''rollback'' then tx_fail PubAction
     else case map_Get ms mapID of
       None \<Rightarrow> tx_fail PubNoMap
     | Some m \<Rightarrow>
        if mt_VehicleID m \<noteq> vehicleID then tx_fail PubNoMap
        else (case mapVersionOf (Some m) version of
                Inl e \<Rightarrow> tx_fail e
              | Inr v \<Rightarrow>
                 (case mapPublicationID rnd of
                    None \<Rightarrow> tx_fail PubNoId
                  | Some i \<Rightarrow>
                     tx_bind (tx_query (\<lambda>d. active_publication d vehicleID)) (\<lambda>prev.
                       (let previous = (case prev of None \<Rightarrow> [] | Some q \<Rightarrow> q);
                            p = new_publication x now i mapID v vehicleID action frame requestedBy previous []
                        in if action = ''rollback'' \<and> previous = [] then tx_fail PubNothingToRollBack
                           else tx_bind (tx_stmt (insert_publication p)) (\<lambda>_. tx_ret p))))))"

definition RequestMapPublicationWithPrevious ::
  "ext \<Rightarrow> int \<Rightarrow> string option \<Rightarrow> MapStore \<Rightarrow> string \<Rightarrow> string \<Rightarrow> int \<Rightarrow> string \<Rightarrow> string \<Rightarrow> string \<Rightarrow> string \<Rightarrow> string \<Rightarrow> (pub_error, mapPublication) tx" where
  "RequestMapPublicationWithPrevious x now rnd ms mapID vehicleID version action frame requestedBy previousID targetID =
    (case mapVersionOf (map_Get ms mapID) version of
       Inl e \<Rightarrow> tx_fail e
     | Inr v \<Rightarrow>
        (case mapPublicationID rnd of
           None \<Rightarrow> tx_fail PubNoId
         | Some i \<Rightarrow>
            (let p = new_publication x now i mapID v vehicleID action frame requestedBy previousID targetID
             in tx_bind (tx_stmt (insert_publication p)) (\<lambda>_. tx_ret p))))"

definition RollbackMapPublication ::
  "ext \<Rightarrow> int \<Rightarrow> string option \<Rightarrow> MapStore \<Rightarrow> string \<Rightarrow> string \<Rightarrow> (pub_error, mapPublication) tx" where
  "RollbackMapPublication x now rnd ms sourceID actor =
    tx_bind (tx_query (\<lambda>d. pub_of d sourceID)) (\<lambda>src.
      case src of
        None \<Rightarrow> tx_fail PubUnknown
      | Some source \<Rightarrow>
         if mp_state source \<noteq> ''active'' \<or> mp_previous source = [] then tx_fail PubNotActive
         else tx_bind (tx_query (\<lambda>d. pub_of d (mp_previous source))) (\<lambda>tgt.
           case tgt of
             None \<Rightarrow> tx_fail PubTarget
           | Some target \<Rightarrow> RequestMapPublicationWithPrevious x now rnd ms (mp_map_id target) (mp_vehicle target) (mp_version target)
               ''rollback'' (mp_frame target) actor (mp_id source) (mp_id target)))"

section \<open>Approving\<close>

definition publication_frame :: "mapPublication \<Rightarrow> string" where
  "publication_frame p =
    (if mp_frame p \<noteq> [] then mp_frame p
     else case map_of (mp_compatibility p) ''coordinate_frame'' of Some (JStr s) \<Rightarrow> s | _ \<Rightarrow> [])"

definition publication_command :: "mapPublication \<Rightarrow> MapVersion \<Rightarrow> string \<Rightarrow> string \<Rightarrow> MapPublicationCommand" where
  "publication_command p v frame matrixEntry =
    \<lparr>pc_version = 1,
     pc_action = (if mp_action p = ''rollback'' then MAP_PUBLICATION_ACTION_ROLLBACK else MAP_PUBLICATION_ACTION_APPLY),
     pc_publication_id = mp_id p, pc_map_id = mp_map_id p, pc_vehicle_id = mp_vehicle p, pc_map_version = word_of_int (mp_version p),
     pc_content_sha256 = ver_ContentSHA256 v, pc_coordinate_frame = frame, pc_compatibility_entry = matrixEntry,
     pc_rollback_publication_id = (if mp_action p = ''rollback'' then mp_previous p else []), pc_trace_id = mp_id p\<rparr>"

record pub_readings =
  pr_now :: int
  pr_db_now :: int
  pr_mono :: u64
  pr_sequence :: "u64 option"
  pr_out :: "string option"

definition publication_envelope :: "pub_readings \<Rightarrow> mapPublication \<Rightarrow> string \<Rightarrow> u64 \<Rightarrow> bytes \<Rightarrow> Envelope" where
  "publication_envelope rd p gatewayID sequence payload =
    \<lparr>env_schema_major = 1, env_schema_minor = 0, env_message_type = ''platform.v1.MapPublicationCommand'',
     env_vehicle_id = mp_vehicle p, env_gateway_id = gatewayID, env_session_id = ''fleet-map-'' @ mp_id p,
     env_sequence = sequence, env_utc_time_ns = pr_now rd, env_monotonic_time_ns = pr_mono rd, env_ttl_ms = 30000,
     env_trace_id = mp_id p, env_payload = payload, env_auth_tag = [], env_unknown = []\<rparr>"

definition sealed_command ::
  "wire \<Rightarrow> (MapPublicationCommand \<Rightarrow> bytes option) \<Rightarrow> bytes \<Rightarrow> pub_readings \<Rightarrow> mapPublication \<Rightarrow> MapVersion \<Rightarrow> string \<Rightarrow> string \<Rightarrow> string \<Rightarrow> pub_error + bytes" where
  "sealed_command w mk key rd p v frame gatewayID matrixEntry =
    (case mk (publication_command p v frame matrixEntry) of
       None \<Rightarrow> Inl PubMarshal
     | Some payload \<Rightarrow>
        (case pr_sequence rd of
           None \<Rightarrow> Inl PubRandom
         | Some sequence \<Rightarrow>
            (case SignEnvelope w (Some (publication_envelope rd p gatewayID sequence payload)) key of
               Inl _ \<Rightarrow> Inl PubSign
             | Inr env \<Rightarrow> (case marshal_env w env of None \<Rightarrow> Inl PubMarshal | Some b \<Rightarrow> Inr b))))"

definition approved_row :: "ext \<Rightarrow> pub_readings \<Rightarrow> string \<Rightarrow> json \<Rightarrow> MapVersion \<Rightarrow> string \<Rightarrow> mapPublication \<Rightarrow> mapPublication" where
  "approved_row x rd approver meta v frame r =
     r\<lparr>mp_state := ''approved'', mp_approved_by := approver, mp_compatibility := meta, mp_sha256 := ver_ContentSHA256 v,
       mp_frame := frame, mp_updated_at := x_ts x (pr_now rd)\<rparr>"

definition tx_of :: "'e + 'a \<Rightarrow> ('e, 'a) tx" where
  "tx_of r = (case r of Inl e \<Rightarrow> tx_fail e | Inr a \<Rightarrow> tx_ret a)"

definition approve_body ::
  "wire \<Rightarrow> (MapPublicationCommand \<Rightarrow> bytes option) \<Rightarrow> (bytes \<Rightarrow> capabilitySnapshot option) \<Rightarrow> (string \<Rightarrow> string) \<Rightarrow> ext \<Rightarrow> bytes \<Rightarrow>
   pub_readings \<Rightarrow> MapStore \<Rightarrow> string \<Rightarrow> string \<Rightarrow> (pub_error, mapPublication) tx" where
  "approve_body w mk decode u x key rd ms i approver =
    tx_bind (tx_query (\<lambda>d. pub_of d i)) (\<lambda>row.
      case row of
        None \<Rightarrow> tx_fail PubUnknown
      | Some p \<Rightarrow>
        tx_bind (tx_guard (mp_state p = ''requested'') (PubState (mp_state p))) (\<lambda>_.
        tx_bind (tx_of (mapVersionOf (map_Get ms (mp_map_id p)) (mp_version p))) (\<lambda>v.
        case map_Get ms (mp_map_id p) of
          None \<Rightarrow> tx_fail PubNoMap
        | Some m \<Rightarrow>
        tx_bind (loadMapPublicationTargetTx decode (mp_vehicle p)) (\<lambda>(gatewayID, snapshot, matrixEntry).
        tx_bind (tx_of (mapPublicationCompatibility u m v (publication_frame p) snapshot matrixEntry)) (\<lambda>meta.
        tx_bind (tx_of (sealed_command w mk key rd p v (publication_frame p) gatewayID matrixEntry)) (\<lambda>encoded.
        tx_bind (tx_map_err PubOutbox (enqueueOutboxTx x (pr_db_now rd) (pr_out rd) gatewayID ''map'' ''map_publication'' (mp_id p) encoded)) (\<lambda>_.
        tx_bind (tx_exec (\<lambda>d. d\<lparr>map_publications := update_where (\<lambda>r. mp_id r = mp_id p)
           (approved_row x rd approver meta v (publication_frame p)) (map_publications d)\<rparr>)) (\<lambda>_.
        tx_ret (approved_row x rd approver meta v (publication_frame p) p)))))))))"

definition ApproveMapPublication ::
  "wire \<Rightarrow> (MapPublicationCommand \<Rightarrow> bytes option) \<Rightarrow> (bytes \<Rightarrow> capabilitySnapshot option) \<Rightarrow> (string \<Rightarrow> string) \<Rightarrow> ext \<Rightarrow>
   pub_readings \<Rightarrow> MapStore \<Rightarrow> string \<Rightarrow> string \<Rightarrow> world \<Rightarrow> (pub_error tx_error + mapPublication) \<times> world" where
  "ApproveMapPublication w mk decode u x rd ms i approver ws =
    (case run_tx (approve_body w mk decode u x (st_envelopeAuthKey (fst ws)) rd ms i approver) (snd ws) of
       (Inl e, s') \<Rightarrow> (Inl e, (fst ws, s'))
     | (Inr p, s') \<Rightarrow> (Inr p, pushEvent (pr_now rd) ''info'' (mp_vehicle p) (TxtMapApproved (mp_id p)) ''sys'' (fst ws, s')))"

section \<open>Delivery and listing\<close>

definition markMapPublicationDispatched :: "int \<Rightarrow> string \<Rightarrow> txs \<Rightarrow> txs" where
  "markMapPublicationDispatched now i s =
    (if i = [] then s
     else snd ((tx_exec (\<lambda>d. d\<lparr>map_publications := update_where (\<lambda>r. mp_id r = i \<and> mp_state r = ''approved'')
            (\<lambda>r. r\<lparr>mp_state := ''dispatched'', mp_updated_at := now\<rparr>) (map_publications d)\<rparr>) :: (pub_error, unit) tx) s))"

definition ListMapPublications :: "string \<Rightarrow> db \<Rightarrow> mapPublication list" where
  "ListMapPublications vehicleID d =
     take 200 (order_desc mp_updated_at (filter (\<lambda>r. vehicleID = [] \<or> mp_vehicle r = vehicleID) (map_publications d)))"

section \<open>Acknowledgements of the vehicle\<close>

definition pub_ack_next :: "string \<Rightarrow> string \<Rightarrow> MapPublicationResult \<Rightarrow> pub_error + string" where
  "pub_ack_next state action result =
    (case result of
       MAP_PUBLICATION_RESULT_ACCEPTED \<Rightarrow> Inr ''confirmed''
     | MAP_PUBLICATION_RESULT_APPLIED \<Rightarrow>
         if state \<notin> {''approved'', ''dispatched'', ''confirmed'', ''active''} then Inl (PubAckState state)
         else if action = ''rollback'' then Inr ''confirmed'' else Inr ''active''
     | MAP_PUBLICATION_RESULT_REJECTED \<Rightarrow> Inr ''rejected''
     | MAP_PUBLICATION_RESULT_FAILED \<Rightarrow> Inr ''rejected''
     | _ \<Rightarrow> Inl PubAckResult)"

definition set_state :: "int \<Rightarrow> string \<Rightarrow> (mapPublication \<Rightarrow> bool) \<Rightarrow> db \<Rightarrow> db" where
  "set_state now s p d = d\<lparr>map_publications := update_where p (\<lambda>r. r\<lparr>mp_state := s, mp_updated_at := now\<rparr>) (map_publications d)\<rparr>"

definition supersede :: "int \<Rightarrow> string \<Rightarrow> string list \<Rightarrow> db \<Rightarrow> db" where
  "supersede now v keep = set_state now ''superseded'' (\<lambda>r. mp_vehicle r = v \<and> mp_state r = ''active'' \<and> mp_id r \<notin> set keep)"

definition roll_back :: "int \<Rightarrow> string \<Rightarrow> string \<Rightarrow> db \<Rightarrow> db" where
  "roll_back now v i = set_state now ''rolled_back'' (\<lambda>r. mp_id r = i \<and> mp_vehicle r = v \<and> mp_state r = ''active'')"

definition reactivate :: "int \<Rightarrow> string \<Rightarrow> string \<Rightarrow> db \<Rightarrow> db" where
  "reactivate now v i = set_state now ''active''
     (\<lambda>r. mp_id r = i \<and> mp_vehicle r = v \<and> mp_state r \<in> {''superseded'', ''rolled_back'', ''confirmed''})"

definition applied_tx :: "int \<Rightarrow> string \<Rightarrow> mapPublication \<Rightarrow> (pub_error, unit) tx" where
  "applied_tx dbnow v p =
    (if mp_action p = ''rollback'' then
       (if mp_previous p = [] then tx_ret ()
        else if mp_rollback_target p = [] then tx_fail PubNoTarget
        else tx_bind (tx_exec (supersede dbnow v [mp_previous p, mp_rollback_target p])) (\<lambda>_.
             tx_bind (tx_exec (roll_back dbnow v (mp_previous p))) (\<lambda>_.
             tx_exec (reactivate dbnow v (mp_rollback_target p)))))
     else tx_exec (supersede dbnow v [mp_id p]))"

definition acked_row :: "ext \<Rightarrow> int \<Rightarrow> MapPublicationAck \<Rightarrow> string \<Rightarrow> mapPublication \<Rightarrow> mapPublication" where
  "acked_row x now ack nxt r =
     r\<lparr>mp_state := nxt, mp_ack_result := MapPublicationResult_String (pa_result ack), mp_ack_detail := trimRune (pa_detail ack) 1000,
       mp_ack_at := Some (x_ts x now), mp_updated_at := x_ts x now\<rparr>"

definition pub_ack_body :: "ext \<Rightarrow> int \<Rightarrow> int \<Rightarrow> string \<Rightarrow> MapPublicationAck \<Rightarrow> (pub_error, string \<times> int) tx" where
  "pub_ack_body x now dbnow v ack =
    tx_bind (tx_query (\<lambda>d. pub_of d (pa_publication_id ack))) (\<lambda>row.
      case row of
        None \<Rightarrow> tx_fail PubUnknown
      | Some p \<Rightarrow>
        tx_bind (tx_guard (mp_map_id p = pa_map_id ack \<and> mp_vehicle p = v \<and> mp_version p = uint (pa_map_version ack)) PubAckIdentity) (\<lambda>_.
        tx_bind (tx_of (pub_ack_next (mp_state p) (mp_action p) (pa_result ack))) (\<lambda>nxt.
        tx_bind (if pa_result ack = MAP_PUBLICATION_RESULT_APPLIED then applied_tx dbnow v p else tx_ret ()) (\<lambda>_.
        tx_bind (tx_exec (\<lambda>d. d\<lparr>map_publications := update_where (\<lambda>r. mp_id r = pa_publication_id ack) (acked_row x now ack nxt)
           (map_publications d)\<rparr>)) (\<lambda>_.
        tx_ret (nxt, mp_version p))))))"

definition HandleMapPublicationAck ::
  "ext \<Rightarrow> int \<Rightarrow> int \<Rightarrow> string \<Rightarrow> string \<Rightarrow> MapPublicationAck \<Rightarrow> world \<Rightarrow> (pub_error tx_error + unit) \<times> world" where
  "HandleMapPublicationAck x now dbnow vehicleID gatewayID ack ws =
    (if vehicleID = [] \<or> gatewayID = [] \<or> pa_publication_id ack = [] \<or> pa_map_id ack = [] \<or> pa_vehicle_id ack \<noteq> vehicleID \<or>
        pa_map_version ack = 0
     then (Inl (Dom PubAckFields), ws)
     else case run_tx (pub_ack_body x now dbnow vehicleID ack) (snd ws) of
       (Inl e, s') \<Rightarrow> (Inl e, (fst ws, s'))
     | (Inr (nxt, version), s') \<Rightarrow>
        (Inr (),
         if nxt = ''active'' then pushEvent now ''info'' vehicleID (TxtMapApplied (pa_publication_id ack) version) ''veh'' (fst ws, s')
         else if nxt = ''rejected'' then pushEvent now ''critical'' vehicleID (TxtMapRejected (pa_publication_id ack) (pa_detail ack)) ''veh'' (fst ws, s')
         else (fst ws, s')))"

end
