(* ===== verification/Map_Publication_Props.thy ===== *)
theory Map_Publication_Props
  imports Map_Publication Fleet_Frame
begin

text \<open>
  A vehicle has at most one active map publication, over every order of requests, approvals,
  deliveries and acknowledgements; an approval queues its command in the same transaction; and
  what acknowledgements may do that the approval was meant to prevent.
\<close>

section \<open>Rows\<close>

abbreviation is_active :: "mapPublication \<Rightarrow> bool" where "is_active r \<equiv> mp_state r = ''active''"

definition only_active :: "string \<Rightarrow> string \<Rightarrow> db \<Rightarrow> bool" where
  "only_active v i d \<longleftrightarrow> (\<forall>r \<in> set (map_publications d). mp_vehicle r = v \<and> is_active r \<longrightarrow> mp_id r = i)"

definition pub_inv :: "db \<Rightarrow> bool" where
  "pub_inv d \<longleftrightarrow> distinct (map mp_id (map_publications d)) \<and> (\<forall>v. \<exists>i. only_active v i d)"

lemma tx_of_Inr [simp]: "tx_of r s = (Inr a, s') \<longleftrightarrow> r = Inr a \<and> s' = s"
  by (auto simp: tx_of_def tx_ret_def tx_fail_def split: sum.splits)

lemma ball_update_where: "(\<forall>r \<in> set (update_where p u rs). P r) \<longleftrightarrow> (\<forall>q \<in> set rs. (p q \<longrightarrow> P (u q)) \<and> (\<not> p q \<longrightarrow> P q))"
  by (auto simp: update_where_def)

text \<open>Rows that keep their id and vehicle and do not become active keep the invariant.\<close>

lemma pub_inv_update:
  assumes "pub_inv d" and "map_publications d' = update_where p u (map_publications d)"
    and "\<And>r. mp_id (u r) = mp_id r" "\<And>r. mp_vehicle (u r) = mp_vehicle r" "\<And>r. p r \<Longrightarrow> \<not> is_active (u r)"
  shows "pub_inv d'"
proof -
  have "only_active v i d \<Longrightarrow> only_active v i d'" for v i
    using assms(3-5) unfolding only_active_def assms(2) ball_update_where by auto
  moreover have "map mp_id (map_publications d') = map mp_id (map_publications d)"
    using assms(2,3) by simp
  ultimately show ?thesis using assms(1) unfolding pub_inv_def by (metis (no_types))
qed

lemma pub_inv_cong: "map_publications d' = map_publications d \<Longrightarrow> pub_inv d' = pub_inv d"
  by (simp add: pub_inv_def only_active_def)

lemma pub_of_id: "pub_of d i = Some p \<Longrightarrow> mp_id p = i \<and> p \<in> set (map_publications d)"
  by (auto simp: pub_of_def find_Some_iff)

lemma pub_of_update:
  assumes "map_publications d' = update_where p u (map_publications d)" and "\<And>r. mp_id (u r) = mp_id r"
  shows "pub_of d' i = map_option (\<lambda>r. if p r then u r else r) (pub_of d i)"
  unfolding pub_of_def assms(1) by (rule find_update_where) (simp add: assms(2))

lemma find_key: "distinct (map f rs) \<Longrightarrow> r \<in> set rs \<Longrightarrow> find (\<lambda>q. f q = f r) rs = Some r"
  by (induction rs) (simp, force)

lemma pub_of_set: "pub_inv d \<Longrightarrow> r \<in> set (map_publications d) \<Longrightarrow> pub_of d (mp_id r) = Some r"
  by (simp add: pub_inv_def pub_of_def find_key)

section \<open>Acknowledgements\<close>

lemma set_state_rows: "map_publications (set_state now s p d) = update_where p (\<lambda>r. r\<lparr>mp_state := s, mp_updated_at := now\<rparr>) (map_publications d)"
  by (simp add: set_state_def)

lemma supersede_inv: "pub_inv d \<Longrightarrow> pub_inv (supersede now v keep d)"
  by (rule pub_inv_update [of d _ _ "\<lambda>r. r\<lparr>mp_state := ''superseded'', mp_updated_at := now\<rparr>"]) (auto simp: supersede_def set_state_rows)

lemma roll_back_inv: "pub_inv d \<Longrightarrow> pub_inv (roll_back now v i d)"
  by (rule pub_inv_update [of d _ _ "\<lambda>r. r\<lparr>mp_state := ''rolled_back'', mp_updated_at := now\<rparr>"]) (auto simp: roll_back_def set_state_rows)

lemma supersede_only: "only_active v i (supersede now v [i] d)"
  unfolding only_active_def supersede_def set_state_rows ball_update_where by auto

lemma rolled_back_only: "only_active v t (roll_back now v p (supersede now v [p, t] d))"
  unfolding only_active_def roll_back_def supersede_def set_state_rows ball_update_where by auto

text \<open>Making one row active is safe once no other row of its vehicle is.\<close>

lemma pub_inv_activate:
  assumes inv: "pub_inv d" and only: "only_active v i d"
    and rows: "map_publications d' = update_where p u (map_publications d)"
    and u: "\<And>r. mp_id (u r) = mp_id r" "\<And>r. mp_vehicle (u r) = mp_vehicle r"
    and p: "\<And>r. r \<in> set (map_publications d) \<Longrightarrow> p r \<Longrightarrow> mp_id r = i \<and> mp_vehicle r = v"
  shows "pub_inv d' \<and> only_active v i d'"
proof -
  have "only_active v i d'" using only u p unfolding only_active_def rows ball_update_where by auto
  moreover have "only_active w j d'" if "w \<noteq> v" "only_active w j d" for w j
    using that u p unfolding only_active_def rows ball_update_where by auto
  moreover have "map mp_id (map_publications d') = map mp_id (map_publications d)" using rows u by simp
  ultimately show ?thesis using inv unfolding pub_inv_def by (metis (no_types))
qed

lemma reactivate_inv: "pub_inv d \<Longrightarrow> only_active v i d \<Longrightarrow> pub_inv (reactivate now v i d)"
  unfolding reactivate_def
  by (rule conjunct1, rule pub_inv_activate [OF _ _ set_state_rows]) auto

lemma applied_tx_inv:
  assumes "applied_tx now v p (d, fs) = (Inr a, (d', fs'))" and "pub_inv d"
  shows "pub_inv d' \<and> (mp_action p \<noteq> ''rollback'' \<longrightarrow> only_active v (mp_id p) d')"
  using assms
  by (auto simp: applied_tx_def supersede_only split: if_splits
      intro!: supersede_inv reactivate_inv roll_back_inv rolled_back_only)

lemma set_state_pub_of_id [simp]:
  "map_option mp_vehicle (pub_of (set_state now s p d) i) = map_option mp_vehicle (pub_of d i)"
  by (subst pub_of_update [OF set_state_rows]) (auto simp: option.map_comp comp_def intro!: option.map_cong)

lemma applied_tx_vehicle:
  "applied_tx now v p (d, fs) = (Inr a, (d', fs')) \<Longrightarrow> map_option mp_vehicle (pub_of d' i) = map_option mp_vehicle (pub_of d i)"
  by (auto simp: applied_tx_def supersede_def roll_back_def reactivate_def split: if_splits)

lemma acked_row_sel [simp]:
  "mp_id (acked_row x now ack nxt r) = mp_id r" "mp_vehicle (acked_row x now ack nxt r) = mp_vehicle r"
  "mp_state (acked_row x now ack nxt r) = nxt" "mp_action (acked_row x now ack nxt r) = mp_action r"
  "mp_map_id (acked_row x now ack nxt r) = mp_map_id r" "mp_version (acked_row x now ack nxt r) = mp_version r"
  "mp_approved_by (acked_row x now ack nxt r) = mp_approved_by r"
  by (simp_all add: acked_row_def)

lemma pub_ack_next_active:
  "pub_ack_next s a r = Inr ''active'' \<Longrightarrow> r = MAP_PUBLICATION_RESULT_APPLIED \<and> a \<noteq> ''rollback''"
  by (cases r) (auto simp: pub_ack_next_def split: if_splits)

lemma pub_ack_body_Inr:
  assumes "pub_ack_body x now dbnow v ack (d, fs) = (Inr (nxt, n), (d', fs'))"
  obtains p d1 where "pub_of d (pa_publication_id ack) = Some p" "mp_vehicle p = v" "mp_map_id p = pa_map_id ack" "n = mp_version p"
    "pub_ack_next (mp_state p) (mp_action p) (pa_result ack) = Inr nxt"
    "if pa_result ack = MAP_PUBLICATION_RESULT_APPLIED
     then \<exists>gs. applied_tx dbnow v p (d, tl fs) = (Inr (), (d1, gs)) else d1 = d"
    "map_publications d' = update_where (\<lambda>r. mp_id r = pa_publication_id ack) (acked_row x now ack nxt) (map_publications d1)"
  using assms by (auto simp: pub_ack_body_def split: option.splits if_splits intro: that)

lemma pub_ack_body_inv:
  assumes "pub_ack_body x now dbnow v ack (d, fs) = (Inr (nxt, n), (d', fs'))" and inv: "pub_inv d"
  shows "pub_inv d'"
proof (rule pub_ack_body_Inr [OF assms(1)])
  fix p d1
  assume p: "pub_of d (pa_publication_id ack) = Some p" "mp_vehicle p = v"
    and nxt: "pub_ack_next (mp_state p) (mp_action p) (pa_result ack) = Inr nxt"
    and d1: "if pa_result ack = MAP_PUBLICATION_RESULT_APPLIED
     then \<exists>gs. applied_tx dbnow v p (d, tl fs) = (Inr (), (d1, gs)) else d1 = d"
    and rows: "map_publications d' = update_where (\<lambda>r. mp_id r = pa_publication_id ack) (acked_row x now ack nxt) (map_publications d1)"
  have inv1: "pub_inv d1" using d1 inv applied_tx_inv by (auto split: if_splits)
  have id: "mp_id p = pa_publication_id ack" using pub_of_id [OF p(1)] by simp
  show ?thesis
  proof (cases "nxt = ''active''")
    case False
    show ?thesis by (rule pub_inv_update [OF inv1 rows]) (auto simp: acked_row_def False)
  next
    case True
    with nxt have ap: "pa_result ack = MAP_PUBLICATION_RESULT_APPLIED" "mp_action p \<noteq> ''rollback''" using pub_ack_next_active by auto
    with d1 obtain gs where tx: "applied_tx dbnow v p (d, tl fs) = (Inr (), (d1, gs))" by auto
    from applied_tx_inv [OF tx inv] ap id have "only_active v (pa_publication_id ack) d1" by auto
    moreover have "mp_vehicle r = v" if "r \<in> set (map_publications d1)" "mp_id r = pa_publication_id ack" for r
      using applied_tx_vehicle [OF tx, of "pa_publication_id ack"] pub_of_set [OF inv1 that(1)] that(2) p by simp
    ultimately have "pub_inv d' \<and> only_active v (pa_publication_id ack) d'"
      by (intro pub_inv_activate [OF inv1 _ rows]) (auto simp: acked_row_def)
    then show ?thesis ..
  qed
qed

section \<open>Requests and approvals\<close>

lemma insert_publication_inv:
  assumes "insert_publication p d = Some (a, d')" and "mp_state p = ''requested''" and inv: "pub_inv d"
  shows "pub_inv d'"
proof -
  have d': "map_publications d' = map_publications d @ [p]" "mp_id p \<notin> mp_id ` set (map_publications d)"
    using assms(1) by (auto simp: insert_publication_def split: if_splits)
  have "only_active v i d \<Longrightarrow> only_active v i d'" for v i using d' assms(2) by (auto simp: only_active_def)
  then show ?thesis using inv d' by (simp add: pub_inv_def) metis
qed

lemma new_publication_state [simp]: "mp_state (new_publication x now i mapID v vehicleID action frame who prev tgt) = ''requested''"
  by (simp add: new_publication_def)

lemma RequestMapPublication_Inr:
  assumes "RequestMapPublication x now rnd ms mapID vehicleID version action frame who (d, fs) = (Inr p, (d', fs'))"
  obtains m v i where "map_Get ms mapID = Some m" "mt_VehicleID m = vehicleID" "mapVersionOf (Some m) version = Inr v"
    "p = new_publication x now i mapID v vehicleID action frame who (case active_publication d vehicleID of None \<Rightarrow> [] | Some q \<Rightarrow> q) []"
    "insert_publication p d = Some ((), d')" "action = ''rollback'' \<Longrightarrow> active_publication d vehicleID \<noteq> None \<and> mp_previous p \<noteq> []"
  using assms
  by (auto simp: RequestMapPublication_def Let_def new_publication_def split: if_splits option.splits sum.splits intro: that)

lemma RequestWithPrevious_Inr:
  assumes "RequestMapPublicationWithPrevious x now rnd ms mapID vehicleID version action frame who prev tgt (d, fs) = (Inr p, (d', fs'))"
  shows "insert_publication p d = Some ((), d') \<and> mp_state p = ''requested''"
  using assms by (auto simp: RequestMapPublicationWithPrevious_def Let_def split: option.splits sum.splits)

lemma RollbackMapPublication_Inr:
  assumes "RollbackMapPublication x now rnd ms i actor (d, fs) = (Inr p, (d', fs'))"
  shows "insert_publication p d = Some ((), d') \<and> mp_state p = ''requested''"
  using assms by (auto simp: RollbackMapPublication_def split: option.splits if_splits dest: RequestWithPrevious_Inr)

lemma enqueueOutboxTx_pubs:
  "enqueueOutboxTx x now rnd g c a b q (d, fs) = (Inr u, (d', fs')) \<Longrightarrow> map_publications d' = map_publications d"
  by (auto simp: enqueueOutboxTx_def insertOutbox_def split: if_splits)

lemma loadTarget_Inr:
  assumes "loadMapPublicationTargetTx decode v (d, fs) = (Inr (g, snapshot, matrix), (d', fs'))"
  obtains r c where "find (\<lambda>r. v_id r = v) (vehicles d) = Some r" "v_gateway_id r = g" "g \<noteq> []"
    "v_lifecycle r \<notin> {''quarantined'', ''retired''}" "capability_of d v g = Some c" "vc_monitoring_allowed c"
    "decode (vc_snapshot c) = Some snapshot" "vc_matrix_entry c = matrix" "d' = d"
  using assms
  by (auto simp: loadMapPublicationTargetTx_def publication_target_def split: option.splits if_splits intro: that)

lemma approve_body_Inr:
  assumes "approve_body w mk decode u x key rd ms i approver (d, fs) = (Inr p', (d', fs'))"
  obtains p m v g snapshot matrix meta encoded d1 hs ks where "pub_of d i = Some p" "mp_state p = ''requested''"
    "map_Get ms (mp_map_id p) = Some m" "mapVersionOf (Some m) (mp_version p) = Inr v"
    "loadMapPublicationTargetTx decode (mp_vehicle p) (d, tl fs) = (Inr (g, snapshot, matrix), (d, hs))"
    "mapPublicationCompatibility u m v (publication_frame p) snapshot matrix = Inr meta"
    "sealed_command w mk key rd p v (publication_frame p) g matrix = Inr encoded"
    "enqueueOutboxTx x (pr_db_now rd) (pr_out rd) g ''map'' ''map_publication'' i encoded (d, hs) = (Inr (), (d1, ks))"
    "d' = d1\<lparr>map_publications := update_where (\<lambda>r. mp_id r = i) (approved_row x rd approver meta v (publication_frame p)) (map_publications d)\<rparr>"
    "p' = approved_row x rd approver meta v (publication_frame p) p"
proof -
  from assms obtain p where p: "pub_of d i = Some p" by (auto simp: approve_body_def split: option.splits)
  from assms p obtain m where m: "map_Get ms (mp_map_id p) = Some m" by (auto simp: approve_body_def split: option.splits)
  from assms p m obtain v g snapshot matrix meta encoded d0 hs d1 ks where st: "mp_state p = ''requested''" and v: "mapVersionOf (Some m) (mp_version p) = Inr v"
    and load: "loadMapPublicationTargetTx decode (mp_vehicle p) (d, tl fs) = (Inr (g, snapshot, matrix), (d0, hs))"
    and c: "mapPublicationCompatibility u m v (publication_frame p) snapshot matrix = Inr meta"
    and s: "sealed_command w mk key rd p v (publication_frame p) g matrix = Inr encoded"
    and q: "enqueueOutboxTx x (pr_db_now rd) (pr_out rd) g ''map'' ''map_publication'' (mp_id p) encoded (d0, hs) = (Inr (), (d1, ks))"
    and d': "d' = d1\<lparr>map_publications := update_where (\<lambda>r. mp_id r = mp_id p) (approved_row x rd approver meta v (publication_frame p)) (map_publications d1)\<rparr>"
    and p': "p' = approved_row x rd approver meta v (publication_frame p) p"
    by (auto simp: approve_body_def)
  have "d0 = d" using loadTarget_Inr [OF load] by blast
  moreover have "mp_id p = i" using pub_of_id [OF p] by simp
  ultimately show thesis using that [OF p st m v _ c s _ _ p'] load q d' enqueueOutboxTx_pubs [OF q] by simp
qed

lemma approve_body_inv:
  assumes "approve_body w mk decode u x key rd ms i approver (d, fs) = (Inr p', (d', fs'))" and "pub_inv d"
  shows "pub_inv d'"
proof (rule approve_body_Inr [OF assms(1)])
  fix p v meta d1
  assume "d' = d1\<lparr>map_publications := update_where (\<lambda>r. mp_id r = i) (approved_row x rd approver meta v (publication_frame p)) (map_publications d)\<rparr>"
  then show ?thesis
    by (intro pub_inv_update [OF assms(2), of d' "\<lambda>r. mp_id r = i" "approved_row x rd approver meta v (publication_frame p)"])
       (auto simp: approved_row_def)
qed

section \<open>Runs\<close>

datatype pub_op =
    PubRequest int "string option" MapStore string string int string string string
  | PubRollback int "string option" MapStore string string
  | PubApprove pub_readings MapStore string string
  | PubDispatched int string
  | PubAck int int string string MapPublicationAck
  | PubFleet fleet_op

fun pub_step ::
  "wire \<Rightarrow> (MapPublicationCommand \<Rightarrow> bytes option) \<Rightarrow> (bytes \<Rightarrow> capabilitySnapshot option) \<Rightarrow> (string \<Rightarrow> string) \<Rightarrow> (rat \<Rightarrow> float64) \<Rightarrow>
   ext \<Rightarrow> world \<Rightarrow> pub_op \<Rightarrow> world" where
  "pub_step w mk decode u fl x ws (PubRequest now rnd ms mapID v version action frame who) =
     (fst ws, snd (RequestMapPublication x now rnd ms mapID v version action frame who (snd ws)))"
| "pub_step w mk decode u fl x ws (PubRollback now rnd ms i actor) =
     (fst ws, snd (RollbackMapPublication x now rnd ms i actor (snd ws)))"
| "pub_step w mk decode u fl x ws (PubApprove rd ms i approver) = snd (ApproveMapPublication w mk decode u x rd ms i approver ws)"
| "pub_step w mk decode u fl x ws (PubDispatched now i) = (fst ws, markMapPublicationDispatched now i (snd ws))"
| "pub_step w mk decode u fl x ws (PubAck now dbnow v g ack) = snd (HandleMapPublicationAck x now dbnow v g ack ws)"
| "pub_step w mk decode u fl x ws (PubFleet op) = fleet_step fl x ws op"

interpretation pub_view: fleet_view map_publications
  by unfold_locales auto

lemma HandleMapPublicationAck_cases:
  assumes "HandleMapPublicationAck x now dbnow v g ack (st, (d, fs)) = (r, (st', (d', fs')))"
  obtains (refused) e where "r = Inl e" "st' = st" "d' = d"
  | (acked) nxt n d1 gs where "r = Inr ()" "pub_ack_body x now dbnow v ack (d, tl fs) = (Inr (nxt, n), (d1, gs))"
      "map_publications d' = map_publications d1"
proof (cases "v = [] \<or> g = [] \<or> pa_publication_id ack = [] \<or> pa_map_id ack = [] \<or> pa_vehicle_id ack \<noteq> v \<or> pa_map_version ack = 0")
  case True
  with assms refused show thesis by (auto simp: HandleMapPublicationAck_def)
next
  case False
  show thesis
  proof (rule run_tx_cases [of "pub_ack_body x now dbnow v ack" d fs])
    fix e fs1
    assume "run_tx (pub_ack_body x now dbnow v ack) (d, fs) = (Inl e, (d, fs1))"
    with assms False refused show thesis by (auto simp: HandleMapPublicationAck_def)
  next
    fix q d1 gs fs1
    assume run: "run_tx (pub_ack_body x now dbnow v ack) (d, fs) = (Inr q, (d1, fs1))"
      and body: "pub_ack_body x now dbnow v ack (d, tl fs) = (Inr q, (d1, gs))"
    obtain nxt n where [simp]: "q = (nxt, n)" by force
    let ?out = "if nxt = ''active'' then pushEvent now ''info'' v (TxtMapApplied (pa_publication_id ack) n) ''veh'' (st, (d1, fs1))
         else if nxt = ''rejected'' then pushEvent now ''critical'' v (TxtMapRejected (pa_publication_id ack) (pa_detail ack)) ''veh'' (st, (d1, fs1))
         else (st, (d1, fs1))"
    have out: "r = Inr ()" "(st', (d', fs')) = ?out" using assms False run by (auto simp: HandleMapPublicationAck_def)
    have "map_publications d' = map_publications d1"
      using arg_cong [OF out(2), of "\<lambda>ws. map_publications (fst (snd ws))"] by (auto split: if_splits)
    with acked [OF out(1)] body show thesis by simp
  qed
qed

lemma pub_step_inv:
  assumes "pub_inv (fst (snd ws))"
  shows "pub_inv (fst (snd (pub_step w mk decode u fl x ws op)))"
proof -
  obtain st d fs where ws: "ws = (st, (d, fs))" by (metis prod.exhaust)
  have inv: "pub_inv d" using assms ws by simp
  show ?thesis
  proof (cases op)
    case (PubRequest now rnd ms mapID v version action frame who)
    obtain r d' fs' where q: "RequestMapPublication x now rnd ms mapID v version action frame who (d, fs) = (r, (d', fs'))" by (metis prod.exhaust)
    have "pub_inv d'"
    proof (cases r)
      case (Inl e)
      with q have "d' = d" by (auto simp: RequestMapPublication_def Let_def tx_bind_def tx_query_def tx_stmt_def tx_ret_def tx_fail_def
            split: if_splits option.splits sum.splits prod.splits)
      with inv show ?thesis by simp
    next
      case (Inr p)
      with q have "RequestMapPublication x now rnd ms mapID v version action frame who (d, fs) = (Inr p, (d', fs'))" by simp
      then show ?thesis by (rule RequestMapPublication_Inr) (auto intro: insert_publication_inv [OF _ _ inv])
    qed
    with PubRequest ws q show ?thesis by simp
  next
    case (PubRollback now rnd ms i actor)
    obtain r d' fs' where q: "RollbackMapPublication x now rnd ms i actor (d, fs) = (r, (d', fs'))" by (metis prod.exhaust)
    have "pub_inv d'"
    proof (cases r)
      case (Inl e)
      with q have "d' = d" by (auto simp: RollbackMapPublication_def RequestMapPublicationWithPrevious_def Let_def tx_bind_def tx_query_def tx_stmt_def tx_ret_def tx_fail_def
            split: if_splits option.splits sum.splits prod.splits)
      with inv show ?thesis by simp
    next
      case (Inr p)
      with q RollbackMapPublication_Inr [of x now rnd ms i actor d fs p d' fs'] show ?thesis by (auto intro: insert_publication_inv [OF _ _ inv])
    qed
    with PubRollback ws q show ?thesis by simp
  next
    case (PubApprove rd ms i approver)
    show ?thesis
      by (rule run_tx_cases [of "approve_body w mk decode u x (st_envelopeAuthKey st) rd ms i approver" d fs])
         (use inv approve_body_inv in \<open>auto simp: PubApprove ws ApproveMapPublication_def pub_inv_cong [OF pub_view.view_pushEvent]\<close>)
  next
    case (PubDispatched now i)
    have "pub_inv (d\<lparr>map_publications := update_where (\<lambda>r. mp_id r = i \<and> mp_state r = ''approved'')
            (\<lambda>r. r\<lparr>mp_state := ''dispatched'', mp_updated_at := now\<rparr>) (map_publications d)\<rparr>)"
      by (rule pub_inv_update [OF inv, of _ "\<lambda>r. mp_id r = i \<and> mp_state r = ''approved''" "\<lambda>r. r\<lparr>mp_state := ''dispatched'', mp_updated_at := now\<rparr>"]) auto
    with PubDispatched ws inv show ?thesis by (simp add: markMapPublicationDispatched_def tx_exec_eq)
  next
    case (PubAck now dbnow v g ack)
    obtain r st' d' fs' where q: "HandleMapPublicationAck x now dbnow v g ack (st, (d, fs)) = (r, (st', (d', fs')))" by (metis prod.exhaust)
    then have "pub_inv d'"
    proof (cases rule: HandleMapPublicationAck_cases)
      case refused
      with inv show ?thesis by simp
    next
      case (acked nxt n d1 gs)
      from pub_ack_body_inv [OF acked(2) inv] pub_inv_cong [OF acked(3)] show ?thesis by simp
    qed
    with PubAck ws q show ?thesis by simp
  next
    case (PubFleet fop)
    then show ?thesis using assms pub_inv_cong [OF pub_view.view_fleet_step] by simp
  qed
qed

interpretation publications: invariant_machine "pub_step w mk decode u fl x" "\<lambda>ws. pub_inv (fst (snd ws))" for w mk decode u fl x
  by unfold_locales (rule pub_step_inv)

section \<open>Properties\<close>

definition pub_state :: "db \<Rightarrow> string \<Rightarrow> string option" where
  "pub_state d i = map_option mp_state (pub_of d i)"

definition active_ids :: "db \<Rightarrow> string \<Rightarrow> string list" where
  "active_ids d v = map mp_id (filter (\<lambda>r. mp_vehicle r = v \<and> is_active r) (map_publications d))"

lemma pub_inv_active_ids: "pub_inv d \<Longrightarrow> length (active_ids d v) \<le> 1"
proof -
  assume inv: "pub_inv d"
  then obtain i where "only_active v i d" by (auto simp: pub_inv_def)
  then have "set (active_ids d v) \<subseteq> {i}" by (auto simp: active_ids_def only_active_def)
  moreover have "distinct (active_ids d v)" using inv by (simp add: pub_inv_def active_ids_def distinct_map_filter)
  moreover have "distinct js \<Longrightarrow> set js \<subseteq> {i} \<Longrightarrow> length js \<le> 1" for js :: "string list"
    by (cases js; cases "tl js") auto
  ultimately show ?thesis by blast
qed

text \<open>
  C22. A vehicle never has two active map publications: over every order of requests, rollback
  requests, approvals, deliveries, acknowledgements in any order and with any result, and any other
  operation of the fleet state, with any statement or transaction failing.
\<close>

theorem one_active_publication:
  assumes "distinct (map mp_id (map_publications (fst (snd ws))))" and "\<forall>v. length (active_ids (fst (snd ws)) v) \<le> 1"
  shows "length (active_ids (fst (snd (run (pub_step w mk decode u fl x) ws ops))) v) \<le> 1"
proof -
  have "\<exists>i. only_active v i (fst (snd ws))" for v
  proof (cases "active_ids (fst (snd ws)) v")
    case Nil
    then show ?thesis by (auto simp: active_ids_def only_active_def filter_empty_conv)
  next
    case (Cons i js)
    then have "active_ids (fst (snd ws)) v = [i]" using assms(2) [rule_format, of v] by simp
    then have "set (active_ids (fst (snd ws)) v) = {i}" by simp
    then have "only_active v i (fst (snd ws))" by (auto simp: active_ids_def only_active_def)
    then show ?thesis ..
  qed
  then have "pub_inv (fst (snd ws))" using assms(1) by (simp add: pub_inv_def)
  from publications.run_inv [OF this] show ?thesis by (rule pub_inv_active_ids)
qed

text \<open>
  An approval is one transaction: it succeeds only for a requested publication of a version the
  store has, for a vehicle that is neither quarantined nor retired and whose current Gateway passed
  the monitoring admission and declared the format and the coordinate frame; then the row is
  approved and the outbox holds the signed command for that Gateway. Otherwise
  nothing changes.
\<close>

theorem approve_admission:
  assumes "ApproveMapPublication w mk decode u x rd ms i approver (st, (d, fs)) = (r, (st', (d', fs')))"
  shows "case r of
      Inl e \<Rightarrow> st' = st \<and> d' = d
    | Inr p' \<Rightarrow> \<exists>p m v g c snapshot encoded.
        pub_state d i = Some ''requested'' \<and> pub_of d i = Some p \<and> pub_of d' i = Some p' \<and> mp_state p' = ''approved'' \<and> mp_approved_by p' = approver \<and>
        map_Get ms (mp_map_id p) = Some m \<and> mapVersionOf (Some m) (mp_version p) = Inr v \<and> mp_sha256 p' = ver_ContentSHA256 v \<and>
        capability_of d (mp_vehicle p) g = Some c \<and> vc_monitoring_allowed c \<and> decode (vc_snapshot c) = Some snapshot \<and>
        mapFormatAllowed u (ver_Kind v) (sn_MapFormats snapshot) \<and> (sn_CoordinateFrame snapshot = [] \<or> sn_CoordinateFrame snapshot = mp_frame p') \<and>
        sealed_command w mk (st_envelopeAuthKey st) rd p v (mp_frame p') g (vc_matrix_entry c) = Inr encoded \<and>
        dedupe_key x ''map_publication'' i g ''map'' encoded \<in> ob_dedupe_key ` set (platform_outbox d')"
proof (rule run_tx_cases [of "approve_body w mk decode u x (st_envelopeAuthKey st) rd ms i approver" d fs])
  fix e fs1
  assume "run_tx (approve_body w mk decode u x (st_envelopeAuthKey st) rd ms i approver) (d, fs) = (Inl e, (d, fs1))"
  with assms show ?thesis by (auto simp: ApproveMapPublication_def)
next
  fix p' d1 gs fs1
  assume run: "run_tx (approve_body w mk decode u x (st_envelopeAuthKey st) rd ms i approver) (d, fs) = (Inr p', (d1, fs1))"
    and body: "approve_body w mk decode u x (st_envelopeAuthKey st) rd ms i approver (d, tl fs) = (Inr p', (d1, gs))"
  have r: "r = Inr p'" and ws: "(st', (d', fs')) = pushEvent (pr_now rd) ''info'' (mp_vehicle p') (TxtMapApproved (mp_id p')) ''sys'' (st, (d1, fs1))"
    using assms run by (auto simp: ApproveMapPublication_def)
  have same: "map_publications d' = map_publications d1" "platform_outbox d' = platform_outbox d1"
    using arg_cong [OF ws, of "\<lambda>q. map_publications (fst (snd q))"] arg_cong [OF ws, of "\<lambda>q. platform_outbox (fst (snd q))"]
    by (simp_all add: pushEvent_db)
  from body show ?thesis
  proof (cases rule: approve_body_Inr)
    case (1 p m v g snapshot matrix meta encoded d2 hs ks)
    obtain row c where c: "capability_of d (mp_vehicle p) g = Some c" "vc_monitoring_allowed c" "decode (vc_snapshot c) = Some snapshot"
      "vc_matrix_entry c = matrix" using loadTarget_Inr [OF 1(5)] by metis
    have frame: "mp_frame p' = publication_frame p" "mp_state p' = ''approved''" "mp_approved_by p' = approver" "mp_sha256 p' = ver_ContentSHA256 v"
      using 1(10) by (simp_all add: approved_row_def)
    have compat: "mapFormatAllowed u (ver_Kind v) (sn_MapFormats snapshot)" "sn_CoordinateFrame snapshot = [] \<or> sn_CoordinateFrame snapshot = publication_frame p"
      using 1(6) by (auto simp: mapPublicationCompatibility_def split: if_splits)
    have "dedupe_key x ''map_publication'' i g ''map'' encoded \<in> ob_dedupe_key ` set (platform_outbox d2)"
      using 1(8) by (auto simp: enqueueOutboxTx_def dest: insertOutbox_rows split: if_splits)
    moreover have "pub_of d' i = Some p'"
    proof -
      have "map_publications d' = update_where (\<lambda>r. mp_id r = i) (approved_row x rd approver meta v (publication_frame p)) (map_publications d)"
        using same 1(9) by simp
      from pub_of_update [OF this] 1(1,10) pub_of_id [OF 1(1)] show ?thesis by (simp add: approved_row_def)
    qed
    moreover have "platform_outbox d' = platform_outbox d2" using same 1(9) by simp
    ultimately show ?thesis unfolding r sum.case using c frame compat 1(1-4,7)
      by (intro exI [of _ p] exI [of _ m] exI [of _ v] exI [of _ g] exI [of _ c] exI [of _ snapshot] exI [of _ encoded])
         (simp add: pub_state_def)
  qed
qed

lemma map_others:
  assumes "\<And>q. f (u q) = f q" and "\<And>q. q \<in> set rs \<Longrightarrow> f q \<noteq> v \<Longrightarrow> u q = q" and "f r \<noteq> v"
  shows "r \<in> set (map u rs) \<longleftrightarrow> r \<in> set rs"
proof
  assume "r \<in> set (map u rs)"
  then obtain q where "q \<in> set rs" "r = u q" by auto
  with assms show "r \<in> set rs" by metis
next
  assume "r \<in> set rs"
  with assms have "r = u r" by simp
  with \<open>r \<in> set rs\<close> show "r \<in> set (map u rs)" by (metis image_eqI set_map)
qed

text \<open>
  The acknowledgement that a map was applied makes its publication the active one and no other of
  the vehicle, and leaves the publications of other vehicles alone.
\<close>

theorem applied_ack_activates:
  assumes "HandleMapPublicationAck x now dbnow v g ack (st, (d, fs)) = (Inr (), (st', (d', fs')))"
    and "pa_result ack = MAP_PUBLICATION_RESULT_APPLIED" and "pub_of d (pa_publication_id ack) = Some p" and "mp_action p \<noteq> ''rollback''"
    and "distinct (map mp_id (map_publications d))"
  shows "active_ids d' v = [pa_publication_id ack] \<and> (\<forall>r. mp_vehicle r \<noteq> v \<longrightarrow> (r \<in> set (map_publications d') \<longleftrightarrow> r \<in> set (map_publications d)))"
proof -
  let ?i = "pa_publication_id ack"
  from assms(1) obtain nxt n d1 gs where body: "pub_ack_body x now dbnow v ack (d, tl fs) = (Inr (nxt, n), (d1, gs))"
    and same: "map_publications d' = map_publications d1"
    by (cases rule: HandleMapPublicationAck_cases) auto
  obtain d2 where v: "mp_vehicle p = v" and nxt: "nxt = ''active''" and d2: "d2 = supersede dbnow v [?i] d"
    and rows: "map_publications d1 = update_where (\<lambda>r. mp_id r = ?i) (acked_row x now ack nxt) (map_publications d2)"
  proof (rule pub_ack_body_Inr [OF body])
    fix q d2
    assume q: "pub_of d ?i = Some q" "mp_vehicle q = v" "pub_ack_next (mp_state q) (mp_action q) (pa_result ack) = Inr nxt"
      "if pa_result ack = MAP_PUBLICATION_RESULT_APPLIED then \<exists>gs. applied_tx dbnow v q (d, tl (tl fs)) = (Inr (), (d2, gs)) else d2 = d"
      "map_publications d1 = update_where (\<lambda>r. mp_id r = ?i) (acked_row x now ack nxt) (map_publications d2)"
    have "q = p" "mp_id p = ?i" using q(1) assms(3) pub_of_id [OF assms(3)] by auto
    with q assms(2,4) show thesis by (intro that [of d2]) (auto simp: applied_tx_def pub_ack_next_def split: if_splits)
  qed
  let ?u = "\<lambda>r. if mp_id r = ?i then acked_row x now ack nxt r else if mp_vehicle r = v \<and> is_active r then r\<lparr>mp_state := ''superseded'', mp_updated_at := dbnow\<rparr> else r"
  have d': "map_publications d' = map ?u (map_publications d)"
    unfolding same rows d2 supersede_def set_state_rows update_where_def by (auto simp: acked_row_def)
  have p: "p \<in> set (map_publications d)" "mp_id p = ?i" using pub_of_id [OF assms(3)] by auto
  have uniq: "r = p" if "r \<in> set (map_publications d)" "mp_id r = ?i" for r
    using find_key [OF assms(5) that(1)] assms(3) that(2) by (simp add: pub_of_def)
  have "active_ids d' v = [?i]"
  proof -
    have u: "mp_vehicle (?u q) = v \<and> is_active (?u q) \<longrightarrow> mp_id (?u q) = ?i" for q by (simp add: acked_row_def)
    have "only_active v ?i d'" unfolding only_active_def d' set_map by (intro ballI, elim imageE, hypsubst) (rule u)
    then have "set (active_ids d' v) \<subseteq> {?i}" by (auto simp: active_ids_def only_active_def)
    moreover have "\<exists>q \<in> set (map_publications d'). mp_vehicle q = v \<and> is_active q \<and> mp_id q = ?i"
    proof (rule bexI)
      show "?u p \<in> set (map_publications d')" unfolding d' set_map by (rule imageI [OF p(1)])
    qed (use p(2) v nxt in \<open>simp add: acked_row_def\<close>)
    then have "?i \<in> set (active_ids d' v)" by (force simp: active_ids_def)
    ultimately have "set (active_ids d' v) = {?i}" by blast
    moreover have "map mp_id (map_publications d') = map mp_id (map_publications d)"
      unfolding d' map_map comp_def by (rule map_cong) (simp_all add: acked_row_def)
    then have "distinct (map mp_id (map_publications d'))" using assms(5) by simp
    then have "distinct (active_ids d' v)" by (simp add: active_ids_def distinct_map_filter)
    moreover have "distinct js \<Longrightarrow> set js = {?i} \<Longrightarrow> js = [?i]" for js :: "string list"
      by (cases js; cases "tl js") auto
    ultimately show ?thesis by blast
  qed
  moreover have "r \<in> set (map_publications d') \<longleftrightarrow> r \<in> set (map_publications d)" if r: "mp_vehicle r \<noteq> v" for r
  proof -
    have "?u q = q" if "q \<in> set (map_publications d)" "mp_vehicle q \<noteq> v" for q using that v uniq by auto
    moreover have "mp_vehicle (?u q) = mp_vehicle q" for q by simp
    ultimately show ?thesis unfolding d' using map_others [of mp_vehicle ?u "map_publications d" v r] r by blast
  qed
  ultimately show ?thesis by blast
qed

text \<open>Without faults an acknowledgement that is in order takes effect.\<close>

definition ack_in_order :: "MapPublicationAck \<Rightarrow> string \<Rightarrow> string \<Rightarrow> mapPublication \<Rightarrow> bool" where
  "ack_in_order ack v g p \<longleftrightarrow> v \<noteq> [] \<and> g \<noteq> [] \<and> pa_publication_id ack = mp_id p \<and> mp_id p \<noteq> [] \<and> pa_map_id ack = mp_map_id p \<and>
     mp_map_id p \<noteq> [] \<and> pa_vehicle_id ack = v \<and> mp_vehicle p = v \<and> uint (pa_map_version ack) = mp_version p \<and> pa_map_version ack \<noteq> 0"

lemma ack_takes_effect:
  assumes "pub_of d (pa_publication_id ack) = Some p" and "ack_in_order ack v g p"
    and "pub_ack_next (mp_state p) (mp_action p) (pa_result ack) = Inr nxt"
    and "pa_result ack = MAP_PUBLICATION_RESULT_APPLIED \<longrightarrow> mp_action p \<noteq> ''rollback''"
  shows "\<exists>d'. map_publications d' = update_where (\<lambda>r. mp_id r = pa_publication_id ack) (acked_row x now ack nxt)
      (map_publications (if pa_result ack = MAP_PUBLICATION_RESULT_APPLIED then supersede dbnow v [mp_id p] d else d)) \<and>
    pub_of d' (pa_publication_id ack) = Some (acked_row x now ack nxt p) \<and>
    map_publications (fst (snd (snd (HandleMapPublicationAck x now dbnow v g ack (st, (d, [])))))) = map_publications d' \<and>
    (nxt = ''confirmed'' \<longrightarrow> HandleMapPublicationAck x now dbnow v g ack (st, (d, [])) = (Inr (), (st, (d', []))))"
proof -
  let ?i = "pa_publication_id ack"
  let ?d1 = "if pa_result ack = MAP_PUBLICATION_RESULT_APPLIED then supersede dbnow v [mp_id p] d else d"
  let ?d' = "?d1\<lparr>map_publications := update_where (\<lambda>r. mp_id r = ?i) (acked_row x now ack nxt) (map_publications ?d1)\<rparr>"
  have i: "mp_id p = ?i" using pub_of_id [OF assms(1)] by simp
  have d1: "pub_of ?d1 ?i = Some p"
    using assms(1) i by (auto simp: supersede_def pub_of_update [OF set_state_rows])
  have rows: "map_publications ?d' = update_where (\<lambda>r. mp_id r = ?i) (acked_row x now ack nxt) (map_publications ?d1)" by simp
  have "pub_of ?d' ?i = map_option (\<lambda>r. if mp_id r = ?i then acked_row x now ack nxt r else r) (pub_of ?d1 ?i)"
    by (rule pub_of_update [OF rows]) simp
  then have d': "pub_of ?d' ?i = Some (acked_row x now ack nxt p)" using d1 i by simp
  have "run_tx (pub_ack_body x now dbnow v ack) (d, []) = (Inr (nxt, mp_version p), (?d', []))"
    using assms i by (auto simp: run_tx_def pub_ack_body_def tx_bind_def tx_guard_def tx_of_def tx_ret_def applied_tx_def ack_in_order_def)
  then have "HandleMapPublicationAck x now dbnow v g ack (st, (d, [])) =
     (Inr (), if nxt = ''active'' then pushEvent now ''info'' v (TxtMapApplied ?i (mp_version p)) ''veh'' (st, (?d', []))
         else if nxt = ''rejected'' then pushEvent now ''critical'' v (TxtMapRejected ?i (pa_detail ack)) ''veh'' (st, (?d', []))
         else (st, (?d', [])))"
    using assms(2) i by (simp add: HandleMapPublicationAck_def ack_in_order_def)
  with d' rows show ?thesis by (intro exI [of _ ?d']) simp
qed

text \<open>
  An approval can be bypassed: when the vehicle acknowledges a publication that is still waiting
  for approval, first as accepted and then as applied, the publication becomes the active one and
  its approver is still empty.
\<close>

theorem unapproved_becomes_active:
  assumes "pub_of d (pa_publication_id ack) = Some p" and "ack_in_order ack v g p"
    and "mp_state p = ''requested''" and "mp_action p = ''apply''"
  shows "\<exists>p'. pub_of (fst (snd (snd (HandleMapPublicationAck x now dbnow v g (ack\<lparr>pa_result := MAP_PUBLICATION_RESULT_APPLIED\<rparr>)
      (snd (HandleMapPublicationAck x now dbnow v g (ack\<lparr>pa_result := MAP_PUBLICATION_RESULT_ACCEPTED\<rparr>) (st, (d, []))))))))
    (pa_publication_id ack) = Some p' \<and> mp_state p' = ''active'' \<and> mp_approved_by p' = mp_approved_by p"
proof -
  let ?a = "ack\<lparr>pa_result := MAP_PUBLICATION_RESULT_ACCEPTED\<rparr>" and ?b = "ack\<lparr>pa_result := MAP_PUBLICATION_RESULT_APPLIED\<rparr>"
  have order: "ack_in_order (ack\<lparr>pa_result := q\<rparr>) v g (acked_row x now a n p)" "ack_in_order (ack\<lparr>pa_result := q\<rparr>) v g p" for q a n
    using assms(2) by (auto simp: ack_in_order_def)
  obtain d1 where d1: "pub_of d1 (pa_publication_id ack) = Some (acked_row x now ?a ''confirmed'' p)"
    "HandleMapPublicationAck x now dbnow v g ?a (st, (d, [])) = (Inr (), (st, (d1, [])))"
    using ack_takes_effect [of d ?a p v g "''confirmed''" x now dbnow st] assms order by (auto simp: pub_ack_next_def)
  obtain d2 where "pub_of d2 (pa_publication_id ack) = Some (acked_row x now ?b ''active'' (acked_row x now ?a ''confirmed'' p))"
    "map_publications (fst (snd (snd (HandleMapPublicationAck x now dbnow v g ?b (st, (d1, [])))))) = map_publications d2"
    using ack_takes_effect [of d1 ?b "acked_row x now ?a ''confirmed'' p" v g "''active''" x now dbnow st] assms d1 order
    by (auto simp: pub_ack_next_def)
  then show ?thesis using d1(2) by (simp add: pub_of_def)
qed

text \<open>
  A late acknowledgement undoes an activation: the vehicle's message that it accepted a publication,
  arriving when the publication is already active, takes it out of the active state, and the vehicle
  is left without an active publication although it runs the map.
\<close>

theorem late_acceptance_deactivates:
  assumes "pub_inv d" and "pub_of d (pa_publication_id ack) = Some p" and "ack_in_order ack v g p" and "mp_state p = ''active''"
    and "pa_result ack = MAP_PUBLICATION_RESULT_ACCEPTED"
  shows "active_ids d v = [pa_publication_id ack] \<and>
    active_ids (fst (snd (snd (HandleMapPublicationAck x now dbnow v g ack (st, (d, [])))))) v = []"
proof -
  let ?i = "pa_publication_id ack"
  let ?d' = "fst (snd (snd (HandleMapPublicationAck x now dbnow v g ack (st, (d, [])))))"
  have p: "p \<in> set (map_publications d)" "mp_id p = ?i" "mp_vehicle p = v" using pub_of_id [OF assms(2)] assms(3) by (auto simp: ack_in_order_def)
  then have "?i \<in> set (active_ids d v)" using assms(4) by (force simp: active_ids_def)
  moreover have "length js \<le> 1 \<Longrightarrow> a \<in> set js \<Longrightarrow> js = [a]" for a :: string and js by (cases js) auto
  ultimately have before: "active_ids d v = [?i]" using pub_inv_active_ids [OF assms(1), of v] by blast
  have rows: "map_publications ?d' = update_where (\<lambda>r. mp_id r = ?i) (acked_row x now ack ''confirmed'') (map_publications d)"
    using ack_takes_effect [of d ack p v g "''confirmed''" x now dbnow st] assms by (auto simp: pub_ack_next_def)
  have "\<forall>r \<in> set (map_publications ?d'). \<not> (mp_vehicle r = v \<and> is_active r)"
    unfolding rows ball_update_where
  proof (intro ballI conjI impI)
    fix q assume q: "q \<in> set (map_publications d)" "mp_id q \<noteq> ?i"
    then have "mp_id q \<notin> set (active_ids d v)" using before by simp
    then show "\<not> (mp_vehicle q = v \<and> is_active q)" using q(1) by (force simp: active_ids_def)
  qed simp
  then have "active_ids ?d' v = []" by (auto simp: active_ids_def filter_empty_conv)
  with before show ?thesis by simp
qed

text \<open>
  A rollback requested by its action cannot be completed: the publication it makes has no target,
  so every acknowledgement that it was applied is refused and changes nothing.
\<close>

theorem rollback_request_never_applies:
  assumes "RequestMapPublication x now rnd ms mapID v version ''rollback'' frame who (d, fs) = (Inr p, (d', fs'))"
    and "pub_of d2 (pa_publication_id ack) = Some q" and "mp_id q = mp_id p" "mp_action q = mp_action p" "mp_previous q = mp_previous p"
      "mp_rollback_target q = mp_rollback_target p"
    and "pa_result ack = MAP_PUBLICATION_RESULT_APPLIED"
  shows "\<exists>e ws'. HandleMapPublicationAck x now2 dbnow v g ack (st, (d2, gs)) = (Inl e, ws') \<and> fst (snd ws') = d2"
proof -
  have q: "mp_action q = ''rollback''" "mp_previous q \<noteq> []" "mp_rollback_target q = []"
    by (rule RequestMapPublication_Inr [OF assms(1)], simp add: assms(4-6) new_publication_def)+
  obtain r st' d' gs' where h: "HandleMapPublicationAck x now2 dbnow v g ack (st, (d2, gs)) = (r, (st', (d', gs')))" by (metis prod.exhaust)
  then show ?thesis
  proof (cases rule: HandleMapPublicationAck_cases)
    case (acked nxt n d1 hs)
    from acked(2) show ?thesis
      by (rule pub_ack_body_Inr) (use assms(2,7) q in \<open>auto simp: applied_tx_def\<close>)
  qed (use h in auto)
qed

subsection \<open>Witnesses\<close>

definition demo_map_version :: MapVersion where
  "demo_map_version = \<lparr>ver_Version = 1, ver_Files = [''yard.pcd''], ver_Kind = ''pcd'', ver_Note = [], ver_Author = ''amy'', ver_CreatedNS = 1,
     ver_DerivedFrom = [], ver_ContentSHA256 = ''00'', ver_ContentSize = 2, ver_Meta = None\<rparr>"

definition demo_map_store :: MapStore where
  "demo_map_store = \<lparr>ms_maps = [(''v1-yard'', (new_entry ''v1-yard'' ''v1'' ''yard.pcd'' ''3d_pcd'' 1)\<lparr>mt_Versions := [demo_map_version]\<rparr>)], ms_files = []\<rparr>"

definition demo_snapshot :: capabilitySnapshot where
  "demo_snapshot = (capability_snapshot ''g1'' demo_caps)\<lparr>sn_MapFormats := [''.PCD''], sn_CoordinateFrame := ''map''\<rparr>"

definition demo_pub_world :: world where
  "demo_pub_world = (NewState demo_nav_key None,
     (demo_activated\<lparr>vehicle_capabilities := [capability_row_of 1 ''g1'' demo_caps
        \<lparr>cd_MatrixEntry = ''e1'', cd_MonitoringAllowed = True, cd_ControlAllowed = False, cd_ControlReason = ReasonComplete\<rparr> [9]]\<rparr>, []))"

definition demo_request :: "int \<Rightarrow> string \<Rightarrow> world \<Rightarrow> (pub_error tx_error + mapPublication) \<times> world" where
  "demo_request now h ws =
    (case RequestMapPublication demo_ext now (Some h) demo_map_store ''v1-yard'' ''v1'' 0 ''apply'' ''map'' ''amy'' (snd ws) of (r, s) \<Rightarrow> (r, (fst ws, s)))"

definition demo_requested :: world where "demo_requested = snd (demo_request 5 ''1'' demo_pub_world)"

definition demo_pub_rd :: pub_readings where
  "demo_pub_rd = \<lparr>pr_now = second, pr_db_now = second, pr_mono = 1, pr_sequence = Some 77, pr_out = Some ''o1''\<rparr>"

definition demo_approved :: "(pub_error tx_error + mapPublication) \<times> world" where
  "demo_approved = ApproveMapPublication demo_nav_wire (\<lambda>_. Some [2]) (\<lambda>_. Some demo_snapshot) id demo_ext demo_pub_rd demo_map_store ''mp-1'' ''bob'' demo_requested"

definition demo_pub_ack :: "MapPublicationResult \<Rightarrow> MapPublicationAck" where
  "demo_pub_ack r = \<lparr>pa_publication_id = ''mp-1'', pa_map_id = ''v1-yard'', pa_vehicle_id = ''v1'', pa_map_version = 1, pa_result = r,
     pa_detail = [], pa_applied_at_unix_ns = 0\<rparr>"

definition demo_applied :: "(pub_error tx_error + unit) \<times> world" where
  "demo_applied = HandleMapPublicationAck demo_ext (2 * second) (2 * second) ''v1'' ''g1'' (demo_pub_ack MAP_PUBLICATION_RESULT_APPLIED) (snd demo_approved)"

theorem one_active_publication_witness:
  "active_ids (fst (snd (snd demo_applied))) ''v1'' = [''mp-1''] \<and>
   length (active_ids (fst (snd (run (pub_step demo_nav_wire (\<lambda>_. Some [2]) (\<lambda>_. Some demo_snapshot) id Fin demo_ext) (snd demo_applied)
     [PubAck 0 0 ''v1'' ''g1'' (demo_pub_ack MAP_PUBLICATION_RESULT_APPLIED)]))) ''v1'') \<le> 1"
proof -
  have pubs: "map (\<lambda>r. (mp_id r, mp_vehicle r, mp_state r)) (map_publications (fst (snd (snd demo_applied)))) = [(''mp-1'', ''v1'', ''active'')]"
    by code_simp
  then obtain r where r: "map_publications (fst (snd (snd demo_applied))) = [r]" "mp_id r = ''mp-1''" "mp_vehicle r = ''v1''" "is_active r"
    by (auto simp: map_eq_Cons_conv)
  then have "distinct (map mp_id (map_publications (fst (snd (snd demo_applied)))))" "\<forall>v. length (active_ids (fst (snd (snd demo_applied))) v) \<le> 1"
    by (simp_all add: active_ids_def)
  then have after: "length (active_ids (fst (snd (run (pub_step demo_nav_wire (\<lambda>_. Some [2]) (\<lambda>_. Some demo_snapshot) id Fin demo_ext) (snd demo_applied)
     [PubAck 0 0 ''v1'' ''g1'' (demo_pub_ack MAP_PUBLICATION_RESULT_APPLIED)]))) ''v1'') \<le> 1" by (rule one_active_publication)
  have now: "active_ids (fst (snd (snd demo_applied))) ''v1'' = [''mp-1'']" using r by (simp add: active_ids_def)
  show ?thesis by (rule conjI [OF now after])
qed

end
