(* ===== verification/Passwords.thy ===== *)
theory Passwords
  imports Map_Store
begin

text \<open>
  The credentials of \<open>server/fleet/auth.go\<close>: password hashing with PBKDF2, verification with the
  format kept for old records, the complexity rule, and telephone numbers. The hash functions
  are parameters; \<open>hex\<close> and \<open>strconv\<close> are modelled as far as they are used.
\<close>

section \<open>Numbers and hexadecimal text\<close>

fun digits_value :: "nat \<Rightarrow> string \<Rightarrow> nat option" where
  "digits_value acc [] = Some acc"
| "digits_value acc (c # cs) = (if byte_in 0x30 0x39 c then digits_value (acc * 10 + (of_char c - 48)) cs else None)"

definition go_atoi :: "string \<Rightarrow> int option" where
  "go_atoi s =
    (let neg = (s \<noteq> [] \<and> hd s = CHR ''-'');
         ds = (if s \<noteq> [] \<and> (hd s = CHR ''-'' \<or> hd s = CHR ''+'') then tl s else s)
     in if ds = [] then None
        else case digits_value 0 ds of
          None \<Rightarrow> None
        | Some n \<Rightarrow> (let v = (if neg then - int n else int n) in if int64_min \<le> v \<and> v \<le> int64_max then Some v else None))"

definition hex_digit :: "nat \<Rightarrow> char" where
  "hex_digit n = char_of (if n < 10 then n + 48 else n + 87)"

definition hex_value :: "char \<Rightarrow> nat option" where
  "hex_value c = (if byte_in 0x30 0x39 c then Some (of_char c - 48)
     else if byte_in 0x61 0x66 c then Some (of_char c - 87)
     else if byte_in 0x41 0x46 c then Some (of_char c - 55) else None)"

definition hex_encode :: "bytes \<Rightarrow> string" where
  "hex_encode bs = concat (map (\<lambda>b. [hex_digit (unat b div 16), hex_digit (unat b mod 16)]) bs)"

fun hex_decode :: "string \<Rightarrow> bytes option" where
  "hex_decode [] = Some []"
| "hex_decode [c] = None"
| "hex_decode (a # b # cs) =
    (case (hex_value a, hex_value b, hex_decode cs) of
       (Some x, Some y, Some bs) \<Rightarrow> Some (word_of_nat (x * 16 + y) # bs)
     | _ \<Rightarrow> None)"

section \<open>PBKDF2\<close>

record kdf =
  k_hmac :: "bytes \<Rightarrow> bytes \<Rightarrow> bytes"
  k_sha256 :: "bytes \<Rightarrow> bytes"

definition passwordKDFIterations :: nat where "passwordKDFIterations = 310000"

definition sha256_Size :: nat where "sha256_Size = 32"

definition be32 :: "u32 \<Rightarrow> bytes" where
  "be32 n = [ucast (drop_bit 24 n), ucast (drop_bit 16 n), ucast (drop_bit 8 n), ucast n]"

definition xor_bytes :: "bytes \<Rightarrow> bytes \<Rightarrow> bytes" where
  "xor_bytes t u = map2 xor t u"

text \<open>The inner loop: the next value of the keyed hash is folded into the block.\<close>

fun kdf_rounds :: "(bytes \<Rightarrow> bytes) \<Rightarrow> nat \<Rightarrow> bytes \<Rightarrow> bytes \<Rightarrow> bytes" where
  "kdf_rounds h 0 u t = t"
| "kdf_rounds h (Suc n) u t = kdf_rounds h n (h u) (xor_bytes t (h u))"

definition kdf_block :: "kdf \<Rightarrow> bytes \<Rightarrow> bytes \<Rightarrow> nat \<Rightarrow> u32 \<Rightarrow> bytes" where
  "kdf_block k password salt iterations block =
    (let u = k_hmac k password (salt @ be32 block)
     in kdf_rounds (k_hmac k password) (iterations - 1) u u)"

text \<open>The outer loop, with as much fuel as bytes are wanted; \<open>None\<close> would be a loop that never ends.\<close>

fun kdf_loop :: "nat \<Rightarrow> kdf \<Rightarrow> bytes \<Rightarrow> bytes \<Rightarrow> nat \<Rightarrow> nat \<Rightarrow> u32 \<Rightarrow> bytes \<Rightarrow> bytes option" where
  "kdf_loop fuel k password salt iterations keyLen block out =
    (if length out < keyLen then
       (case fuel of
          0 \<Rightarrow> None
        | Suc f \<Rightarrow> kdf_loop f k password salt iterations keyLen (block + 1) (out @ kdf_block k password salt iterations block))
     else Some (take keyLen out))"

declare kdf_loop.simps [simp del]

definition pbkdf2SHA256 :: "kdf \<Rightarrow> bytes \<Rightarrow> bytes \<Rightarrow> nat \<Rightarrow> nat \<Rightarrow> bytes option" where
  "pbkdf2SHA256 k password salt iterations keyLen = kdf_loop keyLen k password salt iterations keyLen 1 []"

section \<open>Stored passwords\<close>

definition hashPassword :: "kdf \<Rightarrow> string \<Rightarrow> string \<Rightarrow> string option" where
  "hashPassword k salt pwd =
    map_option (\<lambda>derived. ''pbkdf2-sha256$'' @ nat_digits passwordKDFIterations @ ''$'' @ hex_encode derived)
      (pbkdf2SHA256 k (string_bytes pwd) (string_bytes salt) passwordKDFIterations sha256_Size)"

definition verify_kdf :: "kdf \<Rightarrow> string \<Rightarrow> string \<Rightarrow> string \<Rightarrow> string \<Rightarrow> bool" where
  "verify_kdf k salt pwd count digest =
    (case go_atoi count of
       None \<Rightarrow> False
     | Some iterations \<Rightarrow>
        if iterations < 100000 \<or> iterations > 1000000 then False
        else case hex_decode digest of
          None \<Rightarrow> False
        | Some want \<Rightarrow>
           if length want \<noteq> sha256_Size then False
           else pbkdf2SHA256 k (string_bytes pwd) (string_bytes salt) (nat iterations) (length want) = Some want)"

definition verifyPassword :: "kdf \<Rightarrow> string \<Rightarrow> string \<Rightarrow> string \<Rightarrow> bool" where
  "verifyPassword k salt pwd stored =
    (case go_split CHR ''$'' stored of
       [scheme, count, digest] \<Rightarrow>
         if scheme = ''pbkdf2-sha256'' then verify_kdf k salt pwd count digest
         else hex_encode (k_sha256 k (string_bytes (salt @ '':'' @ pwd))) = stored
     | _ \<Rightarrow> hex_encode (k_sha256 k (string_bytes (salt @ '':'' @ pwd))) = stored)"

section \<open>The complexity rule\<close>

datatype password_error = PasswordShort | PasswordKinds

definition one_byte :: "(char \<Rightarrow> bool) \<Rightarrow> string \<Rightarrow> bool" where
  "one_byte p r = (case r of [c] \<Rightarrow> p c | _ \<Rightarrow> False)"

definition is_upper :: "string \<Rightarrow> bool" where "is_upper = one_byte (byte_in 0x41 0x5A)"
definition is_lower :: "string \<Rightarrow> bool" where "is_lower = one_byte (byte_in 0x61 0x7A)"
definition is_digit :: "string \<Rightarrow> bool" where "is_digit = one_byte (byte_in 0x30 0x39)"
definition is_symbol :: "string \<Rightarrow> bool" where "is_symbol r \<longleftrightarrow> \<not> is_upper r \<and> \<not> is_lower r \<and> \<not> is_digit r"

definition password_kinds :: "string \<Rightarrow> nat" where
  "password_kinds pwd = length (filter (\<lambda>p. list_ex p (go_runes pwd)) [is_upper, is_lower, is_digit, is_symbol])"

definition PasswordOK :: "string \<Rightarrow> password_error option" where
  "PasswordOK pwd = (if length pwd < 8 then Some PasswordShort else if password_kinds pwd < 3 then Some PasswordKinds else None)"

section \<open>Telephone numbers\<close>

definition validCNPhone :: "string \<Rightarrow> bool" where
  "validCNPhone p \<longleftrightarrow> length p = 11 \<and> p ! 0 = CHR ''1'' \<and> byte_in 0x33 0x39 (p ! 1) \<and> list_all (byte_in 0x30 0x39) (drop 2 p)"

text \<open>Slicing a shorter text would panic; the callers have checked the number.\<close>

definition maskPhone :: "string \<Rightarrow> string option" where
  "maskPhone p = (if length p < 7 then None else Some (take 3 p @ ''****'' @ drop 7 p))"

section \<open>Lemmas\<close>

text \<open>The reference: the exclusive or of all iterates of the keyed hash.\<close>

definition kdf_reference :: "kdf \<Rightarrow> bytes \<Rightarrow> bytes \<Rightarrow> nat \<Rightarrow> u32 \<Rightarrow> bytes" where
  "kdf_reference k password salt iterations block =
    (let u1 = k_hmac k password (salt @ be32 block)
     in foldl xor_bytes u1 (map (\<lambda>j. (k_hmac k password ^^ j) u1) [1..<iterations]))"

lemma kdf_rounds_foldl: "kdf_rounds h n u t = foldl xor_bytes t (map (\<lambda>j. (h ^^ j) u) [1..<Suc n])"
proof (induction n arbitrary: u t)
  case (Suc n)
  have "map (\<lambda>j. (h ^^ j) u) [1..<Suc (Suc n)] = h u # map (\<lambda>j. (h ^^ j) (h u)) [1..<Suc n]"
  proof -
    have "[1..<Suc (Suc n)] = 1 # map Suc [1..<Suc n]" by (simp add: upt_conv_Cons map_Suc_upt del: upt_Suc)
    then show ?thesis by (simp add: funpow_swap1 comp_def del: upt_Suc)
  qed
  with Suc show ?case by (simp del: upt_Suc)
qed simp

lemma kdf_block_reference: "0 < iterations \<Longrightarrow> kdf_block k p s iterations b = kdf_reference k p s iterations b"
  by (simp add: kdf_block_def kdf_reference_def Let_def kdf_rounds_foldl)

lemma kdf_rounds_length: "(\<And>m. length (h m) = n) \<Longrightarrow> length t = n \<Longrightarrow> length (kdf_rounds h i u t) = n"
  by (induction i arbitrary: u t) (auto simp: xor_bytes_def)

lemma kdf_block_length: "(\<And>m. length (k_hmac k p m) = n) \<Longrightarrow> length (kdf_block k p s iterations b) = n"
  by (simp add: kdf_block_def Let_def kdf_rounds_length)

text \<open>
  The outer loop appends block after block, so its result is the prefix of the concatenated
  blocks; the number of blocks that covers the wanted length bounds its rounds.
\<close>

definition kdf_blocks :: "kdf \<Rightarrow> bytes \<Rightarrow> bytes \<Rightarrow> nat \<Rightarrow> nat \<Rightarrow> bytes" where
  "kdf_blocks k p s iterations n = concat (map (\<lambda>i. kdf_block k p s iterations (word_of_nat (Suc i))) [0..<n])"

lemma kdf_blocks_Suc: "kdf_blocks k p s it (Suc n) = kdf_blocks k p s it n @ kdf_block k p s it (word_of_nat (Suc n))"
  by (simp add: kdf_blocks_def)

lemma kdf_blocks_length: "(\<And>m. length (k_hmac k p m) = h) \<Longrightarrow> length (kdf_blocks k p s it n) = n * h"
  by (induction n) (simp_all add: kdf_blocks_Suc kdf_block_length kdf_blocks_def [of _ _ _ _ 0])

lemma kdf_loop_blocks:
  assumes h: "\<And>m. length (k_hmac k p m) = h" and N: "keyLen \<le> N * h" "\<And>i. i < N \<Longrightarrow> i * h < keyLen"
  shows "j \<le> N \<Longrightarrow> N \<le> j + fuel \<Longrightarrow>
    kdf_loop fuel k p s it keyLen (word_of_nat (Suc j)) (kdf_blocks k p s it j) = Some (take keyLen (kdf_blocks k p s it N))"
proof (induction fuel arbitrary: j)
  case 0
  then have "j = N" by simp
  then show ?case using N(1) by (subst kdf_loop.simps) (simp add: kdf_blocks_length [OF h])
next
  case (Suc f)
  show ?case
  proof (cases "j = N")
    case True
    then show ?thesis using N(1) by (subst kdf_loop.simps) (simp add: kdf_blocks_length [OF h])
  next
    case False
    with Suc.prems have "j < N" by simp
    with Suc.IH [of "Suc j"] Suc.prems N(2) [of j] show ?thesis
      by (subst kdf_loop.simps) (simp add: kdf_blocks_length [OF h] kdf_blocks_Suc add.commute)
  qed
qed

lemma pbkdf2_blocks:
  assumes h: "\<And>m. length (k_hmac k p m) = h" and "0 < h"
  shows "pbkdf2SHA256 k p s it keyLen = Some (take keyLen (kdf_blocks k p s it ((keyLen + h - 1) div h)))"
proof -
  let ?N = "(keyLen + h - 1) div h"
  have "keyLen \<le> ?N * h"
  proof -
    have "keyLen + h - 1 < (?N + 1) * h" using dividend_less_div_times [of h "keyLen + h - 1"] \<open>0 < h\<close> by simp
    then show ?thesis by simp
  qed
  moreover have "i * h < keyLen" if "i < ?N" for i
  proof -
    from that have "Suc i \<le> ?N" by simp
    then have "Suc i * h \<le> keyLen + h - 1" using less_eq_div_iff_mult_less_eq [OF \<open>0 < h\<close>] by blast
    with \<open>0 < h\<close> show ?thesis by simp
  qed
  moreover have "?N \<le> keyLen"
    by (cases keyLen) (use \<open>0 < h\<close> in \<open>auto simp: less_eq_div_iff_mult_less_eq div_le_dividend algebra_simps intro: order_trans [OF div_le_mono]\<close>)
  ultimately show ?thesis
    using kdf_loop_blocks [OF h, of keyLen ?N 0 keyLen s it]
    by (simp add: pbkdf2SHA256_def kdf_blocks_def [of _ _ _ _ 0])
qed

lemma hex_value_digit: "n < 16 \<Longrightarrow> hex_value (hex_digit n) = Some n"
  by (simp add: hex_value_def hex_digit_def byte_in_def)

lemma hex_roundtrip: "hex_decode (hex_encode bs) = Some bs"
proof (induction bs)
  case (Cons b bs)
  have "unat b < 256" using unsigned_less [of b, where 'a = nat] by simp
  then have "hex_value (hex_digit (unat b div 16)) = Some (unat b div 16)" "hex_value (hex_digit (unat b mod 16)) = Some (unat b mod 16)"
    by (auto intro!: hex_value_digit)
  with Cons show ?case by (simp add: hex_encode_def mult.commute [of _ 16])
qed (simp add: hex_encode_def)

lemma hex_digit_not_dollar: "n < 16 \<Longrightarrow> hex_digit n \<noteq> CHR ''$''"
  using hex_value_digit [of n] by (auto simp: hex_value_def byte_in_def)

lemma hex_encode_no_dollar: "CHR ''$'' \<notin> set (hex_encode bs)"
proof -
  have "unat b div 16 < 16" "unat b mod 16 < 16" for b :: u8 using unsigned_less [of b, where 'a = nat] by simp_all
  then have "CHR ''$'' \<notin> set [hex_digit (unat b div 16), hex_digit (unat b mod 16)]" for b :: u8
    using hex_digit_not_dollar by (metis empty_iff empty_set set_ConsD)
  then show ?thesis unfolding hex_encode_def set_concat set_map by blast
qed

lemma go_split_plain: "c \<notin> set s \<Longrightarrow> go_split c s = [s]"
  by (induction s) auto

lemma go_split_append: "c \<notin> set s \<Longrightarrow> go_split c (s @ c # t) = s # go_split c t"
  by (induction s) auto

text \<open>With 32 bytes per block, one block is a key.\<close>

lemma pbkdf2_one_block:
  assumes "\<And>m. length (k_hmac k p m) = 32"
  shows "pbkdf2SHA256 k p s it 32 = Some (kdf_block k p s it 1)"
  using pbkdf2_blocks [of k p 32 s it 32] kdf_block_length [OF assms, of s it 1] assms
  by (simp add: kdf_blocks_def)

lemma iterations_digits: "nat_digits passwordKDFIterations = ''310000''"
  by (simp add: passwordKDFIterations_def nat_digits.simps) code_simp

lemma atoi_iterations: "go_atoi (nat_digits passwordKDFIterations) = Some 310000"
  unfolding iterations_digits by (simp add: go_atoi_def byte_in_def int64_min_def int64_max_def)

lemma stored_split:
  "go_split CHR ''$'' (''pbkdf2-sha256$'' @ nat_digits passwordKDFIterations @ ''$'' @ hex_encode key)
    = [''pbkdf2-sha256'', nat_digits passwordKDFIterations, hex_encode key]"
proof -
  have "go_split CHR ''$'' (''310000'' @ CHR ''$'' # hex_encode key) = [''310000'', hex_encode key]"
    by (subst go_split_append) (simp_all add: go_split_plain hex_encode_no_dollar)
  moreover have "go_split CHR ''$'' (''pbkdf2-sha256'' @ CHR ''$'' # t) = ''pbkdf2-sha256'' # go_split CHR ''$'' t" for t
    by (rule go_split_append) simp
  ultimately show ?thesis unfolding iterations_digits by simp
qed

text \<open>
  A stored password verifies exactly the passwords that derive the same key: the record that
  \<open>hashPassword\<close> produces for a password verifies another one if and only if both derive equal
  keys with the salt, so the password itself always verifies; the derivation returns a key.
  HMAC-SHA256 gives 32 bytes.
\<close>

theorem password_roundtrip:
  assumes "\<And>key m. length (k_hmac k key m) = 32"
  shows "\<exists>stored. hashPassword k salt pwd = Some stored \<and>
    (\<forall>pwd'. verifyPassword k salt pwd' stored \<longleftrightarrow>
       kdf_reference k (string_bytes pwd') (string_bytes salt) 310000 1 = kdf_reference k (string_bytes pwd) (string_bytes salt) 310000 1)"
proof -
  let ?key = "\<lambda>p. kdf_reference k (string_bytes p) (string_bytes salt) 310000 1"
  have key: "pbkdf2SHA256 k (string_bytes p) (string_bytes salt) 310000 32 = Some (?key p)" for p
    by (simp only: pbkdf2_one_block [OF assms] kdf_block_reference [OF zero_less_numeral])
  have len: "length (?key p) = 32" for p
    using kdf_block_length [OF assms] by (simp only: kdf_block_reference [OF zero_less_numeral, symmetric])
  let ?stored = "''pbkdf2-sha256$'' @ nat_digits passwordKDFIterations @ ''$'' @ hex_encode (?key pwd)"
  have "hashPassword k salt pwd = Some ?stored"
    using key [of pwd] by (simp only: hashPassword_def passwordKDFIterations_def sha256_Size_def option.map)
  moreover have "verifyPassword k salt pwd' ?stored \<longleftrightarrow> ?key pwd' = ?key pwd" for pwd'
  proof -
    have "go_split CHR ''$'' ?stored = [''pbkdf2-sha256'', nat_digits passwordKDFIterations, hex_encode (?key pwd)]"
      by (rule stored_split)
    then show ?thesis using key [of pwd'] len [of pwd]
      by (simp add: verifyPassword_def verify_kdf_def atoi_iterations hex_roundtrip sha256_Size_def)
  qed
  ultimately show ?thesis by blast
qed

text \<open>A keyed hash of 32 bytes that is easy to compute, for the witnesses.\<close>

definition demo_kdf :: kdf where
  "demo_kdf = \<lparr>k_hmac = (\<lambda>key m. take 32 (key @ m @ replicate 32 0)), k_sha256 = (\<lambda>m. [])\<rparr>"

lemma demo_kdf_length: "length (k_hmac demo_kdf key m) = 32"
  by (simp add: demo_kdf_def)

theorem password_roundtrip_witness:
  "\<exists>stored. hashPassword demo_kdf ''salt'' ''Passw0rd!'' = Some stored \<and> verifyPassword demo_kdf ''salt'' ''Passw0rd!'' stored"
  using password_roundtrip [of demo_kdf "''salt''" "''Passw0rd!''", OF demo_kdf_length] by blast

end
