(* ===== verification/Org_Groups.thy ===== *)
theory Org_Groups
  imports Passwords
begin

text \<open>
  The groups of \<open>server/fleet/groups.go\<close>: the table of groups a process keeps, its restoration from
  \<open>org_groups\<close> at start-up, and the operations on it. A statement of the database may fail; every
  operation says what it then leaves behind.
\<close>

record Group =
  g_ID :: string
  g_Name :: string
  g_MaxAdmins :: int
  g_MaxUsers :: int
  g_CreatedNS :: int

record GroupStore =
  gs_groups :: "(string \<times> Group) list"
  gs_seq :: int

type_synonym group_world = "GroupStore \<times> txs"

datatype group_error = GroupNameMissing | GroupExists string | GroupUnknown | GroupNameTaken string | GroupDb

text \<open>A statement outside a transaction.\<close>

definition db_exec :: "(db \<Rightarrow> (unit \<times> db) option) \<Rightarrow> txs \<Rightarrow> bool \<times> txs" where
  "db_exec g s = (case tx_stmt g s :: (unit tx_error + unit) \<times> txs of (Inl _, s') \<Rightarrow> (False, s') | (Inr _, s') \<Rightarrow> (True, s'))"

lemma db_exec_cases:
  obtains (failed) fs' where "db_exec g (d, fs) = (False, (d, fs'))"
  | (ok) d' fs' where "db_exec g (d, fs) = (True, (d', fs'))" "g d = Some ((), d')"
  by (cases "tx_stmt g (d, fs) :: (unit tx_error + unit) \<times> txs" rule: prod.exhaust)
     (auto simp: db_exec_def tx_stmt_def split: if_splits option.splits)

section \<open>Start-up\<close>

text \<open>\<open>fmt.Sscanf\<close> with \<open>"g-%d"\<close>: the literal, blanks, a sign, digits; what follows is not read.\<close>

definition scan_int :: "string \<Rightarrow> int option" where
  "scan_int s =
    (let t = dropWhile (\<lambda>c. c = CHR '' '') s;
         sign = (if t \<noteq> [] \<and> (hd t = CHR ''-'' \<or> hd t = CHR ''+'') then [hd t] else []);
         ds = takeWhile (byte_in 0x30 0x39) (drop (length sign) t)
     in go_atoi (sign @ ds))"

definition group_number :: "string \<Rightarrow> int option" where
  "group_number i = (if take 2 i = ''g-'' then scan_int (drop 2 i) else None)"

definition load_group :: "group_row \<Rightarrow> GroupStore \<Rightarrow> GroupStore" where
  "load_group r gs =
    gs\<lparr>gs_groups := AList.update (gr_id r)
         \<lparr>g_ID = gr_id r, g_Name = gr_name r, g_MaxAdmins = gr_max_admins r, g_MaxUsers = gr_max_users r,
          g_CreatedNS = gr_created_at r\<rparr> (gs_groups gs),
       gs_seq := (case group_number (gr_id r) of Some n \<Rightarrow> max n (gs_seq gs) | None \<Rightarrow> gs_seq gs)\<rparr>"

definition NewGroupStore :: "txs \<Rightarrow> group_world" where
  "NewGroupStore s =
    (case tx_query org_groups s :: (unit tx_error + group_row list) \<times> txs of
       (Inl _, s') \<Rightarrow> (\<lparr>gs_groups = [], gs_seq = 0\<rparr>, s')
     | (Inr rows, s') \<Rightarrow> (fold load_group rows \<lparr>gs_groups = [], gs_seq = 0\<rparr>, s'))"

section \<open>Operations\<close>

definition group_id :: "int \<Rightarrow> string" where "group_id n = ''g-'' @ show_int n"

definition insert_group :: "ext \<Rightarrow> Group \<Rightarrow> db \<Rightarrow> (unit \<times> db) option" where
  "insert_group x g d =
    (if \<exists>r \<in> set (org_groups d). gr_id r = g_ID g \<or> gr_name r = g_Name g then None
     else Some ((), d\<lparr>org_groups := org_groups d @
       [\<lparr>gr_id = g_ID g, gr_name = g_Name g, gr_max_admins = g_MaxAdmins g, gr_max_users = g_MaxUsers g,
         gr_created_at = x_ts x (g_CreatedNS g)\<rparr>]\<rparr>))"

definition group_Create :: "ext \<Rightarrow> int \<Rightarrow> string \<Rightarrow> group_world \<Rightarrow> (group_error + Group) \<times> group_world" where
  "group_Create x now name0 gw =
    (let name = trim_space name0; gs = fst gw
     in if name = [] then (Inl GroupNameMissing, gw)
        else if \<exists>(i, g) \<in> set (gs_groups gs). g_Name g = name then (Inl (GroupExists name), gw)
        else let n = gs_seq gs + 1; i = group_id n;
                 g = \<lparr>g_ID = i, g_Name = name, g_MaxAdmins = 5, g_MaxUsers = 10, g_CreatedNS = now\<rparr>
             in case db_exec (insert_group x g) (snd gw) of
                  (False, s') \<Rightarrow> (Inl GroupDb, (gs, s'))
                | (True, s') \<Rightarrow> (Inr g, (gs\<lparr>gs_seq := n, gs_groups := AList.update i g (gs_groups gs)\<rparr>, s')))"

definition group_Get :: "string \<Rightarrow> GroupStore \<Rightarrow> Group option" where
  "group_Get i gs = map_of (gs_groups gs) i"

definition group_List :: "GroupStore \<Rightarrow> Group list" where
  "group_List gs = sort_key g_CreatedNS (map snd (gs_groups gs))"

definition update_group :: "Group \<Rightarrow> db \<Rightarrow> (unit \<times> db) option" where
  "update_group g d =
    (if \<exists>r \<in> set (org_groups d). gr_id r \<noteq> g_ID g \<and> gr_name r = g_Name g \<and> (\<exists>q \<in> set (org_groups d). gr_id q = g_ID g) then None
     else Some ((), d\<lparr>org_groups := update_where (\<lambda>r. gr_id r = g_ID g)
       (\<lambda>r. r\<lparr>gr_name := g_Name g, gr_max_admins := g_MaxAdmins g, gr_max_users := g_MaxUsers g\<rparr>) (org_groups d)\<rparr>))"

text \<open>The group in memory is changed before the statement, and stays changed when that fails.\<close>

definition changed_group :: "string \<Rightarrow> int \<Rightarrow> int \<Rightarrow> Group \<Rightarrow> Group" where
  "changed_group name maxAdmins maxUsers g =
    g\<lparr>g_Name := (if name \<noteq> [] then name else g_Name g),
      g_MaxAdmins := (if maxAdmins > 0 then maxAdmins else g_MaxAdmins g),
      g_MaxUsers := (if maxUsers > 0 then maxUsers else g_MaxUsers g)\<rparr>"

definition group_Update :: "string \<Rightarrow> string \<Rightarrow> int \<Rightarrow> int \<Rightarrow> group_world \<Rightarrow> (group_error + Group) \<times> group_world" where
  "group_Update i name maxAdmins maxUsers gw =
    (let gs = fst gw
     in case map_of (gs_groups gs) i of
          None \<Rightarrow> (Inl GroupUnknown, gw)
        | Some g \<Rightarrow>
           if name \<noteq> [] \<and> (\<exists>(j, h) \<in> set (gs_groups gs). g_ID h \<noteq> i \<and> g_Name h = name) then (Inl (GroupNameTaken name), gw)
           else let g' = changed_group name maxAdmins maxUsers g;
                    gs' = gs\<lparr>gs_groups := AList.update i g' (gs_groups gs)\<rparr>
                in case db_exec (update_group g') (snd gw) of
                     (False, s') \<Rightarrow> (Inl GroupDb, (gs', s'))
                   | (True, s') \<Rightarrow> (Inr g', (gs', s')))"

definition delete_group :: "string \<Rightarrow> db \<Rightarrow> (unit \<times> db) option" where
  "delete_group i d = Some ((), d\<lparr>org_groups := filter (\<lambda>r. gr_id r \<noteq> i) (org_groups d)\<rparr>)"

definition group_Delete :: "string \<Rightarrow> group_world \<Rightarrow> group_error option \<times> group_world" where
  "group_Delete i gw =
    (let gs = fst gw
     in case map_of (gs_groups gs) i of
          None \<Rightarrow> (Some GroupUnknown, gw)
        | Some _ \<Rightarrow>
           (case db_exec (delete_group i) (snd gw) of
              (False, s') \<Rightarrow> (Some GroupDb, (gs, s'))
            | (True, s') \<Rightarrow> (None, (gs\<lparr>gs_groups := AList.delete i (gs_groups gs)\<rparr>, s'))))"

section \<open>Identifiers\<close>

text \<open>
  The identifier of a deleted group is given out again after a restart, although it is meant to be a
  stable reference: the number is the greatest one of the groups that are left.
\<close>

theorem group_id_reused:
  "let gw1 = snd (group_Create x 1 ''a'' (\<lparr>gs_groups = [], gs_seq = 0\<rparr>, (empty_db, [])));
       gw2 = snd (group_Delete ''g-1'' gw1);
       gw3 = NewGroupStore (snd gw2)
   in map_of (gs_groups (fst gw1)) ''g-1'' \<noteq> None \<and> map_of (gs_groups (fst gw3)) ''g-1'' = None
      \<and> map_of (gs_groups (fst (snd (group_Create x 2 ''b'' gw3)))) ''g-1'' \<noteq> None"
proof -
  have one: "show_int 1 = ''1''" by code_simp
  have trim: "trim_space ''a'' = ''a''" "trim_space ''b'' = ''b''" by code_simp+
  show ?thesis
    by (simp add: group_Create_def trim group_id_def one Let_def db_exec_def insert_group_def group_Delete_def delete_group_def
        NewGroupStore_def empty_db_def)
qed

end
