(* ===== verification/Audit_Trail.thy ===== *)
theory Audit_Trail
  imports Org_Groups Fleet_Frame
begin

text \<open>
  The audit trail: \<open>logAudit\<close> of \<open>server/fleet/openapi.go\<close>, which keeps the newest 500 entries in the
  process and appends every entry to \<open>audit_log\<close>, and \<open>auditSystem\<close> of \<open>auth.go\<close>, which
  appends to \<open>audit_logs\<close>. Both tables reject every change of a row.
\<close>

definition no_entry :: AuditEntry where
  "no_entry = \<lparr>ae_ID = 0, ae_TsNS = 0, ae_KeyID = [], ae_KeyName = [], ae_Method = [], ae_Path = [], ae_Result = [],
     ae_HTTP = 0, ae_IP = [], ae_TraceID = [], ae_VehicleID = [], ae_Remark = [], ae_Detail = NoText, ae_Source = [],
     ae_Actor = [], ae_Action = []\<rparr>"

definition audit_cap :: nat where "audit_cap = 500"

definition push_audit :: "AuditEntry \<Rightarrow> AuditEntry list \<Rightarrow> AuditEntry list" where
  "push_audit e ring = take audit_cap (e # ring)"

definition sourced :: "AuditEntry \<Rightarrow> AuditEntry" where
  "sourced e = (if ae_Source e = [] then e\<lparr>ae_Source := ''api''\<rparr> else e)"

definition insert_audit :: "ext \<Rightarrow> AuditEntry \<Rightarrow> db \<Rightarrow> (unit \<times> db) option" where
  "insert_audit x e d = Some ((), d\<lparr>audit_log := audit_log d @
     [e\<lparr>ae_ID := int (length (audit_log d)) + 1, ae_TsNS := x_ts x (ae_TsNS e), ae_Source := [], ae_Actor := [], ae_Action := []\<rparr>]\<rparr>)"

text \<open>An entry that could not be written is only reported in the log of the process.\<close>

definition logAudit :: "ext \<Rightarrow> AuditEntry \<Rightarrow> AuditEntry list \<times> txs \<Rightarrow> AuditEntry list \<times> txs" where
  "logAudit x e rs = (push_audit (sourced e) (fst rs), snd (db_exec (insert_audit x (sourced e)) (snd rs)))"

definition insert_system_audit :: "int \<Rightarrow> string \<Rightarrow> string \<Rightarrow> json \<Rightarrow> db \<Rightarrow> (unit \<times> db) option" where
  "insert_system_audit dbnow actor action detail d = Some ((), d\<lparr>audit_logs := audit_logs d @
     [\<lparr>ad_id = int (length (audit_logs d)) + 1, ad_ts = dbnow, ad_actor = trim_space actor, ad_action = action, ad_detail = detail\<rparr>]\<rparr>)"

definition auditSystem :: "int \<Rightarrow> string \<Rightarrow> string \<Rightarrow> json \<Rightarrow> txs \<Rightarrow> txs" where
  "auditSystem dbnow actor action detail s =
    (if trim_space action = [] then s else snd (db_exec (insert_system_audit dbnow actor action detail) s))"

text \<open>The ring keeps the newest entries.\<close>

interpretation audit_ring: bounded_buffer push_audit audit_cap
  by unfold_locales (auto simp: push_audit_def audit_cap_def dest: in_set_takeD)

text \<open>
  What is reported leaves alone what is reported on: a view of the database that reads neither the
  tables of the fleet state nor those of the audit is the same after an event or an audit entry.
\<close>

locale quiet_view = fleet_view view for view :: "db \<Rightarrow> 'v" +
  assumes view_audit_log [simp]: "view (d\<lparr>audit_log := a\<rparr>) = view d"
    and view_audit_logs [simp]: "view (d\<lparr>audit_logs := b\<rparr>) = view d"
begin

lemma view_db_exec: "(\<And>d d'. g d = Some ((), d') \<Longrightarrow> view d' = view d) \<Longrightarrow> view (fst (snd (db_exec g s))) = view (fst s)"
  by (rule db_exec_cases [of g "fst s" "snd s"]) auto

lemma view_logAudit [simp]: "view (fst (snd (logAudit x e rs))) = view (fst (snd rs))"
  unfolding logAudit_def snd_conv by (rule view_db_exec) (auto simp: insert_audit_def)

lemma view_auditSystem [simp]: "view (fst (auditSystem dbnow actor action detail s)) = view (fst s)"
  unfolding auditSystem_def if_distrib by (auto intro!: view_db_exec simp: insert_system_audit_def)

end

end
