(* ===== verification/Auth.thy ===== *)
theory Auth
  imports Audit_Trail
begin

text \<open>
  Accounts, sessions and the authentication middleware of \<open>server/fleet/auth.go\<close>. The store of the
  process keeps users, sessions, captchas, pending logins and text-message codes; users and sessions
  are also rows of the database, sessions under the hash of their token. Each operation is its
  phases under the lock and its statements, in the order of the code; one reading of the clock
  serves a call. Tokens drawn at random are arguments.
\<close>

section \<open>State\<close>

definition lockAfterFails :: int where "lockAfterFails = 5"
definition lockDuration :: int where "lockDuration = 30 * minute"
definition captchaTTL :: int where "captchaTTL = 5 * minute"
definition captchaMaxTries :: int where "captchaMaxTries = 3"
definition smsMaxTries :: int where "smsMaxTries = 5"
definition sessionIdleTTL :: int where "sessionIdleTTL = 30 * minute"
definition sessionAbsTTL :: int where "sessionAbsTTL = 8 * hour"
definition passwordLifetime :: int where "passwordLifetime = 180 * 24 * hour"

record User =
  u_Username :: string
  u_DisplayName :: string
  u_Role :: string
  u_Groups :: "string list"
  u_Phone :: string
  u_PassHash :: string
  u_Salt :: string
  u_CreatedNS :: int
  u_PassSetNS :: int
  u_FailCount :: int
  u_LockedUntil :: int

record Session =
  s_Token :: string
  s_Username :: string
  s_Role :: string
  s_Groups :: "string list"
  s_CreatedNS :: int
  s_lastUse :: gotime

record captcha =
  cp_answer :: string
  cp_exp :: gotime
  cp_tries :: int

record preauth =
  pa_username :: string
  pa_exp :: gotime

record smsEntry =
  sm_code :: string
  sm_exp :: gotime
  sm_tries :: int

record AuthStore =
  au_users :: "(string \<times> User) list"
  au_sessions :: "(string \<times> Session) list"
  au_captchas :: "(string \<times> captcha) list"
  au_preauths :: "(string \<times> preauth) list"
  au_sms :: "(string \<times> smsEntry) list"

text \<open>The store, the ring of audit entries it writes to, and the fleet state with the database.\<close>

record auth_world =
  aw_store :: AuthStore
  aw_audit :: "AuditEntry list"
  aw_world :: world

datatype auth_error =
    AuthBadCredentials | AuthLocked int | AuthLockedNow
  | CaptchaGone | CaptchaExpired | CaptchaTooMany | CaptchaWrong
  | PreauthGone | AccountGone | SessionStore
  | PhoneFormat | SmsUnconfigured | SmsGone | SmsTooMany | SmsWrong | PhoneUnbound | AccountLocked
  | PhoneTaken string | UserStore

definition on_store :: "(AuthStore \<Rightarrow> AuthStore) \<Rightarrow> auth_world \<Rightarrow> auth_world" where
  "on_store f w = w\<lparr>aw_store := f (aw_store w)\<rparr>"

definition aw_txs :: "auth_world \<Rightarrow> txs" where "aw_txs w = snd (aw_world w)"

definition set_txs :: "txs \<Rightarrow> auth_world \<Rightarrow> auth_world" where
  "set_txs s w = w\<lparr>aw_world := (fst (aw_world w), s)\<rparr>"

definition put_user :: "string \<Rightarrow> User \<Rightarrow> AuthStore \<Rightarrow> AuthStore" where
  "put_user n u a = a\<lparr>au_users := AList.update n u (au_users a)\<rparr>"

definition put_session :: "string \<Rightarrow> Session \<Rightarrow> AuthStore \<Rightarrow> AuthStore" where
  "put_session t s a = a\<lparr>au_sessions := AList.update t s (au_sessions a)\<rparr>"

definition del_session :: "string \<Rightarrow> AuthStore \<Rightarrow> AuthStore" where
  "del_session t a = a\<lparr>au_sessions := AList.delete t (au_sessions a)\<rparr>"

definition user_named :: "auth_world \<Rightarrow> string \<Rightarrow> User option" where
  "user_named w n = map_of (au_users (aw_store w)) n"

section \<open>The database\<close>

definition roles :: "string list" where "roles = [''super'', ''group_admin'', ''user'']"

definition user_of_row :: "user_row \<Rightarrow> User" where
  "user_of_row r = \<lparr>u_Username = us_username r, u_DisplayName = us_display r, u_Role = us_role r, u_Groups = us_groups r,
     u_Phone = us_phone r, u_PassHash = us_pass_hash r, u_Salt = us_salt r, u_CreatedNS = us_created_ns r,
     u_PassSetNS = us_pass_set_ns r, u_FailCount = 0, u_LockedUntil = 0\<rparr>"

definition loadUsers :: "txs \<Rightarrow> (string \<times> User) list \<times> txs" where
  "loadUsers s = (case tx_query auth_users s :: (unit tx_error + user_row list) \<times> txs of
     (Inl _, s') \<Rightarrow> ([], s')
   | (Inr rows, s') \<Rightarrow> (fold (\<lambda>r. AList.update (us_username r) (user_of_row r)) rows [], s'))"

definition row_of_user :: "ext \<Rightarrow> User \<Rightarrow> user_row" where
  "row_of_user x u = \<lparr>us_username = u_Username u, us_display = u_DisplayName u, us_role = u_Role u, us_groups = u_Groups u,
     us_phone = u_Phone u, us_pass_hash = u_PassHash u, us_salt = u_Salt u, us_created_ns = x_ts x (u_CreatedNS u),
     us_pass_set_ns = x_ts x (u_PassSetNS u)\<rparr>"

text \<open>The role is checked and a telephone number belongs to one account; an existing row keeps its creation time.\<close>

definition upsert_user :: "ext \<Rightarrow> User \<Rightarrow> db \<Rightarrow> (unit \<times> db) option" where
  "upsert_user x u d =
    (if u_Role u \<notin> set roles
        \<or> (\<exists>r \<in> set (auth_users d). us_username r \<noteq> u_Username u \<and> us_phone r = u_Phone u \<and> u_Phone u \<noteq> []) then None
     else if u_Username u \<in> us_username ` set (auth_users d)
     then Some ((), d\<lparr>auth_users := update_where (\<lambda>r. us_username r = u_Username u)
            (\<lambda>r. (row_of_user x u)\<lparr>us_created_ns := us_created_ns r\<rparr>) (auth_users d)\<rparr>)
     else Some ((), d\<lparr>auth_users := auth_users d @ [row_of_user x u]\<rparr>))"

definition persistUserLocked :: "ext \<Rightarrow> User \<Rightarrow> auth_world \<Rightarrow> bool \<times> auth_world" where
  "persistUserLocked x u w = (case db_exec (upsert_user x u) (aw_txs w) of (ok, s') \<Rightarrow> (ok, set_txs s' w))"

definition sessionTokenHash :: "ext \<Rightarrow> string \<Rightarrow> string" where
  "sessionTokenHash x token = x_sha256_hex x (string_bytes (''robot-agent/session/v1:'' @ token))"

definition stale_session :: "int \<Rightarrow> session_row \<Rightarrow> bool" where
  "stale_session dbnow r \<longleftrightarrow> ss_revoked_at r \<noteq> None \<or> ss_last_use_at r \<le> dbnow - 30 * minute \<or> ss_created_at r \<le> dbnow - 8 * hour"

definition delete_stale :: "int \<Rightarrow> db \<Rightarrow> (unit \<times> db) option" where
  "delete_stale dbnow d = Some ((), d\<lparr>auth_sessions := filter (\<lambda>r. \<not> stale_session dbnow r) (auth_sessions d)\<rparr>)"

definition loadSessions :: "int \<Rightarrow> txs \<Rightarrow> txs" where
  "loadSessions dbnow s = snd (db_exec (delete_stale dbnow) s)"

definition NewAuthStore :: "int \<Rightarrow> txs \<Rightarrow> AuthStore \<times> txs" where
  "NewAuthStore dbnow s = (case loadUsers s of (us, s') \<Rightarrow>
     (\<lparr>au_users = us, au_sessions = [], au_captchas = [], au_preauths = [], au_sms = []\<rparr>, loadSessions dbnow s'))"

definition stored_session :: "ext \<Rightarrow> int \<Rightarrow> string \<Rightarrow> db \<Rightarrow> session_row option" where
  "stored_session x dbnow token d =
    find (\<lambda>r. ss_token_hash r = sessionTokenHash x token \<and> ss_revoked_at r = None
        \<and> ss_last_use_at r > dbnow - 30 * minute \<and> ss_created_at r > dbnow - 8 * hour) (auth_sessions d)"

definition restored :: "string \<Rightarrow> session_row \<Rightarrow> Session" where
  "restored token r = \<lparr>s_Token = token, s_Username = ss_username r, s_Role = ss_role r, s_Groups = ss_groups r,
     s_CreatedNS = ss_created_at r, s_lastUse = time_unix (ss_last_use_at r)\<rparr>"

definition restoreSession :: "ext \<Rightarrow> int \<Rightarrow> string \<Rightarrow> txs \<Rightarrow> Session option \<times> txs" where
  "restoreSession x dbnow token s =
    (if token = [] then (None, s)
     else case tx_query (stored_session x dbnow token) s :: (unit tx_error + session_row option) \<times> txs of
       (Inl _, s') \<Rightarrow> (None, s')
     | (Inr r, s') \<Rightarrow> (map_option (restored token) r, s'))"

definition session_row_of :: "ext \<Rightarrow> Session \<Rightarrow> session_row" where
  "session_row_of x s = \<lparr>ss_token_hash = sessionTokenHash x (s_Token s), ss_username = s_Username s, ss_role = s_Role s,
     ss_groups = s_Groups s, ss_created_at = x_ts x (s_CreatedNS s), ss_last_use_at = x_ts x (wall (s_lastUse s)),
     ss_revoked_at = None\<rparr>"

text \<open>
  \<open>INSERT ... ON CONFLICT ... DO UPDATE ... WHERE revoked_at IS NULL\<close>, with whether a row was
  written; the account must exist when one is.
\<close>

definition upsert_session :: "ext \<Rightarrow> Session \<Rightarrow> db \<Rightarrow> (bool \<times> db) option" where
  "upsert_session x s d =
    (let h = sessionTokenHash x (s_Token s); known = s_Username s \<in> us_username ` set (auth_users d)
     in if s_Role s \<notin> set roles then None
        else case find (\<lambda>r. ss_token_hash r = h) (auth_sessions d) of
          None \<Rightarrow> if known then Some (True, d\<lparr>auth_sessions := auth_sessions d @ [session_row_of x s]\<rparr>) else None
        | Some r \<Rightarrow>
           if ss_revoked_at r \<noteq> None then Some (False, d)
           else if known then Some (True, d\<lparr>auth_sessions := update_where (\<lambda>r. ss_token_hash r = h)
              (\<lambda>r. r\<lparr>ss_username := s_Username s, ss_role := s_Role s, ss_groups := s_Groups s,
                    ss_last_use_at := x_ts x (wall (s_lastUse s))\<rparr>) (auth_sessions d)\<rparr>)
           else None)"

definition persistSession :: "ext \<Rightarrow> Session \<Rightarrow> txs \<Rightarrow> bool \<times> txs" where
  "persistSession x s t = (case tx_stmt (upsert_session x s) t :: (unit tx_error + bool) \<times> txs of
     (Inl _, t') \<Rightarrow> (False, t') | (Inr written, t') \<Rightarrow> (written, t'))"

definition revoke_stmt :: "ext \<Rightarrow> int \<Rightarrow> string \<Rightarrow> db \<Rightarrow> (unit \<times> db) option" where
  "revoke_stmt x dbnow token d = Some ((), d\<lparr>auth_sessions := update_where
     (\<lambda>r. ss_token_hash r = sessionTokenHash x token \<and> ss_revoked_at r = None) (\<lambda>r. r\<lparr>ss_revoked_at := Some dbnow\<rparr>) (auth_sessions d)\<rparr>)"

definition revokeSession :: "ext \<Rightarrow> int \<Rightarrow> string \<Rightarrow> txs \<Rightarrow> txs" where
  "revokeSession x dbnow token s = (if token = [] then s else snd (db_exec (revoke_stmt x dbnow token) s))"

section \<open>Audit\<close>

definition auditLogin :: "ext \<Rightarrow> int \<Rightarrow> string \<Rightarrow> string \<Rightarrow> string \<Rightarrow> audit_text \<Rightarrow> auth_world \<Rightarrow> auth_world" where
  "auditLogin x now username ip result detail w =
    (case logAudit x (no_entry\<lparr>ae_TsNS := now, ae_KeyName := username, ae_Method := ''POST'',
        ae_Path := ''/api/auth/login'', ae_Result := result, ae_IP := ip, ae_Detail := detail\<rparr>) (aw_audit w, aw_txs w) of
       (ring, s) \<Rightarrow> set_txs s (w\<lparr>aw_audit := ring\<rparr>))"

definition audit_platform :: "int \<Rightarrow> string \<Rightarrow> string \<Rightarrow> json \<Rightarrow> auth_world \<Rightarrow> auth_world" where
  "audit_platform dbnow actor action detail w = set_txs (auditSystem dbnow actor action detail (aw_txs w)) w"

definition push_sys :: "int \<Rightarrow> string \<Rightarrow> event_text \<Rightarrow> auth_world \<Rightarrow> auth_world" where
  "push_sys now level txt w = w\<lparr>aw_world := pushEvent now level [] txt ''sys'' (aw_world w)\<rparr>"

section \<open>Captchas\<close>

definition captchaAlphabet :: string where "captchaAlphabet = ''23456789ABCDEFGHJKMNPQRSTUVWXYZ''"

text \<open>The four numbers below the length of the alphabet and the identifier are drawn at random.\<close>

definition NewCaptcha :: "gotime \<Rightarrow> nat list \<Rightarrow> string \<Rightarrow> AuthStore \<Rightarrow> AuthStore" where
  "NewCaptcha now picks i a =
    a\<lparr>au_captchas := AList.update i \<lparr>cp_answer = map (\<lambda>n. captchaAlphabet ! n) picks, cp_exp = time_add now captchaTTL, cp_tries = 0\<rparr>
        (au_captchas a)\<rparr>"

text \<open>
  \<open>strings.EqualFold\<close> folds every rune. Of the runes beyond ASCII the Kelvin sign folds with
  \<open>k\<close> and the long s with \<open>s\<close>; how the others fold among themselves is an argument.
\<close>

definition fold_rune :: "(string \<Rightarrow> string) \<Rightarrow> string \<Rightarrow> string" where
  "fold_rune uf r =
    (if is_upper r then [char_of (of_char (hd r) + 32 :: nat)]
     else if r = [CHR 0xE2, CHR 0x84, CHR 0xAA] then ''k''
     else if r = [CHR 0xC5, CHR 0xBF] then ''s''
     else if length r = 1 then r else uf r)"

definition equal_fold :: "(string \<Rightarrow> string) \<Rightarrow> string \<Rightarrow> string \<Rightarrow> bool" where
  "equal_fold uf s t \<longleftrightarrow> map (fold_rune uf) (go_runes s) = map (fold_rune uf) (go_runes t)"

definition checkCaptcha :: "(string \<Rightarrow> string) \<Rightarrow> gotime \<Rightarrow> string \<Rightarrow> string \<Rightarrow> AuthStore \<Rightarrow> auth_error option \<times> AuthStore" where
  "checkCaptcha uf now i ans a =
    (let gone = a\<lparr>au_captchas := AList.delete i (au_captchas a)\<rparr>
     in case map_of (au_captchas a) i of
          None \<Rightarrow> (Some CaptchaGone, a)
        | Some c \<Rightarrow>
           if time_after now (cp_exp c) then (Some CaptchaExpired, gone)
           else if \<not> equal_fold uf (trim_space ans) (cp_answer c) then
             (if cp_tries c + 1 \<ge> captchaMaxTries then (Some CaptchaTooMany, gone)
              else (Some CaptchaWrong, a\<lparr>au_captchas := AList.update i (c\<lparr>cp_tries := cp_tries c + 1\<rparr>) (au_captchas a)\<rparr>))
           else (None, gone))"

section \<open>Login\<close>

text \<open>A new account; \<open>None\<close> would be a derivation that never ends, see the theory of passwords.\<close>

definition new_user :: "kdf \<Rightarrow> int \<Rightarrow> string \<Rightarrow> string \<Rightarrow> string \<Rightarrow> string \<Rightarrow> string \<Rightarrow> string list \<Rightarrow> User option" where
  "new_user k now salt username displayName pwd role groups =
    map_option (\<lambda>h. \<lparr>u_Username = username, u_DisplayName = displayName, u_Role = role, u_Groups = groups, u_Phone = [],
       u_PassHash = h, u_Salt = salt, u_CreatedNS = now, u_PassSetNS = now, u_FailCount = 0, u_LockedUntil = 0\<rparr>) (hashPassword k salt pwd)"

definition SeedUser :: "kdf \<Rightarrow> ext \<Rightarrow> int \<Rightarrow> string \<Rightarrow> string \<Rightarrow> string \<Rightarrow> string \<Rightarrow> string \<Rightarrow> string list \<Rightarrow> auth_world \<Rightarrow> auth_world" where
  "SeedUser k x now salt username displayName pwd role groups w =
    (case user_named w username of
       Some _ \<Rightarrow> w
     | None \<Rightarrow>
        (case new_user k now salt username displayName pwd role groups of
           None \<Rightarrow> w
         | Some u \<Rightarrow>
            (case persistUserLocked x u w of
               (False, w') \<Rightarrow> w'
             | (True, w') \<Rightarrow> on_store (put_user username u) w')))"

definition failed_user :: "int \<Rightarrow> User \<Rightarrow> User" where
  "failed_user now u =
    (if u_FailCount u + 1 \<ge> lockAfterFails then u\<lparr>u_FailCount := 0, u_LockedUntil := now + lockDuration\<rparr>
     else u\<lparr>u_FailCount := u_FailCount u + 1\<rparr>)"

definition LoginPassword ::
  "kdf \<Rightarrow> ext \<Rightarrow> gotime \<Rightarrow> string \<Rightarrow> string \<Rightarrow> string \<Rightarrow> string \<Rightarrow> auth_world \<Rightarrow> (auth_error + string \<times> bool) \<times> auth_world" where
  "LoginPassword k x now token username pwd ip w =
    (let t = wall now; refuse = (\<lambda>e detail w. (Inl e, auditLogin x t username ip ''auth_failed'' detail w))
     in case user_named w username of
          None \<Rightarrow> refuse AuthBadCredentials (Text ''unknown user'' []) w
        | Some u \<Rightarrow>
           if u_LockedUntil u > t
           then refuse (AuthLocked ((u_LockedUntil u - t) div minute + 1)) (Text ''account locked'' []) w
           else if \<not> verifyPassword k (u_Salt u) pwd (u_PassHash u)
           then refuse (if u_FailCount u + 1 \<ge> lockAfterFails then AuthLockedNow else AuthBadCredentials)
                  (if u_FailCount u + 1 \<ge> lockAfterFails then Text ''locked now'' [] else Text ''wrong password'' [])
                  (on_store (put_user username (failed_user t u)) w)
           else (Inr (token, time_sub now (time_unix (u_PassSetNS u)) > passwordLifetime - 14 * 24 * hour),
                 auditLogin x t username ip ''ok'' (Text ''password accepted'' [])
                   (on_store (\<lambda>a. (put_user username (u\<lparr>u_FailCount := 0, u_LockedUntil := 0\<rparr>) a)
                      \<lparr>au_preauths := AList.update token \<lparr>pa_username = username, pa_exp = time_add now captchaTTL\<rparr> (au_preauths a)\<rparr>) w)))"

definition session_for :: "gotime \<Rightarrow> string \<Rightarrow> User \<Rightarrow> Session" where
  "session_for now token u = \<lparr>s_Token = token, s_Username = u_Username u, s_Role = u_Role u, s_Groups = u_Groups u,
     s_CreatedNS = wall now, s_lastUse = now\<rparr>"

text \<open>The end of both logins: the session is stored, then kept by the process, then reported.\<close>

definition open_session :: "ext \<Rightarrow> gotime \<Rightarrow> string \<Rightarrow> string \<Rightarrow> audit_text \<Rightarrow> User \<Rightarrow> auth_world \<Rightarrow> (auth_error + Session) \<times> auth_world" where
  "open_session x now token ip detail u w =
    (let sess = session_for now token u
     in case persistSession x sess (aw_txs w) of
          (False, s) \<Rightarrow> (Inl SessionStore, set_txs s w)
        | (True, s) \<Rightarrow> (Inr sess, push_sys (wall now) ''info'' (TxtLogin (u_DisplayName u) (u_Role u))
             (auditLogin x (wall now) (u_Username u) ip ''ok'' detail (on_store (put_session token sess) (set_txs s w)))))"

definition FinishLogin ::
  "(string \<Rightarrow> string) \<Rightarrow> ext \<Rightarrow> gotime \<Rightarrow> string \<Rightarrow> string \<Rightarrow> string \<Rightarrow> string \<Rightarrow> string \<Rightarrow> auth_world \<Rightarrow> (auth_error + Session) \<times> auth_world" where
  "FinishLogin uf x now token preToken capID capAns ip w =
    (case checkCaptcha uf now capID capAns (aw_store w) of
       (Some e, a) \<Rightarrow> (Inl e, w\<lparr>aw_store := a\<rparr>)
     | (None, a) \<Rightarrow>
        (case map_of (au_preauths a) preToken of
           None \<Rightarrow> (Inl PreauthGone, w\<lparr>aw_store := a\<rparr>)
         | Some p \<Rightarrow>
            if time_after now (pa_exp p) then (Inl PreauthGone, w\<lparr>aw_store := a\<rparr>)
            else let w' = w\<lparr>aw_store := a\<lparr>au_preauths := AList.delete preToken (au_preauths a)\<rparr>\<rparr>
                 in case map_of (au_users a) (pa_username p) of
                      None \<Rightarrow> (Inl AccountGone, w')
                    | Some u \<Rightarrow> open_session x now token ip (Text ''captcha accepted'' []) u w'))"

definition SendSmsCode :: "string \<Rightarrow> auth_error" where
  "SendSmsCode phone = (if validCNPhone phone then SmsUnconfigured else PhoneFormat)"

definition LoginPhone ::
  "ext \<Rightarrow> gotime \<Rightarrow> string \<Rightarrow> string \<Rightarrow> string \<Rightarrow> string \<Rightarrow> auth_world \<Rightarrow> (auth_error + Session) \<times> auth_world" where
  "LoginPhone x now token phone code ip w =
    (let a = aw_store w; without = a\<lparr>au_sms := AList.delete phone (au_sms a)\<rparr>
     in if \<not> validCNPhone phone then (Inl PhoneFormat, w)
        else case map_of (au_sms a) phone of
          None \<Rightarrow> (Inl SmsGone, w)
        | Some e \<Rightarrow>
           if time_after now (sm_exp e) then (Inl SmsGone, w)
           else if sm_code e \<noteq> code then
             (if sm_tries e + 1 \<ge> smsMaxTries then (Inl SmsTooMany, w\<lparr>aw_store := without\<rparr>)
              else (Inl SmsWrong, w\<lparr>aw_store := a\<lparr>au_sms := AList.update phone (e\<lparr>sm_tries := sm_tries e + 1\<rparr>) (au_sms a)\<rparr>\<rparr>))
           else (case find (\<lambda>(n, u). u_Phone u = phone) (au_users a) of
                   None \<Rightarrow> (Inl PhoneUnbound, w\<lparr>aw_store := without\<rparr>)
                 | Some (n, u) \<Rightarrow>
                    if u_LockedUntil u > wall now then (Inl AccountLocked, w\<lparr>aw_store := without\<rparr>)
                    else open_session x now token ip (Text ''phone code accepted'' []) u (w\<lparr>aw_store := without\<rparr>)))"

definition SetPhone :: "ext \<Rightarrow> string \<Rightarrow> string \<Rightarrow> auth_world \<Rightarrow> (auth_error + User) \<times> auth_world" where
  "SetPhone x username phone w =
    (if phone \<noteq> [] \<and> \<not> validCNPhone phone then (Inl PhoneFormat, w)
     else case user_named w username of
       None \<Rightarrow> (Inl AccountGone, w)
     | Some u \<Rightarrow>
        (case (if phone \<noteq> [] then find (\<lambda>(n, v). u_Phone v = phone \<and> n \<noteq> username) (au_users (aw_store w)) else None) of
           Some (n, _) \<Rightarrow> (Inl (PhoneTaken n), w)
         | None \<Rightarrow>
            (let u' = u\<lparr>u_Phone := phone\<rparr>
             in case persistUserLocked x u' w of
                  (False, w') \<Rightarrow> (Inl UserStore, w')
                | (True, w') \<Rightarrow> (Inr u', on_store (put_user username u') w'))))"

section \<open>Sessions\<close>

definition session_expired :: "gotime \<Rightarrow> Session \<Rightarrow> bool" where
  "session_expired now s \<longleftrightarrow>
    time_sub now (s_lastUse s) > sessionIdleTTL \<or> time_sub now (time_unix (s_CreatedNS s)) > sessionAbsTTL"

definition end_session :: "ext \<Rightarrow> int \<Rightarrow> string \<Rightarrow> string \<Rightarrow> auth_world \<Rightarrow> auth_world" where
  "end_session x dbnow token username w =
    audit_platform dbnow username ''auth.session_expired'' [(''reason'', JStr ''idle_or_absolute_ttl'')]
      ((\<lambda>w. set_txs (revokeSession x dbnow token (aw_txs w)) w) (on_store (del_session token) w))"

definition SessionByToken :: "ext \<Rightarrow> gotime \<Rightarrow> int \<Rightarrow> string \<Rightarrow> auth_world \<Rightarrow> Session option \<times> auth_world" where
  "SessionByToken x now dbnow token w =
    (if token = [] then (None, w)
     else case map_of (au_sessions (aw_store w)) token of
       Some s \<Rightarrow>
        if session_expired now s then (None, end_session x dbnow token (s_Username s) w)
        else (let out = s\<lparr>s_lastUse := now\<rparr>; w1 = on_store (put_session token out) w
              in case persistSession x out (aw_txs w1) of
                   (False, t) \<Rightarrow> (None, set_txs t w1)
                 | (True, t) \<Rightarrow> (Some out, set_txs t w1))
     | None \<Rightarrow>
        (case restoreSession x dbnow token (aw_txs w) of
           (None, t) \<Rightarrow> (None, set_txs t w)
         | (Some r, t) \<Rightarrow>
            (let r' = r\<lparr>s_lastUse := now\<rparr>
             in case persistSession x r' t of
                  (False, t') \<Rightarrow> (None, set_txs t' w)
                | (True, t') \<Rightarrow> (Some r', on_store (put_session token r') (set_txs t' w)))))"

definition SessionSnapshot :: "ext \<Rightarrow> gotime \<Rightarrow> int \<Rightarrow> string \<Rightarrow> auth_world \<Rightarrow> Session option \<times> auth_world" where
  "SessionSnapshot x now dbnow token w =
    (case map_of (au_sessions (aw_store w)) token of
       Some s \<Rightarrow>
        if session_expired now s then (None, end_session x dbnow token (s_Username s) w) else (Some s, w)
     | None \<Rightarrow>
        (case restoreSession x dbnow token (aw_txs w) of
           (None, t) \<Rightarrow> (None, set_txs t w)
         | (Some r, t) \<Rightarrow> (Some r, on_store (put_session token r) (set_txs t w))))"

text \<open>A request, as far as authentication reads it. Header names are in canonical form.\<close>

record request =
  rq_method :: string
  rq_path :: string
  rq_cookies :: "(string \<times> string) list"
  rq_headers :: "(string \<times> string) list"
  rq_remote :: string

definition SessionFromRequest :: "ext \<Rightarrow> gotime \<Rightarrow> int \<Rightarrow> request \<Rightarrow> auth_world \<Rightarrow> Session option \<times> auth_world" where
  "SessionFromRequest x now dbnow r w =
    (case map_of (rq_cookies r) ''ra_session'' of
       None \<Rightarrow> (None, w)
     | Some c \<Rightarrow> if c = [] then (None, w) else SessionByToken x now dbnow c w)"

definition Logout :: "ext \<Rightarrow> int \<Rightarrow> request \<Rightarrow> auth_world \<Rightarrow> auth_world" where
  "Logout x dbnow r w =
    (case map_of (rq_cookies r) ''ra_session'' of
       None \<Rightarrow> w
     | Some c \<Rightarrow>
        (let username = (case map_of (au_sessions (aw_store w)) c of None \<Rightarrow> [] | Some s \<Rightarrow> s_Username s)
         in audit_platform dbnow username ''auth.logout'' [(''session_revoked'', JBool True)]
              ((\<lambda>w. set_txs (revokeSession x dbnow c (aw_txs w)) w) (on_store (del_session c) w))))"

definition persist_all :: "ext \<Rightarrow> Session list \<Rightarrow> txs \<Rightarrow> txs" where
  "persist_all x = fold (\<lambda>s t. snd (persistSession x s t))"

definition RefreshSessions :: "ext \<Rightarrow> string \<Rightarrow> string list \<Rightarrow> string \<Rightarrow> auth_world \<Rightarrow> auth_world" where
  "RefreshSessions x username groups role w =
    (let upd = (\<lambda>s. if s_Username s = username then s\<lparr>s_Groups := groups, s_Role := role\<rparr> else s);
         w1 = on_store (\<lambda>a. a\<lparr>au_sessions := map (\<lambda>(t, s). (t, upd s)) (au_sessions a)\<rparr>) w;
         changed = filter (\<lambda>s. s_Username s = username) (map snd (au_sessions (aw_store w1)))
     in set_txs (persist_all x changed (aw_txs w1)) w1)"

definition killSessions :: "ext \<Rightarrow> int \<Rightarrow> string \<Rightarrow> string \<Rightarrow> string \<Rightarrow> string \<Rightarrow> auth_world \<Rightarrow> auth_world" where
  "killSessions x dbnow username exceptToken actor action w =
    (let hit = (\<lambda>(t, s). s_Username s = username \<and> t \<noteq> exceptToken);
         revoked = map fst (filter hit (au_sessions (aw_store w)));
         w1 = on_store (\<lambda>a. a\<lparr>au_sessions := filter (\<lambda>p. \<not> hit p) (au_sessions a)\<rparr>) w;
         w2 = set_txs (fold (revokeSession x dbnow) revoked (aw_txs w1)) w1
     in if revoked \<noteq> []
        then audit_platform dbnow actor action [(''target_username'', JStr username), (''count'', JInt (int (length revoked)))] w2
        else w2)"

text \<open>One round of the cleaning loop; pending logins are never cleaned.\<close>

definition cleanup :: "gotime \<Rightarrow> int \<Rightarrow> auth_world \<Rightarrow> auth_world" where
  "cleanup now dbnow w =
    (let w1 = on_store (\<lambda>a. a\<lparr>au_captchas := filter (\<lambda>(i, c). \<not> time_after now (cp_exp c)) (au_captchas a),
           au_sms := filter (\<lambda>(p, e). \<not> time_after now (time_add (sm_exp e) hour)) (au_sms a),
           au_sessions := filter (\<lambda>(t, s). \<not> time_sub now (s_lastUse s) > sessionIdleTTL) (au_sessions a)\<rparr>) w
     in set_txs (loadSessions dbnow (aw_txs w1)) w1)"

section \<open>The middleware\<close>

definition starts_with :: "string \<Rightarrow> string \<Rightarrow> bool" where
  "starts_with p s \<longleftrightarrow> take (length p) s = p"

definition unsafeMethod :: "string \<Rightarrow> bool" where
  "unsafeMethod m \<longleftrightarrow> m \<notin> {''GET'', ''HEAD'', ''OPTIONS'', ''TRACE''}"

definition header :: "string \<Rightarrow> request \<Rightarrow> string" where
  "header n r = (case map_of (rq_headers r) n of None \<Rightarrow> [] | Some v \<Rightarrow> v)"

definition validCSRFRequest :: "request \<Rightarrow> bool" where
  "validCSRFRequest r =
    (if \<not> unsafeMethod (rq_method r) \<or> \<not> starts_with ''/api/'' (rq_path r) then True
     else case map_of (rq_cookies r) ''ra_csrf'' of
       None \<Rightarrow> False
     | Some c \<Rightarrow>
        if c = [] then False
        else let h = trim_space (header ''X-Csrf-Token'' r)
             in if h = [] \<or> length h \<noteq> length c then False else h = c)"

definition isPublicPath :: "string \<Rightarrow> bool" where
  "isPublicPath p \<longleftrightarrow>
    p \<in> {''/'', ''/login'', ''/index.html'', ''/favicon.ico'', ''/robots.txt'', ''/healthz'', ''/readyz'', ''/metrics'',
         ''/api/captcha'', ''/api/auth/csrf'', ''/api/auth/login'', ''/api/auth/verify'', ''/api/auth/sms/send'', ''/api/auth/login-phone''}
    \<or> starts_with ''/assets/'' p"

text \<open>What the middleware does with a request: an answer of its own, or the next handler with a session or none.\<close>

datatype mw_result = Refuse int string | Next "Session option"

text \<open>Without a database only reading and logging in are served.\<close>

definition volatile_refused :: "request \<Rightarrow> bool" where
  "volatile_refused r \<longleftrightarrow> rq_method r \<notin> {''GET'', ''HEAD'', ''OPTIONS''}
     \<and> rq_path r \<notin> {''/api/auth/login'', ''/api/auth/verify'', ''/api/auth/logout'', ''/api/captcha''}"

definition Middleware :: "bool \<Rightarrow> ext \<Rightarrow> gotime \<Rightarrow> int \<Rightarrow> request \<Rightarrow> auth_world \<Rightarrow> mw_result \<times> auth_world" where
  "Middleware durable x now dbnow r w =
    (let p = rq_path r
     in if \<not> durable \<and> volatile_refused r then (Refuse 503 ''PERSISTENCE_REQUIRED'', w)
        else if \<not> validCSRFRequest r then (Refuse 403 ''CSRF_FAILED'', w)
        else if isPublicPath p \<or> starts_with ''/open/v1/'' p then (Next None, w)
        else case SessionFromRequest x now dbnow r w of
          (None, w') \<Rightarrow>
            if starts_with ''/api/'' p \<or> starts_with ''/open/'' p \<or> starts_with ''/ws/'' p then (Refuse 401 [], w')
            else (Next None, w')
        | (Some s, w') \<Rightarrow> (Next (Some s), w'))"

definition requireRole :: "string list \<Rightarrow> Session option \<Rightarrow> int + Session" where
  "requireRole allowed s = (case s of None \<Rightarrow> Inl 401 | Some s \<Rightarrow> if s_Role s \<in> set allowed then Inr s else Inl 403)"

definition CheckCreds :: "kdf \<Rightarrow> string \<Rightarrow> string \<Rightarrow> auth_world \<Rightarrow> string option" where
  "CheckCreds k username pwd w =
    (case user_named w username of
       None \<Rightarrow> None
     | Some u \<Rightarrow> if verifyPassword k (u_Salt u) pwd (u_PassHash u) then Some (u_Role u) else None)"

end
