(* ===== verification/Accounts.thy ===== *)
theory Accounts
  imports Auth
begin

text \<open>
  The administration of accounts of \<open>server/fleet/admin.go\<close>: the operations of the store with their
  quotas and rights, and the handlers that check the actor's role before they call them.
\<close>

datatype account_error =
    AccFields | AccRole | AccPassword password_error | AccNoGroup | AccNameTaken | AccSuperLimit
  | AccGroupUnknown string | AccAdminLimit string | AccUserLimit string | AccStore
  | AccUnknown | AccSuperRights | AccSuperNoGroups | AccNotMine | AccLastSuper | AccOldPassword
  | AccForbidden | AccPhone auth_error

definition maxSuperAdmins :: nat where "maxSuperAdmins = 10"

definition intersects :: "string list \<Rightarrow> string list \<Rightarrow> bool" where
  "intersects a b \<longleftrightarrow> list_ex (\<lambda>x. list_ex (\<lambda>y. x = y) b) a"

lemma intersects_iff: "intersects a b \<longleftrightarrow> set a \<inter> set b \<noteq> {}"
  by (auto simp: intersects_def list_ex_iff)

section \<open>Reading\<close>

definition ListUsers :: "AuthStore \<Rightarrow> User list" where
  "ListUsers a = sort_key u_Username (map snd (au_users a))"

text \<open>How often a group is named by the users of a role; a group listed twice counts twice.\<close>

definition role_count :: "string \<Rightarrow> string \<Rightarrow> (string \<times> User) list \<Rightarrow> nat" where
  "role_count role gid us = sum_list (map (\<lambda>(n, u). if u_Role u = role then count_list (u_Groups u) gid else 0) us)"

definition groupCounts :: "AuthStore \<Rightarrow> string \<Rightarrow> nat \<times> nat" where
  "groupCounts a gid = (role_count ''group_admin'' gid (au_users a), role_count ''user'' gid (au_users a))"

definition groupHasMembers :: "string \<Rightarrow> AuthStore \<Rightarrow> bool" where
  "groupHasMembers gid a \<longleftrightarrow> list_ex (\<lambda>u. gid \<in> set (u_Groups u)) (ListUsers a)"

definition groupHasVehicles :: "string \<Rightarrow> State \<Rightarrow> bool" where
  "groupHasVehicles gid st \<longleftrightarrow> list_ex (\<lambda>(i, v). ve_group v = gid) (st_vehicles st)"

section \<open>Accounts\<close>

definition super_count :: "(string \<times> User) list \<Rightarrow> nat" where
  "super_count us = length (filter (\<lambda>(n, u). u_Role u = ''super'') us)"

text \<open>The first group that does not exist or is full for the role.\<close>

fun quota_error :: "GroupStore \<Rightarrow> string \<Rightarrow> (string \<times> User) list \<Rightarrow> string list \<Rightarrow> account_error option" where
  "quota_error gs role us [] = None"
| "quota_error gs role us (gid # gids) =
    (case group_Get gid gs of
       None \<Rightarrow> Some (AccGroupUnknown gid)
     | Some g \<Rightarrow>
        if role = ''group_admin'' \<and> int (role_count ''group_admin'' gid us) \<ge> g_MaxAdmins g then Some (AccAdminLimit (g_Name g))
        else if role = ''user'' \<and> int (role_count ''user'' gid us) \<ge> g_MaxUsers g then Some (AccUserLimit (g_Name g))
        else quota_error gs role us gids)"

definition create_refusal ::
  "GroupStore \<Rightarrow> string \<Rightarrow> string \<Rightarrow> string \<Rightarrow> string \<Rightarrow> string list \<Rightarrow> (string \<times> User) list \<Rightarrow> account_error option" where
  "create_refusal gs username display pwd role groups us =
    (if username = [] \<or> display = [] then Some AccFields
     else if role \<noteq> ''super'' \<and> role \<noteq> ''group_admin'' \<and> role \<noteq> ''user'' then Some AccRole
     else case PasswordOK pwd of
       Some e \<Rightarrow> Some (AccPassword e)
     | None \<Rightarrow>
        if role \<noteq> ''super'' \<and> groups = [] then Some AccNoGroup
        else if map_of us username \<noteq> None then Some AccNameTaken
        else if role = ''super'' then (if super_count us \<ge> maxSuperAdmins then Some AccSuperLimit else None)
        else quota_error gs role us groups)"

definition CreateUser ::
  "kdf \<Rightarrow> ext \<Rightarrow> GroupStore \<Rightarrow> int \<Rightarrow> string \<Rightarrow> string \<Rightarrow> string \<Rightarrow> string \<Rightarrow> string \<Rightarrow> string list \<Rightarrow> auth_world \<Rightarrow>
   (account_error + User) \<times> auth_world" where
  "CreateUser k x gs now salt username0 display pwd role groups w =
    (let username = trim_space username0
     in case create_refusal gs username display pwd role groups (au_users (aw_store w)) of
          Some e \<Rightarrow> (Inl e, w)
        | None \<Rightarrow>
           (case new_user k now salt username display pwd role groups of
              None \<Rightarrow> (Inl AccStore, w)
            | Some u \<Rightarrow>
               (case persistUserLocked x u w of
                  (False, w') \<Rightarrow> (Inl AccStore, w')
                | (True, w') \<Rightarrow> (Inr u, on_store (put_user username u) w'))))"

definition checkQuotaFor :: "GroupStore \<Rightarrow> string \<Rightarrow> string list \<Rightarrow> string \<Rightarrow> AuthStore \<Rightarrow> account_error option" where
  "checkQuotaFor gs role groups move a = quota_error gs role (filter (\<lambda>(n, u). u_Username u \<noteq> move) (au_users a)) groups"

definition SetGroups ::
  "ext \<Rightarrow> GroupStore \<Rightarrow> Session \<Rightarrow> string \<Rightarrow> string list \<Rightarrow> auth_world \<Rightarrow> (account_error + User) \<times> auth_world" where
  "SetGroups x gs actor username groups w =
    (case user_named w username of
       None \<Rightarrow> (Inl AccUnknown, w)
     | Some u \<Rightarrow>
        if u_Role u = ''super'' then (Inl (if s_Role actor \<noteq> ''super'' then AccSuperRights else AccSuperNoGroups), w)
        else if s_Role actor \<noteq> ''super'' \<and> \<not> intersects (s_Groups actor) (u_Groups u) \<and> \<not> intersects (s_Groups actor) groups
        then (Inl AccNotMine, w)
        else case checkQuotaFor gs (u_Role u) groups (u_Username u) (aw_store w) of
          Some e \<Rightarrow> (Inl e, w)
        | None \<Rightarrow>
           (let u' = u\<lparr>u_Groups := groups\<rparr>
            in case persistUserLocked x u' w of
                 (False, w') \<Rightarrow> (Inl AccStore, w')
               | (True, w') \<Rightarrow> (Inr u', RefreshSessions x username groups (u_Role u) (on_store (put_user username u') w'))))"

text \<open>A new password is in the process before it is stored, and stays there when that fails.\<close>

definition with_password :: "kdf \<Rightarrow> int \<Rightarrow> string \<Rightarrow> string \<Rightarrow> User \<Rightarrow> User option" where
  "with_password k now salt pwd u = map_option (\<lambda>h. u\<lparr>u_Salt := salt, u_PassHash := h, u_PassSetNS := now\<rparr>) (hashPassword k salt pwd)"

definition actor_refusal :: "Session \<Rightarrow> User \<Rightarrow> account_error option" where
  "actor_refusal actor u =
    (if u_Role u = ''super'' \<and> s_Role actor \<noteq> ''super'' then Some AccSuperRights
     else if s_Role actor \<noteq> ''super'' \<and> \<not> intersects (s_Groups actor) (u_Groups u) then Some AccNotMine
     else None)"

definition ResetPassword ::
  "kdf \<Rightarrow> ext \<Rightarrow> int \<Rightarrow> int \<Rightarrow> string \<Rightarrow> Session \<Rightarrow> string \<Rightarrow> string \<Rightarrow> auth_world \<Rightarrow> account_error option \<times> auth_world" where
  "ResetPassword k x now dbnow salt actor username pwd w =
    (case PasswordOK pwd of
       Some e \<Rightarrow> (Some (AccPassword e), w)
     | None \<Rightarrow>
        (case user_named w username of
           None \<Rightarrow> (Some AccUnknown, w)
         | Some u \<Rightarrow>
            (case actor_refusal actor u of
               Some e \<Rightarrow> (Some e, w)
             | None \<Rightarrow>
                (case with_password k now salt pwd (u\<lparr>u_FailCount := 0, u_LockedUntil := 0\<rparr>) of
                   None \<Rightarrow> (Some AccStore, w)
                 | Some u' \<Rightarrow>
                    (case persistUserLocked x u' (on_store (put_user username u') w) of
                       (False, w') \<Rightarrow> (Some AccStore, w')
                     | (True, w') \<Rightarrow> (None, killSessions x dbnow username [] (s_Username actor) ''auth.password_reset'' w'))))))"

text \<open>Deleting an account takes its stored sessions with it and is refused while it owns a control device.\<close>

definition delete_user_stmt :: "string \<Rightarrow> db \<Rightarrow> (unit \<times> db) option" where
  "delete_user_stmt n d =
    (if n \<in> dv_owner ` set (control_devices d) then None
     else Some ((), d\<lparr>auth_users := filter (\<lambda>r. us_username r \<noteq> n) (auth_users d),
                      auth_sessions := filter (\<lambda>r. ss_username r \<noteq> n) (auth_sessions d)\<rparr>))"

definition DeleteUser :: "ext \<Rightarrow> int \<Rightarrow> Session \<Rightarrow> string \<Rightarrow> auth_world \<Rightarrow> account_error option \<times> auth_world" where
  "DeleteUser x dbnow actor username w =
    (case user_named w username of
       None \<Rightarrow> (Some AccUnknown, w)
     | Some u \<Rightarrow>
        (case actor_refusal actor u of
           Some e \<Rightarrow> (Some e, w)
         | None \<Rightarrow>
            if u_Role u = ''super'' \<and> super_count (au_users (aw_store w)) \<le> 1 then (Some AccLastSuper, w)
            else case db_exec (delete_user_stmt username) (aw_txs w) of
              (False, s) \<Rightarrow> (Some AccStore, set_txs s w)
            | (True, s) \<Rightarrow> (None, killSessions x dbnow username [] (s_Username actor) ''auth.user_deleted''
                 (on_store (\<lambda>a. a\<lparr>au_users := AList.delete username (au_users a)\<rparr>) (set_txs s w)))))"

definition ChangePassword ::
  "kdf \<Rightarrow> ext \<Rightarrow> int \<Rightarrow> int \<Rightarrow> string \<Rightarrow> Session \<Rightarrow> string \<Rightarrow> string \<Rightarrow> request \<Rightarrow> auth_world \<Rightarrow> account_error option \<times> auth_world" where
  "ChangePassword k x now dbnow salt sess old nw r w =
    (case PasswordOK nw of
       Some e \<Rightarrow> (Some (AccPassword e), w)
     | None \<Rightarrow>
        (case user_named w (s_Username sess) of
           None \<Rightarrow> (Some AccUnknown, w)
         | Some u \<Rightarrow>
            if \<not> verifyPassword k (u_Salt u) old (u_PassHash u) then (Some AccOldPassword, w)
            else case with_password k now salt nw u of
              None \<Rightarrow> (Some AccStore, w)
            | Some u' \<Rightarrow>
               (case persistUserLocked x u' (on_store (put_user (s_Username sess) u') w) of
                  (False, w') \<Rightarrow> (Some AccStore, w')
                | (True, w') \<Rightarrow>
                   (let except = (case map_of (rq_cookies r) ''ra_session'' of None \<Rightarrow> [] | Some c \<Rightarrow> c);
                        w2 = killSessions x dbnow (s_Username sess) except (s_Username sess) ''auth.password_changed'' w'
                    in case logAudit x (no_entry\<lparr>ae_TsNS := now, ae_KeyName := s_Username sess, ae_Method := ''POST'',
                           ae_Path := ''/api/auth/password'', ae_Result := ''ok'', ae_IP := rq_remote r,
                           ae_Detail := Text ''password changed'' []\<rparr>) (aw_audit w2, aw_txs w2) of
                         (ring, s) \<Rightarrow> (None, set_txs s (w2\<lparr>aw_audit := ring\<rparr>))))))"

section \<open>Handlers\<close>

text \<open>
  The list of users. For a group administrator the handler clears the groups of the users it is about
  to show; these are the accounts of the store themselves.
\<close>

definition shown_to :: "Session \<Rightarrow> User \<Rightarrow> bool" where
  "shown_to sess u \<longleftrightarrow> s_Role sess = ''super'' \<or> intersects (s_Groups sess) (u_Groups u)"

definition users_get :: "Session option \<Rightarrow> AuthStore \<Rightarrow> (account_error + User list) \<times> AuthStore" where
  "users_get s a =
    (case s of
       None \<Rightarrow> (Inl AccForbidden, a)
     | Some sess \<Rightarrow>
        if s_Role sess = ''user'' then (Inl AccForbidden, a)
        else if s_Role sess = ''group_admin''
        then (Inr (map (\<lambda>u. u\<lparr>u_Groups := []\<rparr>) (filter (shown_to sess) (ListUsers a))),
              a\<lparr>au_users := map (\<lambda>(n, u). (n, if shown_to sess u then u\<lparr>u_Groups := []\<rparr> else u)) (au_users a)\<rparr>)
        else (Inr (filter (shown_to sess) (ListUsers a)), a))"

definition users_post_groups :: "Session \<Rightarrow> string \<Rightarrow> string list \<Rightarrow> account_error + string list" where
  "users_post_groups sess role groups =
    (if s_Role sess = ''group_admin''
     then if role = ''super'' then Inl AccForbidden
          else if groups = [] then Inr (s_Groups sess)
          else if \<not> intersects (s_Groups sess) groups then Inl AccForbidden
          else Inr groups
     else Inr groups)"

definition users_post ::
  "kdf \<Rightarrow> ext \<Rightarrow> GroupStore \<Rightarrow> int \<Rightarrow> string \<Rightarrow> Session option \<Rightarrow> string \<Rightarrow> string \<Rightarrow> string \<Rightarrow> string \<Rightarrow> string list \<Rightarrow> string \<Rightarrow>
   auth_world \<Rightarrow> (account_error + User) \<times> auth_world" where
  "users_post k x gs now salt s username display pwd role groups phone w =
    (case s of
       None \<Rightarrow> (Inl AccForbidden, w)
     | Some sess \<Rightarrow>
        if s_Role sess = ''user'' then (Inl AccForbidden, w)
        else case users_post_groups sess role groups of
          Inl e \<Rightarrow> (Inl e, w)
        | Inr gids \<Rightarrow>
           (case CreateUser k x gs now salt username display pwd role gids w of
              (Inl e, w') \<Rightarrow> (Inl e, w')
            | (Inr u, w') \<Rightarrow>
               (case (if phone = [] then (Inr u, w') else SetPhone x username phone w') of
                  (Inl e, w2) \<Rightarrow> (Inl (AccPhone e), w2)
                | (Inr _, w2) \<Rightarrow> (Inr u, push_sys now ''info'' (TxtUserCreated (u_Username u) role (s_Username sess)) w2))))"

definition users_groups_post ::
  "ext \<Rightarrow> GroupStore \<Rightarrow> Session option \<Rightarrow> string \<Rightarrow> string list \<Rightarrow> auth_world \<Rightarrow> (account_error + User) \<times> auth_world" where
  "users_groups_post x gs s username groups w =
    (case s of
       None \<Rightarrow> (Inl AccForbidden, w)
     | Some sess \<Rightarrow> if s_Role sess = ''user'' then (Inl AccForbidden, w) else SetGroups x gs sess username groups w)"

definition users_reset_post ::
  "kdf \<Rightarrow> ext \<Rightarrow> int \<Rightarrow> int \<Rightarrow> string \<Rightarrow> Session option \<Rightarrow> string \<Rightarrow> string \<Rightarrow> auth_world \<Rightarrow> account_error option \<times> auth_world" where
  "users_reset_post k x now dbnow salt s username pwd w =
    (case s of
       None \<Rightarrow> (Some AccForbidden, w)
     | Some sess \<Rightarrow>
        if s_Role sess = ''user'' then (Some AccForbidden, w) else ResetPassword k x now dbnow salt sess username pwd w)"

definition users_delete_post :: "ext \<Rightarrow> int \<Rightarrow> int \<Rightarrow> Session option \<Rightarrow> string \<Rightarrow> auth_world \<Rightarrow> account_error option \<times> auth_world" where
  "users_delete_post x now dbnow s username w =
    (case s of
       None \<Rightarrow> (Some AccForbidden, w)
     | Some sess \<Rightarrow>
        if s_Role sess = ''user'' then (Some AccForbidden, w)
        else case DeleteUser x dbnow sess username w of
          (Some e, w') \<Rightarrow> (Some e, w')
        | (None, w') \<Rightarrow> (None, push_sys now ''warn'' (TxtUserDeleted username (s_Username sess)) w'))"

text \<open>Logging out, changing one's own password, and deleting a group.\<close>

definition logout_post :: "ext \<Rightarrow> int \<Rightarrow> int \<Rightarrow> Session option \<Rightarrow> request \<Rightarrow> auth_world \<Rightarrow> auth_world" where
  "logout_post x now dbnow s r w =
    (let w' = Logout x dbnow r w
     in case s of None \<Rightarrow> w' | Some sess \<Rightarrow> push_sys now ''info'' (TxtLogout (s_Username sess)) w')"

definition groups_delete_post ::
  "Session option \<Rightarrow> string \<Rightarrow> auth_world \<Rightarrow> GroupStore \<Rightarrow> (int + group_error option) \<times> GroupStore \<times> auth_world" where
  "groups_delete_post s i w gs =
    (case requireRole [''super''] s of
       Inl code \<Rightarrow> (Inl code, gs, w)
     | Inr _ \<Rightarrow>
        if groupHasMembers i (aw_store w) \<or> groupHasVehicles i (fst (aw_world w)) then (Inl 400, gs, w)
        else case group_Delete i (gs, aw_txs w) of (e, (gs', t)) \<Rightarrow> (Inr e, gs', set_txs t w))"

end
