(* ===== verification/Account_Props.thy ===== *)
theory Account_Props
  imports Accounts
begin

text \<open>
  What holds of accounts along every sequence of operations: how many super administrators there are,
  that group administrators cannot make one or take one over, and that a locked account stays locked.
\<close>

section \<open>Operations as events\<close>

datatype account_op =
    OpCaptcha gotime "nat list" string
  | OpPassword gotime string string string string
  | OpFinish gotime string string string string string
  | OpPhone gotime string string string string
  | OpSession gotime int string
  | OpSnapshot gotime int string
  | OpLogout int int "Session option" request
  | OpCleanup gotime int
  | OpUsersGet "Session option"
  | OpCreate GroupStore int string "Session option" string string string string "string list" string
  | OpGroups GroupStore "Session option" string "string list"
  | OpReset int int string "Session option" string string
  | OpDelete int int "Session option" string
  | OpChange int int string Session string string request

fun account_step :: "kdf \<Rightarrow> (string \<Rightarrow> string) \<Rightarrow> ext \<Rightarrow> auth_world \<Rightarrow> account_op \<Rightarrow> auth_world" where
  "account_step k uf x w (OpCaptcha now picks i) = on_store (NewCaptcha now picks i) w"
| "account_step k uf x w (OpPassword now token n pwd ip) = snd (LoginPassword k x now token n pwd ip w)"
| "account_step k uf x w (OpFinish now token pre cid ans ip) = snd (FinishLogin uf x now token pre cid ans ip w)"
| "account_step k uf x w (OpPhone now token phone code ip) = snd (LoginPhone x now token phone code ip w)"
| "account_step k uf x w (OpSession now dbnow token) = snd (SessionByToken x now dbnow token w)"
| "account_step k uf x w (OpSnapshot now dbnow token) = snd (SessionSnapshot x now dbnow token w)"
| "account_step k uf x w (OpLogout now dbnow s r) = logout_post x now dbnow s r w"
| "account_step k uf x w (OpCleanup now dbnow) = cleanup now dbnow w"
| "account_step k uf x w (OpUsersGet s) = on_store (\<lambda>a. snd (users_get s a)) w"
| "account_step k uf x w (OpCreate gs now salt s n disp pwd role gids phone) =
     snd (users_post k x gs now salt s n disp pwd role gids phone w)"
| "account_step k uf x w (OpGroups gs s n gids) = snd (users_groups_post x gs s n gids w)"
| "account_step k uf x w (OpReset now dbnow salt s n pwd) = snd (users_reset_post k x now dbnow salt s n pwd w)"
| "account_step k uf x w (OpDelete now dbnow s n) = snd (users_delete_post x now dbnow s n w)"
| "account_step k uf x w (OpChange now dbnow salt s old nw r) = snd (ChangePassword k x now dbnow salt s old nw r w)"

section \<open>What the operations leave alone\<close>

definition users :: "auth_world \<Rightarrow> (string \<times> User) list" where "users w = au_users (aw_store w)"

lemma store_set_txs [simp]: "aw_store (set_txs s w) = aw_store w"
  and store_auditLogin [simp]: "aw_store (auditLogin x now n ip res det w) = aw_store w"
  and store_audit_platform [simp]: "aw_store (audit_platform dbnow actor act js w) = aw_store w"
  and store_push_sys [simp]: "aw_store (push_sys now level txt w) = aw_store w"
  and store_on_store [simp]: "aw_store (on_store f w) = f (aw_store w)"
  by (simp_all add: set_txs_def auditLogin_def audit_platform_def push_sys_def on_store_def split: prod.splits)

lemma store_persistUser [simp]: "aw_store (snd (persistUserLocked x u w)) = aw_store w"
  by (simp add: persistUserLocked_def split: prod.splits)

lemma persistUser_store: "persistUserLocked x u w = (b, w') \<Longrightarrow> aw_store w' = aw_store w"
  using store_persistUser [of x u w] by simp

lemma session_maps_users [simp]:
  "au_users (put_session t s a) = au_users a" "au_users (del_session t a) = au_users a"
  by (simp_all add: put_session_def del_session_def)

lemma put_user_users [simp]: "au_users (put_user n u a) = AList.update n u (au_users a)"
  by (simp add: put_user_def)

lemma users_open_session [simp]: "au_users (aw_store (snd (open_session x now token ip det u w))) = au_users (aw_store w)"
  by (simp add: open_session_def Let_def split: prod.splits bool.splits)

lemma users_end_session [simp]: "au_users (aw_store (end_session x dbnow t n w)) = au_users (aw_store w)"
  by (simp add: end_session_def)

lemma users_kill [simp]: "au_users (aw_store (killSessions x dbnow n ex actor act w)) = au_users (aw_store w)"
  by (simp add: killSessions_def Let_def)

lemma users_refresh [simp]: "au_users (aw_store (RefreshSessions x n gids role w)) = au_users (aw_store w)"
  by (simp add: RefreshSessions_def Let_def)

lemma users_captcha: "checkCaptcha uf now i ans a = (e, a') \<Longrightarrow> au_users a' = au_users a"
  by (auto simp: checkCaptcha_def Let_def split: option.splits if_splits)

lemma users_simps [simp]: "users (push_sys now level txt w) = users w" "users (on_store f w) = au_users (f (aw_store w))"
  by (simp_all add: users_def)

section \<open>The ways a step changes the accounts\<close>

text \<open>
  Every step is a sequence of these: an account is replaced under its name by one with the same role,
  all are, a new one is added, or one is removed. The last two carry the guards of the code.
\<close>

inductive user_change :: "(string \<times> User) list \<Rightarrow> (string \<times> User) list \<Rightarrow> bool" where
  replace: "map_of us n = Some u \<Longrightarrow> u_Role u' = u_Role u \<Longrightarrow> user_change us (AList.update n u' us)"
| replace_all: "(\<And>u. u_Role (f u) = u_Role u) \<Longrightarrow> user_change us (map (\<lambda>(n, u). (n, f u)) us)"
| add: "map_of us n = None \<Longrightarrow> (u_Role u = ''super'' \<Longrightarrow> super_count us < maxSuperAdmins) \<Longrightarrow> user_change us (AList.update n u us)"
| remove: "map_of us n = Some u \<Longrightarrow> (u_Role u = ''super'' \<Longrightarrow> 1 < super_count us) \<Longrightarrow> user_change us (AList.delete n us)"

lemmas change_replace = user_change.replace [THEN r_into_rtranclp [of user_change]]
  and change_all = user_change.replace_all [THEN r_into_rtranclp [of user_change]]
  and change_add = user_change.add [THEN r_into_rtranclp [of user_change]]
  and change_remove = user_change.remove [THEN r_into_rtranclp [of user_change]]

lemma new_user_role: "new_user k now salt n disp pwd role gids = Some u \<Longrightarrow> u_Role u = role \<and> u_Username u = n"
  by (auto simp: new_user_def)

lemma create_refusal_None:
  "create_refusal gs n disp pwd role gids us = None \<Longrightarrow> map_of us n = None \<and> (role = ''super'' \<longrightarrow> super_count us < maxSuperAdmins)"
  by (auto simp: create_refusal_def split: if_splits option.splits)

lemma CreateUser_change:
  "CreateUser k x gs now salt n disp pwd role gids w = (r, w') \<Longrightarrow> user_change\<^sup>*\<^sup>* (users w) (users w')"
  by (auto simp: CreateUser_def Let_def users_def dest!: create_refusal_None new_user_role persistUser_store
      intro!: change_add split: option.splits prod.splits bool.splits)

lemma SetPhone_change: "SetPhone x n phone w = (r, w') \<Longrightarrow> user_change\<^sup>*\<^sup>* (users w) (users w')"
  by (auto simp: SetPhone_def Let_def users_def user_named_def dest!: persistUser_store
      intro!: change_replace split: option.splits prod.splits bool.splits if_splits)

lemma SetGroups_change: "user_change\<^sup>*\<^sup>* (users w) (users (snd (SetGroups x gs actor n gids w)))"
  by (auto simp: SetGroups_def Let_def users_def user_named_def dest!: persistUser_store
      intro!: change_replace split: option.splits prod.splits bool.splits)

lemma with_password_role: "with_password k now salt pwd u = Some u' \<Longrightarrow> u_Role u' = u_Role u"
  by (auto simp: with_password_def)

lemma ResetPassword_change: "user_change\<^sup>*\<^sup>* (users w) (users (snd (ResetPassword k x now dbnow salt actor n pwd w)))"
  by (auto simp: ResetPassword_def users_def user_named_def dest!: persistUser_store with_password_role
      intro!: change_replace split: option.splits prod.splits bool.splits)

lemma ChangePassword_change: "user_change\<^sup>*\<^sup>* (users w) (users (snd (ChangePassword k x now dbnow salt s old nw r w)))"
  by (auto simp: ChangePassword_def Let_def users_def user_named_def dest!: persistUser_store with_password_role
      intro!: change_replace split: option.splits prod.splits bool.splits)

lemma DeleteUser_change: "DeleteUser x dbnow actor n w = (r, w') \<Longrightarrow> user_change\<^sup>*\<^sup>* (users w) (users w')"
  by (auto simp: DeleteUser_def users_def user_named_def
      intro!: change_remove split: option.splits prod.splits bool.splits if_splits)

lemma LoginPassword_change: "user_change\<^sup>*\<^sup>* (users w) (users (snd (LoginPassword k x now token n pwd ip w)))"
  by (auto simp: LoginPassword_def Let_def users_def user_named_def failed_user_def
      intro!: change_replace split: option.splits)

lemma users_post_change: "user_change\<^sup>*\<^sup>* (users w) (users (snd (users_post k x gs now salt s n disp pwd role gids phone w)))"
proof -
  have "user_change\<^sup>*\<^sup>* (users w) (users w2)"
    if "CreateUser k x gs now salt n disp pwd role g w = (r, w')" "SetPhone x n phone w' = (r2, w2)" for g r w' r2 w2
    using CreateUser_change [OF that(1)] SetPhone_change [OF that(2)] by (rule rtranclp_trans)
  then show ?thesis
    by (auto simp: users_post_def split: option.splits prod.splits sum.splits if_splits dest: CreateUser_change)
qed

lemma users_get_change: "user_change\<^sup>*\<^sup>* (au_users a) (au_users (snd (users_get s a)))"
  by (auto simp: users_get_def intro!: change_all split: option.splits)

theorem account_step_change: "user_change\<^sup>*\<^sup>* (users w) (users (account_step k uf x w op))"
proof (cases op)
  case (OpFinish now token pre cid ans ip)
  then show ?thesis
    by (auto simp: users_def FinishLogin_def Let_def dest!: users_captcha split: option.splits prod.splits)
next
  case (OpPhone now token phone code ip)
  then show ?thesis by (auto simp: users_def LoginPhone_def Let_def split: option.splits)
next
  case (OpSession now dbnow token)
  then show ?thesis by (auto simp: users_def SessionByToken_def Let_def split: option.splits prod.splits bool.splits)
next
  case (OpSnapshot now dbnow token)
  then show ?thesis by (auto simp: users_def SessionSnapshot_def split: option.splits prod.splits)
next
  case (OpLogout now dbnow s r)
  then show ?thesis by (auto simp: users_def logout_post_def Logout_def Let_def split: option.splits)
next
  case (OpDelete now dbnow s n)
  then show ?thesis
    by (auto simp: users_delete_post_def dest: DeleteUser_change split: option.splits prod.splits)
next
  case (OpUsersGet s)
  then show ?thesis using users_get_change [of "aw_store w" s] by (simp add: users_def [of w])
next
  case (OpCaptcha now picks i)
  then show ?thesis by (simp add: NewCaptcha_def users_def [of w])
next
  case (OpCleanup now dbnow)
  then show ?thesis by (simp add: cleanup_def users_def Let_def)
qed (auto simp: LoginPassword_change users_post_change ResetPassword_change ChangePassword_change SetGroups_change
      users_groups_post_def users_reset_post_def split: option.splits)

section \<open>Super administrators\<close>

definition supers_ok :: "(string \<times> User) list \<Rightarrow> bool" where
  "supers_ok us \<longleftrightarrow> distinct (map fst us) \<and> 1 \<le> super_count us \<and> super_count us \<le> maxSuperAdmins"

lemma super_count_Cons [simp]: "super_count ((n, u) # us) = (if u_Role u = ''super'' then 1 else 0) + super_count us"
  by (simp add: super_count_def)

lemma super_count_Nil [simp]: "super_count [] = 0"
  by (simp add: super_count_def)

lemma super_count_replace: "map_of us n = Some u \<Longrightarrow> u_Role u' = u_Role u \<Longrightarrow> super_count (AList.update n u' us) = super_count us"
  by (induction us) (auto split: if_splits)

lemma super_count_add: "map_of us n = None \<Longrightarrow>
    super_count (AList.update n u us) = super_count us + (if u_Role u = ''super'' then 1 else 0)"
  by (induction us) (auto split: if_splits)

lemma super_count_map: "(\<And>u. u_Role (f u) = u_Role u) \<Longrightarrow> super_count (map (\<lambda>(n, u). (n, f u)) us) = super_count us"
  by (induction us) auto

lemma super_count_remove: "distinct (map fst us) \<Longrightarrow> map_of us n = Some u \<Longrightarrow>
    super_count us = super_count (AList.delete n us) + (if u_Role u = ''super'' then 1 else 0)"
proof (induction us)
  case (Cons p us)
  then show ?case by (cases p) (auto split: if_splits dest: map_of_SomeD)
qed simp

lemma map_fst_pair: "map (fst \<circ> (\<lambda>(n, u). (n, f u))) us = map fst us"
  by (induction us) auto

lemma change_supers: "user_change us us' \<Longrightarrow> supers_ok us \<Longrightarrow> supers_ok us'"
proof (induction rule: user_change.induct)
  case (remove us n u)
  with super_count_remove [of us n u] show ?case by (auto simp: supers_ok_def AList.distinct_delete split: if_splits)
qed (auto simp: supers_ok_def super_count_replace super_count_add super_count_map map_fst_pair AList.distinct_update maxSuperAdmins_def)

interpretation accounts: invariant_machine "account_step k uf x" "\<lambda>w. supers_ok (users w)" for k uf x
proof
  fix w op assume "supers_ok (users w)"
  with account_step_change [of w k uf x op] show "supers_ok (users (account_step k uf x w op))"
    by (induction rule: rtranclp_induct) (auto intro: change_supers)
qed

text \<open>
  C24. From a store with one to ten super administrators, every sequence of logins, session checks,
  account operations of any actors and clean-ups leaves one to ten: the last one cannot be deleted
  and an eleventh cannot be created, whatever statements of the database fail on the way.
\<close>

theorem super_admins_bounded:
  assumes "distinct (map fst (users w))" "1 \<le> super_count (users w)" "super_count (users w) \<le> 10"
  shows "1 \<le> super_count (users (run (account_step k uf x) w ops)) \<and> super_count (users (run (account_step k uf x) w ops)) \<le> 10"
  using accounts.run_inv [of w k uf x ops] assms by (simp add: supers_ok_def maxSuperAdmins_def)

section \<open>Group administrators\<close>

text \<open>The credentials of the super administrators.\<close>

definition super_creds :: "(string \<times> User) list \<Rightarrow> (string \<times> string \<times> string) list" where
  "super_creds us = map (\<lambda>(n, u). (n, u_Salt u, u_PassHash u)) (filter (\<lambda>(n, u). u_Role u = ''super'') us)"

lemma super_creds_Nil [simp]: "super_creds [] = []"
  by (simp add: super_creds_def)

lemma super_creds_Cons [simp]:
  "super_creds ((n, u) # us) = (if u_Role u = ''super'' then [(n, u_Salt u, u_PassHash u)] else []) @ super_creds us"
  by (simp add: super_creds_def)

lemma super_creds_replace:
  "map_of us n = Some u \<Longrightarrow> u_Role u' = u_Role u \<Longrightarrow> u_Role u = ''super'' \<longrightarrow> u_Salt u' = u_Salt u \<and> u_PassHash u' = u_PassHash u
    \<Longrightarrow> super_creds (AList.update n u' us) = super_creds us"
  by (induction us) (auto split: if_splits)

lemma super_creds_add: "map_of us n = None \<Longrightarrow> u_Role u \<noteq> ''super'' \<Longrightarrow> super_creds (AList.update n u us) = super_creds us"
  by (induction us) (auto split: if_splits)

lemma super_creds_remove: "distinct (map fst us) \<Longrightarrow> map_of us n = Some u \<Longrightarrow> u_Role u \<noteq> ''super'' \<Longrightarrow> super_creds (AList.delete n us) = super_creds us"
proof (induction us)
  case (Cons p us)
  then show ?case by (cases p) (auto split: if_splits dest: map_of_SomeD)
qed simp

lemma super_creds_map: "(\<And>u. u_Role (f u) = u_Role u \<and> u_Salt (f u) = u_Salt u \<and> u_PassHash (f u) = u_PassHash u) \<Longrightarrow>
    super_creds (map (\<lambda>(n, u). (n, f u)) us) = super_creds us"
  by (induction us) auto

lemma super_creds_names: "map_of us n = Some u \<Longrightarrow> u_Role u = ''super'' \<Longrightarrow> n \<in> fst ` set (super_creds us)"
  by (force simp: super_creds_def dest: map_of_SomeD)

text \<open>An operation whose actor, if it has one, is a group administrator or a user.\<close>

fun plain_op :: "string set \<Rightarrow> account_op \<Rightarrow> bool" where
  "plain_op supers (OpUsersGet (Some s)) \<longleftrightarrow> s_Role s \<in> {''group_admin'', ''user''}"
| "plain_op supers (OpCreate gs now salt (Some s) n disp pwd role gids phone) \<longleftrightarrow> s_Role s \<in> {''group_admin'', ''user''}"
| "plain_op supers (OpGroups gs (Some s) n gids) \<longleftrightarrow> s_Role s \<in> {''group_admin'', ''user''}"
| "plain_op supers (OpReset now dbnow salt (Some s) n pwd) \<longleftrightarrow> s_Role s \<in> {''group_admin'', ''user''}"
| "plain_op supers (OpDelete now dbnow (Some s) n) \<longleftrightarrow> s_Role s \<in> {''group_admin'', ''user''}"
| "plain_op supers (OpChange now dbnow salt s old nw r) \<longleftrightarrow> s_Username s \<notin> supers"
| "plain_op supers _ \<longleftrightarrow> True"

lemma creds_CreateUser:
  "role \<noteq> ''super'' \<Longrightarrow> CreateUser k x gs now salt n disp pwd role gids w = (r, w') \<Longrightarrow> super_creds (users w') = super_creds (users w)"
  by (auto simp: CreateUser_def Let_def users_def dest!: create_refusal_None new_user_role persistUser_store
      intro!: super_creds_add split: option.splits prod.splits bool.splits)

lemma creds_SetPhone: "SetPhone x n phone w = (r, w') \<Longrightarrow> super_creds (users w') = super_creds (users w)"
  by (auto simp: SetPhone_def Let_def users_def user_named_def dest!: persistUser_store
      intro!: super_creds_replace split: option.splits prod.splits bool.splits if_splits)

lemma creds_users_post:
  assumes "s_Role a = ''group_admin'' \<or> s_Role a = ''user''"
  shows "super_creds (users (snd (users_post k x gs now salt (Some a) n disp pwd role gids phone w))) = super_creds (users w)"
proof -
  have "users_post_groups a role gids = Inr g \<Longrightarrow> s_Role a \<noteq> ''user'' \<Longrightarrow> role \<noteq> ''super''" for g
    using assms by (auto simp: users_post_groups_def split: if_splits)
  then show ?thesis
    by (auto simp: users_post_def split: option.splits prod.splits sum.splits if_splits dest!: creds_CreateUser dest: creds_SetPhone)
qed

lemma creds_SetGroups: "super_creds (users (snd (SetGroups x gs actor n gids w))) = super_creds (users w)"
  by (auto simp: SetGroups_def Let_def users_def user_named_def dest!: persistUser_store
      intro!: super_creds_replace split: option.splits prod.splits bool.splits)

lemma creds_ResetPassword:
  "s_Role a \<noteq> ''super'' \<Longrightarrow> super_creds (users (snd (ResetPassword k x now dbnow salt a n pwd w))) = super_creds (users w)"
  by (auto simp: ResetPassword_def users_def user_named_def actor_refusal_def dest!: persistUser_store with_password_role
      intro!: super_creds_replace split: option.splits prod.splits bool.splits if_splits)

lemma creds_DeleteUser:
  "s_Role a \<noteq> ''super'' \<Longrightarrow> distinct (map fst (users w)) \<Longrightarrow> DeleteUser x dbnow a n w = (r, w') \<Longrightarrow> super_creds (users w') = super_creds (users w)"
  by (auto simp: DeleteUser_def users_def user_named_def actor_refusal_def
      intro!: super_creds_remove split: option.splits prod.splits bool.splits if_splits)

lemma creds_ChangePassword:
  assumes "s_Username s \<notin> fst ` set (super_creds (users w))"
  shows "super_creds (users (snd (ChangePassword k x now dbnow salt s old nw r w))) = super_creds (users w)"
  using assms super_creds_names [of "users w" "s_Username s"]
  by (auto simp: ChangePassword_def Let_def users_def user_named_def dest!: persistUser_store with_password_role
      intro!: super_creds_replace split: option.splits prod.splits bool.splits)

lemma creds_LoginPassword: "super_creds (users (snd (LoginPassword k x now token n pwd ip w))) = super_creds (users w)"
  by (auto simp: LoginPassword_def Let_def users_def user_named_def failed_user_def
      intro!: super_creds_replace split: option.splits)

text \<open>Every step other than those of the accounts leaves the list of users as it is.\<close>

lemma users_same:
  "users (snd (FinishLogin uf x now token pre cid ans ip w)) = users w"
  "users (snd (LoginPhone x now token phone code ip w)) = users w"
  "users (snd (SessionByToken x now dbnow token w)) = users w"
  "users (snd (SessionSnapshot x now dbnow token w)) = users w"
  "users (logout_post x t dbnow s r w) = users w"
  "users (cleanup now dbnow w) = users w"
  by (auto simp: users_def FinishLogin_def LoginPhone_def SessionByToken_def SessionSnapshot_def logout_post_def Logout_def
      cleanup_def Let_def dest!: users_captcha split: option.splits prod.splits bool.splits)

lemma creds_users_get: "super_creds (au_users (snd (users_get s a))) = super_creds (au_users a)"
  by (auto simp: users_get_def intro!: super_creds_map split: option.splits)

lemma creds_step:
  assumes "distinct (map fst (users w))" "plain_op (fst ` set (super_creds (users w))) op"
  shows "super_creds (users (account_step k uf x w op)) = super_creds (users w)"
proof (cases op)
  case (OpUsersGet s)
  then show ?thesis using creds_users_get [of s "aw_store w"] by (simp add: users_def [of w])
next
  case (OpCaptcha now picks i)
  then show ?thesis by (simp add: NewCaptcha_def users_def [of w])
next
  case (OpCreate gs now salt s n disp pwd role gids phone)
  then show ?thesis using assms(2) by (cases s) (auto simp: creds_users_post, simp add: users_post_def)
next
  case (OpGroups gs s n gids)
  then show ?thesis by (auto simp: users_groups_post_def creds_SetGroups split: option.splits)
next
  case (OpReset now dbnow salt s n pwd)
  then show ?thesis using assms(2) by (auto simp: users_reset_post_def creds_ResetPassword split: option.splits)
next
  case (OpDelete now dbnow s n)
  then show ?thesis using assms
    by (auto simp: users_delete_post_def split: option.splits prod.splits dest: creds_DeleteUser [rotated 2])
qed (use assms(2) in \<open>auto simp: creds_LoginPassword creds_ChangePassword users_same\<close>)

lemma change_distinct: "user_change us us' \<Longrightarrow> distinct (map fst us) \<Longrightarrow> distinct (map fst us')"
  by (induction rule: user_change.induct) (auto simp: AList.distinct_update AList.distinct_delete map_fst_pair)

lemma changes_distinct: "user_change\<^sup>*\<^sup>* us us' \<Longrightarrow> distinct (map fst us) \<Longrightarrow> distinct (map fst us')"
  by (induction rule: rtranclp_induct) (auto intro: change_distinct)

lemma step_distinct: "distinct (map fst (users w)) \<Longrightarrow> distinct (map fst (users (account_step k uf x w op)))"
  by (rule changes_distinct [OF account_step_change])

text \<open>
  C23. Group administrators and users cannot become super administrators or take one over: along every
  sequence of operations whose actors have these roles (and in which no super administrator changes
  the own password) the super administrators and their stored credentials stay exactly what they were.
\<close>

theorem no_escalation_to_super:
  assumes "distinct (map fst (users w))" "\<And>op. op \<in> set ops \<Longrightarrow> plain_op (fst ` set (super_creds (users w))) op"
  shows "super_creds (users (run (account_step k uf x) w ops)) = super_creds (users w)"
  using assms
proof (induction ops arbitrary: w)
  case (Cons op ops)
  then have same: "super_creds (users (account_step k uf x w op)) = super_creds (users w)" by (intro creds_step) auto
  with Cons.IH [of "account_step k uf x w op"] Cons.prems show ?case by (auto intro: step_distinct)
qed simp

section \<open>Locked accounts\<close>

definition locked_until :: "string \<Rightarrow> int \<Rightarrow> (string \<times> User) list \<Rightarrow> bool" where
  "locked_until n t us \<longleftrightarrow> (\<exists>u. map_of us n = Some u \<and> u_LockedUntil u = t)"

text \<open>What may lift a lock: a login after it has run out, a reset by an administrator, removing the account.\<close>

fun unlocks :: "string \<Rightarrow> int \<Rightarrow> account_op \<Rightarrow> bool" where
  "unlocks n t (OpPassword now token m pwd ip) \<longleftrightarrow> m = n \<and> t \<le> wall now"
| "unlocks n t (OpReset now dbnow salt s m pwd) \<longleftrightarrow> m = n"
| "unlocks n t (OpDelete now dbnow s m) \<longleftrightarrow> m = n"
| "unlocks n t _ \<longleftrightarrow> False"

lemma locked_replace: "locked_until n t us \<Longrightarrow> (m = n \<Longrightarrow> u_LockedUntil u' = t) \<Longrightarrow> locked_until n t (AList.update m u' us)"
  by (auto simp: locked_until_def AList.update_conv')

lemma locked_delete: "locked_until n t us \<Longrightarrow> m \<noteq> n \<Longrightarrow> locked_until n t (AList.delete m us)"
  by (auto simp: locked_until_def AList.delete_conv')

lemma locked_map: "locked_until n t us \<Longrightarrow> (\<And>u. u_LockedUntil (f u) = u_LockedUntil u) \<Longrightarrow> locked_until n t (map (\<lambda>(m, u). (m, f u)) us)"
  by (induction us) (auto simp: locked_until_def)

lemma locked_until_at: "locked_until n t us \<Longrightarrow> map_of us n = Some u \<Longrightarrow> u_LockedUntil u = t"
  by (auto simp: locked_until_def)

lemma locked_CreateUser:
  "CreateUser k x gs now salt m disp pwd role gids w = (r, w') \<Longrightarrow> locked_until n t (users w) \<Longrightarrow> locked_until n t (users w')"
  by (auto simp: CreateUser_def Let_def users_def dest!: create_refusal_None persistUser_store
      intro!: locked_replace split: option.splits prod.splits bool.splits) (auto simp: locked_until_def)

lemma locked_SetPhone: "SetPhone x m phone w = (r, w') \<Longrightarrow> locked_until n t (users w) \<Longrightarrow> locked_until n t (users w')"
  by (auto simp: SetPhone_def Let_def users_def user_named_def dest!: persistUser_store
      intro!: locked_replace split: option.splits prod.splits bool.splits if_splits) (auto simp: locked_until_def)

lemma locked_users_post:
  "locked_until n t (users w) \<Longrightarrow> locked_until n t (users (snd (users_post k x gs now salt s m disp pwd role gids phone w)))"
  by (auto simp: users_post_def split: option.splits prod.splits sum.splits if_splits dest!: locked_CreateUser dest: locked_SetPhone)

lemma locked_SetGroups: "locked_until n t (users w) \<Longrightarrow> locked_until n t (users (snd (SetGroups x gs actor m gids w)))"
  by (auto simp: SetGroups_def Let_def users_def user_named_def dest!: persistUser_store
      intro!: locked_replace dest: locked_until_at split: option.splits prod.splits bool.splits)

lemma locked_ResetPassword:
  "locked_until n t (users w) \<Longrightarrow> m \<noteq> n \<Longrightarrow> locked_until n t (users (snd (ResetPassword k x now dbnow salt a m pwd w)))"
  by (auto simp: ResetPassword_def users_def user_named_def dest!: persistUser_store
      intro!: locked_replace split: option.splits prod.splits bool.splits)

lemma locked_DeleteUser:
  "DeleteUser x dbnow a m w = (r, w') \<Longrightarrow> locked_until n t (users w) \<Longrightarrow> m \<noteq> n \<Longrightarrow> locked_until n t (users w')"
  by (auto simp: DeleteUser_def users_def user_named_def
      intro!: locked_delete split: option.splits prod.splits bool.splits if_splits)

lemma locked_ChangePassword:
  "locked_until n t (users w) \<Longrightarrow> locked_until n t (users (snd (ChangePassword k x now dbnow salt s old nw r w)))"
  by (auto simp: ChangePassword_def with_password_def Let_def users_def user_named_def dest!: persistUser_store
      intro!: locked_replace split: option.splits prod.splits bool.splits) (auto simp: locked_until_def)

lemma locked_LoginPassword:
  "locked_until n t (users w) \<Longrightarrow> m = n \<longrightarrow> wall now < t \<Longrightarrow> locked_until n t (users (snd (LoginPassword k x now token m pwd ip w)))"
  by (auto simp: LoginPassword_def Let_def users_def user_named_def
      intro!: locked_replace dest: locked_until_at split: option.splits)

lemma locked_step:
  assumes "locked_until n t (users w)" "\<not> unlocks n t op"
  shows "locked_until n t (users (account_step k uf x w op))"
proof (cases op)
  case (OpUsersGet s)
  then show ?thesis using assms(1)
    by (auto simp: users_def users_get_def intro!: locked_map split: option.splits)
next
  case (OpCaptcha now picks i)
  then show ?thesis using assms(1) by (simp add: NewCaptcha_def users_def [of w])
next
  case (OpDelete now dbnow s m)
  then show ?thesis using assms
    by (auto simp: users_delete_post_def split: option.splits prod.splits dest: locked_DeleteUser)
qed (use assms in \<open>auto simp: locked_LoginPassword locked_ChangePassword locked_users_post locked_SetGroups
      locked_ResetPassword users_groups_post_def users_reset_post_def users_same split: option.splits\<close>)

lemma locked_run: "locked_until n t (users w) \<Longrightarrow> (\<And>op. op \<in> set ops \<Longrightarrow> \<not> unlocks n t op) \<Longrightarrow>
    locked_until n t (users (run (account_step k uf x) w ops))"
  by (induction ops arbitrary: w) (auto intro: locked_step)

lemma login_locked: "locked_until n t (users w) \<Longrightarrow> wall now < t \<Longrightarrow>
    fst (LoginPassword k x now token n pwd ip w) = Inl (AuthLocked ((t - wall now) div minute + 1))"
  by (auto simp: LoginPassword_def Let_def locked_until_def users_def user_named_def)

text \<open>A wrong password at an account that is not locked only counts the failure.\<close>

definition wrong_logins :: "string \<Rightarrow> (gotime \<times> string \<times> string \<times> string) list \<Rightarrow> account_op list" where
  "wrong_logins n = map (\<lambda>(now, token, pwd, ip). OpPassword now token n pwd ip)"

lemma wrong_step:
  assumes "user_named w n = Some u" "u_LockedUntil u \<le> wall now" "\<not> verifyPassword k (u_Salt u) pwd (u_PassHash u)"
  shows "user_named (snd (LoginPassword k x now token n pwd ip w)) n = Some (failed_user (wall now) u)"
  using assms by (simp add: LoginPassword_def Let_def user_named_def AList.update_conv')

lemma wrong_run:
  assumes "user_named w n = Some u" "u_FailCount u + int (length fs) < 5"
    and "\<And>now token pwd ip. (now, token, pwd, ip) \<in> set fs \<Longrightarrow>
      u_LockedUntil u \<le> wall now \<and> \<not> verifyPassword k (u_Salt u) pwd (u_PassHash u)"
  shows "user_named (run (account_step k uf x) w (wrong_logins n fs)) n = Some (u\<lparr>u_FailCount := u_FailCount u + int (length fs)\<rparr>)"
  using assms
proof (induction fs arbitrary: w u)
  case (Cons f fs)
  obtain now token pwd ip where f: "f = (now, token, pwd, ip)" by (cases f)
  let ?w = "snd (LoginPassword k x now token n pwd ip w)"
  have "user_named ?w n = Some (u\<lparr>u_FailCount := u_FailCount u + 1\<rparr>)"
    using wrong_step [of w n u now k pwd x token ip] Cons.prems f by (auto simp: failed_user_def lockAfterFails_def)
  from Cons.IH [OF this] Cons.prems f show ?case by (auto simp: wrong_logins_def add.assoc)
qed (simp add: wrong_logins_def)

text \<open>
  Five wrong passwords in a row lock an account: whatever operations follow, other than a reset
  or the removal of the account by an administrator, every login within the next thirty minutes is
  refused as locked, also with the right password.
\<close>

theorem five_failures_lock:
  assumes u: "user_named w n = Some u" "u_FailCount u = 0"
    and five: "length fs = 4"
    and wrong: "\<And>now token pwd ip. (now, token, pwd, ip) \<in> set (fs @ [(t5, tok5, pwd5, ip5)]) \<Longrightarrow>
      u_LockedUntil u \<le> wall now \<and> \<not> verifyPassword k (u_Salt u) pwd (u_PassHash u)"
    and ops: "\<And>op. op \<in> set ops \<Longrightarrow> \<not> unlocks n (wall t5 + 30 * minute) op"
    and before: "wall now < wall t5 + 30 * minute"
  shows "\<exists>left. fst (LoginPassword k x now token n pwd ip
      (run (account_step k uf x) w (wrong_logins n (fs @ [(t5, tok5, pwd5, ip5)]) @ ops))) = Inl (AuthLocked left)"
proof -
  let ?w4 = "run (account_step k uf x) w (wrong_logins n fs)"
  let ?w5 = "snd (LoginPassword k x t5 tok5 n pwd5 ip5 ?w4)"
  have "user_named ?w4 n = Some (u\<lparr>u_FailCount := 4\<rparr>)"
    using wrong_run [OF u(1), of fs k uf x] u(2) five wrong by auto
  then have "user_named ?w5 n = Some (failed_user (wall t5) (u\<lparr>u_FailCount := 4\<rparr>))"
    using wrong [of t5 tok5 pwd5 ip5] by (intro wrong_step) auto
  then have "locked_until n (wall t5 + 30 * minute) (users ?w5)"
    by (simp add: locked_until_def users_def user_named_def failed_user_def lockAfterFails_def lockDuration_def)
  from login_locked [OF locked_run [OF this ops] before] show ?thesis
    by (auto simp: run_append wrong_logins_def)
qed

section \<open>The list of users\<close>

text \<open>
  Looking at the list of users changes it: when a group administrator fetches the list, every
  account that shares a group with the administrator loses all its groups in the running process.
\<close>

theorem listing_erases_groups:
  assumes "s_Role sess = ''group_admin''" "map_of (au_users a) n = Some u" "set (s_Groups sess) \<inter> set (u_Groups u) \<noteq> {}"
  shows "map_of (au_users (snd (users_get (Some sess) a))) n = Some (u\<lparr>u_Groups := []\<rparr>)"
proof -
  let ?f = "\<lambda>u. if shown_to sess u then u\<lparr>u_Groups := []\<rparr> else u"
  have "map_of (map (\<lambda>(n, u). (n, ?f u)) us) n = map_option ?f (map_of us n)" for us by (induction us) auto
  with assms show ?thesis by (simp add: users_get_def shown_to_def intersects_iff)
qed

section \<open>Witnesses\<close>

text \<open>A store with one super administrator, a group administrator and a user; a hash that never verifies a password.\<close>

definition demo_user :: "string \<Rightarrow> string \<Rightarrow> string list \<Rightarrow> User" where
  "demo_user n role gids = \<lparr>u_Username = n, u_DisplayName = n, u_Role = role, u_Groups = gids, u_Phone = [], u_PassHash = ''h'',
     u_Salt = ''s'', u_CreatedNS = 0, u_PassSetNS = 0, u_FailCount = 0, u_LockedUntil = 0\<rparr>"

definition demo_auth :: auth_world where
  "demo_auth = \<lparr>aw_store = \<lparr>au_users = [(''root'', demo_user ''root'' ''super'' []), (''ann'', demo_user ''ann'' ''group_admin'' [''g-1'']),
       (''bob'', demo_user ''bob'' ''user'' [''g-1'', ''g-2''])], au_sessions = [], au_captchas = [], au_preauths = [], au_sms = []\<rparr>,
     aw_audit = [], aw_world = (NewState [] None, (empty_db, []))\<rparr>"

definition demo_session :: "string \<Rightarrow> string \<Rightarrow> string list \<Rightarrow> Session" where
  "demo_session n role gids = \<lparr>s_Token = ''t'', s_Username = n, s_Role = role, s_Groups = gids, s_CreatedNS = 0, s_lastUse = time_unix 0\<rparr>"

lemma demo_wrong: "\<not> verifyPassword demo_kdf ''s'' pwd ''h''"
  by (simp add: verifyPassword_def demo_kdf_def hex_encode_def)

definition plain_ext :: ext where
  "plain_ext = \<lparr>x_ts = (\<lambda>t. t), x_sha256_hex = (\<lambda>b. map (\<lambda>c. char_of (unat c)) b), x_token_hash = (\<lambda>t. t)\<rparr>"

theorem super_admins_bounded_witness:
  "let w = run (account_step demo_kdf id plain_ext) demo_auth [OpDelete 1 1 (Some (demo_session ''root'' ''super'' [])) ''root'']
   in 1 \<le> super_count (users w) \<and> super_count (users w) \<le> 10"
  unfolding Let_def by (rule super_admins_bounded) (simp_all add: users_def demo_auth_def demo_user_def)

theorem no_escalation_to_super_witness:
  "super_creds (users (run (account_step demo_kdf id plain_ext) demo_auth
      [OpReset 1 1 ''x'' (Some (demo_session ''ann'' ''group_admin'' [''g-1''])) ''root'' ''Passw0rd!''])) = [(''root'', ''s'', ''h'')]"
  using no_escalation_to_super [of demo_auth "[OpReset 1 1 ''x'' (Some (demo_session ''ann'' ''group_admin'' [''g-1''])) ''root'' ''Passw0rd!'']" demo_kdf id plain_ext]
  by (simp add: users_def demo_auth_def demo_user_def demo_session_def)

theorem five_failures_lock_witness:
  "\<exists>left. fst (LoginPassword demo_kdf plain_ext (time_unix 100) ''t'' ''bob'' ''right'' ''ip''
     (run (account_step demo_kdf id plain_ext) demo_auth
       (wrong_logins ''bob'' (replicate 4 (time_unix 1, ''t'', ''no'', ''ip'') @ [(time_unix 1, ''t'', ''no'', ''ip'')]) @ []))) = Inl (AuthLocked left)"
  by (rule five_failures_lock [where u = "demo_user ''bob'' ''user'' [''g-1'', ''g-2'']"])
     (auto simp: demo_auth_def user_named_def demo_user_def demo_wrong minute_def)

theorem listing_erases_groups_witness:
  "map_of (au_users (snd (users_get (Some (demo_session ''ann'' ''group_admin'' [''g-1''])) (aw_store demo_auth)))) ''bob''
    = Some (demo_user ''bob'' ''user'' [])"
  using listing_erases_groups [of "demo_session ''ann'' ''group_admin'' [''g-1'']" "aw_store demo_auth" "''bob''" "demo_user ''bob'' ''user'' [''g-1'', ''g-2'']"]
  by (simp add: demo_session_def demo_auth_def demo_user_def)

end
