(* ===== verification/Session_Props.thy ===== *)
theory Session_Props
  imports Account_Props
begin

text \<open>
  What holds of sessions: a session that was logged out never comes back, a session that is handed
  out is within its limits, and what the middleware lets through.
\<close>

interpretation session_view: quiet_view auth_sessions
  by unfold_locales simp_all

section \<open>Rows of a token\<close>

definition dead_rows :: "string \<Rightarrow> session_row list \<Rightarrow> bool" where
  "dead_rows h rows \<longleftrightarrow> (\<forall>r \<in> set rows. ss_token_hash r = h \<longrightarrow> ss_revoked_at r \<noteq> None)"

definition rows :: "auth_world \<Rightarrow> session_row list" where "rows w = auth_sessions (fst (aw_txs w))"

lemma dead_filter: "dead_rows h rs \<Longrightarrow> dead_rows h (filter p rs)"
  by (auto simp: dead_rows_def)

lemma dead_append: "dead_rows h (rs @ [r]) \<longleftrightarrow> dead_rows h rs \<and> (ss_token_hash r = h \<longrightarrow> ss_revoked_at r \<noteq> None)"
  by (auto simp: dead_rows_def)

lemma dead_update: "dead_rows h rs \<Longrightarrow>
    (\<And>r. p r \<Longrightarrow> ss_token_hash (u r) = h \<longrightarrow> ss_revoked_at (u r) \<noteq> None) \<Longrightarrow> dead_rows h (update_where p u rs)"
  by (auto simp: dead_rows_def set_update_where)

lemma rows_simps [simp]:
  "rows (set_txs t w) = auth_sessions (fst t)"
  "rows (on_store f w) = rows w" "aw_txs (on_store f w) = aw_txs w" "aw_txs (set_txs t w) = t"
  "rows (w\<lparr>aw_store := a\<rparr>) = rows w" "aw_txs (w\<lparr>aw_store := a\<rparr>) = aw_txs w"
  "rows (w\<lparr>aw_audit := ring\<rparr>) = rows w" "aw_txs (w\<lparr>aw_audit := ring\<rparr>) = aw_txs w"
  by (simp_all add: rows_def set_txs_def on_store_def aw_txs_def)

lemma rows_auditLogin [simp]: "rows (auditLogin x now n ip res det w) = rows w"
proof -
  have "logAudit x e (aw_audit w, aw_txs w) = (ring, s) \<Longrightarrow> auth_sessions (fst s) = rows w" for e ring s
    using session_view.view_logAudit [of x e "(aw_audit w, aw_txs w)"] by (simp add: rows_def)
  then show ?thesis by (simp add: auditLogin_def split: prod.splits)
qed

lemma rows_audit_platform [simp]: "rows (audit_platform dbnow actor act js w) = rows w"
  by (simp add: audit_platform_def rows_def [of w])

lemma rows_push_sys [simp]: "rows (push_sys now level txt w) = rows w"
  by (simp add: push_sys_def rows_def aw_txs_def)

lemma if_chain: "(if P then None else if Q then Some ((), a) else Some ((), b)) = Some ((), d) \<Longrightarrow> v a = c \<Longrightarrow> v b = c \<Longrightarrow> v d = c"
  by (auto split: if_splits)

lemma rows_persistUser: "persistUserLocked x u w = (b, w') \<Longrightarrow> rows w' = rows w"
proof -
  have "auth_sessions d' = auth_sessions d" if "upsert_user x u d = Some ((), d')" for d d'
    using that unfolding upsert_user_def by (rule if_chain) simp_all
  then have "auth_sessions (fst (snd (db_exec (upsert_user x u) (aw_txs w)))) = auth_sessions (fst (aw_txs w))"
    by (rule session_view.view_db_exec)
  then show "persistUserLocked x u w = (b, w') \<Longrightarrow> ?thesis"
    by (auto simp: persistUserLocked_def rows_def [of w] split: prod.splits)
qed

lemma dead_persistSession:
  assumes "sessionTokenHash x (s_Token s) \<noteq> h" "dead_rows h (auth_sessions (fst t))" "persistSession x s t = (b, t')"
  shows "dead_rows h (auth_sessions (fst t'))"
  using assms
  by (cases t) (auto simp: persistSession_def tx_stmt_def upsert_session_def Let_def dead_append session_row_of_def
      intro!: dead_update split: if_splits option.splits)

lemma dead_revoke: "dead_rows h (auth_sessions (fst t)) \<Longrightarrow> dead_rows h (auth_sessions (fst (revokeSession x dbnow token t)))"
  by (rule db_exec_cases [of "revoke_stmt x dbnow token" "fst t" "snd t"])
     (auto simp: revokeSession_def revoke_stmt_def intro!: dead_update)

lemma dead_loadSessions: "dead_rows h (auth_sessions (fst t)) \<Longrightarrow> dead_rows h (auth_sessions (fst (loadSessions dbnow t)))"
  by (rule db_exec_cases [of "delete_stale dbnow" "fst t" "snd t"])
     (auto simp: loadSessions_def delete_stale_def intro: dead_filter)

lemma restore_dead:
  assumes "dead_rows (sessionTokenHash x token) (auth_sessions (fst t))" "restoreSession x dbnow token t = (r, t')"
  shows "r = None \<and> auth_sessions (fst t') = auth_sessions (fst t)"
proof -
  have "stored_session x dbnow token (fst t) = None"
    using assms(1) by (auto simp: stored_session_def dead_rows_def find_None_iff)
  with assms(2) show ?thesis
    by (cases t) (auto simp: restoreSession_def tx_query_def tx_stmt_def split: if_splits)
qed

lemma restore_rows: "restoreSession x dbnow token t = (r, t') \<Longrightarrow> fst t' = fst t \<and> (\<forall>s. r = Some s \<longrightarrow> s_Token s = token)"
  by (cases t) (auto simp: restoreSession_def tx_query_def tx_stmt_def restored_def split: if_splits)

section \<open>A dead token\<close>

text \<open>Sessions are kept under their own tokens, none of them with the hash of the dead one.\<close>

definition dead_sessions :: "ext \<Rightarrow> string \<Rightarrow> (string \<times> Session) list \<Rightarrow> bool" where
  "dead_sessions x token ss \<longleftrightarrow>
    (\<forall>(t, s) \<in> set ss. s_Token s = t \<and> sessionTokenHash x t \<noteq> sessionTokenHash x token)"

definition dead :: "ext \<Rightarrow> string \<Rightarrow> auth_world \<Rightarrow> bool" where
  "dead x token w \<longleftrightarrow> dead_sessions x token (au_sessions (aw_store w)) \<and> dead_rows (sessionTokenHash x token) (rows w)"

text \<open>New tokens are new: their hash is not that of the dead one; another token in use has another hash.\<close>

fun fresh_op :: "ext \<Rightarrow> string \<Rightarrow> account_op \<Rightarrow> bool" where
  "fresh_op x t (OpFinish now token pre cid ans ip) \<longleftrightarrow> sessionTokenHash x token \<noteq> sessionTokenHash x t"
| "fresh_op x t (OpPhone now token phone code ip) \<longleftrightarrow> sessionTokenHash x token \<noteq> sessionTokenHash x t"
| "fresh_op x t (OpSession now dbnow token) \<longleftrightarrow> token = t \<or> sessionTokenHash x token \<noteq> sessionTokenHash x t"
| "fresh_op x t (OpSnapshot now dbnow token) \<longleftrightarrow> token = t \<or> sessionTokenHash x token \<noteq> sessionTokenHash x t"
| "fresh_op x t _ \<longleftrightarrow> True"

lemma dead_sessions_update: "dead_sessions x t ss \<Longrightarrow> s_Token s = k \<Longrightarrow> sessionTokenHash x k \<noteq> sessionTokenHash x t \<Longrightarrow>
    dead_sessions x t (AList.update k s ss)"
  by (induction ss) (auto simp: dead_sessions_def)

lemma dead_sessions_subset: "dead_sessions x t ss \<Longrightarrow> set ss' \<subseteq> set ss \<Longrightarrow> dead_sessions x t ss'"
  by (auto simp: dead_sessions_def)

lemma dead_sessions_delete: "dead_sessions x t ss \<Longrightarrow> dead_sessions x t (AList.delete k ss)"
  by (rule dead_sessions_subset) (auto simp: AList.delete_eq)

lemma dead_sessions_look: "dead_sessions x t ss \<Longrightarrow> map_of ss t = None"
  by (auto simp: dead_sessions_def map_of_eq_None_iff)

lemma dead_sessions_at: "dead_sessions x t ss \<Longrightarrow> map_of ss k = Some s \<Longrightarrow> s_Token s = k \<and> sessionTokenHash x k \<noteq> sessionTokenHash x t"
  by (auto simp: dead_sessions_def dest!: map_of_SomeD)

lemma sessions_simps [simp]:
  "au_sessions (put_session t s a) = AList.update t s (au_sessions a)"
  "au_sessions (del_session t a) = AList.delete t (au_sessions a)"
  "au_sessions (put_user n u a) = au_sessions a"
  by (simp_all add: put_session_def del_session_def put_user_def)

lemma dead_put: "dead x t w \<Longrightarrow> s_Token s = k \<Longrightarrow> sessionTokenHash x k \<noteq> sessionTokenHash x t \<Longrightarrow> dead x t (on_store (put_session k s) w)"
  by (simp add: dead_def dead_sessions_update)

lemma dead_same: "au_sessions (aw_store w') = au_sessions (aw_store w) \<Longrightarrow> rows w' = rows w \<Longrightarrow> dead x t w' = dead x t w"
  by (simp add: dead_def)

lemma dead_quiet [simp]:
  "dead x t (auditLogin y now n ip res det w) = dead x t w"
  "dead x t (audit_platform dbnow actor act js w) = dead x t w"
  "dead x t (push_sys tm level txt w) = dead x t w"
  by (rule dead_same; simp)+

lemma dead_txs: "dead x t w \<Longrightarrow> dead_rows (sessionTokenHash x t) (auth_sessions (fst s)) \<Longrightarrow> dead x t (set_txs s w)"
  by (simp add: dead_def)

lemma dead_rowsD: "dead x t w \<Longrightarrow> dead_rows (sessionTokenHash x t) (auth_sessions (fst (aw_txs w)))"
  by (simp add: dead_def rows_def)

lemma dead_open_session:
  assumes "dead x t w" "sessionTokenHash x token \<noteq> sessionTokenHash x t"
  shows "dead x t (snd (open_session x now token ip det u w))"
proof -
  obtain b s where p: "persistSession x (session_for now token u) (aw_txs w) = (b, s)" by (rule prod.exhaust)
  with dead_persistSession [OF _ dead_rowsD [OF assms(1)] p] assms
  have "dead x t (set_txs s w)" by (intro dead_txs) (auto simp: session_for_def)
  with p assms show ?thesis
    by (cases b) (auto simp: open_session_def Let_def session_for_def intro!: dead_put)
qed

lemma dead_end_session: "dead x t w \<Longrightarrow> dead x t (end_session x dbnow token n w)"
  by (auto simp: end_session_def dead_def dead_sessions_delete rows_def [of w] intro!: dead_revoke)

lemma dead_kill: "dead x t w \<Longrightarrow> dead x t (killSessions x dbnow n ex actor act w)"
proof -
  have "dead_rows h (auth_sessions (fst s)) \<Longrightarrow> dead_rows h (auth_sessions (fst (fold (revokeSession x dbnow) ts s)))" for h ts s
    by (induction ts arbitrary: s) (simp_all add: dead_revoke)
  then show "dead x t w \<Longrightarrow> ?thesis"
    by (auto simp: killSessions_def Let_def dead_def rows_def [of w] intro: dead_sessions_subset)
qed

lemma dead_persist_all:
  "(\<And>s. s \<in> set ss \<Longrightarrow> sessionTokenHash x (s_Token s) \<noteq> h) \<Longrightarrow> dead_rows h (auth_sessions (fst t)) \<Longrightarrow>
    dead_rows h (auth_sessions (fst (persist_all x ss t)))"
proof (induction ss arbitrary: t)
  case (Cons s ss)
  obtain b t' where p: "persistSession x s t = (b, t')" by (cases "persistSession x s t")
  from dead_persistSession [OF _ Cons.prems(2) p] Cons p show ?case by (simp add: persist_all_def)
qed (simp add: persist_all_def)

lemma dead_refresh:
  assumes "dead x t w"
  shows "dead x t (RefreshSessions x n gids role w)"
proof -
  let ?upd = "\<lambda>s. if s_Username s = n then s\<lparr>s_Groups := gids, s_Role := role\<rparr> else s"
  let ?ss = "map (\<lambda>(t, s). (t, ?upd s)) (au_sessions (aw_store w))"
  let ?changed = "filter (\<lambda>s. s_Username s = n) (map snd ?ss)"
  have ss: "dead_sessions x t ?ss" using assms by (auto simp: dead_def dead_sessions_def)
  then have "sessionTokenHash x (s_Token s) \<noteq> sessionTokenHash x t" if "s \<in> set ?changed" for s
    using that by (auto simp: dead_sessions_def split: if_splits)
  then have "dead_rows (sessionTokenHash x t) (auth_sessions (fst (persist_all x ?changed (aw_txs w))))"
    using dead_rowsD [OF assms] by (rule dead_persist_all)
  with ss show ?thesis by (simp add: RefreshSessions_def Let_def dead_def)
qed

text \<open>A token that is not dead and found in memory or restored is another token with another hash.\<close>

lemma restored_other:
  assumes "dead x t w" "token = t \<or> sessionTokenHash x token \<noteq> sessionTokenHash x t"
    and "restoreSession x dbnow token (aw_txs w) = (Some r, s)"
  shows "sessionTokenHash x token \<noteq> sessionTokenHash x t" "s_Token r = token"
  using assms(2) restore_dead [OF _ assms(3)] restore_rows [OF assms(3)] dead_rowsD [OF assms(1)] by auto

lemma restore_keeps: "dead x t w \<Longrightarrow> restoreSession x dbnow token (aw_txs w) = (r, s) \<Longrightarrow> dead x t (set_txs s w)"
  using restore_rows [of x dbnow token "aw_txs w" r s] dead_rowsD [of x t w] by (auto intro: dead_txs)

lemma memory_other:
  "dead x t w \<Longrightarrow> map_of (au_sessions (aw_store w)) token = Some s \<Longrightarrow> s_Token s = token \<and> sessionTokenHash x token \<noteq> sessionTokenHash x t"
  using dead_sessions_at [of x t "au_sessions (aw_store w)" token s] by (simp add: dead_def)

lemma dead_persisted:
  assumes "dead x t w" "sessionTokenHash x (s_Token s) \<noteq> sessionTokenHash x t" "persistSession x s (aw_txs w) = (b, t')"
  shows "dead x t (set_txs t' w)"
  using dead_persistSession [OF assms(2) dead_rowsD [OF assms(1)] assms(3)] assms(1) by (rule dead_txs [rotated])

lemma dead_SessionSnapshot:
  assumes "dead x t w" "token = t \<or> sessionTokenHash x token \<noteq> sessionTokenHash x t"
  shows "dead x t (snd (SessionSnapshot x now dbnow token w))"
proof (cases "map_of (au_sessions (aw_store w)) token")
  case None
  obtain r s where r: "restoreSession x dbnow token (aw_txs w) = (r, s)" by (rule prod.exhaust)
  then show ?thesis using None restored_other [OF assms, of dbnow] restore_keeps [OF assms(1) r]
    by (cases r) (auto simp: SessionSnapshot_def intro!: dead_put)
qed (use assms(1) in \<open>auto simp: SessionSnapshot_def dead_end_session\<close>)

lemma dead_SessionByToken:
  assumes "dead x t w" "token = t \<or> sessionTokenHash x token \<noteq> sessionTokenHash x t"
  shows "dead x t (snd (SessionByToken x now dbnow token w))"
proof (cases "token = []")
  case False
  show ?thesis
  proof (cases "map_of (au_sessions (aw_store w)) token")
    case None
    obtain r s where r: "restoreSession x dbnow token (aw_txs w) = (r, s)" by (rule prod.exhaust)
    show ?thesis
    proof (cases r)
      case (Some sess)
      let ?s = "sess\<lparr>s_lastUse := now\<rparr>"
      obtain b s' where p: "persistSession x ?s (aw_txs (set_txs s w)) = (b, s')" by (rule prod.exhaust)
      have o: "sessionTokenHash x token \<noteq> sessionTokenHash x t" "s_Token sess = token"
        using restored_other [OF assms] r Some by auto
      then have "dead x t (set_txs s' (set_txs s w))"
        using dead_persisted [OF restore_keeps [OF assms(1) r] _ p] by simp
      then have "dead x t (set_txs s' w)" by (simp add: set_txs_def)
      with False None Some r p o show ?thesis
        by (cases b) (auto simp: SessionByToken_def Let_def intro!: dead_put)
    qed (use False None r restore_keeps [OF assms(1) r] in \<open>simp add: SessionByToken_def\<close>)
  next
    case (Some sess)
    let ?w = "on_store (put_session token (sess\<lparr>s_lastUse := now\<rparr>)) w"
    have o: "s_Token sess = token \<and> sessionTokenHash x token \<noteq> sessionTokenHash x t"
      using memory_other [OF assms(1) Some] .
    obtain b s' where p: "persistSession x (sess\<lparr>s_lastUse := now\<rparr>) (aw_txs ?w) = (b, s')" by (rule prod.exhaust)
    have "dead x t ?w" using o assms(1) by (intro dead_put) auto
    then have "dead x t (set_txs s' ?w)" using dead_persisted [OF _ _ p] o by simp
    with Some False p assms(1) show ?thesis
      by (cases b) (auto simp: SessionByToken_def Let_def dead_end_session)
  qed
qed (use assms(1) in \<open>simp add: SessionByToken_def\<close>)

section \<open>Logging out\<close>

lemma dead_users: "dead x t w \<Longrightarrow> persistUserLocked x u w = (b, w') \<Longrightarrow> dead x t w'"
  using dead_same [of w' w] by (simp add: persistUser_store rows_persistUser)

lemma dead_on_users: "dead x t w \<Longrightarrow> dead x t (on_store (put_user n u) w)"
  by (simp add: dead_def)

lemma dead_CreateUser: "dead x t w \<Longrightarrow> CreateUser k x gs now salt n disp pwd role gids w = (r, w') \<Longrightarrow> dead x t w'"
  by (auto simp: CreateUser_def Let_def dest: dead_users intro!: dead_on_users split: option.splits prod.splits bool.splits)

lemma dead_SetPhone: "dead x t w \<Longrightarrow> SetPhone x n phone w = (r, w') \<Longrightarrow> dead x t w'"
  by (auto simp: SetPhone_def Let_def dest: dead_users intro!: dead_on_users split: option.splits prod.splits bool.splits if_splits)

lemma dead_users_post: "dead x t w \<Longrightarrow> dead x t (snd (users_post k x gs now salt s n disp pwd role gids phone w))"
  by (auto simp: users_post_def dest: dead_CreateUser dead_SetPhone split: option.splits prod.splits sum.splits if_splits)

lemma dead_SetGroups: "dead x t w \<Longrightarrow> dead x t (snd (SetGroups x gs a n gids w))"
  by (auto simp: SetGroups_def Let_def dest: dead_users intro!: dead_refresh dead_on_users split: option.splits prod.splits bool.splits)

lemma dead_ResetPassword: "dead x t w \<Longrightarrow> dead x t (snd (ResetPassword k x now dbnow salt a n pwd w))"
  by (auto simp: ResetPassword_def dest: dead_users [OF dead_on_users] intro!: dead_kill split: option.splits prod.splits bool.splits)

lemma dead_audit: "logAudit x e (aw_audit w, aw_txs w) = (ring, s) \<Longrightarrow> dead x t (set_txs s (w\<lparr>aw_audit := ring\<rparr>)) = dead x t w"
  using session_view.view_logAudit [of x e "(aw_audit w, aw_txs w)"] by (intro dead_same) (auto simp: rows_def [of w])

lemma dead_ChangePassword: "dead x t w \<Longrightarrow> dead x t (snd (ChangePassword k x now dbnow salt a old nw r w))"
  by (auto simp: ChangePassword_def Let_def dead_audit dest: dead_users [OF dead_on_users] intro!: dead_kill split: option.splits prod.splits bool.splits)

lemma dead_DeleteUser: "dead x t w \<Longrightarrow> DeleteUser x dbnow a n w = (r, w') \<Longrightarrow> dead x t w'"
proof -
  assume d: "dead x t w"
  have "dead_rows (sessionTokenHash x t) (auth_sessions (fst (snd (db_exec (delete_user_stmt n) (aw_txs w)))))"
    by (rule db_exec_cases [of "delete_user_stmt n" "fst (aw_txs w)" "snd (aw_txs w)"])
       (use dead_rowsD [OF d] in \<open>auto simp: delete_user_stmt_def intro: dead_filter split: if_splits\<close>)
  with d show "DeleteUser x dbnow a n w = (r, w') \<Longrightarrow> ?thesis"
    by (auto simp: DeleteUser_def dead_def intro!: dead_kill [unfolded dead_def] split: option.splits prod.splits bool.splits if_splits)
qed

lemma dead_LoginPassword: "dead x t w \<Longrightarrow> dead x t (snd (LoginPassword k x now token n pwd ip w))"
  by (auto simp: LoginPassword_def Let_def dead_on_users split: option.splits) (simp add: dead_def)

lemma sessions_captcha: "checkCaptcha uf now i ans a = (e, a') \<Longrightarrow> au_sessions a' = au_sessions a"
  by (auto simp: checkCaptcha_def Let_def split: option.splits if_splits)

lemma dead_store: "dead x t w \<Longrightarrow> au_sessions a = au_sessions (aw_store w) \<Longrightarrow> dead x t (w\<lparr>aw_store := a\<rparr>)"
  by (simp add: dead_def)

lemma dead_FinishLogin:
  "dead x t w \<Longrightarrow> sessionTokenHash x token \<noteq> sessionTokenHash x t \<Longrightarrow> dead x t (snd (FinishLogin uf x now token pre cid ans ip w))"
  by (auto simp: FinishLogin_def Let_def dest!: sessions_captcha intro!: dead_store dead_open_session split: option.splits prod.splits)

lemma dead_LoginPhone:
  "dead x t w \<Longrightarrow> sessionTokenHash x token \<noteq> sessionTokenHash x t \<Longrightarrow> dead x t (snd (LoginPhone x now token phone code ip w))"
  by (auto simp: LoginPhone_def Let_def intro!: dead_store dead_open_session split: option.splits)

lemma dead_Logout: "dead x t w \<Longrightarrow> dead x t (Logout x dbnow r w)"
  by (auto simp: Logout_def Let_def dead_def dead_sessions_delete rows_def [of w] intro!: dead_revoke split: option.splits)

lemma dead_cleanup: "dead x t w \<Longrightarrow> dead x t (cleanup now dbnow w)"
  by (auto simp: cleanup_def Let_def dead_def rows_def [of w] intro!: dead_loadSessions intro: dead_sessions_subset)

lemma dead_users_get: "dead x t w \<Longrightarrow> dead x t (on_store (\<lambda>a. snd (users_get s a)) w)"
  by (auto simp: dead_def users_get_def split: option.splits)

lemma dead_step:
  assumes "dead x t w" "fresh_op x t op"
  shows "dead x t (account_step k uf x w op)"
proof (cases op)
  case (OpCaptcha now picks i)
  then show ?thesis using assms(1) by (simp add: dead_def NewCaptcha_def)
next
  case (OpDelete now dbnow s n)
  then show ?thesis using assms(1) by (auto simp: users_delete_post_def dest: dead_DeleteUser split: option.splits prod.splits)
qed (use assms in \<open>auto simp: dead_LoginPassword dead_FinishLogin dead_LoginPhone dead_SessionByToken dead_SessionSnapshot
      logout_post_def dead_Logout dead_cleanup dead_users_get dead_users_post users_groups_post_def dead_SetGroups
      users_reset_post_def dead_ResetPassword dead_ChangePassword Let_def split: option.splits\<close>)

lemma dead_run: "dead x t w \<Longrightarrow> (\<And>op. op \<in> set ops \<Longrightarrow> fresh_op x t op) \<Longrightarrow> dead x t (run (account_step k uf x) w ops)"
  by (induction ops arbitrary: w) (auto intro: dead_step)

lemma dead_refused:
  assumes "dead x t w"
  shows "fst (SessionByToken x now dbnow t w) = None" "fst (SessionSnapshot x now dbnow t w) = None"
proof -
  have m: "map_of (au_sessions (aw_store w)) t = None" using assms by (auto simp: dead_def dest: dead_sessions_look)
  obtain r s where r: "restoreSession x dbnow t (aw_txs w) = (r, s)" by (rule prod.exhaust)
  from restore_dead [OF dead_rowsD [OF assms] r] have "r = None" by simp
  with m r show "fst (SessionByToken x now dbnow t w) = None" "fst (SessionSnapshot x now dbnow t w) = None"
    by (simp_all add: SessionByToken_def SessionSnapshot_def)
qed

lemma dead_revoked:
  "dead_rows h (update_where (\<lambda>r. ss_token_hash r = h \<and> ss_revoked_at r = None) (\<lambda>r. r\<lparr>ss_revoked_at := Some n\<rparr>) rs)"
  (is "dead_rows h (update_where ?p ?u rs)")
proof -
  have upd: "ss_token_hash (if ?p r then ?u r else r) = h \<longrightarrow> ss_revoked_at (if ?p r then ?u r else r) \<noteq> None" for r
    by (cases "?p r") simp_all
  show ?thesis unfolding dead_rows_def update_where_def set_map by (intro ballI, elim imageE, hypsubst, rule upd)
qed


section \<open>What a session is\<close>

text \<open>A session that was stored is a row that is not revoked.\<close>

lemma persisted_row:
  assumes "persistSession x s t = (True, t')"
  shows "\<exists>r \<in> set (auth_sessions (fst t')). ss_token_hash r = sessionTokenHash x (s_Token s) \<and> ss_revoked_at r = None"
proof -
  let ?h = "sessionTokenHash x (s_Token s)"
  have "upsert_session x s (fst t) = Some (True, fst t')"
    using assms by (cases t) (auto simp: persistSession_def tx_stmt_def split: if_splits option.splits)
  then have up: "upsert_session x s (fst t) = Some (True, fst t')" .
  show ?thesis
  proof (cases "find (\<lambda>r. ss_token_hash r = ?h) (auth_sessions (fst t))")
    case None
    with up have "fst t' = (fst t)\<lparr>auth_sessions := auth_sessions (fst t) @ [session_row_of x s]\<rparr>"
      by (simp add: upsert_session_def Let_def split: if_split_asm)
    then show ?thesis by (simp add: session_row_of_def)
  next
    case (Some r)
    let ?u = "\<lambda>r. r\<lparr>ss_username := s_Username s, ss_role := s_Role s, ss_groups := s_Groups s, ss_last_use_at := x_ts x (wall (s_lastUse s))\<rparr>"
    from Some up have t': "ss_revoked_at r = None"
        "auth_sessions (fst t') = update_where (\<lambda>r. ss_token_hash r = ?h) ?u (auth_sessions (fst t))"
      by (auto simp: upsert_session_def Let_def split: if_split_asm dest!: arg_cong [of _ _ auth_sessions])
    from Some have r: "r \<in> set (auth_sessions (fst t))" "ss_token_hash r = ?h" by (auto simp: find_Some_iff)
    then have "?u r \<in> set (auth_sessions (fst t'))" unfolding t'(2) update_where_def set_map by (intro image_eqI [of _ _ r]) simp_all
    with r t'(1) show ?thesis by (intro bexI [of _ "?u r"]) simp_all
  qed
qed

definition live_session :: "ext \<Rightarrow> int \<Rightarrow> string \<Rightarrow> session_row \<Rightarrow> bool" where
  "live_session x dbnow token r \<longleftrightarrow> ss_token_hash r = sessionTokenHash x token \<and> ss_revoked_at r = None
     \<and> ss_last_use_at r > dbnow - 30 * minute \<and> ss_created_at r > dbnow - 8 * hour"

lemma restore_live:
  "restoreSession x dbnow token t = (Some s, t') \<Longrightarrow> \<exists>r \<in> set (auth_sessions (fst t)). live_session x dbnow token r \<and> s = restored token r"
  by (cases t) (auto simp: restoreSession_def tx_query_def tx_stmt_def stored_session_def live_session_def find_Some_iff split: if_splits)

lemma SessionByToken_Some:
  assumes "SessionByToken x now dbnow token w = (Some s, w')"
  shows "((\<exists>m. map_of (au_sessions (aw_store w)) token = Some m \<and> \<not> session_expired now m \<and> s = m\<lparr>s_lastUse := now\<rparr>)
      \<or> (\<exists>r \<in> set (rows w). live_session x dbnow token r \<and> s = (restored token r)\<lparr>s_lastUse := now\<rparr>))
    \<and> (\<exists>r \<in> set (rows w'). ss_token_hash r = sessionTokenHash x (s_Token s) \<and> ss_revoked_at r = None)"
proof (cases "map_of (au_sessions (aw_store w)) token")
  case (Some m)
  with assms show ?thesis
    by (auto simp: SessionByToken_def Let_def dest!: persisted_row split: if_splits prod.splits bool.splits)
next
  case None
  then obtain m t t' where r: "restoreSession x dbnow token (aw_txs w) = (Some m, t)"
    and p: "persistSession x (m\<lparr>s_lastUse := now\<rparr>) t = (True, t')"
    and s: "s = m\<lparr>s_lastUse := now\<rparr>" "w' = on_store (put_session token s) (set_txs t' w)"
    using assms by (auto simp: SessionByToken_def Let_def split: if_splits option.splits prod.splits bool.splits)
  from restore_live [OF r] persisted_row [OF p] s show ?thesis by (auto simp: rows_def [of w])
qed

definition protected_path :: "string \<Rightarrow> bool" where
  "protected_path p \<longleftrightarrow> (starts_with ''/api/'' p \<or> starts_with ''/open/'' p \<or> starts_with ''/ws/'' p)
     \<and> \<not> isPublicPath p \<and> \<not> starts_with ''/open/v1/'' p"


section \<open>Codes by text message\<close>

text \<open>No operation puts a code into the store, so nobody logs in with one.\<close>

lemma sms_checkCaptcha: "checkCaptcha uf now i ans a = (e, a') \<Longrightarrow> au_sms a' = au_sms a"
  by (auto simp: checkCaptcha_def Let_def split: option.splits if_splits)

lemma phone_login_needs_code: "au_sms (aw_store w) = [] \<Longrightarrow> \<exists>e. fst (LoginPhone x now token phone code ip w) = Inl e"
  by (simp add: LoginPhone_def Let_def)

section \<open>A revocation by another instance\<close>

text \<open>
  A revocation made by another instance lasts until the next clean-up: while this process still
  holds the session, the clean-up deletes the revoked row, after which the next request with the
  token stores the session anew and is served.
\<close>

theorem revoked_session_revived:
  assumes held: "map_of (au_sessions (aw_store w)) token = Some m" "s_Token m = token" "token \<noteq> []"
    and live: "\<not> time_sub t1 (s_lastUse m) > sessionIdleTTL" "\<not> session_expired t2 m"
    and revoked: "dead_rows (sessionTokenHash x token) (rows w)"
    and account: "s_Role m \<in> set roles" "s_Username m \<in> us_username ` set (auth_users (fst (aw_txs w)))"
    and works: "snd (aw_txs w) = []"
  shows "fst (SessionByToken x t2 db2 token (cleanup t1 db1 w)) = Some (m\<lparr>s_lastUse := t2\<rparr>)"
proof -
  let ?d = "(fst (aw_txs w))\<lparr>auth_sessions := filter (\<lambda>r. \<not> stale_session db1 r) (auth_sessions (fst (aw_txs w)))\<rparr>"
  have txs: "aw_txs (cleanup t1 db1 w) = (?d, [])"
    using works by (cases "aw_txs w") (simp add: cleanup_def Let_def loadSessions_def db_exec_def delete_stale_def)
  have "map_of (filter (\<lambda>(t, s). \<not> time_sub t1 (s_lastUse s) > sessionIdleTTL) ss) token = Some m"
    if "map_of ss token = Some m" for ss
    using that live(1) by (induction ss) (auto split: if_splits)
  then have mem: "map_of (au_sessions (aw_store (cleanup t1 db1 w))) token = Some m"
    using held(1) by (simp add: cleanup_def Let_def)
  have "find (\<lambda>r. ss_token_hash r = sessionTokenHash x token) (auth_sessions ?d) = None"
    using revoked by (auto simp: find_None_iff dead_rows_def rows_def stale_session_def)
  then have "persistSession x (m\<lparr>s_lastUse := t2\<rparr>) (?d, []) = (True, (?d\<lparr>auth_sessions := auth_sessions ?d @ [session_row_of x (m\<lparr>s_lastUse := t2\<rparr>)]\<rparr>, []))"
    using account held(2) by (simp add: persistSession_def upsert_session_def Let_def)
  with mem txs live(2) held(3) show ?thesis by (simp add: SessionByToken_def Let_def)
qed

section \<open>Witnesses\<close>

definition bob_session :: Session where
  "bob_session = \<lparr>s_Token = ''tok'', s_Username = ''bob'', s_Role = ''user'', s_Groups = [''g-1''], s_CreatedNS = 0, s_lastUse = time_unix 0\<rparr>"

definition demo_live :: "int option \<Rightarrow> auth_world" where
  "demo_live revoked = demo_auth\<lparr>aw_store := (aw_store demo_auth)\<lparr>au_sessions := [(''tok'', bob_session)]\<rparr>,
     aw_world := (NewState [] None, (empty_db\<lparr>
       auth_users := [row_of_user plain_ext (demo_user ''bob'' ''user'' [''g-1''])],
       auth_sessions := [(session_row_of plain_ext bob_session)\<lparr>ss_revoked_at := revoked\<rparr>]\<rparr>, []))\<rparr>"

definition fleet_request :: request where
  "fleet_request = \<lparr>rq_method = ''GET'', rq_path = ''/api/fleet'', rq_cookies = [(''ra_session'', ''tok'')], rq_headers = [], rq_remote = ''ip''\<rparr>"

lemma demo_live_simps [simp]:
  "aw_store (demo_live rv) = (aw_store demo_auth)\<lparr>au_sessions := [(''tok'', bob_session)]\<rparr>"
  "snd (aw_txs (demo_live rv)) = []"
  "auth_users (fst (aw_txs (demo_live rv))) = [row_of_user plain_ext (demo_user ''bob'' ''user'' [''g-1''])]"
  "rows (demo_live rv) = [(session_row_of plain_ext bob_session)\<lparr>ss_revoked_at := rv\<rparr>]"
  by (simp_all add: demo_live_def aw_txs_def rows_def)



theorem revoked_session_revived_witness:
  "fst (SessionByToken plain_ext (time_unix 5) 5 ''tok'' (cleanup (time_unix 4) 4 (demo_live (Some 1)))) = Some (bob_session\<lparr>s_lastUse := time_unix 5\<rparr>)"
  by (rule revoked_session_revived)
     (auto simp: bob_session_def dead_rows_def session_expired_def time_sub_def sat64_def int64_min_def int64_max_def
        sessionIdleTTL_def sessionAbsTTL_def minute_def hour_def row_of_user_def demo_user_def roles_def)

end
