(* ===== verification/Go_Net.thy ===== *)
theory Go_Net
  imports Passwords
begin

text \<open>
  What the fleet server uses of Go's package \<open>net\<close>: parsing and printing addresses, parsing network
  prefixes, and membership of an address in a network. An address is its 16 bytes, IPv4 as the mapped
  form.
\<close>

section \<open>Addresses\<close>

definition v4_prefix :: bytes where "v4_prefix = replicate 10 0 @ [0xFF, 0xFF]"

definition parse_octet :: "string \<Rightarrow> u8 option" where
  "parse_octet f =
    (if f = [] \<or> length f > 3 \<or> (length f > 1 \<and> hd f = CHR ''0'') then None
     else case digits_value 0 f of None \<Rightarrow> None | Some n \<Rightarrow> if n \<le> 255 then Some (word_of_nat n) else None)"

definition parse_ipv4 :: "string \<Rightarrow> bytes option" where
  "parse_ipv4 s =
    (case map parse_octet (go_split CHR ''.'' s) of
       [Some a, Some b, Some c, Some d] \<Rightarrow> Some [a, b, c, d]
     | _ \<Rightarrow> None)"

definition is_hex :: "char \<Rightarrow> bool" where "is_hex c \<longleftrightarrow> hex_value c \<noteq> None"

definition hex_group :: "string \<Rightarrow> nat" where
  "hex_group = foldl (\<lambda>n c. n * 16 + (case hex_value c of None \<Rightarrow> 0 | Some v \<Rightarrow> v)) 0"

text \<open>
  The loop of the IPv6 parser over groups of two bytes: the bytes so far, where the ellipsis stood,
  and the text that is left. The number counts the groups that still fit.
\<close>

fun v6_loop :: "nat \<Rightarrow> bytes \<Rightarrow> nat option \<Rightarrow> string \<Rightarrow> (bytes \<times> nat option \<times> string) option" where
  "v6_loop 0 ip el s = Some (ip, el, s)"
| "v6_loop (Suc n) ip el s =
    (let ds = takeWhile is_hex s; rest = dropWhile is_hex s; v = hex_group ds;
         ip' = ip @ [word_of_nat (v div 256), word_of_nat (v mod 256)]
     in if ds = [] \<or> length ds > 4 then None
        else if rest \<noteq> [] \<and> hd rest = CHR ''.'' then
          (if (el = None \<and> length ip \<noteq> 12) \<or> length ip + 4 > 16 then None
           else map_option (\<lambda>q. (ip @ q, el, [])) (parse_ipv4 s))
        else if rest = [] then Some (ip', el, [])
        else if hd rest \<noteq> CHR '':'' \<or> length rest = 1 then None
        else if hd (tl rest) = CHR '':'' then
          (if el \<noteq> None then None
           else if tl (tl rest) = [] then Some (ip', Some (length ip'), [])
           else v6_loop n ip' (Some (length ip')) (tl (tl rest)))
        else v6_loop n ip' el (tl rest))"

definition v6_expand :: "bytes \<times> nat option \<times> string \<Rightarrow> bytes option" where
  "v6_expand r =
    (case r of (ip, el, s) \<Rightarrow>
       if s \<noteq> [] then None
       else if length ip < 16 then
         (case el of None \<Rightarrow> None | Some e \<Rightarrow> Some (take e ip @ replicate (16 - length ip) 0 @ drop e ip))
       else if el \<noteq> None then None else Some ip)"

definition parse_ipv6 :: "string \<Rightarrow> bytes option" where
  "parse_ipv6 s =
    (if take 2 s = ''::'' then
       (if length s = 2 then Some (replicate 16 0)
        else Option.bind (v6_loop 8 [] (Some 0) (drop 2 s)) v6_expand)
     else Option.bind (v6_loop 8 [] None s) v6_expand)"

text \<open>The first dot or colon decides the form; an address with a zone is not one for \<open>net.ParseIP\<close>.\<close>

datatype addr = V4 bytes | V6 bytes

definition parse_addr :: "string \<Rightarrow> addr option" where
  "parse_addr s =
    (if CHR ''%'' \<in> set s then None
     else case find (\<lambda>c. c = CHR ''.'' \<or> c = CHR '':'') s of
       None \<Rightarrow> None
     | Some c \<Rightarrow> if c = CHR ''.'' then map_option V4 (parse_ipv4 s) else map_option V6 (parse_ipv6 s))"

fun as16 :: "addr \<Rightarrow> bytes" where
  "as16 (V4 q) = v4_prefix @ q"
| "as16 (V6 b) = b"

definition ParseIP :: "string \<Rightarrow> bytes option" where
  "ParseIP s = map_option as16 (parse_addr s)"

definition To4 :: "bytes \<Rightarrow> bytes option" where
  "To4 ip = (if length ip = 4 then Some ip else if length ip = 16 \<and> take 12 ip = v4_prefix then Some (drop 12 ip) else None)"

section \<open>Printing\<close>

fun hex_digits :: "nat \<Rightarrow> string" where
  "hex_digits n = (if n < 16 then [hex_digit n] else hex_digits (n div 16) @ [hex_digit (n mod 16)])"

declare hex_digits.simps [simp del]

fun groups16 :: "bytes \<Rightarrow> nat list" where
  "groups16 (a # b # bs) = (unat a * 256 + unat b) # groups16 bs"
| "groups16 _ = []"

definition zero_run :: "nat list \<Rightarrow> nat \<Rightarrow> nat" where
  "zero_run gs i = length (takeWhile (\<lambda>g. g = 0) (drop i gs))"

text \<open>The first longest run of at least two zero groups.\<close>

definition best_run :: "nat list \<Rightarrow> (nat \<times> nat) option" where
  "best_run gs = fold (\<lambda>i best. let l = zero_run gs i in
     if 2 \<le> l \<and> (case best of None \<Rightarrow> True | Some (st, n) \<Rightarrow> n < l) then Some (i, l) else best) [0..<length gs] None"

definition print_v6 :: "bytes \<Rightarrow> string" where
  "print_v6 ip =
    (let gs = groups16 ip
     in case best_run gs of
          None \<Rightarrow> go_join CHR '':'' (map hex_digits gs)
        | Some (st, n) \<Rightarrow> go_join CHR '':'' (map hex_digits (take st gs)) @ ''::''
                          @ go_join CHR '':'' (map hex_digits (drop (st + n) gs)))"

definition ip_string :: "bytes \<Rightarrow> string" where
  "ip_string ip =
    (case To4 ip of
       Some q \<Rightarrow> go_join CHR ''.'' (map (\<lambda>b. nat_digits (unat b)) q)
     | None \<Rightarrow> print_v6 ip)"

section \<open>Networks\<close>

definition cut_slash :: "string \<Rightarrow> (string \<times> string) option" where
  "cut_slash s = (if CHR ''/'' \<in> set s
     then Some (takeWhile (\<lambda>c. c \<noteq> CHR ''/'') s, tl (dropWhile (\<lambda>c. c \<noteq> CHR ''/'') s)) else None)"

definition CIDRMask :: "nat \<Rightarrow> nat \<Rightarrow> bytes" where
  "CIDRMask n len = map (\<lambda>i. if 8 * (i + 1) \<le> n then 0xFF else if n \<le> 8 * i then 0 else word_of_nat (256 - 2 ^ (8 - (n - 8 * i)))) [0..<len]"

definition and_bytes :: "bytes \<Rightarrow> bytes \<Rightarrow> bytes" where "and_bytes a b = map2 and a b"

type_synonym network = "bytes \<times> bytes"

fun bit_len :: "addr \<Rightarrow> nat" where
  "bit_len (V4 _) = 32"
| "bit_len (V6 _) = 128"

definition network_of :: "addr \<Rightarrow> nat \<Rightarrow> network" where
  "network_of a n = (case a of V4 q \<Rightarrow> (and_bytes q (CIDRMask n 4), CIDRMask n 4) | V6 b \<Rightarrow> (and_bytes b (CIDRMask n 16), CIDRMask n 16))"

definition ParseCIDR :: "string \<Rightarrow> network option" where
  "ParseCIDR s =
    (case cut_slash s of
       None \<Rightarrow> None
     | Some (host, bits) \<Rightarrow>
        (case parse_addr host of
           None \<Rightarrow> None
         | Some a \<Rightarrow>
            if bits = [] then None
            else case digits_value 0 bits of
              None \<Rightarrow> None
            | Some n \<Rightarrow> if n > bit_len a then None else Some (network_of a n)))"

text \<open>\<open>IPNet.Contains\<close>: a network of mapped addresses is compared in its four bytes.\<close>

definition net_contains :: "network \<Rightarrow> bytes \<Rightarrow> bool" where
  "net_contains net ip =
    (let nn = (case To4 (fst net) of Some q \<Rightarrow> q | None \<Rightarrow> fst net);
         m = (if length nn = 4 \<and> length (snd net) = 16 then drop 12 (snd net) else snd net);
         p = (case To4 ip of Some q \<Rightarrow> q | None \<Rightarrow> ip)
     in length p = length nn \<and> and_bytes nn m = and_bytes p m)"

section \<open>Host and port\<close>

text \<open>The host of \<open>net.SplitHostPort\<close>.\<close>

definition SplitHost :: "string \<Rightarrow> string option" where
  "SplitHost s =
    (let i = length s - length (takeWhile (\<lambda>c. c \<noteq> CHR '':'') (rev s)) - 1;
         e = length (takeWhile (\<lambda>c. c \<noteq> CHR '']'') s)
     in if CHR '':'' \<notin> set s then None
        else if hd s = CHR ''['' then
          (if CHR '']'' \<notin> set s \<or> e + 1 \<noteq> i \<or> CHR ''['' \<in> set (tl s) \<or> CHR '']'' \<in> set (drop (e + 1) s) then None
           else Some (take (e - 1) (tl s)))
        else if CHR '':'' \<in> set (take i s) \<or> CHR ''['' \<in> set s \<or> CHR '']'' \<in> set s then None
        else Some (take i s))"

end
