(* ===== verification/Config.thy ===== *)
theory Config
  imports Go_Net Org_Groups
begin

text \<open>
  The configuration of \<open>server/fleet/config.go\<close>: defaults and overriding values, validation, the update
  of several values in one transaction, and reading numbers from it. Values are decoded JSON, where
  every number is a \<open>float64\<close>; \<open>strconv.ParseFloat\<close> is an argument.
\<close>

record ConfigStore =
  cs_values :: "(string \<times> jval) list"
  cs_updated :: int

type_synonym config_world = "ConfigStore \<times> txs"

definition config_defaults :: "(string \<times> jval) list" where
  "config_defaults =
    [(''tdt_tk'', JStr []), (''tdt_origin'', JStr ''39.9042,116.4074''), (''bev_cell'', JNum (Fin (1 / 10))),
     (''maps_dir'', JStr ''data/maps''), (''fleet_addr'', JStr '':9800''), (''mqtt_addr'', JStr ''localhost:8883''),
     (''mqtt_tls'', JBool True), (''trusted_proxy_cidrs'', JStr []), (''authority_addr'', JStr ''embedded://fleet-hub''),
     (''chassis_type'', JStr ''ackermann''), (''telemetry_hz'', JNum (Fin 2)), (''map_push_s'', JNum (Fin 15)),
     (''open_api_enabled'', JBool True), (''audit_enabled'', JBool True), (''replay_window_s'', JNum (Fin 300)),
     (''rate_limit'', JNum (Fin 20)), (''open_lockout_threshold'', JNum (Fin 5)), (''open_lockout_window_s'', JNum (Fin 900)),
     (''open_lockout_seconds'', JNum (Fin 300)), (''open_api_key_default_lifetime_s'', JNum (Fin 7776000)),
     (''open_api_key_max_lifetime_s'', JNum (Fin 31536000))]"

definition config_get :: "ConfigStore \<Rightarrow> string \<Rightarrow> jval option" where
  "config_get c key = (case map_of (cs_values c) key of Some v \<Rightarrow> Some v | None \<Rightarrow> map_of config_defaults key)"

definition known_key :: "string \<Rightarrow> bool" where "known_key key \<longleftrightarrow> key \<in> fst ` set config_defaults"

section \<open>Loading\<close>

definition config_load :: "txs \<Rightarrow> (string \<times> jval) list \<times> txs" where
  "config_load s =
    (case tx_query platform_config s :: (unit tx_error + config_row list) \<times> txs of
       (Inl _, s') \<Rightarrow> ([], s')
     | (Inr rows, s') \<Rightarrow> (fold (\<lambda>r vs. if known_key (cf_key r) then AList.update (cf_key r) (cf_value r) vs else vs) rows [], s'))"

definition NewConfigStore :: "int \<Rightarrow> txs \<Rightarrow> config_world" where
  "NewConfigStore now s = (case config_load s of (vs, s') \<Rightarrow> (\<lparr>cs_values = vs, cs_updated = now\<rparr>, s'))"

section \<open>Validation\<close>

definition configNumber :: "jval \<Rightarrow> float64 option" where
  "configNumber v = (case v of JNum f \<Rightarrow> Some f | _ \<Rightarrow> None)"

definition configString :: "jval \<Rightarrow> string option" where
  "configString v = (case v of JStr s \<Rightarrow> Some (trim_space s) | _ \<Rightarrow> None)"

definition in_range :: "rat \<Rightarrow> rat \<Rightarrow> jval \<Rightarrow> bool" where
  "in_range lo hi v =
    (case configNumber v of
       None \<Rightarrow> False
     | Some n \<Rightarrow> \<not> (is_nan n \<or> is_inf n \<or> f64_lt n (Fin lo) \<or> f64_lt (Fin hi) n))"

fun is_whole :: "float64 \<Rightarrow> bool" where
  "is_whole (Fin q) = (q \<in> \<int>)"
| "is_whole _ = True"

definition whole_in_range :: "rat \<Rightarrow> rat \<Rightarrow> jval \<Rightarrow> bool" where
  "whole_in_range lo hi v \<longleftrightarrow> in_range lo hi v \<and> (case configNumber v of None \<Rightarrow> False | Some n \<Rightarrow> is_whole n)"

definition text_ok :: "(string \<Rightarrow> bool) \<Rightarrow> jval \<Rightarrow> bool" where
  "text_ok p v = (case configString v of None \<Rightarrow> False | Some s \<Rightarrow> p s)"

definition rune_count :: "string \<Rightarrow> nat" where "rune_count s = length (go_runes s)"

definition coordinate_ok :: "(string \<Rightarrow> float64 option) \<Rightarrow> rat \<Rightarrow> string \<Rightarrow> bool" where
  "coordinate_ok pf bound s =
    (case pf (trim_space s) of
       None \<Rightarrow> False
     | Some f \<Rightarrow> \<not> (is_nan f \<or> is_inf f \<or> f64_lt f (Fin (- bound)) \<or> f64_lt (Fin bound) f))"

definition origin_ok :: "(string \<Rightarrow> float64 option) \<Rightarrow> string \<Rightarrow> bool" where
  "origin_ok pf s = (case go_split CHR '','' s of [lat, lon] \<Rightarrow> coordinate_ok pf 90 lat \<and> coordinate_ok pf 180 lon | _ \<Rightarrow> False)"

definition cidrs_ok :: "string \<Rightarrow> bool" where
  "cidrs_ok s \<longleftrightarrow> rune_count s \<le> 2048 \<and>
     list_all (\<lambda>raw. trim_space raw = [] \<or> ParseCIDR (trim_space raw) \<noteq> None) (go_split CHR '','' s)"

definition validateConfigValue :: "(string \<Rightarrow> float64 option) \<Rightarrow> string \<Rightarrow> jval \<Rightarrow> bool" where
  "validateConfigValue pf key v =
    (if v = JNull then False
     else if key = ''tdt_tk'' then text_ok (\<lambda>s. rune_count s \<le> 512) v
     else if key = ''tdt_origin'' then text_ok (origin_ok pf) v
     else if key = ''maps_dir'' then text_ok (\<lambda>s. s \<noteq> [] \<and> rune_count s \<le> 512) v
     else if key \<in> {''fleet_addr'', ''mqtt_addr'', ''authority_addr''} then text_ok (\<lambda>s. s \<noteq> [] \<and> rune_count s \<le> 255) v
     else if key = ''trusted_proxy_cidrs'' then text_ok cidrs_ok v
     else if key \<in> {''mqtt_tls'', ''open_api_enabled'', ''audit_enabled''} then (case v of JBool _ \<Rightarrow> True | _ \<Rightarrow> False)
     else if key = ''chassis_type'' then text_ok (\<lambda>s. s \<in> {''ackermann'', ''4w4s'', ''diff_agv''}) v
     else if key = ''bev_cell'' then in_range (1 / 100) 2 v
     else if key = ''telemetry_hz'' then in_range (1 / 10) 20 v
     else if key = ''map_push_s'' then in_range 1 3600 v
     else if key = ''replay_window_s'' then in_range 1 3600 v
     else if key = ''rate_limit'' then whole_in_range 1 10000 v
     else if key = ''open_lockout_threshold'' then whole_in_range 1 100 v
     else if key \<in> {''open_lockout_window_s'', ''open_lockout_seconds''} then whole_in_range 10 86400 v
     else if key \<in> {''open_api_key_default_lifetime_s'', ''open_api_key_max_lifetime_s''} then whole_in_range 3600 31536000 v
     else False)"

section \<open>Updates\<close>

datatype config_error = ConfigRejected "string list" | ConfigEmpty | ConfigLifetimes | ConfigDb

definition upsert_config :: "string \<Rightarrow> string \<times> jval \<Rightarrow> db \<Rightarrow> db" where
  "upsert_config actor kv d =
    (let row = \<lparr>cf_key = fst kv, cf_value = snd kv, cf_updated_by = actor\<rparr>
     in if fst kv \<in> cf_key ` set (platform_config d)
        then d\<lparr>platform_config := update_where (\<lambda>r. cf_key r = fst kv) (\<lambda>r. row) (platform_config d)\<rparr>
        else d\<lparr>platform_config := platform_config d @ [row]\<rparr>)"

fun upsert_all :: "string \<Rightarrow> (string \<times> jval) list \<Rightarrow> (unit, unit) tx" where
  "upsert_all actor [] = tx_ret ()"
| "upsert_all actor (kv # kvs) = tx_bind (tx_exec (upsert_config actor kv)) (\<lambda>_. upsert_all actor kvs)"

definition lifetime_of :: "ConfigStore \<Rightarrow> string \<Rightarrow> float64" where
  "lifetime_of c key = (case Option.bind (config_get c key) configNumber of None \<Rightarrow> Fin 0 | Some f \<Rightarrow> f)"

definition with_values :: "(string \<times> jval) list \<Rightarrow> ConfigStore \<Rightarrow> ConfigStore" where
  "with_values kv c = c\<lparr>cs_values := fold (\<lambda>(k, v). AList.update k v) kv (cs_values c)\<rparr>"

text \<open>The order in which rejected keys are reported is sorted; the values are written in any order.\<close>

definition SetForActor ::
  "(string \<Rightarrow> float64 option) \<Rightarrow> int \<Rightarrow> (string \<times> jval) list \<Rightarrow> string \<Rightarrow> config_world \<Rightarrow> config_error option \<times> config_world" where
  "SetForActor pf now kv actor cw =
    (let c = fst cw;
         rejected = map fst (filter (\<lambda>(k, v). \<not> known_key k \<or> \<not> validateConfigValue pf k v) kv);
         candidate = with_values kv c
     in if rejected \<noteq> [] then (Some (ConfigRejected (sort rejected)), cw)
        else if kv = [] then (Some ConfigEmpty, cw)
        else if f64_lt (lifetime_of candidate ''open_api_key_max_lifetime_s'') (lifetime_of candidate ''open_api_key_default_lifetime_s'')
        then (Some ConfigLifetimes, cw)
        else case run_tx (upsert_all actor kv) (snd cw) of
          (Inl _, s') \<Rightarrow> (Some ConfigDb, (c, s'))
        | (Inr _, s') \<Rightarrow> (None, (candidate\<lparr>cs_updated := now\<rparr>, s')))"

section \<open>Reading\<close>

text \<open>A number in use; without a positive one, the given default.\<close>

definition cfgNum :: "ConfigStore \<Rightarrow> string \<Rightarrow> float64 \<Rightarrow> float64" where
  "cfgNum c key dflt = (case config_get c key of Some (JNum v) \<Rightarrow> if f64_lt (Fin 0) v then v else dflt | _ \<Rightarrow> dflt)"

text \<open>\<open>int64(f)\<close> truncates; what it gives for values beyond the range is that of the amd64 processor.\<close>

definition f64_int :: "float64 \<Rightarrow> int" where
  "f64_int f = (case f of
     Fin q \<Rightarrow> (let t = (if q < 0 then \<lceil>q\<rceil> else \<lfloor>q\<rfloor>) in if int64_min \<le> t \<and> t \<le> int64_max then t else int64_min)
   | _ \<Rightarrow> int64_min)"

definition cfgInt :: "ConfigStore \<Rightarrow> string \<Rightarrow> rat \<Rightarrow> int" where
  "cfgInt c key dflt = f64_int (cfgNum c key (Fin dflt))"

end
