(* ===== verification/Open_Api.thy ===== *)
theory Open_Api
  imports Config Auth Authority Navigation
begin

text \<open>
  The open interface of \<open>server/fleet/openapi.go\<close>: keys and their lifecycle, authentication of signed
  requests (lock-out, time window, nonces, signature, rate), permissions, and the routes behind them.
  SHA-256 and HMAC are arguments, and so is the decoding of a request body. One reading of the clock,
  in nanoseconds, serves a call.
\<close>

section \<open>State\<close>

definition defaultAPIKeyLifetime_s :: rat where "defaultAPIKeyLifetime_s = 7776000"
definition maxAPIKeyLifetime_s :: rat where "maxAPIKeyLifetime_s = 31536000"

record APIKey =
  key_ID :: string
  key_Name :: string
  key_Remark :: string
  key_Prefix :: string
  key_KeyHash :: string
  key_Scopes :: "string list"
  key_Vehicles :: "string list"
  key_IPs :: "string list"
  key_CreatedNS :: int
  key_ExpiresNS :: int
  key_RevokedNS :: int
  key_LastUsedNS :: int

record lockEntry =
  le_fails :: "int list"
  le_until :: int

record OpenAPI =
  oa_keys :: "(string \<times> APIKey) list"
  oa_byHash :: "(string \<times> string) list"
  oa_nonces :: "(string \<times> int) list"
  oa_hits :: "(string \<times> int list) list"
  oa_locks :: "(string \<times> lockEntry) list"

record open_world =
  ow_api :: OpenAPI
  ow_cfg :: ConfigStore
  ow_audit :: "AuditEntry list"
  ow_takeover :: TakeoverSnap
  ow_world :: world

definition on_api :: "(OpenAPI \<Rightarrow> OpenAPI) \<Rightarrow> open_world \<Rightarrow> open_world" where
  "on_api f w = w\<lparr>ow_api := f (ow_api w)\<rparr>"

definition ow_txs :: "open_world \<Rightarrow> txs" where "ow_txs w = snd (ow_world w)"

definition ow_set_txs :: "txs \<Rightarrow> open_world \<Rightarrow> open_world" where
  "ow_set_txs s w = w\<lparr>ow_world := (fst (ow_world w), s)\<rparr>"

definition open_log :: "ext \<Rightarrow> AuditEntry \<Rightarrow> open_world \<Rightarrow> open_world" where
  "open_log x e w = (case logAudit x e (ow_audit w, ow_txs w) of (ring, s) \<Rightarrow> ow_set_txs s (w\<lparr>ow_audit := ring\<rparr>))"

definition unix_s :: "int \<Rightarrow> int" where "unix_s ns = ns div second"

section \<open>Permissions\<close>

definition openScopeCatalog :: "string list" where
  "openScopeCatalog = [''vehicle.read'', ''telemetry.read'', ''alarm.read'', ''task.read'', ''task.write'', ''control.write'']"

definition validScope :: "string \<Rightarrow> bool" where "validScope i \<longleftrightarrow> i \<in> set openScopeCatalog"

definition hasScope :: "APIKey \<Rightarrow> string \<Rightarrow> bool" where "hasScope k scope \<longleftrightarrow> scope \<in> set (key_Scopes k)"

definition vehicleAllowed :: "APIKey \<Rightarrow> string \<Rightarrow> bool" where
  "vehicleAllowed k vid \<longleftrightarrow> list_ex (\<lambda>v. v = ''*'' \<or> v = vid) (key_Vehicles k)"

definition validateIPs :: "string list \<Rightarrow> string option" where
  "validateIPs ips = find (\<lambda>s. if CHR ''/'' \<in> set s then ParseCIDR s = None else ParseIP s = None) ips"

definition ipAllowed :: "APIKey \<Rightarrow> string \<Rightarrow> bool" where
  "ipAllowed k ip \<longleftrightarrow>
    key_IPs k = [] \<or> list_ex (\<lambda>item. item = ip \<or> (CHR ''/'' \<in> set item \<and>
      (case (ParseCIDR item, ParseIP ip) of (Some net, Some p) \<Rightarrow> net_contains net p | _ \<Rightarrow> False))) (key_IPs k)"

section \<open>Keys\<close>

fun dedupe_loop :: "string list \<Rightarrow> string list \<Rightarrow> string list" where
  "dedupe_loop seen [] = []"
| "dedupe_loop seen (s # ss) =
    (let t = trim_space s in if t = [] \<or> t \<in> set seen then dedupe_loop seen ss else t # dedupe_loop (t # seen) ss)"

definition dedupeStr :: "string list \<Rightarrow> string list" where "dedupeStr = dedupe_loop []"

datatype open_key_error =
    KeyNameLong | KeyScope string | KeyIp string | KeyPolicy | KeyExpiryPast | KeyExpiryFar | KeyRandom
  | KeyStore | KeyClash | KeyUnknown | KeyRevoked | KeyNameEmpty | KeyNotStored

definition key_of_row :: "api_key_row \<Rightarrow> APIKey option" where
  "key_of_row r =
    (case (ak_scopes r, ak_vehicles r, ak_ips r) of
       (Some sc, Some vh, Some ips) \<Rightarrow>
         if ak_id r = [] \<or> ak_key_hash r = [] then None
         else Some \<lparr>key_ID = ak_id r, key_Name = ak_name r, key_Remark = ak_remark r, key_Prefix = ak_prefix r,
                key_KeyHash = ak_key_hash r, key_Scopes = dedupeStr sc, key_Vehicles = dedupeStr vh, key_IPs = dedupeStr ips,
                key_CreatedNS = ak_created_at r, key_ExpiresNS = ak_expires_at r,
                key_RevokedNS = (case ak_revoked_at r of None \<Rightarrow> 0 | Some t \<Rightarrow> t),
                key_LastUsedNS = (case ak_last_used_at r of None \<Rightarrow> 0 | Some t \<Rightarrow> t)\<rparr>
     | _ \<Rightarrow> None)"

definition load_key :: "api_key_row \<Rightarrow> OpenAPI \<Rightarrow> OpenAPI" where
  "load_key r o1 =
    (case key_of_row r of
       None \<Rightarrow> o1
     | Some k \<Rightarrow> o1\<lparr>oa_keys := AList.update (key_ID k) k (oa_keys o1),
                   oa_byHash := (if key_RevokedNS k = 0 then AList.update (key_KeyHash k) (key_ID k) (oa_byHash o1) else oa_byHash o1)\<rparr>)"

definition empty_api :: OpenAPI where
  "empty_api = \<lparr>oa_keys = [], oa_byHash = [], oa_nonces = [], oa_hits = [], oa_locks = []\<rparr>"

definition loadKeys :: "txs \<Rightarrow> OpenAPI \<times> txs" where
  "loadKeys s =
    (case tx_query (\<lambda>d. order_desc ak_created_at (api_keys d)) s :: (unit tx_error + api_key_row list) \<times> txs of
       (Inl _, s') \<Rightarrow> (empty_api, s')
     | (Inr rows, s') \<Rightarrow> (fold load_key rows empty_api, s'))"

text \<open>One policy for the lifetime of keys; the result is the instant of expiry.\<close>

definition resolveAPIKeyExpiry :: "ConfigStore \<Rightarrow> int \<Rightarrow> int option \<Rightarrow> open_key_error + int" where
  "resolveAPIKeyExpiry c now requested =
    (let defaultS = cfgNum c ''open_api_key_default_lifetime_s'' (Fin defaultAPIKeyLifetime_s);
         maxS = cfgNum c ''open_api_key_max_lifetime_s'' (Fin maxAPIKeyLifetime_s)
     in if f64_le defaultS (Fin 0) \<or> f64_le maxS (Fin 0) \<or> f64_lt maxS defaultS \<or> f64_lt (Fin maxAPIKeyLifetime_s) maxS
        then Inl KeyPolicy
        else case requested of
          None \<Rightarrow> Inr (now + f64_int defaultS * second)
        | Some e \<Rightarrow>
           if \<not> e > now then Inl KeyExpiryPast
           else if e > now + f64_int maxS * second then Inl KeyExpiryFar
           else Inr e)"

definition insert_key :: "ext \<Rightarrow> int \<Rightarrow> APIKey \<Rightarrow> string \<Rightarrow> db \<Rightarrow> (unit \<times> db) option" where
  "insert_key x dbnow k actor d =
    (if \<exists>r \<in> set (api_keys d). ak_id r = key_ID k \<or> ak_key_hash r = key_KeyHash k then None
     else Some ((), d\<lparr>api_keys := api_keys d @
       [\<lparr>ak_id = key_ID k, ak_name = key_Name k, ak_prefix = key_Prefix k, ak_key_hash = key_KeyHash k, ak_remark = key_Remark k,
         ak_scopes = Some (key_Scopes k), ak_vehicles = Some (key_Vehicles k), ak_ips = Some (key_IPs k), ak_created_at = dbnow,
         ak_expires_at = x_ts x (key_ExpiresNS k), ak_revoked_at = None, ak_last_used_at = None, ak_created_by = actor\<rparr>]\<rparr>))"

text \<open>The secret is drawn at random; the key is named and stored by its hash.\<close>

definition new_key :: "kdf \<Rightarrow> string \<Rightarrow> string \<Rightarrow> string \<Rightarrow> string list \<Rightarrow> string list \<Rightarrow> string list \<Rightarrow> int \<Rightarrow> int \<Rightarrow> APIKey" where
  "new_key k secret name remark scopes vhs ips now expires =
    (let sum = k_sha256 k (string_bytes secret)
     in \<lparr>key_ID = ''key-'' @ hex_encode (take 4 sum), key_Name = name, key_Remark = trimRune remark 200, key_Prefix = take 12 secret,
         key_KeyHash = hex_encode sum, key_Scopes = scopes, key_Vehicles = vhs, key_IPs = ips, key_CreatedNS = now,
         key_ExpiresNS = expires, key_RevokedNS = 0, key_LastUsedNS = 0\<rparr>)"

definition CreateKeyWithExpiry ::
  "kdf \<Rightarrow> ext \<Rightarrow> int \<Rightarrow> int \<Rightarrow> bytes option \<Rightarrow> string \<Rightarrow> string \<Rightarrow> string list \<Rightarrow> string list \<Rightarrow> string list \<Rightarrow> string \<Rightarrow> int option \<Rightarrow>
   open_world \<Rightarrow> (open_key_error + APIKey \<times> string) \<times> open_world" where
  "CreateKeyWithExpiry k x now dbnow raw name0 remark scopes0 vehicles0 ips0 actor requested w =
    (let name = (if trim_space name0 = [] then ''open-api'' else trim_space name0);
         scopes = dedupeStr scopes0; vhs = dedupeStr vehicles0; ips = dedupeStr ips0
     in if rune_count name > 100 then (Inl KeyNameLong, w)
        else case find (\<lambda>s. \<not> validScope s) scopes of
          Some s \<Rightarrow> (Inl (KeyScope s), w)
        | None \<Rightarrow>
           (case validateIPs ips of
              Some s \<Rightarrow> (Inl (KeyIp s), w)
            | None \<Rightarrow>
               (case resolveAPIKeyExpiry (ow_cfg w) now requested of
                  Inl e \<Rightarrow> (Inl e, w)
                | Inr expires \<Rightarrow>
                   (case raw of
                      None \<Rightarrow> (Inl KeyRandom, w)
                    | Some b \<Rightarrow>
                       (let secret = ''ra_ak_'' @ hex_encode b;
                            key = new_key k secret name remark scopes vhs ips now expires
                        in case db_exec (insert_key x dbnow key actor) (ow_txs w) of
                             (False, s) \<Rightarrow> (Inl KeyStore, ow_set_txs s w)
                           | (True, s) \<Rightarrow>
                              if map_of (oa_keys (ow_api w)) (key_ID key) \<noteq> None then (Inl KeyClash, ow_set_txs s w)
                              else (Inr (key, secret),
                                open_log x (no_entry\<lparr>ae_TsNS := now, ae_KeyID := key_ID key, ae_KeyName := name, ae_Method := ''-'',
                                    ae_Path := ''/api/openkeys'', ae_Result := ''ok'', ae_HTTP := 200, ae_Remark := key_Remark key,
                                    ae_Detail := Text ''key created'' [actor]\<rparr>)
                                  (on_api (\<lambda>a. a\<lparr>oa_keys := AList.update (key_ID key) key (oa_keys a),
                                     oa_byHash := AList.update (key_KeyHash key) (key_ID key) (oa_byHash a)\<rparr>) (ow_set_txs s w))))))))"

record KeyPatch =
  kp_Name :: "string option"
  kp_Remark :: "string option"
  kp_Scopes :: "string list option"
  kp_Vehicles :: "string list option"
  kp_IPs :: "string list option"
  kp_ExpiresNS :: "int option"

definition patched_key :: "ConfigStore \<Rightarrow> int \<Rightarrow> KeyPatch \<Rightarrow> APIKey \<Rightarrow> open_key_error + APIKey" where
  "patched_key c now p k0 =
    (case (case kp_Name p of None \<Rightarrow> Inr (key_Name k0) | Some n \<Rightarrow> if trim_space n = [] then Inl KeyNameEmpty else Inr (trim_space n)) of
       Inl e \<Rightarrow> Inl e
     | Inr name \<Rightarrow>
        if rune_count name > 100 then Inl KeyNameLong
        else case (case kp_Scopes p of None \<Rightarrow> None | Some sc \<Rightarrow> find (\<lambda>s. \<not> validScope s) (dedupeStr sc)) of
          Some s \<Rightarrow> Inl (KeyScope s)
        | None \<Rightarrow>
           (case (case kp_IPs p of None \<Rightarrow> None | Some ips \<Rightarrow> validateIPs (dedupeStr ips)) of
              Some s \<Rightarrow> Inl (KeyIp s)
            | None \<Rightarrow>
               (case (case kp_ExpiresNS p of None \<Rightarrow> Inr (key_ExpiresNS k0) | Some e \<Rightarrow> resolveAPIKeyExpiry c now (Some e)) of
                  Inl e \<Rightarrow> Inl e
                | Inr expires \<Rightarrow>
                   Inr (k0\<lparr>key_Name := name,
                     key_Remark := (case kp_Remark p of None \<Rightarrow> key_Remark k0 | Some r \<Rightarrow> trimRune r 200),
                     key_Scopes := (case kp_Scopes p of None \<Rightarrow> key_Scopes k0 | Some sc \<Rightarrow> dedupeStr sc),
                     key_Vehicles := (case kp_Vehicles p of None \<Rightarrow> key_Vehicles k0 | Some v \<Rightarrow> dedupeStr v),
                     key_IPs := (case kp_IPs p of None \<Rightarrow> key_IPs k0 | Some ips \<Rightarrow> dedupeStr ips),
                     key_ExpiresNS := expires\<rparr>))))"

definition update_key_stmt :: "ext \<Rightarrow> APIKey \<Rightarrow> db \<Rightarrow> (unit \<times> db) option" where
  "update_key_stmt x k d = Some ((), d\<lparr>api_keys := update_where (\<lambda>r. ak_id r = key_ID k \<and> ak_revoked_at r = None)
     (\<lambda>r. r\<lparr>ak_name := key_Name k, ak_remark := key_Remark k, ak_scopes := Some (key_Scopes k), ak_vehicles := Some (key_Vehicles k),
           ak_ips := Some (key_IPs k), ak_expires_at := x_ts x (key_ExpiresNS k)\<rparr>) (api_keys d)\<rparr>)"

definition UpdateKey :: "ext \<Rightarrow> int \<Rightarrow> string \<Rightarrow> KeyPatch \<Rightarrow> string \<Rightarrow> open_world \<Rightarrow> (open_key_error + APIKey) \<times> open_world" where
  "UpdateKey x now i p actor w =
    (case map_of (oa_keys (ow_api w)) i of
       None \<Rightarrow> (Inl KeyUnknown, w)
     | Some current \<Rightarrow>
        if key_RevokedNS current \<noteq> 0 then (Inl KeyRevoked, w)
        else case patched_key (ow_cfg w) now p current of
          Inl e \<Rightarrow> (Inl e, w)
        | Inr k \<Rightarrow>
           (case db_exec (update_key_stmt x k) (ow_txs w) of
              (False, s) \<Rightarrow> (Inl KeyStore, ow_set_txs s w)
            | (True, s) \<Rightarrow> (Inr k, open_log x (no_entry\<lparr>ae_TsNS := now, ae_KeyID := i, ae_KeyName := key_Name k, ae_Method := ''-'',
                 ae_Path := ''/api/openkeys/'' @ i @ ''/update'', ae_Result := ''ok'', ae_HTTP := 200, ae_Detail := Text ''key updated'' [actor]\<rparr>)
                 (on_api (\<lambda>a. a\<lparr>oa_keys := AList.update i k (oa_keys a)\<rparr>) (ow_set_txs s w)))))"

definition ListKeys :: "OpenAPI \<Rightarrow> APIKey list" where
  "ListKeys a = sort_key (\<lambda>k. - key_CreatedNS k) (map snd (oa_keys a))"

text \<open>The revocation must touch one row; the stored instant went through a \<open>double precision\<close> number.\<close>

definition revoke_key_stmt :: "(int \<Rightarrow> int) \<Rightarrow> int \<Rightarrow> string \<Rightarrow> db \<Rightarrow> (bool \<times> db) option" where
  "revoke_key_stmt dp now i d =
    (let p = (\<lambda>r. ak_id r = i \<and> ak_revoked_at r = None)
     in Some (count_where p (api_keys d) = 1, d\<lparr>api_keys := update_where p (\<lambda>r. r\<lparr>ak_revoked_at := Some (dp now)\<rparr>) (api_keys d)\<rparr>))"

definition RevokeKey :: "ext \<Rightarrow> (int \<Rightarrow> int) \<Rightarrow> int \<Rightarrow> string \<Rightarrow> string \<Rightarrow> open_world \<Rightarrow> open_key_error option \<times> open_world" where
  "RevokeKey x dp now i actor w =
    (case map_of (oa_keys (ow_api w)) i of
       None \<Rightarrow> (Some KeyUnknown, w)
     | Some k \<Rightarrow>
        if key_RevokedNS k \<noteq> 0 then (Some KeyRevoked, w)
        else case tx_stmt (revoke_key_stmt dp now i) (ow_txs w) :: (unit tx_error + bool) \<times> txs of
          (Inl _, s) \<Rightarrow> (Some KeyStore, ow_set_txs s w)
        | (Inr False, s) \<Rightarrow> (Some KeyNotStored, ow_set_txs s w)
        | (Inr True, s) \<Rightarrow>
           (None, open_log x (no_entry\<lparr>ae_TsNS := now, ae_KeyID := i, ae_KeyName := key_Name k, ae_Method := ''-'',
               ae_Path := ''/api/openkeys/'' @ i @ ''/revoke'', ae_Result := ''ok'', ae_HTTP := 200, ae_Detail := Text ''key revoked'' [actor]\<rparr>)
             (on_api (\<lambda>a. a\<lparr>oa_keys := AList.update i (k\<lparr>key_RevokedNS := now\<rparr>) (oa_keys a),
                            oa_byHash := AList.delete (key_KeyHash k) (oa_byHash a)\<rparr>) (ow_set_txs s w))))"

section \<open>Requests\<close>

text \<open>A request with its body read; header names are in canonical form, the query is decoded.\<close>

record api_request =
  ar_method :: string
  ar_path :: string
  ar_headers :: "(string \<times> string) list"
  ar_query :: "(string \<times> string) list"
  ar_remote :: string
  ar_body :: bytes

definition ar_header :: "string \<Rightarrow> api_request \<Rightarrow> string" where
  "ar_header n r = (case map_of (ar_headers r) n of None \<Rightarrow> [] | Some v \<Rightarrow> v)"

definition ar_param :: "string \<Rightarrow> api_request \<Rightarrow> string" where
  "ar_param n r = (case map_of (ar_query r) n of None \<Rightarrow> [] | Some v \<Rightarrow> v)"

definition remoteIP :: "api_request \<Rightarrow> string" where
  "remoteIP r = (case SplitHost (ar_remote r) of Some h \<Rightarrow> h | None \<Rightarrow> ar_remote r)"

definition trim_brackets :: "string \<Rightarrow> string" where
  "trim_brackets s = (let p = (\<lambda>c. c = CHR ''['' \<or> c = CHR '']'') in rev (dropWhile p (rev (dropWhile p s))))"

text \<open>The forwarded address counts only when the peer is in a configured network; the first that parses.\<close>

definition forwarded_ip :: "string \<Rightarrow> string option" where
  "forwarded_ip h = map_option ip_string (Option.bind (find (\<lambda>f. ParseIP (trim_space f) \<noteq> None) (go_split CHR '','' h)) (\<lambda>f. ParseIP (trim_space f)))"

definition clientIP :: "ConfigStore \<Rightarrow> api_request \<Rightarrow> string" where
  "clientIP c r =
    (let peer = remoteIP r;
         trusted = (case config_get c ''trusted_proxy_cidrs'' of Some (JStr s) \<Rightarrow> s | _ \<Rightarrow> [])
     in case ParseIP (trim_brackets peer) of
          None \<Rightarrow> peer
        | Some p \<Rightarrow>
           if list_ex (\<lambda>raw. case ParseCIDR (trim_space raw) of None \<Rightarrow> False | Some net \<Rightarrow> net_contains net p) (go_split CHR '','' trusted)
           then (case forwarded_ip (ar_header ''X-Forwarded-For'' r) of Some ip \<Rightarrow> ip | None \<Rightarrow> peer)
           else peer)"

section \<open>Authentication\<close>

definition lock_targets :: "string \<Rightarrow> string \<Rightarrow> string list" where
  "lock_targets ip keyID = (''ip:'' @ ip) # (if keyID \<noteq> [] then [''id:'' @ keyID] else [])"

text \<open>The remaining seconds of a lock on one of the targets; a lock that has run out is forgotten.\<close>

fun locked_loop :: "int \<Rightarrow> string list \<Rightarrow> (string \<times> lockEntry) list \<Rightarrow> int option \<times> (string \<times> lockEntry) list" where
  "locked_loop nowU [] ls = (None, ls)"
| "locked_loop nowU (t # ts) ls =
    (case map_of ls t of
       None \<Rightarrow> locked_loop nowU ts ls
     | Some e \<Rightarrow>
        if le_until e > nowU then (Some (le_until e - nowU), ls)
        else locked_loop nowU ts (if le_until e > 0 then AList.delete t ls else ls))"

definition locked :: "int \<Rightarrow> string \<Rightarrow> string \<Rightarrow> OpenAPI \<Rightarrow> int option \<times> OpenAPI" where
  "locked nowU ip keyID a = (case locked_loop nowU (lock_targets ip keyID) (oa_locks a) of (r, ls) \<Rightarrow> (r, a\<lparr>oa_locks := ls\<rparr>))"

definition fail_once :: "int \<Rightarrow> int \<Rightarrow> int \<Rightarrow> int \<Rightarrow> lockEntry \<Rightarrow> lockEntry" where
  "fail_once th win lockS nowU e =
    (if le_until e > nowU then e
     else let fails = filter (\<lambda>ts. ts > nowU - win) (le_fails e) @ [nowU]
          in if int (length fails) \<ge> th then \<lparr>le_fails = [], le_until = nowU + lockS\<rparr> else e\<lparr>le_fails := fails\<rparr>)"

definition fail_target :: "int \<Rightarrow> int \<Rightarrow> int \<Rightarrow> int \<Rightarrow> string \<Rightarrow> (string \<times> lockEntry) list \<Rightarrow> (string \<times> lockEntry) list" where
  "fail_target th win lockS nowU t ls =
    AList.update t (fail_once th win lockS nowU (case map_of ls t of None \<Rightarrow> \<lparr>le_fails = [], le_until = 0\<rparr> | Some e \<Rightarrow> e)) ls"

definition recordFail :: "ConfigStore \<Rightarrow> int \<Rightarrow> string list \<Rightarrow> OpenAPI \<Rightarrow> OpenAPI" where
  "recordFail c nowU targets a =
    (let th = cfgInt c ''open_lockout_threshold'' 5; win = cfgInt c ''open_lockout_window_s'' 900;
         lockS = cfgInt c ''open_lockout_seconds'' 300;
         kept = filter (\<lambda>(t, e). \<not> (le_until e > 0 \<and> le_until e < nowU - 3600)) (oa_locks a)
     in a\<lparr>oa_locks := fold (fail_target th win lockS nowU) targets kept\<rparr>)"

datatype open_auth = Authentic APIKey | KeyExpired APIKey | Denied string "string list"

text \<open>The text under the signature: a line each for method, path, time, nonce and the hash of the body.\<close>

definition signed_text :: "kdf \<Rightarrow> api_request \<Rightarrow> string" where
  "signed_text k r = ar_method r @ [CHR 0x0A] @ ar_path r @ [CHR 0x0A] @ ar_header ''X-Timestamp'' r @ [CHR 0x0A]
     @ ar_header ''X-Nonce'' r @ [CHR 0x0A] @ hex_encode (k_sha256 k (ar_body r)) @ [CHR 0x0A]"

definition signature :: "kdf \<Rightarrow> APIKey \<Rightarrow> api_request \<Rightarrow> string" where
  "signature k key r = hex_encode (k_hmac k (string_bytes (key_KeyHash key)) (string_bytes (signed_text k r)))"

text \<open>First phase under the lock: key, expiry, address, nonce. The nonce is used up before the signature is checked.\<close>

definition admit_nonce :: "int \<Rightarrow> string \<Rightarrow> (string \<times> int) list \<Rightarrow> (string \<times> int) list" where
  "admit_nonce nowU nonce ns = filter (\<lambda>(n, e). \<not> e \<le> nowU) (AList.update nonce (nowU + 600) ns)"

datatype admission = Admit APIKey | Expired APIKey | Fail string | Replayed

definition admit :: "int \<Rightarrow> string \<Rightarrow> string \<Rightarrow> string \<Rightarrow> OpenAPI \<Rightarrow> admission \<times> OpenAPI" where
  "admit now keyID nonce ip a =
    (case map_of (oa_keys a) keyID of
       None \<Rightarrow> (Fail ''unknown key'', a)
     | Some k \<Rightarrow>
        if key_RevokedNS k > 0 then (Fail ''unknown key'', a)
        else if key_ExpiresNS k \<le> 0 \<or> key_ExpiresNS k \<le> now then (Expired k, a)
        else if \<not> ipAllowed k ip then (Fail ''address'', a)
        else case map_of (oa_nonces a) nonce of
          Some e \<Rightarrow> if e > unix_s now then (Replayed, a) else (Admit k, a\<lparr>oa_nonces := admit_nonce (unix_s now) nonce (oa_nonces a)\<rparr>)
        | None \<Rightarrow> (Admit k, a\<lparr>oa_nonces := admit_nonce (unix_s now) nonce (oa_nonces a)\<rparr>))"

text \<open>
  Second phase under the lock: the rate, and the bookkeeping of a success. The instants are filtered in
  place, so a refused request leaves them moved to the front of the list, which keeps its length.
\<close>

definition rate_phase :: "ConfigStore \<Rightarrow> int \<Rightarrow> string \<Rightarrow> string \<Rightarrow> APIKey \<Rightarrow> OpenAPI \<Rightarrow> APIKey option \<times> OpenAPI" where
  "rate_phase c now keyID ip stored a =
    (let limit = cfgInt c ''rate_limit'' 20;
         recent = (case map_of (oa_hits a) keyID of None \<Rightarrow> [] | Some ts \<Rightarrow> ts);
         kept = filter (\<lambda>t. t > now - 10 * second) recent
     in if int (length kept) \<ge> limit
        then (None, if recent = [] then a else a\<lparr>oa_hits := AList.update keyID (kept @ drop (length kept) recent) (oa_hits a)\<rparr>)
        else let k = stored\<lparr>key_LastUsedNS := now\<rparr>
             in (Some k, a\<lparr>oa_hits := AList.update keyID (kept @ [now]) (oa_hits a),
                          oa_keys := (case map_of (oa_keys a) keyID of None \<Rightarrow> oa_keys a | Some _ \<Rightarrow> AList.update keyID k (oa_keys a)),
                          oa_locks := AList.delete (''ip:'' @ ip) (AList.delete (''id:'' @ keyID) (oa_locks a))\<rparr>))"

definition fresh_timestamp :: "ConfigStore \<Rightarrow> int \<Rightarrow> int \<Rightarrow> bool" where
  "fresh_timestamp c nowU ts \<longleftrightarrow>
    (let win = f64_int (cfgNum c ''replay_window_s'' (Fin 300)); d = wrap64 (nowU - ts) in \<not> (d > win \<or> d < - win))"

definition authenticate :: "kdf \<Rightarrow> ext \<Rightarrow> int \<Rightarrow> api_request \<Rightarrow> open_world \<Rightarrow> open_auth \<times> open_world" where
  "authenticate k x now r w =
    (let c = ow_cfg w; nowU = unix_s now; ip = clientIP c r; keyID = ar_header ''X-Api-Key'' r;
         tsStr = ar_header ''X-Timestamp'' r; nonce = ar_header ''X-Nonce'' r; sig = ar_header ''X-Signature'' r;
         failed = (\<lambda>msg w. (Denied ''auth_failed'' [msg], on_api (recordFail c nowU (lock_targets ip keyID)) w))
     in case locked nowU ip keyID (ow_api w) of
          (Some left, a) \<Rightarrow> (Denied ''locked'' [show_int left], w\<lparr>ow_api := a\<rparr>)
        | (None, a) \<Rightarrow>
           (let w1 = w\<lparr>ow_api := a\<rparr>
            in if keyID = [] \<or> tsStr = [] \<or> nonce = [] \<or> sig = [] then failed ''headers'' w1
               else case go_atoi tsStr of
                 None \<Rightarrow> failed ''timestamp'' w1
               | Some ts \<Rightarrow>
                  if \<not> fresh_timestamp c nowU ts then failed ''window'' w1
                  else case admit now keyID nonce ip a of
                    (Fail msg, a2) \<Rightarrow> failed msg (w1\<lparr>ow_api := a2\<rparr>)
                  | (Expired key, a2) \<Rightarrow> (KeyExpired key, w1\<lparr>ow_api := a2\<rparr>)
                  | (Replayed, a2) \<Rightarrow>
                      (Denied ''replay'' [], on_api (recordFail c nowU (lock_targets ip keyID)) (w1\<lparr>ow_api := a2\<rparr>))
                  | (Admit stored, a2) \<Rightarrow>
                     if signature k stored r \<noteq> sig then failed ''signature'' (w1\<lparr>ow_api := a2\<rparr>)
                     else case rate_phase c now keyID ip stored a2 of
                       (None, a3) \<Rightarrow> (Denied ''rate_limited'' [], w1\<lparr>ow_api := a3\<rparr>)
                     | (Some key, a3) \<Rightarrow>
                         (Authentic key, w1\<lparr>ow_api := a3,
                            ow_world := submitDB now (JobTouchKey keyID (x_ts x now)) (ow_world w1)\<rparr>)))"

end
