(* ===== verification/Open_Routes.thy ===== *)
theory Open_Routes
  imports Open_Api
begin

text \<open>
  The routes of the open interface in \<open>server/fleet/openapi.go\<close>, from \<open>ServeOpen\<close> to the calls of
  the navigation store and the control authority. Each route asks for one permission of the key and,
  where a vehicle is named, for the vehicle. Decoding a JSON body into the fields of a route is an
  argument; wording of messages is kept as a tag with its parameters.
\<close>

section \<open>What a request is answered\<close>

record nav_request =
  nq_vehicle :: string
  nq_name :: string
  nq_trace :: string
  nq_points :: "NavPoint list"
  nq_from :: "NavPoint option"
  nq_to :: "NavPoint option"

record vehicleSummary =
  vs_VehicleID :: string
  vs_Group :: string
  vs_Online :: bool
  vs_Mode :: string
  vs_SpeedMPS :: float64
  vs_SOC :: float64
  vs_Gear :: string
  vs_Gps :: "bool \<times> float64 \<times> float64 \<times> float64"
  vs_Pose :: "bool \<times> string \<times> float64 \<times> float64 \<times> float64"
  vs_LastHeartbeatAgeS :: float64

definition summarize :: "VehicleSnap \<Rightarrow> vehicleSummary" where
  "summarize v = \<lparr>vs_VehicleID = sp_VehicleID v, vs_Group = sp_Group v, vs_Online = sp_Online v, vs_Mode = sp_Mode v,
     vs_SpeedMPS = sp_SpeedMPS v, vs_SOC = sp_SOC v, vs_Gear = sp_Gear v, vs_Gps = sp_Gps v, vs_Pose = sp_Pose v,
     vs_LastHeartbeatAgeS = sp_LastHeartbeatAgeS v\<rparr>"

datatype open_data =
    DataMeta int APIKey int float64 float64 float64
  | DataVehicles "vehicleSummary list"
  | DataVehicle string string string bool string "(string \<times> string) list" float64
  | DataTelemetry VehicleSnap
  | DataAlarms string "EventSnap list"
  | DataStatus "NavRoute option"
  | DataRoutes "NavRoute list"
  | DataRoute NavRoute
  | DataStopped

text \<open>A handler that panics answers nothing; \<open>net/http\<close> closes the connection.\<close>

datatype open_reply = ReplyOk string open_data | ReplyErr int string | Panicked

record open_env =
  oe_kdf :: kdf
  oe_ext :: ext
  oe_wire :: wire
  oe_marshal :: "NavigationCommand \<Rightarrow> bytes option"
  oe_float :: "rat \<Rightarrow> float64"
  oe_json_remark :: "bytes \<Rightarrow> string option"
  oe_json_nav :: "bytes \<Rightarrow> nav_request option"
  oe_json_cancel :: "bytes \<Rightarrow> (string \<times> string) option"
  oe_json_vehicle :: "bytes \<Rightarrow> bool \<times> string"
  oe_authority :: "DurableAuthority option"

record open_readings =
  or_now :: gotime
  or_nav :: nav_readings
  or_auth :: readings

section \<open>The remark of a call\<close>

fun query_unescape :: "string \<Rightarrow> string option" where
  "query_unescape [] = Some []"
| "query_unescape (c # cs) =
    (if c = CHR ''%'' then
       (case cs of
          a # b # rest \<Rightarrow>
            (case (hex_value a, hex_value b) of
               (Some u, Some v) \<Rightarrow> map_option (\<lambda>t. char_of (u * 16 + v) # t) (query_unescape rest)
             | _ \<Rightarrow> None)
        | _ \<Rightarrow> None)
     else map_option (\<lambda>t. (if c = CHR ''+'' then CHR '' '' else c) # t) (query_unescape cs))"

definition extractRemark :: "open_env \<Rightarrow> api_request \<Rightarrow> string" where
  "extractRemark env r =
    (let h = ar_header ''X-Remark'' r;
         q = (if h = [] then ar_param ''remark'' r else h);
         b = (if q = [] \<and> ar_body r \<noteq> [] then (case oe_json_remark env (ar_body r) of Some s \<Rightarrow> s | None \<Rightarrow> q) else q)
     in trimRune (case query_unescape b of Some s \<Rightarrow> s | None \<Rightarrow> b) 200)"

section \<open>Answers and their audit entries\<close>

definition auditOK ::
  "open_env \<Rightarrow> open_readings \<Rightarrow> api_request \<Rightarrow> APIKey \<Rightarrow> string \<Rightarrow> string \<Rightarrow> string \<Rightarrow> open_data \<Rightarrow> open_world \<Rightarrow> open_reply \<times> open_world" where
  "auditOK env rd r key trace vid remark data w =
    (ReplyOk trace data,
     open_log (oe_ext env) (no_entry\<lparr>ae_TsNS := wall (or_now rd), ae_KeyID := key_ID key, ae_KeyName := key_Name key,
       ae_Method := ar_method r, ae_Path := ar_path r, ae_Result := ''ok'', ae_HTTP := 200, ae_IP := clientIP (ow_cfg w) r,
       ae_TraceID := trace, ae_VehicleID := vid, ae_Remark := remark\<rparr>) w)"

definition auditErr ::
  "open_env \<Rightarrow> open_readings \<Rightarrow> api_request \<Rightarrow> APIKey option \<Rightarrow> int \<Rightarrow> string \<Rightarrow> string \<Rightarrow> audit_text \<Rightarrow> string \<Rightarrow> string \<Rightarrow>
   open_world \<Rightarrow> open_reply \<times> open_world" where
  "auditErr env rd r key httpCode code result msg vid remark w =
    (ReplyErr httpCode code,
     open_log (oe_ext env) (no_entry\<lparr>ae_TsNS := wall (or_now rd), ae_KeyID := (case key of None \<Rightarrow> [] | Some k \<Rightarrow> key_ID k),
       ae_KeyName := (case key of None \<Rightarrow> [] | Some k \<Rightarrow> key_Name k), ae_Method := ar_method r, ae_Path := ar_path r,
       ae_Result := result, ae_HTTP := httpCode, ae_IP := clientIP (ow_cfg w) r, ae_VehicleID := vid, ae_Remark := remark,
       ae_Detail := msg\<rparr>) w)"

definition bad_request ::
  "open_env \<Rightarrow> open_readings \<Rightarrow> api_request \<Rightarrow> APIKey \<Rightarrow> string \<Rightarrow> string \<Rightarrow> string \<Rightarrow> open_world \<Rightarrow> open_reply \<times> open_world" where
  "bad_request env rd r key tag vid remark w =
     auditErr env rd r (Some key) 400 ''BAD_REQUEST'' ''bad_request'' (Text tag []) vid remark w"

definition not_found ::
  "open_env \<Rightarrow> open_readings \<Rightarrow> api_request \<Rightarrow> APIKey \<Rightarrow> string \<Rightarrow> string \<Rightarrow> string \<Rightarrow> open_world \<Rightarrow> open_reply \<times> open_world" where
  "not_found env rd r key tag vid remark w =
     auditErr env rd r (Some key) 404 ''NOT_FOUND'' ''bad_request'' (Text tag []) vid remark w"

definition denyScope ::
  "open_env \<Rightarrow> open_readings \<Rightarrow> api_request \<Rightarrow> APIKey \<Rightarrow> string \<Rightarrow> string \<Rightarrow> open_world \<Rightarrow> open_reply \<times> open_world" where
  "denyScope env rd r key scope remark w =
     auditErr env rd r (Some key) 403 ''PERMISSION_DENIED'' ''denied'' (Text ''scope'' [scope]) [] remark w"

definition denyVehicle ::
  "open_env \<Rightarrow> open_readings \<Rightarrow> api_request \<Rightarrow> APIKey \<Rightarrow> string \<Rightarrow> string \<Rightarrow> open_world \<Rightarrow> open_reply \<times> open_world" where
  "denyVehicle env rd r key vid remark w =
     auditErr env rd r (Some key) 403 ''VEHICLE_DENIED'' ''denied'' (Text ''vehicle'' [vid]) vid remark w"

section \<open>The routes\<close>

type_synonym route = "open_env \<Rightarrow> open_readings \<Rightarrow> api_request \<Rightarrow> APIKey \<Rightarrow> string \<Rightarrow> string \<Rightarrow> open_world \<Rightarrow> open_reply \<times> open_world"

definition open_meta :: route where
  "open_meta env rd r key trace remark w =
    (let c = ow_cfg w
     in auditOK env rd r key trace [] remark
          (DataMeta (unix_s (wall (or_now rd))) key (cfgInt c ''rate_limit'' 20) (cfgNum c ''replay_window_s'' (Fin 300))
             (cfgNum c ''open_api_key_default_lifetime_s'' (Fin defaultAPIKeyLifetime_s))
             (cfgNum c ''open_api_key_max_lifetime_s'' (Fin maxAPIKeyLifetime_s))) w)"

definition open_vehicles :: route where
  "open_vehicles env rd r key trace remark w =
    (if \<not> hasScope key ''vehicle.read'' then denyScope env rd r key ''vehicle.read'' remark w
     else auditOK env rd r key trace [] remark
       (DataVehicles (map summarize (filter (\<lambda>v. vehicleAllowed key (sp_VehicleID v))
          (fs_Vehicles (Snapshot (oe_float env) (or_now rd) (fst (ow_world w))))))) w)"

text \<open>The routes of one vehicle share their checks.\<close>

definition vehicle_gate ::
  "string \<Rightarrow> string \<Rightarrow> open_env \<Rightarrow> open_readings \<Rightarrow> api_request \<Rightarrow> APIKey \<Rightarrow> string \<Rightarrow> (open_world \<Rightarrow> open_reply \<times> open_world) \<Rightarrow>
   open_world \<Rightarrow> open_reply \<times> open_world" where
  "vehicle_gate scope vid env rd r key remark next w =
    (if \<not> hasScope key scope then denyScope env rd r key scope remark w
     else if \<not> vehicleAllowed key vid then denyVehicle env rd r key vid remark w
     else next w)"

definition open_vehicle :: "string \<Rightarrow> route" where
  "open_vehicle vid env rd r key trace remark w =
    vehicle_gate ''vehicle.read'' vid env rd r key remark (\<lambda>w.
      case Vehicle (oe_float env) (or_now rd) (fst (ow_world w)) vid of
        None \<Rightarrow> not_found env rd r key ''vehicle'' vid remark w
      | Some v \<Rightarrow> auditOK env rd r key trace vid remark
          (DataVehicle (sp_VehicleID v) (sp_Group v) (sp_Chassis v) (sp_Online v) (sp_Mode v) (sp_Capabilities v) (sp_LastHeartbeatAgeS v)) w) w"

definition open_telemetry :: "string \<Rightarrow> route" where
  "open_telemetry vid env rd r key trace remark w =
    vehicle_gate ''telemetry.read'' vid env rd r key remark (\<lambda>w.
      case Vehicle (oe_float env) (or_now rd) (fst (ow_world w)) vid of
        None \<Rightarrow> not_found env rd r key ''vehicle'' vid remark w
      | Some v \<Rightarrow> auditOK env rd r key trace vid remark (DataTelemetry v) w) w"

definition alarm_limit :: "api_request \<Rightarrow> nat" where
  "alarm_limit r = (case go_atoi (ar_param ''limit'' r) of Some n \<Rightarrow> if 0 < n \<and> n \<le> 200 then nat n else 50 | None \<Rightarrow> 50)"

definition open_alarms :: "string \<Rightarrow> route" where
  "open_alarms vid env rd r key trace remark w =
    vehicle_gate ''alarm.read'' vid env rd r key remark (\<lambda>w.
      let level = ar_param ''level'' r
      in auditOK env rd r key trace vid remark (DataAlarms vid (take (alarm_limit r)
           (filter (\<lambda>e. ev_VehicleID e = vid \<and> (level = [] \<or> ev_Level e = level))
             (fs_Events (Snapshot (oe_float env) (or_now rd) (fst (ow_world w))))))) w) w"

definition open_nav_status :: route where
  "open_nav_status env rd r key trace remark w =
    (let vid = ar_param ''vehicle_id'' r
     in if \<not> hasScope key ''task.read'' then denyScope env rd r key ''task.read'' remark w
        else if vid = [] then bad_request env rd r key ''vehicle_id'' [] remark w
        else if \<not> vehicleAllowed key vid then denyVehicle env rd r key vid remark w
        else auditOK env rd r key trace vid remark (DataStatus (ForVehicle (fst (ow_world w)) vid)) w)"

definition open_nav_routes :: route where
  "open_nav_routes env rd r key trace remark w =
    (let vid = ar_param ''vehicle_id'' r
     in if \<not> hasScope key ''task.read'' then denyScope env rd r key ''task.read'' remark w
        else if vid \<noteq> [] \<and> \<not> vehicleAllowed key vid then denyVehicle env rd r key vid remark w
        else auditOK env rd r key trace vid remark
          (DataRoutes (filter (\<lambda>rt. vehicleAllowed key (rt_vehicle rt) \<and> (vid = [] \<or> rt_vehicle rt = vid)) (nav_List (fst (ow_world w))))) w)"

definition request_points :: "nav_request \<Rightarrow> NavPoint list" where
  "request_points q = (case (nq_from q, nq_to q) of (Some a, Some b) \<Rightarrow> a # nq_points q @ [b] | _ \<Rightarrow> nq_points q)"

definition open_nav_command :: route where
  "open_nav_command env rd r key trace remark w =
    (if \<not> hasScope key ''task.write'' then denyScope env rd r key ''task.write'' remark w
     else case oe_json_nav env (ar_body r) of
       None \<Rightarrow> bad_request env rd r key ''json'' [] remark w
     | Some q \<Rightarrow>
        if \<not> vehicleAllowed key (nq_vehicle q) then denyVehicle env rd r key (nq_vehicle q) remark w
        else let tid = (if nq_trace q = [] then trace else nq_trace q)
             in case Submit (oe_wire env) (oe_marshal env) (oe_ext env) (or_nav rd) (nq_vehicle q) (nq_name q) ''open_api'' tid remark
                       (request_points q) (ow_world w) of
                  (Inl e, ws) \<Rightarrow> bad_request env rd r key ''submit'' (nq_vehicle q) remark (w\<lparr>ow_world := ws\<rparr>)
                | (Inr rt, ws) \<Rightarrow>
                    auditOK env rd r key tid (nq_vehicle q) remark (DataRoute rt)
                      (w\<lparr>ow_world := pushEvent (wall (or_now rd)) ''info'' (nq_vehicle q) (TxtOpenRoute (key_Name key) (rt_id rt) remark) ''sys'' ws\<rparr>))"

text \<open>The route to cancel: the one named, else the newest of the vehicle.\<close>

datatype cancel_choice = CancelRefused | CancelVehicleDenied | CancelId string

definition cancel_target :: "APIKey \<Rightarrow> string \<Rightarrow> string \<Rightarrow> State \<Rightarrow> cancel_choice" where
  "cancel_target key vid routeID st =
    (if routeID \<noteq> [] then CancelId routeID
     else if vid = [] then CancelRefused
     else if \<not> vehicleAllowed key vid then CancelVehicleDenied
     else CancelId (case ForVehicle st vid of Some rt \<Rightarrow> rt_id rt | None \<Rightarrow> []))"

text \<open>
  \<open>Cancel\<close> returns no route with an error, and the error branch reads the vehicle of the route it
  returned: every refused cancellation ends in a nil dereference.
\<close>

definition open_cancel_route :: "string \<Rightarrow> string \<Rightarrow> route" where
  "open_cancel_route i vid env rd r key trace remark w =
    (case nav_Get (fst (ow_world w)) i of
       None \<Rightarrow> bad_request env rd r key ''route'' vid remark w
     | Some rt \<Rightarrow>
        if \<not> vehicleAllowed key (rt_vehicle rt) then denyVehicle env rd r key (rt_vehicle rt) remark w
        else case Cancel (oe_wire env) (oe_marshal env) (oe_ext env) (or_nav rd) i (ow_world w) of
          (Inl e, ws) \<Rightarrow> (Panicked, w\<lparr>ow_world := ws\<rparr>)
        | (Inr rt', ws) \<Rightarrow> auditOK env rd r key trace (rt_vehicle rt') remark (DataRoute rt') (w\<lparr>ow_world := ws\<rparr>))"

definition open_nav_cancel :: route where
  "open_nav_cancel env rd r key trace remark w =
    (if \<not> hasScope key ''task.write'' then denyScope env rd r key ''task.write'' remark w
     else case oe_json_cancel env (ar_body r) of
       None \<Rightarrow> bad_request env rd r key ''json'' [] remark w
     | Some (vid, routeID) \<Rightarrow>
        (case cancel_target key vid routeID (fst (ow_world w)) of
           CancelRefused \<Rightarrow> bad_request env rd r key ''vehicle_id'' [] remark w
         | CancelVehicleDenied \<Rightarrow> denyVehicle env rd r key vid remark w
         | CancelId i \<Rightarrow>
             if i = [] then bad_request env rd r key ''nothing'' vid remark w
             else open_cancel_route i vid env rd r key trace remark w))"

definition open_stop_vehicle :: "string \<Rightarrow> route" where
  "open_stop_vehicle vid env rd r key trace remark w =
    (case (Vehicle (oe_float env) (or_now rd) (fst (ow_world w)) vid, oe_authority env) of
       (None, _) \<Rightarrow> auditErr env rd r (Some key) 409 ''VEHICLE_OFFLINE'' ''denied'' (Text ''offline'' []) vid remark w
     | (Some v, auth) \<Rightarrow>
        if \<not> sp_Online v then auditErr env rd r (Some key) 409 ''VEHICLE_OFFLINE'' ''denied'' (Text ''offline'' []) vid remark w
        else case auth of
          None \<Rightarrow> auditErr env rd r (Some key) 503 ''AUTHORITY_UNAVAILABLE'' ''error'' (Text ''authority'' []) vid remark w
        | Some a \<Rightarrow>
           (case EmergencyStop (oe_wire env) (oe_ext env) a (or_auth rd) vid (''openapi:'' @ key_ID key) (ow_txs w, ow_takeover w) of
              (Inl e, (s, tk)) \<Rightarrow>
                auditErr env rd r (Some key) 502 ''ERROR'' ''error'' (Text ''stop'' []) vid remark (ow_set_txs s (w\<lparr>ow_takeover := tk\<rparr>))
            | (Inr l, (s, tk)) \<Rightarrow>
                auditOK env rd r key trace vid remark DataStopped
                  (let w' = ow_set_txs s (w\<lparr>ow_takeover := tk\<rparr>)
                   in w'\<lparr>ow_world := pushEvent (wall (or_now rd)) ''critical'' vid (TxtOpenStop (key_Name key) remark) ''sys'' (ow_world w')\<rparr>)))"

definition open_estop :: route where
  "open_estop env rd r key trace remark w =
    (if \<not> hasScope key ''control.write'' then denyScope env rd r key ''control.write'' remark w
     else case oe_json_vehicle env (ar_body r) of (ok, vid) \<Rightarrow>
       if \<not> ok \<or> vid = [] then bad_request env rd r key ''vehicle_id'' vid remark w
       else if \<not> vehicleAllowed key vid then denyVehicle env rd r key vid remark w
       else open_stop_vehicle vid env rd r key trace remark w)"

section \<open>Dispatch\<close>

definition trim_slashes :: "string \<Rightarrow> string" where
  "trim_slashes s = (let p = (\<lambda>c. c = CHR ''/'') in rev (dropWhile p (rev (dropWhile p s))))"

definition open_route :: "string \<Rightarrow> string list \<Rightarrow> route option" where
  "open_route m rest =
    (if m = ''GET'' then
       (case rest of
          [a] \<Rightarrow> if a = ''meta'' then Some open_meta else if a = ''vehicles'' then Some open_vehicles else None
        | [a, b] \<Rightarrow>
            if a = ''vehicles'' then Some (open_vehicle b)
            else if a = ''nav'' \<and> b = ''status'' then Some open_nav_status
            else if a = ''nav'' \<and> b = ''routes'' then Some open_nav_routes else None
        | [a, b, c] \<Rightarrow>
            if a = ''vehicles'' \<and> c = ''telemetry'' then Some (open_telemetry b)
            else if a = ''vehicles'' \<and> c = ''alarms'' then Some (open_alarms b) else None
        | _ \<Rightarrow> None)
     else if m = ''POST'' then
       (case rest of
          [a, b] \<Rightarrow>
            if a = ''nav'' \<and> b = ''command'' then Some open_nav_command
            else if a = ''nav'' \<and> b = ''cancel'' then Some open_nav_cancel
            else if a = ''control'' \<and> b = ''emergency-stop'' then Some open_estop else None
        | _ \<Rightarrow> None)
     else None)"

definition serveRoute :: "open_env \<Rightarrow> open_readings \<Rightarrow> api_request \<Rightarrow> APIKey \<Rightarrow> string \<Rightarrow> open_world \<Rightarrow> open_reply \<times> open_world" where
  "serveRoute env rd r key remark w =
    (let segs = go_split CHR ''/'' (trim_slashes (ar_path r))
     in if length segs < 3 then not_found env rd r key ''unknown'' [] remark w
        else case open_route (ar_method r) (drop 2 segs) of
          None \<Rightarrow> not_found env rd r key ''unknown'' [] remark w
        | Some f \<Rightarrow> f env rd r key (ar_param ''trace_id'' r) remark w)"

definition denied_code :: "string \<Rightarrow> int \<times> string" where
  "denied_code res =
    (if res = ''replay'' then (401, ''REPLAY'')
     else if res = ''rate_limited'' then (429, ''RATE_LIMITED'')
     else if res = ''locked'' then (423, ''LOCKED'')
     else (401, ''AUTH_FAILED''))"

text \<open>The stream of a body is absent when reading it fails; a body over the limit counts as unreadable.\<close>

definition readRawBody :: "nat \<Rightarrow> bytes option \<Rightarrow> bytes option" where
  "readRawBody limit stream = (case stream of None \<Rightarrow> None | Some b \<Rightarrow> if length b > limit then None else Some b)"

definition ServeOpen :: "open_env \<Rightarrow> open_readings \<Rightarrow> api_request \<Rightarrow> bytes option \<Rightarrow> open_world \<Rightarrow> open_reply \<times> open_world" where
  "ServeOpen env rd r0 stream w =
    (case config_get (ow_cfg w) ''open_api_enabled'' of
       Some (JBool False) \<Rightarrow> (ReplyErr 503 ''DISABLED'', w)
     | _ \<Rightarrow>
        (case readRawBody (2 ^ 20) stream of
           None \<Rightarrow> auditErr env rd r0 None 400 ''BAD_REQUEST'' ''bad_request'' (Text ''body'' []) [] [] w
         | Some b \<Rightarrow>
            (let r = r0\<lparr>ar_body := b\<rparr>; remark = extractRemark env r
             in case authenticate (oe_kdf env) (oe_ext env) (wall (or_now rd)) r w of
                  (KeyExpired key, w') \<Rightarrow> auditErr env rd r (Some key) 401 ''EXPIRED'' ''expired'' (Text ''expired'' []) [] remark w'
                | (Denied res why, w') \<Rightarrow>
                    auditErr env rd r None (fst (denied_code res)) (snd (denied_code res)) res (Text ''denied'' why) [] remark w'
                | (Authentic key, w') \<Rightarrow> serveRoute env rd r key remark w')))"

end
