(* ===== verification/Open_Audit.thy ===== *)
theory Open_Audit
  imports Open_Api
begin

text \<open>
  Reading the audit trail page by page, from \<open>server/fleet/openapi.go\<close>: the query over both audit
  tables, the fall-back to the entries of the process, and their choice in \<open>AuditPage\<close>. The condition
  of the query is a text the code puts together, and the database refuses a text whose parentheses do
  not match. The encodings of the cursor and of the detail of a platform entry are arguments.
\<close>

record AuditFilter =
  af_Limit :: int
  af_KeyID :: string
  af_Result :: string
  af_Source :: string
  af_Cursor :: string
  af_From :: "int option"
  af_To :: "int option"

record auditCursor =
  ac_TsNS :: int
  ac_ID :: int
  ac_Source :: string

record auditPage =
  pg_Entries :: "AuditEntry list"
  pg_NextCursor :: string
  pg_HasMore :: bool

datatype audit_error = AuditSource | AuditCursorBad | AuditQuery

record audit_codec =
  cd_encode :: "auditCursor \<Rightarrow> string"
  cd_decode :: "string \<Rightarrow> auditCursor option"
  cd_detail :: "json \<Rightarrow> audit_text"

definition decodeAuditCursor :: "audit_codec \<Rightarrow> string \<Rightarrow> auditCursor option" where
  "decodeAuditCursor cd raw0 =
    (let raw = trim_space raw0
     in if raw = [] \<or> length raw > 512 then None
        else case cd_decode cd raw of
          None \<Rightarrow> None
        | Some c \<Rightarrow> if ac_TsNS c \<le> 0 \<or> ac_ID c \<le> 0 \<or> (ac_Source c \<noteq> ''api'' \<and> ac_Source c \<noteq> ''platform'') then None else Some c)"

section \<open>The text of the condition\<close>

definition dollar :: "nat \<Rightarrow> string" where "dollar n = CHR ''$'' # nat_digits n"

definition join_and :: "string list \<Rightarrow> string" where
  "join_and ps = (case ps of [] \<Rightarrow> [] | p # qs \<Rightarrow> p @ concat (map (\<lambda>q. '' AND '' @ q) qs))"

definition base_conditions :: "string list" where
  "base_conditions =
    [''($1 = '' @ [CHR 0x27, CHR 0x27] @ '' OR source = $1)'', ''($2 = '' @ [CHR 0x27, CHR 0x27] @ '' OR key_id = $2)'',
     ''($3 = '' @ [CHR 0x27, CHR 0x27] @ '' OR result = $3)'']"

definition cursor_condition :: "nat \<Rightarrow> string" where
  "cursor_condition n =
    ''(ts < '' @ dollar n @ '' OR (ts = '' @ dollar n @ '' AND (id < '' @ dollar (n + 1) @ '' OR (id = '' @ dollar (n + 1)
      @ '' AND source < '' @ dollar (n + 2) @ '')))''"

text \<open>The arguments are numbered in the order in which they are added.\<close>

definition where_text :: "AuditFilter \<Rightarrow> string" where
  "where_text f =
    (let n1 = (if af_From f = None then 3 else 4); n2 = (if af_To f = None then n1 else n1 + 1)
     in join_and (base_conditions
          @ (if af_From f = None then [] else [''ts >= '' @ dollar n1])
          @ (if af_To f = None then [] else [''ts < '' @ dollar n2])
          @ (if trim_space (af_Cursor f) = [] then [] else [cursor_condition (n2 + 1)])))"

fun paren_depth :: "nat \<Rightarrow> string \<Rightarrow> nat option" where
  "paren_depth n [] = Some n"
| "paren_depth n (c # cs) =
    (if c = CHR ''('' then paren_depth (Suc n) cs
     else if c = CHR '')'' then (case n of 0 \<Rightarrow> None | Suc m \<Rightarrow> paren_depth m cs)
     else paren_depth n cs)"

definition balanced :: "string \<Rightarrow> bool" where "balanced s \<longleftrightarrow> paren_depth 0 s = Some 0"

section \<open>The query\<close>

definition api_entry :: "AuditEntry \<Rightarrow> AuditEntry" where
  "api_entry e = e\<lparr>ae_Source := ''api'', ae_Actor := [], ae_Action := []\<rparr>"

definition platform_entry :: "audit_codec \<Rightarrow> audit_row \<Rightarrow> AuditEntry" where
  "platform_entry cd r = no_entry\<lparr>ae_ID := ad_id r, ae_TsNS := ad_ts r, ae_Method := ''SYSTEM'', ae_Path := ad_action r,
     ae_Result := ''ok'', ae_Detail := cd_detail cd (ad_detail r), ae_Source := ''platform'', ae_Actor := ad_actor r,
     ae_Action := ad_action r\<rparr>"

definition audit_union :: "audit_codec \<Rightarrow> db \<Rightarrow> AuditEntry list" where
  "audit_union cd d = map api_entry (audit_log d) @ map (platform_entry cd) (audit_logs d)"

definition selected :: "string \<Rightarrow> AuditFilter \<Rightarrow> AuditEntry \<Rightarrow> bool" where
  "selected source f e \<longleftrightarrow>
    (source = [] \<or> ae_Source e = source) \<and> (af_KeyID f = [] \<or> ae_KeyID e = af_KeyID f) \<and> (af_Result f = [] \<or> ae_Result e = af_Result f)
    \<and> (case af_From f of None \<Rightarrow> True | Some t \<Rightarrow> t \<le> ae_TsNS e) \<and> (case af_To f of None \<Rightarrow> True | Some t \<Rightarrow> ae_TsNS e < t)"

definition newest_first :: "AuditEntry list \<Rightarrow> AuditEntry list" where
  "newest_first es = order_desc ae_TsNS (order_desc ae_ID (order_desc (\<lambda>e. if ae_Source e = ''platform'' then 1 else 0 :: int) es))"

definition page_of :: "audit_codec \<Rightarrow> nat \<Rightarrow> AuditEntry list \<Rightarrow> auditPage" where
  "page_of cd limit entries =
    (let more = length entries > limit; es = (if more then take limit entries else entries)
     in \<lparr>pg_Entries = es,
         pg_NextCursor = (if more \<and> es \<noteq> [] then cd_encode cd \<lparr>ac_TsNS = ae_TsNS (last es), ac_ID = ae_ID (last es), ac_Source = ae_Source (last es)\<rparr> else []),
         pg_HasMore = more\<rparr>)"

definition queryAuditDBPage :: "audit_codec \<Rightarrow> AuditFilter \<Rightarrow> txs \<Rightarrow> (audit_error + auditPage) \<times> txs" where
  "queryAuditDBPage cd f s =
    (let limit = (if af_Limit f \<le> 0 \<or> af_Limit f > 500 then 500 else nat (af_Limit f));
         src = (if trim_space (af_Source f) = [] then ''api'' else trim_space (af_Source f))
     in if src \<noteq> ''api'' \<and> src \<noteq> ''platform'' \<and> src \<noteq> ''all'' then (Inl AuditSource, s)
        else if trim_space (af_Cursor f) \<noteq> [] \<and> decodeAuditCursor cd (af_Cursor f) = None then (Inl AuditCursorBad, s)
        else case tx_stmt (\<lambda>d. if \<not> balanced (where_text f) then None
                               else Some (take (limit + 1) (newest_first (filter (selected (if src = ''all'' then [] else src) f) (audit_union cd d))), d)) s
                  :: (unit tx_error + AuditEntry list) \<times> txs of
          (Inl _, s') \<Rightarrow> (Inl AuditQuery, s')
        | (Inr entries, s') \<Rightarrow> (Inr (page_of cd limit entries), s'))"

definition loadAudit :: "audit_codec \<Rightarrow> AuditEntry list \<Rightarrow> txs \<Rightarrow> AuditEntry list \<times> txs" where
  "loadAudit cd ring s =
    (case queryAuditDBPage cd \<lparr>af_Limit = 500, af_KeyID = [], af_Result = [], af_Source = ''api'', af_Cursor = [], af_From = None, af_To = None\<rparr> s of
       (Inl _, s') \<Rightarrow> (ring, s')
     | (Inr p, s') \<Rightarrow> (pg_Entries p, s'))"

section \<open>The entries of the process\<close>

definition after_cursor :: "auditCursor \<Rightarrow> AuditEntry \<Rightarrow> bool" where
  "after_cursor c e \<longleftrightarrow> ae_TsNS e < ac_TsNS c \<or> (ae_TsNS e = ac_TsNS c \<and> ae_ID e < ac_ID c)"

definition memory_match :: "AuditFilter \<Rightarrow> AuditEntry \<Rightarrow> bool" where
  "memory_match f e \<longleftrightarrow> (af_Source f = [] \<or> af_Source f = ''all'' \<or> ae_Source e = af_Source f)
     \<and> (af_KeyID f = [] \<or> ae_KeyID e = af_KeyID f) \<and> (af_Result f = [] \<or> ae_Result e = af_Result f)"

definition clamp_limit :: "int \<Rightarrow> int" where
  "clamp_limit n = (let l = (if n \<le> 0 then 100 else n) in if l > 500 then 500 else l)"

text \<open>A cursor that cannot be read empties the page at the first entry that matches.\<close>

definition auditMemoryPage :: "audit_codec \<Rightarrow> AuditFilter \<Rightarrow> AuditEntry list \<Rightarrow> auditPage" where
  "auditMemoryPage cd f ring =
    (let matching = filter (memory_match f) (order_desc ae_TsNS (order_desc ae_ID ring));
         out = (if af_Cursor f = [] then matching
                else case decodeAuditCursor cd (af_Cursor f) of None \<Rightarrow> [] | Some c \<Rightarrow> filter (after_cursor c) matching)
     in \<lparr>pg_Entries = take (nat (clamp_limit (af_Limit f))) out, pg_NextCursor = [], pg_HasMore = False\<rparr>)"

definition AuditPage :: "audit_codec \<Rightarrow> AuditFilter \<Rightarrow> open_world \<Rightarrow> (audit_error + auditPage) \<times> open_world" where
  "AuditPage cd f0 w =
    (let f = f0\<lparr>af_Limit := clamp_limit (af_Limit f0), af_Source := (if trim_space (af_Source f0) = [] then ''api'' else af_Source f0)\<rparr>
     in case queryAuditDBPage cd f (ow_txs w) of
          (Inr p, s) \<Rightarrow> (Inr p, ow_set_txs s w)
        | (Inl _, s) \<Rightarrow>
           if trim_space (af_Cursor f) \<noteq> [] \<and> decodeAuditCursor cd (af_Cursor f) = None then (Inl AuditCursorBad, ow_set_txs s w)
           else (Inr (auditMemoryPage cd f (ow_audit w)), ow_set_txs s w))"

definition read_audit :: "audit_codec \<Rightarrow> AuditFilter \<Rightarrow> open_world \<Rightarrow> AuditEntry list \<times> open_world" where
  "read_audit cd f w = (case AuditPage cd f w of (Inr p, w') \<Rightarrow> (pg_Entries p, w') | (Inl _, w') \<Rightarrow> ([], w'))"

end
