(* ===== verification/Open_Props.thy ===== *)
theory Open_Props
  imports Open_Routes Open_Audit
begin

text \<open>
  What the open interface promises: an accepted request is signed, fresh, of a live key and from an
  allowed address; nonces keep it from being accepted twice; the rate is bounded; failures lock the
  address out; answers and effects stay within the permissions of the key.
\<close>

section \<open>Operations\<close>

datatype open_op =
    OpServe open_readings api_request "bytes option"
  | OpCreateKey int int "bytes option" string string "string list" "string list" "string list" string "int option"
  | OpUpdateKey int string KeyPatch string
  | OpRevokeKey int string string

fun open_step :: "open_env \<Rightarrow> (int \<Rightarrow> int) \<Rightarrow> open_world \<Rightarrow> open_op \<Rightarrow> open_world" where
  "open_step env dp w (OpServe rd r stream) = snd (ServeOpen env rd r stream w)"
| "open_step env dp w (OpCreateKey now dbnow raw name remark scopes vhs ips actor expires) =
     snd (CreateKeyWithExpiry (oe_kdf env) (oe_ext env) now dbnow raw name remark scopes vhs ips actor expires w)"
| "open_step env dp w (OpUpdateKey now i p actor) = snd (UpdateKey (oe_ext env) now i p actor w)"
| "open_step env dp w (OpRevokeKey now i actor) = snd (RevokeKey (oe_ext env) dp now i actor w)"

text \<open>The instants at which requests are served.\<close>

fun serve_times :: "open_op list \<Rightarrow> int list" where
  "serve_times [] = []"
| "serve_times (OpServe rd r stream # ops) = wall (or_now rd) # serve_times ops"
| "serve_times (_ # ops) = serve_times ops"

section \<open>What leaves the authentication state alone\<close>

lemma ow_set_txs_sel [simp]:
  "ow_api (ow_set_txs s w) = ow_api w" "ow_cfg (ow_set_txs s w) = ow_cfg w" "ow_audit (ow_set_txs s w) = ow_audit w"
  "ow_world (ow_set_txs s w) = (fst (ow_world w), s)" "ow_takeover (ow_set_txs s w) = ow_takeover w"
  by (simp_all add: ow_set_txs_def)

lemma on_api_sel [simp]: "ow_api (on_api f w) = f (ow_api w)" "ow_cfg (on_api f w) = ow_cfg w"
  by (simp_all add: on_api_def)

lemma open_log_sel [simp]:
  "ow_api (open_log x e w) = ow_api w" "ow_cfg (open_log x e w) = ow_cfg w" "fst (ow_world (open_log x e w)) = fst (ow_world w)"
  by (simp_all add: open_log_def split: prod.split)

lemma audit_sel [simp]:
  "ow_api (snd (auditOK env rd r key tr vid rem data w)) = ow_api w" "ow_cfg (snd (auditOK env rd r key tr vid rem data w)) = ow_cfg w"
  "fst (auditOK env rd r key tr vid rem data w) = ReplyOk tr data"
  "ow_api (snd (auditErr env rd r ko h c res msg vid rem w)) = ow_api w" "ow_cfg (snd (auditErr env rd r ko h c res msg vid rem w)) = ow_cfg w"
  "fst (auditErr env rd r ko h c res msg vid rem w) = ReplyErr h c"
  by (simp_all add: auditOK_def auditErr_def)

lemmas refusal_defs = bad_request_def not_found_def denyScope_def denyVehicle_def

lemmas route_defs = open_meta_def open_vehicles_def open_vehicle_def open_telemetry_def open_alarms_def open_nav_status_def
  open_nav_routes_def open_nav_command_def open_nav_cancel_def open_cancel_route_def open_estop_def open_stop_vehicle_def vehicle_gate_def

definition keeps_auth :: "route \<Rightarrow> bool" where
  "keeps_auth f \<longleftrightarrow> (\<forall>env rd r key tr rem w. ow_api (snd (f env rd r key tr rem w)) = ow_api w \<and> ow_cfg (snd (f env rd r key tr rem w)) = ow_cfg w)"

lemma routes_keep_auth:
  "keeps_auth open_meta" "keeps_auth open_vehicles" "keeps_auth (open_vehicle v)" "keeps_auth (open_telemetry v)"
  "keeps_auth (open_alarms v)" "keeps_auth open_nav_status" "keeps_auth open_nav_routes" "keeps_auth open_nav_command"
  "keeps_auth (open_cancel_route i v)" "keeps_auth (open_stop_vehicle v)"
  by (simp_all add: keeps_auth_def route_defs refusal_defs Let_def split: prod.split option.split sum.split)

lemma cancel_keeps_auth: "keeps_auth open_nav_cancel"
  using routes_keep_auth(9) by (auto simp: keeps_auth_def open_nav_cancel_def refusal_defs split: option.split cancel_choice.split)

lemma estop_keeps_auth: "keeps_auth open_estop"
  using routes_keep_auth(10) by (auto simp: keeps_auth_def open_estop_def refusal_defs split: prod.split)

lemma open_route_cases:
  assumes "open_route m rest = Some f"
  obtains "f = open_meta" | "f = open_vehicles" | v where "f = open_vehicle v" | v where "f = open_telemetry v"
    | v where "f = open_alarms v" | "f = open_nav_status" | "f = open_nav_routes" | "f = open_nav_command" | "f = open_nav_cancel" | "f = open_estop"
  using assms unfolding open_route_def by (auto split: if_split_asm list.split_asm)

lemma open_route_keeps: "open_route m rest = Some f \<Longrightarrow> keeps_auth f"
  by (erule open_route_cases) (auto simp: routes_keep_auth cancel_keeps_auth estop_keeps_auth)

lemma serveRoute_keeps [simp]:
  "ow_api (snd (serveRoute env rd r key rem w)) = ow_api w" "ow_cfg (snd (serveRoute env rd r key rem w)) = ow_cfg w"
  using open_route_keeps by (auto simp: serveRoute_def Let_def refusal_defs keeps_auth_def split: option.split)

text \<open>Operations on keys keep nonces, hits and locks.\<close>

definition auth_part :: "open_world \<Rightarrow> (string \<times> int) list \<times> (string \<times> int list) list \<times> (string \<times> lockEntry) list \<times> ConfigStore" where
  "auth_part w = (oa_nonces (ow_api w), oa_hits (ow_api w), oa_locks (ow_api w), ow_cfg w)"

lemma CreateKey_auth: "auth_part (snd (CreateKeyWithExpiry k x now dbnow raw name remark scopes vhs ips actor expires w)) = auth_part w"
  by (simp add: CreateKeyWithExpiry_def auth_part_def Let_def split: option.split sum.split prod.split bool.split)

lemma UpdateKey_auth: "auth_part (snd (UpdateKey x now i p actor w)) = auth_part w"
  by (simp add: UpdateKey_def auth_part_def split: option.split sum.split prod.split bool.split)

lemma RevokeKey_auth: "auth_part (snd (RevokeKey x dp now i actor w)) = auth_part w"
  by (simp add: RevokeKey_def auth_part_def split: option.split sum.split prod.split bool.split)

text \<open>A request changes the authentication state in its authentication only.\<close>

lemma ServeOpen_enabled:
  "config_get (ow_cfg w) ''open_api_enabled'' \<noteq> Some (JBool False) \<Longrightarrow> ServeOpen env rd r0 stream w =
     (case readRawBody (2 ^ 20) stream of
        None \<Rightarrow> auditErr env rd r0 None 400 ''BAD_REQUEST'' ''bad_request'' (Text ''body'' []) [] [] w
      | Some b \<Rightarrow>
         (let r = r0\<lparr>ar_body := b\<rparr>; remark = extractRemark env r
          in case authenticate (oe_kdf env) (oe_ext env) (wall (or_now rd)) r w of
               (KeyExpired key, w') \<Rightarrow> auditErr env rd r (Some key) 401 ''EXPIRED'' ''expired'' (Text ''expired'' []) [] remark w'
             | (Denied res why, w') \<Rightarrow>
                 auditErr env rd r None (fst (denied_code res)) (snd (denied_code res)) res (Text ''denied'' why) [] remark w'
             | (Authentic key, w') \<Rightarrow> serveRoute env rd r key remark w'))"
  by (simp add: ServeOpen_def split: option.split jval.split bool.split)

lemma ServeOpen_disabled:
  "config_get (ow_cfg w) ''open_api_enabled'' = Some (JBool False) \<Longrightarrow> ServeOpen env rd r0 stream w = (ReplyErr 503 ''DISABLED'', w)"
  by (simp add: ServeOpen_def)

lemma ServeOpen_auth:
  obtains "auth_part (snd (ServeOpen env rd r stream w)) = auth_part w"
  | b where "readRawBody (2 ^ 20) stream = Some b"
      "auth_part (snd (ServeOpen env rd r stream w)) = auth_part (snd (authenticate (oe_kdf env) (oe_ext env) (wall (or_now rd)) (r\<lparr>ar_body := b\<rparr>) w))"
proof (cases "config_get (ow_cfg w) ''open_api_enabled'' = Some (JBool False)")
  case True
  then show ?thesis by (intro that(1)) (simp add: ServeOpen_disabled)
next
  case on: False
  show ?thesis
  proof (cases "readRawBody (2 ^ 20) stream")
    case None
    with on show ?thesis by (intro that(1)) (simp add: ServeOpen_enabled auth_part_def)
  next
    case (Some b)
    with on show ?thesis
      by (intro that(2) [OF Some]) (simp add: ServeOpen_enabled auth_part_def Let_def split: prod.split open_auth.split)
  qed
qed

lemma open_step_auth:
  obtains "auth_part (open_step env dp w op) = auth_part w"
  | rd r stream b where "op = OpServe rd r stream"
      "auth_part (open_step env dp w op) = auth_part (snd (authenticate (oe_kdf env) (oe_ext env) (wall (or_now rd)) (r\<lparr>ar_body := b\<rparr>) w))"
proof (cases op)
  case (OpServe rd r stream)
  with that show ?thesis by (auto intro: ServeOpen_auth [of env rd r stream w])
qed (auto simp: CreateKey_auth UpdateKey_auth RevokeKey_auth intro: that(1))

section \<open>An accepted request\<close>

lemma locked_loop_None:
  "locked_loop nowU ts ls = (None, ls') \<Longrightarrow> t \<in> set ts \<Longrightarrow> map_of ls t = Some e \<Longrightarrow> le_until e \<le> nowU"
proof (induction nowU ts ls rule: locked_loop.induct)
  case (2 nowU u ts ls)
  then show ?case by (cases "t = u") (auto simp: delete_conv' split: option.split_asm if_split_asm)
qed simp

lemma locked_cases:
  obtains l ls where "locked nowU ip keyID a = (Some l, a\<lparr>oa_locks := ls\<rparr>)"
  | ls where "locked nowU ip keyID a = (None, a\<lparr>oa_locks := ls\<rparr>)" "locked_loop nowU (lock_targets ip keyID) (oa_locks a) = (None, ls)"
  by (cases "locked_loop nowU (lock_targets ip keyID) (oa_locks a)", case_tac "a") (auto simp: locked_def)

lemma admit_cases:
  obtains k where "admit now keyID nonce ip a = (Admit k, a\<lparr>oa_nonces := admit_nonce (unix_s now) nonce (oa_nonces a)\<rparr>)"
      "map_of (oa_keys a) keyID = Some k" "\<not> key_RevokedNS k > 0" "now < key_ExpiresNS k" "ipAllowed k ip"
      "\<And>e. map_of (oa_nonces a) nonce = Some e \<Longrightarrow> e \<le> unix_s now"
  | ad where "admit now keyID nonce ip a = (ad, a)" "\<And>k. ad \<noteq> Admit k"
proof (cases "admit now keyID nonce ip a")
  case (Pair ad b)
  with that show ?thesis by (fastforce simp: admit_def split: option.split_asm if_split_asm)
qed

lemma authentic_elim:
  assumes "authenticate k x now r w = (Authentic key, w')"
  obtains ls ts stored where
    "locked_loop (unix_s now) (lock_targets (clientIP (ow_cfg w) r) (ar_header ''X-Api-Key'' r)) (oa_locks (ow_api w)) = (None, ls)"
    "go_atoi (ar_header ''X-Timestamp'' r) = Some ts" "fresh_timestamp (ow_cfg w) (unix_s now) ts"
    "map_of (oa_keys (ow_api w)) (ar_header ''X-Api-Key'' r) = Some stored" "\<not> key_RevokedNS stored > 0" "now < key_ExpiresNS stored"
    "ipAllowed stored (clientIP (ow_cfg w) r)" "signature k stored r = ar_header ''X-Signature'' r"
    "\<And>e. map_of (oa_nonces (ow_api w)) (ar_header ''X-Nonce'' r) = Some e \<Longrightarrow> e \<le> unix_s now"
    "rate_phase (ow_cfg w) now (ar_header ''X-Api-Key'' r) (clientIP (ow_cfg w) r) stored
       ((ow_api w)\<lparr>oa_locks := ls, oa_nonces := admit_nonce (unix_s now) (ar_header ''X-Nonce'' r) (oa_nonces (ow_api w))\<rparr>) = (Some key, ow_api w')"
    "ow_cfg w' = ow_cfg w"
proof -
  let ?ip = "clientIP (ow_cfg w) r" and ?id = "ar_header ''X-Api-Key'' r" and ?n = "ar_header ''X-Nonce'' r"
  from assms obtain ls where l: "locked (unix_s now) ?ip ?id (ow_api w) = (None, (ow_api w)\<lparr>oa_locks := ls\<rparr>)"
    and ls: "locked_loop (unix_s now) (lock_targets ?ip ?id) (oa_locks (ow_api w)) = (None, ls)"
    by (rule_tac locked_cases [of "unix_s now" ?ip ?id "ow_api w"]) (auto simp: authenticate_def Let_def)
  let ?a = "(ow_api w)\<lparr>oa_locks := ls\<rparr>"
  from assms l obtain ts where ts: "go_atoi (ar_header ''X-Timestamp'' r) = Some ts" "fresh_timestamp (ow_cfg w) (unix_s now) ts"
    by (auto simp: authenticate_def Let_def split: if_split_asm option.split_asm)
  show thesis
  proof (rule admit_cases [of now ?id ?n ?ip ?a])
    fix stored
    assume ad: "admit now ?id ?n ?ip ?a = (Admit stored, ?a\<lparr>oa_nonces := admit_nonce (unix_s now) ?n (oa_nonces ?a)\<rparr>)"
      and st: "map_of (oa_keys ?a) ?id = Some stored" "\<not> key_RevokedNS stored > 0" "now < key_ExpiresNS stored" "ipAllowed stored ?ip"
        "\<And>e. map_of (oa_nonces ?a) ?n = Some e \<Longrightarrow> e \<le> unix_s now"
    from assms l ts ad have "signature k stored r = ar_header ''X-Signature'' r"
      "rate_phase (ow_cfg w) now ?id ?ip stored (?a\<lparr>oa_nonces := admit_nonce (unix_s now) ?n (oa_nonces ?a)\<rparr>) = (Some key, ow_api w')"
      "ow_cfg w' = ow_cfg w"
      by (auto simp: authenticate_def Let_def split: if_split_asm option.split_asm prod.split_asm)
    with ls ts st show thesis by (intro that) simp_all
  next
    fix ad assume "admit now ?id ?n ?ip ?a = (ad, ?a)" "\<And>k. ad \<noteq> Admit k"
    with assms l ts show thesis by (cases ad) (auto simp: authenticate_def Let_def split: if_split_asm)
  qed
qed

lemma authentic_headers:
  "authenticate k x now r w = (Authentic key, w') \<Longrightarrow>
     ar_header ''X-Api-Key'' r \<noteq> [] \<and> ar_header ''X-Timestamp'' r \<noteq> [] \<and> ar_header ''X-Nonce'' r \<noteq> [] \<and> ar_header ''X-Signature'' r \<noteq> []"
  by (auto simp: authenticate_def Let_def split: prod.split_asm option.split_asm if_split_asm)

text \<open>
  C27. A request is accepted only for a stored key that is neither revoked nor expired, from an address
  the key allows, with a timestamp inside the window and a nonce that was not used in the last ten
  minutes, under the signature of exactly this method, path, time, nonce and body by the key, and
  while neither its address nor its key is locked out.
\<close>

theorem open_auth_sound:
  assumes "authenticate k x now r w = (Authentic key, w')"
  shows "\<exists>stored ts. map_of (oa_keys (ow_api w)) (ar_header ''X-Api-Key'' r) = Some stored \<and> key = stored\<lparr>key_LastUsedNS := now\<rparr>
    \<and> key_RevokedNS stored \<le> 0 \<and> now < key_ExpiresNS stored \<and> ipAllowed stored (clientIP (ow_cfg w) r)
    \<and> go_atoi (ar_header ''X-Timestamp'' r) = Some ts \<and> fresh_timestamp (ow_cfg w) (unix_s now) ts
    \<and> ar_header ''X-Signature'' r = signature k stored r
    \<and> (\<forall>e. map_of (oa_nonces (ow_api w)) (ar_header ''X-Nonce'' r) = Some e \<longrightarrow> e \<le> unix_s now)
    \<and> (\<forall>t e. t \<in> set (lock_targets (clientIP (ow_cfg w) r) (ar_header ''X-Api-Key'' r)) \<and> map_of (oa_locks (ow_api w)) t = Some e
          \<longrightarrow> le_until e \<le> unix_s now)"
proof (rule authentic_elim [OF assms])
  fix ls ts stored
  let ?ip = "clientIP (ow_cfg w) r" and ?id = "ar_header ''X-Api-Key'' r"
  assume lk: "locked_loop (unix_s now) (lock_targets ?ip ?id) (oa_locks (ow_api w)) = (None, ls)"
    and rest: "go_atoi (ar_header ''X-Timestamp'' r) = Some ts" "fresh_timestamp (ow_cfg w) (unix_s now) ts"
      "map_of (oa_keys (ow_api w)) ?id = Some stored" "\<not> key_RevokedNS stored > 0" "now < key_ExpiresNS stored"
      "ipAllowed stored ?ip" "signature k stored r = ar_header ''X-Signature'' r"
      "\<And>e. map_of (oa_nonces (ow_api w)) (ar_header ''X-Nonce'' r) = Some e \<Longrightarrow> e \<le> unix_s now"
    and rate: "rate_phase (ow_cfg w) now ?id ?ip stored
       ((ow_api w)\<lparr>oa_locks := ls, oa_nonces := admit_nonce (unix_s now) (ar_header ''X-Nonce'' r) (oa_nonces (ow_api w))\<rparr>) = (Some key, ow_api w')"
  from rate have "key = stored\<lparr>key_LastUsedNS := now\<rparr>" by (auto simp: rate_phase_def Let_def split: if_split_asm)
  with rest locked_loop_None [OF lk] show ?thesis by (intro exI [of _ stored] exI [of _ ts]) auto
qed

section \<open>What a request does to the authentication state\<close>

lemma recordFail_sel [simp]:
  "oa_nonces (recordFail c u ts a) = oa_nonces a" "oa_hits (recordFail c u ts a) = oa_hits a" "oa_keys (recordFail c u ts a) = oa_keys a"
  by (simp_all add: recordFail_def Let_def)

lemma rate_phase_sel [simp]: "oa_nonces (snd (rate_phase c now i ip stored a)) = oa_nonces a"
  by (simp add: rate_phase_def Let_def)

lemma authenticate_cfg [simp]: "ow_cfg (snd (authenticate k x now r w)) = ow_cfg w"
  by (simp add: authenticate_def Let_def split: prod.split option.split admission.split)

definition recent_hits :: "string \<Rightarrow> OpenAPI \<Rightarrow> int list" where
  "recent_hits i a = (case map_of (oa_hits a) i of None \<Rightarrow> [] | Some ts \<Rightarrow> ts)"

text \<open>The outcome of a request, as seen by the state of the process.\<close>

lemma authenticate_outcome:
  fixes k x now r w
  defines "a \<equiv> ow_api w" and "ip \<equiv> clientIP (ow_cfg w) r" and "i \<equiv> ar_header ''X-Api-Key'' r" and "n \<equiv> ar_header ''X-Nonce'' r"
  defines "a' \<equiv> ow_api (snd (authenticate k x now r w))" and "res \<equiv> fst (authenticate k x now r w)"
  obtains (locked) l ls where "locked_loop (unix_s now) (lock_targets ip i) (oa_locks a) = (Some l, ls)" "res = Denied ''locked'' [show_int l]"
      "a' = a\<lparr>oa_locks := ls\<rparr>"
  | (expired) ls key where "locked_loop (unix_s now) (lock_targets ip i) (oa_locks a) = (None, ls)" "res = KeyExpired key" "a' = a\<lparr>oa_locks := ls\<rparr>"
  | (failed) ls ns why tag where "locked_loop (unix_s now) (lock_targets ip i) (oa_locks a) = (None, ls)" "res = Denied tag why"
      "tag = ''auth_failed'' \<or> tag = ''replay''"
      "a' = recordFail (ow_cfg w) (unix_s now) (lock_targets ip i) (a\<lparr>oa_locks := ls, oa_nonces := ns\<rparr>)"
      "ns = oa_nonces a \<or> ns = admit_nonce (unix_s now) n (oa_nonces a) \<and> (\<forall>e. map_of (oa_nonces a) n = Some e \<longrightarrow> e \<le> unix_s now)"
  | (rated) ls stored where "locked_loop (unix_s now) (lock_targets ip i) (oa_locks a) = (None, ls)" "map_of (oa_keys a) i = Some stored"
      "\<forall>e. map_of (oa_nonces a) n = Some e \<longrightarrow> e \<le> unix_s now"
      "a' = snd (rate_phase (ow_cfg w) now i ip stored (a\<lparr>oa_locks := ls, oa_nonces := admit_nonce (unix_s now) n (oa_nonces a)\<rparr>))"
      "res = (case fst (rate_phase (ow_cfg w) now i ip stored (a\<lparr>oa_locks := ls, oa_nonces := admit_nonce (unix_s now) n (oa_nonces a)\<rparr>)) of
                None \<Rightarrow> Denied ''rate_limited'' [] | Some key \<Rightarrow> Authentic key)"
proof (cases rule: locked_cases [of "unix_s now" ip i a])
  case (1 l ls)
  then have "locked_loop (unix_s now) (lock_targets ip i) (oa_locks a) = (Some l, ls)"
    by (auto simp: locked_def split: prod.split_asm dest!: arg_cong [of _ _ oa_locks])
  with 1 show thesis
    by (intro locked) (auto simp: a'_def res_def authenticate_def Let_def a_def ip_def i_def)
next
  case (2 ls)
  note l = this
  let ?a1 = "a\<lparr>oa_locks := ls\<rparr>"
  have bad: "locked_loop (unix_s now) (lock_targets ip i) (oa_locks a) = (None, ls)" by (rule l(2))
  consider (ts) ts where "go_atoi (ar_header ''X-Timestamp'' r) = Some ts" "fresh_timestamp (ow_cfg w) (unix_s now) ts"
      "\<not> (i = [] \<or> ar_header ''X-Timestamp'' r = [] \<or> n = [] \<or> ar_header ''X-Signature'' r = [])"
    | (no) "\<exists>msg. authenticate k x now r w = (Denied ''auth_failed'' [msg], on_api (recordFail (ow_cfg w) (unix_s now) (lock_targets ip i)) (w\<lparr>ow_api := ?a1\<rparr>))"
  proof (cases "(i = [] \<or> ar_header ''X-Timestamp'' r = [] \<or> n = [] \<or> ar_header ''X-Signature'' r = [])")
    case True
    with l(1) show thesis by (intro that(2)) (auto simp: authenticate_def Let_def a_def ip_def i_def n_def)
  next
    case hdr: False
    show thesis
    proof (cases "\<exists>ts. go_atoi (ar_header ''X-Timestamp'' r) = Some ts \<and> fresh_timestamp (ow_cfg w) (unix_s now) ts")
      case True
      with hdr show thesis by (blast intro: that(1))
    next
      case False
      with hdr l(1) show thesis
        by (intro that(2)) (auto simp: authenticate_def Let_def a_def ip_def i_def n_def split: option.split)
    qed
  qed
  then show thesis
  proof cases
    case no
    then obtain msg where "authenticate k x now r w =
        (Denied ''auth_failed'' [msg], on_api (recordFail (ow_cfg w) (unix_s now) (lock_targets ip i)) (w\<lparr>ow_api := ?a1\<rparr>))" ..
    then show thesis by (intro failed [OF bad, of "''auth_failed''" "[msg]" "oa_nonces a"]) (auto simp: a'_def res_def a_def)
  next
    case ts
    show thesis
    proof (cases rule: admit_cases [of now i n ip ?a1])
      case (1 stored)
      let ?a2 = "?a1\<lparr>oa_nonces := admit_nonce (unix_s now) n (oa_nonces a)\<rparr>"
      show thesis
      proof (cases "signature k stored r = ar_header ''X-Signature'' r")
        case True
        with 1 ts l(1) show thesis
          by (intro rated [OF bad, of stored])
            (auto simp: a'_def res_def authenticate_def Let_def a_def ip_def i_def n_def split: prod.split option.split)
      next
        case False
        with 1 ts l(1) show thesis
          by (intro failed [OF bad, of "''auth_failed''" "[''signature'']" "admit_nonce (unix_s now) n (oa_nonces a)"])
            (auto simp: a'_def res_def authenticate_def Let_def a_def ip_def i_def n_def)
      qed
    next
      case (2 ad)
      show thesis
      proof (cases ad)
        case (Admit x1)
        with 2(2) [of x1] show thesis by simp
      next
        case (Expired key)
        with 2 ts l(1) show thesis
          by (intro expired [OF bad, of key]) (auto simp: a'_def res_def authenticate_def Let_def a_def ip_def i_def n_def)
      next
        case (Fail msg)
        with 2 ts l(1) show thesis
          by (intro failed [OF bad, of "''auth_failed''" "[msg]" "oa_nonces a"])
            (auto simp: a'_def res_def authenticate_def Let_def a_def ip_def i_def n_def)
      next
        case Replayed
        with 2 ts l(1) show thesis
          by (intro failed [OF bad, of "''replay''" "[]" "oa_nonces a"])
            (auto simp: a'_def res_def authenticate_def Let_def a_def ip_def i_def n_def)
      qed
    qed
  qed
qed

section \<open>A request that is accepted\<close>

lemma locked_loop_free: "(\<And>t. t \<in> set ts \<Longrightarrow> map_of ls t = None) \<Longrightarrow> locked_loop u ts ls = (None, ls)"
  by (induction u ts ls rule: locked_loop.induct) auto

lemma lock_targets_set: "set (lock_targets ip i) \<subseteq> {''ip:'' @ ip, ''id:'' @ i}"
  by (auto simp: lock_targets_def)

lemma defaults_in_use:
  assumes "cs_values c = []"
  shows "cfgNum c ''replay_window_s'' d = Fin 300" "cfgNum c ''rate_limit'' d = Fin 20"
  using assms by (simp_all add: cfgNum_def config_get_def config_defaults_def)

text \<open>Conversely, nothing else keeps a request of a live key from being accepted.\<close>

lemma authentic_intro:
  fixes k x now r w
  defines "i \<equiv> ar_header ''X-Api-Key'' r" and "ip \<equiv> clientIP (ow_cfg w) r" and "a \<equiv> ow_api w"
  assumes free: "map_of (oa_locks a) (''ip:'' @ ip) = None" "map_of (oa_locks a) (''id:'' @ i) = None"
    and headers: "i \<noteq> []" "ar_header ''X-Timestamp'' r \<noteq> []" "ar_header ''X-Nonce'' r \<noteq> []" "ar_header ''X-Signature'' r \<noteq> []"
    and ts: "go_atoi (ar_header ''X-Timestamp'' r) = Some ts" "fresh_timestamp (ow_cfg w) (unix_s now) ts"
    and key: "map_of (oa_keys a) i = Some stored" "\<not> key_RevokedNS stored > 0" "0 < key_ExpiresNS stored" "now < key_ExpiresNS stored" "ipAllowed stored ip"
    and nonce: "\<And>e. map_of (oa_nonces a) (ar_header ''X-Nonce'' r) = Some e \<Longrightarrow> e \<le> unix_s now"
    and sig: "ar_header ''X-Signature'' r = signature k stored r"
    and room: "int (length (filter (\<lambda>t. t > now - 10 * second) (recent_hits i a))) < cfgInt (ow_cfg w) ''rate_limit'' 20"
  shows "fst (authenticate k x now r w) = Authentic (stored\<lparr>key_LastUsedNS := now\<rparr>)"
proof -
  have "locked_loop (unix_s now) (lock_targets ip i) (oa_locks a) = (None, oa_locks a)"
    using free lock_targets_set [of ip i] by (intro locked_loop_free) auto
  then have lk: "locked (unix_s now) ip i a = (None, a)" by (simp add: locked_def)
  have ad: "admit now i (ar_header ''X-Nonce'' r) ip a =
      (Admit stored, a\<lparr>oa_nonces := admit_nonce (unix_s now) (ar_header ''X-Nonce'' r) (oa_nonces a)\<rparr>)"
    using key nonce by (auto simp: admit_def split: option.split)
  have rate: "fst (rate_phase (ow_cfg w) now i ip stored (a\<lparr>oa_nonces := n\<rparr>)) = Some (stored\<lparr>key_LastUsedNS := now\<rparr>)" for n
    using room by (simp add: rate_phase_def Let_def recent_hits_def)
  obtain a3 where "rate_phase (ow_cfg w) now i ip stored (a\<lparr>oa_nonces := admit_nonce (unix_s now) (ar_header ''X-Nonce'' r) (oa_nonces a)\<rparr>)
      = (Some (stored\<lparr>key_LastUsedNS := now\<rparr>), a3)"
    using rate by (metis prod.collapse)
  with lk headers ts ad sig show ?thesis
    by (simp add: authenticate_def Let_def flip: a_def ip_def i_def)
qed

section \<open>A signed request\<close>

text \<open>A key, the request it signs, and a server with the default configuration.\<close>

definition sample_ext :: ext where
  "sample_ext = \<lparr>x_ts = (\<lambda>t. t), x_sha256_hex = (\<lambda>b. map (\<lambda>c. char_of (unat c)) b), x_token_hash = (\<lambda>t. t)\<rparr>"

definition sample_key :: APIKey where
  "sample_key = \<lparr>key_ID = ''k1'', key_Name = ''n'', key_Remark = [], key_Prefix = [], key_KeyHash = ''h'', key_Scopes = [''task.read'', ''task.write''], key_Vehicles = [''v1''],
     key_IPs = [], key_CreatedNS = 0, key_ExpiresNS = 5000 * second, key_RevokedNS = 0, key_LastUsedNS = 0\<rparr>"

definition sample_request :: "string \<Rightarrow> string \<Rightarrow> string \<Rightarrow> api_request" where
  "sample_request m p ts =
    (let r = \<lparr>ar_method = m, ar_path = p, ar_headers = [(''X-Api-Key'', ''k1''), (''X-Timestamp'', ts), (''X-Nonce'', ''n1'')],
              ar_query = [], ar_remote = ''10.0.0.1:80'', ar_body = []\<rparr>
     in r\<lparr>ar_headers := (''X-Signature'', signature demo_kdf sample_key r) # ar_headers r\<rparr>)"

abbreviation sample_call :: "string \<Rightarrow> api_request" where
  "sample_call ts \<equiv> sample_request ''POST'' ''/open/v1/nav/cancel'' ts"

text \<open>A request without any of the headers.\<close>

definition bare_request :: api_request where
  "bare_request = \<lparr>ar_method = ''GET'', ar_path = ''/open/v1/meta'', ar_headers = [], ar_query = [], ar_remote = ''10.0.0.1:80'', ar_body = []\<rparr>"

definition sample_server :: "(string \<times> jval) list \<Rightarrow> open_world" where
  "sample_server vs = \<lparr>ow_api = empty_api\<lparr>oa_keys := [(''k1'', sample_key)]\<rparr>, ow_cfg = \<lparr>cs_values = vs, cs_updated = 0\<rparr>, ow_audit = [],
     ow_takeover = no_takeover, ow_world = (NewState [] None, (empty_db, []))\<rparr>"

lemma sample_accepted:
  assumes "fst (authenticate k x now r w) = Authentic key"
  shows "authenticate k x now r w = (Authentic key, snd (authenticate k x now r w))"
  using assms by (simp add: prod_eq_iff)

lemma sample_headers [simp]:
  "ar_header ''X-Api-Key'' (sample_request m p ts) = ''k1''" "ar_header ''X-Timestamp'' (sample_request m p ts) = ts"
  "ar_header ''X-Nonce'' (sample_request m p ts) = ''n1''"
  "ar_header ''X-Signature'' (sample_request m p ts) = signature demo_kdf sample_key (sample_request m p ts)"
  "ar_method (sample_request m p ts) = m" "ar_path (sample_request m p ts) = p" "(sample_request m p ts)\<lparr>ar_body := []\<rparr> = sample_request m p ts"
  by (simp_all add: sample_request_def ar_header_def Let_def signature_def signed_text_def)

lemma sample_authentic:
  assumes "go_atoi ts = Some (unix_s now + d)" "ts \<noteq> []" "\<bar>d\<bar> \<le> 300" "now < 5000 * second" "cs_values (ow_cfg w) = []"
    "ow_api w = ow_api (sample_server [])"
  shows "fst (authenticate demo_kdf x now (sample_request m p ts) w) = Authentic (sample_key\<lparr>key_LastUsedNS := now\<rparr>)"
proof (rule authentic_intro)
  show "fresh_timestamp (ow_cfg w) (unix_s now) (unix_s now + d)"
    using assms(3,5) by (simp add: fresh_timestamp_def defaults_in_use f64_int_def int64_min_def int64_max_def wrap64_id abs_le_iff Let_def)
  show "ar_header ''X-Signature'' (sample_request m p ts) \<noteq> []" by (simp add: signature_def hex_encode_def demo_kdf_def)
qed (use assms in \<open>auto simp: sample_server_def empty_api_def sample_key_def ipAllowed_def recent_hits_def cfgInt_def
      defaults_in_use f64_int_def int64_min_def int64_max_def second_def\<close>)

theorem open_auth_sound_witness:
  "ar_header ''X-Signature'' (sample_call ''1000'') = signature demo_kdf sample_key (sample_call ''1000'')
   \<and> 1000 * second < key_ExpiresNS sample_key"
proof -
  have at: "go_atoi ''1000'' = Some (unix_s (1000 * second) + 0)" by code_simp
  have "fst (authenticate demo_kdf sample_ext (1000 * second) (sample_call ''1000'') (sample_server [])) = Authentic (sample_key\<lparr>key_LastUsedNS := 1000 * second\<rparr>)"
    by (rule sample_authentic [OF at]) (simp_all add: second_def sample_server_def)
  from open_auth_sound [OF sample_accepted [OF this]] show ?thesis
    by (auto simp: sample_server_def)
qed

end
