(* ===== verification/Open_Replay.thy ===== *)
theory Open_Replay
  imports Open_Props
begin

text \<open>A signed request is accepted once: what nonces and the window guarantee, and where they fail.\<close>

section \<open>Replays\<close>

lemma map_of_alive: "map_of ns n = Some e \<Longrightarrow> e > u \<Longrightarrow> map_of (filter (\<lambda>(n, e). \<not> e \<le> u) ns) n = Some (e :: int)"
  by (induction ns) (auto split: if_splits)

lemma admit_nonce_new: "map_of (admit_nonce u n ns) n = Some (u + 600)"
  unfolding admit_nonce_def by (rule map_of_alive) (simp_all add: update_conv')

lemma admit_nonce_other: "map_of ns n = Some e \<Longrightarrow> e > u \<Longrightarrow> n' \<noteq> n \<Longrightarrow> map_of (admit_nonce u n' ns) n = Some e"
  unfolding admit_nonce_def by (rule map_of_alive) (simp_all add: update_conv')

definition nonce_held :: "string \<Rightarrow> int \<Rightarrow> open_world \<Rightarrow> bool" where
  "nonce_held n e w \<longleftrightarrow> map_of (oa_nonces (ow_api w)) n = Some e"

lemma nonce_held_authenticate:
  assumes "nonce_held n e w" "unix_s now < e"
  shows "nonce_held n e (snd (authenticate k x now r w))"
  using assms
  by (cases rule: authenticate_outcome [of now w r k x])
    (auto simp: nonce_held_def intro!: admit_nonce_other dest: spec [of _ e])

lemma nonce_held_step:
  assumes held: "nonce_held n e w" and before: "\<And>t. t \<in> set (serve_times [op]) \<Longrightarrow> unix_s t < e"
  shows "nonce_held n e (open_step env dp w op)"
proof (rule open_step_auth [of env dp w op])
  assume "auth_part (open_step env dp w op) = auth_part w"
  with held show ?thesis by (simp add: nonce_held_def auth_part_def)
next
  fix rd r stream b
  assume op: "op = OpServe rd r stream"
    and eq: "auth_part (open_step env dp w op) = auth_part (snd (authenticate (oe_kdf env) (oe_ext env) (wall (or_now rd)) (r\<lparr>ar_body := b\<rparr>) w))"
  from op before have "unix_s (wall (or_now rd)) < e" by simp
  with held have "nonce_held n e (snd (authenticate (oe_kdf env) (oe_ext env) (wall (or_now rd)) (r\<lparr>ar_body := b\<rparr>) w))"
    by (rule nonce_held_authenticate)
  with eq show ?thesis by (simp add: nonce_held_def auth_part_def)
qed

lemma serve_times_Cons: "set (serve_times (op # ops)) = set (serve_times [op]) \<union> set (serve_times ops)"
  by (cases op) auto

lemma nonce_held_run:
  "nonce_held n e w \<Longrightarrow> (\<And>t. t \<in> set (serve_times ops) \<Longrightarrow> unix_s t < e) \<Longrightarrow> nonce_held n e (run (open_step env dp) w ops)"
proof (induction ops arbitrary: w)
  case (Cons op ops)
  then show ?case by (auto simp only: serve_times_Cons [of op ops] run.simps intro!: Cons.IH nonce_held_step)
qed simp

lemma open_step_cfg: "ow_cfg (open_step env dp w op) = ow_cfg w"
  by (rule open_step_auth [of env dp w op]) (auto simp: auth_part_def)

lemma open_run_cfg [simp]: "ow_cfg (run (open_step env dp) w ops) = ow_cfg w"
  by (induction ops arbitrary: w) (auto simp: open_step_cfg)

lemma unix_s_mono: "s \<le> t \<Longrightarrow> unix_s s \<le> unix_s t"
  by (simp add: unix_s_def second_def zdiv_mono1)

lemma go_atoi_range: "go_atoi s = Some v \<Longrightarrow> int64_min \<le> v \<and> v \<le> int64_max"
  by (auto simp: go_atoi_def Let_def split: if_split_asm option.split_asm)

text \<open>Within the range of a nanosecond clock the difference to any timestamp is read as what it is.\<close>

lemma wrap64_far:
  assumes "int64_max < x" "x \<le> 2 ^ 63 + 2 ^ 62"
  shows "wrap64 x = x - 2 ^ 64"
proof -
  have "wrap64 x = wrap64 (x - 2 ^ 64)"
    unfolding wrap64_def by (rule arg_cong [of _ _ sint]) (simp add: word_of_int_eq_iff take_bit_eq_mod)
  also have "\<dots> = x - 2 ^ 64" using assms by (intro wrap64_id) (simp_all add: int64_min_def int64_max_def)
  finally show ?thesis .
qed

lemma fresh_distance:
  assumes "fresh_timestamp c nowU ts" "cfgInt c ''replay_window_s'' 300 \<le> W" "W < 2 ^ 61" "0 \<le> nowU" "nowU \<le> 2 ^ 61" "int64_min \<le> ts" "ts \<le> int64_max"
  shows "\<bar>nowU - ts\<bar> \<le> W"
proof (cases "nowU - ts \<le> int64_max")
  case True
  with assms(4,7) have "wrap64 (nowU - ts) = nowU - ts" by (intro wrap64_id) (simp_all add: int64_min_def int64_max_def)
  with assms(1,2) show ?thesis by (auto simp: fresh_timestamp_def Let_def cfgInt_def)
next
  case False
  with assms(4-6) have "wrap64 (nowU - ts) = nowU - ts - 2 ^ 64"
    by (intro wrap64_far) (simp_all add: int64_min_def int64_max_def)
  with assms show ?thesis by (auto simp: fresh_timestamp_def Let_def cfgInt_def int64_min_def)
qed

lemma unix_s_range: "0 \<le> t \<Longrightarrow> t \<le> int64_max \<Longrightarrow> 0 \<le> unix_s t \<and> unix_s t \<le> 2 ^ 61"
  using unix_s_mono [of 0 t] unix_s_mono [of t int64_max] by (simp add: unix_s_def second_def int64_max_def)

lemma authentic_holds_nonce:
  assumes "authenticate k x now r w = (Authentic key, w')"
  shows "nonce_held (ar_header ''X-Nonce'' r) (unix_s now + 600) w'"
proof (rule authentic_elim [OF assms])
  fix ls stored
  assume "rate_phase (ow_cfg w) now (ar_header ''X-Api-Key'' r) (clientIP (ow_cfg w) r) stored
       ((ow_api w)\<lparr>oa_locks := ls, oa_nonces := admit_nonce (unix_s now) (ar_header ''X-Nonce'' r) (oa_nonces (ow_api w))\<rparr>) = (Some key, ow_api w')"
  from arg_cong [OF this, of "\<lambda>p. oa_nonces (snd p)"]
  have "oa_nonces (ow_api w') = admit_nonce (unix_s now) (ar_header ''X-Nonce'' r) (oa_nonces (ow_api w))" by simp
  then show ?thesis by (simp add: nonce_held_def admit_nonce_new)
qed

lemma authentic_fresh:
  assumes "authenticate k x now r w = (Authentic key, w')"
  shows "(\<exists>ts. go_atoi (ar_header ''X-Timestamp'' r) = Some ts \<and> fresh_timestamp (ow_cfg w) (unix_s now) ts) \<and> ow_cfg w' = ow_cfg w
    \<and> (\<forall>e. map_of (oa_nonces (ow_api w)) (ar_header ''X-Nonce'' r) = Some e \<longrightarrow> e \<le> unix_s now)"
  by (rule authentic_elim [OF assms]) blast

text \<open>
  C28. With a window below 300 seconds a signed request is accepted at most once: after it was accepted,
  whatever requests are served and keys are created, changed or revoked, no request with the same
  nonce and timestamp is accepted again, at any later time. Nonces are remembered for 600 seconds,
  after which the timestamp is out of the window. The clock is only assumed not to run back behind
  requests that were served.
\<close>

theorem open_no_replay:
  assumes first: "authenticate k x t1 r w = (Authentic key, w1)"
    and window: "cfgInt (ow_cfg w) ''replay_window_s'' 300 < 300"
    and clock: "0 \<le> t1" "t1 \<le> int64_max" "0 \<le> t2" "t2 \<le> int64_max" "\<And>t. t \<in> set (serve_times ops) \<Longrightarrow> t \<le> t2"
    and same: "ar_header ''X-Nonce'' r2 = ar_header ''X-Nonce'' r" "ar_header ''X-Timestamp'' r2 = ar_header ''X-Timestamp'' r"
  shows "fst (authenticate k x t2 r2 (run (open_step env dp) w1 ops)) \<noteq> Authentic key2"
proof
  let ?w2 = "run (open_step env dp) w1 ops"
  assume "fst (authenticate k x t2 r2 ?w2) = Authentic key2"
  then obtain w3 where again: "authenticate k x t2 r2 ?w2 = (Authentic key2, w3)" by (cases "authenticate k x t2 r2 ?w2") auto
  from authentic_fresh [OF first] obtain ts where ts: "go_atoi (ar_header ''X-Timestamp'' r) = Some ts" "fresh_timestamp (ow_cfg w) (unix_s t1) ts"
    and cfg: "ow_cfg w1 = ow_cfg w" by blast
  note fresh = authentic_fresh [OF again, unfolded same open_run_cfg cfg ts(1)]
  have late: "fresh_timestamp (ow_cfg w) (unix_s t2) ts"
    using fresh by (elim conjE exE) (simp only: option.inject)
  have unused: "\<forall>e. map_of (oa_nonces (ow_api ?w2)) (ar_header ''X-Nonce'' r) = Some e \<longrightarrow> e \<le> unix_s t2"
    using fresh by (elim conjE)
  show False
  proof (cases "unix_s t2 < unix_s t1 + 600")
    case True
    have "nonce_held (ar_header ''X-Nonce'' r) (unix_s t1 + 600) ?w2"
      using clock(5) True by (intro nonce_held_run authentic_holds_nonce [OF first]) (meson order_le_less_trans unix_s_mono)
    with unused True show False by (force simp: nonce_held_def)
  next
    case False
    note range = go_atoi_range [OF ts(1)]
    from window have w: "cfgInt (ow_cfg w) ''replay_window_s'' 300 \<le> 299" by simp
    have "\<bar>unix_s t1 - ts\<bar> \<le> 299" using range unix_s_range [OF clock(1,2)] by (intro fresh_distance [OF ts(2) w]) simp_all
    moreover have "\<bar>unix_s t2 - ts\<bar> \<le> 299" using range unix_s_range [OF clock(3,4)] by (intro fresh_distance [OF late w]) simp_all
    ultimately show False using False by linarith
  qed
qed

lemma target_distinct [simp]: "''ip:'' @ a \<noteq> ''id:'' @ b" "''id:'' @ b \<noteq> ''ip:'' @ a"
  by simp_all

text \<open>What an accepted request leaves behind.\<close>

lemma rate_phase_Some:
  assumes "rate_phase c now i ip stored a = (Some key, a')" "map_of (oa_keys a) i = Some old"
  shows "key = stored\<lparr>key_LastUsedNS := now\<rparr> \<and> oa_nonces a' = oa_nonces a \<and> map_of (oa_keys a') i = Some key
    \<and> map_of (oa_locks a') (''ip:'' @ ip) = None \<and> map_of (oa_locks a') (''id:'' @ i) = None
    \<and> int (length (filter (\<lambda>t. t > now - 10 * second) (recent_hits i a))) < cfgInt c ''rate_limit'' 20
    \<and> oa_hits a' = AList.update i (filter (\<lambda>t. t > now - 10 * second) (recent_hits i a) @ [now]) (oa_hits a)"
  using assms by (auto simp: rate_phase_def Let_def recent_hits_def update_conv' delete_conv' split: if_split_asm)

lemma unix_s_bounds: "unix_s t * second \<le> t \<and> t < (unix_s t + 1) * second"
proof -
  have "t = unix_s t * second + t mod second" by (simp add: unix_s_def)
  moreover have "0 \<le> t mod second" "t mod second < second" by (simp_all add: second_def)
  ultimately show ?thesis by (simp add: algebra_simps)
qed

text \<open>
  At the default window of 300 seconds nonces are forgotten too early: a request whose timestamp is
  300 seconds ahead of the server is accepted, and the same request is accepted a second time
  exactly 600 seconds later, if no other request came in between and the key has not expired.
\<close>

theorem replay_at_window_edge:
  assumes first: "authenticate k x t1 r w = (Authentic key, w1)" and defaults: "cs_values (ow_cfg w) = []"
    and ts: "go_atoi (ar_header ''X-Timestamp'' r) = Some (unix_s t1 + 300)"
    and later: "unix_s t2 = unix_s t1 + 600" "t2 < key_ExpiresNS key" "0 \<le> t1" "t1 \<le> int64_max"
    and hits: "\<And>u. u \<in> set (recent_hits (ar_header ''X-Api-Key'' r) (ow_api w)) \<Longrightarrow> u \<le> t1"
  shows "\<exists>key' w2. authenticate k x t2 r w1 = (Authentic key', w2)"
proof -
  let ?ip = "clientIP (ow_cfg w) r" and ?i = "ar_header ''X-Api-Key'' r" and ?n = "ar_header ''X-Nonce'' r"
  from first obtain ls stored where st: "map_of (oa_keys (ow_api w)) ?i = Some stored" "\<not> key_RevokedNS stored > 0"
      "ipAllowed stored ?ip" "signature k stored r = ar_header ''X-Signature'' r" and cfg: "ow_cfg w1 = ow_cfg w"
    and rate: "rate_phase (ow_cfg w) t1 ?i ?ip stored
       ((ow_api w)\<lparr>oa_locks := ls, oa_nonces := admit_nonce (unix_s t1) ?n (oa_nonces (ow_api w))\<rparr>) = (Some key, ow_api w1)"
    by (rule authentic_elim) blast
  have after: "key = stored\<lparr>key_LastUsedNS := t1\<rparr>" "map_of (oa_keys (ow_api w1)) ?i = Some key"
      "map_of (oa_locks (ow_api w1)) (''ip:'' @ ?ip) = None" "map_of (oa_locks (ow_api w1)) (''id:'' @ ?i) = None"
      "oa_nonces (ow_api w1) = admit_nonce (unix_s t1) ?n (oa_nonces (ow_api w))"
      "oa_hits (ow_api w1) = AList.update ?i (filter (\<lambda>t. t > t1 - 10 * second) (recent_hits ?i (ow_api w)) @ [t1]) (oa_hits (ow_api w))"
    using rate_phase_Some [OF rate, of stored] st(1) by (simp_all add: recent_hits_def)
  have apart: "0 < t2" "t1 \<le> t2 - 10 * second"
    using unix_s_bounds [of t1] unix_s_bounds [of t2] unix_s_range [OF later(3,4)] later(1) by (simp_all add: second_def)
  have fresh: "fresh_timestamp (ow_cfg w) (unix_s t2) (unix_s t1 + 300)"
    using later(1) by (simp add: fresh_timestamp_def defaults_in_use [OF defaults] f64_int_def int64_min_def int64_max_def wrap64_id)
  have "recent_hits ?i (ow_api w1) = filter (\<lambda>t. t > t1 - 10 * second) (recent_hits ?i (ow_api w)) @ [t1]"
    using after(6) by (simp add: recent_hits_def update_conv')
  then have "filter (\<lambda>t. t > t2 - 10 * second) (recent_hits ?i (ow_api w1)) = []"
    using hits apart(2) by (force simp: filter_empty_conv)
  then have room: "int (length (filter (\<lambda>t. t > t2 - 10 * second) (recent_hits ?i (ow_api w1)))) < cfgInt (ow_cfg w1) ''rate_limit'' 20"
    by (simp add: cfg cfgInt_def defaults_in_use [OF defaults] f64_int_def int64_min_def int64_max_def)
  have "fst (authenticate k x t2 r w1) = Authentic (key\<lparr>key_LastUsedNS := t2\<rparr>)"
  proof (rule authentic_intro)
    show "e \<le> unix_s t2" if "map_of (oa_nonces (ow_api w1)) ?n = Some e" for e
      using that after(5) later(1) by (simp add: admit_nonce_new)
    show "\<not> key_RevokedNS key > 0" "ipAllowed key (clientIP (ow_cfg w1) r)" "ar_header ''X-Signature'' r = signature k key r"
      using st after(1) cfg by (simp_all add: ipAllowed_def signature_def)
    show "fresh_timestamp (ow_cfg w1) (unix_s t2) (unix_s t1 + 300)" using fresh cfg by simp
  qed (use after(2-4) ts later(2) apart(1) room cfg authentic_headers [OF first] in auto)
  then show ?thesis by (cases "authenticate k x t2 r w1") auto
qed

section \<open>Witnesses\<close>

lemma sample_first: "authenticate demo_kdf sample_ext (1000 * second) (sample_call ''1300'') (sample_server []) =
    (Authentic (sample_key\<lparr>key_LastUsedNS := 1000 * second\<rparr>),
     snd (authenticate demo_kdf sample_ext (1000 * second) (sample_call ''1300'') (sample_server [])))"
proof (rule sample_accepted)
  have ts: "go_atoi ''1300'' = Some (unix_s (1000 * second) + 300)" by code_simp
  show "fst (authenticate demo_kdf sample_ext (1000 * second) (sample_call ''1300'') (sample_server [])) = Authentic (sample_key\<lparr>key_LastUsedNS := 1000 * second\<rparr>)"
    by (rule sample_authentic [OF ts]) (simp_all add: second_def sample_server_def)
qed

theorem replay_at_window_edge_witness:
  "\<exists>key' w2. authenticate demo_kdf sample_ext (1600 * second) (sample_call ''1300'')
     (snd (authenticate demo_kdf sample_ext (1000 * second) (sample_call ''1300'') (sample_server []))) = (Authentic key', w2)"
proof (rule replay_at_window_edge [OF sample_first])
  show "go_atoi (ar_header ''X-Timestamp'' (sample_call ''1300'')) = Some (unix_s (1000 * second) + 300)" unfolding sample_headers by code_simp
qed (simp_all add: sample_server_def empty_api_def recent_hits_def sample_key_def unix_s_def second_def int64_max_def)

text \<open>A window of 120 seconds.\<close>

definition narrow_window :: "(string \<times> jval) list" where "narrow_window = [(''replay_window_s'', JNum (Fin 120))]"

lemma narrow_fresh: "fresh_timestamp (ow_cfg (sample_server narrow_window)) 1000 1000" "cfgInt (ow_cfg (sample_server narrow_window)) ''replay_window_s'' 300 = 120"
  "cfgInt (ow_cfg (sample_server narrow_window)) ''rate_limit'' 20 = 20"
  by (simp_all add: fresh_timestamp_def sample_server_def narrow_window_def cfgInt_def cfgNum_def config_get_def config_defaults_def
      f64_int_def int64_min_def int64_max_def wrap64_id)

theorem open_no_replay_witness:
  "\<forall>env dp. fst (authenticate demo_kdf sample_ext (1001 * second) (sample_call ''1000'')
     (run (open_step env dp) (snd (authenticate demo_kdf sample_ext (1000 * second) (sample_call ''1000'') (sample_server narrow_window)))
       [OpRevokeKey 5 ''k2'' ''root''])) \<noteq> Authentic sample_key"
proof (intro allI)
  fix env dp
  have ts: "go_atoi ''1000'' = Some 1000" by code_simp
  have "fst (authenticate demo_kdf sample_ext (1000 * second) (sample_call ''1000'') (sample_server narrow_window)) = Authentic (sample_key\<lparr>key_LastUsedNS := 1000 * second\<rparr>)"
  proof (rule authentic_intro)
    show "fresh_timestamp (ow_cfg (sample_server narrow_window)) (unix_s (1000 * second)) 1000"
      using narrow_fresh(1) by (simp add: unix_s_def second_def)
    show "ar_header ''X-Signature'' (sample_call ''1000'') \<noteq> []" by (simp add: signature_def hex_encode_def demo_kdf_def)
    show "int (length (filter (\<lambda>t. t > 1000 * second - 10 * second) (recent_hits (ar_header ''X-Api-Key'' (sample_call ''1000'')) (ow_api (sample_server narrow_window)))))
        < cfgInt (ow_cfg (sample_server narrow_window)) ''rate_limit'' 20"
      unfolding narrow_fresh by (simp add: sample_server_def empty_api_def recent_hits_def)
  qed (auto simp: sample_server_def empty_api_def sample_key_def ipAllowed_def second_def ts)
  from sample_accepted [OF this]
  show "fst (authenticate demo_kdf sample_ext (1001 * second) (sample_call ''1000'')
     (run (open_step env dp) (snd (authenticate demo_kdf sample_ext (1000 * second) (sample_call ''1000'') (sample_server narrow_window)))
       [OpRevokeKey 5 ''k2'' ''root''])) \<noteq> Authentic sample_key"
    by (rule open_no_replay) (simp_all add: narrow_fresh second_def int64_max_def)
qed

end
