(* ===== verification/Open_Limits.thy ===== *)
theory Open_Limits
  imports Open_Replay
begin

text \<open>The rate of a key, and the lock-out of an address after failed attempts.\<close>

section \<open>The rate\<close>

text \<open>The instants at which requests of a key were accepted along a run.\<close>

fun accepted :: "open_env \<Rightarrow> (int \<Rightarrow> int) \<Rightarrow> string \<Rightarrow> open_world \<Rightarrow> open_op list \<Rightarrow> int list" where
  "accepted env dp i w [] = []"
| "accepted env dp i w (op # ops) =
    (case op of
       OpServe rd r stream \<Rightarrow>
         (case readRawBody (2 ^ 20) stream of
            Some b \<Rightarrow>
              (case fst (authenticate (oe_kdf env) (oe_ext env) (wall (or_now rd)) (r\<lparr>ar_body := b\<rparr>) w) of
                 Authentic key \<Rightarrow>
                   if ar_header ''X-Api-Key'' r = i \<and> config_get (ow_cfg w) ''open_api_enabled'' \<noteq> Some (JBool False) then [wall (or_now rd)] else []
               | _ \<Rightarrow> [])
          | None \<Rightarrow> [])
     | _ \<Rightarrow> []) @ accepted env dp i (open_step env dp w op) ops"

text \<open>What the hits remember of the accepted requests: everything after the last ten seconds began.\<close>

definition hits_cover :: "int \<Rightarrow> int list \<Rightarrow> int list \<Rightarrow> bool" where
  "hits_cover u acc hs \<longleftrightarrow> (\<forall>cut. u - 10 * second \<le> cut \<longrightarrow> length (filter (\<lambda>t. t > cut) acc) \<le> length (filter (\<lambda>t. t > cut) hs))"

definition in_window :: "int \<Rightarrow> int list \<Rightarrow> int list" where
  "in_window T acc = filter (\<lambda>t. T - 10 * second < t \<and> t \<le> T) acc"

definition rate_ok :: "int \<Rightarrow> int \<Rightarrow> int list \<Rightarrow> int list \<Rightarrow> bool" where
  "rate_ok limit u acc hs \<longleftrightarrow> hits_cover u acc hs \<and> (\<forall>T. int (length (in_window T acc)) \<le> limit)"

lemma rate_ok_later: "rate_ok limit u acc hs \<Longrightarrow> u \<le> t \<Longrightarrow> rate_ok limit t acc hs"
  by (auto simp: rate_ok_def hits_cover_def)

lemma filter_kept: "now - 10 * second \<le> c0 \<Longrightarrow> filter (\<lambda>t. t > c0) (filter (\<lambda>t. t > now - 10 * second) hs) = filter (\<lambda>t. t > (c0 :: int)) hs"
  by (induction hs) auto

lemma rate_ok_refused:
  assumes "rate_ok limit now acc hs"
  shows "rate_ok limit now acc (filter (\<lambda>t. t > now - 10 * second) hs @ zs)"
  using assms filter_kept [of now _ hs] unfolding rate_ok_def hits_cover_def filter_append length_append by (metis trans_le_add1)

lemma rate_ok_accepted:
  assumes ok: "rate_ok limit now acc hs" and room: "int (length (filter (\<lambda>t. t > now - 10 * second) hs)) < limit"
  shows "rate_ok limit now (acc @ [now]) (filter (\<lambda>t. t > now - 10 * second) hs @ [now])"
  unfolding rate_ok_def
proof (intro conjI allI)
  show "hits_cover now (acc @ [now]) (filter (\<lambda>t. t > now - 10 * second) hs @ [now])"
    using ok filter_kept [of now _ hs] by (auto simp: rate_ok_def hits_cover_def)
next
  fix T
  show "int (length (in_window T (acc @ [now]))) \<le> limit"
  proof (cases "T - 10 * second < now \<and> now \<le> T")
    case True
    then have cut: "now - 10 * second \<le> T - 10 * second" by simp
    have "length (in_window T acc) \<le> length (filter (\<lambda>t. t > T - 10 * second) acc)"
      by (induction acc) (auto simp: in_window_def)
    also have "\<dots> \<le> length (filter (\<lambda>t. t > T - 10 * second) hs)"
      using ok cut by (simp add: rate_ok_def hits_cover_def)
    also have "\<dots> \<le> length (filter (\<lambda>t. t > now - 10 * second) hs)"
      by (subst filter_kept [OF cut, symmetric]) (rule length_filter_le)
    finally show ?thesis using True room by (simp add: in_window_def)
  next
    case False
    with ok show ?thesis by (auto simp: rate_ok_def in_window_def)
  qed
qed

lemma rate_ok_authenticate:
  fixes k x now r w
  defines "res \<equiv> fst (authenticate k x now r w)" and "a' \<equiv> ow_api (snd (authenticate k x now r w))"
  assumes "rate_ok (cfgInt (ow_cfg w) ''rate_limit'' 20) now acc (recent_hits i (ow_api w))"
  shows "rate_ok (cfgInt (ow_cfg w) ''rate_limit'' 20) now
    (acc @ (case res of Authentic key \<Rightarrow> if ar_header ''X-Api-Key'' r = i then [now] else [] | _ \<Rightarrow> [])) (recent_hits i a')"
proof (cases rule: authenticate_outcome [of now w r k x])
  case (rated ls stored)
  let ?i = "ar_header ''X-Api-Key'' r"
  let ?a = "(ow_api w)\<lparr>oa_locks := ls, oa_nonces := admit_nonce (unix_s now) (ar_header ''X-Nonce'' r) (oa_nonces (ow_api w))\<rparr>"
  show ?thesis
  proof (cases "fst (rate_phase (ow_cfg w) now ?i (clientIP (ow_cfg w) r) stored ?a)")
    case None
    with rated have "res = Denied ''rate_limited'' []" by (simp add: res_def)
    moreover from None rated have "a' = ?a \<or> a' = ?a\<lparr>oa_hits := AList.update ?i
        (filter (\<lambda>t. t > now - 10 * second) (recent_hits ?i (ow_api w)) @ drop (length (filter (\<lambda>t. t > now - 10 * second) (recent_hits ?i (ow_api w)))) (recent_hits ?i (ow_api w)))
        (oa_hits (ow_api w))\<rparr>"
      by (auto simp: a'_def rate_phase_def Let_def recent_hits_def split: if_split_asm)
    ultimately show ?thesis using assms(3)
      by (auto simp: recent_hits_def update_conv' intro: rate_ok_refused)
  next
    case (Some key)
    with rated have res: "res = Authentic key" and phase: "rate_phase (ow_cfg w) now ?i (clientIP (ow_cfg w) r) stored ?a = (Some key, a')"
      by (auto simp: res_def a'_def prod_eq_iff)
    from rate_phase_Some [OF phase, of stored] rated(2) have room: "int (length (filter (\<lambda>t. t > now - 10 * second) (recent_hits ?i (ow_api w)))) < cfgInt (ow_cfg w) ''rate_limit'' 20"
      and hs: "oa_hits a' = AList.update ?i (filter (\<lambda>t. t > now - 10 * second) (recent_hits ?i (ow_api w)) @ [now]) (oa_hits (ow_api w))"
      by (simp_all add: recent_hits_def)
    show ?thesis
    proof (cases "?i = i")
      case True
      have "recent_hits i a' = filter (\<lambda>t. t > now - 10 * second) (recent_hits i (ow_api w)) @ [now]"
        using hs True by (simp add: recent_hits_def [of i a'] update_conv')
      with res True room rate_ok_accepted [OF assms(3)] show ?thesis by simp
    next
      case False
      then have "recent_hits i a' = recent_hits i (ow_api w)" using hs by (simp add: recent_hits_def [of i] update_conv')
      with res False assms(3) show ?thesis by simp
    qed
  qed
qed (use assms in \<open>auto simp: recent_hits_def\<close>)

lemma recent_hits_part: "auth_part w = auth_part w' \<Longrightarrow> recent_hits i (ow_api w) = recent_hits i (ow_api w')"
  by (simp add: auth_part_def recent_hits_def)

lemma ServeOpen_part:
  "auth_part (snd (ServeOpen env rd r stream w)) =
    (if config_get (ow_cfg w) ''open_api_enabled'' = Some (JBool False) then auth_part w
     else case readRawBody (2 ^ 20) stream of None \<Rightarrow> auth_part w
       | Some b \<Rightarrow> auth_part (snd (authenticate (oe_kdf env) (oe_ext env) (wall (or_now rd)) (r\<lparr>ar_body := b\<rparr>) w)))"
  by (simp add: ServeOpen_enabled ServeOpen_disabled auth_part_def Let_def del: authenticate_cfg split: option.split prod.split open_auth.split)

lemma ar_body_header [simp]: "ar_header n (r\<lparr>ar_body := b\<rparr>) = ar_header n r"
  by (simp add: ar_header_def)

lemma rate_ok_step:
  assumes ok: "rate_ok (cfgInt (ow_cfg w) ''rate_limit'' 20) u acc (recent_hits i (ow_api w))" and later: "\<And>t. t \<in> set (serve_times [op]) \<Longrightarrow> u \<le> t"
  shows "rate_ok (cfgInt (ow_cfg w) ''rate_limit'' 20) (case op of OpServe rd r stream \<Rightarrow> wall (or_now rd) | _ \<Rightarrow> u)
    (acc @ accepted env dp i w [op]) (recent_hits i (ow_api (open_step env dp w op)))"
proof (cases op)
  case (OpServe rd r stream)
  have ok': "rate_ok (cfgInt (ow_cfg w) ''rate_limit'' 20) (wall (or_now rd)) acc (recent_hits i (ow_api w))"
    using rate_ok_later [OF ok] later OpServe by simp
  note auth = rate_ok_authenticate [OF ok']
  show ?thesis
  proof (cases "config_get (ow_cfg w) ''open_api_enabled'' = Some (JBool False) \<or> readRawBody (2 ^ 20) stream = None")
    case True
    then have "recent_hits i (ow_api (open_step env dp w op)) = recent_hits i (ow_api w)"
      using OpServe by (intro recent_hits_part) (auto simp: ServeOpen_part)
    moreover have "accepted env dp i w [op] = []" using True OpServe by (auto split: option.split open_auth.split)
    ultimately show ?thesis using ok' OpServe by simp
  next
    case False
    then obtain b where b: "readRawBody (2 ^ 20) stream = Some b" by auto
    let ?p = "authenticate (oe_kdf env) (oe_ext env) (wall (or_now rd)) (r\<lparr>ar_body := b\<rparr>) w"
    have "recent_hits i (ow_api (open_step env dp w op)) = recent_hits i (ow_api (snd ?p))"
      using OpServe False b by (intro recent_hits_part) (simp add: ServeOpen_part)
    moreover have "accepted env dp i w [op] = (case fst ?p of Authentic key \<Rightarrow> if ar_header ''X-Api-Key'' r = i then [wall (or_now rd)] else [] | _ \<Rightarrow> [])"
      using OpServe False b by (simp split: open_auth.split)
    ultimately have "rate_ok (cfgInt (ow_cfg w) ''rate_limit'' 20) (wall (or_now rd)) (acc @ accepted env dp i w [op])
        (recent_hits i (ow_api (open_step env dp w op)))"
      using auth [where k = "oe_kdf env" and x = "oe_ext env" and r = "r\<lparr>ar_body := b\<rparr>"] by (simp only: ar_body_header)
    then show ?thesis by (simp only: OpServe open_op.case)
  qed
qed (use ok in \<open>simp_all add: recent_hits_part [OF CreateKey_auth] recent_hits_part [OF UpdateKey_auth] recent_hits_part [OF RevokeKey_auth]\<close>)

lemma accepted_Cons: "accepted env dp i w (op # ops) = accepted env dp i w [op] @ accepted env dp i (open_step env dp w op) ops"
  by simp

lemma rate_ok_run:
  assumes "rate_ok (cfgInt (ow_cfg w) ''rate_limit'' 20) u acc (recent_hits i (ow_api w))" "sorted (u # serve_times ops)"
  shows "\<exists>u' hs. rate_ok (cfgInt (ow_cfg w) ''rate_limit'' 20) u' (acc @ accepted env dp i w ops) hs"
  using assms
proof (induction ops arbitrary: w u acc)
  case (Cons op ops)
  let ?u = "case op of OpServe rd r stream \<Rightarrow> wall (or_now rd) | _ \<Rightarrow> u"
  have "rate_ok (cfgInt (ow_cfg w) ''rate_limit'' 20) ?u (acc @ accepted env dp i w [op]) (recent_hits i (ow_api (open_step env dp w op)))"
    using Cons.prems by (intro rate_ok_step) (cases op; simp)+
  moreover have "sorted (?u # serve_times ops)" using Cons.prems(2) by (cases op) auto
  ultimately have "\<exists>u' hs. rate_ok (cfgInt (ow_cfg w) ''rate_limit'' 20) u'
      ((acc @ accepted env dp i w [op]) @ accepted env dp i (open_step env dp w op) ops) hs"
    using Cons.IH [of "open_step env dp w op" ?u "acc @ accepted env dp i w [op]"] unfolding open_step_cfg by blast
  then show ?case unfolding accepted_Cons [of env dp i w op ops] append_assoc .
qed auto

text \<open>
  C30. The rate of a key is bounded: along every run of requests and key operations in which the clock
  does not run back, no ten seconds hold more accepted requests of the key than the configured limit.
\<close>

theorem open_rate_bound:
  assumes "recent_hits i (ow_api w) = []" "0 \<le> cfgInt (ow_cfg w) ''rate_limit'' 20" "sorted (serve_times ops)"
  shows "int (length (filter (\<lambda>t. T - 10 * second < t \<and> t \<le> T) (accepted env dp i w ops))) \<le> cfgInt (ow_cfg w) ''rate_limit'' 20"
proof -
  obtain u where u: "sorted (u # serve_times ops)"
    using assms(3) by (metis sorted1 sorted2 sorted_simps(2) list.set_cases list.exhaust order_refl set_ConsD)
  have "rate_ok (cfgInt (ow_cfg w) ''rate_limit'' 20) u [] (recent_hits i (ow_api w))"
    using assms(1,2) by (simp add: rate_ok_def hits_cover_def in_window_def)
  from rate_ok_run [OF this u] show ?thesis by (auto simp: rate_ok_def in_window_def)
qed

section \<open>Lock-out\<close>

lemma locked_loop_keeps:
  "map_of ls t = eo \<Longrightarrow> (\<And>e. eo = Some e \<Longrightarrow> le_until e > u \<or> le_until e = 0) \<Longrightarrow> map_of (snd (locked_loop u ts ls)) t = eo"
proof (induction u ts ls rule: locked_loop.induct)
  case (2 u v ts ls)
  then show ?case by (cases "t = v") (auto simp: delete_conv' split: option.split)
qed simp

lemma map_of_keep: "map_of ls t = Some e \<Longrightarrow> P (t, e) \<Longrightarrow> map_of (filter P ls) t = Some e"
  by (induction ls) (auto split: if_splits)

lemma map_of_keep_None: "map_of ls t = None \<Longrightarrow> map_of (filter P ls) t = None"
  by (induction ls) (auto split: if_splits)

definition fail_entry :: "ConfigStore \<Rightarrow> int \<Rightarrow> lockEntry \<Rightarrow> lockEntry" where
  "fail_entry c u = fail_once (cfgInt c ''open_lockout_threshold'' 5) (cfgInt c ''open_lockout_window_s'' 900) (cfgInt c ''open_lockout_seconds'' 300) u"

definition lock_entry :: "string \<Rightarrow> (string \<times> lockEntry) list \<Rightarrow> lockEntry" where
  "lock_entry t ls = (case map_of ls t of None \<Rightarrow> \<lparr>le_fails = [], le_until = 0\<rparr> | Some e \<Rightarrow> e)"

lemma fail_targets_map:
  "distinct ts \<Longrightarrow> map_of (fold (fail_target th win lockS u) ts ls) t =
     (if t \<in> set ts then Some (fail_once th win lockS u (lock_entry t ls)) else map_of ls t)"
  by (induction ts arbitrary: ls) (auto simp: fail_target_def update_conv' lock_entry_def)

lemma lock_targets_distinct: "distinct (lock_targets ip i)"
  by (simp add: lock_targets_def)

lemma recordFail_locks:
  assumes "\<And>e. map_of (oa_locks a) t = Some e \<Longrightarrow> le_until e > u \<or> le_until e = 0"
  shows "map_of (oa_locks (recordFail c u (lock_targets ip i) a)) t =
    (if t \<in> set (lock_targets ip i) then Some (fail_entry c u (lock_entry t (oa_locks a))) else map_of (oa_locks a) t)"
proof -
  let ?kept = "filter (\<lambda>(t, e). \<not> (le_until e > 0 \<and> le_until e < u - 3600)) (oa_locks a)"
  have "map_of ?kept t = map_of (oa_locks a) t"
    using assms by (cases "map_of (oa_locks a) t") (auto intro!: map_of_keep map_of_keep_None)
  then show ?thesis
    by (simp add: recordFail_def Let_def fail_targets_map lock_targets_distinct fail_entry_def lock_entry_def)
qed

definition locked_till :: "string \<Rightarrow> int \<Rightarrow> open_world \<Rightarrow> bool" where
  "locked_till ip u w \<longleftrightarrow> (\<exists>e. map_of (oa_locks (ow_api w)) (''ip:'' @ ip) = Some e \<and> le_until e = u)"

lemma locked_till_refuses:
  assumes "locked_till ip u w" "unix_s now < u" "clientIP (ow_cfg w) r = ip"
  shows "\<exists>left. fst (authenticate k x now r w) = Denied ''locked'' [show_int left]"
  using assms by (cases rule: authenticate_outcome [of now w r k x])
    (auto simp: locked_till_def lock_targets_def)

lemma locked_till_authenticate:
  assumes "locked_till ip u w" "unix_s now < u"
  shows "locked_till ip u (snd (authenticate k x now r w))"
proof -
  let ?t = "''ip:'' @ ip"
  from assms(1) obtain e where e: "map_of (oa_locks (ow_api w)) ?t = Some e" "le_until e = u" by (auto simp: locked_till_def)
  let ?L = "locked_loop (unix_s now) (lock_targets (clientIP (ow_cfg w) r) (ar_header ''X-Api-Key'' r)) (oa_locks (ow_api w))"
  have ls: "map_of (snd ?L) ?t = Some e" by (rule locked_loop_keeps) (use e assms(2) in auto)
  show ?thesis
  proof (cases rule: authenticate_outcome [of now w r k x])
    case (failed ls ns why tag)
    have "fail_entry (ow_cfg w) (unix_s now) e = e" using e assms(2) by (simp add: fail_entry_def fail_once_def)
    moreover have "map_of ls ?t = Some e" using failed(1) ls by simp
    ultimately have "map_of (oa_locks (ow_api (snd (authenticate k x now r w)))) ?t = Some e"
      using e(2) assms(2) failed(4) by (subst failed(4), subst recordFail_locks) (auto simp: lock_entry_def)
    with e(2) show ?thesis by (simp add: locked_till_def)
  next
    case (rated ls' stored)
    have "?t \<notin> set (lock_targets (clientIP (ow_cfg w) r) (ar_header ''X-Api-Key'' r))"
      using locked_loop_None [OF rated(1) _ e(1)] e(2) assms(2) by auto
    then have "clientIP (ow_cfg w) r \<noteq> ip" by (auto simp: lock_targets_def)
    with rated ls e(2) show ?thesis
      by (auto simp: locked_till_def rate_phase_def Let_def delete_conv')
  qed (use ls e(2) in \<open>auto simp: locked_till_def\<close>)
qed

lemma locked_till_part: "auth_part w = auth_part w' \<Longrightarrow> locked_till ip u w = locked_till ip u w'"
  by (simp add: auth_part_def locked_till_def)

lemma locked_till_step:
  assumes "locked_till ip u w" "\<And>t. t \<in> set (serve_times [op]) \<Longrightarrow> unix_s t < u"
  shows "locked_till ip u (open_step env dp w op)"
proof (rule open_step_auth [of env dp w op])
  assume "auth_part (open_step env dp w op) = auth_part w"
  from locked_till_part [OF this] assms(1) show ?thesis by simp
next
  fix rd r stream b
  assume op: "op = OpServe rd r stream"
    and eq: "auth_part (open_step env dp w op) = auth_part (snd (authenticate (oe_kdf env) (oe_ext env) (wall (or_now rd)) (r\<lparr>ar_body := b\<rparr>) w))"
  from op assms(2) have "unix_s (wall (or_now rd)) < u" by simp
  from locked_till_authenticate [OF assms(1) this] locked_till_part [OF eq] show ?thesis by simp
qed

lemma locked_till_run:
  "locked_till ip u w \<Longrightarrow> (\<And>t. t \<in> set (serve_times ops) \<Longrightarrow> unix_s t < u) \<Longrightarrow> locked_till ip u (run (open_step env dp) w ops)"
proof (induction ops arbitrary: w)
  case (Cons op ops)
  then show ?case by (auto simp only: serve_times_Cons [of op ops] run.simps intro!: Cons.IH locked_till_step)
qed simp

text \<open>A sequence of requests that all fail to authenticate.\<close>

fun all_fail :: "kdf \<Rightarrow> ext \<Rightarrow> open_world \<Rightarrow> (int \<times> api_request) list \<Rightarrow> bool" where
  "all_fail k x w [] = True"
| "all_fail k x w ((t, r) # fs) =
    ((case fst (authenticate k x t r w) of Denied tag why \<Rightarrow> tag = ''auth_failed'' \<or> tag = ''replay'' | _ \<Rightarrow> False)
     \<and> all_fail k x (snd (authenticate k x t r w)) fs)"

definition fail_run :: "kdf \<Rightarrow> ext \<Rightarrow> open_world \<Rightarrow> (int \<times> api_request) list \<Rightarrow> open_world" where
  "fail_run k x w fs = foldl (\<lambda>w (t, r). snd (authenticate k x t r w)) w fs"

lemma fail_run_simps [simp]: "fail_run k x w [] = w" "fail_run k x w ((t, r) # fs) = fail_run k x (snd (authenticate k x t r w)) fs"
  "fail_run k x w (fs @ [(t, r)]) = snd (authenticate k x t r (fail_run k x w fs))"
  by (simp_all add: fail_run_def)

lemma all_fail_append: "all_fail k x w (fs @ gs) \<longleftrightarrow> all_fail k x w fs \<and> all_fail k x (fail_run k x w fs) gs"
proof (induction fs arbitrary: w)
  case (Cons p fs)
  then show ?case by (cases p) (simp add: conj_assoc)
qed simp

lemma fail_run_cfg [simp]: "ow_cfg (fail_run k x w fs) = ow_cfg w"
proof (induction fs arbitrary: w)
  case (Cons p fs)
  then show ?case by (cases p) simp
qed simp

lemma failed_entry:
  assumes "all_fail k x w [(t, r)]" "clientIP (ow_cfg w) r = ip" "le_until (lock_entry (''ip:'' @ ip) (oa_locks (ow_api w))) = 0"
  shows "lock_entry (''ip:'' @ ip) (oa_locks (ow_api (snd (authenticate k x t r w)))) =
    fail_entry (ow_cfg w) (unix_s t) (lock_entry (''ip:'' @ ip) (oa_locks (ow_api w)))
    \<and> map_of (oa_locks (ow_api (snd (authenticate k x t r w)))) (''ip:'' @ ip) \<noteq> None"
  using assms(1)
proof (cases rule: authenticate_outcome [of t w r k x])
  case (failed ls ns why tag)
  let ?t = "''ip:'' @ ip"
  have "map_of (snd (locked_loop (unix_s t) (lock_targets (clientIP (ow_cfg w) r) (ar_header ''X-Api-Key'' r)) (oa_locks (ow_api w)))) ?t
      = map_of (oa_locks (ow_api w)) ?t"
    by (rule locked_loop_keeps) (use assms(3) in \<open>auto simp: lock_entry_def\<close>)
  then have "map_of ls ?t = map_of (oa_locks (ow_api w)) ?t" using failed(1) by simp
  then have same: "lock_entry ?t ls = lock_entry ?t (oa_locks (ow_api w))" by (simp add: lock_entry_def)
  have "map_of (oa_locks (recordFail (ow_cfg w) (unix_s t) (lock_targets ip (ar_header ''X-Api-Key'' r)) ((ow_api w)\<lparr>oa_locks := ls, oa_nonces := ns\<rparr>))) ?t
      = Some (fail_entry (ow_cfg w) (unix_s t) (lock_entry ?t ls))"
    using assms(3) same by (subst recordFail_locks) (auto simp: lock_targets_def lock_entry_def split: option.split_asm)
  with failed(4) assms(2) same show ?thesis by (simp add: lock_entry_def)
qed (auto split: option.split_asm)

lemma fail_entry_counts:
  assumes "0 \<le> u" "\<And>f. f \<in> set fl \<Longrightarrow> u - cfgInt c ''open_lockout_window_s'' 900 < f"
  shows "fail_entry c u \<lparr>le_fails = fl, le_until = 0\<rparr> =
    (if cfgInt c ''open_lockout_threshold'' 5 \<le> int (length fl) + 1
     then \<lparr>le_fails = [], le_until = u + cfgInt c ''open_lockout_seconds'' 300\<rparr> else \<lparr>le_fails = fl @ [u], le_until = 0\<rparr>)"
proof -
  have "filter (\<lambda>ts. u - cfgInt c ''open_lockout_window_s'' 900 < ts) fl = fl" using assms(2) by (simp add: filter_id_conv)
  with assms(1) show ?thesis by (simp add: fail_entry_def fail_once_def Let_def)
qed

definition close_together :: "ConfigStore \<Rightarrow> (int \<times> api_request) list \<Rightarrow> bool" where
  "close_together c fs \<longleftrightarrow> (\<forall>p\<in>set fs. 0 \<le> unix_s (fst p) \<and> (\<forall>q\<in>set fs. unix_s (fst p) - cfgInt c ''open_lockout_window_s'' 900 < unix_s (fst q)))"

lemma fails_counted:
  assumes "map_of (oa_locks (ow_api w)) (''ip:'' @ ip) = None" "all_fail k x w fs" "\<And>t r. (t, r) \<in> set fs \<Longrightarrow> clientIP (ow_cfg w) r = ip"
    and "int (length fs) < cfgInt (ow_cfg w) ''open_lockout_threshold'' 5" "close_together (ow_cfg w) fs"
  shows "lock_entry (''ip:'' @ ip) (oa_locks (ow_api (fail_run k x w fs))) = \<lparr>le_fails = map (unix_s \<circ> fst) fs, le_until = 0\<rparr>"
  using assms(2-)
proof (induction fs rule: rev_induct)
  case Nil
  with assms(1) show ?case by (simp add: lock_entry_def)
next
  case (snoc p fs)
  obtain t r where p: "p = (t, r)" by (cases p)
  let ?w = "fail_run k x w fs"
  have IH: "lock_entry (''ip:'' @ ip) (oa_locks (ow_api ?w)) = \<lparr>le_fails = map (unix_s \<circ> fst) fs, le_until = 0\<rparr>"
    using snoc.prems by (intro snoc.IH) (auto simp: all_fail_append close_together_def)
  have "all_fail k x ?w [(t, r)]" using snoc.prems(1) p by (simp add: all_fail_append)
  moreover have "clientIP (ow_cfg ?w) r = ip" using snoc.prems(2) [of t r] p by simp
  ultimately have "lock_entry (''ip:'' @ ip) (oa_locks (ow_api (fail_run k x w (fs @ [p])))) =
      fail_entry (ow_cfg w) (unix_s t) \<lparr>le_fails = map (unix_s \<circ> fst) fs, le_until = 0\<rparr>"
    using failed_entry [of k x ?w t r ip] IH p by simp
  also have "\<dots> = \<lparr>le_fails = map (unix_s \<circ> fst) (fs @ [p]), le_until = 0\<rparr>"
    using snoc.prems(3,4) p by (subst fail_entry_counts) (auto simp: close_together_def)
  finally show ?case .
qed

text \<open>
  Failed attempts lock their address out: after as many failed requests from one address as the
  threshold allows, within the configured window of each other, every further request from the
  address is answered as locked for the configured number of seconds, whatever is served to others and
  whatever happens to keys meanwhile, also if it is correctly signed.
\<close>

theorem open_lockout:
  assumes fresh: "map_of (oa_locks (ow_api w)) (''ip:'' @ ip) = None"
    and fails: "all_fail k x w (fs @ [(t, r)])" "int (length fs) + 1 = cfgInt (ow_cfg w) ''open_lockout_threshold'' 5"
    and address: "\<And>s q. (s, q) \<in> set (fs @ [(t, r)]) \<Longrightarrow> clientIP (ow_cfg w) q = ip" "clientIP (ow_cfg w) r' = ip"
    and close: "close_together (ow_cfg w) (fs @ [(t, r)])"
    and before: "\<And>s. s \<in> set (serve_times ops) \<Longrightarrow> unix_s s < unix_s t + cfgInt (ow_cfg w) ''open_lockout_seconds'' 300"
      "unix_s now < unix_s t + cfgInt (ow_cfg w) ''open_lockout_seconds'' 300"
  shows "\<exists>left. fst (authenticate k x now r' (run (open_step env dp) (fail_run k x w (fs @ [(t, r)])) ops)) = Denied ''locked'' [show_int left]"
proof -
  let ?w = "fail_run k x w fs" and ?w' = "fail_run k x w (fs @ [(t, r)])" and ?u = "unix_s t + cfgInt (ow_cfg w) ''open_lockout_seconds'' 300"
  have entry: "lock_entry (''ip:'' @ ip) (oa_locks (ow_api ?w)) = \<lparr>le_fails = map (unix_s \<circ> fst) fs, le_until = 0\<rparr>"
    using fails address(1) close by (intro fails_counted [OF fresh]) (auto simp: all_fail_append close_together_def)
  have "all_fail k x ?w [(t, r)]" "clientIP (ow_cfg ?w) r = ip"
    using fails(1) address(1) [of t r] by (simp_all add: all_fail_append)
  from failed_entry [OF this] entry
  have "lock_entry (''ip:'' @ ip) (oa_locks (ow_api ?w')) = fail_entry (ow_cfg w) (unix_s t) \<lparr>le_fails = map (unix_s \<circ> fst) fs, le_until = 0\<rparr>"
    "map_of (oa_locks (ow_api ?w')) (''ip:'' @ ip) \<noteq> None" by simp_all
  moreover have "fail_entry (ow_cfg w) (unix_s t) \<lparr>le_fails = map (unix_s \<circ> fst) fs, le_until = 0\<rparr> = \<lparr>le_fails = [], le_until = ?u\<rparr>"
    using fails(2) close by (subst fail_entry_counts) (auto simp: close_together_def)
  ultimately have "locked_till ip ?u ?w'" by (auto simp: locked_till_def lock_entry_def)
  from locked_till_run [OF this before(1)] before(2) address(2) show ?thesis by (intro locked_till_refuses) auto
qed

section \<open>Witnesses\<close>

theorem open_rate_bound_witness:
  "\<forall>env dp rd. int (length (filter (\<lambda>t. 0 < t \<and> t \<le> 10 * second) (accepted env dp ''k1'' (sample_server []) [OpServe rd (sample_call ''1000'') (Some [])]))) \<le> 20"
proof (intro allI)
  fix env dp rd
  have limit: "cfgInt (ow_cfg (sample_server [])) ''rate_limit'' 20 = 20"
    by (simp add: sample_server_def cfgInt_def defaults_in_use f64_int_def int64_min_def int64_max_def)
  show "int (length (filter (\<lambda>t. 0 < t \<and> t \<le> 10 * second) (accepted env dp ''k1'' (sample_server []) [OpServe rd (sample_call ''1000'') (Some [])]))) \<le> 20"
    using open_rate_bound [of "''k1''" "sample_server []" "[OpServe rd (sample_call ''1000'') (Some [])]" "10 * second" env dp] limit
    by (simp add: sample_server_def empty_api_def recent_hits_def)
qed

text \<open>A server that locks out at the first failure.\<close>

definition strict_lock :: "(string \<times> jval) list" where "strict_lock = [(''open_lockout_threshold'', JNum (Fin 1))]"

lemma strict_values: "cfgInt (ow_cfg (sample_server strict_lock)) ''open_lockout_threshold'' 5 = 1"
  "cfgInt (ow_cfg (sample_server strict_lock)) ''open_lockout_window_s'' 900 = 900" "cfgInt (ow_cfg (sample_server strict_lock)) ''open_lockout_seconds'' 300 = 300"
  by (simp_all add: sample_server_def strict_lock_def cfgInt_def cfgNum_def config_get_def config_defaults_def f64_int_def int64_min_def int64_max_def)

lemma no_locks: "oa_locks (ow_api (sample_server vs)) = []"
  by (simp add: sample_server_def empty_api_def)

lemma bare_fails: "all_fail demo_kdf sample_ext (sample_server strict_lock) [(1000 * second, bare_request)]"
  by (simp add: authenticate_def Let_def locked_def lock_targets_def bare_request_def ar_header_def sample_server_def empty_api_def)

theorem open_lockout_witness:
  "\<forall>env dp. \<exists>left. fst (authenticate demo_kdf sample_ext (1100 * second) bare_request
      (run (open_step env dp) (fail_run demo_kdf sample_ext (sample_server strict_lock) ([] @ [(1000 * second, bare_request)])) [])) = Denied ''locked'' [show_int left]"
proof (intro allI)
  fix env dp
  let ?ip = "clientIP (ow_cfg (sample_server strict_lock)) bare_request"
  show "\<exists>left. fst (authenticate demo_kdf sample_ext (1100 * second) bare_request
      (run (open_step env dp) (fail_run demo_kdf sample_ext (sample_server strict_lock) ([] @ [(1000 * second, bare_request)])) [])) = Denied ''locked'' [show_int left]"
    by (rule open_lockout [where ip = ?ip])
      (use bare_fails in \<open>auto simp: strict_values close_together_def unix_s_def second_def no_locks\<close>)
qed

end
