(* ===== verification/Open_Routes_Props.thy ===== *)
theory Open_Routes_Props
  imports Open_Props
begin

text \<open>
  What the routes of the open interface give away and change: answers and effects stay within the
  permissions and the vehicles of the key; and a cancellation that is refused.
\<close>

section \<open>Answers\<close>

text \<open>The permission an answer needs and the vehicles it tells about.\<close>

fun data_scope :: "open_data \<Rightarrow> string option" where
  "data_scope (DataMeta _ _ _ _ _ _) = None"
| "data_scope (DataVehicles _) = Some ''vehicle.read''"
| "data_scope (DataVehicle _ _ _ _ _ _ _) = Some ''vehicle.read''"
| "data_scope (DataTelemetry _) = Some ''telemetry.read''"
| "data_scope (DataAlarms _ _) = Some ''alarm.read''"
| "data_scope (DataStatus _) = Some ''task.read''"
| "data_scope (DataRoutes _) = Some ''task.read''"
| "data_scope (DataRoute _) = Some ''task.write''"
| "data_scope DataStopped = Some ''control.write''"

fun data_vehicles :: "open_data \<Rightarrow> string list" where
  "data_vehicles (DataMeta _ _ _ _ _ _) = []"
| "data_vehicles (DataVehicles vs) = map vs_VehicleID vs"
| "data_vehicles (DataVehicle v _ _ _ _ _ _) = [v]"
| "data_vehicles (DataTelemetry v) = [sp_VehicleID v]"
| "data_vehicles (DataAlarms v es) = v # map ev_VehicleID es"
| "data_vehicles (DataStatus rt) = (case rt of None \<Rightarrow> [] | Some r \<Rightarrow> [rt_vehicle r])"
| "data_vehicles (DataRoutes rs) = map rt_vehicle rs"
| "data_vehicles (DataRoute r) = [rt_vehicle r]"
| "data_vehicles DataStopped = []"

definition permitted :: "APIKey \<Rightarrow> open_reply \<Rightarrow> bool" where
  "permitted key rep = (case rep of ReplyOk tr data \<Rightarrow>
     (case data_scope data of None \<Rightarrow> True | Some s \<Rightarrow> hasScope key s) \<and> list_all (vehicleAllowed key) (data_vehicles data)
   | _ \<Rightarrow> True)"

lemma permitted_simps [simp]: "permitted key (ReplyErr h c)" "permitted key Panicked"
  by (simp_all add: permitted_def)

lemma permitted_refused [simp]:
  "permitted key (fst (bad_request env rd r key' tag vid rem w))" "permitted key (fst (not_found env rd r key' tag vid rem w))"
  "permitted key (fst (denyScope env rd r key' sc rem w))" "permitted key (fst (denyVehicle env rd r key' vid rem w))"
  "permitted key (fst (auditErr env rd r ko h c res msg vid rem w))"
  by (simp_all add: refusal_defs)

lemma permitted_ok: "permitted key (ReplyOk tr data) \<longleftrightarrow>
    (case data_scope data of None \<Rightarrow> True | Some s \<Rightarrow> hasScope key s) \<and> list_all (vehicleAllowed key) (data_vehicles data)"
  by (simp add: permitted_def)

lemma permitted_gate:
  "(hasScope key scope \<Longrightarrow> vehicleAllowed key vid \<Longrightarrow> permitted key (fst (next w))) \<Longrightarrow>
     permitted key (fst (vehicle_gate scope vid env rd r key rem next w))"
  by (simp add: vehicle_gate_def)

lemma Vehicle_id: "Vehicle fl now st i = Some v \<Longrightarrow> sp_VehicleID v = i"
  by (auto simp: Vehicle_def find_Some_iff)

lemma ForVehicle_vehicle: "ForVehicle st v = Some rt \<Longrightarrow> rt_vehicle rt = v"
  by (auto simp: ForVehicle_def find_Some_iff)

lemma Submit_vehicle: "fst (Submit w m x rd v name origin tr rem pts ws) = Inr rt \<Longrightarrow> rt_vehicle rt = v"
  by (auto simp: Submit_def Let_def new_route_def split: if_split_asm sum.split_asm prod.split_asm)

lemma Cancel_vehicle: "fst (Cancel w m x rd i ws) = Inr rt \<Longrightarrow> \<exists>rt0. nav_Get (fst ws) i = Some rt0 \<and> rt_vehicle rt = rt_vehicle rt0"
  by (auto simp: Cancel_def cancel_read_def nav_Get_def split: if_split_asm sum.split_asm prod.split_asm option.split_asm cancel_view.split_asm)

lemma permitted_reads:
  "permitted key (fst (open_meta env rd r key tr rem w))" "permitted key (fst (open_vehicles env rd r key tr rem w))"
  "permitted key (fst (open_vehicle v env rd r key tr rem w))" "permitted key (fst (open_telemetry v env rd r key tr rem w))"
  "permitted key (fst (open_alarms v env rd r key tr rem w))" "permitted key (fst (open_nav_status env rd r key tr rem w))"
  "permitted key (fst (open_nav_routes env rd r key tr rem w))"
  by (auto simp: open_meta_def open_vehicles_def open_vehicle_def open_telemetry_def open_alarms_def open_nav_status_def open_nav_routes_def
      Let_def permitted_ok list_all_iff summarize_def dest!: in_set_takeD dest: Vehicle_id ForVehicle_vehicle ForVehicle_vehicle [OF sym]
      intro!: permitted_gate split: option.split)

lemma permitted_command: "permitted key (fst (open_nav_command env rd r key tr rem w))"
  by (auto simp: open_nav_command_def Let_def permitted_ok dest!: arg_cong [of _ _ fst] dest!: Submit_vehicle split: option.split prod.split sum.split)

lemma permitted_cancel_route: "hasScope key ''task.write'' \<Longrightarrow> permitted key (fst (open_cancel_route i v env rd r key tr rem w))"
  by (auto simp: open_cancel_route_def permitted_ok dest!: arg_cong [of _ _ fst] dest!: Cancel_vehicle split: option.split prod.split sum.split)

lemma permitted_cancel: "permitted key (fst (open_nav_cancel env rd r key tr rem w))"
  by (auto simp: open_nav_cancel_def permitted_cancel_route split: option.split cancel_choice.split)

lemma permitted_stop: "permitted key (fst (open_estop env rd r key tr rem w))"
  by (auto simp: open_estop_def open_stop_vehicle_def permitted_ok split: option.split prod.split sum.split)

lemma permitted_serveRoute: "permitted key (fst (serveRoute env rd r key rem w))"
  unfolding serveRoute_def Let_def
  by (auto split: option.split elim!: open_route_cases simp: permitted_reads permitted_command permitted_cancel permitted_stop)

text \<open>
  C29. An answer is given only to an authenticated key, within its permissions and its vehicles: it
  needs the permission of the route, and every vehicle it tells about, in lists, alarms and routes
  too, is one the key may see. A cancellation by the id of a route counts for the vehicle of the route.
\<close>

theorem open_answers_within_key:
  assumes "fst (ServeOpen env rd r stream w) = ReplyOk tr data"
  shows "\<exists>b key w1. readRawBody (2 ^ 20) stream = Some b
    \<and> authenticate (oe_kdf env) (oe_ext env) (wall (or_now rd)) (r\<lparr>ar_body := b\<rparr>) w = (Authentic key, w1)
    \<and> (\<forall>s. data_scope data = Some s \<longrightarrow> hasScope key s) \<and> (\<forall>v \<in> set (data_vehicles data). vehicleAllowed key v)"
proof -
  from assms have on: "config_get (ow_cfg w) ''open_api_enabled'' \<noteq> Some (JBool False)" by (auto simp: ServeOpen_disabled)
  from assms on obtain b where b: "readRawBody (2 ^ 20) stream = Some b" by (cases "readRawBody (2 ^ 20) stream") (auto simp: ServeOpen_enabled)
  let ?r = "r\<lparr>ar_body := b\<rparr>"
  obtain res w1 where auth: "authenticate (oe_kdf env) (oe_ext env) (wall (or_now rd)) ?r w = (res, w1)" by (rule prod.exhaust)
  from assms on b auth obtain key where key: "res = Authentic key"
    and route: "fst (serveRoute env rd ?r key (extractRemark env ?r) w1) = ReplyOk tr data"
    by (cases res) (auto simp: ServeOpen_enabled Let_def)
  from permitted_serveRoute [of key env rd ?r "extractRemark env ?r" w1] route b auth key show ?thesis
    by (auto simp: permitted_def list_all_iff split: option.split_asm)
qed

section \<open>Effects\<close>

text \<open>What only reads and reports leaves every view of the database that is quiet.\<close>

context quiet_view
begin

lemma view_open_log [simp]: "view (fst (snd (ow_world (open_log x e w)))) = view (fst (snd (ow_world w)))"
  using view_logAudit [of x e "(ow_audit w, ow_txs w)"]
  by (cases "logAudit x e (ow_audit w, ow_txs w)") (simp add: open_log_def ow_txs_def del: view_logAudit)

lemma view_answers [simp]:
  "view (fst (snd (ow_world (snd (auditOK env rd r key tr vid rem data w))))) = view (fst (snd (ow_world w)))"
  "view (fst (snd (ow_world (snd (auditErr env rd r ko h c res msg vid rem w))))) = view (fst (snd (ow_world w)))"
  by (simp_all add: auditOK_def auditErr_def)

lemma view_reads:
  "view (fst (snd (ow_world (snd (open_meta env rd r key tr rem w))))) = view (fst (snd (ow_world w)))"
  "view (fst (snd (ow_world (snd (open_vehicles env rd r key tr rem w))))) = view (fst (snd (ow_world w)))"
  "view (fst (snd (ow_world (snd (open_vehicle v env rd r key tr rem w))))) = view (fst (snd (ow_world w)))"
  "view (fst (snd (ow_world (snd (open_telemetry v env rd r key tr rem w))))) = view (fst (snd (ow_world w)))"
  "view (fst (snd (ow_world (snd (open_alarms v env rd r key tr rem w))))) = view (fst (snd (ow_world w)))"
  "view (fst (snd (ow_world (snd (open_nav_status env rd r key tr rem w))))) = view (fst (snd (ow_world w)))"
  "view (fst (snd (ow_world (snd (open_nav_routes env rd r key tr rem w))))) = view (fst (snd (ow_world w)))"
  by (simp_all add: route_defs refusal_defs Let_def split: option.split)

lemma view_denied:
  "\<not> hasScope key ''task.write'' \<Longrightarrow> view (fst (snd (ow_world (snd (open_nav_command env rd r key tr rem w))))) = view (fst (snd (ow_world w)))"
  "\<not> hasScope key ''task.write'' \<Longrightarrow> view (fst (snd (ow_world (snd (open_nav_cancel env rd r key tr rem w))))) = view (fst (snd (ow_world w)))"
  "\<not> hasScope key ''control.write'' \<Longrightarrow> view (fst (snd (ow_world (snd (open_estop env rd r key tr rem w))))) = view (fst (snd (ow_world w)))"
  by (simp_all add: open_nav_command_def open_nav_cancel_def open_estop_def refusal_defs)

lemma view_serveRoute:
  "\<not> hasScope key ''task.write'' \<Longrightarrow> \<not> hasScope key ''control.write'' \<Longrightarrow>
     view (fst (snd (ow_world (snd (serveRoute env rd r key rem w))))) = view (fst (snd (ow_world w)))"
  unfolding serveRoute_def Let_def not_found_def
  by (auto split: option.split elim!: open_route_cases simp: view_reads view_denied)

lemma view_authenticate [simp]: "view (fst (snd (ow_world (snd (authenticate k x now r w))))) = view (fst (snd (ow_world w)))"
  by (simp add: authenticate_def Let_def on_api_def split: prod.split option.split admission.split)

lemma view_ServeOpen:
  assumes "\<And>b key w1. authenticate (oe_kdf env) (oe_ext env) (wall (or_now rd)) (r\<lparr>ar_body := b\<rparr>) w = (Authentic key, w1) \<Longrightarrow>
    \<not> hasScope key ''task.write'' \<and> \<not> hasScope key ''control.write''"
  shows "view (fst (snd (ow_world (snd (ServeOpen env rd r stream w))))) = view (fst (snd (ow_world w)))"
proof (cases "config_get (ow_cfg w) ''open_api_enabled'' = Some (JBool False) \<or> readRawBody (2 ^ 20) stream = None")
  case True
  then show ?thesis by (cases "config_get (ow_cfg w) ''open_api_enabled'' = Some (JBool False)") (simp_all add: ServeOpen_disabled ServeOpen_enabled)
next
  case False
  then obtain b where b: "readRawBody (2 ^ 20) stream = Some b" by auto
  obtain res w1 where auth: "authenticate (oe_kdf env) (oe_ext env) (wall (or_now rd)) (r\<lparr>ar_body := b\<rparr>) w = (res, w1)" by (rule prod.exhaust)
  have same: "view (fst (snd (ow_world w1))) = view (fst (snd (ow_world w)))"
    using view_authenticate [of "oe_kdf env" "oe_ext env" "wall (or_now rd)" "r\<lparr>ar_body := b\<rparr>" w] auth by simp
  show ?thesis
  proof (cases res)
    case (Authentic key)
    with False b auth same view_serveRoute [of key] assms [of b key w1] show ?thesis by (simp add: ServeOpen_enabled Let_def)
  qed (use False b auth same in \<open>simp_all add: ServeOpen_enabled Let_def\<close>)
qed

end

text \<open>The tables that hold orders to vehicles.\<close>

definition orders :: "db \<Rightarrow> route_row list \<times> lease_row list \<times> epoch_row list \<times> outbox_row list" where
  "orders d = (navigation_routes d, control_leases d, vehicle_control_epochs d, platform_outbox d)"

interpretation order_view: quiet_view orders
  by unfold_locales (simp_all add: orders_def)

text \<open>
  Only a key with a write permission gives orders: a request that is not authenticated, or whose key
  has neither \<open>task.write\<close> nor \<open>control.write\<close>, changes no route, no lease, no fencing epoch and queues no
  message for a vehicle, whatever its route and body are.
\<close>

theorem open_orders_need_permission:
  assumes "\<And>b key w1. authenticate (oe_kdf env) (oe_ext env) (wall (or_now rd)) (r\<lparr>ar_body := b\<rparr>) w = (Authentic key, w1) \<Longrightarrow>
    \<not> hasScope key ''task.write'' \<and> \<not> hasScope key ''control.write''"
  shows "orders (fst (ow_txs (snd (ServeOpen env rd r stream w)))) = orders (fst (ow_txs w))"
  using order_view.view_ServeOpen [OF assms] by (simp add: ow_txs_def)

section \<open>Refused cancellations\<close>

lemma cancel_path: "open_route ''POST'' (drop 2 (go_split CHR ''/'' (trim_slashes ''/open/v1/nav/cancel''))) = Some open_nav_cancel
    \<and> \<not> length (go_split CHR ''/'' (trim_slashes ''/open/v1/nav/cancel'')) < 3"
proof -
  have "go_split CHR ''/'' (trim_slashes ''/open/v1/nav/cancel'') = [''open'', ''v1'', ''nav'', ''cancel'']" by code_simp
  then show ?thesis by (simp add: open_route_def)
qed

text \<open>
  Cancelling a route that has already ended crashes the handler: the request is authenticated and
  allowed, \<open>Cancel\<close> refuses it and returns no route, and the error branch reads the vehicle of that
  missing route. The caller gets no answer and the call leaves no audit entry.
\<close>

theorem refused_cancel_panics:
  assumes on: "config_get (ow_cfg w) ''open_api_enabled'' \<noteq> Some (JBool False)" "length b \<le> 2 ^ 20"
    and auth: "authenticate (oe_kdf env) (oe_ext env) (wall (or_now rd)) (r\<lparr>ar_body := b\<rparr>) w = (Authentic key, w1)"
    and path: "ar_method r = ''POST''" "ar_path r = ''/open/v1/nav/cancel''" "oe_json_cancel env b = Some (v, i)" "i \<noteq> []"
    and allowed: "hasScope key ''task.write''" "vehicleAllowed key (rt_vehicle rt)"
    and ended: "nav_Get (fst (ow_world w1)) i = Some rt" "closed_status (rt_status rt)"
  shows "ServeOpen env rd r (Some b) w = (Panicked, w1)"
proof -
  have "Cancel (oe_wire env) (oe_marshal env) (oe_ext env) (or_nav rd) i (ow_world w1) =
      (Inl (Dom (NavNotCancellable i (rt_status rt))), ow_world w1)"
    using ended by (auto simp: Cancel_def cancel_read_def nav_Get_def closed_status_def)
  then have "open_nav_cancel env rd (r\<lparr>ar_body := b\<rparr>) key tr rem w1 = (Panicked, w1)" for tr rem
    using path allowed ended by (simp add: open_nav_cancel_def cancel_target_def open_cancel_route_def)
  with on auth path cancel_path show ?thesis
    by (simp add: ServeOpen_enabled readRawBody_def serveRoute_def)
qed

section \<open>Witnesses\<close>

lemma sample_admitted:
  assumes "ow_api w = ow_api (sample_server [])" "cs_values (ow_cfg w) = []"
  shows "authenticate demo_kdf x (1000 * second) (sample_request m p ''1000'') w =
    (Authentic (sample_key\<lparr>key_LastUsedNS := 1000 * second\<rparr>), snd (authenticate demo_kdf x (1000 * second) (sample_request m p ''1000'') w))"
proof (rule sample_accepted)
  have ts: "go_atoi ''1000'' = Some (unix_s (1000 * second) + 0)" by code_simp
  show "fst (authenticate demo_kdf x (1000 * second) (sample_request m p ''1000'') w) = Authentic (sample_key\<lparr>key_LastUsedNS := 1000 * second\<rparr>)"
    by (rule sample_authentic [OF ts]) (simp_all add: second_def assms)
qed

lemma sample_on: "cs_values (ow_cfg w) = [] \<Longrightarrow> config_get (ow_cfg w) ''open_api_enabled'' \<noteq> Some (JBool False)"
  by (simp add: config_get_def config_defaults_def)

lemma vehicles_path: "open_route ''GET'' (drop 2 (go_split CHR ''/'' (trim_slashes ''/open/v1/nav/routes''))) = Some open_nav_routes
    \<and> \<not> length (go_split CHR ''/'' (trim_slashes ''/open/v1/nav/routes'')) < 3"
proof -
  have "go_split CHR ''/'' (trim_slashes ''/open/v1/nav/routes'') = [''open'', ''v1'', ''nav'', ''routes'']" by code_simp
  then show ?thesis by (simp add: open_route_def)
qed

text \<open>A server with a finished route of the vehicle of the key and one of another vehicle.\<close>

definition sample_route :: "string \<Rightarrow> string \<Rightarrow> NavRoute" where
  "sample_route i v = \<lparr>rt_id = i, rt_vehicle = v, rt_name = [], rt_remark = [], rt_points = [], rt_status = ''completed'', rt_created_ns = 0,
     rt_dispatched_ns = 0, rt_ack_result = [], rt_ack_detail = [], rt_current_point = 0, rt_ack_ns = 0, rt_updated_ns = 0, rt_trace_id = [], rt_origin = []\<rparr>"

definition route_server :: open_world where
  "route_server = (sample_server [])\<lparr>ow_world :=
     ((NewState [] None)\<lparr>st_navStore := [(''nav-1'', sample_route ''nav-1'' ''v1''), (''nav-2'', sample_route ''nav-2'' ''v2'')]\<rparr>, (empty_db, []))\<rparr>"

lemma route_server_sel: "ow_api route_server = ow_api (sample_server [])" "cs_values (ow_cfg route_server) = []"
  by (simp_all add: route_server_def sample_server_def)

lemma sample_vehicle: "vehicleAllowed (sample_key\<lparr>key_LastUsedNS := t\<rparr>) v \<longleftrightarrow> v = ''v1''"
  by (auto simp: vehicleAllowed_def sample_key_def)

lemma sample_scopes: "hasScope (sample_key\<lparr>key_LastUsedNS := t\<rparr>) ''task.read''" "hasScope (sample_key\<lparr>key_LastUsedNS := t\<rparr>) ''task.write''"
  by (simp_all add: hasScope_def sample_key_def)

theorem open_answers_within_key_witness:
  "\<forall>env rd. \<exists>rs. fst (ServeOpen (env\<lparr>oe_kdf := demo_kdf\<rparr>) (rd\<lparr>or_now := time_unix (1000 * second)\<rparr>)
       (sample_request ''GET'' ''/open/v1/nav/routes'' ''1000'') (Some []) route_server) = ReplyOk [] (DataRoutes rs) \<and> list_all (\<lambda>rt. rt_vehicle rt = ''v1'') rs"
proof (intro allI)
  fix env :: open_env and rd :: open_readings
  let ?env = "env\<lparr>oe_kdf := demo_kdf\<rparr>" and ?rd = "rd\<lparr>or_now := time_unix (1000 * second)\<rparr>"
  let ?r = "sample_request ''GET'' ''/open/v1/nav/routes'' ''1000''"
  have noparam: "ar_param n ?r = []" for n by (simp add: ar_param_def sample_request_def Let_def)
  obtain w1 where first: "authenticate demo_kdf (oe_ext env) (1000 * second) ?r route_server = (Authentic (sample_key\<lparr>key_LastUsedNS := 1000 * second\<rparr>), w1)"
    using sample_admitted [OF route_server_sel] by blast
  have "\<exists>rs. fst (ServeOpen ?env ?rd ?r (Some []) route_server) = ReplyOk [] (DataRoutes rs)"
    using vehicles_path by (subst ServeOpen_enabled)
      (simp_all add: sample_on route_server_sel readRawBody_def time_unix_def first serveRoute_def open_nav_routes_def noparam sample_scopes Let_def)
  then obtain rs where rs: "fst (ServeOpen ?env ?rd ?r (Some []) route_server) = ReplyOk [] (DataRoutes rs)" ..
  from open_answers_within_key [OF rs] show "\<exists>rs. fst (ServeOpen ?env ?rd ?r (Some []) route_server) = ReplyOk [] (DataRoutes rs) \<and> list_all (\<lambda>rt. rt_vehicle rt = ''v1'') rs"
    using rs first by (auto simp: readRawBody_def time_unix_def sample_vehicle list_all_iff)
qed

theorem open_orders_need_permission_witness:
  "\<forall>env rd. orders (fst (ow_txs (snd (ServeOpen env rd bare_request (Some []) route_server)))) = orders empty_db"
proof (intro allI)
  fix env rd
  have "orders (fst (ow_txs (snd (ServeOpen env rd bare_request (Some []) route_server)))) = orders (fst (ow_txs route_server))"
  proof (rule open_orders_need_permission)
    fix b key w1
    assume "authenticate (oe_kdf env) (oe_ext env) (wall (or_now rd)) (bare_request\<lparr>ar_body := b\<rparr>) route_server = (Authentic key, w1)"
    from authentic_headers [OF this] show "\<not> hasScope key ''task.write'' \<and> \<not> hasScope key ''control.write''"
      by (simp add: bare_request_def ar_header_def)
  qed
  then show "orders (fst (ow_txs (snd (ServeOpen env rd bare_request (Some []) route_server)))) = orders empty_db"
    by (simp add: route_server_def ow_txs_def)
qed

lemma authenticate_routes: "st_navStore (fst (ow_world (snd (authenticate k x now r w)))) = st_navStore (fst (ow_world w))"
  by (simp add: authenticate_def Let_def on_api_def submitDB_def split: prod.split option.split admission.split)

theorem refused_cancel_panics_witness:
  "\<forall>env rd. fst (ServeOpen (env\<lparr>oe_kdf := demo_kdf, oe_json_cancel := \<lambda>_. Some ([], ''nav-1'')\<rparr>) (rd\<lparr>or_now := time_unix (1000 * second)\<rparr>)
     (sample_call ''1000'') (Some []) route_server) = Panicked"
proof (intro allI)
  fix env :: open_env and rd :: open_readings
  let ?env = "env\<lparr>oe_kdf := demo_kdf, oe_json_cancel := \<lambda>_. Some ([], ''nav-1'')\<rparr>" and ?rd = "rd\<lparr>or_now := time_unix (1000 * second)\<rparr>"
  let ?w1 = "snd (authenticate demo_kdf (oe_ext env) (1000 * second) (sample_call ''1000'') route_server)"
  have "ServeOpen ?env ?rd (sample_call ''1000'') (Some []) route_server = (Panicked, ?w1)"
  proof (rule refused_cancel_panics)
    show "authenticate (oe_kdf ?env) (oe_ext ?env) (wall (or_now ?rd)) ((sample_call ''1000'')\<lparr>ar_body := []\<rparr>) route_server
        = (Authentic (sample_key\<lparr>key_LastUsedNS := 1000 * second\<rparr>), ?w1)"
      using sample_admitted [OF route_server_sel, of "oe_ext env" "''POST''" "''/open/v1/nav/cancel''"] by (simp add: time_unix_def)
    show "nav_Get (fst (ow_world ?w1)) ''nav-1'' = Some (sample_route ''nav-1'' ''v1'')"
      by (simp add: nav_Get_def route_of_def authenticate_routes) (simp add: route_server_def)
    show "vehicleAllowed (sample_key\<lparr>key_LastUsedNS := 1000 * second\<rparr>) (rt_vehicle (sample_route ''nav-1'' ''v1''))"
      unfolding sample_vehicle by (simp add: sample_route_def)
    show "closed_status (rt_status (sample_route ''nav-1'' ''v1''))" by (simp add: sample_route_def closed_status_def)
  qed (simp_all add: sample_on route_server_sel sample_scopes)
  then show "fst (ServeOpen ?env ?rd (sample_call ''1000'') (Some []) route_server) = Panicked" by simp
qed

end
