(* ===== verification/Config_Props.thy ===== *)
theory Config_Props
  imports Config Systems
begin

text \<open>
  The configuration stays valid and equal to what the database stores, over every sequence of updates
  and failures.
\<close>

definition stored_values :: "db \<Rightarrow> (string \<times> jval) list" where
  "stored_values d = map (\<lambda>r. (cf_key r, cf_value r)) (platform_config d)"

definition config_valid :: "(string \<Rightarrow> float64 option) \<Rightarrow> ConfigStore \<Rightarrow> bool" where
  "config_valid pf c \<longleftrightarrow> (\<forall>k v. map_of (cs_values c) k = Some v \<longrightarrow> known_key k \<and> validateConfigValue pf k v)
     \<and> \<not> f64_lt (lifetime_of c ''open_api_key_max_lifetime_s'') (lifetime_of c ''open_api_key_default_lifetime_s'')"

definition config_inv :: "(string \<Rightarrow> float64 option) \<Rightarrow> config_world \<Rightarrow> bool" where
  "config_inv pf cw \<longleftrightarrow> config_valid pf (fst cw) \<and> map_of (cs_values (fst cw)) = map_of (stored_values (fst (snd cw)))"

lemma upd_then_add: "n k = None \<Longrightarrow> (\<lambda>x. if x = k then Some v else m x) ++ n = m ++ (\<lambda>x. if x = k then Some v else n x)"
  by (auto simp: map_add_def fun_eq_iff split: option.split)

lemma map_of_with_values: "distinct (map fst kv) \<Longrightarrow> map_of (cs_values (with_values kv c)) = map_of (cs_values c) ++ map_of kv"
  unfolding with_values_def
proof (induction kv arbitrary: c)
  case (Cons p kv)
  have "map_of kv (fst p) = None" using Cons.prems by (auto simp: map_of_eq_None_iff)
  from upd_then_add [of "map_of kv" "fst p" "snd p" "map_of (cs_values c)", OF this] Cons.IH [of "c\<lparr>cs_values := AList.update (fst p) (snd p) (cs_values c)\<rparr>"] Cons.prems show ?case
    by (simp add: update_conv' case_prod_beta fun_upd_def)
qed simp

lemma upsert_config_values:
  "map_of (stored_values (upsert_config actor kv d)) = (map_of (stored_values d))(fst kv \<mapsto> snd kv)"
proof -
  have upd: "fst kv \<in> cf_key ` set rs \<Longrightarrow>
      map_of (map (\<lambda>r. (cf_key r, cf_value r)) (update_where (\<lambda>r. cf_key r = fst kv) (\<lambda>r. \<lparr>cf_key = fst kv, cf_value = snd kv, cf_updated_by = actor\<rparr>) rs)) =
      (map_of (map (\<lambda>r. (cf_key r, cf_value r)) rs))(fst kv \<mapsto> snd kv)" for rs
  proof (induction rs)
    case (Cons r rs)
    show ?case
    proof (cases "fst kv \<in> cf_key ` set rs")
      case True
      with Cons.IH show ?thesis by (auto simp: update_where_def fun_eq_iff)
    next
      case False
      then have "update_where (\<lambda>r. cf_key r = fst kv) (\<lambda>r. \<lparr>cf_key = fst kv, cf_value = snd kv, cf_updated_by = actor\<rparr>) rs = rs"
        by (intro update_where_none) (metis image_eqI)
      with False Cons.prems show ?thesis by (auto simp: update_where_def fun_eq_iff)
    qed
  qed simp
  have app: "map_of (xs @ [(a, b)]) = (map_of xs)(a \<mapsto> b)" if "a \<notin> fst ` set xs" for xs :: "(string \<times> jval) list" and a b
    using that by (induction xs) (auto simp: fun_upd_twist)
  show ?thesis
    using upd [of "platform_config d"] app [of "fst kv" "map (\<lambda>r. (cf_key r, cf_value r)) (platform_config d)" "snd kv"]
    by (auto simp: upsert_config_def stored_values_def Let_def image_image)
qed

lemma upsert_all_values:
  "upsert_all actor kvs s = (Inr (), s') \<Longrightarrow> distinct (map fst kvs) \<Longrightarrow>
     map_of (stored_values (fst s')) = map_of (stored_values (fst s)) ++ map_of kvs"
proof (induction kvs arbitrary: s)
  case (Cons kv kvs)
  obtain d fs where s: "s = (d, fs)" by (rule prod.exhaust)
  from Cons.prems(1) s obtain s1 where "tx_exec (upsert_config actor kv) (d, fs) = (Inr () :: unit tx_error + unit, s1)" "upsert_all actor kvs s1 = (Inr (), s')"
    by (auto simp: tx_bind_def split: prod.split_asm sum.split_asm)
  then have d1: "fst s1 = upsert_config actor kv d" by (cases s1) simp
  have "map_of kvs (fst kv) = None" using Cons.prems by (auto simp: map_of_eq_None_iff)
  from upd_then_add [of "map_of kvs" "fst kv" "snd kv" "map_of (stored_values d)", OF this] Cons.IH [of s1] Cons.prems(2) \<open>upsert_all actor kvs s1 = (Inr (), s')\<close> d1 s show ?case
    by (simp add: upsert_config_values fun_upd_def)
qed (simp add: tx_ret_def)

section \<open>Updates\<close>

lemma SetForActor_failed:
  assumes "SetForActor pf now kv actor cw = (Some e, cw')"
  shows "fst cw' = fst cw \<and> fst (snd cw') = fst (snd cw)"
proof -
  obtain res s' where Pair: "run_tx (upsert_all actor kv) (snd cw) = (res, s')" by (rule prod.exhaust)
  have "\<And>e. res = Inl e \<Longrightarrow> fst s' = fst (snd cw)"
    using run_tx_Inl [of "upsert_all actor kv" "fst (snd cw)" "snd (snd cw)" _ "fst s'" "snd s'"] Pair by simp
  with assms Pair show ?thesis by (auto simp: SetForActor_def Let_def split: if_split_asm sum.split_asm)
qed

lemma SetForActor_done:
  assumes "SetForActor pf now kv actor cw = (None, cw')" "distinct (map fst kv)"
  shows "fst cw' = (with_values kv (fst cw))\<lparr>cs_updated := now\<rparr> \<and> (\<forall>(k, v) \<in> set kv. known_key k \<and> validateConfigValue pf k v)
    \<and> \<not> f64_lt (lifetime_of (with_values kv (fst cw)) ''open_api_key_max_lifetime_s'') (lifetime_of (with_values kv (fst cw)) ''open_api_key_default_lifetime_s'')
    \<and> map_of (stored_values (fst (snd cw'))) = map_of (stored_values (fst (snd cw))) ++ map_of kv"
proof -
  obtain res s' where Pair: "run_tx (upsert_all actor kv) (snd cw) = (res, s')" by (rule prod.exhaust)
  have "map_of (stored_values (fst s')) = map_of (stored_values (fst (snd cw))) ++ map_of kv" if "res = Inr ()"
  proof (cases rule: run_tx_cases [of "upsert_all actor kv" "fst (snd cw)" "snd (snd cw)"])
    case (failed e fs')
    with Pair that show ?thesis by simp
  next
    case (committed u d' gs fs')
    with Pair upsert_all_values [of actor kv "(fst (snd cw), tl (snd (snd cw)))" "(d', gs)"] assms(2) show ?thesis by simp
  qed
  with assms Pair show ?thesis by (auto simp: SetForActor_def Let_def filter_empty_conv split: if_split_asm sum.split_asm)
qed

definition config_step :: "(string \<Rightarrow> float64 option) \<Rightarrow> config_world \<Rightarrow> int \<times> (string \<times> jval) list \<times> string \<Rightarrow> config_world" where
  "config_step pf cw op = (case op of (now, kv, actor) \<Rightarrow> snd (SetForActor pf now kv actor cw))"

lemma lifetime_updated [simp]: "lifetime_of (c\<lparr>cs_updated := t\<rparr>) k = lifetime_of c k"
  by (simp add: lifetime_of_def config_get_def)

lemma config_step_inv:
  assumes "config_inv pf cw" "distinct (map fst (fst (snd op)))"
  shows "config_inv pf (config_step pf cw op)"
proof -
  obtain now kv actor where op: "op = (now, kv, actor)" by (rule prod_cases3)
  obtain res cw' where set: "SetForActor pf now kv actor cw = (res, cw')" by (rule prod.exhaust)
  show ?thesis
  proof (cases res)
    case None
    with SetForActor_done [of pf now kv actor cw cw'] set assms op show ?thesis
      by (fastforce simp: config_inv_def config_valid_def config_step_def map_of_with_values map_add_Some_iff dest: map_of_SomeD)
  next
    case (Some e)
    with SetForActor_failed [of pf now kv actor cw e cw'] set assms op show ?thesis
      by (simp add: config_inv_def config_step_def)
  qed
qed

text \<open>
  The configuration in use is valid and is the stored one: when the process starts from a database
  with valid values, every sequence of updates, refused, failed or committed, leaves values that pass
  the validation, a default lifetime of keys not above the maximum, and in memory exactly the values
  a restart would read.
\<close>

theorem config_stays_valid:
  assumes "config_inv pf cw" "\<And>op. op \<in> set ops \<Longrightarrow> distinct (map fst (fst (snd op)))"
  shows "config_valid pf (fst (run (config_step pf) cw ops))
    \<and> map_of (cs_values (fst (run (config_step pf) cw ops))) = map_of (stored_values (fst (snd (run (config_step pf) cw ops))))"
proof -
  have "config_inv pf (run (config_step pf) cw ops)"
    using assms
  proof (induction ops arbitrary: cw)
    case (Cons op ops)
    then have "config_inv pf (config_step pf cw op)" by (intro config_step_inv) (simp_all only: list.set_intros)
    with Cons show ?case by (simp only: run.simps list.set_intros)
  qed simp
  then show ?thesis by (simp add: config_inv_def)
qed

theorem config_stays_valid_witness:
  "config_valid (\<lambda>_. None) (fst (run (config_step (\<lambda>_. None)) (\<lparr>cs_values = [], cs_updated = 0\<rparr>, (empty_db, []))
      [(5, [(''rate_limit'', JNum (Fin 7))], ''root''), (6, [(''rate_limit'', JNum (Fin 0))], ''root'')]))"
  by (rule config_stays_valid [THEN conjunct1])
    (auto simp: config_inv_def config_valid_def stored_values_def empty_db_def lifetime_of_def config_get_def config_defaults_def configNumber_def)

end
