(* ===== verification/Open_Keys_Props.thy ===== *)
theory Open_Keys_Props
  imports Open_Props Config_Props
begin

text \<open>Keys of the open interface: what a created key is, and that a revoked one is never accepted again.\<close>

section \<open>Lifetimes\<close>

lemma whole_range_num: "whole_in_range lo hi v \<Longrightarrow> \<exists>q. v = JNum (Fin q) \<and> lo \<le> q \<and> q \<le> hi"
proof -
  assume v: "whole_in_range lo hi v"
  then obtain n where n: "v = JNum n" by (cases v) (auto simp: whole_in_range_def in_range_def configNumber_def)
  with v show ?thesis by (cases n) (auto simp: whole_in_range_def in_range_def configNumber_def is_nan_def is_inf_def)
qed

lemma lifetime_range:
  assumes valid: "config_valid pf c" and key: "key \<in> {''open_api_key_default_lifetime_s'', ''open_api_key_max_lifetime_s''}"
  shows "\<exists>q. cfgNum c key d = Fin q \<and> 3600 \<le> q \<and> q \<le> 31536000"
proof (cases "map_of (cs_values c) key")
  case None
  with key show ?thesis by (auto simp: cfgNum_def config_get_def config_defaults_def)
next
  case (Some v)
  with valid have "validateConfigValue pf key v" by (simp add: config_valid_def)
  with key have "whole_in_range 3600 31536000 v" by (auto simp: validateConfigValue_def split: if_split_asm)
  from whole_range_num [OF this] Some show ?thesis by (auto simp: cfgNum_def config_get_def)
qed

lemma f64_int_floor: "0 \<le> q \<Longrightarrow> q \<le> 31536000 \<Longrightarrow> f64_int (Fin q) = \<lfloor>q\<rfloor>"
proof -
  assume q: "0 \<le> q" "q \<le> 31536000"
  then have "0 \<le> \<lfloor>q\<rfloor>" "\<lfloor>q\<rfloor> \<le> 31536000" by (simp_all add: floor_le_iff)
  with q show ?thesis by (simp add: f64_int_def Let_def int64_min_def int64_max_def)
qed

lemma expiry_bounds:
  assumes valid: "config_valid pf c" and ok: "resolveAPIKeyExpiry c now requested = Inr e"
  shows "now < e \<and> e \<le> now + 31536000 * second"
proof -
  obtain q where q: "cfgNum c ''open_api_key_default_lifetime_s'' (Fin defaultAPIKeyLifetime_s) = Fin q" "3600 \<le> q" "q \<le> 31536000"
    using lifetime_range [OF valid] by blast
  obtain m where m: "cfgNum c ''open_api_key_max_lifetime_s'' (Fin maxAPIKeyLifetime_s) = Fin m" "3600 \<le> m" "m \<le> 31536000"
    using lifetime_range [OF valid] by blast
  have fl: "3600 \<le> \<lfloor>q\<rfloor>" "\<lfloor>q\<rfloor> \<le> 31536000" "\<lfloor>m\<rfloor> \<le> 31536000" using q m by (simp_all add: le_floor_iff floor_le_iff)
  then have "\<lfloor>m\<rfloor> * second \<le> 31536000 * second" "0 < \<lfloor>q\<rfloor> * second" "\<lfloor>q\<rfloor> * second \<le> 31536000 * second"
    by (simp_all add: second_def)
  moreover have "e = now + \<lfloor>q\<rfloor> * second \<or> now < e \<and> e \<le> now + \<lfloor>m\<rfloor> * second"
    using ok q m by (auto simp: resolveAPIKeyExpiry_def Let_def f64_int_floor split: option.split_asm if_split_asm)
  ultimately show ?thesis by linarith
qed

text \<open>
  Every key the interface creates is bounded: with a valid configuration it expires within a year,
  has only permissions of the catalogue and only addresses that parse, is stored by the hash of its
  secret, and is not revoked.
\<close>

theorem created_key_bounded:
  assumes "config_valid pf (ow_cfg w)" "CreateKeyWithExpiry k x now dbnow raw name remark scopes vhs ips actor requested w = (Inr (key, secret), w')"
  shows "now < key_ExpiresNS key \<and> key_ExpiresNS key \<le> now + 31536000 * second \<and> set (key_Scopes key) \<subseteq> set openScopeCatalog
    \<and> validateIPs (key_IPs key) = None \<and> key_KeyHash key = hex_encode (k_sha256 k (string_bytes secret)) \<and> key_RevokedNS key = 0
    \<and> map_of (oa_keys (ow_api w')) (key_ID key) = Some key"
  using assms(2) expiry_bounds [OF assms(1), of now requested]
  by (auto simp: CreateKeyWithExpiry_def Let_def new_key_def validScope_def find_None_iff update_conv'
      split: if_split_asm option.split_asm sum.split_asm prod.split_asm bool.split_asm)

section \<open>Revocation\<close>

lemma logAudit_keys: "api_keys (fst (snd (logAudit x e rs))) = api_keys (fst (snd rs))"
  unfolding logAudit_def snd_conv
  by (rule db_exec_cases [of "insert_audit x (sourced e)" "fst (snd rs)" "snd (snd rs)"]) (auto simp: insert_audit_def)

lemma open_log_keys: "api_keys (fst (ow_txs (open_log x e w))) = api_keys (fst (ow_txs w))"
  using logAudit_keys [of x e "(ow_audit w, ow_txs w)"]
  by (cases "logAudit x e (ow_audit w, ow_txs w)") (simp add: open_log_def ow_txs_def ow_set_txs_def)

lemma ow_txs_sel [simp]: "ow_txs (ow_set_txs s w) = s" "ow_txs (on_api f w) = ow_txs w"
  by (simp_all add: ow_txs_def on_api_def)

lemma RevokeKey_done:
  assumes "RevokeKey x dp now i actor w = (None, w')"
  shows "\<exists>row \<in> set (api_keys (fst (ow_txs w'))). ak_id row = i \<and> ak_revoked_at row = Some (dp now)"
proof -
  let ?p = "\<lambda>r. ak_id r = i \<and> ak_revoked_at r = None"
  obtain d fs where s: "ow_txs w = (d, fs)" by (rule prod.exhaust)
  have upd: "count_where ?p (api_keys d) = 1
      \<and> api_keys (fst (ow_txs w')) = update_where ?p (\<lambda>r. r\<lparr>ak_revoked_at := Some (dp now)\<rparr>) (api_keys d)"
    using assms s by (auto simp: RevokeKey_def tx_stmt_def revoke_key_stmt_def Let_def open_log_keys
        split: option.split_asm if_split_asm bool.split_asm)
  then have "filter ?p (api_keys d) \<noteq> []" by (auto simp: count_where_def)
  then obtain q where "q \<in> set (api_keys d)" "?p q" by (auto simp: filter_empty_conv)
  with upd show ?thesis by (intro bexI [of _ "q\<lparr>ak_revoked_at := Some (dp now)\<rparr>"]) (auto simp: set_update_where)
qed

definition key_dead :: "string \<Rightarrow> open_world \<Rightarrow> bool" where
  "key_dead i w \<longleftrightarrow> (\<exists>k. map_of (oa_keys (ow_api w)) i = Some k \<and> key_RevokedNS k > 0)"

lemma key_dead_authenticate:
  assumes "key_dead i w"
  shows "key_dead i (snd (authenticate k x now r w))"
  using assms
proof (cases rule: authenticate_outcome [of now w r k x])
  case (rated ls stored)
  have "map_of (oa_keys (ow_api (snd (authenticate k x now r w)))) i = map_of (oa_keys (ow_api w)) i
      \<or> ar_header ''X-Api-Key'' r = i \<and> map_of (oa_keys (ow_api (snd (authenticate k x now r w)))) i = Some (stored\<lparr>key_LastUsedNS := now\<rparr>)"
    using rated(2,4) by (auto simp: rate_phase_def Let_def update_conv')
  with assms rated(2) show ?thesis by (auto simp: key_dead_def)
qed (auto simp: key_dead_def)

lemma key_dead_refused: "key_dead i w \<Longrightarrow> ar_header ''X-Api-Key'' r = i \<Longrightarrow> fst (authenticate k x now r w) \<noteq> Authentic key"
  using open_auth_sound [of k x now r w key] by (cases "authenticate k x now r w") (auto simp: key_dead_def)

lemma key_dead_step:
  assumes "key_dead i w"
  shows "key_dead i (open_step env dp w op)"
proof (cases op)
  case (OpServe rd r stream)
  show ?thesis
  proof (cases "config_get (ow_cfg w) ''open_api_enabled'' = Some (JBool False) \<or> readRawBody (2 ^ 20) stream = None")
    case True
    with assms OpServe show ?thesis
      by (cases "config_get (ow_cfg w) ''open_api_enabled'' = Some (JBool False)") (simp_all add: ServeOpen_disabled ServeOpen_enabled key_dead_def)
  next
    case False
    then obtain b where "readRawBody (2 ^ 20) stream = Some b" by auto
    with False OpServe key_dead_authenticate [OF assms, of "oe_kdf env" "oe_ext env" "wall (or_now rd)" "r\<lparr>ar_body := b\<rparr>"] show ?thesis
      by (cases "authenticate (oe_kdf env) (oe_ext env) (wall (or_now rd)) (r\<lparr>ar_body := b\<rparr>) w")
        (auto simp: ServeOpen_enabled Let_def key_dead_def split: open_auth.split)
  qed
next
  case (OpCreateKey now dbnow raw name remark scopes vhs ips actor expires)
  with assms show ?thesis
    by (auto simp: CreateKeyWithExpiry_def Let_def key_dead_def update_conv' split: option.split sum.split prod.split bool.split)
next
  case (OpUpdateKey now j p actor)
  with assms show ?thesis by (auto simp: UpdateKey_def key_dead_def update_conv' split: option.split sum.split prod.split bool.split)
next
  case (OpRevokeKey now j actor)
  with assms show ?thesis by (auto simp: RevokeKey_def key_dead_def update_conv' split: option.split sum.split prod.split bool.split)
qed

text \<open>
  C31. Revoking a key is final: once \<open>RevokeKey\<close> reports success, no run of requests and key operations,
  changes of the same key included, makes a request with its id acceptable again, and the row in the
  database carries the revocation.
\<close>

theorem revoked_key_stays_out:
  assumes "RevokeKey x dp now i actor w = (None, w')" "0 < now" "ar_header ''X-Api-Key'' r = i"
  shows "fst (authenticate k x2 t r (run (open_step env dp') w' ops)) \<noteq> Authentic key
    \<and> (\<exists>row \<in> set (api_keys (fst (ow_txs w'))). ak_id row = i \<and> ak_revoked_at row = Some (dp now))"
proof
  have "key_dead i w'"
    using assms(1,2) by (auto simp: RevokeKey_def key_dead_def update_conv' split: option.split_asm if_split_asm prod.split_asm sum.split_asm bool.split_asm)
  then have "key_dead i (run (open_step env dp') w' ops)"
    by (induction ops arbitrary: w') (auto intro: key_dead_step)
  then show "fst (authenticate k x2 t r (run (open_step env dp') w' ops)) \<noteq> Authentic key" using assms(3) by (rule key_dead_refused)
next
  show "\<exists>row \<in> set (api_keys (fst (ow_txs w'))). ak_id row = i \<and> ak_revoked_at row = Some (dp now)" by (rule RevokeKey_done [OF assms(1)])
qed

section \<open>Witnesses\<close>

theorem created_key_bounded_witness:
  "\<exists>key secret w'. CreateKeyWithExpiry demo_kdf sample_ext 7 7 (Some [1]) ''n'' [] [''task.read''] [''v1''] [] ''root'' None (sample_server []) = (Inr (key, secret), w')
     \<and> key_ExpiresNS key \<le> 7 + 31536000 * second"
proof -
  have ev: "trim_space ''n'' = ''n''" "dedupeStr [''task.read''] = [''task.read'']" "dedupeStr [''v1''] = [''v1'']" "dedupeStr [] = []" "rune_count ''n'' = 1"
    by code_simp+
  have valid: "config_valid (\<lambda>_. None) (ow_cfg (sample_server []))"
    by (simp add: config_valid_def sample_server_def lifetime_of_def config_get_def config_defaults_def configNumber_def)
  have "\<exists>e. resolveAPIKeyExpiry (ow_cfg (sample_server [])) 7 None = Inr e"
    by (simp add: resolveAPIKeyExpiry_def sample_server_def cfgNum_def config_get_def config_defaults_def maxAPIKeyLifetime_s_def)
  then have "\<exists>key secret w'. CreateKeyWithExpiry demo_kdf sample_ext 7 7 (Some [1]) ''n'' [] [''task.read''] [''v1''] [] ''root'' None (sample_server []) = (Inr (key, secret), w')"
    by (auto simp: CreateKeyWithExpiry_def ev validScope_def openScopeCatalog_def validateIPs_def Let_def db_exec_def insert_key_def new_key_def demo_kdf_def
        sample_server_def empty_api_def ow_txs_def empty_db_def hex_encode_def)
  with created_key_bounded [OF valid] show ?thesis by blast
qed

text \<open>A database with the row of the key.\<close>

definition key_server :: open_world where
  "key_server = (sample_server [])\<lparr>ow_world := (NewState [] None, (empty_db\<lparr>api_keys := [\<lparr>ak_id = ''k1'', ak_name = [], ak_prefix = [], ak_key_hash = ''h'',
     ak_remark = [], ak_scopes = None, ak_vehicles = None, ak_ips = None, ak_created_at = 0, ak_expires_at = 0, ak_revoked_at = None, ak_last_used_at = None,
     ak_created_by = []\<rparr>]\<rparr>, []))\<rparr>"

theorem revoked_key_stays_out_witness:
  "\<forall>env. fst (authenticate demo_kdf sample_ext (6 * second) (sample_call ''6'')
     (run (open_step env id) (snd (RevokeKey sample_ext id 5 ''k1'' ''root'' key_server)) [OpUpdateKey 6 ''k1'' \<lparr>kp_Name = None, kp_Remark = None,
        kp_Scopes = None, kp_Vehicles = None, kp_IPs = None, kp_ExpiresNS = None\<rparr> ''root''])) \<noteq> Authentic sample_key"
proof -
  have "fst (RevokeKey sample_ext id 5 ''k1'' ''root'' key_server) = None"
    by (simp add: RevokeKey_def key_server_def sample_server_def empty_api_def sample_key_def ow_txs_def revoke_key_stmt_def count_where_def Let_def)
  then have "RevokeKey sample_ext id 5 ''k1'' ''root'' key_server = (None, snd (RevokeKey sample_ext id 5 ''k1'' ''root'' key_server))" by (simp add: prod_eq_iff)
  note stays = revoked_key_stays_out [OF this, THEN conjunct1]
  show ?thesis by (intro allI, rule stays) simp_all
qed

end
