(* ===== verification/Open_Audit_Props.thy ===== *)
theory Open_Audit_Props
  imports Open_Audit
begin

text \<open>What reading the audit trail gives: pages of the database without a cursor, and none with one.\<close>

lemma where_unbalanced: "trim_space (af_Cursor f) \<noteq> [] \<Longrightarrow> \<not> balanced (where_text f)"
proof -
  assume cursor: "trim_space (af_Cursor f) \<noteq> []"
  have "\<not> balanced (join_and (base_conditions @ [] @ [] @ [cursor_condition 4]))"
    "\<not> balanced (join_and (base_conditions @ [] @ [''ts < '' @ dollar 4] @ [cursor_condition 5]))"
    "\<not> balanced (join_and (base_conditions @ [''ts >= '' @ dollar 4] @ [] @ [cursor_condition 5]))"
    "\<not> balanced (join_and (base_conditions @ [''ts >= '' @ dollar 4] @ [''ts < '' @ dollar 5] @ [cursor_condition 6]))"
    by code_simp+
  with cursor show ?thesis by (cases "af_From f"; cases "af_To f") (simp_all add: where_text_def Let_def)
qed

lemma where_balanced: "trim_space (af_Cursor f) = [] \<Longrightarrow> balanced (where_text f)"
proof -
  assume cursor: "trim_space (af_Cursor f) = []"
  have "balanced (join_and (base_conditions @ [] @ [] @ []))" "balanced (join_and (base_conditions @ [] @ [''ts < '' @ dollar 4] @ []))"
    "balanced (join_and (base_conditions @ [''ts >= '' @ dollar 4] @ [] @ []))"
    "balanced (join_and (base_conditions @ [''ts >= '' @ dollar 4] @ [''ts < '' @ dollar 5] @ []))"
    by code_simp+
  with cursor show ?thesis by (cases "af_From f"; cases "af_To f") (simp_all add: where_text_def Let_def)
qed

lemma query_with_cursor: "trim_space (af_Cursor f) \<noteq> [] \<Longrightarrow> \<exists>e s'. queryAuditDBPage cd f s = (Inl e, s')"
  using where_unbalanced [of f] by (cases s) (auto simp: queryAuditDBPage_def Let_def tx_stmt_def)

lemma decode_nonempty: "decodeAuditCursor cd raw = Some c \<Longrightarrow> trim_space raw \<noteq> []"
  by (auto simp: decodeAuditCursor_def Let_def split: if_split_asm)

text \<open>
  Following a cursor never reaches the database: the condition the code writes for a cursor leaves a
  parenthesis open, so the query fails, and the page is taken from the entries the process holds in
  memory, without a cursor to go on with. What the tables hold beyond those 500 entries cannot be read
  page by page.
\<close>

theorem audit_cursor_never_pages:
  assumes "decodeAuditCursor cd (af_Cursor f) = Some c"
  shows "\<exists>p w'. AuditPage cd f w = (Inr p, w') \<and> set (pg_Entries p) \<subseteq> set (ow_audit w) \<and> pg_NextCursor p = [] \<and> \<not> pg_HasMore p"
proof -
  let ?f = "f\<lparr>af_Limit := clamp_limit (af_Limit f), af_Source := (if trim_space (af_Source f) = [] then ''api'' else af_Source f)\<rparr>"
  have "\<exists>e s'. queryAuditDBPage cd ?f (ow_txs w) = (Inl e, s')"
    by (rule query_with_cursor) (use decode_nonempty [OF assms] in simp)
  then obtain e s' where "queryAuditDBPage cd ?f (ow_txs w) = (Inl e, s')" by blast
  then have page: "AuditPage cd f w = (Inr (auditMemoryPage cd ?f (ow_audit w)), ow_set_txs s' w)"
    using assms by (simp add: AuditPage_def Let_def)
  have "set (pg_Entries (auditMemoryPage cd ?f (ow_audit w))) \<subseteq> set (ow_audit w)"
    by (auto simp: auditMemoryPage_def Let_def dest!: in_set_takeD split: option.split_asm if_split_asm)
  then show ?thesis unfolding page by (simp add: auditMemoryPage_def Let_def)
qed

text \<open>Without a cursor the newest matching entries of both tables are answered, with a cursor when there are more.\<close>

lemma audit_first_page:
  assumes "trim_space (af_Cursor f) = []" "af_Source f = ''all''" "1 \<le> af_Limit f" "af_Limit f \<le> 500" "ow_txs w = (d, [])"
  shows "fst (AuditPage cd f w) = Inr (page_of cd (nat (af_Limit f)) (take (nat (af_Limit f) + 1) (newest_first (filter (selected [] f) (audit_union cd d)))))"
proof -
  have "trim_space ''all'' = ''all''" by code_simp
  moreover have "selected [] (f\<lparr>af_Source := s\<rparr>) = selected [] f" for s by (simp add: selected_def fun_eq_iff)
  moreover have "where_text (f\<lparr>af_Source := s\<rparr>) = where_text f" for s by (simp add: where_text_def)
  ultimately show ?thesis
    using assms where_balanced [of f] by (simp add: AuditPage_def queryAuditDBPage_def Let_def clamp_limit_def)
qed

definition sample_codec :: audit_codec where
  "sample_codec = \<lparr>cd_encode = (\<lambda>c. ac_Source c), cd_decode = (\<lambda>s. Some \<lparr>ac_TsNS = 5, ac_ID = 1, ac_Source = ''api''\<rparr>), cd_detail = (\<lambda>_. NoText)\<rparr>"

definition audit_server :: open_world where
  "audit_server = \<lparr>ow_api = empty_api, ow_cfg = \<lparr>cs_values = [], cs_updated = 0\<rparr>, ow_audit = [], ow_takeover = no_takeover,
     ow_world = (NewState [] None, (empty_db\<lparr>audit_log := [no_entry\<lparr>ae_ID := 1, ae_TsNS := 4\<rparr>]\<rparr>, []))\<rparr>"

theorem audit_cursor_never_pages_witness:
  "\<exists>p w'. AuditPage sample_codec \<lparr>af_Limit = 10, af_KeyID = [], af_Result = [], af_Source = [], af_Cursor = ''c'', af_From = None, af_To = None\<rparr> audit_server
     = (Inr p, w') \<and> pg_Entries p = []"
proof -
  let ?f = "\<lparr>af_Limit = 10, af_KeyID = [], af_Result = [], af_Source = [], af_Cursor = ''c'', af_From = None, af_To = None\<rparr>"
  have "decodeAuditCursor sample_codec (af_Cursor ?f) = Some \<lparr>ac_TsNS = 5, ac_ID = 1, ac_Source = ''api''\<rparr>" by code_simp
  from audit_cursor_never_pages [OF this, of audit_server] show ?thesis by (auto simp: audit_server_def)
qed

end
