(* ===== verification/Mqtt_Ingress.thy ===== *)
theory Mqtt_Ingress
  imports Map_Publication Navigation Org_Groups
begin

text \<open>
  \<open>server/fleet/mqtt.go\<close>: what the fleet server does with one message a Gateway publishes. The
  topic, the signed envelope and the registry have to name the same vehicle and Gateway; then the
  payload is parsed and handed to the registry, the fleet state, the navigation routes or the map
  publications. A refused message leaves a row of evidence. The MQTT client, its TLS configuration
  and the text of error messages are arguments or left out.
\<close>

section \<open>Errors\<close>

datatype ingress_error =
    InTopic | InSize | InEnvelope | InMismatch | InInvalid env_error | InTag | InType string | InKind
  | InRegistry "registry_error tx_error" | InPayload string | InCapsIdentity | InCaps caps_error
  | InPersist "registry_error tx_error" | InIncompatible control_reason | InSignals signal_error
  | InAckFields | InNavFields | InMapFields | InMonitoring "registry_error tx_error"
  | InAck "telemetry_error tx_error" | InMapAck "pub_error tx_error" | InNavAck "nav_error tx_error"
  | InTelemetry "telemetry_error tx_error" | InDedup "registry_error tx_error"

text \<open>
  What is parsed by generated code and by the embedded matrix, how an error reads as text, and the
  rounding to \<open>float64\<close>.
\<close>

record ingress_codec =
  ic_caps :: "bytes \<Rightarrow> GatewayCapabilities option"
  ic_update :: "bytes \<Rightarrow> SignalUpdate option"
  ic_status :: "bytes \<Rightarrow> bool"
  ic_heartbeat :: "bytes \<Rightarrow> bool"
  ic_ack :: "bytes \<Rightarrow> string ControlAck option"
  ic_nav_ack :: "bytes \<Rightarrow> NavigationAck option"
  ic_map_ack :: "bytes \<Rightarrow> MapPublicationAck option"
  ic_matrix :: "compatibilityMatrix option"
  ic_snapshot :: "capabilitySnapshot \<Rightarrow> bytes option"
  ic_text :: "ingress_error \<Rightarrow> string"
  ic_round :: "rat \<Rightarrow> float64"

text \<open>The readings of the clock one message causes, and \<open>now()\<close> of the database.\<close>

record ingress_readings =
  ir_recv :: gotime
  ir_clock :: int
  ir_dbnow :: int
  ir_signal :: gotime
  ir_apply :: gotime
  ir_event :: int

text \<open>The counters of the process that this code moves; they are \<open>uint64\<close>.\<close>

record ingress_metrics =
  im_accepted :: u64
  im_rejected :: u64
  im_deadLetters :: u64

type_synonym ingress_world = "ingress_metrics \<times> world"

section \<open>The envelope\<close>

text \<open>The message types a topic may carry; \<open>None\<close> for a kind the server does not know.\<close>

definition kind_types :: "string \<Rightarrow> string list option" where
  "kind_types kind =
    (if kind = ''register'' then Some [''platform.v1.GatewayCapabilities'']
     else if kind = ''telemetry'' then Some [''platform.v1.SignalUpdate'']
     else if kind = ''status'' then Some [''platform.v1.GatewayStatus'', ''platform.v1.Heartbeat'']
     else if kind = ''ack'' then Some [''platform.v1.ControlAck'']
     else if kind = ''nav_ack'' then Some [''platform.v1.NavigationAck'']
     else if kind = ''map_ack'' then Some [''platform.v1.MapPublicationAck'']
     else None)"

definition topic_parts :: "string \<Rightarrow> (string \<times> string \<times> string) option" where
  "topic_parts topic =
    (case go_split CHR ''/'' topic of
       [a, g, b, v, kind] \<Rightarrow> if a = ''gateway'' \<and> b = ''vehicle'' then Some (g, v, kind) else None
     | _ \<Rightarrow> None)"

definition decodeMQTTEnvelope ::
  "wire \<Rightarrow> gotime \<Rightarrow> string \<Rightarrow> bytes \<Rightarrow> bytes \<Rightarrow> ingress_error + (Envelope \<times> string \<times> string \<times> string)" where
  "decodeMQTTEnvelope w now topic payload key =
    (case topic_parts topic of
       None \<Rightarrow> Inl InTopic
     | Some (gatewayID, i, kind) \<Rightarrow>
        if gatewayID = [] \<or> i = [] \<or> kind = [] \<or> length payload = 0 \<or> int (length payload) > MaxEnvelopePayload + 4096 then Inl InSize
        else case unmarshal_env w payload of
          None \<Rightarrow> Inl InEnvelope
        | Some env \<Rightarrow>
           if env_vehicle_id env \<noteq> i \<or> env_gateway_id env \<noteq> gatewayID then Inl InMismatch
           else case ValidateEnvelope (Some env) [] i gatewayID now now of
             Some e \<Rightarrow> Inl (InInvalid e)
           | None \<Rightarrow>
              if \<not> VerifyEnvelopeAuth w (Some env) key then Inl InTag
              else case kind_types kind of
                None \<Rightarrow> Inl InKind
              | Some types \<Rightarrow> if env_message_type env \<in> set types then Inr (env, gatewayID, i, kind) else Inl (InType kind))"

definition mqttTopicIdentity :: "string \<Rightarrow> string \<times> string" where
  "mqttTopicIdentity topic = (case topic_parts topic of None \<Rightarrow> ([], []) | Some (g, v, _) \<Rightarrow> (g, v))"

section \<open>Evidence of a refused message\<close>

text \<open>
  A \<open>TEXT\<close> value is UTF-8 without the byte zero; the driver refuses a sequence number beyond \<open>BIGINT\<close>.
\<close>

definition pg_text :: "string \<Rightarrow> bool" where
  "pg_text s \<longleftrightarrow> concat (go_runes s) = s \<and> CHR 0x00 \<notin> set s"

definition insert_dead_letter :: "dead_letter_row \<Rightarrow> db \<Rightarrow> (unit \<times> db) option" where
  "insert_dead_letter r d =
    (if list_all pg_text [dl_topic r, dl_gateway r, dl_vehicle r, dl_message_type r, dl_session r, dl_reason r]
        \<and> dl_sequence r \<le> int64_max
     then Some ((), d\<lparr>mqtt_ingress_dead_letters := mqtt_ingress_dead_letters d @ [r]\<rparr>)
     else None)"

definition dead_letter :: "ext \<Rightarrow> string \<Rightarrow> bytes \<Rightarrow> Envelope option \<Rightarrow> string \<Rightarrow> dead_letter_row" where
  "dead_letter x topic payload env reason =
    (let (g, v) = mqttTopicIdentity topic
     in \<lparr>dl_topic = take 512 topic,
         dl_gateway = (case env of Some e \<Rightarrow> if g = [] then env_gateway_id e else g | None \<Rightarrow> g),
         dl_vehicle = (case env of Some e \<Rightarrow> if v = [] then env_vehicle_id e else v | None \<Rightarrow> v),
         dl_message_type = (case env of Some e \<Rightarrow> env_message_type e | None \<Rightarrow> []),
         dl_session = (case env of Some e \<Rightarrow> env_session_id e | None \<Rightarrow> []),
         dl_sequence = (case env of Some e \<Rightarrow> uint (env_sequence e) | None \<Rightarrow> 0),
         dl_reason = take 512 reason, dl_sha256 = x_sha256_hex x payload, dl_size = length payload\<rparr>)"

definition recordMQTTDeadLetter ::
  "ext \<Rightarrow> string \<Rightarrow> bytes \<Rightarrow> Envelope option \<Rightarrow> string \<Rightarrow> ingress_world \<Rightarrow> ingress_world" where
  "recordMQTTDeadLetter x topic payload env reason mw =
    (case db_exec (insert_dead_letter (dead_letter x topic payload env reason)) (snd (snd mw)) of
       (ok, s) \<Rightarrow> ((if ok then (fst mw)\<lparr>im_deadLetters := im_deadLetters (fst mw) + 1\<rparr> else fst mw), (fst (snd mw), s)))"

section \<open>The payload\<close>

datatype ingress =
    Caps GatewayCapabilities | Telemetry SignalUpdate | Status | Ack "string ControlAck" | NavAck NavigationAck | MapAck MapPublicationAck

text \<open>A declaration of capabilities is stored while it is parsed, before the sequence number is looked at.\<close>

definition register_payload ::
  "ingress_codec \<Rightarrow> ingress_readings \<Rightarrow> string \<Rightarrow> string \<Rightarrow> bytes \<Rightarrow> txs \<Rightarrow> (ingress_error + ingress) \<times> txs" where
  "register_payload c rd i gatewayID payload s =
    (case ic_caps c payload of
       None \<Rightarrow> (Inl (InPayload ''register''), s)
     | Some caps \<Rightarrow>
        if gc_vehicle_id caps \<noteq> i then (Inl InCapsIdentity, s)
        else case AssessGatewayCapabilities (ic_matrix c) (Some caps) of
          Inl e \<Rightarrow> (Inl (InCaps e), s)
        | Inr dec \<Rightarrow>
           (case PersistCapabilities (ic_snapshot c) (ir_dbnow rd) gatewayID (Some caps) dec s of
              (Inl e, s') \<Rightarrow> (Inl (InPersist e), s')
            | (Inr _, s') \<Rightarrow>
               if \<not> cd_MonitoringAllowed dec then (Inl (InIncompatible (cd_ControlReason dec)), s') else (Inr (Caps caps), s')))"

definition telemetry_payload :: "ingress_codec \<Rightarrow> ingress_readings \<Rightarrow> bytes \<Rightarrow> ingress_error + ingress" where
  "telemetry_payload c rd payload =
    (case ic_update c payload of
       None \<Rightarrow> Inl (InPayload ''telemetry'')
     | Some su \<Rightarrow> (case ValidateSignalUpdate (Some su) (ir_signal rd) (ir_signal rd) of Some e \<Rightarrow> Inl (InSignals e) | None \<Rightarrow> Inr (Telemetry su)))"

definition ack_payload :: "ingress_codec \<Rightarrow> Envelope \<Rightarrow> ingress_error + ingress" where
  "ack_payload c env =
    (case ic_ack c (env_payload env) of
       None \<Rightarrow> Inl InAckFields
     | Some a \<Rightarrow> if ack_control_session_id a \<noteq> env_session_id env \<or> ack_command_sequence a \<noteq> env_sequence env then Inl InAckFields else Inr (Ack a))"

definition nav_ack_payload :: "ingress_codec \<Rightarrow> string \<Rightarrow> bytes \<Rightarrow> ingress_error + ingress" where
  "nav_ack_payload c i payload =
    (case ic_nav_ack c payload of
       None \<Rightarrow> Inl InNavFields
     | Some a \<Rightarrow> if na_vehicle_id a \<noteq> i \<or> na_route_id a = [] \<or> na_version a \<noteq> 1 \<or> na_action a = NAVIGATION_ACTION_UNSPECIFIED \<or>
                    na_result a = NAVIGATION_RESULT_UNSPECIFIED then Inl InNavFields else Inr (NavAck a))"

definition map_ack_payload :: "ingress_codec \<Rightarrow> string \<Rightarrow> bytes \<Rightarrow> ingress_error + ingress" where
  "map_ack_payload c i payload =
    (case ic_map_ack c payload of
       None \<Rightarrow> Inl InMapFields
     | Some a \<Rightarrow> if pa_vehicle_id a \<noteq> i \<or> pa_publication_id a = [] \<or> pa_map_id a = [] \<or> pa_map_version a = 0 then Inl InMapFields
                else Inr (MapAck a))"

definition typed_payload ::
  "ingress_codec \<Rightarrow> ingress_readings \<Rightarrow> Envelope \<Rightarrow> string \<Rightarrow> string \<Rightarrow> string \<Rightarrow> txs \<Rightarrow> (ingress_error + ingress) \<times> txs" where
  "typed_payload c rd env gatewayID i kind s =
    (if kind = ''register'' then register_payload c rd i gatewayID (env_payload env) s
     else if kind = ''telemetry'' then (telemetry_payload c rd (env_payload env), s)
     else if kind = ''status'' then
       (if (if env_message_type env = ''platform.v1.GatewayStatus'' then ic_status c else ic_heartbeat c) (env_payload env)
        then Inr Status else Inl (InPayload ''status''), s)
     else if kind = ''ack'' then (ack_payload c env, s)
     else if kind = ''nav_ack'' then (nav_ack_payload c i (env_payload env), s)
     else (map_ack_payload c i (env_payload env), s))"

section \<open>The handlers\<close>

text \<open>What became of a message: refused with evidence, passed over as late or repeated, or processed.\<close>

datatype ingress_outcome = Refused ingress_error | Ignored | Processed

text \<open>The getters of a nil signal give zero values.\<close>

definition signal_val :: "Signal option \<Rightarrow> signalVal" where
  "signal_val so =
    (let value = Option.bind so sig_value; utc = (case so of None \<Rightarrow> 0 | Some s \<Rightarrow> sig_sample_utc_ns s)
     in \<lparr>sg_Path = (case so of None \<Rightarrow> [] | Some s \<Rightarrow> sig_path s),
         sg_Num = (case value of Some (Value_Number v) \<Rightarrow> Some v | _ \<Rightarrow> None),
         sg_Text = (case value of Some (Value_Text v) \<Rightarrow> Some v | _ \<Rightarrow> None),
         sg_SampleAt = (if utc > 0 then time_utc (time_unix utc) else time_zero)\<rparr>)"

definition caps_map :: "GatewayCapabilities \<Rightarrow> (string \<times> string) list" where
  "caps_map caps =
    [(''stack'', AutonomyStack_String (gc_stack caps)), (''stack_version'', gc_stack_version caps),
     (''gateway_version'', gc_gateway_version caps), (''topic_mapping'', gc_topic_mapping_version caps),
     (''adapter_version'', gc_adapter_version caps), (''safety_arbiter_version'', gc_safety_arbiter_version caps)]"

text \<open>What is stored before the sequence number is claimed, because storing it twice changes nothing.\<close>

definition store_ack ::
  "ext \<Rightarrow> ingress_readings \<Rightarrow> string \<Rightarrow> string \<Rightarrow> ingress \<Rightarrow> world \<Rightarrow> (ingress_error + unit) \<times> world" where
  "store_ack x rd i gatewayID m ws =
    (case m of
       Ack a \<Rightarrow> (case HandleControlAck i gatewayID ''mqtt'' a (snd ws) of
           (Inl e, s') \<Rightarrow> (Inl (InAck e), (fst ws, s')) | (Inr _, s') \<Rightarrow> (Inr (), (fst ws, s')))
     | MapAck a \<Rightarrow> (case HandleMapPublicationAck x (ir_event rd) (ir_dbnow rd) i gatewayID a ws of
           (Inl e, ws') \<Rightarrow> (Inl (InMapAck e), ws') | (Inr _, ws') \<Rightarrow> (Inr (), ws'))
     | _ \<Rightarrow> (Inr (), ws))"

definition claim_and_apply ::
  "ingress_readings \<Rightarrow> Envelope \<Rightarrow> string \<Rightarrow> string \<Rightarrow> ingress \<Rightarrow> world \<Rightarrow> ingress_outcome \<times> world" where
  "claim_and_apply rd env gatewayID i m ws =
    (case AcceptInboundSequence i gatewayID (env_message_type env) (env_session_id env) (env_sequence env) (snd ws) of
       (Inl e, s') \<Rightarrow> (Refused (InDedup e), (fst ws, s'))
     | (Inr False, s') \<Rightarrow> (Ignored, (fst ws, s'))
     | (Inr True, s') \<Rightarrow>
        (Processed, (case m of Caps caps \<Rightarrow> HandleRegister (ir_event rd) i (env_gateway_id env) (caps_map caps) [] (fst ws, s')
                     | _ \<Rightarrow> (fst ws, s'))))"

definition apply_payload ::
  "ingress_codec \<Rightarrow> ext \<Rightarrow> ingress_readings \<Rightarrow> Envelope \<Rightarrow> string \<Rightarrow> string \<Rightarrow> ingress \<Rightarrow> world \<Rightarrow> ingress_outcome \<times> world" where
  "apply_payload c x rd env gatewayID i m ws =
    (case store_ack x rd i gatewayID m ws of
       (Inl e, ws') \<Rightarrow> (Refused e, ws')
     | (Inr _, ws') \<Rightarrow>
        (case m of
           NavAck a \<Rightarrow>
             (case HandleNavigationAck x (ir_event rd) i gatewayID ''mqtt'' (env_session_id env) (env_sequence env) a ws' of
                (Inl e, ws2) \<Rightarrow> (Refused (InNavAck e), ws2)
              | (Inr accepted, ws2) \<Rightarrow> (if accepted then Processed else Ignored, ws2))
         | Telemetry su \<Rightarrow>
             (case ApplyTelemetryDurably (ic_round c) x (ir_apply rd) i gatewayID (env_message_type env) (env_session_id env)
                     (env_sequence env) (map signal_val su) ws' of
                (Inl e, ws2) \<Rightarrow> (Refused (InTelemetry e), ws2)
              | (Inr accepted, ws2) \<Rightarrow> (if accepted then Processed else Ignored, ws2))
         | _ \<Rightarrow> claim_and_apply rd env gatewayID i m ws'))"

section \<open>One message\<close>

definition admit_message ::
  "ingress_codec \<Rightarrow> ext \<Rightarrow> ingress_readings \<Rightarrow> Envelope \<Rightarrow> string \<Rightarrow> string \<Rightarrow> string \<Rightarrow> world \<Rightarrow> ingress_outcome \<times> world" where
  "admit_message c x rd env gatewayID i kind ws =
    (case ValidateInbound (ir_dbnow rd) (ir_clock rd) i gatewayID (snd ws) of
       (Inl e, s1) \<Rightarrow> (Refused (InRegistry e), (fst ws, s1))
     | (Inr _, s1) \<Rightarrow>
        (case typed_payload c rd env gatewayID i kind s1 of
           (Inl e, s2) \<Rightarrow> (Refused e, (fst ws, s2))
         | (Inr m, s2) \<Rightarrow>
            (case (if kind \<noteq> ''register'' then RequireMonitoring i gatewayID s2 else (Inr (), s2)) of
               (Inl e, s3) \<Rightarrow> (Refused (InMonitoring e), (fst ws, s3))
             | (Inr _, s3) \<Rightarrow> apply_payload c x rd env gatewayID i m (fst ws, s3))))"

definition count_outcome :: "ingress_outcome \<Rightarrow> ingress_world \<Rightarrow> ingress_world" where
  "count_outcome out mw =
    (if out = Processed then (fst mw)\<lparr>im_accepted := im_accepted (fst mw) + 1\<rparr>
     else (fst mw)\<lparr>im_rejected := im_rejected (fst mw) + 1\<rparr>, snd mw)"

definition routeMQTT ::
  "wire \<Rightarrow> ingress_codec \<Rightarrow> ext \<Rightarrow> ingress_readings \<Rightarrow> string \<Rightarrow> bytes \<Rightarrow> bytes \<Rightarrow> ingress_world \<Rightarrow> ingress_outcome \<times> ingress_world" where
  "routeMQTT w c x rd topic payload key mw =
    (case decodeMQTTEnvelope w (ir_recv rd) topic payload key of
       Inl e \<Rightarrow> (Refused e, count_outcome (Refused e) (recordMQTTDeadLetter x topic payload None (ic_text c e) mw))
     | Inr (env, gatewayID, i, kind) \<Rightarrow>
        (case admit_message c x rd env gatewayID i kind (snd mw) of
           (Refused e, ws') \<Rightarrow>
             (Refused e, count_outcome (Refused e) (recordMQTTDeadLetter x topic payload (Some env) (ic_text c e) (fst mw, ws')))
         | (out, ws') \<Rightarrow> (out, count_outcome out (fst mw, ws'))))"

end
