(* ===== verification/Tx_Relation.thy ===== *)
theory Tx_Relation
  imports Fleet_Db
begin

text \<open>
  Transactions that stay within a relation of databases. A transaction may fail half way with part
  of its statements done; when every statement relates the database before to the one after by a
  reflexive and transitive relation, so does the transaction, wherever it stops, and so does running
  it; and where no fault is to come, none comes later. The rules follow the way transactions are put
  together.
\<close>

definition txs_rel :: "(db \<Rightarrow> db \<Rightarrow> bool) \<Rightarrow> txs \<Rightarrow> txs \<Rightarrow> bool" where
  "txs_rel R s s' \<longleftrightarrow> R (fst s) (fst s') \<and> (snd s = [] \<longrightarrow> snd s' = [])"

definition tx_within :: "(db \<Rightarrow> db \<Rightarrow> bool) \<Rightarrow> ('e, 'a) tx \<Rightarrow> bool" where
  "tx_within R m \<longleftrightarrow> (\<forall>s. txs_rel R s (snd (m s)))"

lemma tx_withinD: "tx_within R m \<Longrightarrow> txs_rel R s (snd (m s))"
  unfolding tx_within_def by blast

locale tx_relation =
  fixes R :: "db \<Rightarrow> db \<Rightarrow> bool"
  assumes R_refl [simp, intro]: "R d d"
    and R_trans: "R d e \<Longrightarrow> R e f \<Longrightarrow> R d f"
begin

lemma rel_refl [simp, intro]: "txs_rel R s s"
  by (simp add: txs_rel_def)

lemma rel_trans: "txs_rel R s t \<Longrightarrow> txs_rel R t u \<Longrightarrow> txs_rel R s u"
  unfolding txs_rel_def using R_trans by blast

lemma withinD: "tx_within R m \<Longrightarrow> m s = (r, s') \<Longrightarrow> txs_rel R s s'"
  using tx_withinD [of R m s] by simp

lemma within_stmt: "(\<And>d x d'. g d = Some (x, d') \<Longrightarrow> R d d') \<Longrightarrow> tx_within R (tx_stmt g)"
  by (auto simp: tx_within_def txs_rel_def tx_stmt_def split: option.split)

lemma within_query: "tx_within R (tx_query q)"
  unfolding tx_query_def by (rule within_stmt) auto

lemma within_exec: "(\<And>d. R d (u d)) \<Longrightarrow> tx_within R (tx_exec u)"
  unfolding tx_exec_def by (rule within_stmt) auto

lemma within_ret: "tx_within R (tx_ret x)"
  by (simp add: tx_within_def tx_ret_def)

lemma within_fail: "tx_within R (tx_fail e)"
  by (simp add: tx_within_def tx_fail_def)

lemma within_guard: "tx_within R (tx_guard b e)"
  by (simp add: tx_guard_def within_ret within_fail)

lemma within_bind:
  assumes "tx_within R m" and "\<And>x. tx_within R (f x)"
  shows "tx_within R (tx_bind m f)"
  unfolding tx_within_def
proof
  fix s
  obtain r s' where ms: "m s = (r, s')" by (cases "m s")
  have *: "txs_rel R s s'" using withinD [OF assms(1) ms] .
  show "txs_rel R s (snd (tx_bind m f s))"
  proof (cases r)
    case (Inr x)
    have "txs_rel R s' (snd (f x s'))" using assms(2) [of x] by (rule tx_withinD)
    then show ?thesis using rel_trans [OF *] by (simp add: tx_bind_def ms Inr)
  qed (use * in \<open>simp add: tx_bind_def ms\<close>)
qed

lemma within_map_err: "tx_within R m \<Longrightarrow> tx_within R (tx_map_err h m)"
  unfolding tx_within_def tx_map_err_def by (auto split: prod.split sum.split tx_error.split) (metis snd_conv)+

lemma within_if: "(b \<Longrightarrow> tx_within R m) \<Longrightarrow> (\<not> b \<Longrightarrow> tx_within R n) \<Longrightarrow> tx_within R (if b then m else n)"
  by simp

lemma within_option: "(u = None \<Longrightarrow> tx_within R m) \<Longrightarrow> (\<And>x. u = Some x \<Longrightarrow> tx_within R (f x)) \<Longrightarrow> tx_within R (case u of None \<Rightarrow> m | Some x \<Rightarrow> f x)"
  by (cases u) auto

lemma within_run: "tx_within R m \<Longrightarrow> tx_within R (run_tx m)"
  unfolding tx_within_def [of R "run_tx m"]
proof
  fix s :: txs
  assume m: "tx_within R m"
  obtain d fs where s: "s = (d, fs)" by (cases s)
  have "R d (fst (snd (run_tx m (d, fs))))"
    by (rule run_tx_keeps) (use withinD [OF m, of "(d, tl fs)"] in \<open>auto simp: txs_rel_def\<close>)
  moreover have "snd (snd (run_tx m (d, []))) = []"
    using tx_withinD [OF m, of "(d, [])"] by (auto simp: txs_rel_def run_tx_def split: prod.split sum.split)
  ultimately show "txs_rel R s (snd (run_tx m s))" by (auto simp: s txs_rel_def)
qed

lemmas within_intros =
  within_bind within_query within_exec within_ret within_fail within_guard within_map_err within_if within_option within_stmt within_run

end

end
