(* ===== verification/Ingress_Frame.thy ===== *)
theory Ingress_Frame
  imports Mqtt_Ingress Tx_Relation Fleet_State_Props
begin

text \<open>
  What processing a message never does: take back a sequence cursor, or touch the evidence of refused
  messages. Each handler stays within this relation of databases, on every path and under every
  failure; the ordering of messages and the evidence rest on it.
\<close>

definition ingress_rel :: "db \<Rightarrow> db \<Rightarrow> bool" where
  "ingress_rel d d' \<longleftrightarrow> (\<forall>k. cursor k d \<le> cursor k d') \<and> mqtt_ingress_dead_letters d' = mqtt_ingress_dead_letters d"

interpretation ing: tx_relation ingress_rel
proof
  show "ingress_rel d f" if "ingress_rel d e" "ingress_rel e f" for d e f
    using that unfolding ingress_rel_def by (metis order_trans)
qed (simp add: ingress_rel_def)

abbreviation ing_txs :: "txs \<Rightarrow> txs \<Rightarrow> bool" where "ing_txs \<equiv> txs_rel ingress_rel"

lemma ing_txs_cursor: "ing_txs s s' \<Longrightarrow> cursor k (fst s) \<le> cursor k (fst s')"
  unfolding txs_rel_def ingress_rel_def by blast

text \<open>A change of other tables is within the relation.\<close>

lemma ingress_rel_same:
  "inbound_message_cursors d' = inbound_message_cursors d \<Longrightarrow> mqtt_ingress_dead_letters d' = mqtt_ingress_dead_letters d \<Longrightarrow> ingress_rel d d'"
  by (simp add: ingress_rel_def cursor_def)

lemma advance_cursor_rel: "advance_cursor key sq d = Some (c, d') \<Longrightarrow> ingress_rel d d'"
  by (auto simp: advance_cursor_def ingress_rel_def cursor_def update_conv' split: if_splits option.splits)

lemma insert_dedup_rel: "insert_dedup key sq d = Some (n, d') \<Longrightarrow> ingress_rel d d'"
  by (auto simp: insert_dedup_def intro: ingress_rel_same split: if_splits)

lemma accept_within: "tx_within ingress_rel (AcceptInboundSequenceTx v g mt sid sq)"
  unfolding AcceptInboundSequenceTx_def
  by (intro ing.within_intros) (auto dest: advance_cursor_rel insert_dedup_rel)

lemma insert_samples_within: "tx_within ingress_rel (insert_samples rs)"
  by (induction rs) (auto intro!: ing.within_intros ingress_rel_same)

lemma job_within: "tx_within ingress_rel (job_tx now job)"
  by (cases job) (auto simp: job_tx_def upsert_registered_def lifecycle_seen_def upsert_state_row_def
      intro!: ing.within_intros insert_samples_within ingress_rel_same)

lemma submitDB_rel: "ing_txs (snd ws) (snd (submitDB now job ws))"
  using tx_withinD [OF job_within, of "snd ws" now job] by (simp add: submitDB_def run_job_def)

lemma pushEvent_rel: "ing_txs (snd ws) (snd (pushEvent now level i et kind ws))"
  unfolding pushEvent_def Let_def using submitDB_rel [of "(_, snd ws)"] by simp

lemma HandleRegister_rel: "ing_txs (snd ws) (snd (HandleRegister now i g caps grp ws))"
  unfolding HandleRegister_def Let_def
  by (rule ing.rel_trans [OF _ submitDB_rel]) (metis pushEvent_rel snd_conv)

lemma after_telemetry_rel: "ing_txs (snd ws) (snd (after_telemetry now i before nxt ws))"
proof -
  have "ing_txs (snd ws) (snd (if ve_online before then (put_vehicle i nxt (fst ws), snd ws)
      else pushEvent now ''info'' i TxtOnline ''veh'' (put_vehicle i nxt (fst ws), snd ws)))"
    using pushEvent_rel [of "(put_vehicle i nxt (fst ws), snd ws)"] by simp
  from ing.rel_trans [OF this pushEvent_rel] this show ?thesis
    unfolding after_telemetry_def onModeChange_def Let_def by simp
qed

section \<open>The handlers\<close>

lemma persist_within: "tx_within ingress_rel (persistTelemetryTx x v sigs t smp)"
  unfolding persistTelemetryTx_def
  by (intro ing.within_intros insert_samples_within) (auto simp: upsert_state_row_def intro!: ingress_rel_same)

lemma telemetry_within: "tx_within ingress_rel (telemetry_body x v g mt sid sq nxt sigs t smp)"
  unfolding telemetry_body_def by (intro ing.within_intros accept_within persist_within)

lemma nav_ack_within: "tx_within ingress_rel (nav_ack_body x now v g sid sq ack)"
  unfolding nav_ack_body_def by (intro ing.within_intros accept_within) (auto intro: ingress_rel_same)

lemma capabilities_within: "tx_within ingress_rel (persist_capabilities_body now g caps dec snapshot)"
  unfolding persist_capabilities_body_def
  by (intro ing.within_intros) (auto simp: upsert_capability_def log_security_def intro!: ingress_rel_same split: if_splits)

lemma set_state_rel: "ingress_rel d (set_state now s p d)"
  by (auto simp: set_state_def intro: ingress_rel_same)

lemma applied_within: "tx_within ingress_rel (applied_tx dbnow v p)"
  unfolding applied_tx_def supersede_def roll_back_def reactivate_def
  by (intro ing.within_intros set_state_rel)

lemma pub_ack_within: "tx_within ingress_rel (pub_ack_body x now dbnow v ack)"
  unfolding pub_ack_body_def tx_of_def
  by (intro ing.within_intros applied_within) (auto intro!: ingress_rel_same ing.within_ret ing.within_fail split: sum.split)

lemma control_ack_rel: "HandleControlAck v g link ack s = (r, s') \<Longrightarrow> ing_txs s s'"
  by (auto simp: HandleControlAck_def insert_control_ack_def tx_stmt_def txs_rel_def intro!: ingress_rel_same split: if_splits)

lemma map_ack_rel:
  assumes "HandleMapPublicationAck x now dbnow v g ack ws = (r, ws')"
  shows "ing_txs (snd ws) (snd ws')"
proof -
  obtain q s where r: "run_tx (pub_ack_body x now dbnow v ack) (snd ws) = (q, s)" by (metis prod.exhaust)
  have *: "ing_txs (snd ws) s" using ing.withinD [OF ing.within_run [OF pub_ack_within] r] .
  have "ing_txs (snd ws) (snd (pushEvent now level v et kind (fst ws, s)))" for level et kind
    using ing.rel_trans [OF *] pushEvent_rel [of "(fst ws, s)"] by simp
  with * have "ing_txs (snd ws) (snd (snd (HandleMapPublicationAck x now dbnow v g ack ws)))"
    unfolding HandleMapPublicationAck_def r by (cases q) (auto split: prod.split)
  with assms show ?thesis by simp
qed

text \<open>A sequence number that is claimed is above the cursor, which then reaches it.\<close>

definition claims :: "message_key \<Rightarrow> u64 \<Rightarrow> txs \<Rightarrow> txs \<Rightarrow> bool" where
  "claims k sq s s' \<longleftrightarrow> cursor k (fst s) < uint sq \<and> uint sq \<le> cursor k (fst s')"

lemma claims_extend: "ing_txs s0 s \<Longrightarrow> claims k sq s s' \<Longrightarrow> ing_txs s' s1 \<Longrightarrow> claims k sq s0 s1"
  unfolding claims_def by (meson ing_txs_cursor le_less_trans order_trans)

lemma accept_claims:
  assumes "AcceptInboundSequenceTx v g mt sid sq (d, fs) = (Inr True, (d', fs'))"
  shows "cursor (v, g, mt, sid) d < uint sq \<and> cursor (v, g, mt, sid) d' = uint sq"
  using assms by (cases rule: AcceptInboundSequenceTx_Inr; simp)

lemma nav_ack_claims:
  assumes "nav_ack_body x now v g sid sq ack (d, fs) = (Inr nxt, (d', fs'))"
  shows "claims (v, g, ''platform.v1.NavigationAck'', sid) sq (d, gs) (d', gs')"
proof -
  from assms obtain gs d1 gs1 where a: "AcceptInboundSequenceTx v g ''platform.v1.NavigationAck'' sid sq (d, gs) = (Inr True, (d1, gs1))"
    and d': "inbound_message_cursors d' = inbound_message_cursors d1"
    by (auto simp: nav_ack_body_def split: option.splits)
  from accept_claims [OF a] show ?thesis by (simp add: claims_def cursor_def d')
qed

lemma telemetry_claims:
  assumes "telemetry_body x v g mt sid sq nxt sigs t smp (d, fs) = (Inr u, (d', fs'))"
  shows "claims (v, g, mt, sid) sq (d, gs) (d', gs')"
proof -
  from assms obtain d1 gs1 where a: "AcceptInboundSequenceTx v g mt sid sq (d, fs) = (Inr True, (d1, gs1))"
    and p: "persistTelemetryTx x nxt sigs t smp (d1, gs1) = (Inr u, (d', fs'))"
    by (auto simp: telemetry_body_def)
  from accept_claims [OF a] ing_txs_cursor [OF ing.withinD [OF persist_within p], of "(v, g, mt, sid)"] show ?thesis
    by (simp add: claims_def)
qed

lemma nav_ack_rel:
  assumes "HandleNavigationAck x now v g link sid sq ack ws = (r, ws')"
  shows "ing_txs (snd ws) (snd ws') \<and> (r = Inr True \<longrightarrow> claims (v, g, ''platform.v1.NavigationAck'', sid) sq (snd ws) (snd ws'))"
proof -
  obtain st0 d0 fs0 where ws: "ws = (st0, (d0, fs0))" by (cases ws) auto
  let ?body = "nav_ack_body x now v g sid sq ack"
  have rel: "run_tx ?body (d0, fs0) = (q, s) \<Longrightarrow> ing_txs (d0, fs0) s" for q s
    using ing.withinD [OF ing.within_run [OF nav_ack_within]] .
  show ?thesis
  proof (cases rule: run_tx_cases [of ?body d0 fs0])
    case (failed e fs')
    with assms rel [OF failed] show ?thesis
      by (cases e) (auto simp: HandleNavigationAck_def ws split: if_splits nav_error.splits)
  next
    case (committed nxt d1 gs fs1)
    have *: "ing_txs (d0, fs0) (d1, fs1)" "claims (v, g, ''platform.v1.NavigationAck'', sid) sq (d0, fs0) (d1, fs1)"
      using rel [OF committed(1)] nav_ack_claims [OF committed(2)] by simp_all
    from assms committed(1) consider "ws' = ws" "r \<noteq> Inr True" | st level et where "ws' = pushEvent now level v et ''veh'' (st, (d1, fs1))"
      by (auto simp: HandleNavigationAck_def ws Let_def split: if_splits)
    then show ?thesis
    proof cases
      case 2
      with pushEvent_rel [of "(st, (d1, fs1))" now level v et "''veh''"] have "ing_txs (d1, fs1) (snd ws')" by simp
      with * show ?thesis using ing.rel_trans claims_extend [OF ing.rel_refl] unfolding ws snd_conv by blast
    qed simp
  qed
qed

lemma telemetry_rel:
  assumes "ApplyTelemetryDurably fl x now v g mt sid sq sigs ws = (r, ws')"
  shows "ing_txs (snd ws) (snd ws') \<and> (r = Inr True \<longrightarrow> claims (v, g, mt, sid) sq (snd ws) (snd ws'))"
proof -
  obtain st0 d0 fs0 where ws: "ws = (st0, (d0, fs0))" by (cases ws) auto
  obtain nxt smp where np: "next_projection fl st0 v sigs (time_utc now) = (nxt, smp)" by (metis prod.exhaust)
  let ?body = "telemetry_body x v g mt sid sq nxt sigs (time_utc now) smp"
  have rel: "run_tx ?body (d0, fs0) = (q, s) \<Longrightarrow> ing_txs (d0, fs0) s" for q s
    using ing.withinD [OF ing.within_run [OF telemetry_within]] .
  show ?thesis
  proof (cases rule: run_tx_cases [of ?body d0 fs0])
    case (failed e fs')
    with assms rel [OF failed] show ?thesis
      by (cases e) (auto simp: ApplyTelemetryDurably_def ws np Let_def split: if_splits telemetry_error.splits)
  next
    case (committed u d1 gs fs1)
    have *: "ing_txs (d0, fs0) (d1, fs1)" "claims (v, g, mt, sid) sq (d0, fs0) (d1, fs1)"
      using rel [OF committed(1)] telemetry_claims [OF committed(2)] by simp_all
    from assms committed(1) consider "ws' = ws" "r \<noteq> Inr True"
      | before where "ws' = after_telemetry (wall now) v before nxt (st0, (d1, fs1))"
      by (auto simp: ApplyTelemetryDurably_def ws np Let_def split: if_splits)
    then show ?thesis
    proof cases
      case 2
      with after_telemetry_rel [of "(st0, (d1, fs1))"] have "ing_txs (d1, fs1) (snd ws')" by simp
      with * show ?thesis using ing.rel_trans claims_extend [OF ing.rel_refl] unfolding ws snd_conv by blast
    qed simp
  qed
qed

end
