(* ===== verification/Mqtt_Props.thy ===== *)
theory Mqtt_Props
  imports Ingress_Frame Arbiter_Props
begin

text \<open>
  What the ingress guarantees: nothing changes because of a message that is not authentic, messages of
  a session are processed in the order of their sequence numbers and at most once, and a refused
  message leaves evidence.
\<close>

section \<open>One message\<close>

lemma decode_Inr:
  assumes "decodeMQTTEnvelope w now topic payload key = Inr (env, g, i, kind)"
  shows "topic_parts topic = Some (g, i, kind)" and "unmarshal_env w payload = Some env"
    and "env_vehicle_id env = i" and "env_gateway_id env = g" and "ValidateEnvelope (Some env) [] i g now now = None"
    and "VerifyEnvelopeAuth w (Some env) key" and "\<exists>types. kind_types kind = Some types \<and> env_message_type env \<in> set types"
  using assms by (auto simp: decodeMQTTEnvelope_def split: option.splits prod.splits if_splits)

lemma ValidateInbound_rel: "ValidateInbound now clock v g s = (r, s') \<Longrightarrow> ing_txs s s'"
  by (cases s) (auto simp: ValidateInbound_def tx_query_def tx_exec_def tx_stmt_def txs_rel_def intro!: ingress_rel_same split: option.splits if_splits)

lemma ValidateInbound_out:
  assumes "ValidateInbound now clock v g (d, fs) = (r, s')"
  shows "r \<noteq> Inr () \<Longrightarrow> fst s' = d"
    and "r = Inr () \<Longrightarrow> \<exists>row. gateway_of d v g = Some row \<and> gw_status row = ''active'' \<and> clock < gw_not_after row"
  using assms by (auto simp: ValidateInbound_def tx_query_def tx_stmt_def split: if_splits option.splits)

lemma monitoring_rel: "RequireMonitoring v g s = (r, s') \<Longrightarrow> ing_txs s s'"
  by (rule ing.withinD [of "RequireMonitoring v g"]) (auto simp: RequireMonitoring_def intro!: ing.within_intros split: option.split)

lemma register_payload_rel: "register_payload c rd i g payload s = (r, s') \<Longrightarrow> ing_txs s s'"
  using ing.withinD [OF ing.within_run [OF capabilities_within]]
  by (auto simp: register_payload_def PersistCapabilities_def split: option.splits sum.splits if_splits prod.splits)

lemma typed_payload_rel: "typed_payload c rd env g i kind s = (r, s') \<Longrightarrow> ing_txs s s'"
  by (auto simp: typed_payload_def split: if_splits dest: register_payload_rel)

text \<open>The payload of a navigation acknowledgement comes under its own topic.\<close>

lemma typed_payload_nav: "typed_payload c rd env g i kind s = (Inr (NavAck a), s') \<Longrightarrow> kind = ''nav_ack''"
  by (auto simp: typed_payload_def register_payload_def telemetry_payload_def ack_payload_def map_ack_payload_def nav_ack_payload_def
      split: if_splits option.splits sum.splits prod.splits)

lemma store_ack_rel: "store_ack x rd i g m ws = (r, ws') \<Longrightarrow> ing_txs (snd ws) (snd ws')"
  by (cases m) (auto simp: store_ack_def dest: control_ack_rel map_ack_rel split: prod.splits sum.splits)

definition message_key_of :: "Envelope \<Rightarrow> string \<Rightarrow> string \<Rightarrow> message_key" where
  "message_key_of env g i = (i, g, env_message_type env, env_session_id env)"

text \<open>Within the relation, and what is processed has claimed its number.\<close>

definition in_order :: "Envelope \<Rightarrow> string \<Rightarrow> string \<Rightarrow> ingress_outcome \<Rightarrow> txs \<Rightarrow> txs \<Rightarrow> bool" where
  "in_order env g i out s s' \<longleftrightarrow> ing_txs s s' \<and> (out = Processed \<longrightarrow> claims (message_key_of env g i) (env_sequence env) s s')"

lemma in_order_before: "ing_txs s t \<Longrightarrow> in_order env g i out t u \<Longrightarrow> in_order env g i out s u"
  unfolding in_order_def using ing.rel_trans claims_extend [OF _ _ ing.rel_refl] by blast

lemma in_order_after: "in_order env g i out s t \<Longrightarrow> ing_txs t u \<Longrightarrow> in_order env g i out s u"
  unfolding in_order_def using ing.rel_trans claims_extend [OF ing.rel_refl] by blast

lemma claim_and_apply_rel:
  assumes "claim_and_apply rd env g i m ws = (out, ws')"
  shows "in_order env g i out (snd ws) (snd ws')"
proof -
  let ?acc = "AcceptInboundSequence i g (env_message_type env) (env_session_id env) (env_sequence env)"
  obtain r s' where a: "?acc (snd ws) = (r, s')" by (cases "?acc (snd ws)")
  have *: "ing_txs (snd ws) s'"
    using ing.withinD [OF ing.within_run [OF accept_within] a [unfolded AcceptInboundSequence_def]] .
  have reg: "ing_txs s' (snd (HandleRegister (ir_event rd) i (env_gateway_id env) cs [] (fst ws, s')))" for cs
    using HandleRegister_rel [of "(fst ws, s')"] by simp
  have "ing_txs s' (snd ws')" "out = Processed \<Longrightarrow> r = Inr True"
    using assms a reg by (auto simp: claim_and_apply_def split: sum.splits bool.splits ingress.splits)
  moreover have "r = Inr True \<Longrightarrow> claims (message_key_of env g i) (env_sequence env) (snd ws) s'"
    using AcceptInboundSequence_True [of i g "env_message_type env" "env_session_id env" "env_sequence env" "snd ws" s'] a
    by (simp add: claims_def message_key_of_def)
  ultimately have "in_order env g i out (snd ws) s'" "ing_txs s' (snd ws')" using * by (auto simp: in_order_def)
  then show ?thesis by (rule in_order_after)
qed

lemma apply_payload_rel:
  assumes "apply_payload c x rd env g i m ws = (out, ws')"
    and nav: "\<And>a. m = NavAck a \<Longrightarrow> env_message_type env = ''platform.v1.NavigationAck''"
  shows "in_order env g i out (snd ws) (snd ws')"
proof -
  obtain r ws1 where s: "store_ack x rd i g m ws = (r, ws1)" by (cases "store_ack x rd i g m ws")
  have "in_order env g i out (snd ws1) (snd ws')"
  proof (cases r)
    case (Inl e)
    with assms(1) s show ?thesis by (auto simp: apply_payload_def in_order_def)
  next
    case (Inr u)
    show ?thesis
    proof (cases m)
      case (NavAck a)
      obtain q ws2 where q: "HandleNavigationAck x (ir_event rd) i g ''mqtt'' (env_session_id env) (env_sequence env) a ws1 = (q, ws2)"
        by (metis prod.exhaust)
      with assms(1) s Inr NavAck have "ws' = ws2" "out = Processed \<Longrightarrow> q = Inr True"
        by (auto simp: apply_payload_def split: sum.splits if_splits)
      with nav_ack_rel [OF q] nav [OF NavAck] show ?thesis by (auto simp: message_key_of_def in_order_def)
    next
      case (Telemetry su)
      obtain q ws2 where q: "ApplyTelemetryDurably (ic_round c) x (ir_apply rd) i g (env_message_type env) (env_session_id env)
          (env_sequence env) (map signal_val su) ws1 = (q, ws2)"
        by (metis prod.exhaust)
      with assms(1) s Inr Telemetry have "ws' = ws2" "out = Processed \<Longrightarrow> q = Inr True"
        by (auto simp: apply_payload_def split: sum.splits if_splits)
      with telemetry_rel [OF q] show ?thesis by (auto simp: message_key_of_def in_order_def)
    qed (use assms(1) s Inr claim_and_apply_rel [of rd env g i m ws1 out ws'] in \<open>auto simp: apply_payload_def\<close>)
  qed
  with store_ack_rel [OF s] show ?thesis by (rule in_order_before)
qed

lemma admit_message_rel:
  assumes "admit_message c x rd env g i kind ws = (out, ws')"
    and "\<exists>types. kind_types kind = Some types \<and> env_message_type env \<in> set types"
  shows "in_order env g i out (snd ws) (snd ws')"
proof -
  obtain r1 s1 where v: "ValidateInbound (ir_dbnow rd) (ir_clock rd) i g (snd ws) = (r1, s1)" by (metis prod.exhaust)
  obtain r2 s2 where p: "typed_payload c rd env g i kind s1 = (r2, s2)" by (metis prod.exhaust)
  obtain r3 s3 where m: "(if kind \<noteq> ''register'' then RequireMonitoring i g s2 else (Inr (), s2)) = (r3, s3)" by (metis prod.exhaust)
  have rel: "ing_txs (snd ws) s1" "ing_txs (snd ws) s2" "ing_txs (snd ws) s3"
  proof -
    show 1: "ing_txs (snd ws) s1" using ValidateInbound_rel [OF v] .
    show 2: "ing_txs (snd ws) s2" using ing.rel_trans [OF 1 typed_payload_rel [OF p]] .
    have "ing_txs s2 s3" using m monitoring_rel by (auto split: if_splits)
    then show "ing_txs (snd ws) s3" by (rule ing.rel_trans [OF 2])
  qed
  show ?thesis
  proof (cases "r1 = Inr () \<and> (\<exists>pl. r2 = Inr pl) \<and> r3 = Inr ()")
    case True
    then obtain pl where ok: "r1 = Inr ()" "r2 = Inr pl" "r3 = Inr ()" by auto
    with assms(1) v p m have ap: "apply_payload c x rd env g i pl (fst ws, s3) = (out, ws')"
      by (simp add: admit_message_def)
    have "env_message_type env = ''platform.v1.NavigationAck''" if "pl = NavAck a" for a
      using that p ok(2) typed_payload_nav [of c rd env g i kind s1 a s2] assms(2) by (auto simp: kind_types_def)
    from apply_payload_rel [OF ap this] have "in_order env g i out s3 (snd ws')" by simp
    with rel(3) show ?thesis by (rule in_order_before)
  next
    case False
    with assms(1) v p m have "snd ws' = s1 \<or> snd ws' = s2 \<or> snd ws' = s3" "out \<noteq> Processed"
      by (auto simp: admit_message_def split: sum.splits)
    with rel show ?thesis by (auto simp: in_order_def)
  qed
qed

section \<open>Authentic messages\<close>

text \<open>
  The topic names the identity of the envelope, the envelope is fresh and carries the tag of the shared
  key, its type belongs to the topic, and the Gateway is active for the vehicle with a certificate
  that has not expired.
\<close>

definition authentic_message :: "wire \<Rightarrow> ingress_readings \<Rightarrow> string \<Rightarrow> bytes \<Rightarrow> bytes \<Rightarrow> db \<Rightarrow> bool" where
  "authentic_message w rd topic payload key d \<longleftrightarrow>
    (\<exists>g i kind env types row. topic_parts topic = Some (g, i, kind) \<and> unmarshal_env w payload = Some env \<and>
       env_vehicle_id env = i \<and> env_gateway_id env = g \<and> ValidateEnvelope (Some env) [] i g (ir_recv rd) (ir_recv rd) = None \<and>
       VerifyEnvelopeAuth w (Some env) key \<and> kind_types kind = Some types \<and> env_message_type env \<in> set types \<and>
       gateway_of d i g = Some row \<and> gw_status row = ''active'' \<and> ir_clock rd < gw_not_after row)"

lemma recordMQTTDeadLetter_cases:
  obtains fs' where "recordMQTTDeadLetter x topic payload env reason (mt, (st, (d, fs))) = (mt, (st, (d, fs')))"
  | fs' where "recordMQTTDeadLetter x topic payload env reason (mt, (st, (d, fs))) =
      (mt\<lparr>im_deadLetters := im_deadLetters mt + 1\<rparr>,
       (st, (d\<lparr>mqtt_ingress_dead_letters := mqtt_ingress_dead_letters d @ [dead_letter x topic payload env reason]\<rparr>, fs')))"
proof (cases rule: db_exec_cases [of "insert_dead_letter (dead_letter x topic payload env reason)" d fs])
  case (failed fs')
  then show thesis using that(1) by (simp add: recordMQTTDeadLetter_def)
next
  case (ok d' fs')
  then have "d' = d\<lparr>mqtt_ingress_dead_letters := mqtt_ingress_dead_letters d @ [dead_letter x topic payload env reason]\<rparr>"
    by (simp add: insert_dead_letter_def split: if_splits)
  then show thesis using that(2) ok(1) by (simp add: recordMQTTDeadLetter_def)
qed

lemma dead_letter_bounded:
  "length (dl_topic (dead_letter x topic payload env reason)) \<le> 512" "length (dl_reason (dead_letter x topic payload env reason)) \<le> 512"
  "dl_sha256 (dead_letter x topic payload env reason) = x_sha256_hex x payload" "dl_size (dead_letter x topic payload env reason) = length payload"
  by (simp_all add: dead_letter_def Let_def split: prod.split)

lemma count_outcome_sel [simp]: "snd (count_outcome out mw) = snd mw" "im_deadLetters (fst (count_outcome out mw)) = im_deadLetters (fst mw)"
  by (simp_all add: count_outcome_def)

text \<open>
  C32. A message that is not authentic changes nothing. It is refused; the state of the fleet stays as it
  was, and the database keeps every row of every table, with at most one row of evidence added, which
  holds the digest and the size of the message, never the message.
\<close>

theorem ingress_needs_authentic:
  assumes "routeMQTT w c x rd topic payload key (mt, (st, (d, fs))) = (out, (mt', (st', (d', fs'))))"
    and "\<not> authentic_message w rd topic payload key d"
  shows "(\<exists>e. out = Refused e) \<and> st' = st \<and>
    (d' = d \<or> (\<exists>row. d' = d\<lparr>mqtt_ingress_dead_letters := mqtt_ingress_dead_letters d @ [row]\<rparr> \<and> length (dl_topic row) \<le> 512 \<and>
      length (dl_reason row) \<le> 512 \<and> dl_sha256 row = x_sha256_hex x payload \<and> dl_size row = length payload))"
proof -
  have "\<exists>e env fs1. out = Refused e \<and> (st', (d', fs')) = snd (recordMQTTDeadLetter x topic payload env (ic_text c e) (mt, (st, (d, fs1))))"
  proof (cases "decodeMQTTEnvelope w (ir_recv rd) topic payload key")
    case (Inl e)
    with assms(1) have "out = Refused e \<and> (st', (d', fs')) = snd (recordMQTTDeadLetter x topic payload None (ic_text c e) (mt, (st, (d, fs))))"
      by (auto simp: routeMQTT_def count_outcome_def)
    then show ?thesis by blast
  next
    case (Inr q)
    obtain env g i kind where q: "q = (env, g, i, kind)" by (metis prod.exhaust)
    note dec = decode_Inr [OF Inr [unfolded q]]
    obtain r s1 where v: "ValidateInbound (ir_dbnow rd) (ir_clock rd) i g (d, fs) = (r, s1)" by (metis prod.exhaust)
    from ValidateInbound_out(2) [OF v] dec assms(2) have "r \<noteq> Inr ()" by (auto simp: authentic_message_def)
    then obtain e where r: "r = Inl e" and d1: "s1 = (d, snd s1)"
      using ValidateInbound_out(1) [OF v] by (cases r; cases s1) auto
    from assms(1) v r Inr q have "out = Refused (InRegistry e) \<and>
        (st', (d', fs')) = snd (recordMQTTDeadLetter x topic payload (Some env) (ic_text c (InRegistry e)) (mt, (st, s1)))"
      by (auto simp: routeMQTT_def admit_message_def count_outcome_def)
    then show ?thesis using d1 by metis
  qed
  then obtain e env fs1 where out: "out = Refused e"
    and rec: "(st', (d', fs')) = snd (recordMQTTDeadLetter x topic payload env (ic_text c e) (mt, (st, (d, fs1))))" by blast
  show ?thesis
    by (rule recordMQTTDeadLetter_cases [of x topic payload env "ic_text c e" mt st d fs1])
       (use out rec dead_letter_bounded [of x topic payload env "ic_text c e"] in auto)
qed

section \<open>Order\<close>

text \<open>Messages, and the worker of the queue of writes between them.\<close>

datatype ingress_event = Message ingress_readings string bytes | Worker int

fun ingress_step :: "wire \<Rightarrow> ingress_codec \<Rightarrow> ext \<Rightarrow> bytes \<Rightarrow> ingress_world \<Rightarrow> ingress_event \<Rightarrow> ingress_world" where
  "ingress_step w c x key mw (Message rd topic payload) = snd (routeMQTT w c x rd topic payload key mw)"
| "ingress_step w c x key mw (Worker now) = (fst mw, dbLoop_step now (snd mw))"

definition message_id :: "wire \<Rightarrow> string \<Rightarrow> bytes \<Rightarrow> (message_key \<times> u64) option" where
  "message_id w topic payload =
    (case (topic_parts topic, unmarshal_env w payload) of
       (Some (g, i, _), Some env) \<Rightarrow> Some (message_key_of env g i, env_sequence env) | _ \<Rightarrow> None)"

definition mw_txs :: "ingress_world \<Rightarrow> txs" where "mw_txs mw = snd (snd mw)"

lemma record_cursor: "cursor k (fst (mw_txs (recordMQTTDeadLetter x topic payload env reason mw))) = cursor k (fst (mw_txs mw))"
proof -
  obtain mt st d fs where mw: "mw = (mt, (st, (d, fs)))" by (metis prod.exhaust)
  show ?thesis unfolding mw
    by (rule recordMQTTDeadLetter_cases [of x topic payload env reason mt st d fs]) (simp_all add: mw_txs_def cursor_def)
qed

text \<open>One message: no cursor falls, and a message that is processed claims its number.\<close>

lemma routeMQTT_cursor:
  assumes "routeMQTT w c x rd topic payload key mw = (out, mw')"
  shows "cursor k (fst (mw_txs mw)) \<le> cursor k (fst (mw_txs mw'))"
    and "out = Processed \<Longrightarrow> \<exists>k sq. message_id w topic payload = Some (k, sq) \<and> claims k sq (mw_txs mw) (mw_txs mw')"
proof -
  have "cursor k (fst (mw_txs mw)) \<le> cursor k (fst (mw_txs mw')) \<and>
    (out = Processed \<longrightarrow> (\<exists>k sq. message_id w topic payload = Some (k, sq) \<and> claims k sq (mw_txs mw) (mw_txs mw')))"
  proof (cases "decodeMQTTEnvelope w (ir_recv rd) topic payload key")
    case (Inl e)
    with assms have "mw' = count_outcome out (recordMQTTDeadLetter x topic payload None (ic_text c e) mw)" "out = Refused e"
      by (auto simp: routeMQTT_def)
    then show ?thesis using record_cursor [of k x topic payload None "ic_text c e" mw] by (simp add: mw_txs_def)
  next
    case (Inr q)
    obtain env g i kind where q: "q = (env, g, i, kind)" by (metis prod.exhaust)
    note dec = decode_Inr [OF Inr [unfolded q]]
    obtain o1 ws1 where a: "admit_message c x rd env g i kind (snd mw) = (o1, ws1)" by (metis prod.exhaust)
    have rel: "in_order env g i o1 (mw_txs mw) (snd ws1)" using admit_message_rel [OF a dec(7)] by (simp add: mw_txs_def)
    have id: "message_id w topic payload = Some (message_key_of env g i, env_sequence env)"
      by (simp add: message_id_def dec(1,2))
    have cur: "cursor k (fst (mw_txs mw)) \<le> cursor k (fst (snd ws1))" using rel ing_txs_cursor unfolding in_order_def by blast
    show ?thesis
    proof (cases o1)
      case (Refused e)
      with assms Inr q a have "out = Refused e"
        "mw' = count_outcome out (recordMQTTDeadLetter x topic payload (Some env) (ic_text c e) (fst mw, ws1))"
        by (auto simp: routeMQTT_def)
      then show ?thesis using cur record_cursor [of k x topic payload "Some env" "ic_text c e" "(fst mw, ws1)"] by (simp add: mw_txs_def)
    qed (use assms Inr q a cur rel id in \<open>auto simp: routeMQTT_def mw_txs_def in_order_def\<close>)
  qed
  then show "cursor k (fst (mw_txs mw)) \<le> cursor k (fst (mw_txs mw'))"
    "out = Processed \<Longrightarrow> \<exists>k sq. message_id w topic payload = Some (k, sq) \<and> claims k sq (mw_txs mw) (mw_txs mw')" by simp_all
qed

lemma worker_cursor: "cursor k (fst (mw_txs mw)) \<le> cursor k (fst (mw_txs (fst mw, dbLoop_step now (snd mw))))"
proof -
  have "ing_txs (snd (snd mw)) (snd (dbLoop_step now (snd mw)))"
    unfolding dbLoop_step_def using tx_withinD [OF job_within, of "snd (snd mw)" now]
    by (auto simp: run_job_def split: list.split)
  from ing_txs_cursor [OF this] show ?thesis by (simp add: mw_txs_def)
qed

interpretation ingress_order: epoch_machine "ingress_step w c x key" "\<lambda>mw. cursor k (fst (mw_txs mw))" for w c x key k
proof
  show "cursor k (fst (mw_txs s)) \<le> cursor k (fst (mw_txs (ingress_step w c x key s e)))" for s e
  proof (cases e)
    case (Message rd topic payload)
    then show ?thesis using routeMQTT_cursor(1) [of w c x rd topic payload key s] by (metis ingress_step.simps(1) prod.collapse)
  qed (simp add: worker_cursor)
qed


section \<open>Evidence\<close>

definition storable :: "dead_letter_row \<Rightarrow> bool" where
  "storable r \<longleftrightarrow> list_all pg_text [dl_topic r, dl_gateway r, dl_vehicle r, dl_message_type r, dl_session r, dl_reason r] \<and>
     dl_sequence r \<le> int64_max"

lemma record_evidence:
  "recordMQTTDeadLetter x topic payload env reason (mt, (st, (d, []))) =
    (if storable (dead_letter x topic payload env reason)
     then (mt\<lparr>im_deadLetters := im_deadLetters mt + 1\<rparr>,
       (st, (d\<lparr>mqtt_ingress_dead_letters := mqtt_ingress_dead_letters d @ [dead_letter x topic payload env reason]\<rparr>, [])))
     else (mt, (st, (d, []))))"
  by (simp add: recordMQTTDeadLetter_def storable_def insert_dead_letter_def db_exec_def)

text \<open>
  C38. As long as no statement fails, a refused message leaves exactly one row of evidence, with the
  reason, the digest and the size of the message, or none when the row cannot be stored; a message
  that is not refused leaves none. A row cannot be stored when a text cut after 512 bytes is cut inside
  a character, or when the sequence number does not fit \<open>BIGINT\<close>.
\<close>

theorem refusal_leaves_evidence:
  assumes "routeMQTT w c x rd topic payload key (mt, (st, (d, []))) = (out, (mt', (st', (d', fs'))))"
  shows "case out of
      Refused e \<Rightarrow> \<exists>env row. env \<in> {None, unmarshal_env w payload} \<and> row = dead_letter x topic payload env (ic_text c e) \<and>
        mqtt_ingress_dead_letters d' = mqtt_ingress_dead_letters d @ (if storable row then [row] else []) \<and>
        im_deadLetters mt' = im_deadLetters mt + (if storable row then 1 else 0)
    | _ \<Rightarrow> mqtt_ingress_dead_letters d' = mqtt_ingress_dead_letters d \<and> im_deadLetters mt' = im_deadLetters mt"
proof (cases "decodeMQTTEnvelope w (ir_recv rd) topic payload key")
  case (Inl e)
  let ?row = "dead_letter x topic payload None (ic_text c e)"
  from Inl assms have "out = Refused e" "mqtt_ingress_dead_letters d' = mqtt_ingress_dead_letters d @ (if storable ?row then [?row] else [])"
    "im_deadLetters mt' = im_deadLetters mt + (if storable ?row then 1 else 0)"
    by (auto simp: routeMQTT_def record_evidence count_outcome_def split: if_splits)
  then show ?thesis by (simp only: ingress_outcome.case) blast
next
  case (Inr q)
  obtain env g i kind where q: "q = (env, g, i, kind)" by (metis prod.exhaust)
  note dec = decode_Inr [OF Inr [unfolded q]]
  obtain o1 st1 d1 fs1 where a: "admit_message c x rd env g i kind (st, (d, [])) = (o1, (st1, (d1, fs1)))" by (metis prod.exhaust)
  have same: "mqtt_ingress_dead_letters d1 = mqtt_ingress_dead_letters d" "fs1 = []"
    using admit_message_rel [OF a dec(7)] by (simp_all add: in_order_def txs_rel_def ingress_rel_def)
  show ?thesis
  proof (cases o1)
    case (Refused e)
    let ?row = "dead_letter x topic payload (Some env) (ic_text c e)"
    from Refused assms Inr q a same have "out = Refused e"
      "mqtt_ingress_dead_letters d' = mqtt_ingress_dead_letters d @ (if storable ?row then [?row] else [])"
      "im_deadLetters mt' = im_deadLetters mt + (if storable ?row then 1 else 0)"
      by (auto simp: routeMQTT_def record_evidence count_outcome_def split: if_splits)
    then show ?thesis using dec(2) [symmetric] by (simp only: ingress_outcome.case) blast
  qed (use assms Inr q a same in \<open>auto simp: routeMQTT_def count_outcome_def\<close>)
qed

section \<open>Late declarations\<close>

lemma find_replaced: "find p rs = Some r \<Longrightarrow> p row \<Longrightarrow> find p (update_where p (\<lambda>_. row) rs) = Some row"
  by (induction rs) (auto simp: update_where_def split: if_splits)

lemma find_appended: "find p rs = None \<Longrightarrow> p row \<Longrightarrow> find p (rs @ [row]) = Some row"
  by (induction rs) (auto split: if_splits)

lemma upsert_capability_stored:
  "upsert_capability row d = Some ((), d') \<Longrightarrow> capability_of d' (vc_vehicle row) (vc_gateway row) = Some row"
  by (auto simp: upsert_capability_def capability_of_def find_replaced find_appended split: if_splits)

lemma upsert_capability_total:
  "vc_monitoring_allowed row \<Longrightarrow> vehicle_exists d (vc_vehicle row) \<Longrightarrow> vc_gateway row \<in> gw_gateway_id ` set (vehicle_gateways d) \<Longrightarrow>
   \<exists>d'. upsert_capability row d = Some ((), d') \<and> inbound_message_cursors d' = inbound_message_cursors d"
  unfolding upsert_capability_def by simp

text \<open>
  C39. A declaration of capabilities takes effect even when it is late. An authentic declaration whose
  sequence number has been overtaken is passed over, and the state of the fleet ignores it, but the
  stored capabilities, which decide who may control the vehicle, are those of the late message.
\<close>

theorem late_register_takes_effect:
  assumes dec: "decodeMQTTEnvelope w (ir_recv rd) topic payload key = Inr (env, g, i, ''register'')"
    and gw: "gateway_of d i g = Some row" "gw_status row = ''active''" "ir_clock rd < gw_not_after row" "vehicle_exists d i" "trim_space g \<noteq> []"
    and caps: "ic_caps c (env_payload env) = Some caps" "gc_vehicle_id caps = i" "AssessGatewayCapabilities (ic_matrix c) (Some caps) = Inr dcn"
      "cd_MonitoringAllowed dcn" "ic_snapshot c (capability_snapshot g caps) = Some snap"
    and late: "uint (env_sequence env) \<le> cursor (i, g, env_message_type env, env_session_id env) d" "uint (env_sequence env) \<le> int64_max"
  shows "\<exists>mt' d'. routeMQTT w c x rd topic payload key (mt, (st, (d, []))) = (Ignored, (mt', (st, (d', [])))) \<and>
     capability_of d' i g = Some (capability_row_of (ir_dbnow rd) g caps dcn snap)"
proof -
  let ?d1 = "d\<lparr>vehicle_gateways := update_where (\<lambda>r. gw_vehicle_id r = i \<and> gw_gateway_id r = g)
     (\<lambda>r. r\<lparr>gw_last_authenticated_at := Some (ir_dbnow rd)\<rparr>) (vehicle_gateways d)\<rparr>"
  have v: "ValidateInbound (ir_dbnow rd) (ir_clock rd) i g (d, []) = (Inr (), (?d1, []))"
    using gw by (simp add: ValidateInbound_def)
  let ?row = "capability_row_of (ir_dbnow rd) g caps dcn snap"
  from gw(1) have "row \<in> set (vehicle_gateways d)" "gw_vehicle_id row = i" "gw_gateway_id row = g"
    by (auto simp: gateway_of_def find_Some_iff)
  then have act: "\<exists>r \<in> set (vehicle_gateways ?d1). gw_vehicle_id r = i \<and> gw_gateway_id r = g \<and> gw_status r = ''active''"
    using gw(2) by (auto simp: set_update_where intro!: bexI [of _ row])
  then have "vc_monitoring_allowed ?row" "vehicle_exists ?d1 (vc_vehicle ?row)" "vc_gateway ?row \<in> gw_gateway_id ` set (vehicle_gateways ?d1)"
    using gw(4) caps(2,4) by (auto simp: capability_row_of_def vehicle_exists_def image_iff)
  from upsert_capability_total [OF this] obtain d2
    where up: "upsert_capability ?row ?d1 = Some ((), d2)" and c2: "inbound_message_cursors d2 = inbound_message_cursors d"
    by auto
  have stored: "capability_of d2 i g = Some ?row"
    using upsert_capability_stored [OF up] caps(2) by (simp add: capability_row_of_def)
  obtain d3 where p: "run_tx (persist_capabilities_body (ir_dbnow rd) g caps dcn snap) (?d1, []) = (Inr (), (d3, []))"
    and d3: "vehicle_capabilities d3 = vehicle_capabilities d2" "inbound_message_cursors d3 = inbound_message_cursors d"
    using act up caps(2,4) c2 by (simp add: run_tx_def persist_capabilities_body_def tx_bind_def tx_guard_def tx_ret_def log_security_def)
  have r: "register_payload c rd i g (env_payload env) (?d1, []) = (Inr (Caps caps), (d3, []))"
    using caps gw(5) p by (simp add: register_payload_def PersistCapabilities_def buildCapabilitySnapshot_def)
  have "sq \<noteq> 0" if "ValidateEnvelope (Some env) [] i g t u = None" "sq = env_sequence env" for sq t u
    using that by (auto simp: ValidateEnvelope_def split: if_splits)
  have fields: "i \<noteq> []" "g \<noteq> []" "env_message_type env \<noteq> []" "env_session_id env \<noteq> []" "env_sequence env \<noteq> 0"
    using decode_Inr [OF dec] by (auto simp: ValidateEnvelope_def kind_types_def split: if_splits)
  have "cursor (i, g, env_message_type env, env_session_id env) d3 \<ge> uint (env_sequence env)" using late(1) d3(2) by (simp add: cursor_def)
  moreover have "0 < uint (env_sequence env)" using fields(5) uint_nonnegative [of "env_sequence env"] uint_0_iff [of "env_sequence env"] by linarith
  ultimately have "advance_cursor (i, g, env_message_type env, env_session_id env) (env_sequence env) d3 = Some (None, d3)"
    using late(2) by (auto simp: advance_cursor_def cursor_def split: option.splits)
  then have a: "AcceptInboundSequence i g (env_message_type env) (env_session_id env) (env_sequence env) (d3, []) = (Inr False, (d3, []))"
    using fields by (simp add: AcceptInboundSequence_def run_tx_def AcceptInboundSequenceTx_def tx_bind_def tx_ret_def)
  have "admit_message c x rd env g i ''register'' (st, (d, [])) = (Ignored, (st, (d3, [])))"
    by (simp add: admit_message_def v typed_payload_def r apply_payload_def store_ack_def claim_and_apply_def a)
  then show ?thesis using dec stored d3(1) by (auto simp: routeMQTT_def count_outcome_def capability_of_def)
qed

section \<open>Witnesses\<close>

definition demo_heartbeat :: "u64 \<Rightarrow> Envelope" where "demo_heartbeat sq = demo_env ''platform.v1.Heartbeat'' sq 200 [1]"

definition demo_ingress_wire :: wire where
  "demo_ingress_wire = demo_wire\<lparr>unmarshal_env := (\<lambda>b. if b = [1] then Some (demo_heartbeat 1) else if b = [2] then Some (demo_heartbeat 2)
     else if b = [3] then Some (demo_env ''platform.v1.GatewayCapabilities'' 1 200 [9]) else None)\<rparr>"

definition demo_ingress_codec :: ingress_codec where
  "demo_ingress_codec = \<lparr>ic_caps = (\<lambda>_. Some demo_caps), ic_update = (\<lambda>_. None), ic_status = (\<lambda>_. True), ic_heartbeat = (\<lambda>_. True),
     ic_ack = (\<lambda>_. None), ic_nav_ack = (\<lambda>_. None), ic_map_ack = (\<lambda>_. None), ic_matrix = Some embedded_matrix,
     ic_snapshot = (\<lambda>_. Some [1]), ic_text = (\<lambda>_. ''refused''), ic_round = Fin\<rparr>"

definition demo_ingress_rd :: ingress_readings where
  "demo_ingress_rd = \<lparr>ir_recv = time_unix demo_t, ir_clock = 6, ir_dbnow = 6, ir_signal = time_unix demo_t, ir_apply = time_unix demo_t, ir_event = 6\<rparr>"

definition demo_route :: "string \<Rightarrow> bytes \<Rightarrow> ingress_world \<Rightarrow> ingress_outcome \<times> ingress_world" where
  "demo_route topic payload mw = routeMQTT demo_ingress_wire demo_ingress_codec demo_ext demo_ingress_rd topic payload (replicate 32 9) mw"

definition demo_ingress_db :: db where
  "demo_ingress_db = demo_fleet_db
     \<lparr>vehicle_gateways := [\<lparr>gw_gateway_id = ''g1'', gw_vehicle_id = ''v1'', gw_certificate_sha256 = ''00'', gw_certificate_subject = ''s'',
        gw_not_after = 900 * hour, gw_status = ''active'', gw_activated_at = 1, gw_revoked_at = None, gw_revoke_reason = [],
        gw_last_authenticated_at = None\<rparr>],
      vehicle_capabilities := [capability_row_of 0 ''g1'' demo_caps
        \<lparr>cd_MatrixEntry = ''ros1-noetic-platform-v1'', cd_MonitoringAllowed = True, cd_ControlAllowed = True, cd_ControlReason = ReasonComplete\<rparr> []]\<rparr>"

definition demo_ingress :: ingress_world where
  "demo_ingress = (\<lparr>im_accepted = 0, im_rejected = 0, im_deadLetters = 0\<rparr>, (NewState [] None, (demo_ingress_db, [])))"

lemma demo_processed:
  "fst (demo_route ''gateway/g1/vehicle/v1/status'' [1] demo_ingress) = Processed"
  "fst (demo_route ''gateway/g1/vehicle/v1/status'' [2] (snd (demo_route ''gateway/g1/vehicle/v1/status'' [1] demo_ingress))) = Processed"
  by code_simp+


theorem ingress_needs_authentic_witness:
  "fst (snd (snd (demo_route ''gateway/g2/vehicle/v1/status'' [1] demo_ingress))) = fst (snd demo_ingress)"
proof -
  let ?t = "''gateway/g2/vehicle/v1/status''"
  have "topic_parts ?t = Some (''g2'', ''v1'', ''status'')" by code_simp
  then have n: "\<not> authentic_message demo_ingress_wire demo_ingress_rd ?t [1] (replicate 32 9) demo_ingress_db"
    by (simp add: authentic_message_def demo_ingress_wire_def demo_heartbeat_def demo_env_def)
  obtain out mt st d fs where r: "demo_route ?t [1] demo_ingress = (out, (mt, (st, (d, fs))))" by (metis prod.exhaust)
  from ingress_needs_authentic [OF r [unfolded demo_route_def demo_ingress_def] n] show ?thesis
    unfolding r by (simp add: demo_ingress_def)
qed

theorem refusal_leaves_evidence_witness:
  "length (mqtt_ingress_dead_letters (fst (mw_txs (snd (demo_route ''gateway/g2/vehicle/v1/status'' [1] demo_ingress))))) = 1"
proof -
  let ?t = "''gateway/g2/vehicle/v1/status''"
  obtain out mt st d fs where r: "demo_route ?t [1] demo_ingress = (out, (mt, (st, (d, fs))))" by (metis prod.exhaust)
  have "fst (demo_route ?t [1] demo_ingress) = Refused InMismatch" by code_simp
  then have out: "out = Refused InMismatch" by (simp add: r)
  have "storable (dead_letter demo_ext ?t [1] None ''refused'')"
    "storable (dead_letter demo_ext ?t [1] (unmarshal_env demo_ingress_wire [1]) ''refused'')"
    "mqtt_ingress_dead_letters demo_ingress_db = []" "ic_text demo_ingress_codec InMismatch = ''refused''" by code_simp+
  with refusal_leaves_evidence [OF r [unfolded demo_route_def demo_ingress_def]] show ?thesis
    by (auto simp: r out mw_txs_def)
qed

theorem late_register_takes_effect_witness:
  "\<exists>mw'. demo_route ''gateway/g1/vehicle/v1/register'' [3] (fst demo_ingress, (NewState [] None,
      (demo_ingress_db\<lparr>inbound_message_cursors := [((''v1'', ''g1'', ''platform.v1.GatewayCapabilities'', ''s1''), 5)]\<rparr>, []))) = (Ignored, mw') \<and>
     map_option vc_updated_at (capability_of (fst (mw_txs mw')) ''v1'' ''g1'') = Some 6"
proof -
  let ?d = "demo_ingress_db\<lparr>inbound_message_cursors := [((''v1'', ''g1'', ''platform.v1.GatewayCapabilities'', ''s1''), 5)]\<rparr>"
  let ?env = "demo_env ''platform.v1.GatewayCapabilities'' 1 200 [9]"
  let ?dec = "\<lparr>cd_MatrixEntry = ''ros1-noetic-platform-v1'', cd_MonitoringAllowed = True, cd_ControlAllowed = True, cd_ControlReason = ReasonComplete\<rparr>"
  have dec: "decodeMQTTEnvelope demo_ingress_wire (ir_recv demo_ingress_rd) ''gateway/g1/vehicle/v1/register'' [3] (replicate 32 9) =
    Inr (?env, ''g1'', ''v1'', ''register'')" by code_simp
  have "map_option (\<lambda>r. (gw_status r, gw_not_after r)) (gateway_of ?d ''v1'' ''g1'') = Some (''active'', 900 * hour)" by code_simp
  then obtain row where gw: "gateway_of ?d ''v1'' ''g1'' = Some row" "gw_status row = ''active''" "ir_clock demo_ingress_rd < gw_not_after row"
    by (auto simp: demo_ingress_rd_def hour_def minute_def second_def)
  have ex: "vehicle_exists ?d ''v1''" "trim_space ''g1'' \<noteq> []" by code_simp+
  have caps: "ic_caps demo_ingress_codec (env_payload ?env) = Some demo_caps" "gc_vehicle_id demo_caps = ''v1''"
    "AssessGatewayCapabilities (ic_matrix demo_ingress_codec) (Some demo_caps) = Inr ?dec" "cd_MonitoringAllowed ?dec"
    "ic_snapshot demo_ingress_codec (capability_snapshot ''g1'' demo_caps) = Some [1]"
    using demo_caps_admitted by (simp_all add: demo_ingress_codec_def demo_caps_def)
  have late: "uint (env_sequence ?env) \<le> cursor (''v1'', ''g1'', env_message_type ?env, env_session_id ?env) ?d" "uint (env_sequence ?env) \<le> int64_max"
    by (simp_all add: demo_env_def cursor_def int64_max_def)
  from late_register_takes_effect [OF dec gw ex caps late, of demo_ext "fst demo_ingress" "NewState [] None"] show ?thesis
    by (auto simp: demo_route_def mw_txs_def capability_row_of_def demo_ingress_rd_def)
qed

end
