(* ===== verification/Devices.thy ===== *)
theory Devices
  imports Auth
begin

text \<open>
  The control devices of \<open>server/fleet/devices.go\<close>: the table of bound devices a process keeps, its
  restoration at start-up, binding and unbinding, each with its statement. A device of type
  \<open>console\<close> is bound with its serial number and a password; serial numbers are compared without
  regard to case.
\<close>

section \<open>State\<close>

definition DeviceConsole :: string where "DeviceConsole = ''console''"

definition deviceTypeNames :: "(string \<times> string) list" where
  "deviceTypeNames =
    [(DeviceConsole, [CHR 0xE8, CHR 0x87, CHR 0xAA, CHR 0xE7, CHR 0xA0, CHR 0x94, CHR 0xE4, CHR 0xB8, CHR 0x80,
        CHR 0xE4, CHR 0xBD, CHR 0x93, CHR 0xE6, CHR 0x9C, CHR 0xBA]),
     (''rc'', [CHR 0xE8, CHR 0x88, CHR 0xAA, CHR 0xE6, CHR 0xA8, CHR 0xA1, CHR 0xE9, CHR 0x81, CHR 0xA5,
        CHR 0xE6, CHR 0x8E, CHR 0xA7, CHR 0xE5, CHR 0x99, CHR 0xA8]),
     (''keyboard'', [CHR 0xE9, CHR 0x94, CHR 0xAE, CHR 0xE7, CHR 0x9B, CHR 0x98]),
     (''wheel'', [CHR 0xE7, CHR 0xBD, CHR 0x97, CHR 0xE6, CHR 0x8A, CHR 0x80, CHR 0xE6, CHR 0x96, CHR 0xB9,
        CHR 0xE5, CHR 0x90, CHR 0x91, CHR 0xE7, CHR 0x9B, CHR 0x98])]"

record Device =
  de_ID :: string
  de_Type :: string
  de_Name :: string
  de_Link :: string
  de_SN :: string
  de_Salt :: string
  de_PassHash :: string
  de_Owner :: string
  de_Online :: bool
  de_CreatedNS :: int

record DeviceStore =
  ds_devices :: "(string \<times> Device) list"
  ds_seq :: int

type_synonym device_world = "DeviceStore \<times> txs"

datatype device_error =
    DevType string | DevNeedsSN | DevSNLength | DevSNTaken string string | DevSameName string | DevDb | DevUnknown

section \<open>Start-up\<close>

text \<open>A stored device is restored offline; a failed query is only logged and leaves the table empty.\<close>

definition restored_device :: "device_row \<Rightarrow> Device" where
  "restored_device r =
    \<lparr>de_ID = dv_id r, de_Type = dv_type r, de_Name = dv_name r, de_Link = dv_link r, de_SN = dv_sn r, de_Salt = dv_salt r,
     de_PassHash = dv_pass_hash r, de_Owner = dv_owner r, de_Online = False, de_CreatedNS = dv_created_ns r\<rparr>"

definition load_devices :: "device_row list \<Rightarrow> (string \<times> Device) list" where
  "load_devices rs = fold (\<lambda>r. AList.update (dv_id r) (restored_device r)) rs []"

definition NewDeviceStore :: "txs \<Rightarrow> device_world" where
  "NewDeviceStore s =
    (case tx_query control_devices s :: (unit tx_error + device_row list) \<times> txs of
       (Inl _, s') \<Rightarrow> (\<lparr>ds_devices = [], ds_seq = 0\<rparr>, s')
     | (Inr rs, s') \<Rightarrow> (\<lparr>ds_devices = load_devices rs, ds_seq = 0\<rparr>, s'))"

section \<open>Reading\<close>

definition device_List :: "string \<Rightarrow> DeviceStore \<Rightarrow> Device list" where
  "device_List owner ds = sort_key de_CreatedNS (filter (\<lambda>d. de_Owner d = owner) (map snd (ds_devices ds)))"

definition device_Get :: "string \<Rightarrow> string \<Rightarrow> DeviceStore \<Rightarrow> Device option" where
  "device_Get owner i ds =
    (case map_of (ds_devices ds) i of None \<Rightarrow> None | Some d \<Rightarrow> if de_Owner d \<noteq> owner then None else Some d)"

section \<open>Binding\<close>

definition device_row_of :: "ext \<Rightarrow> Device \<Rightarrow> device_row" where
  "device_row_of x d =
    \<lparr>dv_id = de_ID d, dv_owner = de_Owner d, dv_type = de_Type d, dv_name = de_Name d, dv_link = de_Link d, dv_sn = de_SN d,
     dv_salt = de_Salt d, dv_pass_hash = de_PassHash d, dv_online = False, dv_created_ns = x_ts x (de_CreatedNS d)\<rparr>"

text \<open>The primary key, the owner's account, and the unique index on type and serial number.\<close>

definition insert_device :: "ext \<Rightarrow> Device \<Rightarrow> db \<Rightarrow> (unit \<times> db) option" where
  "insert_device x dev d =
    (if de_ID dev \<in> dv_id ` set (control_devices d) \<or> de_Owner dev \<notin> us_username ` set (auth_users d) \<or>
        (de_SN dev \<noteq> [] \<and> (de_Type dev, de_SN dev) \<in> (\<lambda>r. (dv_type r, dv_sn r)) ` set (control_devices d))
     then None
     else Some ((), d\<lparr>control_devices := control_devices d @ [device_row_of x dev]\<rparr>))"

text \<open>The checks on a console, with the device that already has the serial number.\<close>

definition console_refusal :: "(string \<Rightarrow> string) \<Rightarrow> string \<Rightarrow> string \<Rightarrow> DeviceStore \<Rightarrow> device_error option" where
  "console_refusal uf sn password ds =
    (if sn = [] \<or> password = [] then Some DevNeedsSN
     else if length sn < 6 \<or> length sn > 32 then Some DevSNLength
     else map_option (\<lambda>d. DevSNTaken sn (de_Owner d))
            (find (\<lambda>d. de_Type d = DeviceConsole \<and> equal_fold uf (de_SN d) sn) (map snd (ds_devices ds))))"

definition bind_refusal ::
  "(string \<Rightarrow> string) \<Rightarrow> string \<Rightarrow> string \<Rightarrow> string \<Rightarrow> string \<Rightarrow> string \<Rightarrow> DeviceStore \<Rightarrow> device_error option" where
  "bind_refusal uf owner typ name sn password ds =
    (case (if typ = DeviceConsole then console_refusal uf sn password ds else None) of
       Some e \<Rightarrow> Some e
     | None \<Rightarrow>
        if list_ex (\<lambda>d. de_Owner d = owner \<and> de_Type d = typ \<and> de_Name d = name) (map snd (ds_devices ds))
        then Some (DevSameName name) else None)"

text \<open>Salt and identifier are drawn at random; a key derivation without result would be a loop that never ends.\<close>

definition device_Bind ::
  "kdf \<Rightarrow> (string \<Rightarrow> string) \<Rightarrow> ext \<Rightarrow> int \<Rightarrow> string \<Rightarrow> string \<Rightarrow> string \<Rightarrow> string \<Rightarrow> string \<Rightarrow> string \<Rightarrow> string \<Rightarrow> string \<Rightarrow>
   device_world \<Rightarrow> (device_error + Device) option \<times> device_world" where
  "device_Bind k uf x now rsalt rid owner typ name' link' sn' password dw =
    (case map_of deviceTypeNames typ of
       None \<Rightarrow> (Some (Inl (DevType typ)), dw)
     | Some tname \<Rightarrow>
        let name = (if trim_space name' = [] then tname else trim_space name'); link = trim_space link'; sn = trim_space sn'
        in case bind_refusal uf owner typ name sn password (fst dw) of
             Some e \<Rightarrow> (Some (Inl e), dw)
           | None \<Rightarrow>
              let ds = (fst dw)\<lparr>ds_seq := ds_seq (fst dw) + 1\<rparr>; salt = (if typ = DeviceConsole then rsalt else [])
              in case (if typ = DeviceConsole then hashPassword k salt password else Some []) of
                   None \<Rightarrow> (None, (ds, snd dw))
                 | Some h \<Rightarrow>
                    let dev = \<lparr>de_ID = ''dev-'' @ rid, de_Type = typ, de_Name = name, de_Link = link, de_SN = sn, de_Salt = salt,
                               de_PassHash = h, de_Owner = owner, de_Online = False, de_CreatedNS = now\<rparr>
                    in (case db_exec (insert_device x dev) (snd dw) of
                          (False, s') \<Rightarrow> (Some (Inl DevDb), (ds, s'))
                        | (True, s') \<Rightarrow> (Some (Inr dev), (ds\<lparr>ds_devices := AList.update (de_ID dev) dev (ds_devices ds)\<rparr>, s'))))"

section \<open>Unbinding\<close>

definition delete_device :: "string \<Rightarrow> string \<Rightarrow> db \<Rightarrow> (unit \<times> db) option" where
  "delete_device i owner d =
    Some ((), d\<lparr>control_devices := filter (\<lambda>r. \<not> (dv_id r = i \<and> dv_owner r = owner)) (control_devices d)\<rparr>)"

definition device_Unbind :: "string \<Rightarrow> string \<Rightarrow> device_world \<Rightarrow> device_error option \<times> device_world" where
  "device_Unbind owner i dw =
    (case device_Get owner i (fst dw) of
       None \<Rightarrow> (Some DevUnknown, dw)
     | Some d \<Rightarrow>
        (case db_exec (delete_device i owner) (snd dw) of
           (False, s') \<Rightarrow> (Some DevDb, (fst dw, s'))
         | (True, s') \<Rightarrow> (None, ((fst dw)\<lparr>ds_devices := AList.delete i (ds_devices (fst dw))\<rparr>, s'))))"

section \<open>Runs\<close>

datatype device_op =
    DevBind int string string string string string string string string
  | DevUnbind string string

fun device_step :: "kdf \<Rightarrow> (string \<Rightarrow> string) \<Rightarrow> ext \<Rightarrow> device_world \<Rightarrow> device_op \<Rightarrow> device_world" where
  "device_step k uf x dw (DevBind now rsalt rid owner typ name link sn pwd) =
     snd (device_Bind k uf x now rsalt rid owner typ name link sn pwd dw)"
| "device_step k uf x dw (DevUnbind owner i) = snd (device_Unbind owner i dw)"

end
