(* ===== verification/Takeover.thy ===== *)
theory Takeover
  imports Devices Authority
begin

text \<open>
  The takeover of a vehicle by a driver: the registry of \<open>server/fleet/takeover_reg.go\<close>, which
  shows on the operator's page who drives what, and the routes that take, keep and give back a
  vehicle or stop it (\<open>takeover_reg.go\<close>, \<open>http.go\<close>). Leases are issued by the authority; the registry is
  filled from the active leases of the database. A request arrives with its session and its
  fields; the answer is its status code, with the takeover where it succeeded.
\<close>

section \<open>The registry\<close>

definition takeoverGraceNS :: int where "takeoverGraceNS = 0"

record ActiveTakeover =
  at_VehicleID :: string
  at_GatewayID :: string
  at_Driver :: string
  at_DeviceID :: string
  at_LeaseID :: string
  at_Fencing :: int
  at_UntilNS :: int
  at_StartedNS :: int

text \<open>Both maps hold pointers and the code compares them, so an entry carries the number of its allocation.\<close>

type_synonym takeover_ref = "nat \<times> ActiveTakeover"

record TakeoverReg =
  tr_byUser :: "(string \<times> takeover_ref) list"
  tr_byVehicle :: "(string \<times> takeover_ref) list"
  tr_next :: nat

definition NewTakeoverReg :: TakeoverReg where
  "NewTakeoverReg = \<lparr>tr_byUser = [], tr_byVehicle = [], tr_next = 0\<rparr>"

definition takeover_of_row :: "lease_row \<Rightarrow> ActiveTakeover" where
  "takeover_of_row r =
    \<lparr>at_VehicleID = cl_vehicle r, at_GatewayID = cl_gateway r, at_Driver = cl_driver r, at_DeviceID = cl_device r,
     at_LeaseID = cl_id r, at_Fencing = cl_fencing r, at_UntilNS = cl_valid_until r, at_StartedNS = cl_issued_at r\<rparr>"

definition add_takeover :: "ActiveTakeover \<Rightarrow> TakeoverReg \<Rightarrow> TakeoverReg" where
  "add_takeover a t =
    \<lparr>tr_byUser = AList.update (at_Driver a) (tr_next t, a) (tr_byUser t),
     tr_byVehicle = AList.update (at_VehicleID a) (tr_next t, a) (tr_byVehicle t), tr_next = Suc (tr_next t)\<rparr>"

definition live_leases :: "int \<Rightarrow> db \<Rightarrow> lease_row list" where
  "live_leases dbnow d = filter (\<lambda>r. cl_state r = ''active'' \<and> cl_valid_until r > dbnow) (control_leases d)"

definition refreshFromDB :: "int \<Rightarrow> TakeoverReg \<times> txs \<Rightarrow> TakeoverReg \<times> txs" where
  "refreshFromDB dbnow ts =
    (case tx_query (live_leases dbnow) (snd ts) :: (unit tx_error + lease_row list) \<times> txs of
       (Inl _, s') \<Rightarrow> (fst ts, s')
     | (Inr rows, s') \<Rightarrow>
        (fold (\<lambda>r. add_takeover (takeover_of_row r)) rows \<lparr>tr_byUser = [], tr_byVehicle = [], tr_next = tr_next (fst ts)\<rparr>, s'))"

text \<open>Dropping one entry: the vehicle's entry goes too when it is the same pointer.\<close>

definition drop_entry :: "string \<Rightarrow> takeover_ref \<Rightarrow> TakeoverReg \<Rightarrow> TakeoverReg" where
  "drop_entry u p t =
    t\<lparr>tr_byUser := AList.delete u (tr_byUser t),
      tr_byVehicle := (case map_of (tr_byVehicle t) (at_VehicleID (snd p)) of
          Some q \<Rightarrow> if fst q = fst p then AList.delete (at_VehicleID (snd p)) (tr_byVehicle t) else tr_byVehicle t
        | None \<Rightarrow> tr_byVehicle t)\<rparr>"

definition gcLocked :: "int \<Rightarrow> TakeoverReg \<Rightarrow> TakeoverReg" where
  "gcLocked now t =
    fold (\<lambda>(u, p) t. if now > at_UntilNS (snd p) + takeoverGraceNS then drop_entry u p t else t) (tr_byUser t) t"

definition put_takeover :: "int \<Rightarrow> ActiveTakeover \<Rightarrow> TakeoverReg \<Rightarrow> TakeoverReg" where
  "put_takeover now a t = add_takeover a (gcLocked now t)"

definition look_takeover :: "int \<Rightarrow> int \<Rightarrow> TakeoverReg \<times> txs \<Rightarrow> TakeoverReg \<times> txs" where
  "look_takeover dbnow now ts = (case refreshFromDB dbnow ts of (t, s') \<Rightarrow> (gcLocked now t, s'))"

definition Mine :: "int \<Rightarrow> int \<Rightarrow> string \<Rightarrow> TakeoverReg \<times> txs \<Rightarrow> ActiveTakeover option \<times> TakeoverReg \<times> txs" where
  "Mine dbnow now user ts =
    (let ts' = look_takeover dbnow now ts in (map_option snd (map_of (tr_byUser (fst ts')) user), ts'))"

definition ByVehicle :: "int \<Rightarrow> int \<Rightarrow> string \<Rightarrow> TakeoverReg \<times> txs \<Rightarrow> ActiveTakeover option \<times> TakeoverReg \<times> txs" where
  "ByVehicle dbnow now vehicle ts =
    (let ts' = look_takeover dbnow now ts in (map_option snd (map_of (tr_byVehicle (fst ts')) vehicle), ts'))"

text \<open>The order of the answer is that of a Go map, which is none.\<close>

definition All_takeovers :: "int \<Rightarrow> int \<Rightarrow> TakeoverReg \<times> txs \<Rightarrow> ActiveTakeover list \<times> TakeoverReg \<times> txs" where
  "All_takeovers dbnow now ts = (let ts' = look_takeover dbnow now ts in (map (snd \<circ> snd) (tr_byUser (fst ts')), ts'))"

definition Release_takeover :: "string \<Rightarrow> TakeoverReg \<Rightarrow> ActiveTakeover option \<times> TakeoverReg" where
  "Release_takeover user t =
    (case map_of (tr_byUser t) user of None \<Rightarrow> (None, t) | Some p \<Rightarrow> (Some (snd p), drop_entry user p t))"

section \<open>Access\<close>

definition canAccessVehicle :: "(rat \<Rightarrow> float64) \<Rightarrow> gotime \<Rightarrow> Session option \<Rightarrow> State \<Rightarrow> string \<Rightarrow> bool" where
  "canAccessVehicle fl now sess st vehicleID =
    (case sess of
       None \<Rightarrow> False
     | Some s \<Rightarrow>
        s_Role s = ''super'' \<or>
        (case Vehicle fl now st vehicleID of None \<Rightarrow> False | Some v \<Rightarrow> sp_Group v \<in> set (s_Groups s)))"

section \<open>Routes\<close>

record services =
  sv_devices :: DeviceStore
  sv_tkreg :: TakeoverReg
  sv_world :: world
  sv_takeover :: TakeoverSnap

definition sv_txs :: "services \<Rightarrow> txs" where "sv_txs sv = snd (sv_world sv)"

definition sv_look :: "('a \<times> TakeoverReg \<times> txs) \<Rightarrow> services \<Rightarrow> 'a \<times> services" where
  "sv_look out sv = (case out of (r, t, s) \<Rightarrow> (r, sv\<lparr>sv_tkreg := t, sv_world := (fst (sv_world sv), s)\<rparr>))"

definition sv_Mine :: "int \<Rightarrow> int \<Rightarrow> string \<Rightarrow> services \<Rightarrow> ActiveTakeover option \<times> services" where
  "sv_Mine dbnow now user sv = sv_look (Mine dbnow now user (sv_tkreg sv, sv_txs sv)) sv"

definition sv_ByVehicle :: "int \<Rightarrow> int \<Rightarrow> string \<Rightarrow> services \<Rightarrow> ActiveTakeover option \<times> services" where
  "sv_ByVehicle dbnow now vehicle sv = sv_look (ByVehicle dbnow now vehicle (sv_tkreg sv, sv_txs sv)) sv"

text \<open>A call of the authority on the database and the page of the operator.\<close>

definition sv_authority ::
  "(astate \<Rightarrow> (authority_error tx_error + ControlLease) \<times> astate) \<Rightarrow> services \<Rightarrow> (authority_error tx_error + ControlLease) \<times> services" where
  "sv_authority call sv =
    (case call (sv_txs sv, sv_takeover sv) of
       (r, (s, snap)) \<Rightarrow> (r, sv\<lparr>sv_world := (fst (sv_world sv), s), sv_takeover := snap\<rparr>))"

definition sv_event :: "int \<Rightarrow> string \<Rightarrow> string \<Rightarrow> event_text \<Rightarrow> string \<Rightarrow> services \<Rightarrow> services" where
  "sv_event now level v txt kind sv = sv\<lparr>sv_world := pushEvent now level v txt kind (sv_world sv)\<rparr>"

text \<open>The readings of a request: the clock, \<open>now()\<close> of the database, and those of the authority.\<close>

record takeover_readings =
  tk_now :: gotime
  tk_dbnow :: int
  tk_auth :: readings

datatype takeover_reply = TkRefused nat | TkOk ActiveTakeover | TkDone

definition takeover_of_lease :: "string \<Rightarrow> string \<Rightarrow> string \<Rightarrow> int \<Rightarrow> ControlLease \<Rightarrow> ActiveTakeover" where
  "takeover_of_lease vid driver devID started l =
    \<lparr>at_VehicleID = vid, at_GatewayID = L_GatewayID l, at_Driver = driver, at_DeviceID = devID, at_LeaseID = L_LeaseID l,
     at_Fencing = L_Fencing l, at_UntilNS = L_ValidUntil l, at_StartedNS = started\<rparr>"

definition device_online :: "string \<Rightarrow> string \<Rightarrow> DeviceStore \<Rightarrow> bool" where
  "device_online owner i ds = (case device_Get owner i ds of None \<Rightarrow> False | Some d \<Rightarrow> de_Online d)"

text \<open>What is refused before the registry is consulted.\<close>

definition take_refusal ::
  "(rat \<Rightarrow> float64) \<Rightarrow> gotime \<Rightarrow> Session \<Rightarrow> string \<Rightarrow> string \<Rightarrow> services \<Rightarrow> nat option" where
  "take_refusal fl now sess vid devID sv =
    (if vid = [] then Some 400
     else if devID = [] then Some 400
     else case device_Get (s_Username sess) devID (sv_devices sv) of
       None \<Rightarrow> Some 403
     | Some device \<Rightarrow>
        if \<not> de_Online device then Some 409
        else case Vehicle fl now (fst (sv_world sv)) vid of
          None \<Rightarrow> Some 403
        | Some v \<Rightarrow>
           if \<not> canAccessVehicle fl now (Some sess) (fst (sv_world sv)) vid then Some 403
           else if \<not> sp_Online v then Some 400 else None)"

definition take_vehicle ::
  "wire \<Rightarrow> ext \<Rightarrow> DurableAuthority \<Rightarrow> (rat \<Rightarrow> float64) \<Rightarrow> takeover_readings \<Rightarrow> Session option \<Rightarrow> string \<Rightarrow> string \<Rightarrow>
   services \<Rightarrow> takeover_reply \<times> services" where
  "take_vehicle w x a fl rd sess' vid devID sv =
    (case sess' of
       None \<Rightarrow> (TkRefused 401, sv)
     | Some sess \<Rightarrow>
        (case take_refusal fl (tk_now rd) sess vid devID sv of
           Some code \<Rightarrow> (TkRefused code, sv)
         | None \<Rightarrow>
            (case sv_Mine (tk_dbnow rd) (wall (tk_now rd)) (s_Username sess) sv of
               (mine, sv1) \<Rightarrow>
                 if (case mine of None \<Rightarrow> False | Some m \<Rightarrow> at_VehicleID m \<noteq> vid) then (TkRefused 409, sv1)
                 else case sv_ByVehicle (tk_dbnow rd) (wall (tk_now rd)) vid sv1 of
                   (other, sv2) \<Rightarrow>
                     if (case other of None \<Rightarrow> False | Some m \<Rightarrow> at_Driver m \<noteq> s_Username sess) then (TkRefused 409, sv2)
                     else case sv_authority (Request w x a (tk_auth rd) (s_Username sess) devID vid) sv2 of
                       (Inl e, sv3) \<Rightarrow> (TkRefused 409, sv3)
                     | (Inr lease, sv3) \<Rightarrow>
                        (let tk = takeover_of_lease vid (s_Username sess) devID (L_IssuedAt lease) lease
                         in (TkOk tk, sv_event (wall (tk_now rd)) ''warn'' vid (TxtTakeover (s_Username sess) vid devID (L_LeaseID lease)) ''sys''
                               (sv3\<lparr>sv_tkreg := put_takeover (wall (tk_now rd)) tk (sv_tkreg sv3)\<rparr>))))))"

definition keepalive ::
  "wire \<Rightarrow> ext \<Rightarrow> DurableAuthority \<Rightarrow> takeover_readings \<Rightarrow> Session option \<Rightarrow> string \<Rightarrow> string \<Rightarrow> services \<Rightarrow> takeover_reply \<times> services" where
  "keepalive w x a rd sess' vid requestID sv =
    (case sess' of
       None \<Rightarrow> (TkRefused 401, sv)
     | Some sess \<Rightarrow>
        (case sv_Mine (tk_dbnow rd) (wall (tk_now rd)) (s_Username sess) sv of
           (None, sv1) \<Rightarrow> (TkRefused 409, sv1)
         | (Some mine, sv1) \<Rightarrow>
            if at_VehicleID mine \<noteq> vid then (TkRefused 409, sv1)
            else if \<not> device_online (s_Username sess) (at_DeviceID mine) (sv_devices sv1) then (TkRefused 409, sv1)
            else case sv_authority (Renew w x a (tk_auth rd) (at_LeaseID mine) (s_Username sess) (at_DeviceID mine) requestID) sv1 of
              (Inl e, sv2) \<Rightarrow> (TkRefused 409, sv2)
            | (Inr lease, sv2) \<Rightarrow>
               (let tk = takeover_of_lease vid (s_Username sess) (at_DeviceID mine) (at_StartedNS mine) lease
                in (TkOk tk, sv2\<lparr>sv_tkreg := put_takeover (wall (tk_now rd)) tk (sv_tkreg sv2)\<rparr>))))"

definition release_vehicle ::
  "wire \<Rightarrow> ext \<Rightarrow> DurableAuthority \<Rightarrow> takeover_readings \<Rightarrow> Session option \<Rightarrow> services \<Rightarrow> takeover_reply \<times> services" where
  "release_vehicle w x a rd sess' sv =
    (case sess' of
       None \<Rightarrow> (TkRefused 401, sv)
     | Some sess \<Rightarrow>
        (case sv_Mine (tk_dbnow rd) (wall (tk_now rd)) (s_Username sess) sv of
           (None, sv1) \<Rightarrow> (TkRefused 409, sv1)
         | (Some current, sv1) \<Rightarrow>
            (case sv_authority (Release w x a (tk_auth rd) (at_LeaseID current) (s_Username sess) (at_DeviceID current) ''operator_release'') sv1 of
               (Inl e, sv2) \<Rightarrow> (TkRefused 409, sv2)
             | (Inr _, sv2) \<Rightarrow>
                (case Release_takeover (s_Username sess) (sv_tkreg sv2) of
                   (None, t) \<Rightarrow> (TkDone, sv2\<lparr>sv_tkreg := t\<rparr>)
                 | (Some rel, t) \<Rightarrow>
                    (TkDone, sv_event (wall (tk_now rd)) ''info'' (at_VehicleID rel) (TxtReleased (s_Username sess) (at_VehicleID rel)) ''sys''
                       (sv2\<lparr>sv_tkreg := t\<rparr>))))))"

definition emergency_stop ::
  "wire \<Rightarrow> ext \<Rightarrow> DurableAuthority \<Rightarrow> (rat \<Rightarrow> float64) \<Rightarrow> takeover_readings \<Rightarrow> Session option \<Rightarrow> string \<Rightarrow> services \<Rightarrow> takeover_reply \<times> services" where
  "emergency_stop w x a fl rd sess' vid sv =
    (case sess' of
       None \<Rightarrow> (TkRefused 401, sv)
     | Some sess \<Rightarrow>
        if vid = [] \<or> (case Vehicle fl (tk_now rd) (fst (sv_world sv)) vid of None \<Rightarrow> True | Some v \<Rightarrow> \<not> sp_Online v) \<or>
           \<not> canAccessVehicle fl (tk_now rd) (Some sess) (fst (sv_world sv)) vid then (TkRefused 403, sv)
        else case sv_authority (EmergencyStop w x a (tk_auth rd) vid (s_Username sess)) sv of
          (Inl e, sv1) \<Rightarrow> (TkRefused 502, sv1)
        | (Inr _, sv1) \<Rightarrow> (TkDone, sv_event (wall (tk_now rd)) ''critical'' vid TxtStopSigned ''veh'' sv1))"

definition my_takeover :: "takeover_readings \<Rightarrow> Session option \<Rightarrow> services \<Rightarrow> (nat + ActiveTakeover option) \<times> services" where
  "my_takeover rd sess' sv =
    (case sess' of
       None \<Rightarrow> (Inl 401, sv)
     | Some sess \<Rightarrow> (case sv_Mine (tk_dbnow rd) (wall (tk_now rd)) (s_Username sess) sv of (m, sv1) \<Rightarrow> (Inr m, sv1)))"

definition active_takeovers ::
  "(rat \<Rightarrow> float64) \<Rightarrow> takeover_readings \<Rightarrow> Session option \<Rightarrow> services \<Rightarrow> (nat + ActiveTakeover list) \<times> services" where
  "active_takeovers fl rd sess' sv =
    (case sess' of
       None \<Rightarrow> (Inl 401, sv)
     | Some sess \<Rightarrow>
        (case sv_look (All_takeovers (tk_dbnow rd) (wall (tk_now rd)) (sv_tkreg sv, sv_txs sv)) sv of
           (ts, sv1) \<Rightarrow> (Inr (filter (\<lambda>t. canAccessVehicle fl (tk_now rd) (Some sess) (fst (sv_world sv1)) (at_VehicleID t)) ts), sv1)))"

section \<open>Device routes\<close>

definition bind_device ::
  "kdf \<Rightarrow> (string \<Rightarrow> string) \<Rightarrow> ext \<Rightarrow> int \<Rightarrow> string \<Rightarrow> string \<Rightarrow> Session option \<Rightarrow> string \<Rightarrow> string \<Rightarrow> string \<Rightarrow> string \<Rightarrow> string \<Rightarrow>
   services \<Rightarrow> (nat + Device) option \<times> services" where
  "bind_device k uf x now rsalt rid sess' typ name link sn password sv =
    (case sess' of
       None \<Rightarrow> (Some (Inl 401), sv)
     | Some sess \<Rightarrow>
        (case device_Bind k uf x now rsalt rid (s_Username sess) typ name link sn password (sv_devices sv, sv_txs sv) of
           (r, ds, s) \<Rightarrow>
             let sv' = sv\<lparr>sv_devices := ds, sv_world := (fst (sv_world sv), s)\<rparr>
             in (case r of
                   None \<Rightarrow> (None, sv')
                 | Some (Inl e) \<Rightarrow> (Some (Inl 400), sv')
                 | Some (Inr d) \<Rightarrow> (Some (Inr d),
                     sv_event now ''info'' [] (TxtDeviceBound (s_Username sess) (opt_or [] (map_of deviceTypeNames typ)) (de_Name d)) ''sys'' sv'))))"

definition unbind_device :: "Session option \<Rightarrow> string \<Rightarrow> services \<Rightarrow> nat option \<times> services" where
  "unbind_device sess' i sv =
    (case sess' of
       None \<Rightarrow> (Some 401, sv)
     | Some sess \<Rightarrow>
        (case device_Unbind (s_Username sess) i (sv_devices sv, sv_txs sv) of
           (e, ds, s) \<Rightarrow> (map_option (\<lambda>_. 400) e, sv\<lparr>sv_devices := ds, sv_world := (fst (sv_world sv), s)\<rparr>)))"

definition list_devices :: "Session option \<Rightarrow> services \<Rightarrow> nat + Device list" where
  "list_devices sess' sv = (case sess' of None \<Rightarrow> Inl 401 | Some sess \<Rightarrow> Inr (device_List (s_Username sess) (sv_devices sv)))"

end
