(* ===== verification/Workspace.thy ===== *)
theory Workspace
  imports Takeover
begin

text \<open>
  \<open>server/fleet/workspace.go\<close>: remote maintenance of a vehicle. An operator asks for an approval,
  another person with an administrative role grants it, and the operator then opens a session,
  whose signed grant for the vehicle is queued in the transaction that stores the session. A
  request arrives with its session and its fields; the answer is its status code or its result.
\<close>

section \<open>Data\<close>

definition workspaceTTL :: int where "workspaceTTL = 15 * minute"

record workspaceApproval =
  wp_ID :: string
  wp_VehicleID :: string
  wp_Requester :: string
  wp_Approver :: string
  wp_Scope :: string
  wp_Reason :: string
  wp_State :: string
  wp_ExpiresNS :: int
  wp_CreatedNS :: int
  wp_DecidedNS :: int

record workspaceSession =
  wx_ID :: string
  wx_ApprovalID :: string
  wx_VehicleID :: string
  wx_GatewayID :: string
  wx_OperatorID :: string
  wx_DeviceID :: string
  wx_State :: string
  wx_CreatedNS :: int
  wx_LastActive :: int
  wx_ExpiresNS :: int
  wx_ClosedNS :: int
  wx_CloseReason :: string

definition scanApproval :: "approval_row \<Rightarrow> workspaceApproval" where
  "scanApproval r =
    \<lparr>wp_ID = wa_id r, wp_VehicleID = wa_vehicle r, wp_Requester = wa_requester r, wp_Approver = wa_approver r, wp_Scope = wa_scope r,
     wp_Reason = wa_reason r, wp_State = wa_state r, wp_ExpiresNS = wa_expires_at r, wp_CreatedNS = wa_created_at r,
     wp_DecidedNS = (case wa_decided_at r of None \<Rightarrow> 0 | Some t \<Rightarrow> t)\<rparr>"

definition scanWorkspaceSession :: "workspace_row \<Rightarrow> workspaceSession" where
  "scanWorkspaceSession r =
    \<lparr>wx_ID = wk_id r, wx_ApprovalID = wk_approval r, wx_VehicleID = wk_vehicle r, wx_GatewayID = wk_gateway r,
     wx_OperatorID = wk_operator r, wx_DeviceID = wk_device r, wx_State = wk_state r, wx_CreatedNS = wk_created_at r,
     wx_LastActive = wk_last_activity_at r, wx_ExpiresNS = wk_expires_at r,
     wx_ClosedNS = (case wk_closed_at r of None \<Rightarrow> 0 | Some t \<Rightarrow> t), wx_CloseReason = wk_close_reason r\<rparr>"

definition secureID :: "string \<Rightarrow> string option \<Rightarrow> string option" where
  "secureID prefix rnd = map_option (\<lambda>h. prefix @ h) rnd"

definition tokenDigest :: "ext \<Rightarrow> bytes \<Rightarrow> string" where
  "tokenDigest x token = x_sha256_hex x token"

text \<open>
  What one request reads from outside: the clock, the database's \<open>now()\<close>, the random identifier and
  token, and for the grant the clock, the monotonic clock, eight random bytes and the random
  identifier of the outbox row.
\<close>

record workspace_readings =
  wr_now :: gotime
  wr_dbnow :: int
  wr_id :: "string option"
  wr_token :: "bytes option"
  wr_publish :: int
  wr_mono :: u64
  wr_seq :: "bytes option"
  wr_out :: "string option"

section \<open>Approvals\<close>

definition insert_approval ::
  "ext \<Rightarrow> int \<Rightarrow> string \<Rightarrow> string \<Rightarrow> string \<Rightarrow> string \<Rightarrow> string \<Rightarrow> int \<Rightarrow> db \<Rightarrow> (unit \<times> db) option" where
  "insert_approval x dbnow i vehicleID requester scope reason expires d =
    (if i \<in> wa_id ` set (workspace_approvals d) \<or> \<not> vehicle_exists d vehicleID then None
     else Some ((), d\<lparr>workspace_approvals := workspace_approvals d @
       [\<lparr>wa_id = i, wa_vehicle = vehicleID, wa_requester = requester, wa_approver = [], wa_scope = scope, wa_reason = reason,
         wa_state = ''requested'', wa_expires_at = x_ts x expires, wa_created_at = dbnow, wa_decided_at = None\<rparr>]\<rparr>))"

definition sv_exec :: "(db \<Rightarrow> (unit \<times> db) option) \<Rightarrow> services \<Rightarrow> bool \<times> services" where
  "sv_exec g sv = (case db_exec g (sv_txs sv) of (ok, s) \<Rightarrow> (ok, sv\<lparr>sv_world := (fst (sv_world sv), s)\<rparr>))"

definition sv_query :: "(db \<Rightarrow> 'a) \<Rightarrow> services \<Rightarrow> 'a option \<times> services" where
  "sv_query q sv =
    (case tx_query q (sv_txs sv) :: (unit tx_error + 'a) \<times> txs of
       (Inl _, s) \<Rightarrow> (None, sv\<lparr>sv_world := (fst (sv_world sv), s)\<rparr>)
     | (Inr r, s) \<Rightarrow> (Some r, sv\<lparr>sv_world := (fst (sv_world sv), s)\<rparr>))"

definition request_approval ::
  "(rat \<Rightarrow> float64) \<Rightarrow> ext \<Rightarrow> workspace_readings \<Rightarrow> Session option \<Rightarrow> string \<Rightarrow> string \<Rightarrow> string \<Rightarrow> services \<Rightarrow>
   (nat + workspaceApproval) \<times> services" where
  "request_approval fl x rd sess' vehicle' scope' reason' sv =
    (case sess' of
       None \<Rightarrow> (Inl 401, sv)
     | Some sess \<Rightarrow>
        let vehicleID = trim_space vehicle'; scope = trim_space scope'; reason = trimRune reason' 500
        in if vehicleID = [] \<or> reason = [] \<or> scope \<notin> {''terminal'', ''diagnostics'', ''files'', ''gui''} then (Inl 400, sv)
           else if \<not> canAccessVehicle fl (wr_now rd) (Some sess) (fst (sv_world sv)) vehicleID then (Inl 404, sv)
           else case secureID ''wa-'' (wr_id rd) of
             None \<Rightarrow> (Inl 500, sv)
           | Some i \<Rightarrow>
              (let expires = wall (wr_now rd) + workspaceTTL
               in case sv_exec (insert_approval x (wr_dbnow rd) i vehicleID (s_Username sess) scope reason expires) sv of
                    (False, sv1) \<Rightarrow> (Inl 500, sv1)
                  | (True, sv1) \<Rightarrow>
                     (Inr \<lparr>wp_ID = i, wp_VehicleID = vehicleID, wp_Requester = s_Username sess, wp_Approver = [], wp_Scope = scope,
                           wp_Reason = reason, wp_State = ''requested'', wp_ExpiresNS = expires, wp_CreatedNS = wall (wr_now rd),
                           wp_DecidedNS = 0\<rparr>,
                      sv_event (wall (wr_now rd)) ''info'' vehicleID (TxtMaintenanceRequested i) ''sys'' sv1)))"

definition list_approvals ::
  "(rat \<Rightarrow> float64) \<Rightarrow> workspace_readings \<Rightarrow> Session option \<Rightarrow> services \<Rightarrow> (nat + workspaceApproval list) \<times> services" where
  "list_approvals fl rd sess' sv =
    (case sess' of
       None \<Rightarrow> (Inr [], sv)
     | Some sess \<Rightarrow>
        (case sv_query (\<lambda>d. take 200 (order_desc wa_created_at
            (filter (\<lambda>r. wa_requester r = s_Username sess \<or> wa_state r = ''requested'') (workspace_approvals d)))) sv of
           (None, sv1) \<Rightarrow> (Inl 500, sv1)
         | (Some rows, sv1) \<Rightarrow>
            (Inr (filter (\<lambda>a. canAccessVehicle fl (wr_now rd) (Some sess) (fst (sv_world sv1)) (wp_VehicleID a)) (map scanApproval rows)), sv1)))"

definition approve_where :: "int \<Rightarrow> string \<Rightarrow> approval_row \<Rightarrow> bool" where
  "approve_where dbnow i r \<longleftrightarrow> wa_id r = i \<and> wa_state r = ''requested'' \<and> wa_expires_at r > dbnow"

text \<open>An update that does not touch exactly one row is refused; the identifier is the primary key.\<close>

definition approve_stmt :: "int \<Rightarrow> string \<Rightarrow> string \<Rightarrow> db \<Rightarrow> nat \<times> db" where
  "approve_stmt dbnow approver i d =
    (count_where (approve_where dbnow i) (workspace_approvals d),
     d\<lparr>workspace_approvals := update_where (approve_where dbnow i)
         (\<lambda>r. r\<lparr>wa_state := ''approved'', wa_approver := approver, wa_decided_at := Some dbnow\<rparr>) (workspace_approvals d)\<rparr>)"

definition sv_update :: "(db \<Rightarrow> nat \<times> db) \<Rightarrow> services \<Rightarrow> nat option \<times> services" where
  "sv_update u sv =
    (case tx_stmt (\<lambda>d. Some (u d)) (sv_txs sv) :: (unit tx_error + nat) \<times> txs of
       (Inl _, s) \<Rightarrow> (None, sv\<lparr>sv_world := (fst (sv_world sv), s)\<rparr>)
     | (Inr n, s) \<Rightarrow> (Some n, sv\<lparr>sv_world := (fst (sv_world sv), s)\<rparr>))"

definition approve_approval ::
  "(rat \<Rightarrow> float64) \<Rightarrow> workspace_readings \<Rightarrow> Session option \<Rightarrow> string \<Rightarrow> services \<Rightarrow> (int + unit) \<times> services" where
  "approve_approval fl rd sess' i sv =
    (case requireRole [''super'', ''group_admin''] sess' of
       Inl code \<Rightarrow> (Inl code, sv)
     | Inr sess \<Rightarrow>
        (case sv_query (\<lambda>d. find (\<lambda>r. wa_id r = i) (workspace_approvals d)) sv of
           (None, sv1) \<Rightarrow> (Inl 404, sv1)
         | (Some None, sv1) \<Rightarrow> (Inl 404, sv1)
         | (Some (Some r), sv1) \<Rightarrow>
            if wa_requester r = s_Username sess then (Inl 403, sv1)
            else if \<not> canAccessVehicle fl (wr_now rd) (Some sess) (fst (sv_world sv1)) (wa_vehicle r) \<or> wa_state r \<noteq> ''requested'' then (Inl 409, sv1)
            else case sv_update (approve_stmt (wr_dbnow rd) (s_Username sess) i) sv1 of
              (Some n, sv2) \<Rightarrow> if n \<noteq> 1 then (Inl 409, sv2) else (Inr (), sv2)
            | (None, sv2) \<Rightarrow> (Inl 409, sv2)))"

section \<open>The signed grant\<close>

record TerminalGrant =
  tg_version :: u32
  tg_vehicle_id :: string
  tg_gateway_id :: string
  tg_session_id :: string
  tg_terminal_token :: bytes
  tg_driver_id :: string
  tg_device_id :: string
  tg_valid_until_unix_ns :: int
  tg_issued_at_unix_ns :: int
  tg_authority_key_id :: string
  tg_authority_signature :: bytes

datatype terminal_error = TermFields | TermMarshal | TermRandom | TermSign sign_error | TermOutbox outbox_error

text \<open>\<open>sequence = sequence << 8 | b\<close> over the random bytes.\<close>

definition be_sequence :: "bytes \<Rightarrow> u64" where
  "be_sequence bs = foldl (\<lambda>n b. or (push_bit 8 n) (ucast b)) 0 bs"

definition unsigned_terminal ::
  "leaseSigner \<Rightarrow> int \<Rightarrow> string \<Rightarrow> string \<Rightarrow> string \<Rightarrow> string \<Rightarrow> string \<Rightarrow> bytes \<Rightarrow> int \<Rightarrow> TerminalGrant" where
  "unsigned_terminal signer now sessionID vehicleID gatewayID driverID deviceID token until =
    \<lparr>tg_version = 1, tg_vehicle_id = vehicleID, tg_gateway_id = gatewayID, tg_session_id = sessionID, tg_terminal_token = token,
     tg_driver_id = driverID, tg_device_id = deviceID, tg_valid_until_unix_ns = until, tg_issued_at_unix_ns = now,
     tg_authority_key_id = ls_keyID signer, tg_authority_signature = []\<rparr>"

definition terminal_envelope :: "int \<Rightarrow> u64 \<Rightarrow> u64 \<Rightarrow> string \<Rightarrow> string \<Rightarrow> string \<Rightarrow> bytes \<Rightarrow> Envelope" where
  "terminal_envelope now mono_ns sq sessionID vehicleID gatewayID payload =
    \<lparr>env_schema_major = 1, env_schema_minor = 0, env_message_type = ''platform.v1.TerminalGrant'',
     env_vehicle_id = vehicleID, env_gateway_id = gatewayID, env_session_id = sessionID, env_sequence = sq,
     env_utc_time_ns = now, env_monotonic_time_ns = mono_ns, env_ttl_ms = 30000, env_trace_id = sessionID,
     env_payload = payload, env_auth_tag = [], env_unknown = []\<rparr>"

text \<open>\<open>mt\<close> is the generated serialiser of a \<open>TerminalGrant\<close>.\<close>

definition publishTerminalGrantTx ::
  "wire \<Rightarrow> ext \<Rightarrow> (TerminalGrant \<Rightarrow> bytes option) \<Rightarrow> DurableAuthority \<Rightarrow> workspace_readings \<Rightarrow>
   string \<Rightarrow> string \<Rightarrow> string \<Rightarrow> string \<Rightarrow> string \<Rightarrow> bytes \<Rightarrow> int \<Rightarrow> (terminal_error, unit) tx" where
  "publishTerminalGrantTx w x mt a rd sessionID vehicleID gatewayID driverID deviceID token until =
    (case da_signer a of
       None \<Rightarrow> tx_fail TermFields
     | Some signer \<Rightarrow>
        if \<not> ready a \<or> sessionID = [] \<or> vehicleID = [] \<or> gatewayID = [] \<or> length token < 32 then tx_fail TermFields
        else
          let grant = unsigned_terminal signer (wr_publish rd) sessionID vehicleID gatewayID driverID deviceID token until
          in case mt grant of None \<Rightarrow> tx_fail TermMarshal | Some canonical \<Rightarrow>
            (case mt (grant\<lparr>tg_authority_signature := ed25519_sign w (ls_private signer) canonical\<rparr>) of
               None \<Rightarrow> tx_fail TermMarshal
             | Some payload \<Rightarrow>
                (case wr_seq rd of
                   None \<Rightarrow> tx_fail TermRandom
                 | Some bs \<Rightarrow>
                    (case SignEnvelope w (Some (terminal_envelope (wr_publish rd) (wr_mono rd) (be_sequence bs) sessionID vehicleID gatewayID payload))
                            (da_envelopeAuthKey a) of
                       Inl e \<Rightarrow> tx_fail (TermSign e)
                     | Inr env \<Rightarrow>
                        (case marshal_env w env of
                           None \<Rightarrow> tx_fail TermMarshal
                         | Some encoded \<Rightarrow> tx_map_err TermOutbox
                             (enqueueOutboxTx x (wr_dbnow rd) (wr_out rd) gatewayID ''workspace'' ''workspace_session'' sessionID encoded))))))"

definition publishTerminalGrant ::
  "wire \<Rightarrow> ext \<Rightarrow> (TerminalGrant \<Rightarrow> bytes option) \<Rightarrow> DurableAuthority \<Rightarrow> workspace_readings \<Rightarrow>
   string \<Rightarrow> string \<Rightarrow> string \<Rightarrow> string \<Rightarrow> string \<Rightarrow> bytes \<Rightarrow> int \<Rightarrow> txs \<Rightarrow> bool \<times> txs" where
  "publishTerminalGrant w x mt a rd sessionID vehicleID gatewayID driverID deviceID token until s =
    (if \<not> ready a \<or> sessionID = [] \<or> length token < 32 then (False, s)
     else case run_tx (publishTerminalGrantTx w x mt a rd sessionID vehicleID gatewayID driverID deviceID token until) s of
       (Inl _, s') \<Rightarrow> (False, s') | (Inr _, s') \<Rightarrow> (True, s'))"

section \<open>Sessions\<close>

text \<open>The approval of the operator that still holds, joined with its vehicle.\<close>

definition usable_approval :: "int \<Rightarrow> string \<Rightarrow> string \<Rightarrow> db \<Rightarrow> (string \<times> string \<times> int) option" where
  "usable_approval dbnow approvalID requester d =
    (case find (\<lambda>r. wa_id r = approvalID \<and> wa_requester r = requester \<and> wa_state r = ''approved'' \<and> wa_expires_at r > dbnow \<and>
                   vehicle_exists d (wa_vehicle r)) (workspace_approvals d) of
       None \<Rightarrow> None
     | Some r \<Rightarrow> map_option (\<lambda>v. (wa_vehicle r, v_gateway_id v, wa_expires_at r)) (find (\<lambda>v. v_id v = wa_vehicle r) (vehicles d)))"

definition insert_workspace_session :: "workspace_row \<Rightarrow> db \<Rightarrow> (unit \<times> db) option" where
  "insert_workspace_session row d =
    (if wk_id row \<in> wk_id ` set (workspace_sessions d) \<or> wk_approval row \<notin> wa_id ` set (workspace_approvals d) \<or>
        \<not> vehicle_exists d (wk_vehicle row) \<or> wk_token_hash row \<in> wk_token_hash ` set (workspace_sessions d)
     then None
     else Some ((), d\<lparr>workspace_sessions := workspace_sessions d @ [row]\<rparr>))"

datatype session_error = SessionNotQueued

definition any_err :: "'e \<Rightarrow> ('f, 'a) tx \<Rightarrow> ('e, 'a) tx" where
  "any_err e m s = (case m s of (Inl _, s') \<Rightarrow> (Inl (Dom e), s') | (Inr r, s') \<Rightarrow> (Inr r, s'))"

definition new_workspace_row ::
  "ext \<Rightarrow> int \<Rightarrow> string \<Rightarrow> string \<Rightarrow> string \<Rightarrow> string \<Rightarrow> string \<Rightarrow> string \<Rightarrow> bytes \<Rightarrow> int \<Rightarrow> workspace_row" where
  "new_workspace_row x dbnow sessionID approvalID vehicleID gatewayID operator deviceID token until =
    \<lparr>wk_id = sessionID, wk_approval = approvalID, wk_vehicle = vehicleID, wk_gateway = gatewayID, wk_operator = operator,
     wk_device = deviceID, wk_token_hash = tokenDigest x token, wk_state = ''awaiting_vehicle'', wk_created_at = dbnow,
     wk_last_activity_at = dbnow, wk_expires_at = x_ts x until, wk_closed_at = None, wk_close_reason = []\<rparr>"

definition open_body ::
  "wire \<Rightarrow> ext \<Rightarrow> (TerminalGrant \<Rightarrow> bytes option) \<Rightarrow> DurableAuthority \<Rightarrow> workspace_readings \<Rightarrow>
   string \<Rightarrow> string \<Rightarrow> string \<Rightarrow> string \<Rightarrow> string \<Rightarrow> string \<Rightarrow> bytes \<Rightarrow> int \<Rightarrow> (session_error, unit) tx" where
  "open_body w x mt a rd sessionID approvalID vehicleID gatewayID operator deviceID token until =
    tx_bind (tx_stmt (insert_workspace_session
       (new_workspace_row x (wr_dbnow rd) sessionID approvalID vehicleID gatewayID operator deviceID token until))) (\<lambda>_.
    any_err SessionNotQueued (publishTerminalGrantTx w x mt a rd sessionID vehicleID gatewayID operator deviceID token until))"

definition session_until :: "int \<Rightarrow> int \<Rightarrow> int" where
  "session_until now expires = (if now + workspaceTTL > expires then expires else now + workspaceTTL)"

definition open_workspace ::
  "wire \<Rightarrow> ext \<Rightarrow> (TerminalGrant \<Rightarrow> bytes option) \<Rightarrow> DurableAuthority \<Rightarrow> (rat \<Rightarrow> float64) \<Rightarrow> workspace_readings \<Rightarrow>
   Session option \<Rightarrow> string \<Rightarrow> string \<Rightarrow> services \<Rightarrow> (nat + workspaceSession \<times> string) \<times> services" where
  "open_workspace w x mt a fl rd sess' approval' device' sv =
    (case sess' of
       None \<Rightarrow> (Inl 401, sv)
     | Some sess \<Rightarrow>
        let approvalID = trim_space approval'; deviceID = trim_space device'; operator = s_Username sess
        in if approvalID = [] \<or> deviceID = [] then (Inl 400, sv)
           else if \<not> device_online operator deviceID (sv_devices sv) then (Inl 409, sv)
           else case sv_query (usable_approval (wr_dbnow rd) approvalID operator) sv of
             (None, sv1) \<Rightarrow> (Inl 409, sv1)
           | (Some None, sv1) \<Rightarrow> (Inl 409, sv1)
           | (Some (Some (vehicleID, gatewayID, expires)), sv1) \<Rightarrow>
              if gatewayID = [] then (Inl 409, sv1)
              else if \<not> canAccessVehicle fl (wr_now rd) (Some sess) (fst (sv_world sv1)) vehicleID then (Inl 404, sv1)
              else case secureID ''ws-'' (wr_id rd) of
                None \<Rightarrow> (Inl 500, sv1)
              | Some sessionID \<Rightarrow>
                 (case wr_token rd of
                    None \<Rightarrow> (Inl 500, sv1)
                  | Some token \<Rightarrow>
                     (let until = session_until (wall (wr_now rd)) expires
                      in case run_tx (open_body w x mt a rd sessionID approvalID vehicleID gatewayID operator deviceID token until) (sv_txs sv1) of
                           (Inl SqlErr, s) \<Rightarrow> (Inl 500, sv1\<lparr>sv_world := (fst (sv_world sv1), s)\<rparr>)
                         | (Inl (Dom SessionNotQueued), s) \<Rightarrow> (Inl 503, sv1\<lparr>sv_world := (fst (sv_world sv1), s)\<rparr>)
                         | (Inr _, s) \<Rightarrow>
                            (Inr (\<lparr>wx_ID = sessionID, wx_ApprovalID = approvalID, wx_VehicleID = vehicleID, wx_GatewayID = gatewayID,
                                   wx_OperatorID = operator, wx_DeviceID = deviceID, wx_State = ''awaiting_vehicle'',
                                   wx_CreatedNS = wall (wr_now rd), wx_LastActive = wall (wr_now rd), wx_ExpiresNS = until,
                                   wx_ClosedNS = 0, wx_CloseReason = []\<rparr>, hex_encode token),
                             sv_event (wall (wr_now rd)) ''warn'' vehicleID (TxtMaintenanceGranted sessionID) ''sys''
                               (sv1\<lparr>sv_world := (fst (sv_world sv1), s)\<rparr>)))))"

definition list_sessions :: "Session option \<Rightarrow> services \<Rightarrow> (nat + workspaceSession list) \<times> services" where
  "list_sessions sess' sv =
    (case sess' of
       None \<Rightarrow> (Inr [], sv)
     | Some sess \<Rightarrow>
        (case sv_query (\<lambda>d. take 100 (order_desc wk_created_at (filter (\<lambda>r. wk_operator r = s_Username sess) (workspace_sessions d)))) sv of
           (None, sv1) \<Rightarrow> (Inl 500, sv1)
         | (Some rows, sv1) \<Rightarrow> (Inr (map scanWorkspaceSession rows), sv1)))"

definition close_where :: "string \<Rightarrow> string \<Rightarrow> workspace_row \<Rightarrow> bool" where
  "close_where i operator r \<longleftrightarrow> wk_id r = i \<and> wk_operator r = operator \<and> wk_state r \<in> {''awaiting_vehicle'', ''active''}"

definition close_stmt :: "int \<Rightarrow> string \<Rightarrow> string \<Rightarrow> string \<Rightarrow> db \<Rightarrow> nat \<times> db" where
  "close_stmt dbnow reason i operator d =
    (count_where (close_where i operator) (workspace_sessions d),
     d\<lparr>workspace_sessions := update_where (close_where i operator)
         (\<lambda>r. r\<lparr>wk_state := ''closed'', wk_closed_at := Some dbnow, wk_close_reason := reason\<rparr>) (workspace_sessions d)\<rparr>)"

definition close_session :: "workspace_readings \<Rightarrow> Session option \<Rightarrow> string \<Rightarrow> string \<Rightarrow> services \<Rightarrow> (nat + unit) \<times> services" where
  "close_session rd sess' i reason' sv =
    (case sess' of
       None \<Rightarrow> (Inl 401, sv)
     | Some sess \<Rightarrow>
        let reason = (if trimRune reason' 200 = [] then ''operator_close'' else trimRune reason' 200)
        in case sv_update (close_stmt (wr_dbnow rd) reason i (s_Username sess)) sv of
             (None, sv1) \<Rightarrow> (Inl 500, sv1)
           | (Some n, sv1) \<Rightarrow> if n \<noteq> 1 then (Inl 409, sv1) else (Inr (), sv1))"

end
