(* ===== verification/Device_Props.thy ===== *)
theory Device_Props
  imports Devices
begin

text \<open>
  What the table of devices guarantees: it agrees with the stored rows, consoles have different serial
  numbers, and no device is ever online.
\<close>

text \<open>Serial numbers as they are compared, without regard to case.\<close>

definition folded :: "(string \<Rightarrow> string) \<Rightarrow> string \<Rightarrow> string list" where
  "folded uf s = map (fold_rune uf) (go_runes s)"

definition device_rows_ok :: "(string \<Rightarrow> string) \<Rightarrow> device_row list \<Rightarrow> bool" where
  "device_rows_ok uf rs \<longleftrightarrow> distinct (map dv_id rs) \<and>
     distinct (map (\<lambda>r. folded uf (dv_sn r)) (filter (\<lambda>r. dv_type r = DeviceConsole) rs))"

text \<open>A device in memory and its row, up to the precision of the stored time.\<close>

definition same_device :: "Device \<Rightarrow> device_row \<Rightarrow> bool" where
  "same_device v r \<longleftrightarrow> v\<lparr>de_CreatedNS := 0\<rparr> = (restored_device r)\<lparr>de_CreatedNS := 0\<rparr>"

definition devices_agree :: "(string \<times> Device) list \<Rightarrow> device_row list \<Rightarrow> bool" where
  "devices_agree ds rs \<longleftrightarrow> distinct (map fst ds) \<and> fst ` set ds = dv_id ` set rs \<and>
     (\<forall>i v. (i, v) \<in> set ds \<longrightarrow> (\<exists>r \<in> set rs. dv_id r = i \<and> same_device v r))"

lemma same_device_sel:
  "same_device v r \<Longrightarrow> de_ID v = dv_id r" "same_device v r \<Longrightarrow> de_Type v = dv_type r" "same_device v r \<Longrightarrow> de_SN v = dv_sn r"
  "same_device v r \<Longrightarrow> de_Owner v = dv_owner r" "same_device v r \<Longrightarrow> \<not> de_Online v"
  by (cases v; auto simp: same_device_def restored_device_def)+

lemma load_devices_snoc: "load_devices (rs @ [r]) = AList.update (dv_id r) (restored_device r) (load_devices rs)"
  by (simp add: load_devices_def)

lemma update_new: "k \<notin> fst ` set al \<Longrightarrow> AList.update k v al = al @ [(k, v)]"
  by (induction al) auto

lemma load_devices_map: "distinct (map dv_id rs) \<Longrightarrow> load_devices rs = map (\<lambda>r. (dv_id r, restored_device r)) rs"
proof (induction rs rule: rev_induct)
  case (snoc r rs)
  then have "dv_id r \<notin> fst ` set (map (\<lambda>r. (dv_id r, restored_device r)) rs)" by (auto simp: image_image)
  with snoc show ?case by (simp add: load_devices_snoc update_new)
qed (simp add: load_devices_def)

lemma load_agrees: "distinct (map dv_id rs) \<Longrightarrow> devices_agree (load_devices rs) rs"
  by (auto simp: load_devices_map devices_agree_def same_device_def comp_def image_image)

lemma agree_insert:
  assumes "devices_agree ds rs" and "dv_id r \<notin> dv_id ` set rs" and "same_device v r"
  shows "devices_agree (AList.update (dv_id r) v ds) (rs @ [r])"
proof -
  have "dv_id r \<notin> fst ` set ds" using assms(1,2) by (simp add: devices_agree_def)
  then show ?thesis using assms by (auto simp: update_new devices_agree_def)
qed

lemma agree_delete:
  assumes "devices_agree ds rs" and "\<And>r. r \<in> set rs \<Longrightarrow> dv_id r = i \<Longrightarrow> P r" and "\<And>r. P r \<Longrightarrow> dv_id r = i"
  shows "devices_agree (AList.delete i ds) (filter (\<lambda>r. \<not> P r) rs)"
proof -
  have keys: "fst ` set (AList.delete i ds) = fst ` set ds - {i}" by (auto simp: AList.delete_eq)
  have "distinct (map fst (AList.delete i ds))" using assms(1) by (simp add: devices_agree_def distinct_delete)
  moreover have "dv_id ` set rs - {i} = dv_id ` set (filter (\<lambda>r. \<not> P r) rs)"
    using assms(2,3) by auto
  then have "fst ` set ds - {i} = dv_id ` set (filter (\<lambda>r. \<not> P r) rs)"
    using assms(1) by (simp add: devices_agree_def)
  moreover have "\<exists>r \<in> set (filter (\<lambda>r. \<not> P r) rs). dv_id r = j \<and> same_device v r" if "(j, v) \<in> set (AList.delete i ds)" for j v
  proof -
    from that have "(j, v) \<in> set ds" "j \<noteq> i" by (auto simp: AList.delete_eq)
    then obtain r where "r \<in> set rs" "dv_id r = j" "same_device v r" using assms(1) unfolding devices_agree_def by blast
    with \<open>j \<noteq> i\<close> assms(3) show ?thesis by auto
  qed
  ultimately show ?thesis unfolding devices_agree_def keys by blast
qed

lemma device_rows_ok_filter: "device_rows_ok uf rs \<Longrightarrow> device_rows_ok uf (filter Q rs)"
proof -
  assume ok: "device_rows_ok uf rs"
  have "filter (\<lambda>r. dv_type r = DeviceConsole) (filter Q rs) = filter Q (filter (\<lambda>r. dv_type r = DeviceConsole) rs)"
    by (simp add: conj_commute)
  with ok show ?thesis unfolding device_rows_ok_def by (simp only: distinct_map_filter)
qed

section \<open>One operation\<close>

definition device_inv :: "(string \<Rightarrow> string) \<Rightarrow> device_world \<Rightarrow> bool" where
  "device_inv uf dw \<longleftrightarrow> device_rows_ok uf (control_devices (fst (snd dw))) \<and> devices_agree (ds_devices (fst dw)) (control_devices (fst (snd dw)))"

lemma bind_refusal_None:
  assumes "bind_refusal uf owner typ name sn password ds = None" and "typ = DeviceConsole"
    and "(i, v) \<in> set (ds_devices ds)" and "de_Type v = DeviceConsole"
  shows "folded uf (de_SN v) \<noteq> folded uf sn"
  using assms by (auto simp: bind_refusal_def console_refusal_def find_None_iff equal_fold_def folded_def split: option.splits if_splits)

lemma insert_device_inv:
  assumes inv: "device_inv uf (ds, (d, fs))" and ins: "insert_device x v d = Some ((), d')" and off: "\<not> de_Online v"
    and new: "\<And>i u. de_Type v = DeviceConsole \<Longrightarrow> (i, u) \<in> set (ds_devices ds) \<Longrightarrow> de_Type u = DeviceConsole \<Longrightarrow> folded uf (de_SN u) \<noteq> folded uf (de_SN v)"
  shows "device_inv uf (ds\<lparr>ds_devices := AList.update (de_ID v) v (ds_devices ds)\<rparr>, (d', fs'))"
proof -
  let ?rs = "control_devices d" and ?r = "device_row_of x v"
  from ins have d': "control_devices d' = ?rs @ [?r]" and fresh: "dv_id ?r \<notin> dv_id ` set ?rs"
    by (auto simp: insert_device_def device_row_of_def split: if_splits)
  have agree: "devices_agree (ds_devices ds) ?rs" and ok: "device_rows_ok uf ?rs" using inv by (simp_all add: device_inv_def)
  have same: "same_device v ?r" using off by (cases v) (simp add: same_device_def restored_device_def device_row_of_def)
  have "folded uf (dv_sn q) \<noteq> folded uf (de_SN v)" if "de_Type v = DeviceConsole" "q \<in> set ?rs" "dv_type q = DeviceConsole" for q
  proof -
    from agree that(2) obtain u where u: "(dv_id q, u) \<in> set (ds_devices ds)" by (force simp: devices_agree_def)
    with agree obtain q' where "q' \<in> set ?rs" "dv_id q' = dv_id q" "same_device u q'" unfolding devices_agree_def by blast
    moreover have "q' = q" using ok \<open>q' \<in> set ?rs\<close> that(2) \<open>dv_id q' = dv_id q\<close>
      by (auto simp: device_rows_ok_def distinct_map inj_on_def)
    ultimately have "de_Type u = DeviceConsole" "de_SN u = dv_sn q" using that(3) by (simp_all add: same_device_sel)
    with new [OF that(1) u] show ?thesis by simp
  qed
  then have "de_Type v = DeviceConsole \<Longrightarrow> folded uf (de_SN v) \<notin> (\<lambda>r. folded uf (dv_sn r)) ` set (filter (\<lambda>r. dv_type r = DeviceConsole) ?rs)"
    by fastforce
  then have "device_rows_ok uf (?rs @ [?r])" using ok fresh by (auto simp: device_rows_ok_def device_row_of_def)
  moreover have "devices_agree (AList.update (de_ID v) v (ds_devices ds)) (?rs @ [?r])"
    using agree_insert [OF agree fresh same] by (simp add: device_row_of_def)
  ultimately show ?thesis by (simp add: device_inv_def d')
qed

lemma device_inv_txs: "device_inv uf (ds, (d, fs)) \<Longrightarrow> ds_devices ds' = ds_devices ds \<Longrightarrow> device_inv uf (ds', (d, fs'))"
  by (simp add: device_inv_def)

lemma device_Bind_inv:
  assumes "device_inv uf (ds, (d, fs))"
  shows "device_inv uf (snd (device_Bind k uf x now rsalt rid owner typ name link sn pwd (ds, (d, fs))))"
proof (cases "map_of deviceTypeNames typ")
  case (Some tname)
  define nm where "nm = (if trim_space name = [] then tname else trim_space name)"
  show ?thesis
  proof (cases "bind_refusal uf owner typ nm (trim_space sn) pwd ds")
    case None
    note free = this
    define h where "h = (if typ = DeviceConsole then hashPassword k (if typ = DeviceConsole then rsalt else []) pwd else Some [])"
    show ?thesis
    proof (cases h)
      case None
      then show ?thesis using assms Some free
        by (simp add: device_Bind_def nm_def [symmetric] h_def [symmetric] Let_def device_inv_txs)
    next
      case (Some hash)
      define v where "v = \<lparr>de_ID = ''dev-'' @ rid, de_Type = typ, de_Name = nm, de_Link = trim_space link, de_SN = trim_space sn,
        de_Salt = (if typ = DeviceConsole then rsalt else []), de_PassHash = hash, de_Owner = owner, de_Online = False, de_CreatedNS = now\<rparr>"
      have b: "device_Bind k uf x now rsalt rid owner typ name link sn pwd (ds, (d, fs)) =
        (case db_exec (insert_device x v) (d, fs) of
           (False, s') \<Rightarrow> (Some (Inl DevDb), (ds\<lparr>ds_seq := ds_seq ds + 1\<rparr>, s'))
         | (True, s') \<Rightarrow> (Some (Inr v), (ds\<lparr>ds_seq := ds_seq ds + 1, ds_devices := AList.update (de_ID v) v (ds_devices ds)\<rparr>, s')))"
        using \<open>map_of deviceTypeNames typ = Some tname\<close> free Some
        by (cases "typ = DeviceConsole"; cases "db_exec (insert_device x v) (d, fs)")
           (auto simp: device_Bind_def nm_def [symmetric] h_def v_def Let_def split: bool.split)
      have new: "de_Type v = DeviceConsole \<Longrightarrow> (i, u) \<in> set (ds_devices ds) \<Longrightarrow> de_Type u = DeviceConsole \<Longrightarrow>
          folded uf (de_SN u) \<noteq> folded uf (de_SN v)" for i u
        using bind_refusal_None [OF free, of i u] by (simp add: v_def)
      show ?thesis
      proof (cases rule: db_exec_cases [of "insert_device x v" d fs])
        case (failed fs')
        with b assms show ?thesis by (simp add: device_inv_txs)
      next
        case (ok d' fs')
        have "\<not> de_Online v" by (simp add: v_def)
        then have "device_inv uf (ds\<lparr>ds_devices := AList.update (de_ID v) v (ds_devices ds)\<rparr>, (d', fs'))"
          using insert_device_inv [OF assms ok(2)] new by blast
        then show ?thesis by (simp add: b ok(1) device_inv_def)
      qed
    qed
  qed (use assms Some in \<open>simp add: device_Bind_def nm_def Let_def\<close>)
qed (use assms in \<open>simp add: device_Bind_def\<close>)

lemma device_Unbind_inv:
  assumes "device_inv uf (ds, (d, fs))"
  shows "device_inv uf (snd (device_Unbind owner i (ds, (d, fs))))"
proof (cases "device_Get owner i ds")
  case None
  with assms show ?thesis by (simp add: device_Unbind_def)
next
  case (Some v)
  let ?rs = "control_devices d" and ?P = "\<lambda>r. dv_id r = i \<and> dv_owner r = owner"
  from Some have v: "(i, v) \<in> set (ds_devices ds)" "de_Owner v = owner"
    by (auto simp: device_Get_def split: option.splits if_splits dest: map_of_SomeD)
  have agree: "devices_agree (ds_devices ds) ?rs" and ok: "device_rows_ok uf ?rs" using assms by (simp_all add: device_inv_def)
  from agree v(1) obtain r where r: "r \<in> set ?rs" "dv_id r = i" "same_device v r" unfolding devices_agree_def by blast
  have only: "?P q" if "q \<in> set ?rs" "dv_id q = i" for q
  proof -
    have "q = r" using ok r that by (auto simp: device_rows_ok_def distinct_map inj_on_def)
    then show ?thesis using r v(2) by (simp add: same_device_sel)
  qed
  have ag: "devices_agree (AList.delete i (ds_devices ds)) (filter (\<lambda>r. \<not> ?P r) ?rs)"
    by (rule agree_delete [OF agree only]) auto
  have rows: "device_rows_ok uf (filter (\<lambda>r. \<not> ?P r) ?rs)"
    using ok by (rule device_rows_ok_filter)
  show ?thesis
    by (rule db_exec_cases [of "delete_device i owner" d fs])
       (use assms Some ag rows in \<open>auto simp: device_Unbind_def device_inv_def delete_device_def\<close>)
qed

interpretation devices: invariant_machine "device_step k uf x" "device_inv uf" for k uf x
proof
  fix dw op
  assume inv: "device_inv uf dw"
  obtain ds d fs where dw: "dw = (ds, (d, fs))" by (metis prod.exhaust)
  show "device_inv uf (device_step k uf x dw op)"
    using inv by (cases op) (simp_all add: dw device_Bind_inv device_Unbind_inv)
qed

text \<open>The table a process starts with.\<close>

lemma NewDeviceStore_inv:
  "\<not> faulty fs \<Longrightarrow> device_rows_ok uf (control_devices d) \<Longrightarrow> device_inv uf (NewDeviceStore (d, fs))"
  by (auto simp: NewDeviceStore_def tx_query_def tx_stmt_def device_inv_def load_agrees device_rows_ok_def)

lemma agree_offline:
  assumes "devices_agree (ds_devices ds) rs" and "device_Get owner i ds = Some v"
  shows "\<not> de_Online v"
proof -
  from assms(2) have "(i, v) \<in> set (ds_devices ds)" by (auto simp: device_Get_def split: option.splits if_splits dest: map_of_SomeD)
  with assms(1) obtain r where "same_device v r" unfolding devices_agree_def by blast
  then show ?thesis by (rule same_device_sel)
qed

lemma run_device_inv:
  assumes "\<not> faulty fs" and "device_rows_ok uf (control_devices d)"
  shows "device_inv uf (run (device_step k uf x) (NewDeviceStore (d, fs)) ops)"
  using devices.run_inv [OF NewDeviceStore_inv [OF assms]] .

lemma device_offline:
  assumes "\<not> faulty fs" and "device_rows_ok uf (control_devices d)"
    and "device_Get owner i (fst (run (device_step k uf x) (NewDeviceStore (d, fs)) ops)) = Some v"
  shows "\<not> de_Online v"
  using run_device_inv [OF assms(1,2), of k x ops] agree_offline [OF _ assms(3)] unfolding device_inv_def by blast

text \<open>
  C37. A device that was bound stays bound, and no two consoles share a serial number. From a process
  that has read its devices, after any sequence of bindings and unbindings with any failures of the
  database, memory and rows hold the same devices, all offline, and the serial numbers of consoles
  differ even without regard to case, in memory and in the rows that a restart reads.
\<close>

theorem devices_durable:
  assumes "\<not> faulty fs" and "device_rows_ok uf (control_devices d)"
    and "run (device_step k uf x) (NewDeviceStore (d, fs)) ops = (ds', (d', fs'))"
  shows "devices_agree (ds_devices ds') (control_devices d') \<and> device_rows_ok uf (control_devices d') \<and>
    (\<forall>owner i v. device_Get owner i ds' = Some v \<longrightarrow> \<not> de_Online v)"
proof -
  have inv: "device_inv uf (ds', (d', fs'))" using run_device_inv [OF assms(1,2), of k x ops] by (simp add: assms(3))
  then have "\<not> de_Online v" if "device_Get owner i ds' = Some v" for owner i v
    using agree_offline [OF _ that] unfolding device_inv_def by auto
  with inv show ?thesis unfolding device_inv_def by auto
qed

definition demo_owner_db :: db where
  "demo_owner_db = empty_db\<lparr>auth_users := [\<lparr>us_username = ''eve'', us_display = [], us_role = ''user'', us_groups = [], us_phone = [],
     us_pass_hash = [], us_salt = [], us_created_ns = 0, us_pass_set_ns = 0\<rparr>]\<rparr>"

theorem devices_durable_witness:
  "\<exists>ds' s'. run (device_step demo_kdf (\<lambda>r. r) demo_ext) (NewDeviceStore (demo_owner_db, []))
      [DevBind 5 ''s'' ''1'' ''eve'' ''keyboard'' ''k1'' [] [] [], DevBind 6 ''s'' ''2'' ''eve'' ''wheel'' [] [] [] [], DevUnbind ''eve'' ''dev-1''] = (ds', s') \<and>
    map fst (ds_devices ds') = [''dev-2''] \<and> map dv_id (control_devices (fst s')) = [''dev-2''] \<and>
    devices_agree (ds_devices ds') (control_devices (fst s'))"
proof -
  let ?ops = "[DevBind 5 ''s'' ''1'' ''eve'' ''keyboard'' ''k1'' [] [] [], DevBind 6 ''s'' ''2'' ''eve'' ''wheel'' [] [] [] [], DevUnbind ''eve'' ''dev-1'']"
  let ?run = "run (device_step demo_kdf (\<lambda>r. r) demo_ext) (NewDeviceStore (demo_owner_db, [])) ?ops"
  have ids: "(\<lambda>dw. (map fst (ds_devices (fst dw)), map dv_id (control_devices (fst (snd dw))))) ?run = ([''dev-2''], [''dev-2''])" by code_simp
  obtain ds' d' fs' where r: "?run = (ds', (d', fs'))" by (metis prod.exhaust)
  have "\<not> faulty []" "device_rows_ok (\<lambda>r. r) (control_devices demo_owner_db)" by (simp_all add: device_rows_ok_def demo_owner_db_def empty_db_def)
  from devices_durable [OF this r] ids r show ?thesis by auto
qed

end
