(* ===== verification/Takeover_Props.thy ===== *)
theory Takeover_Props
  imports Takeover Device_Props Authority_Props
begin

text \<open>
  What the takeover registry shows, and what its routes can do with the devices as they are.
\<close>

section \<open>The registry as a list of entries\<close>

text \<open>A registry in which both maps hold the same pointers.\<close>

definition reg_of :: "takeover_ref list \<Rightarrow> nat \<Rightarrow> TakeoverReg" where
  "reg_of ps n = \<lparr>tr_byUser = map (\<lambda>p. (at_Driver (snd p), p)) ps, tr_byVehicle = map (\<lambda>p. (at_VehicleID (snd p), p)) ps, tr_next = n\<rparr>"

definition reg_ok :: "takeover_ref list \<Rightarrow> bool" where
  "reg_ok ps \<longleftrightarrow> distinct (map (at_Driver \<circ> snd) ps) \<and> distinct (map (at_VehicleID \<circ> snd) ps) \<and> distinct (map fst ps)"

lemma update_new_key: "k \<notin> fst ` set al \<Longrightarrow> AList.update k v al = al @ [(k, v)]"
  by (rule update_new)

lemma add_takeover_reg:
  assumes "at_Driver a \<notin> (at_Driver \<circ> snd) ` set ps" and "at_VehicleID a \<notin> (at_VehicleID \<circ> snd) ` set ps"
  shows "add_takeover a (reg_of ps n) = reg_of (ps @ [(n, a)]) (Suc n)"
proof -
  have "at_Driver a \<notin> fst ` set (map (\<lambda>p. (at_Driver (snd p), p)) ps)" "at_VehicleID a \<notin> fst ` set (map (\<lambda>p. (at_VehicleID (snd p), p)) ps)"
    using assms by (auto simp: image_image comp_def)
  then show ?thesis by (simp add: add_takeover_def reg_of_def update_new)
qed

lemma fold_add_takeover:
  assumes "distinct (map cl_driver rs)" and "distinct (map cl_vehicle rs)"
  shows "fold (\<lambda>r. add_takeover (takeover_of_row r)) rs (reg_of [] n) =
    reg_of (zip [n..<n + length rs] (map takeover_of_row rs)) (n + length rs)"
  using assms
proof (induction rs rule: rev_induct)
  case (snoc r rs)
  let ?ps = "zip [n..<n + length rs] (map takeover_of_row rs)"
  have drv: "at_Driver (takeover_of_row r) = cl_driver r" "at_VehicleID (takeover_of_row r) = cl_vehicle r"
    "at_Driver (takeover_of_row q) = cl_driver q" "at_VehicleID (takeover_of_row q) = cl_vehicle q" for q
    by (simp_all add: takeover_of_row_def)
  have "snd ` set ?ps \<subseteq> takeover_of_row ` set rs" by (auto dest: set_zip_rightD)
  then have "at_Driver (takeover_of_row r) \<notin> (at_Driver \<circ> snd) ` set ?ps" "at_VehicleID (takeover_of_row r) \<notin> (at_VehicleID \<circ> snd) ` set ?ps"
    using snoc.prems drv by (force simp: image_iff subset_iff)+
  from add_takeover_reg [OF this] snoc show ?case by simp
qed simp

lemma reg_ok_zip:
  assumes "distinct (map cl_driver rs)" and "distinct (map cl_vehicle rs)"
  shows "reg_ok (zip [n..<n + length rs] (map takeover_of_row rs))"
proof -
  let ?zs = "zip [n..<n + length rs] (map takeover_of_row rs)"
  have "map (f \<circ> snd) ?zs = map (f \<circ> takeover_of_row) rs" for f :: "ActiveTakeover \<Rightarrow> string"
  proof -
    have "map (f \<circ> snd) ?zs = map f (map snd ?zs)" by (simp only: map_map)
    also have "map snd ?zs = map takeover_of_row rs" by simp
    finally show ?thesis by (simp only: map_map comp_def)
  qed
  then have "map (at_Driver \<circ> snd) ?zs = map cl_driver rs" "map (at_VehicleID \<circ> snd) ?zs = map cl_vehicle rs"
    by (simp_all add: takeover_of_row_def comp_def)
  then show ?thesis using assms by (simp add: reg_ok_def)
qed

text \<open>Collecting expired entries filters both maps alike.\<close>

lemma reg_ok_eq:
  "reg_ok ps \<Longrightarrow> p \<in> set ps \<Longrightarrow> q \<in> set ps \<Longrightarrow> at_Driver (snd q) = at_Driver (snd p) \<longleftrightarrow> q = p"
  "reg_ok ps \<Longrightarrow> p \<in> set ps \<Longrightarrow> q \<in> set ps \<Longrightarrow> at_VehicleID (snd q) = at_VehicleID (snd p) \<longleftrightarrow> q = p"
  by (auto simp: reg_ok_def distinct_map inj_on_def)

lemma reg_lookup:
  assumes "reg_ok ps" and "p \<in> set ps"
  shows "map_of (tr_byUser (reg_of ps n)) (at_Driver (snd p)) = Some p" and "map_of (tr_byVehicle (reg_of ps n)) (at_VehicleID (snd p)) = Some p"
  using assms by (auto simp: reg_of_def reg_ok_def comp_def intro!: map_of_is_SomeI)

lemma drop_entry_reg:
  assumes "reg_ok ps" and "p \<in> set ps"
  shows "drop_entry (at_Driver (snd p)) p (reg_of ps n) = reg_of (filter (\<lambda>q. q \<noteq> p) ps) n"
proof -
  have del: "AList.delete (f (snd p)) (map (\<lambda>q. (f (snd q), q)) ps) = map (\<lambda>q. (f (snd q), q)) (filter (\<lambda>q. q \<noteq> p) ps)"
    if "\<And>q. q \<in> set ps \<Longrightarrow> f (snd q) = f (snd p) \<longleftrightarrow> q = p" for f :: "ActiveTakeover \<Rightarrow> string"
  proof -
    have "filter (\<lambda>q. f (snd p) \<noteq> f (snd q)) ps = filter (\<lambda>q. q \<noteq> p) ps"
      by (rule filter_cong [OF refl]) (metis that)
    then show ?thesis by (simp add: AList.delete_eq filter_map comp_def)
  qed
  show ?thesis
    using del [of at_Driver] del [of at_VehicleID] reg_ok_eq [OF assms] reg_lookup(2) [OF assms, of n]
    by (simp add: drop_entry_def reg_of_def)
qed

definition expired_at :: "int \<Rightarrow> takeover_ref \<Rightarrow> bool" where
  "expired_at now p \<longleftrightarrow> now > at_UntilNS (snd p) + takeoverGraceNS"

lemma reg_ok_filter: "reg_ok ps \<Longrightarrow> reg_ok (filter P ps)"
  by (simp add: reg_ok_def distinct_map_filter)

lemma gc_fold:
  assumes "reg_ok ps" and "set qs \<subseteq> set ps" and "distinct qs"
  shows "fold (\<lambda>(u, p) t. if now > at_UntilNS (snd p) + takeoverGraceNS then drop_entry u p t else t) (map (\<lambda>p. (at_Driver (snd p), p)) qs) (reg_of ps n) =
    reg_of (filter (\<lambda>p. \<not> (p \<in> set qs \<and> expired_at now p)) ps) n"
  using assms
proof (induction qs arbitrary: ps)
  case (Cons q qs)
  let ?ps = "if expired_at now q then filter (\<lambda>p. p \<noteq> q) ps else ps"
  have "reg_ok ?ps" using Cons.prems(1) by (simp add: reg_ok_filter)
  moreover have "set qs \<subseteq> set ?ps" using Cons.prems(2,3) by auto
  ultimately have "fold (\<lambda>(u, p) t. if now > at_UntilNS (snd p) + takeoverGraceNS then drop_entry u p t else t) (map (\<lambda>p. (at_Driver (snd p), p)) qs) (reg_of ?ps n) =
    reg_of (filter (\<lambda>p. \<not> (p \<in> set qs \<and> expired_at now p)) ?ps) n"
    using Cons.IH Cons.prems(3) by simp
  moreover have "filter (\<lambda>p. \<not> (p \<in> set qs \<and> expired_at now p)) ?ps = filter (\<lambda>p. \<not> (p \<in> set (q # qs) \<and> expired_at now p)) ps"
    by (auto intro!: filter_cong)
  moreover have "(if now > at_UntilNS (snd q) + takeoverGraceNS then drop_entry (at_Driver (snd q)) q (reg_of ps n) else reg_of ps n) = reg_of ?ps n"
    using drop_entry_reg [OF Cons.prems(1), of q n] Cons.prems(2) by (simp add: expired_at_def)
  ultimately show ?case by (simp only: list.map fold_simps case_prod_conv)
qed simp

lemma gcLocked_reg: "reg_ok ps \<Longrightarrow> gcLocked now (reg_of ps n) = reg_of (filter (\<lambda>p. \<not> expired_at now p) ps) n"
proof -
  assume ok: "reg_ok ps"
  then have "distinct ps" by (auto simp: reg_ok_def distinct_map)
  have "filter (\<lambda>p. \<not> (p \<in> set ps \<and> expired_at now p)) ps = filter (\<lambda>p. \<not> expired_at now p) ps" by (auto intro!: filter_cong)
  with gc_fold [OF ok subset_refl \<open>distinct ps\<close>, of now n] show ?thesis by (simp add: gcLocked_def reg_of_def)
qed

section \<open>The registry shows the active leases\<close>

definition shown_leases :: "int \<Rightarrow> int \<Rightarrow> db \<Rightarrow> lease_row list" where
  "shown_leases dbnow now d = filter (\<lambda>r. \<not> now > cl_valid_until r) (live_leases dbnow d)"

lemma live_leases_distinct:
  assumes "lease_inv d"
  shows "distinct (map cl_driver (live_leases dbnow d))" and "distinct (map cl_vehicle (live_leases dbnow d))"
proof -
  have "live_leases dbnow d = filter (\<lambda>r. cl_valid_until r > dbnow) (filter active_row (control_leases d))"
    by (auto simp: live_leases_def active_row_def intro!: filter_cong)
  then show "distinct (map cl_driver (live_leases dbnow d))" "distinct (map cl_vehicle (live_leases dbnow d))"
    using assms by (simp_all only: lease_inv_def distinct_map_filter)
qed

lemma look_takeover_reg:
  assumes "lease_inv d" and "\<not> faulty fs"
  obtains ps n where "look_takeover dbnow now (t, (d, fs)) = (reg_of ps n, (d, tl fs))" and "reg_ok ps"
    and "map snd ps = map takeover_of_row (shown_leases dbnow now d)"
proof -
  let ?rs = "live_leases dbnow d" and ?n = "tr_next t"
  let ?zs = "zip [?n..<?n + length ?rs] (map takeover_of_row ?rs)"
  note dist = live_leases_distinct [OF assms(1), of dbnow]
  have "refreshFromDB dbnow (t, (d, fs)) = (reg_of ?zs (?n + length ?rs), (d, tl fs))"
    using assms(2) fold_add_takeover [OF dist, of ?n] by (simp add: refreshFromDB_def tx_query_def tx_stmt_def reg_of_def)
  then have "look_takeover dbnow now (t, (d, fs)) = (reg_of (filter (\<lambda>p. \<not> expired_at now p) ?zs) (?n + length ?rs), (d, tl fs))"
    by (simp add: look_takeover_def gcLocked_reg [OF reg_ok_zip [OF dist]])
  moreover have "map snd (filter (\<lambda>p. \<not> expired_at now p) ?zs) = filter (\<lambda>a. \<not> now > at_UntilNS a + takeoverGraceNS) (map snd ?zs)"
    by (simp only: filter_map comp_def expired_at_def)
  then have "map snd (filter (\<lambda>p. \<not> expired_at now p) ?zs) = map takeover_of_row (shown_leases dbnow now d)"
    by (simp add: filter_map comp_def shown_leases_def takeover_of_row_def takeoverGraceNS_def)
  ultimately show thesis using that reg_ok_filter [OF reg_ok_zip [OF dist]] by blast
qed

lemma keyed_lookup:
  assumes "distinct (map (f \<circ> snd) ps)"
  shows "map_option snd (map_of (map (\<lambda>p. (f (snd p), p)) ps) k) = Some a \<longleftrightarrow> a \<in> snd ` set ps \<and> f a = k"
proof
  assume "map_option snd (map_of (map (\<lambda>p. (f (snd p), p)) ps) k) = Some a"
  then obtain p where "map_of (map (\<lambda>p. (f (snd p), p)) ps) k = Some p" "a = snd p" by auto
  then have "(k, p) \<in> set (map (\<lambda>p. (f (snd p), p)) ps)" by (blast dest: map_of_SomeD)
  with \<open>a = snd p\<close> show "a \<in> snd ` set ps \<and> f a = k" by auto
next
  assume "a \<in> snd ` set ps \<and> f a = k"
  then obtain p where "p \<in> set ps" "a = snd p" "f (snd p) = k" by blast
  moreover have "distinct (map fst (map (\<lambda>p. (f (snd p), p)) ps))" using assms by (simp add: comp_def)
  ultimately have "map_of (map (\<lambda>p. (f (snd p), p)) ps) k = Some p" by (intro map_of_is_SomeI) auto
  with \<open>a = snd p\<close> show "map_option snd (map_of (map (\<lambda>p. (f (snd p), p)) ps) k) = Some a" by simp
qed

lemma reg_find:
  assumes "reg_ok ps" and "map snd ps = map takeover_of_row rs"
  shows "map_option snd (map_of (tr_byUser (reg_of ps n)) u) = Some a \<longleftrightarrow> (\<exists>r \<in> set rs. cl_driver r = u \<and> a = takeover_of_row r)"
    and "map_option snd (map_of (tr_byVehicle (reg_of ps n)) v) = Some a \<longleftrightarrow> (\<exists>r \<in> set rs. cl_vehicle r = v \<and> a = takeover_of_row r)"
proof -
  have mem: "snd ` set ps = takeover_of_row ` set rs" using assms(2) by (metis set_map)
  show "map_option snd (map_of (tr_byUser (reg_of ps n)) u) = Some a \<longleftrightarrow> (\<exists>r \<in> set rs. cl_driver r = u \<and> a = takeover_of_row r)"
    "map_option snd (map_of (tr_byVehicle (reg_of ps n)) v) = Some a \<longleftrightarrow> (\<exists>r \<in> set rs. cl_vehicle r = v \<and> a = takeover_of_row r)"
    using assms(1) keyed_lookup [of at_Driver ps u a] keyed_lookup [of at_VehicleID ps v a]
    by (auto simp: reg_ok_def reg_of_def mem takeover_of_row_def)
qed

text \<open>
  C36. The registry shows the active leases and nothing else. Where the leases satisfy the rules of the
  authority and the query succeeds, looking up an account finds a takeover exactly when the account
  holds a lease that is active, unexpired for the database and not past its end for the process, and
  it is that lease; looking up a vehicle finds it likewise. An account is shown with one vehicle and
  a vehicle with one account, whatever the registry held before.
\<close>

theorem registry_shows_leases:
  assumes "lease_inv d" and "\<not> faulty fs"
  shows "(\<forall>u a. fst (Mine dbnow now u (t, (d, fs))) = Some a \<longleftrightarrow>
      (\<exists>r \<in> set (control_leases d). active_row r \<and> cl_valid_until r > dbnow \<and> now \<le> cl_valid_until r \<and> cl_driver r = u \<and> a = takeover_of_row r)) \<and>
    (\<forall>v a. fst (ByVehicle dbnow now v (t, (d, fs))) = Some a \<longleftrightarrow>
      (\<exists>r \<in> set (control_leases d). active_row r \<and> cl_valid_until r > dbnow \<and> now \<le> cl_valid_until r \<and> cl_vehicle r = v \<and> a = takeover_of_row r)) \<and>
    (\<forall>u a. fst (Mine dbnow now u (t, (d, fs))) = Some a \<longrightarrow> fst (ByVehicle dbnow now (at_VehicleID a) (t, (d, fs))) = Some a \<and> at_Driver a = u)"
proof -
  obtain ps n where look: "look_takeover dbnow now (t, (d, fs)) = (reg_of ps n, (d, tl fs))" and ps: "reg_ok ps"
    "map snd ps = map takeover_of_row (shown_leases dbnow now d)" using look_takeover_reg [OF assms] .
  have set: "r \<in> set (shown_leases dbnow now d) \<longleftrightarrow> r \<in> set (control_leases d) \<and> active_row r \<and> cl_valid_until r > dbnow \<and> now \<le> cl_valid_until r" for r
    by (auto simp: shown_leases_def live_leases_def active_row_def)
  have user: "fst (Mine dbnow now u (t, (d, fs))) = Some a \<longleftrightarrow> (\<exists>r \<in> set (shown_leases dbnow now d). cl_driver r = u \<and> a = takeover_of_row r)" for u a
    unfolding Mine_def Let_def look fst_conv by (rule reg_find(1) [OF ps])
  have vehicle: "fst (ByVehicle dbnow now v (t, (d, fs))) = Some a \<longleftrightarrow> (\<exists>r \<in> set (shown_leases dbnow now d). cl_vehicle r = v \<and> a = takeover_of_row r)" for v a
    unfolding ByVehicle_def Let_def look fst_conv by (rule reg_find(2) [OF ps])
  have ids: "at_VehicleID (takeover_of_row r) = cl_vehicle r" "at_Driver (takeover_of_row r) = cl_driver r" for r
    by (simp_all add: takeover_of_row_def)
  show ?thesis unfolding user vehicle using ids by (auto simp: set)
qed

section \<open>Nobody can take over\<close>

text \<open>
  C40. Nobody can take over a vehicle. Devices are bound offline and restored offline, and nothing brings
  one online; so in a process that has read its devices, after any bindings and unbindings, every
  request to take a vehicle is refused and changes nothing, for every account, vehicle and device.
\<close>

theorem nobody_can_take_over:
  assumes "\<not> faulty fs" and "device_rows_ok uf (control_devices d)"
    and "sv_devices sv = fst (run (device_step k uf x) (NewDeviceStore (d, fs)) ops)"
  shows "\<exists>code. take_vehicle w x' a fl rd sess vid devID sv = (TkRefused code, sv)"
proof -
  have off: "\<not> de_Online v" if "device_Get owner i (sv_devices sv) = Some v" for owner i v
    using device_offline [OF assms(1,2)] that unfolding assms(3) .
  show ?thesis
  proof (cases sess)
    case (Some s)
    have "take_refusal fl (tk_now rd) s vid devID sv \<noteq> None"
      using off [of "s_Username s" devID] by (cases "device_Get (s_Username s) devID (sv_devices sv)") (simp_all add: take_refusal_def)
    with Some show ?thesis by (auto simp: take_vehicle_def)
  qed (simp add: take_vehicle_def)
qed

section \<open>Witnesses\<close>

definition demo_lease_row :: lease_row where
  "demo_lease_row = \<lparr>cl_id = ''l1'', cl_vehicle = ''v1'', cl_gateway = ''g1'', cl_driver = ''eve'', cl_device = ''d'', cl_fencing = 1,
     cl_state = ''active'', cl_issued_at = 1, cl_valid_until = 9, cl_released_at = None, cl_release_reason = []\<rparr>"

definition demo_leases_db :: db where
  "demo_leases_db = empty_db\<lparr>control_leases := [demo_lease_row],
     vehicle_control_epochs := [\<lparr>ep_vehicle = ''v1'', ep_fencing = 1, ep_active_lease = Some ''l1''\<rparr>]\<rparr>"

theorem registry_shows_leases_witness:
  "fst (Mine 3 3 ''eve'' (NewTakeoverReg, (demo_leases_db, []))) = Some (takeover_of_row demo_lease_row) \<and>
   fst (ByVehicle 3 3 ''v1'' (NewTakeoverReg, (demo_leases_db, []))) = Some (takeover_of_row demo_lease_row)"
proof -
  have "lease_inv demo_leases_db" "\<not> faulty []"
    by (auto simp: lease_inv_def demo_leases_db_def demo_lease_row_def empty_db_def fencing_of_def epoch_of_def active_row_def int64_max_def)
  from registry_shows_leases [OF this, of 3 3 NewTakeoverReg] show ?thesis
    by (auto simp: demo_leases_db_def demo_lease_row_def active_row_def)
qed

definition demo_services :: services where
  "demo_services = \<lparr>sv_devices = fst (run (device_step demo_kdf (\<lambda>r. r) demo_ext) (NewDeviceStore (demo_owner_db, []))
       [DevBind 5 ''s'' ''1'' ''eve'' ''keyboard'' ''k1'' [] [] []]),
     sv_tkreg = NewTakeoverReg, sv_world = (NewState [] None, (demo_leases_db, [])), sv_takeover = no_takeover\<rparr>"

definition demo_operator :: Session where
  "demo_operator = \<lparr>s_Token = ''t'', s_Username = ''eve'', s_Role = ''super'', s_Groups = [], s_CreatedNS = 0, s_lastUse = time_unix 5\<rparr>"

theorem nobody_can_take_over_witness:
  "\<exists>code. take_vehicle plain_wire demo_ext demo_authority Fin \<lparr>tk_now = time_unix 5, tk_dbnow = 5, tk_auth = demo_readings 5 ''r''\<rparr>
      (Some demo_operator) ''v1'' ''dev-1'' demo_services = (TkRefused code, demo_services)"
proof -
  have "\<not> faulty []" "device_rows_ok (\<lambda>r. r) (control_devices demo_owner_db)" by (simp_all add: device_rows_ok_def demo_owner_db_def empty_db_def)
  moreover have "sv_devices demo_services = fst (run (device_step demo_kdf (\<lambda>r. r) demo_ext) (NewDeviceStore (demo_owner_db, []))
       [DevBind 5 ''s'' ''1'' ''eve'' ''keyboard'' ''k1'' [] [] []])" by (simp only: demo_services_def services.select_convs)
  ultimately show ?thesis by (rule nobody_can_take_over)
qed

end
