(* ===== verification/Workspace_Props.thy ===== *)
theory Workspace_Props
  imports Workspace Takeover_Props Tx_Relation
begin

text \<open>
  Remote maintenance needs two people: whatever the requests and whatever fails, a session exists only
  for the operator and the vehicle of an approval that somebody else granted, and ends with it.
\<close>

section \<open>What the routes leave alone\<close>

definition workspace_view :: "db \<Rightarrow> approval_row list \<times> workspace_row list" where
  "workspace_view d = (workspace_approvals d, workspace_sessions d)"

interpretation ws_fleet: fleet_view workspace_view
  by unfold_locales (simp_all add: workspace_view_def)

interpretation ws_outbox: fleet_view platform_outbox
  by unfold_locales simp_all

definition workspace_same :: "db \<Rightarrow> db \<Rightarrow> bool" where
  "workspace_same d d' \<longleftrightarrow> workspace_view d' = workspace_view d"

interpretation ws_tx: tx_relation workspace_same
  by unfold_locales (simp_all add: workspace_same_def)

lemma enqueue_within: "tx_within workspace_same (enqueueOutboxTx x now rnd g ch ty i payload)"
  unfolding enqueueOutboxTx_def insertOutbox_def
  by (intro ws_tx.within_intros) (auto simp: workspace_same_def workspace_view_def split: if_splits)

lemma terminal_within:
  "tx_within workspace_same (publishTerminalGrantTx w x mt a rd sid v g driver dev token until)"
  unfolding publishTerminalGrantTx_def Let_def
  by (intro ws_tx.within_intros enqueue_within) (auto intro!: ws_tx.within_intros enqueue_within split: sum.split)

definition sv_db :: "services \<Rightarrow> db" where "sv_db sv = fst (sv_txs sv)"

lemma sv_event_view [simp]: "workspace_view (sv_db (sv_event now level v et kind sv)) = workspace_view (sv_db sv)"
  by (simp add: sv_event_def sv_db_def sv_txs_def)

lemma sv_event_outbox [simp]: "platform_outbox (sv_db (sv_event now level v et kind sv)) = platform_outbox (sv_db sv)"
  by (simp add: sv_event_def sv_db_def sv_txs_def)

lemma sv_query_db: "sv_query q sv = (r, sv') \<Longrightarrow> sv_db sv' = sv_db sv \<and> (\<forall>y. r = Some y \<longrightarrow> y = q (sv_db sv)) \<and> sv_devices sv' = sv_devices sv"
  by (cases "sv_txs sv")
     (auto simp: sv_query_def sv_db_def sv_txs_def tx_query_def tx_stmt_def split: if_splits)

lemma sv_exec_db:
  assumes "sv_exec g sv = (ok, sv')"
  shows "(ok \<and> g (sv_db sv) = Some ((), sv_db sv')) \<or> (\<not> ok \<and> sv_db sv' = sv_db sv)"
proof -
  obtain st d fs where w: "sv_world sv = (st, (d, fs))" by (metis prod.exhaust)
  show ?thesis
    by (rule db_exec_cases [of g d fs]) (use assms w in \<open>auto simp: sv_exec_def sv_db_def sv_txs_def\<close>)
qed

lemma sv_update_db: "sv_update u sv = (r, sv') \<Longrightarrow> sv_db sv' = sv_db sv \<or> (sv_db sv' = snd (u (sv_db sv)) \<and> r = Some (fst (u (sv_db sv))))"
  by (cases "sv_txs sv"; cases "u (fst (sv_txs sv))")
     (auto simp: sv_update_def sv_db_def sv_txs_def tx_stmt_def split: if_splits)

section \<open>The invariant\<close>

text \<open>A stored time keeps its order and is read as it was stored (\<open>timestamptz\<close> has microseconds).\<close>

definition timestamps :: "ext \<Rightarrow> bool" where
  "timestamps x \<longleftrightarrow> (\<forall>t. x_ts x (x_ts x t) = x_ts x t) \<and> (\<forall>s t. s \<le> t \<longrightarrow> x_ts x s \<le> x_ts x t)"

definition granted :: "approval_row \<Rightarrow> workspace_row \<Rightarrow> bool" where
  "granted a s \<longleftrightarrow> wa_id a = wk_approval s \<and> wa_state a = ''approved'' \<and> wa_requester a = wk_operator s \<and> wa_vehicle a = wk_vehicle s \<and>
     wa_approver a \<noteq> wa_requester a \<and> wk_expires_at s \<le> wa_expires_at a"

definition workspace_ok :: "ext \<Rightarrow> approval_row list \<times> workspace_row list \<Rightarrow> bool" where
  "workspace_ok x v \<longleftrightarrow> distinct (map wa_id (fst v)) \<and>
     (\<forall>a \<in> set (fst v). x_ts x (wa_expires_at a) = wa_expires_at a \<and> (wa_state a = ''approved'' \<longrightarrow> wa_approver a \<noteq> wa_requester a)) \<and>
     (\<forall>s \<in> set (snd v). \<exists>a \<in> set (fst v). granted a s)"

abbreviation sv_ok :: "ext \<Rightarrow> services \<Rightarrow> bool" where "sv_ok x sv \<equiv> workspace_ok x (workspace_view (sv_db sv))"

lemma insert_approval_ok:
  assumes "timestamps x" and "workspace_ok x (workspace_view d)" and "insert_approval x dbnow i v r scope reason expires d = Some ((), d')"
  shows "workspace_ok x (workspace_view d')"
  using assms by (auto simp: workspace_ok_def workspace_view_def insert_approval_def timestamps_def split: if_splits)

text \<open>The approval of one request that is still open does not touch the approvals of sessions.\<close>

lemma approve_stmt_ok:
  assumes "workspace_ok x (workspace_view d)" and "\<And>r. r \<in> set (workspace_approvals d) \<Longrightarrow> wa_id r = i \<Longrightarrow> wa_requester r \<noteq> who"
  shows "workspace_ok x (workspace_view (snd (approve_stmt dbnow who i d)))"
proof -
  let ?u = "\<lambda>r. r\<lparr>wa_state := ''approved'', wa_approver := who, wa_decided_at := Some dbnow\<rparr>"
  let ?as = "update_where (approve_where dbnow i) ?u (workspace_approvals d)"
  have keep: "a \<in> set ?as" if "a \<in> set (workspace_approvals d)" "wa_state a = ''approved''" for a
    using that by (auto simp: set_update_where approve_where_def intro!: bexI [of _ a])
  have "x_ts x (wa_expires_at a) = wa_expires_at a \<and> (wa_state a = ''approved'' \<longrightarrow> wa_approver a \<noteq> wa_requester a)" if "a \<in> set ?as" for a
  proof -
    from that obtain q where q: "q \<in> set (workspace_approvals d)" "a = (if approve_where dbnow i q then ?u q else q)" by (auto simp: set_update_where)
    with assms(1) have "x_ts x (wa_expires_at q) = wa_expires_at q \<and> (wa_state q = ''approved'' \<longrightarrow> wa_approver q \<noteq> wa_requester q)"
      by (simp add: workspace_ok_def workspace_view_def)
    then show ?thesis using q(2) assms(2) [OF q(1)] by (auto simp: approve_where_def)
  qed
  moreover have "\<exists>a \<in> set ?as. granted a s" if "s \<in> set (workspace_sessions d)" for s
    using that assms(1) keep by (fastforce simp: workspace_ok_def workspace_view_def granted_def)
  moreover have "distinct (map wa_id ?as)" using assms(1) by (simp add: workspace_ok_def workspace_view_def)
  ultimately show ?thesis by (simp add: workspace_ok_def workspace_view_def approve_stmt_def)
qed

lemma close_stmt_ok:
  assumes "workspace_ok x (workspace_view d)"
  shows "workspace_ok x (workspace_view (snd (close_stmt dbnow reason i who d)))"
proof -
  let ?u = "\<lambda>r. r\<lparr>wk_state := ''closed'', wk_closed_at := Some dbnow, wk_close_reason := reason\<rparr>"
  have "\<exists>a \<in> set (workspace_approvals d). granted a s" if "s \<in> set (update_where (close_where i who) ?u (workspace_sessions d))" for s
  proof -
    from that obtain q where q: "q \<in> set (workspace_sessions d)" "s = (if close_where i who q then ?u q else q)" by (auto simp: set_update_where)
    have same: "granted a (?u q) = granted a q" for a by (simp add: granted_def)
    from q(1) assms obtain a where "a \<in> set (workspace_approvals d)" "granted a q" by (auto simp: workspace_ok_def workspace_view_def)
    then show ?thesis using q(2) same by auto
  qed
  then show ?thesis using assms by (simp add: workspace_ok_def workspace_view_def close_stmt_def)
qed

lemma any_err_Inr: "any_err e m s = (Inr r, s') \<longleftrightarrow> m s = (Inr r, s')"
  by (auto simp: any_err_def split: prod.splits sum.splits)

text \<open>Opening a session: on success its row is granted by the approval that was read.\<close>

lemma usable_approval_row:
  assumes "usable_approval dbnow i who d = Some (v, g, expires)"
  obtains a where "a \<in> set (workspace_approvals d)" "wa_id a = i" "wa_requester a = who" "wa_state a = ''approved''" "wa_vehicle a = v" "wa_expires_at a = expires"
  using assms by (auto simp: usable_approval_def find_Some_iff split: option.splits) (metis nth_mem)

lemma open_body_Inr:
  assumes "open_body w x mt a rd sid appr v g who dev token until (d, fs) = (Inr u, (d', fs'))"
  shows "workspace_view d' = (workspace_approvals d, workspace_sessions d @ [new_workspace_row x (wr_dbnow rd) sid appr v g who dev token until])"
proof -
  let ?row = "new_workspace_row x (wr_dbnow rd) sid appr v g who dev token until"
  let ?pub = "publishTerminalGrantTx w x mt a rd sid v g who dev token until"
  from assms obtain d1 gs where ins: "insert_workspace_session ?row d = Some ((), d1)"
    and pub: "any_err SessionNotQueued ?pub (d1, gs) = (Inr u, (d', fs'))"
    by (auto simp: open_body_def)
  from ws_tx.withinD [OF terminal_within pub [unfolded any_err_Inr]] have "workspace_view d' = workspace_view d1" by (simp add: txs_rel_def workspace_same_def)
  then show ?thesis using ins by (auto simp: insert_workspace_session_def workspace_view_def split: if_splits)
qed

lemma session_row_ok:
  assumes "timestamps x" and "workspace_ok x (workspace_view d)" and "usable_approval dbnow i who d = Some (v, g, expires)"
    and "workspace_view d' = (workspace_approvals d, workspace_sessions d @ [new_workspace_row x t sid i v g who dev token (session_until now expires)])"
  shows "workspace_ok x (workspace_view d')"
proof -
  obtain a where a: "a \<in> set (workspace_approvals d)" "wa_id a = i" "wa_requester a = who" "wa_state a = ''approved''" "wa_vehicle a = v" "wa_expires_at a = expires"
    using usable_approval_row [OF assms(3)] .
  have ap: "x_ts x expires = expires" "wa_approver a \<noteq> wa_requester a" using assms(2) a by (auto simp: workspace_ok_def workspace_view_def)
  have "session_until now expires \<le> expires" by (simp add: session_until_def)
  then have "x_ts x (session_until now expires) \<le> expires" using assms(1) ap(1) by (metis timestamps_def)
  then have "granted a (new_workspace_row x t sid i v g who dev token (session_until now expires))"
    using a ap by (simp add: granted_def new_workspace_row_def)
  then show ?thesis using assms(2,4) a(1) by (auto simp: workspace_ok_def workspace_view_def)
qed

section \<open>Runs\<close>

text \<open>
  The requests of the routes that change something, events of the fleet, and devices changing in any
  way, also coming online.
\<close>

datatype workspace_op =
    WsRequest workspace_readings "Session option" string string string
  | WsApprove workspace_readings "Session option" string
  | WsOpen workspace_readings "Session option" string string
  | WsClose workspace_readings "Session option" string string
  | WsFleet fleet_op
  | WsDevices DeviceStore

fun workspace_step ::
  "wire \<Rightarrow> ext \<Rightarrow> (TerminalGrant \<Rightarrow> bytes option) \<Rightarrow> DurableAuthority \<Rightarrow> (rat \<Rightarrow> float64) \<Rightarrow> services \<Rightarrow> workspace_op \<Rightarrow> services" where
  "workspace_step w x mt a fl sv (WsRequest rd sess v scope reason) = snd (request_approval fl x rd sess v scope reason sv)"
| "workspace_step w x mt a fl sv (WsApprove rd sess i) = snd (approve_approval fl rd sess i sv)"
| "workspace_step w x mt a fl sv (WsOpen rd sess i dev) = snd (open_workspace w x mt a fl rd sess i dev sv)"
| "workspace_step w x mt a fl sv (WsClose rd sess i reason) = snd (close_session rd sess i reason sv)"
| "workspace_step w x mt a fl sv (WsFleet op) = sv\<lparr>sv_world := fleet_step fl x (sv_world sv) op\<rparr>"
| "workspace_step w x mt a fl sv (WsDevices ds) = sv\<lparr>sv_devices := ds\<rparr>"

lemma request_approval_ok:
  assumes "timestamps x" and "sv_ok x sv"
  shows "sv_ok x (snd (request_approval fl x rd sess v scope reason sv))"
proof -
  have ok: "sv_ok x sv1" if "sv_exec (insert_approval x t i v' r s p e) sv = (b, sv1)" for b sv1 t i v' r s p e
    using sv_exec_db [OF that] assms insert_approval_ok [OF assms(1), of "sv_db sv" t i v' r s p e "sv_db sv1"] by auto
  show ?thesis using assms(2)
    by (auto simp: request_approval_def Let_def dest: ok split: option.split prod.split bool.split)
qed

lemma approve_approval_ok:
  assumes "sv_ok x sv"
  shows "sv_ok x (snd (approve_approval fl rd sess i sv))"
proof (cases "requireRole [''super'', ''group_admin''] sess")
  case (Inr s)
  obtain r sv1 where q: "sv_query (\<lambda>d. find (\<lambda>r. wa_id r = i) (workspace_approvals d)) sv = (r, sv1)" by (metis prod.exhaust)
  note db1 = sv_query_db [OF q]
  have ok1: "sv_ok x sv1" using assms db1 by simp
  show ?thesis
  proof (cases "\<exists>row. r = Some (Some row) \<and> wa_requester row \<noteq> s_Username s")
    case True
    then obtain row where row: "r = Some (Some row)" "wa_requester row \<noteq> s_Username s" by blast
    with db1 have "find (\<lambda>r. wa_id r = i) (workspace_approvals (sv_db sv1)) = Some row" by simp
    then have "row \<in> set (workspace_approvals (sv_db sv1))" "wa_id row = i" by (auto simp: find_Some_iff)
    then have only: "wa_requester q \<noteq> s_Username s" if "q \<in> set (workspace_approvals (sv_db sv1))" "wa_id q = i" for q
      using ok1 row(2) that by (auto simp: workspace_ok_def workspace_view_def distinct_map inj_on_def)
    obtain n sv2 where u: "sv_update (approve_stmt (wr_dbnow rd) (s_Username s) i) sv1 = (n, sv2)" by (metis prod.exhaust)
    have "sv_ok x sv2" using sv_update_db [OF u] ok1 approve_stmt_ok [OF ok1, of i "s_Username s" "wr_dbnow rd"] only by auto
    then show ?thesis using Inr q row ok1 u
      by (auto simp: approve_approval_def split: option.split)
  next
    case False
    then show ?thesis using Inr q ok1 by (auto simp: approve_approval_def split: option.split)
  qed
qed (use assms in \<open>simp add: approve_approval_def\<close>)

lemma close_session_ok:
  assumes "sv_ok x sv"
  shows "sv_ok x (snd (close_session rd sess i reason sv))"
proof (cases sess)
  case (Some s)
  let ?r = "if trimRune reason 200 = [] then ''operator_close'' else trimRune reason 200"
  obtain n sv1 where u: "sv_update (close_stmt (wr_dbnow rd) ?r i (s_Username s)) sv = (n, sv1)" by (metis prod.exhaust)
  have "sv_ok x sv1" using sv_update_db [OF u] assms close_stmt_ok [OF assms, of "wr_dbnow rd" ?r i "s_Username s"] by auto
  then show ?thesis using u by (auto simp: close_session_def Some Let_def split: option.split)
qed (use assms in \<open>simp add: close_session_def\<close>)

text \<open>What opening a session does, on every path.\<close>

lemma open_workspace_cases:
  assumes "open_workspace w x mt a fl rd sess appr dev sv = (r, sv')"
  obtains (refused) code where "r = Inl code" "workspace_view (sv_db sv') = workspace_view (sv_db sv)" "platform_outbox (sv_db sv') = platform_outbox (sv_db sv)"
  | (opened) s v g expires sid token d fs fs' d' where "sess = Some s" "device_online (s_Username s) (trim_space dev) (sv_devices sv)"
      "usable_approval (wr_dbnow rd) (trim_space appr) (s_Username s) d = Some (v, g, expires)" "d = sv_db sv" "wr_token rd = Some token"
      "open_body w x mt a rd sid (trim_space appr) v g (s_Username s) (trim_space dev) token (session_until (wall (wr_now rd)) expires) (d, fs) = (Inr (), (d', fs'))"
      "workspace_view (sv_db sv') = workspace_view d'" "platform_outbox (sv_db sv') = platform_outbox d'"
      "r = Inr (\<lparr>wx_ID = sid, wx_ApprovalID = trim_space appr, wx_VehicleID = v, wx_GatewayID = g, wx_OperatorID = s_Username s,
         wx_DeviceID = trim_space dev, wx_State = ''awaiting_vehicle'', wx_CreatedNS = wall (wr_now rd), wx_LastActive = wall (wr_now rd),
         wx_ExpiresNS = session_until (wall (wr_now rd)) expires, wx_ClosedNS = 0, wx_CloseReason = []\<rparr>, hex_encode token)"
proof (cases sess)
  case None
  with assms refused show thesis by (auto simp: open_workspace_def)
next
  case (Some s)
  let ?appr = "trim_space appr" and ?dev = "trim_space dev"
  obtain q sv1 where q: "sv_query (usable_approval (wr_dbnow rd) ?appr (s_Username s)) sv = (q, sv1)" by (metis prod.exhaust)
  note db1 = sv_query_db [OF q]
  show thesis
  proof (cases "?appr = [] \<or> ?dev = [] \<or> \<not> device_online (s_Username s) ?dev (sv_devices sv) \<or>
      (\<forall>v g e. q = Some (Some (v, g, e)) \<longrightarrow> g = [] \<or> \<not> canAccessVehicle fl (wr_now rd) (Some s) (fst (sv_world sv1)) v) \<or> wr_id rd = None \<or> wr_token rd = None")
    case True
    then have "(\<exists>code. r = Inl code) \<and> (sv' = sv \<or> sv' = sv1)"
      using assms q by (auto simp: open_workspace_def Some Let_def secureID_def split: option.splits prod.splits if_splits)
    then show thesis using refused db1 by auto
  next
    case False
    then obtain v g e h token where ok: "?appr \<noteq> []" "?dev \<noteq> []" "device_online (s_Username s) ?dev (sv_devices sv)" "q = Some (Some (v, g, e))"
      "g \<noteq> []" "canAccessVehicle fl (wr_now rd) (Some s) (fst (sv_world sv1)) v" "wr_id rd = Some h" "wr_token rd = Some token"
      by (auto split: prod.splits)
    obtain d fs where w: "sv_txs sv1 = (d, fs)" by (metis prod.exhaust)
    have d: "d = sv_db sv" using db1 w by (simp add: sv_db_def)
    let ?until = "session_until (wall (wr_now rd)) e"
    let ?body = "open_body w x mt a rd (''ws-'' @ h) ?appr v g (s_Username s) ?dev token ?until"
    show thesis
    proof (cases rule: run_tx_cases [of ?body d fs])
      case (failed err fs')
      then have "\<exists>code. r = Inl code" "sv_db sv' = d"
        using assms q ok w by (auto simp: open_workspace_def Some Let_def secureID_def sv_db_def sv_txs_def split: tx_error.splits session_error.splits)
      then show thesis using refused d by auto
    next
      case (committed u d' gs fs')
      have r: "r = Inr (\<lparr>wx_ID = ''ws-'' @ h, wx_ApprovalID = ?appr, wx_VehicleID = v, wx_GatewayID = g, wx_OperatorID = s_Username s,
         wx_DeviceID = ?dev, wx_State = ''awaiting_vehicle'', wx_CreatedNS = wall (wr_now rd), wx_LastActive = wall (wr_now rd),
         wx_ExpiresNS = ?until, wx_ClosedNS = 0, wx_CloseReason = []\<rparr>, hex_encode token)"
        and sv': "sv' = sv_event (wall (wr_now rd)) ''warn'' v (TxtMaintenanceGranted (''ws-'' @ h)) ''sys'' (sv1\<lparr>sv_world := (fst (sv_world sv1), (d', fs'))\<rparr>)"
        using assms q ok w committed(1) by (auto simp: open_workspace_def Some Let_def secureID_def)
      have db': "sv_db (sv1\<lparr>sv_world := (fst (sv_world sv1), (d', fs'))\<rparr>) = d'" by (simp add: sv_db_def sv_txs_def)
      have use: "usable_approval (wr_dbnow rd) ?appr (s_Username s) d = Some (v, g, e)" using db1 ok(4) d by simp
      show thesis
        by (rule opened [OF Some ok(3) use d ok(8) _ _ _ r]) (use committed(2) in \<open>simp_all add: sv' db'\<close>)
    qed
  qed
qed

lemma open_workspace_ok:
  assumes "timestamps x" and "sv_ok x sv"
  shows "sv_ok x (snd (open_workspace w x mt a fl rd sess appr dev sv))"
proof -
  obtain r sv' where o: "open_workspace w x mt a fl rd sess appr dev sv = (r, sv')" by (metis prod.exhaust)
  then have "sv_ok x sv'"
  proof (cases rule: open_workspace_cases)
    case (opened s v g expires sid token d fs fs' d')
    from session_row_ok [OF assms(1) _ opened(3) open_body_Inr [OF opened(6)]] show ?thesis
      using assms(2) opened(4,7) by simp
  qed (use assms(2) in simp)
  with o show ?thesis by simp
qed

lemma workspace_step_ok:
  assumes "timestamps x" and "sv_ok x sv"
  shows "sv_ok x (workspace_step w x mt a fl sv op)"
proof (cases op)
  case (WsFleet f)
  have "workspace_view (sv_db (workspace_step w x mt a fl sv op)) = workspace_view (sv_db sv)"
    by (simp add: WsFleet sv_db_def sv_txs_def)
  with assms(2) show ?thesis by simp
next
  case (WsDevices ds)
  have "sv_db (workspace_step w x mt a fl sv op) = sv_db sv" by (simp add: WsDevices sv_db_def sv_txs_def)
  with assms(2) show ?thesis by simp
qed (simp_all add: assms request_approval_ok approve_approval_ok open_workspace_ok close_session_ok)

interpretation workspace: invariant_machine "workspace_step w x mt a fl" "\<lambda>sv. timestamps x \<and> sv_ok x sv" for w x mt a fl
  by unfold_locales (simp add: workspace_step_ok)

text \<open>
  C34. Remote maintenance needs two people. From a database without approvals and sessions, after any
  sequence of requests, with any failures, any events of the fleet and devices coming and going in
  any way, each stored session belongs to an approval that is approved, was asked for by the operator
  of the session for its vehicle, was granted by somebody else, and does not end before the session.
\<close>

theorem maintenance_needs_two_people:
  assumes "timestamps x" and "workspace_approvals (sv_db sv) = []" and "workspace_sessions (sv_db sv) = []"
    and "s \<in> set (workspace_sessions (sv_db (run (workspace_step w x mt a fl) sv ops)))"
  shows "\<exists>p \<in> set (workspace_approvals (sv_db (run (workspace_step w x mt a fl) sv ops))).
    wa_id p = wk_approval s \<and> wa_state p = ''approved'' \<and> wa_requester p = wk_operator s \<and> wa_approver p \<noteq> wk_operator s \<and>
    wa_vehicle p = wk_vehicle s \<and> wk_expires_at s \<le> wa_expires_at p"
proof -
  from workspace.run_inv [of x sv w mt a fl ops] assms(1-3) have "sv_ok x (run (workspace_step w x mt a fl) sv ops)"
    by (simp add: workspace_ok_def workspace_view_def)
  with assms(4) show ?thesis by (fastforce simp: workspace_ok_def workspace_view_def granted_def)
qed

section \<open>The grant for the vehicle\<close>

lemma terminal_queued:
  assumes "publishTerminalGrantTx w x mt a rd sid v g driver dev token until (d, fs) = (Inr u, (d', fs'))" and "hmac_size w"
  obtains env b where "marshal_env w env = Some b" "VerifyEnvelopeAuth w (Some env) (da_envelopeAuthKey a)" "env_vehicle_id env = v"
    "env_gateway_id env = g" "env_session_id env = sid"
    "dedupe_key x ''workspace_session'' sid g ''workspace'' b \<in> ob_dedupe_key ` set (platform_outbox d')"
proof -
  from assms(1) obtain signer payload bs env b where
    s: "SignEnvelope w (Some (terminal_envelope (wr_publish rd) (wr_mono rd) (be_sequence bs) sid v g payload)) (da_envelopeAuthKey a) = Inr env"
    and b: "marshal_env w env = Some b"
    and q: "enqueueOutboxTx x (wr_dbnow rd) (wr_out rd) g ''workspace'' ''workspace_session'' sid b (d, fs) = (Inr u, (d', fs'))"
    by (auto simp: publishTerminalGrantTx_def Let_def split: option.splits if_splits sum.splits)
  from q have key: "dedupe_key x ''workspace_session'' sid g ''workspace'' b \<in> ob_dedupe_key ` set (platform_outbox d')"
    by (auto simp: enqueueOutboxTx_def split: if_splits dest: insertOutbox_key)
  from SignEnvelope_verifies [OF assms(2) s] have v: "VerifyEnvelopeAuth w (Some env) (da_envelopeAuthKey a)"
    and e: "env\<lparr>env_auth_tag := []\<rparr> = terminal_envelope (wr_publish rd) (wr_mono rd) (be_sequence bs) sid v g payload"
    by (simp_all add: terminal_envelope_def)
  have "env_vehicle_id env = v" "env_gateway_id env = g" "env_session_id env = sid"
    using arg_cong [OF e, of env_vehicle_id] arg_cong [OF e, of env_gateway_id] arg_cong [OF e, of env_session_id]
    by (simp_all add: terminal_envelope_def)
  with that b v key show thesis by blast
qed

text \<open>
  C35. A session and its grant for the vehicle come together or not at all. A refused request leaves the
  sessions and the outbox as they were. A session that is opened adds exactly one row, which holds the
  digest of the token and not the token, and its grant is in the outbox, in an envelope addressed to
  the vehicle and the Gateway of the session that verifies under the shared key.
\<close>

theorem session_and_grant_together:
  assumes "hmac_size w" and "open_workspace w x mt a fl rd sess appr dev sv = (r, sv')"
  shows "case r of
      Inl code \<Rightarrow> workspace_sessions (sv_db sv') = workspace_sessions (sv_db sv) \<and> platform_outbox (sv_db sv') = platform_outbox (sv_db sv)
    | Inr (s, secret) \<Rightarrow> \<exists>row token env b. workspace_sessions (sv_db sv') = workspace_sessions (sv_db sv) @ [row] \<and> secret = hex_encode token \<and>
        wk_token_hash row = tokenDigest x token \<and> wk_id row = wx_ID s \<and> wk_vehicle row = wx_VehicleID s \<and> wk_operator row = wx_OperatorID s \<and>
        wk_state row = ''awaiting_vehicle'' \<and> marshal_env w env = Some b \<and> VerifyEnvelopeAuth w (Some env) (da_envelopeAuthKey a) \<and>
        env_vehicle_id env = wx_VehicleID s \<and> env_gateway_id env = wx_GatewayID s \<and> env_session_id env = wx_ID s \<and>
        dedupe_key x ''workspace_session'' (wx_ID s) (wx_GatewayID s) ''workspace'' b \<in> ob_dedupe_key ` set (platform_outbox (sv_db sv'))"
  using assms(2)
proof (cases rule: open_workspace_cases)
  case (refused code)
  then show ?thesis by (simp add: workspace_view_def)
next
  case (opened s v g expires sid token d fs fs' d')
  let ?until = "session_until (wall (wr_now rd)) expires"
  let ?row = "new_workspace_row x (wr_dbnow rd) sid (trim_space appr) v g (s_Username s) (trim_space dev) token ?until"
  have rows: "workspace_sessions (sv_db sv') = workspace_sessions (sv_db sv) @ [?row]"
    using open_body_Inr [OF opened(6)] opened(4,7) by (simp add: workspace_view_def)
  from opened(6) obtain d1 gs where "any_err SessionNotQueued
      (publishTerminalGrantTx w x mt a rd sid v g (s_Username s) (trim_space dev) token ?until) (d1, gs) = (Inr (), (d', fs'))"
    by (auto simp: open_body_def)
  from terminal_queued [OF this [unfolded any_err_Inr] assms(1)] obtain env b where
    e: "marshal_env w env = Some b" "VerifyEnvelopeAuth w (Some env) (da_envelopeAuthKey a)" "env_vehicle_id env = v" "env_gateway_id env = g" "env_session_id env = sid"
      "dedupe_key x ''workspace_session'' sid g ''workspace'' b \<in> ob_dedupe_key ` set (platform_outbox (sv_db sv'))"
    unfolding opened(8) by blast
  show ?thesis unfolding opened(9) sum.case prod.case workspaceSession.select_convs
    by (intro exI [of _ ?row] exI [of _ token] exI [of _ env] exI [of _ b]) (use rows e in \<open>simp add: new_workspace_row_def\<close>)
qed

section \<open>Witnesses\<close>

text \<open>Eve asks for the maintenance of a vehicle, Rob approves it, and Eve opens the session.\<close>

definition demo_device :: Device where
  "demo_device = \<lparr>de_ID = ''d1'', de_Type = ''keyboard'', de_Name = ''k1'', de_Link = [], de_SN = [], de_Salt = [], de_PassHash = [],
     de_Owner = ''eve'', de_Online = True, de_CreatedNS = 5\<rparr>"

definition demo_ws_readings :: "int \<Rightarrow> string \<Rightarrow> workspace_readings" where
  "demo_ws_readings t r = \<lparr>wr_now = time_unix t, wr_dbnow = t, wr_id = Some r, wr_token = Some (replicate 32 7), wr_publish = t, wr_mono = 1,
     wr_seq = Some [1, 2], wr_out = Some r\<rparr>"

definition demo_workshop :: services where
  "demo_workshop = \<lparr>sv_devices = \<lparr>ds_devices = [], ds_seq = 0\<rparr>, sv_tkreg = NewTakeoverReg,
     sv_world = (NewState [] None, (empty_db\<lparr>vehicles := [\<lparr>v_id = ''v1'', v_gateway_id = ''g1'', v_stack = [], v_lifecycle = ''active'',
        v_last_seen = None, v_group = [], v_chassis = []\<rparr>]\<rparr>, [])), sv_takeover = no_takeover\<rparr>"

definition demo_terminal :: "TerminalGrant \<Rightarrow> bytes option" where "demo_terminal g = Some [1]"

definition demo_ws_approved :: "workspace_op list" where
  "demo_ws_approved =
    [WsDevices \<lparr>ds_devices = [(''d1'', demo_device)], ds_seq = 1\<rparr>,
     WsRequest (demo_ws_readings 5000 ''a'') (Some demo_operator) ''v1'' ''terminal'' ''fault'',
     WsApprove (demo_ws_readings 6000 ''b'') (Some (demo_operator\<lparr>s_Username := ''rob''\<rparr>)) ''wa-a'']"

abbreviation demo_ws_run :: "workspace_op list \<Rightarrow> services" where
  "demo_ws_run ops \<equiv> run (workspace_step plain_wire demo_ext demo_terminal demo_authority Fin) demo_workshop ops"

lemma demo_ext_timestamps: "timestamps demo_ext"
  by (auto simp: timestamps_def demo_ext_def intro!: mult_right_mono zdiv_mono1)

theorem maintenance_needs_two_people_witness:
  "\<exists>s p. workspace_sessions (sv_db (demo_ws_run (demo_ws_approved @ [WsOpen (demo_ws_readings 7000 ''c'') (Some demo_operator) ''wa-a'' ''d1'']))) = [s] \<and>
     p \<in> set (workspace_approvals (sv_db (demo_ws_run (demo_ws_approved @ [WsOpen (demo_ws_readings 7000 ''c'') (Some demo_operator) ''wa-a'' ''d1''])))) \<and>
     wa_id p = wk_approval s \<and> wa_approver p \<noteq> wk_operator s"
proof -
  let ?sv = "demo_ws_run (demo_ws_approved @ [WsOpen (demo_ws_readings 7000 ''c'') (Some demo_operator) ''wa-a'' ''d1''])"
  have e: "workspace_approvals (sv_db demo_workshop) = []" "workspace_sessions (sv_db demo_workshop) = []"
    by (simp_all add: demo_workshop_def sv_db_def sv_txs_def empty_db_def)
  have "length (workspace_sessions (sv_db ?sv)) = 1" by code_simp
  then obtain s where s: "workspace_sessions (sv_db ?sv) = [s]" by (auto simp: length_Suc_conv)
  then have "s \<in> set (workspace_sessions (sv_db ?sv))" by simp
  from maintenance_needs_two_people [OF demo_ext_timestamps e this] s show ?thesis by blast
qed

theorem session_and_grant_together_witness:
  "\<exists>s secret. fst (open_workspace plain_wire demo_ext demo_terminal demo_authority Fin (demo_ws_readings 7000 ''c'') (Some demo_operator) ''wa-a'' ''d1''
       (demo_ws_run demo_ws_approved)) = Inr (s, secret) \<and>
     (\<exists>env b. marshal_env plain_wire env = Some b \<and> VerifyEnvelopeAuth plain_wire (Some env) (da_envelopeAuthKey demo_authority) \<and>
        env_vehicle_id env = wx_VehicleID s)"
proof -
  let ?o = "open_workspace plain_wire demo_ext demo_terminal demo_authority Fin (demo_ws_readings 7000 ''c'') (Some demo_operator) ''wa-a'' ''d1''
    (demo_ws_run demo_ws_approved)"
  have h: "hmac_size plain_wire" by (simp add: hmac_size_def plain_wire_def)
  have "case fst ?o of Inl _ \<Rightarrow> False | Inr _ \<Rightarrow> True" by code_simp
  then obtain s secret where o: "fst ?o = Inr (s, secret)" by (auto split: sum.splits)
  from session_and_grant_together [OF h prod.collapse [symmetric, of ?o]]
  have "\<exists>env b. marshal_env plain_wire env = Some b \<and> VerifyEnvelopeAuth plain_wire (Some env) (da_envelopeAuthKey demo_authority) \<and>
      env_vehicle_id env = wx_VehicleID s"
    unfolding prod.collapse o sum.case prod.case by blast
  with o show ?thesis by blast
qed

end
