(* ===== verification/Spec2Isabelle.thy ===== *)
theory Spec2Isabelle
  imports Arbiter_Main Authority_Props Map_Store_Props Map_Publication_Props Session_Props Open_Limits Open_Routes_Props Open_Keys_Props Open_Audit_Props
    Mqtt_Props Workspace_Props
begin

text \<open>
  Verification of the Go part of the remote driving platform: the fleet server (\<open>server/fleet\<close>), the
  Safety Arbiter on the vehicle (\<open>vehicle/safety-arbiter\<close>) and the protocol both speak
  (\<open>protocols/platform/v1\<close>).

  \<^bold>\<open>The program.\<close> A Gateway on each vehicle speaks with the fleet server over MQTT, in envelopes with
  an HMAC tag. The server checks who may speak for a vehicle, projects telemetry into the state of the
  fleet, and decides who controls which vehicle. Whatever it sends to a vehicle (lease grants, routes,
  map publications, maintenance grants) is signed and stored in an outbox in the transaction that stores
  the decision, and delivered from there. On the vehicle the Safety Arbiter stands between commands and
  the actuator: it obeys only the holder of the newest grant, and brakes when commands stay away.
  Operators use the server through sessions, other systems through signed requests of the open interface.

  \<^bold>\<open>Theories.\<close>

  \<^item> Shared ground. \<open>Go_Prelude\<close>: Go's integers, floats, times and texts, the collections of
    simplification rules. \<open>Go_Runes\<close>, \<open>Go_Paths\<close>, \<open>Go_Net\<close>: what the server uses of UTF-8 runes, file
    paths, addresses and networks. \<open>Systems\<close>: locales of state machines with invariants, growing epochs
    and claims. \<open>Messages\<close>: the generated structures of \<open>protocols/platform/v1\<close> as records. \<open>Fleet_Db\<close>:
    the tables of \<open>server/migrations\<close> with their constraints, and transactions. \<open>Tx_Relation\<close>: transactions
    that stay within a relation of databases.

  \<^item> \<open>Envelope_Auth\<close> (\<open>auth.go\<close>) and \<open>Capability\<close> (\<open>capability_validation.go\<close>): validation and tags of
    envelopes, admission of a Gateway by its declared capabilities, validation of telemetry.

  \<^item> \<open>Arbiter\<close> (\<open>arbiter.go\<close>, \<open>proto_kernel.go\<close>), \<open>Arbiter_Safety\<close>, \<open>Arbiter_Props\<close>: the kernel as a step
    function over grants, commands and ticks, and what stands before each call of the actuator.
    \<open>Arbiter_Main\<close> (\<open>main.go\<close>): local frames, the Unix actuator, start-up, the frame loop as a refinement
    of runs of the kernel.

  \<^item> \<open>Outbox\<close> (\<open>outbox.go\<close>), \<open>Registry\<close> (\<open>vehicle_registry.go\<close>, \<open>capabilities.go\<close>): delivery of stored
    commands, enrollment and revocation of Gateways, the cursor of sequence numbers.

  \<^item> \<open>Authority\<close>, \<open>Authority_Safety\<close>, \<open>Authority_Props\<close> (\<open>durable_authority.go\<close>): leases, fencing tokens,
    renewal, release and emergency stop.

  \<^item> \<open>Fleet_State\<close>, \<open>Fleet_State_Props\<close>, \<open>Fleet_Frame\<close> (\<open>state.go\<close>, \<open>state_ext.go\<close>): vehicles in memory,
    telemetry, events, the queue of writes, and which tables these leave alone.

  \<^item> \<open>Mqtt_Ingress\<close>, \<open>Ingress_Frame\<close>, \<open>Mqtt_Props\<close> (\<open>mqtt.go\<close>): one message from its topic to the handler,
    which joins the registry, the fleet state, routes and map publications.

  \<^item> \<open>Navigation\<close>, \<open>Navigation_Props\<close> (\<open>nav.go\<close>, \<open>nav_ack.go\<close>); \<open>Map_Store\<close>, \<open>Map_Store_Props\<close>
    (\<open>maps.go\<close>); \<open>Map_Publication\<close>, \<open>Map_Publication_Props\<close> (\<open>map_publication.go\<close>): routes, map versions
    in memory, database and files, and their publication to vehicles.

  \<^item> \<open>Passwords\<close>, \<open>Org_Groups\<close>, \<open>Audit_Trail\<close>, \<open>Auth\<close>, \<open>Accounts\<close>, \<open>Account_Props\<close>, \<open>Session_Props\<close>
    (\<open>auth.go\<close>, \<open>groups.go\<close>, \<open>admin.go\<close>): credentials, sessions, the middleware, administration.

  \<^item> \<open>Devices\<close>, \<open>Device_Props\<close> (\<open>devices.go\<close>); \<open>Takeover\<close>, \<open>Takeover_Props\<close> (\<open>takeover_reg.go\<close>, the
    routes of \<open>http.go\<close>); \<open>Workspace\<close>, \<open>Workspace_Props\<close> (\<open>workspace.go\<close>): control devices, taking over
    a vehicle, remote maintenance.

  \<^item> \<open>Config\<close>, \<open>Config_Props\<close> (\<open>config.go\<close>); \<open>Open_Api\<close>, \<open>Open_Routes\<close>, \<open>Open_Audit\<close> (\<open>openapi.go\<close>) with
    \<open>Open_Props\<close>, \<open>Open_Replay\<close>, \<open>Open_Limits\<close>, \<open>Open_Keys_Props\<close>, \<open>Open_Routes_Props\<close>,
    \<open>Open_Audit_Props\<close>: configuration, keys, authentication of signed requests, their routes and the
    audit trail.

  \<^bold>\<open>How the code is modelled.\<close> A struct is a record with a prefix for its fields, an error is a
  constructor of a sum, a method is a function from its arguments and the state to its result and the
  new state. Clocks, random values and the protobuf and cryptographic libraries are arguments; each time
  the code reads a clock anew, the model takes a reading of its own. Maps whose iteration order Go leaves
  open are association lists, and a claim does not rest on their order unless it says so. The server is
  modelled with PostgreSQL configured, as in production. A statement of the database may fail at any
  time: the list of faults beside the database says which of the next statements fail, and a transaction
  that fails leaves the database of its start. Claims about every sequence of operations quantify over
  these lists, over the readings and over the operations.

  \<^bold>\<open>What is shown.\<close> For the arbiter: motion only for a verified, fresh command of the lease holder within
  the limits, no replay, a latch after a lost lease, braking by the watchdog. For the authority: one
  active lease per vehicle and per driver, fencing tokens that are never reused, admission, atomic
  failures. For messages from vehicles: authenticity, order, evidence of refusals, at most one activation
  per enrollment, no traffic after a revocation. For the outbox: exclusive claims. For routes, maps and
  publications: status never moves back, versions never change and survive a restart, one active
  publication. For the fleet state: bounded memory, and telemetry equal to the latest value of each
  signal. For accounts and sessions: no escalation, a bounded number of super administrators, logout is
  final, the gate of the middleware. For the open interface: sound authentication, no replay, rate,
  answers within the permissions of the key, revocation is final. For maintenance and takeover: two
  people, session and grant together, the registry shows the leases. Some claims state what the code does
  and should not: a late declaration of capabilities takes effect, and no device ever comes online, so
  nobody can take over. Further theorems of this kind stand in the theories of their components.

  \<^bold>\<open>Loops.\<close> Every function is total. The frame loop, runes and path cleaning recur on a measure of the
  input that remains. The key derivation takes as fuel the number of bytes still wanted, of which each
  round produces at least one when the hash is not empty; the parser of IPv6 groups takes the number of
  groups still free. Draining the outbox and executing the queue recur over the rows and writes there.

  \<^bold>\<open>Not modelled.\<close> HTTP plumbing: the table of routes, JSON bodies, CORS, security headers, static files
  (\<open>http.go\<close>, \<open>routes.go\<close> apart from handlers with logic of their own). Process start, flags, TLS files,
  the MQTT client and the database driver (\<open>main.go\<close>, \<open>db.go\<close>, \<open>gateway_bootstrap.go\<close>, the start of
  \<open>mqtt.go\<close>): input and output without decisions of their own. Reading events, metrics and websockets
  (\<open>events.go\<close>, \<open>metrics.go\<close>, \<open>ws.go\<close>). Rasterising point clouds and images (\<open>mappcd.go\<close>, parts of
  \<open>maps.go\<close>) and drawing captchas: floating-point image processing on which no decision rests. The
  reflection code of the generated protocol files. The Python, TypeScript and Rust programs of the
  repository. Interleaving inside one locked section does not happen in the code; where a method releases
  its lock between phases (cancelling a route), the phases are separate steps.
\<close>

end
